(* ===== verification/Prelude.thy ===== *)
theory Prelude
  imports Complex_Main "HOL-Library.Monad_Syntax"
begin

text \<open>
  What every component of the development shares: the result type of operations that can
  raise, Python's iteration idioms as list functions, and the library of rows that the
  repository classes are written over.  Nothing here is specific to one source file.

  An operation that can raise has the result type \<open>'e + 'a\<close>: \<open>Inl e\<close> is the exception
  \<open>e\<close> leaving the operation, \<open>Inr x\<close> is a normal return.
\<close>

named_theorems py_simps \<open>unfolding rules of the Python-level helpers\<close>
named_theorems row_simps \<open>rules about tables of rows\<close>

subsection \<open>Results\<close>

definition rbind :: "'e + 'a \<Rightarrow> ('a \<Rightarrow> 'e + 'b) \<Rightarrow> 'e + 'b" where
  "rbind r f = (case r of Inl e \<Rightarrow> Inl e | Inr x \<Rightarrow> f x)"

lemma rbind_Inl [simp]: "rbind (Inl e) f = Inl e"
  by (simp add: rbind_def)

lemma rbind_Inr [simp]: "rbind (Inr x) f = f x"
  by (simp add: rbind_def)

lemma rbind_eq_Inr: "rbind r f = Inr y \<longleftrightarrow> (\<exists>x. r = Inr x \<and> f x = Inr y)"
  by (cases r) auto

lemma rbind_eq_Inl: "rbind r f = Inl e \<longleftrightarrow> r = Inl e \<or> (\<exists>x. r = Inr x \<and> f x = Inl e)"
  by (cases r) auto

lemma rbind_InrE:
  assumes "rbind r f = Inr y"
  obtains x where "r = Inr x" and "f x = Inr y"
  using assms by (auto simp: rbind_eq_Inr)

text \<open>The built-in exceptions the modelled code raises or lets escape.\<close>

datatype py_error =
    InvalidOperation | DivisionByZero | ValueError | OverflowError | TypeError | KeyError
  | LookupError | RuntimeError | NotImplementedError | AssertionError

definition map_error :: "('e \<Rightarrow> 'f) \<Rightarrow> 'e + 'a \<Rightarrow> 'f + 'a" where
  "map_error h r = (case r of Inl e \<Rightarrow> Inl (h e) | Inr x \<Rightarrow> Inr x)"

lemma map_error_Inl [simp]: "map_error h (Inl e) = Inl (h e)"
  by (simp add: map_error_def)

lemma map_error_Inr [simp]: "map_error h (Inr x) = Inr x"
  by (simp add: map_error_def)

lemma map_error_eq_Inr [simp]: "map_error h r = Inr x \<longleftrightarrow> r = Inr x"
  by (cases r) auto

text \<open>A loop that appends one result per element and stops at the first exception.\<close>

fun rmap :: "('a \<Rightarrow> 'e + 'b) \<Rightarrow> 'a list \<Rightarrow> 'e + 'b list" where
  "rmap f [] = Inr []"
| "rmap f (x # xs) = rbind (f x) (\<lambda>y. rbind (rmap f xs) (\<lambda>ys. Inr (y # ys)))"

lemma rmap_Inr_length: "rmap f xs = Inr ys \<Longrightarrow> length ys = length xs"
  by (induction xs arbitrary: ys) (auto elim!: rbind_InrE)

lemma rmap_Inr_nth:
  "rmap f xs = Inr ys \<Longrightarrow> i < length xs \<Longrightarrow> f (xs ! i) = Inr (ys ! i)"
proof (induction xs arbitrary: ys i)
  case Nil
  then show ?case by simp
next
  case (Cons x xs)
  then show ?case by (cases i) (auto elim!: rbind_InrE)
qed

lemma rmap_Inr_set: "rmap f xs = Inr ys \<Longrightarrow> y \<in> set ys \<Longrightarrow> \<exists>x \<in> set xs. f x = Inr y"
  by (induction xs arbitrary: ys) (auto elim!: rbind_InrE)

lemma rmap_all_Inr: "(\<And>x. x \<in> set xs \<Longrightarrow> \<exists>y. f x = Inr y) \<Longrightarrow> \<exists>ys. rmap f xs = Inr ys"
  by (induction xs) (simp, fastforce)

lemma rmap_Inl_iff:
  "(\<exists>e. rmap f xs = Inl e) \<longleftrightarrow> (\<exists>x \<in> set xs. \<exists>e. f x = Inl e)"
proof (induction xs)
  case Nil
  then show ?case by simp
next
  case (Cons x xs)
  then show ?case
    by (cases "f x"; cases "rmap f xs") auto
qed

lemma rmap_cong_Inr: "(\<And>x. x \<in> set xs \<Longrightarrow> f x = Inr (g x)) \<Longrightarrow> rmap f xs = Inr (map g xs)"
  by (induction xs) auto

subsection \<open>Strings\<close>

text \<open>
  Python's \<open>str.upper\<close>, \<open>str.lower\<close> and \<open>str.strip\<close> on the strings this program
  compares: codes of ASCII letters and digits.
\<close>

definition char_upper :: "char \<Rightarrow> char" where
  "char_upper c = (if 97 \<le> (of_char c :: nat) \<and> (of_char c :: nat) \<le> 122
                   then char_of ((of_char c :: nat) - 32) else c)"

definition char_lower :: "char \<Rightarrow> char" where
  "char_lower c = (if 65 \<le> (of_char c :: nat) \<and> (of_char c :: nat) \<le> 90
                   then char_of ((of_char c :: nat) + 32) else c)"

definition is_space :: "char \<Rightarrow> bool" where
  "is_space c = (let n = (of_char c :: nat) in n = 32 \<or> (9 \<le> n \<and> n \<le> 13) \<or> (28 \<le> n \<and> n \<le> 31))"

definition str_upper :: "string \<Rightarrow> string" where
  "str_upper s = map char_upper s"

definition str_lower :: "string \<Rightarrow> string" where
  "str_lower s = map char_lower s"

definition str_strip :: "string \<Rightarrow> string" where
  "str_strip s = rev (dropWhile is_space (rev (dropWhile is_space s)))"

lemma char_upper_idem [simp]: "char_upper (char_upper c) = char_upper c"
proof (cases "97 \<le> (of_char c :: nat) \<and> (of_char c :: nat) \<le> 122")
  case True
  then show ?thesis by (auto simp: char_upper_def take_bit_eq_mod)
next
  case False
  then show ?thesis by (auto simp: char_upper_def)
qed

lemma str_upper_idem [simp]: "str_upper (str_upper s) = str_upper s"
  by (simp add: str_upper_def)

lemma char_upper_space [simp]: "is_space (char_upper c) = is_space c"
proof (cases "97 \<le> (of_char c :: nat) \<and> (of_char c :: nat) \<le> 122")
  case True
  then have "(of_char c :: nat) - 32 < 256" by linarith
  with True have "(of_char (char_upper c) :: nat) = of_char c - 32"
    by (simp add: char_upper_def take_bit_eq_mod)
  with True show ?thesis by (auto simp: is_space_def Let_def)
next
  case False
  then show ?thesis by (auto simp: char_upper_def)
qed

lemma str_strip_upper: "str_strip (str_upper s) = str_upper (str_strip s)"
  by (simp add: str_strip_def str_upper_def dropWhile_map rev_map comp_def)

lemma str_strip_idem [simp]: "str_strip (str_strip s) = str_strip s"
proof -
  define a where "a = dropWhile is_space s"
  define b where "b = rev (dropWhile is_space (rev a))"
  have b: "str_strip s = b" by (simp add: str_strip_def a_def b_def)
  have "dropWhile is_space b = b"
  proof (cases b)
    case (Cons c cs)
    obtain zs where zs: "rev a = zs @ dropWhile is_space (rev a)"
      by (metis takeWhile_dropWhile_id)
    then have "a = b @ rev zs" by (metis b_def rev_append rev_rev_ident)
    with Cons have "hd a = c" "a \<noteq> []" by auto
    then have "\<not> is_space c" using hd_dropWhile[of is_space s] by (auto simp: a_def)
    with Cons show ?thesis by simp
  qed simp
  moreover have "dropWhile is_space (rev b) = rev b" by (simp add: b_def dropWhile_idem)
  ultimately show ?thesis unfolding b by (simp add: str_strip_def)
qed

lemma option_ext: "(\<And>r. a = Some r \<longleftrightarrow> b = Some r) \<Longrightarrow> a = b"
  by (cases a; cases b) auto

subsection \<open>Lists read the way Python loops read them\<close>

lemma length_filter_not: "length (filter P xs) + length (filter (\<lambda>x. \<not> P x) xs) = length xs"
  by (induction xs) auto

lemma list_all2_right: "list_all2 P xs ys \<Longrightarrow> y \<in> set ys \<Longrightarrow> \<exists>x \<in> set xs. P x y"
  by (induction rule: list_all2_induct) auto

lemma list_all2_left: "list_all2 P xs ys \<Longrightarrow> x \<in> set xs \<Longrightarrow> \<exists>y \<in> set ys. P x y"
  by (induction rule: list_all2_induct) auto

lemma foldl_invariant:
  assumes "I a" and "\<And>b x. I b \<Longrightarrow> x \<in> set xs \<Longrightarrow> I (f b x)"
  shows "I (foldl f a xs)"
  using assms by (induction xs arbitrary: a) auto

lemma map_of_value_inj:
  "distinct (map snd al) \<Longrightarrow> map_of al c = Some a \<Longrightarrow> map_of al d = Some a \<Longrightarrow> c = d"
  by (metis distinct_map inj_onD map_of_SomeD prod.inject snd_conv)

subsection \<open>Distances\<close>

lemma near_pos: "2 * \<bar>y - x\<bar> \<le> \<bar>x\<bar> \<Longrightarrow> 0 < x \<Longrightarrow> 0 < (y :: 'a :: linordered_idom)"
  by (auto simp: abs_if algebra_simps split: if_splits)

lemma near_zero_iff:
  "2 * \<bar>y - x\<bar> \<le> \<bar>x\<bar> \<Longrightarrow> y = 0 \<longleftrightarrow> x = (0 :: 'a :: linordered_idom)"
  by (auto simp: abs_if algebra_simps split: if_splits)

lemma abs_le_near: "\<bar>y\<bar> \<le> \<bar>x\<bar> + \<bar>y - (x :: 'a :: linordered_idom)\<bar>"
  using abs_triangle_ineq[of x "y - x"] by simp

subsection \<open>Tables\<close>

text \<open>
  A table is the list of its rows.  An \<^verbatim>\<open>UPDATE \<dots> WHERE\<close> maps the rows it selects; a
  flush of a changed object is the update of the row with its id; an \<^verbatim>\<open>INSERT\<close> appends.
\<close>

definition update_where :: "('r \<Rightarrow> bool) \<Rightarrow> ('r \<Rightarrow> 'r) \<Rightarrow> 'r list \<Rightarrow> 'r list" where
  "update_where P f rows = map (\<lambda>r. if P r then f r else r) rows"

text \<open>\<open>scalar_one_or_none\<close>: \<open>None\<close> for no row, the row for one, an exception for more.\<close>

datatype 'r scalar = NoRow | OneRow 'r | ManyRows

fun scalar_one_or_none :: "'r list \<Rightarrow> 'r scalar" where
  "scalar_one_or_none [] = NoRow"
| "scalar_one_or_none [r] = OneRow r"
| "scalar_one_or_none (r # s # rs) = ManyRows"

lemma scalar_OneRow_iff: "scalar_one_or_none rs = OneRow r \<longleftrightarrow> rs = [r]"
  by (cases rs rule: scalar_one_or_none.cases) auto

lemma scalar_NoRow_iff: "scalar_one_or_none rs = NoRow \<longleftrightarrow> rs = []"
  by (cases rs rule: scalar_one_or_none.cases) auto

lemma scalar_ManyRows_iff: "scalar_one_or_none rs = ManyRows \<longleftrightarrow> 2 \<le> length rs"
  by (cases rs rule: scalar_one_or_none.cases) auto

lemma length_update_where [simp, row_simps]: "length (update_where P f rows) = length rows"
  by (simp add: update_where_def)

lemma set_update_where [row_simps]:
  "set (update_where P f rows) = f ` {r \<in> set rows. P r} \<union> {r \<in> set rows. \<not> P r}"
  by (auto simp: update_where_def)

lemma map_update_where [row_simps]:
  "(\<And>r. P r \<Longrightarrow> g (f r) = g r) \<Longrightarrow> map g (update_where P f rows) = map g rows"
  by (simp add: update_where_def)

lemma update_where_none: "(\<And>r. r \<in> set rows \<Longrightarrow> \<not> P r) \<Longrightarrow> update_where P f rows = rows"
  by (induction rows) (auto simp: update_where_def)

lemma update_where_Cons [simp]:
  "update_where P f (r # rs) = (if P r then f r else r) # update_where P f rs"
  by (simp add: update_where_def)

lemma update_where_Nil [simp]: "update_where P f [] = []"
  by (simp add: update_where_def)

lemma filter_by_key_distinct:
  "distinct (map k rows) \<Longrightarrow> r \<in> set rows \<Longrightarrow> filter (\<lambda>x. k x = k r) rows = [r]"
proof (induction rows)
  case Nil
  then show ?case by simp
next
  case (Cons a rows)
  show ?case
  proof (cases "a = r")
    case True
    with Cons.prems(1) have "filter (\<lambda>x. k x = k r) rows = []"
      by (simp add: filter_empty_conv) (metis image_eqI)
    with True show ?thesis by simp
  next
    case False
    with Cons.prems have "r \<in> set rows" by simp
    with Cons.prems(1) have "k a \<noteq> k r" by (metis distinct.simps(2) image_eqI list.simps(9) set_map)
    with Cons False show ?thesis by auto
  qed
qed

end
