(* ===== verification/PyDecimal.thy ===== *)
theory PyDecimal
  imports Prelude
begin

text \<open>
  Python's \<open>decimal.Decimal\<close> under the default context, as the program uses it: finite
  numbers, 28 significant digits, results of \<open>+ - * /\<close> and \<open>abs\<close> rounded half-even.
  \<open>Dec c e\<close> is \<open>c * 10 ^ e\<close>.  The algorithms are those of the language's own
  implementation (\<open>_pydecimal\<close>): the exponent of a sum is the smaller of the two, a
  quotient is computed with two guard digits and a sticky digit, \<open>quantize\<close> raises
  \<open>InvalidOperation\<close> when the result has more than 28 digits.  Not modelled: NaN,
  infinities, the sign of zero, and exponents beyond a million.
\<close>

datatype decimal = Dec (coeff: int) (expo: int)

datatype rounding = ROUND_HALF_UP | ROUND_HALF_EVEN

definition prec :: nat where "prec = 28"

text \<open>The number the pair stands for.\<close>

definition dval :: "decimal \<Rightarrow> rat" where
  "dval d = of_int (coeff d) * 10 powi (expo d)"

subsection \<open>Decimal digits\<close>

function ndigits :: "int \<Rightarrow> nat" where
  "ndigits n = (if n < 10 then 1 else Suc (ndigits (n div 10)))"
  by pat_completeness auto
termination
  by (relation "measure nat") auto

declare ndigits.simps [simp del]

lemma ndigits_pos: "1 \<le> ndigits n"
  by (subst ndigits.simps) simp

lemma div10_less: "n div 10 < x \<longleftrightarrow> n < 10 * (x::int)"
  by linarith

lemma ndigits_le_iff:
  "1 \<le> k \<Longrightarrow> ndigits n \<le> k \<longleftrightarrow> n < 10 ^ k"
proof (induction n arbitrary: k rule: ndigits.induct)
  case (1 n)
  show ?case
  proof (cases "n < 10")
    case True
    have "(10::int) ^ 1 \<le> 10 ^ k" using "1.prems" by (intro power_increasing) auto
    with True "1.prems" show ?thesis by (simp add: ndigits.simps[of n])
  next
    case False
    show ?thesis
    proof (cases "k = 1")
      case True
      with False ndigits_pos[of "n div 10"] show ?thesis
        by (simp add: ndigits.simps[of n] Suc_le_eq)
    next
      case k: False
      then obtain j where j: "k = Suc j" "1 \<le> j" using "1.prems" by (cases k) auto
      have "n div 10 < 10 ^ j \<longleftrightarrow> n < 10 ^ Suc j"
        using div10_less[of n "10 ^ j"] by simp
      with "1.IH"[OF False j(2)] False j(1) show ?thesis
        by (simp add: ndigits.simps[of n])
    qed
  qed
qed

lemma ndigits_bound: "n < 10 ^ ndigits n"
  using ndigits_le_iff[of "ndigits n" n] ndigits_pos[of n] by simp

lemma ndigits_lower:
  assumes "ndigits n = Suc (Suc k)" shows "10 ^ Suc k \<le> n"
  using ndigits_le_iff[of "Suc k" n] assms by simp

subsection \<open>Rounding a quotient of integers\<close>

definition round_div :: "rounding \<Rightarrow> int \<Rightarrow> int \<Rightarrow> int" where
  "round_div m c d =
     (let q = \<bar>c\<bar> div d; r = \<bar>c\<bar> mod d;
          up = (case m of ROUND_HALF_UP \<Rightarrow> d \<le> 2 * r
                        | ROUND_HALF_EVEN \<Rightarrow> d < 2 * r \<or> (2 * r = d \<and> odd q))
      in sgn c * (if up then q + 1 else q))"

lemma round_div_one [simp]: "round_div m c 1 = c"
  by (cases m) (simp_all add: round_div_def Let_def sgn_mult_abs)

lemma round_div_0 [simp]: "0 < d \<Longrightarrow> round_div m 0 d = 0"
  by (simp add: round_div_def)

lemma round_div_exact [simp]: "0 < d \<Longrightarrow> round_div m (c * d) d = c"
  by (cases m) (simp_all add: round_div_def Let_def abs_mult sgn_mult mult_sgn_abs)

lemma round_div_minus: "round_div m (- c) d = - round_div m c d"
  by (simp add: round_div_def Let_def)

lemma round_div_nonneg_error:
  assumes "0 < d" and "0 \<le> c"
  shows "\<bar>2 * (round_div m c d * d - c)\<bar> \<le> d"
proof -
  define q r where "q = c div d" and "r = c mod d"
  have c: "c = q * d + r" and r: "0 \<le> r" "r < d"
    using assms by (simp_all add: q_def r_def)
  have "c = 0 \<Longrightarrow> q = 0 \<and> r = 0"
    by (simp add: q_def r_def)
  then have "round_div m c d = q \<and> 2 * r \<le> d \<or> round_div m c d = q + 1 \<and> d \<le> 2 * r"
    using assms unfolding round_div_def Let_def
    by (cases "c = 0"; cases m) (simp_all flip: q_def r_def)
  moreover have "2 * (q * d - c) = - 2 * r" "2 * ((q + 1) * d - c) = 2 * d - 2 * r"
    by (simp_all add: c algebra_simps)
  ultimately show ?thesis
    using r by (auto simp: abs_le_iff)
qed

lemma round_div_error2:
  assumes "0 < d"
  shows "\<bar>2 * (round_div m c d * d - c)\<bar> \<le> d"
proof (cases "0 \<le> c")
  case True
  with assms show ?thesis by (rule round_div_nonneg_error)
next
  case False
  then have "\<bar>2 * (round_div m (- c) d * d - (- c))\<bar> \<le> d"
    by (intro round_div_nonneg_error assms) simp
  then show ?thesis by (simp add: round_div_minus abs_if algebra_simps split: if_splits)
qed

lemma round_div_error:
  assumes "0 < d"
  shows "2 * \<bar>round_div m c d * d - c\<bar> \<le> d"
  using round_div_error2[OF assms, of m c] by (simp only: abs_mult abs_numeral)

lemma round_div_nonneg: "0 < d \<Longrightarrow> 0 \<le> c \<Longrightarrow> 0 \<le> round_div m c d"
  by (cases m; cases "c = 0") (auto simp: round_div_def Let_def sgn_if pos_imp_zdiv_nonneg_iff)

subsection \<open>Context rounding and the operators\<close>

definition fits :: "decimal \<Rightarrow> bool" where
  "fits d \<longleftrightarrow> \<bar>coeff d\<bar> < 10 ^ prec"

definition dec_fix :: "decimal \<Rightarrow> decimal" where
  "dec_fix d =
     (let nd = ndigits \<bar>coeff d\<bar>
      in if nd \<le> prec then d
         else let k = nd - prec; c = round_div ROUND_HALF_EVEN (coeff d) (10 ^ k)
              in if ndigits \<bar>c\<bar> \<le> prec then Dec c (expo d + int k)
                 else Dec (c div 10) (expo d + int k + 1))"

definition scale_to :: "decimal \<Rightarrow> int \<Rightarrow> int" where
  "scale_to d e = coeff d * 10 ^ nat (expo d - e)"

definition dec_add :: "decimal \<Rightarrow> decimal \<Rightarrow> decimal" where
  "dec_add a b = (let e = min (expo a) (expo b) in dec_fix (Dec (scale_to a e + scale_to b e) e))"

definition dec_neg :: "decimal \<Rightarrow> decimal" where
  "dec_neg a = Dec (- coeff a) (expo a)"

definition dec_sub :: "decimal \<Rightarrow> decimal \<Rightarrow> decimal" where
  "dec_sub a b = dec_add a (dec_neg b)"

definition dec_mul :: "decimal \<Rightarrow> decimal \<Rightarrow> decimal" where
  "dec_mul a b = dec_fix (Dec (coeff a * coeff b) (expo a + expo b))"

definition dec_abs :: "decimal \<Rightarrow> decimal" where
  "dec_abs a = dec_fix (Dec \<bar>coeff a\<bar> (expo a))"

definition dec_le :: "decimal \<Rightarrow> decimal \<Rightarrow> bool" where
  "dec_le a b = (let e = min (expo a) (expo b) in scale_to a e \<le> scale_to b e)"

definition dec_lt :: "decimal \<Rightarrow> decimal \<Rightarrow> bool" where
  "dec_lt a b = (\<not> dec_le b a)"

definition dec_is_zero :: "decimal \<Rightarrow> bool" where
  "dec_is_zero a = (coeff a = 0)"

text \<open>The built-in \<open>max\<close>: the first of the largest.\<close>

definition dec_max :: "decimal \<Rightarrow> decimal \<Rightarrow> decimal" where
  "dec_max a b = (if dec_lt a b then b else a)"

text \<open>
  Division: the coefficients are divided with enough extra digits for the precision, a
  non-zero remainder is folded into the last digit, trailing zeros of an exact quotient
  are dropped down to the ideal exponent.
\<close>

fun strip_zeros :: "nat \<Rightarrow> int \<Rightarrow> int \<Rightarrow> decimal" where
  "strip_zeros 0 c e = Dec c e"
| "strip_zeros (Suc n) c e = (if c mod 10 = 0 then strip_zeros n (c div 10) (e + 1) else Dec c e)"

definition dec_div :: "decimal \<Rightarrow> decimal \<Rightarrow> py_error + decimal" where
  "dec_div a b =
     (if coeff b = 0 then Inl (if coeff a = 0 then InvalidOperation else DivisionByZero)
      else if coeff a = 0 then Inr (Dec 0 (expo a - expo b))
      else
        let shift = int (ndigits \<bar>coeff b\<bar>) - int (ndigits \<bar>coeff a\<bar>) + int prec + 1;
            e = expo a - expo b - shift;
            num = \<bar>coeff a\<bar> * 10 ^ nat shift;
            den = \<bar>coeff b\<bar> * 10 ^ nat (- shift);
            q = num div den; r = num mod den;
            s = sgn (coeff a) * sgn (coeff b)
        in if r \<noteq> 0
           then Inr (dec_fix (Dec (s * (if q mod 5 = 0 then q + 1 else q)) e))
           else Inr (dec_fix (strip_zeros (nat (expo a - expo b - e)) (s * q) e)))"

text \<open>\<open>quantize\<close> to the exponent \<open>e\<close>.\<close>

definition dec_rescale :: "rounding \<Rightarrow> decimal \<Rightarrow> int \<Rightarrow> int" where
  "dec_rescale m d e =
     (if e \<le> expo d then coeff d * 10 ^ nat (expo d - e)
      else round_div m (coeff d) (10 ^ nat (e - expo d)))"

definition dec_quantize :: "rounding \<Rightarrow> int \<Rightarrow> decimal \<Rightarrow> py_error + decimal" where
  "dec_quantize m e d =
     (let c = dec_rescale m d e
      in if ndigits \<bar>c\<bar> \<le> prec then Inr (Dec c e) else Inl InvalidOperation)"

fun dec_sum :: "decimal \<Rightarrow> decimal list \<Rightarrow> decimal" where
  "dec_sum acc [] = acc"
| "dec_sum acc (d # ds) = dec_sum (dec_add acc d) ds"

subsection \<open>Values of the operators\<close>

lemma ndigits_fits: "ndigits \<bar>coeff d\<bar> \<le> prec \<longleftrightarrow> fits d"
  by (simp add: fits_def ndigits_le_iff prec_def)

lemma dec_fix_fits [simp]: "fits d \<Longrightarrow> dec_fix d = d"
  by (simp add: dec_fix_def ndigits_fits)

lemma dval_Dec: "dval (Dec c e) = of_int c * 10 powi e"
  by (simp add: dval_def)

lemma dval_zero_iff [simp]: "dval d = 0 \<longleftrightarrow> coeff d = 0"
  by (simp add: dval_def power_int_eq_0_iff)

lemma dval_scale: "e \<le> expo d \<Longrightarrow> of_int (scale_to d e) * 10 powi e = dval d"
proof -
  assume "e \<le> expo d"
  then have "(10::rat) ^ nat (expo d - e) = 10 powi (expo d - e)"
    by (simp add: power_int_def)
  then have "(10::rat) ^ nat (expo d - e) * 10 powi e = 10 powi (expo d)"
    by (simp flip: power_int_add)
  then show ?thesis by (simp add: scale_to_def dval_def mult.assoc)
qed

lemma dec_le_iff: "dec_le a b \<longleftrightarrow> dval a \<le> dval b"
proof -
  define e where "e = min (expo a) (expo b)"
  have "dval a = of_int (scale_to a e) * 10 powi e" "dval b = of_int (scale_to b e) * 10 powi e"
    by (simp_all add: dval_scale e_def)
  moreover have "(0::rat) < 10 powi e" by simp
  ultimately show ?thesis
    by (simp add: dec_le_def e_def[symmetric] Let_def)
qed

lemma dec_lt_iff: "dec_lt a b \<longleftrightarrow> dval a < dval b"
  by (auto simp: dec_lt_def dec_le_iff)

lemma dval_max: "dval (dec_max a b) = max (dval a) (dval b)"
  by (simp add: dec_max_def dec_lt_iff max_def)

lemma dval_neg [simp]: "dval (dec_neg a) = - dval a"
  by (simp add: dec_neg_def dval_def)

lemma fits_neg [simp]: "fits (dec_neg a) = fits a"
  by (simp add: dec_neg_def fits_def)

lemma dval_abs: "fits a \<Longrightarrow> dval (dec_abs a) = \<bar>dval a\<bar>"
  by (simp add: dec_abs_def fits_def dval_def abs_mult)

lemma pow10_pos: "(0::rat) < 10 powi e"
  by simp

lemma dval_0_less_iff: "0 < dval d \<longleftrightarrow> 0 < coeff d"
  using pow10_pos[of "expo d"] less_asym[of 0 "10 powi (expo d) :: rat"]
  by (auto simp: dval_def zero_less_mult_iff simp del: zero_less_power_int)

lemma dval_0_le_iff: "0 \<le> dval d \<longleftrightarrow> 0 \<le> coeff d"
  using dval_0_less_iff[of d] dval_zero_iff[of d] by linarith

text \<open>The exact sum, before the context rounds it.\<close>

definition exact_add :: "decimal \<Rightarrow> decimal \<Rightarrow> decimal" where
  "exact_add a b = (let e = min (expo a) (expo b) in Dec (scale_to a e + scale_to b e) e)"

lemma dval_exact_add: "dval (exact_add a b) = dval a + dval b"
proof -
  define e where "e = min (expo a) (expo b)"
  have "dval a = of_int (scale_to a e) * 10 powi e" "dval b = of_int (scale_to b e) * 10 powi e"
    by (simp_all add: dval_scale e_def)
  then show ?thesis
    by (simp add: exact_add_def e_def[symmetric] Let_def dval_Dec algebra_simps)
qed

lemma dec_add_exact: "dec_add a b = dec_fix (exact_add a b)"
  by (simp add: dec_add_def exact_add_def Let_def)

lemma dval_add: "fits (exact_add a b) \<Longrightarrow> dval (dec_add a b) = dval a + dval b"
  by (simp add: dec_add_exact dval_exact_add)

lemma dval_mul:
  assumes "\<bar>coeff a * coeff b\<bar> < 10 ^ prec"
  shows "dval (dec_mul a b) = dval a * dval b"
  using assms by (simp add: dec_mul_def fits_def dval_def power_int_add)

subsection \<open>Accuracy of context rounding\<close>

lemma round_div_abs_le:
  assumes "0 < d" and "\<bar>c\<bar> \<le> N * d"
  shows "\<bar>round_div m c d\<bar> \<le> N"
proof -
  have "2 * \<bar>round_div m c d * d - c\<bar> \<le> d" by (rule round_div_error[OF assms(1)])
  moreover have "\<bar>round_div m c d * d\<bar> = \<bar>round_div m c d\<bar> * d"
    using assms(1) by (simp add: abs_mult)
  ultimately have "2 * (\<bar>round_div m c d\<bar> * d) \<le> 2 * (N * d) + d"
    using assms(2) abs_le_near[of "round_div m c d * d" c] by simp
  then have "(2 * \<bar>round_div m c d\<bar>) * d \<le> (2 * N + 1) * d"
    by (simp add: algebra_simps)
  then have "2 * \<bar>round_div m c d\<bar> \<le> 2 * N + 1"
    using assms(1) by (simp add: mult_le_cancel_right)
  then show ?thesis by linarith
qed

lemma dec_fix_dval:
  assumes "\<not> fits d" and "k = ndigits \<bar>coeff d\<bar> - prec"
  shows "dval (dec_fix d) = of_int (round_div ROUND_HALF_EVEN (coeff d) (10 ^ k)) * 10 powi (expo d + int k)"
proof -
  define c where "c = round_div ROUND_HALF_EVEN (coeff d) (10 ^ k)"
  have nd: "\<not> ndigits \<bar>coeff d\<bar> \<le> prec" using assms(1) by (simp add: ndigits_fits)
  have "\<bar>coeff d\<bar> < 10 ^ (prec + k)"
    using ndigits_bound[of "\<bar>coeff d\<bar>"] nd assms(2) by simp
  then have cb: "\<bar>c\<bar> \<le> 10 ^ prec"
    unfolding c_def by (intro round_div_abs_le) (simp_all add: power_add)
  show ?thesis
  proof (cases "ndigits \<bar>c\<bar> \<le> prec")
    case True
    then show ?thesis using nd assms(2) by (simp add: dec_fix_def Let_def c_def dval_Dec)
  next
    case False
    then have "\<not> \<bar>c\<bar> < 10 ^ prec" by (simp add: ndigits_le_iff prec_def)
    with cb have "c = 10 ^ prec \<or> c = - (10 ^ prec)" by (simp add: abs_if split: if_splits)
    then have "c = 10 * (c div 10)" by (auto simp: prec_def)
    then have "of_int c * 10 powi (expo d + int k) = dval (Dec (c div 10) (expo d + int k + 1))"
      by (simp add: dval_Dec power_int_add)
    then show ?thesis using False nd assms(2) by (simp add: dec_fix_def Let_def c_def)
  qed
qed

lemma dec_fix_error: "2 * 10 ^ 27 * \<bar>dval (dec_fix d) - dval d\<bar> \<le> \<bar>dval d\<bar>"
proof (cases "fits d")
  case True
  then show ?thesis by simp
next
  case False
  define k where "k = ndigits \<bar>coeff d\<bar> - prec"
  define c where "c = round_div ROUND_HALF_EVEN (coeff d) (10 ^ k)"
  have nd: "ndigits \<bar>coeff d\<bar> = Suc (Suc (26 + k))"
    using False k_def ndigits_fits[of d] by (simp add: prec_def)
  have lo: "10 ^ (27 + k) \<le> \<bar>coeff d\<bar>" using ndigits_lower[OF nd] by simp
  have "2 * \<bar>c * 10 ^ k - coeff d\<bar> \<le> 10 ^ k"
    unfolding c_def by (rule round_div_error) simp
  then have "10 ^ 27 * (2 * \<bar>c * 10 ^ k - coeff d\<bar>) \<le> 10 ^ 27 * 10 ^ k"
    by (intro mult_left_mono) simp_all
  with lo have "2 * 10 ^ 27 * \<bar>c * 10 ^ k - coeff d\<bar> \<le> \<bar>coeff d\<bar>"
    by (simp add: power_add)
  then have "of_int (2 * 10 ^ 27 * \<bar>c * 10 ^ k - coeff d\<bar>) \<le> (of_int \<bar>coeff d\<bar> :: rat)"
    by (rule of_int_le_iff[THEN iffD2])
  then have "2 * 10 ^ 27 * \<bar>of_int c * 10 ^ k - of_int (coeff d)\<bar> * 10 powi expo d
      \<le> \<bar>of_int (coeff d)\<bar> * (10 powi expo d :: rat)"
    by (intro mult_right_mono) simp_all
  moreover have "dval (dec_fix d) - dval d = (of_int c * 10 ^ k - of_int (coeff d)) * 10 powi expo d"
    using dec_fix_dval[OF False k_def] by (simp add: c_def dval_def power_int_add algebra_simps)
  moreover have "\<bar>dval d\<bar> = \<bar>of_int (coeff d)\<bar> * 10 powi expo d"
    by (simp add: dval_def abs_mult)
  ultimately show ?thesis by (simp add: abs_mult mult.assoc)
qed

lemma dec_fix_near: "2 * \<bar>dval (dec_fix d) - dval d\<bar> \<le> \<bar>dval d\<bar>"
proof -
  have "1 * (2 * \<bar>dval (dec_fix d) - dval d\<bar>) \<le> 10 ^ 27 * (2 * \<bar>dval (dec_fix d) - dval d\<bar>)"
    by (intro mult_right_mono) simp_all
  then show ?thesis using dec_fix_error[of d] by (simp only: mult_1 mult.assoc mult.left_commute)
qed

lemma dec_fix_pos: "0 < coeff d \<Longrightarrow> 0 < coeff (dec_fix d)"
  using near_pos[OF dec_fix_near] by (simp add: dval_0_less_iff)

lemma coeff_dec_fix_0_iff: "coeff (dec_fix d) = 0 \<longleftrightarrow> coeff d = 0"
  using near_zero_iff[OF dec_fix_near] by simp

lemma dec_add_pos:
  assumes "0 \<le> coeff a" and "0 < coeff b" shows "0 < coeff (dec_add a b)"
proof -
  have "0 < dval (exact_add a b)"
    using assms by (simp add: dval_exact_add add_nonneg_pos dval_0_le_iff dval_0_less_iff)
  then show ?thesis
    by (simp add: dec_add_exact dec_fix_pos dval_0_less_iff)
qed

lemma dec_sum_pos: "0 < coeff acc \<Longrightarrow> \<forall>d \<in> set ds. 0 < coeff d \<Longrightarrow> 0 < coeff (dec_sum acc ds)"
  by (induction ds arbitrary: acc) (simp_all add: dec_add_pos)

subsection \<open>Quantisation\<close>

lemma dec_quantize_InrD:
  assumes "dec_quantize m e d = Inr r"
  shows "r = Dec (dec_rescale m d e) e" and "fits r" and "expo r = e"
proof -
  show r: "r = Dec (dec_rescale m d e) e"
    using assms by (simp add: dec_quantize_def Let_def split: if_splits)
  with assms show "fits r"
    by (simp add: dec_quantize_def Let_def fits_def ndigits_le_iff prec_def split: if_splits)
  from r show "expo r = e" by simp
qed

lemma dec_quantize_Inl: "dec_quantize m e d = Inl x \<Longrightarrow> x = InvalidOperation"
  by (simp add: dec_quantize_def Let_def split: if_splits)

lemma dec_quantize_same [simp]: "fits d \<Longrightarrow> expo d = e \<Longrightarrow> dec_quantize m e d = Inr d"
  by (cases d) (simp add: dec_quantize_def dec_rescale_def ndigits_le_iff fits_def prec_def)

lemma dec_quantize_idem: "dec_quantize m e d = Inr r \<Longrightarrow> dec_quantize m' e r = Inr r"
  using dec_quantize_InrD[of m e d r] by simp

lemma dec_rescale_error: "2 * \<bar>of_int (dec_rescale m d e) * 10 powi e - dval d\<bar> \<le> 10 powi e"
proof (cases "e \<le> expo d")
  case True
  then show ?thesis
    using dval_scale[OF True] by (simp add: dec_rescale_def scale_to_def)
next
  case False
  define k where "k = nat (e - expo d)"
  define c where "c = round_div m (coeff d) (10 ^ k)"
  have "2 * \<bar>c * 10 ^ k - coeff d\<bar> \<le> 10 ^ k"
    unfolding c_def by (rule round_div_error) simp
  then have "of_int (2 * \<bar>c * 10 ^ k - coeff d\<bar>) \<le> (of_int (10 ^ k) :: rat)"
    by (intro of_int_le_iff[THEN iffD2]) simp
  then have "2 * \<bar>of_int c * 10 ^ k - of_int (coeff d)\<bar> * 10 powi expo d \<le> (10 ^ k * 10 powi expo d :: rat)"
    by (intro mult_right_mono) simp_all
  moreover have p: "(10::rat) powi e = 10 ^ k * 10 powi expo d"
    using False by (simp add: k_def power_int_def[of _ "e - expo d", symmetric] flip: power_int_add
        power_int_of_nat)
  moreover have "of_int c * 10 powi e - dval d = (of_int c * 10 ^ k - of_int (coeff d)) * 10 powi expo d"
    by (simp add: p dval_def algebra_simps)
  ultimately show ?thesis
    using False by (simp add: dec_rescale_def c_def[symmetric] k_def[symmetric] abs_mult mult.assoc)
qed

lemma dec_quantize_error:
  "dec_quantize m e d = Inr r \<Longrightarrow> 2 * \<bar>dval r - dval d\<bar> \<le> 10 powi e"
  using dec_rescale_error[of m d e] dec_quantize_InrD(1)[of m e d r] by (simp add: dval_Dec)

lemma dec_quantize_nonneg: "dec_quantize m e d = Inr r \<Longrightarrow> 0 \<le> coeff d \<Longrightarrow> 0 \<le> coeff r"
  by (auto simp: dec_quantize_def Let_def dec_rescale_def round_div_nonneg split: if_splits)

subsection \<open>Division\<close>

lemma dval_strip_zeros: "dval (strip_zeros n c e) = dval (Dec c e)"
proof (induction n c e rule: strip_zeros.induct)
  case (1 c e)
  show ?case by simp
next
  case (2 n c e)
  show ?case
  proof (cases "c mod 10 = 0")
    case True
    then have "of_int c = (of_int (c div 10) * 10 :: rat)"
      by (metis dvd_div_mult_self mod_0_imp_dvd of_int_mult of_int_numeral)
    with True 2 show ?thesis by (simp add: dval_Dec power_int_add)
  next
    case False
    then show ?thesis by simp
  qed
qed

lemma dec_div_Inl_iff: "(\<exists>x. dec_div a b = Inl x) \<longleftrightarrow> coeff b = 0"
  by (auto simp: dec_div_def Let_def)

lemma dec_div_guard_digits:
  fixes A B :: int
  assumes "0 < A" and "0 < B" and "t = int (ndigits B) - int (ndigits A) + 29"
  shows "10 ^ 28 * (B * 10 ^ nat (- t)) \<le> A * 10 ^ nat t"
proof -
  obtain m where m: "ndigits A = Suc m" using ndigits_pos[of A] by (cases "ndigits A") auto
  have A: "10 ^ m \<le> A"
    using assms(1) ndigits_lower[of A] m by (cases m) auto
  have B: "B \<le> 10 ^ ndigits B" using ndigits_bound[of B] by simp
  show ?thesis
  proof (cases "0 \<le> t")
    case True
    then have e: "28 + ndigits B = m + nat t" using assms(3) m by auto
    have "10 ^ 28 * B \<le> 10 ^ 28 * 10 ^ ndigits B" using B by simp
    also have "\<dots> = 10 ^ m * 10 ^ nat t" using e by (simp only: power_add[symmetric])
    also have "\<dots> \<le> A * 10 ^ nat t" using A by simp
    finally show ?thesis using True by simp
  next
    case False
    then have e: "28 + (ndigits B + nat (- t)) = m" using assms(3) m by auto
    have "B * 10 ^ nat (- t) \<le> 10 ^ ndigits B * 10 ^ nat (- t)" using B by simp
    then have "10 ^ 28 * (B * 10 ^ nat (- t)) \<le> 10 ^ 28 * (10 ^ ndigits B * 10 ^ nat (- t))"
      by (intro mult_left_mono) simp_all
    also have "\<dots> = 10 ^ m" using e by (simp only: power_add[symmetric])
    also have "\<dots> \<le> A" by (rule A)
    finally show ?thesis using False by simp
  qed
qed

text \<open>The quotient before the context rounds it, as a sign and a magnitude.\<close>

lemma div_sticky_near:
  fixes num den :: int
  assumes "0 < den" and "q = num div den"
  shows "\<bar>of_int (if num mod den \<noteq> 0 \<and> q mod 5 = 0 then q + 1 else q) - of_int num / of_int den\<bar>
      \<le> (1 :: rat)"
proof -
  have "num = q * den + num mod den" using assms by simp
  then have "of_int num = of_int q * of_int den + (of_int (num mod den) :: rat)"
    by (metis of_int_add of_int_mult)
  then have "of_int num / of_int den = of_int q + (of_int (num mod den) :: rat) / of_int den"
    using assms(1) by (simp add: field_simps)
  moreover have "(0::rat) \<le> of_int (num mod den) / of_int den" "of_int (num mod den) / of_int den \<le> (1::rat)"
    using assms(1) pos_mod_bound[of den num] by (simp_all add: divide_le_eq less_imp_le)
  ultimately show ?thesis by (simp add: abs_le_iff)
qed

lemma near_trans:
  fixes x y z :: rat
  assumes xy: "10 ^ 28 * \<bar>y - x\<bar> \<le> \<bar>x\<bar>" and yz: "2 * 10 ^ 27 * \<bar>z - y\<bar> \<le> \<bar>y\<bar>"
  shows "10 ^ 27 * \<bar>z - x\<bar> \<le> \<bar>x\<bar>"
proof -
  have 1: "\<bar>z - x\<bar> \<le> \<bar>z - y\<bar> + \<bar>y - x\<bar>" using abs_triangle_ineq[of "z - y" "y - x"] by simp
  have 2: "\<bar>y\<bar> \<le> \<bar>x\<bar> + \<bar>y - x\<bar>" by (rule abs_le_near)
  have xy': "10000000000000000000000000000 * \<bar>y - x\<bar> \<le> \<bar>x\<bar>" using xy by simp
  have yz': "2000000000000000000000000000 * \<bar>z - y\<bar> \<le> \<bar>y\<bar>" using yz by simp
  have "1000000000000000000000000000 * \<bar>z - x\<bar> \<le> \<bar>x\<bar>"
    using 1 2 xy' yz' abs_ge_zero[of "y - x"] by linarith
  then show ?thesis by simp
qed

theorem dec_div_error:
  assumes "dec_div a b = Inr d"
  shows "10 ^ 27 * \<bar>dval d - dval a / dval b\<bar> \<le> \<bar>dval a / dval b\<bar>"
proof (cases "coeff a = 0")
  case True
  with assms show ?thesis by (auto simp: dec_div_def dval_def split: if_splits)
next
  case a: False
  have b: "coeff b \<noteq> 0" using assms by (auto simp: dec_div_def)
  define t where "t = int (ndigits \<bar>coeff b\<bar>) - int (ndigits \<bar>coeff a\<bar>) + int prec + 1"
  define e where "e = expo a - expo b - t"
  define num where "num = \<bar>coeff a\<bar> * 10 ^ nat t"
  define den where "den = \<bar>coeff b\<bar> * 10 ^ nat (- t)"
  define q where "q = num div den"
  define s where "s = sgn (coeff a) * sgn (coeff b)"
  define c where "c = (if num mod den \<noteq> 0 \<and> q mod 5 = 0 then q + 1 else q)"
  define x where "x = of_int num / (of_int den :: rat)"
  have den: "0 < den" using b by (simp add: den_def)
  have div: "dec_div a b = Inr (if num mod den \<noteq> 0
      then dec_fix (Dec (s * (if q mod 5 = 0 then q + 1 else q)) e)
      else dec_fix (strip_zeros (nat (expo a - expo b - e)) (s * q) e))"
    using a b unfolding dec_div_def Let_def t_def e_def num_def den_def q_def s_def
    by (simp only: if_False if_distrib[of Inr])
  have d: "\<exists>p. d = dec_fix p \<and> dval p = dval (Dec (s * c) e)"
    using assms unfolding div c_def
    by (cases "num mod den = 0") (auto simp: dval_strip_zeros)
  then obtain p where p: "d = dec_fix p" "dval p = dval (Dec (s * c) e)" by blast
  have t10: "(10::rat) ^ nat t / 10 ^ nat (- t) = 10 powi t"
    by (cases "0 \<le> t") (simp_all add: power_int_def power_one_over)
  have mag: "\<bar>of_int (coeff a)\<bar> / \<bar>of_int (coeff b)\<bar> * (10 powi t :: rat) = x"
    unfolding t10[symmetric] by (simp add: x_def num_def den_def)
  have pow: "(10::rat) powi (expo a - expo b) = 10 powi t * 10 powi e"
    by (simp add: e_def flip: power_int_add)
  have sg: "of_int (coeff a) / of_int (coeff b)
      = of_int s * (\<bar>of_int (coeff a)\<bar> / \<bar>of_int (coeff b)\<bar> :: rat)"
    using a b by (cases "0 < coeff a"; cases "0 < coeff b") (simp_all add: s_def sgn_if)
  have "dval a / dval b = of_int (coeff a) / of_int (coeff b) * 10 powi (expo a - expo b)"
    by (simp add: dval_def power_int_diff)
  then have exact: "dval a / dval b = of_int s * x * 10 powi e"
    unfolding mag[symmetric] pow sg by (simp only: mult.assoc)
  have "10 ^ 28 * den \<le> num"
    unfolding num_def den_def by (rule dec_div_guard_digits) (use a b t_def in \<open>auto simp: prec_def\<close>)
  then have "of_int (10 ^ 28 * den) \<le> (of_int num :: rat)" by (rule of_int_le_iff[THEN iffD2])
  then have x_big: "10 ^ 28 \<le> x" using den by (simp add: x_def le_divide_eq)
  have "\<bar>of_int c - x\<bar> \<le> 1" unfolding c_def x_def by (rule div_sticky_near) (simp_all add: den q_def)
  then have "10 ^ 28 * \<bar>of_int c - x\<bar> \<le> 10 ^ 28 * 1" by (intro mult_left_mono) simp_all
  with x_big have near: "10 ^ 28 * \<bar>of_int c - x\<bar> \<le> x" by simp
  have s1: "\<bar>of_int s\<bar> = (1::rat)" using a b by (simp add: s_def abs_mult sgn_if)
  have "10 ^ 28 * \<bar>dval p - dval a / dval b\<bar> = 10 ^ 28 * \<bar>of_int c - x\<bar> * 10 powi e"
  proof -
    have "dval p - dval a / dval b = of_int s * (of_int c - x) * 10 powi e"
      by (simp add: p(2) exact dval_Dec algebra_simps)
    then show ?thesis by (simp add: abs_mult s1)
  qed
  also have "\<dots> \<le> x * 10 powi e" using near by (intro mult_right_mono) simp_all
  also have "\<dots> = \<bar>dval a / dval b\<bar>"
  proof -
    have "0 \<le> x" using x_big by simp
    then show ?thesis by (simp add: exact abs_mult s1)
  qed
  finally have "10 ^ 28 * \<bar>dval p - dval a / dval b\<bar> \<le> \<bar>dval a / dval b\<bar>" .
  then show ?thesis unfolding p(1) by (rule near_trans) (rule dec_fix_error)
qed

lemma dec_div_pos:
  assumes "dec_div a b = Inr d" and "0 < coeff a" and "0 < coeff b"
  shows "0 < coeff d"
proof -
  have p: "0 < dval a / dval b" using assms(2,3) by (simp add: dval_0_less_iff)
  have "2 * \<bar>dval d - dval a / dval b\<bar> \<le> 10 ^ 27 * \<bar>dval d - dval a / dval b\<bar>"
    by (intro mult_right_mono) simp_all
  then have "2 * \<bar>dval d - dval a / dval b\<bar> \<le> \<bar>dval a / dval b\<bar>"
    using dec_div_error[OF assms(1)] by (rule order_trans)
  from near_pos[OF this p] show ?thesis by (simp add: dval_0_less_iff)
qed

end
