(* ===== verification/PyDate.thy ===== *)
theory PyDate
  imports Prelude
begin

text \<open>
  Python's \<open>datetime.date\<close>, kept as its proleptic Gregorian ordinal (\<open>date.toordinal\<close>):
  1 January of year 1 is day 1, the last day of year 9999 is day 3652059.  Constructing a
  day that does not exist raises \<open>ValueError\<close>; adding a \<open>timedelta\<close> of whole days that
  leaves the range raises \<open>OverflowError\<close>.  Comparison and subtraction of dates are those
  of the ordinals.
\<close>

type_synonym date = int

definition max_ordinal :: int where "max_ordinal = 3652059"

definition is_leap :: "int \<Rightarrow> bool" where
  "is_leap y \<longleftrightarrow> y mod 4 = 0 \<and> (y mod 100 \<noteq> 0 \<or> y mod 400 = 0)"

definition days_before_year :: "int \<Rightarrow> int" where
  "days_before_year y = (y - 1) * 365 + (y - 1) div 4 - (y - 1) div 100 + (y - 1) div 400"

definition month_lengths :: "int \<Rightarrow> int list" where
  "month_lengths y = [31, if is_leap y then 29 else 28, 31, 30, 31, 30, 31, 31, 30, 31, 30, 31]"

definition days_in_month :: "int \<Rightarrow> int \<Rightarrow> int" where
  "days_in_month y m = month_lengths y ! nat (m - 1)"

definition days_before_month :: "int \<Rightarrow> int \<Rightarrow> int" where
  "days_before_month y m = sum_list (take (nat (m - 1)) (month_lengths y))"

definition mk_date :: "int \<Rightarrow> int \<Rightarrow> int \<Rightarrow> py_error + date" where
  "mk_date y m d =
     (if 1 \<le> y \<and> y \<le> 9999 \<and> 1 \<le> m \<and> m \<le> 12 \<and> 1 \<le> d \<and> d \<le> days_in_month y m
      then Inr (days_before_year y + days_before_month y m + d)
      else Inl ValueError)"

definition date_add :: "date \<Rightarrow> int \<Rightarrow> py_error + date" where
  "date_add d n = (if 1 \<le> d + n \<and> d + n \<le> max_ordinal then Inr (d + n) else Inl OverflowError)"

definition valid_date :: "date \<Rightarrow> bool" where
  "valid_date d \<longleftrightarrow> 1 \<le> d \<and> d \<le> max_ordinal"

lemma date_add_Inr: "date_add d n = Inr e \<longleftrightarrow> e = d + n \<and> valid_date (d + n)"
  by (auto simp: date_add_def valid_date_def)

lemma div_step:
  fixes x k :: int
  assumes "0 < k"
  shows "(x + 1) div k = x div k + (if (x + 1) mod k = 0 then 1 else 0)"
proof (cases "x mod k + 1 = k")
  case True
  then have "x + 1 = k * (x div k + 1) + 0"
    using mult_div_mod_eq[of k x] by (simp only: distrib_left)
  from int_div_pos_eq[OF this] int_mod_pos_eq[OF this] assms show ?thesis by simp
next
  case False
  then have *: "x + 1 = k * (x div k) + (x mod k + 1)" "0 \<le> x mod k + 1" "x mod k + 1 < k"
    using False assms pos_mod_bound[OF assms, of x] pos_mod_sign[OF assms, of x]
    by (simp_all del: pos_mod_bound pos_mod_sign)
  from int_div_pos_eq[OF *] int_mod_pos_eq[OF *] assms show ?thesis
    using pos_mod_sign[OF assms, of x] by (simp add: add_eq_0_iff del: pos_mod_sign)
qed

lemma mod_0_coarser: "l mod k = 0 \<Longrightarrow> x mod l = 0 \<Longrightarrow> x mod k = (0::int)"
  by (metis dvd_trans mod_0_imp_dvd dvd_imp_mod_0)

lemma days_before_year_Suc:
  "days_before_year (y + 1) = days_before_year y + (if is_leap y then 366 else 365)"
proof -
  define a b c where "a = (y - 1) div 4" and "b = (y - 1) div 100" and "c = (y - 1) div 400"
  define P Q R where "P \<longleftrightarrow> y mod 4 = 0" and "Q \<longleftrightarrow> y mod 100 = 0" and "R \<longleftrightarrow> y mod 400 = 0"
  have coarser: "R \<longrightarrow> Q" "Q \<longrightarrow> P"
    unfolding P_def Q_def R_def by (auto intro: mod_0_coarser[of 400 100] mod_0_coarser[of 100 4])
  have y: "y - 1 + 1 = y" by simp
  note step = div_step[where x = "y - 1", OF zero_less_numeral, unfolded y]
  have "y div 4 = a + (if P then 1 else 0)" "y div 100 = b + (if Q then 1 else 0)"
    "y div 400 = c + (if R then 1 else 0)"
    unfolding a_def b_def c_def P_def Q_def R_def by (rule step)+
  then have "days_before_year (y + 1)
      = y * 365 + (a + (if P then 1 else 0)) - (b + (if Q then 1 else 0)) + (c + (if R then 1 else 0))"
    unfolding days_before_year_def by (simp only: add_diff_cancel_right')
  moreover have "days_before_year y = (y - 1) * 365 + a - b + c"
    by (simp only: days_before_year_def a_def b_def c_def)
  moreover have "is_leap y \<longleftrightarrow> P \<and> (\<not> Q \<or> R)"
    by (simp only: is_leap_def P_def Q_def R_def)
  ultimately show ?thesis using coarser by (cases P; cases Q; cases R) simp_all
qed

lemma days_before_year_mono: "y \<le> z \<Longrightarrow> days_before_year y \<le> days_before_year z"
proof (induction "nat (z - y)" arbitrary: z)
  case 0
  then show ?case by simp
next
  case (Suc n)
  then have "days_before_year y \<le> days_before_year (z - 1)" by simp
  also have "\<dots> \<le> days_before_year z" using days_before_year_Suc[of "z - 1"] by simp
  finally show ?case .
qed

end
