(* ===== verification/LineItem.thy ===== *)
theory LineItem
  imports PyDecimal PyDate
begin

text \<open>
  The data point every later stage consumes: \<open>ParsedLineItem\<close> of
  \<^verbatim>\<open>services/ingestion/parsers/xbrl_parser.py\<close>.  Identifiers (UUIDs) are strings, as the
  class has them.
\<close>

record parsed_line_item =
  company_id :: string
  fiscal_year :: int
  fiscal_period :: string
  reporting_standard :: string
  filing_date :: date
  canonical_field :: string
  concept_raw :: string
  statement_type :: string
  value_reported :: decimal
  reported_currency :: "string option"
  source_file_hash :: string
  extraction_method :: string
  derived_expression_formula :: "string option"
  period_end_date :: "date option"
  period_start_date :: "date option"

end
