(* ===== verification/ValidationEngine.thy ===== *)
theory ValidationEngine
  imports LineItem "HOL-Library.AList"
begin

text \<open>
  \<^verbatim>\<open>services/validation/engine.py\<close>: the six validation rules, the engine that runs them,
  the confidence score, and the aggregation of parsed line items into the bag of values
  the rules read.  Messages are kept as their fixed text and the values interpolated into
  it; how a value is printed, and the cut of a message to 80 characters in a deduction's
  reason, are not modelled.
\<close>

subsection \<open>Findings and results\<close>

datatype severity = CRITICAL | WARNING | INFO

datatype message = Msg string "decimal list"

record finding =
  rule_id :: string
  severity :: severity
  msg :: message
  expected :: "decimal option"
  actual :: "decimal option"
  delta :: "decimal option"

record validation_result =
  findings :: "finding list"

definition is_blocked :: "validation_result \<Rightarrow> bool" where
  "is_blocked r \<longleftrightarrow> (\<exists>f \<in> set (findings r). severity f = CRITICAL)"

definition critical_findings :: "validation_result \<Rightarrow> finding list" where
  "critical_findings r = filter (\<lambda>f. severity f = CRITICAL) (findings r)"

definition warning_findings :: "validation_result \<Rightarrow> finding list" where
  "warning_findings r = filter (\<lambda>f. severity f = WARNING) (findings r)"

text \<open>\<open>summary\<close>: the status and the three counts it prints.\<close>

definition result_summary :: "validation_result \<Rightarrow> string \<times> int \<times> int \<times> int" where
  "result_summary r =
     (let n_crit = int (length (critical_findings r)); n_warn = int (length (warning_findings r))
      in (if is_blocked r then ''BLOCKED'' else ''PASSED'', n_crit, n_warn,
          int (length (findings r)) - n_crit - n_warn))"

record data_bag =
  revenue :: "decimal option"
  cogs :: "decimal option"
  gross_profit :: "decimal option"
  operating_income :: "decimal option"
  net_income :: "decimal option"
  total_assets :: "decimal option"
  total_liabilities :: "decimal option"
  total_equity :: "decimal option"
  opening_cash :: "decimal option"
  closing_cash :: "decimal option"
  retained_earnings_prior :: "decimal option"
  retained_earnings_current :: "decimal option"
  dividends_paid :: "decimal option"
  operating_cash_flow :: "decimal option"
  investing_cash_flow :: "decimal option"
  financing_cash_flow :: "decimal option"
  net_change_in_cash :: "decimal option"
  cf_net_income_start :: "decimal option"

definition empty_bag :: data_bag where
  "empty_bag = \<lparr>revenue = None, cogs = None, gross_profit = None, operating_income = None,
     net_income = None, total_assets = None, total_liabilities = None, total_equity = None,
     opening_cash = None, closing_cash = None, retained_earnings_prior = None,
     retained_earnings_current = None, dividends_paid = None, operating_cash_flow = None,
     investing_cash_flow = None, financing_cash_flow = None, net_change_in_cash = None,
     cf_net_income_start = None\<rparr>"

subsection \<open>Tolerance\<close>

definition default_absolute_tolerance :: decimal where
  "default_absolute_tolerance = Dec 1000 0"

definition default_relative_tolerance :: decimal where
  "default_relative_tolerance = Dec 5 (-3)"

definition within_tolerance :: "decimal \<Rightarrow> decimal \<Rightarrow> decimal \<Rightarrow> decimal \<Rightarrow> bool \<times> decimal" where
  "within_tolerance expd act abs_tol rel_tol =
     (let dlt = dec_abs (dec_sub expd act);
          rel_bound = dec_mul rel_tol (dec_max (dec_max (dec_abs expd) (dec_abs act)) (Dec 1 0));
          tolerance = dec_max abs_tol rel_bound
      in (dec_le dlt tolerance, dlt))"

definition within_default :: "decimal \<Rightarrow> decimal \<Rightarrow> bool \<times> decimal" where
  "within_default expd act =
     within_tolerance expd act default_absolute_tolerance default_relative_tolerance"

subsection \<open>The rules\<close>

definition skipped :: "string \<Rightarrow> string \<Rightarrow> finding list" where
  "skipped rid text =
     [\<lparr>rule_id = rid, severity = INFO, msg = Msg text [], expected = None, actual = None, delta = None\<rparr>]"

definition run_val_001 :: "data_bag \<Rightarrow> finding list" where
  "run_val_001 bag =
     (case (revenue bag, cogs bag, gross_profit bag) of
        (Some rv, Some cg, Some gp) \<Rightarrow>
          (let expd = dec_add rv cg; (passes, dlt) = within_default expd gp
           in if passes then []
              else [\<lparr>rule_id = ''VAL-001'', severity = CRITICAL,
                     msg = Msg ''VAL-001 CRITICAL: Revenue ({}) + COGS ({}) = {}, but Gross Profit = {} (Delta = {}).''
                             [rv, cg, expd, gp, dlt],
                     expected = Some expd, actual = Some gp, delta = Some dlt\<rparr>])
      | _ \<Rightarrow> skipped ''VAL-001'' ''VAL-001 skipped: revenue, cogs, or gross_profit not available.'')"

definition run_val_002 :: "data_bag \<Rightarrow> finding list" where
  "run_val_002 bag =
     (case (total_assets bag, total_liabilities bag, total_equity bag) of
        (Some tas, Some tls, Some teq) \<Rightarrow>
          (let expd = dec_add tls teq; (passes, dlt) = within_default tas expd
           in if passes then []
              else [\<lparr>rule_id = ''VAL-002'', severity = CRITICAL,
                     msg = Msg ''VAL-002 CRITICAL: Total Assets ({}) /= Total Liabilities ({}) + Total Equity ({}) = {} (Delta = {}).''
                             [tas, tls, teq, expd, dlt],
                     expected = Some expd, actual = Some tas, delta = Some dlt\<rparr>])
      | _ \<Rightarrow> skipped ''VAL-002''
               ''VAL-002 skipped: total_assets, total_liabilities, or total_equity not available.'')"

definition run_val_003 :: "data_bag \<Rightarrow> finding list" where
  "run_val_003 bag =
     (case (operating_cash_flow bag, investing_cash_flow bag, financing_cash_flow bag, net_change_in_cash bag) of
        (Some ocf, Some icf, Some fcf, Some net) \<Rightarrow>
          (let expd = dec_add (dec_add ocf icf) fcf; (passes, dlt) = within_default expd net
           in if passes then []
              else [\<lparr>rule_id = ''VAL-003'', severity = CRITICAL,
                     msg = Msg ''VAL-003 CRITICAL: OCF ({}) + ICF ({}) + FCF ({}) = {}, but Net Change in Cash = {} (Delta = {}).''
                             [ocf, icf, fcf, expd, net, dlt],
                     expected = Some expd, actual = Some net, delta = Some dlt\<rparr>])
      | _ \<Rightarrow> skipped ''VAL-003'' ''VAL-003 skipped: one or more cash flow fields not available.'')"

definition run_xst_001 :: "data_bag \<Rightarrow> finding list" where
  "run_xst_001 bag =
     (case (net_income bag, cf_net_income_start bag) of
        (Some ni, Some st) \<Rightarrow>
          (let (passes, dlt) = within_default ni st
           in if passes then []
              else [\<lparr>rule_id = ''XST-001'', severity = CRITICAL,
                     msg = Msg ''XST-001 CRITICAL: IS Net Income ({}) /= CF reconciliation opener ({}) (Delta = {}).''
                             [ni, st, dlt],
                     expected = Some ni, actual = Some st, delta = Some dlt\<rparr>])
      | _ \<Rightarrow> skipped ''XST-001'' ''XST-001 skipped: net_income or cf_net_income_start not available.'')"

definition run_xst_002 :: "data_bag \<Rightarrow> finding list" where
  "run_xst_002 bag =
     (case (opening_cash bag, net_change_in_cash bag, closing_cash bag) of
        (Some op, Some net, Some cl) \<Rightarrow>
          (let expd = dec_add op net; (passes, dlt) = within_default expd cl
           in if passes then []
              else [\<lparr>rule_id = ''XST-002'', severity = CRITICAL,
                     msg = Msg ''XST-002 CRITICAL: Opening Cash ({}) + Net Change ({}) = {}, but Closing Cash (BS) = {} (Delta = {}).''
                             [op, net, expd, cl, dlt],
                     expected = Some expd, actual = Some cl, delta = Some dlt\<rparr>])
      | _ \<Rightarrow> skipped ''XST-002''
               ''XST-002 skipped: opening_cash, net_change_in_cash, or closing_cash not available.'')"

definition run_xst_003 :: "data_bag \<Rightarrow> finding list" where
  "run_xst_003 bag =
     (case (retained_earnings_prior bag, net_income bag, dividends_paid bag, retained_earnings_current bag) of
        (Some prior, Some ni, Some dv, Some cur) \<Rightarrow>
          (let expd = dec_add (dec_add prior ni) dv; (passes, dlt) = within_default expd cur
           in if passes then []
              else [\<lparr>rule_id = ''XST-003'', severity = WARNING,
                     msg = Msg ''XST-003 WARNING: Prior RE ({}) + Net Income ({}) + Dividends ({}) = {}, but Current RE = {} (Delta = {}). May be due to other comprehensive income items.''
                             [prior, ni, dv, expd, cur, dlt],
                     expected = Some expd, actual = Some cur, delta = Some dlt\<rparr>])
      | _ \<Rightarrow> skipped ''XST-003'' ''XST-003 skipped: retained earnings or net_income fields not available.'')"

subsection \<open>The engine\<close>

definition RULES :: "(data_bag \<Rightarrow> finding list) list" where
  "RULES = [run_val_001, run_val_002, run_val_003, run_xst_001, run_xst_002, run_xst_003]"

definition engine_run :: "data_bag \<Rightarrow> validation_result" where
  "engine_run bag = foldl (\<lambda>r rule. r\<lparr>findings := findings r @ rule bag\<rparr>) \<lparr>findings = []\<rparr> RULES"

datatype validation_blocked_error = ValidationBlockedError validation_result

definition assert_exportable :: "validation_result \<Rightarrow> validation_blocked_error + unit" where
  "assert_exportable r = (if is_blocked r then Inl (ValidationBlockedError r) else Inr ())"

subsection \<open>Confidence\<close>

record confidence_score =
  base_score :: int
  final_score :: int
  deductions :: "(string \<times> int \<times> severity \<times> message) list"

definition is_high_confidence :: "confidence_score \<Rightarrow> bool" where
  "is_high_confidence c \<longleftrightarrow> 80 \<le> final_score c"

definition is_low_confidence :: "confidence_score \<Rightarrow> bool" where
  "is_low_confidence c \<longleftrightarrow> final_score c < 60"

definition base_confidence :: int where "base_confidence = 100"
definition deduction_per_critical :: int where "deduction_per_critical = 25"
definition deduction_per_warning :: int where "deduction_per_warning = 5"

definition deduct :: "(string \<times> int \<times> severity \<times> message) list \<times> int \<Rightarrow> finding
    \<Rightarrow> (string \<times> int \<times> severity \<times> message) list \<times> int" where
  "deduct acc f =
     (case severity f of
        CRITICAL \<Rightarrow> (fst acc @ [(rule_id f, deduction_per_critical, CRITICAL, msg f)],
                     snd acc - deduction_per_critical)
      | WARNING \<Rightarrow> (fst acc @ [(rule_id f, deduction_per_warning, WARNING, msg f)],
                     snd acc - deduction_per_warning)
      | INFO \<Rightarrow> acc)"

definition compute_confidence :: "validation_result \<Rightarrow> confidence_score" where
  "compute_confidence r =
     (let (ds, running) = foldl deduct ([], base_confidence) (findings r)
      in \<lparr>base_score = base_confidence, final_score = max 0 (min 100 running), deductions = ds\<rparr>)"

subsection \<open>Aggregation of parsed items\<close>

text \<open>The attribute names the aggregator hands to \<open>setattr\<close>; \<open>A_cash_bs\<close> is \<open>''_cash_bs''\<close>.\<close>

datatype bag_attr =
    A_revenue
  | A_cogs
  | A_gross_profit
  | A_operating_income
  | A_net_income
  | A_total_assets
  | A_total_liabilities
  | A_total_equity
  | A_retained_earnings_current
  | A_dividends_paid
  | A_operating_cash_flow
  | A_investing_cash_flow
  | A_financing_cash_flow
  | A_net_change_in_cash
  | A_cash_bs

definition CANONICAL_TO_BAG_FIELD :: "(string \<times> bag_attr) list" where
  "CANONICAL_TO_BAG_FIELD =
    [(''revenue'', A_revenue),
     (''cogs'', A_cogs),
     (''gross_profit'', A_gross_profit),
     (''operating_income'', A_operating_income),
     (''net_income'', A_net_income),
     (''total_assets'', A_total_assets),
     (''total_liabilities'', A_total_liabilities),
     (''total_equity'', A_total_equity),
     (''retained_earnings'', A_retained_earnings_current),
     (''dividends_paid'', A_dividends_paid),
     (''operating_cash_flow'', A_operating_cash_flow),
     (''investing_cash_flow'', A_investing_cash_flow),
     (''financing_cash_flow'', A_financing_cash_flow),
     (''net_change_in_cash'', A_net_change_in_cash),
     (''cash_and_equivalents'', A_cash_bs)]"

text \<open>One pass of the selection loop; \<open>best\<close> is the dict, in insertion order.\<close>

definition select_item :: "(string \<times> parsed_line_item) list \<Rightarrow> parsed_line_item
    \<Rightarrow> (string \<times> parsed_line_item) list" where
  "select_item best item =
     (let field_name = canonical_field item in
      if map_of CANONICAL_TO_BAG_FIELD field_name = None then best
      else case map_of best field_name of
        None \<Rightarrow> AList.update field_name item best
      | Some existing \<Rightarrow>
          (let item_fy = (fiscal_period item = ''FY''); exist_fy = (fiscal_period existing = ''FY'')
           in if item_fy \<and> \<not> exist_fy then AList.update field_name item best
              else if item_fy = exist_fy
              then (if filing_date existing < filing_date item
                    then AList.update field_name item best else best)
              else best))"

text \<open>\<open>setattr\<close> on the bag, and the two special cases around it.\<close>

fun set_bag_attr :: "bag_attr \<Rightarrow> decimal option \<Rightarrow> data_bag \<Rightarrow> data_bag" where
  "set_bag_attr A_cash_bs v bag = bag\<lparr>closing_cash := v\<rparr>"
| "set_bag_attr A_revenue v bag = bag\<lparr>revenue := v\<rparr>"
| "set_bag_attr A_cogs v bag = bag\<lparr>cogs := v\<rparr>"
| "set_bag_attr A_gross_profit v bag = bag\<lparr>gross_profit := v\<rparr>"
| "set_bag_attr A_operating_income v bag = bag\<lparr>operating_income := v\<rparr>"
| "set_bag_attr A_net_income v bag = bag\<lparr>net_income := v\<rparr>"
| "set_bag_attr A_total_assets v bag = bag\<lparr>total_assets := v\<rparr>"
| "set_bag_attr A_total_liabilities v bag = bag\<lparr>total_liabilities := v\<rparr>"
| "set_bag_attr A_total_equity v bag = bag\<lparr>total_equity := v\<rparr>"
| "set_bag_attr A_retained_earnings_current v bag = bag\<lparr>retained_earnings_current := v\<rparr>"
| "set_bag_attr A_dividends_paid v bag = bag\<lparr>dividends_paid := v\<rparr>"
| "set_bag_attr A_operating_cash_flow v bag = bag\<lparr>operating_cash_flow := v\<rparr>"
| "set_bag_attr A_investing_cash_flow v bag = bag\<lparr>investing_cash_flow := v\<rparr>"
| "set_bag_attr A_financing_cash_flow v bag = bag\<lparr>financing_cash_flow := v\<rparr>"
| "set_bag_attr A_net_change_in_cash v bag = bag\<lparr>net_change_in_cash := v\<rparr>"

definition fill_bag :: "data_bag \<Rightarrow> string \<times> parsed_line_item \<Rightarrow> data_bag" where
  "fill_bag bag ci =
     (case map_of CANONICAL_TO_BAG_FIELD (fst ci) of
        None \<Rightarrow> bag
      | Some a \<Rightarrow> set_bag_attr a (Some (value_reported (snd ci))) bag)"

definition aggregate_line_items_to_bag :: "parsed_line_item list \<Rightarrow> data_bag" where
  "aggregate_line_items_to_bag items =
     (let best = foldl select_item [] items;
          bag = foldl fill_bag empty_bag best
      in if cf_net_income_start bag = None \<and> net_income bag \<noteq> None
         then bag\<lparr>cf_net_income_start := net_income bag\<rparr> else bag)"

record validation_report =
  validation_result :: validation_result
  confidence :: confidence_score
  items_validated :: nat
  is_exportable :: bool

definition validate_parsed_items :: "parsed_line_item list \<Rightarrow> validation_report" where
  "validate_parsed_items items =
     (let bag = aggregate_line_items_to_bag items; result = engine_run bag
      in \<lparr>validation_result = result, confidence = compute_confidence result,
          items_validated = length items, is_exportable = \<not> is_blocked result\<rparr>)"

subsection \<open>The contract the six rules share\<close>

text \<open>
  What a rule compares: \<open>None\<close> when a value it needs is missing, else the two numbers it
  hands to the tolerance check.
\<close>

type_synonym sides = "data_bag \<Rightarrow> (decimal \<times> decimal) option"

definition violated :: "sides \<Rightarrow> data_bag \<Rightarrow> bool" where
  "violated sides bag = (case sides bag of None \<Rightarrow> False | Some (x, y) \<Rightarrow> \<not> fst (within_default x y))"

locale balance_rule =
  fixes rule :: "data_bag \<Rightarrow> finding list"
    and rid :: string
    and sev :: severity
    and sides :: sides
  assumes skips: "sides bag = None \<Longrightarrow> \<exists>t. rule bag = skipped rid t"
    and passes: "sides bag = Some (x, y) \<Longrightarrow> fst (within_default x y) \<Longrightarrow> rule bag = []"
    and fails: "sides bag = Some (x, y) \<Longrightarrow> \<not> fst (within_default x y) \<Longrightarrow>
      \<exists>f. rule bag = [f] \<and> rule_id f = rid \<and> severity f = sev \<and> delta f = Some (snd (within_default x y))"
    and real_severity: "sev \<noteq> INFO"
begin

lemma rule_cases:
  obtains (skip) t where "sides bag = None" "\<not> violated sides bag" "rule bag = skipped rid t"
  | (pass) "sides bag \<noteq> None" "\<not> violated sides bag" "rule bag = []"
  | (fail) f where "violated sides bag" "rule bag = [f]" "rule_id f = rid" "severity f = sev"
proof (cases "sides bag")
  case None
  then show thesis using skips[OF None] skip by (auto simp: violated_def)
next
  case (Some xy)
  obtain x y where xy: "sides bag = Some (x, y)" using Some by (cases xy) auto
  show thesis
  proof (cases "fst (within_default x y)")
    case True
    with xy passes[OF xy True] pass show thesis by (simp add: violated_def)
  next
    case False
    with xy fails[OF xy False] fail show thesis by (auto simp: violated_def)
  qed
qed

lemma rule_length: "length (rule bag) \<le> 1"
  by (rule rule_cases[of bag]) (simp_all add: skipped_def)

lemma rule_findings: "f \<in> set (rule bag) \<Longrightarrow> rule_id f = rid \<and> severity f \<in> {INFO, sev}"
  by (rule rule_cases[of bag]) (auto simp: skipped_def)

lemma count_severity:
  "s \<noteq> INFO \<Longrightarrow> length (filter (\<lambda>f. severity f = s) (rule bag))
     = (if violated sides bag \<and> sev = s then 1 else 0)"
  by (rule rule_cases[of bag]) (auto simp: skipped_def)

lemma silent_iff: "rule bag = [] \<longleftrightarrow> sides bag \<noteq> None \<and> \<not> violated sides bag"
  by (rule rule_cases[of bag]) (auto simp: skipped_def)

end

definition val_001_sides :: sides where
  "val_001_sides bag = (case (revenue bag, cogs bag, gross_profit bag) of
     (Some rv, Some cg, Some gp) \<Rightarrow> Some (dec_add rv cg, gp) | _ \<Rightarrow> None)"

definition val_002_sides :: sides where
  "val_002_sides bag = (case (total_assets bag, total_liabilities bag, total_equity bag) of
     (Some tas, Some tls, Some teq) \<Rightarrow> Some (tas, dec_add tls teq) | _ \<Rightarrow> None)"

definition val_003_sides :: sides where
  "val_003_sides bag =
     (case (operating_cash_flow bag, investing_cash_flow bag, financing_cash_flow bag, net_change_in_cash bag) of
        (Some ocf, Some icf, Some fcf, Some net) \<Rightarrow> Some (dec_add (dec_add ocf icf) fcf, net) | _ \<Rightarrow> None)"

definition xst_001_sides :: sides where
  "xst_001_sides bag = (case (net_income bag, cf_net_income_start bag) of
     (Some ni, Some st) \<Rightarrow> Some (ni, st) | _ \<Rightarrow> None)"

definition xst_002_sides :: sides where
  "xst_002_sides bag = (case (opening_cash bag, net_change_in_cash bag, closing_cash bag) of
     (Some op, Some net, Some cl) \<Rightarrow> Some (dec_add op net, cl) | _ \<Rightarrow> None)"

definition xst_003_sides :: sides where
  "xst_003_sides bag =
     (case (retained_earnings_prior bag, net_income bag, dividends_paid bag, retained_earnings_current bag) of
        (Some prior, Some ni, Some dv, Some cur) \<Rightarrow> Some (dec_add (dec_add prior ni) dv, cur) | _ \<Rightarrow> None)"

lemmas rule_unfolds =
  run_val_001_def val_001_sides_def run_val_002_def val_002_sides_def run_val_003_def val_003_sides_def
  run_xst_001_def xst_001_sides_def run_xst_002_def xst_002_sides_def run_xst_003_def xst_003_sides_def

interpretation v1: balance_rule run_val_001 "''VAL-001''" CRITICAL val_001_sides
  by unfold_locales (auto simp: rule_unfolds Let_def split: option.splits prod.splits)

interpretation v2: balance_rule run_val_002 "''VAL-002''" CRITICAL val_002_sides
  by unfold_locales (auto simp: rule_unfolds Let_def split: option.splits prod.splits)

interpretation v3: balance_rule run_val_003 "''VAL-003''" CRITICAL val_003_sides
  by unfold_locales (auto simp: rule_unfolds Let_def split: option.splits prod.splits)

interpretation x1: balance_rule run_xst_001 "''XST-001''" CRITICAL xst_001_sides
  by unfold_locales (auto simp: rule_unfolds Let_def split: option.splits prod.splits)

interpretation x2: balance_rule run_xst_002 "''XST-002''" CRITICAL xst_002_sides
  by unfold_locales (auto simp: rule_unfolds Let_def split: option.splits prod.splits)

interpretation x3: balance_rule run_xst_003 "''XST-003''" WARNING xst_003_sides
  by unfold_locales (auto simp: rule_unfolds Let_def split: option.splits prod.splits)

lemmas rule_counts = v1.count_severity v2.count_severity v3.count_severity
  x1.count_severity x2.count_severity x3.count_severity

lemmas rule_lengths = v1.rule_length v2.rule_length v3.rule_length
  x1.rule_length x2.rule_length x3.rule_length

lemma engine_findings: "findings (engine_run bag) = concat (map (\<lambda>rule. rule bag) RULES)"
  by (simp add: engine_run_def RULES_def)

definition critical_sides :: "sides list" where
  "critical_sides = [val_001_sides, val_002_sides, val_003_sides, xst_001_sides, xst_002_sides]"

lemma critical_count:
  "length (critical_findings (engine_run bag)) = length (filter (\<lambda>s. violated s bag) critical_sides)"
  by (simp add: critical_findings_def engine_findings RULES_def rule_counts critical_sides_def)

lemma warning_count:
  "length (warning_findings (engine_run bag)) = (if violated xst_003_sides bag then 1 else 0)"
  by (simp add: warning_findings_def engine_findings RULES_def rule_counts)

lemma blocked_iff_critical: "is_blocked r \<longleftrightarrow> 0 < length (critical_findings r)"
  by (auto simp: is_blocked_def critical_findings_def length_greater_0_conv filter_empty_conv)

lemma engine_blocked_iff: "is_blocked (engine_run bag) \<longleftrightarrow> (\<exists>s \<in> set critical_sides. violated s bag)"
  by (simp add: blocked_iff_critical critical_count length_greater_0_conv filter_empty_conv)

lemma engine_findings_length: "length (findings (engine_run bag)) \<le> 6"
  using rule_lengths[of bag] by (simp add: engine_findings RULES_def)

subsection \<open>Confidence is the schedule of deductions\<close>

lemma foldl_deduct:
  "foldl deduct (ds, n) fs =
     (ds @ fst (foldl deduct ([], 0) fs),
      n - 25 * int (length (filter (\<lambda>f. severity f = CRITICAL) fs))
        - 5 * int (length (filter (\<lambda>f. severity f = WARNING) fs)))"
proof (induction fs arbitrary: ds n)
  case Nil
  then show ?case by simp
next
  case (Cons f fs)
  show ?case
  proof (cases "severity f")
    case INFO
    then show ?thesis using Cons[of ds n] Cons[of "[]" 0] by (simp add: deduct_def)
  qed (use Cons[of "_ @ _"] Cons[of "[_]"] in
        \<open>simp_all add: deduct_def deduction_per_critical_def deduction_per_warning_def\<close>)
qed

lemma final_score_eq:
  "final_score (compute_confidence r) =
     max 0 (min 100 (100 - 25 * int (length (critical_findings r)) - 5 * int (length (warning_findings r))))"
  by (simp add: compute_confidence_def foldl_deduct[of "[]" 100] base_confidence_def
      critical_findings_def warning_findings_def)

subsection \<open>Tolerance on two-decimal money\<close>

text \<open>
  The columns the bag is filled from are \<^verbatim>\<open>NUMERIC(26,2)\<close>.  On sums of a few of them no
  context rounding happens, so the tolerance check is the inequality on rationals that the
  module documents.
\<close>

definition money :: "int \<Rightarrow> decimal \<Rightarrow> bool" where
  "money n d \<longleftrightarrow> expo d = -2 \<and> \<bar>coeff d\<bar> < n * 10 ^ 26"

definition close :: "rat \<Rightarrow> rat \<Rightarrow> bool" where
  "close x y \<longleftrightarrow> \<bar>x - y\<bar> \<le> max 1000 (5 / 1000 * max (max \<bar>x\<bar> \<bar>y\<bar>) 1)"

lemma money_fits: "money n d \<Longrightarrow> n \<le> 100 \<Longrightarrow> fits d"
  by (simp add: money_def fits_def prec_def)

lemma money_exact_add: "money m a \<Longrightarrow> money n b \<Longrightarrow> money (m + n) (exact_add a b)"
  by (simp add: money_def exact_add_def scale_to_def algebra_simps abs_if split: if_splits)

lemma money_add:
  assumes "money m a" and "money n b" and "m + n \<le> 100"
  shows "money (m + n) (dec_add a b)" and "dval (dec_add a b) = dval a + dval b"
  using money_exact_add[OF assms(1,2)] money_fits[OF money_exact_add[OF assms(1,2)] assms(3)]
  by (simp_all add: dec_add_exact dval_exact_add)

lemma money_neg: "money n d \<Longrightarrow> money n (dec_neg d)"
  by (simp add: money_def dec_neg_def)

lemma money_mono: "money m d \<Longrightarrow> m \<le> n \<Longrightarrow> money n d"
  by (auto simp: money_def)

lemma money_max_1:
  assumes "money n d" and "n \<le> 19"
  shows "dval (dec_mul (Dec 5 (- 3)) (dec_max d (Dec 1 0))) = max (dval d) 1 / 200"
proof -
  have "\<bar>coeff (Dec 5 (- 3)) * coeff (dec_max d (Dec 1 0))\<bar> < 10 ^ prec"
    using assms by (auto simp: money_def dec_max_def prec_def abs_mult)
  then have "dval (dec_mul (Dec 5 (- 3)) (dec_max d (Dec 1 0)))
      = dval (Dec 5 (- 3)) * dval (dec_max d (Dec 1 0))"
    by (rule dval_mul)
  then show ?thesis
    unfolding dval_max by (simp add: dval_Dec power_int_minus)
qed

lemma within_default_money:
  assumes "money 3 x" and "money 3 y"
  shows "fst (within_default x y) \<longleftrightarrow> close (dval x) (dval y)"
    and "dval (snd (within_default x y)) = \<bar>dval x - dval y\<bar>"
proof -
  have sub: "money 6 (dec_sub x y)" "dval (dec_sub x y) = dval x - dval y"
    using money_add[OF assms(1) money_neg[OF assms(2)]] by (simp_all add: dec_sub_def)
  have abs: "money n (dec_abs d)" "dval (dec_abs d) = \<bar>dval d\<bar>" if "money n d" "n \<le> 100" for n d
    using that money_fits[OF that] dval_abs[OF money_fits[OF that]]
    by (simp_all add: dec_abs_def money_def fits_def)
  have "money 3 (dec_max (dec_abs x) (dec_abs y))"
    using assms abs(1)[of 3] by (simp add: dec_max_def)
  then show "fst (within_default x y) \<longleftrightarrow> close (dval x) (dval y)"
    using assms sub abs[of 3] abs[of 6]
    by (simp add: money_max_1[where n = 3] within_default_def within_tolerance_def Let_def dec_le_iff dval_max close_def
        default_absolute_tolerance_def default_relative_tolerance_def dval_Dec)
  show "dval (snd (within_default x y)) = \<bar>dval x - dval y\<bar>"
    using sub abs[of 6] by (simp add: within_default_def within_tolerance_def Let_def)
qed

lemma close_sym: "close x y \<longleftrightarrow> close y x"
  by (simp add: close_def abs_minus_commute max.commute)

definition bag_values :: "data_bag \<Rightarrow> decimal option list" where
  "bag_values bag = [revenue bag, cogs bag, gross_profit bag, operating_income bag, net_income bag,
     total_assets bag, total_liabilities bag, total_equity bag, opening_cash bag, closing_cash bag,
     retained_earnings_prior bag, retained_earnings_current bag, dividends_paid bag,
     operating_cash_flow bag, investing_cash_flow bag, financing_cash_flow bag,
     net_change_in_cash bag, cf_net_income_start bag]"

definition money_bag :: "data_bag \<Rightarrow> bool" where
  "money_bag bag = list_all (\<lambda>v. case v of None \<Rightarrow> True | Some d \<Rightarrow> money 1 d) (bag_values bag)"

text \<open>The accounting identities, on the rational values of the bag.\<close>

definition income_identity :: "data_bag \<Rightarrow> bool" where
  "income_identity bag = (case (revenue bag, cogs bag, gross_profit bag) of
     (Some rv, Some cg, Some gp) \<Rightarrow> close (dval rv + dval cg) (dval gp) | _ \<Rightarrow> True)"

definition balance_identity :: "data_bag \<Rightarrow> bool" where
  "balance_identity bag = (case (total_assets bag, total_liabilities bag, total_equity bag) of
     (Some tas, Some tls, Some teq) \<Rightarrow> close (dval tas) (dval tls + dval teq) | _ \<Rightarrow> True)"

definition cash_flow_identity :: "data_bag \<Rightarrow> bool" where
  "cash_flow_identity bag =
     (case (operating_cash_flow bag, investing_cash_flow bag, financing_cash_flow bag, net_change_in_cash bag) of
        (Some ocf, Some icf, Some fcf, Some net) \<Rightarrow> close (dval ocf + dval icf + dval fcf) (dval net)
      | _ \<Rightarrow> True)"

definition net_income_interlock :: "data_bag \<Rightarrow> bool" where
  "net_income_interlock bag = (case (net_income bag, cf_net_income_start bag) of
     (Some ni, Some st) \<Rightarrow> close (dval ni) (dval st) | _ \<Rightarrow> True)"

definition cash_bridge :: "data_bag \<Rightarrow> bool" where
  "cash_bridge bag = (case (opening_cash bag, net_change_in_cash bag, closing_cash bag) of
     (Some op, Some net, Some cl) \<Rightarrow> close (dval op + dval net) (dval cl) | _ \<Rightarrow> True)"

definition retained_earnings_bridge :: "data_bag \<Rightarrow> bool" where
  "retained_earnings_bridge bag =
     (case (retained_earnings_prior bag, net_income bag, dividends_paid bag, retained_earnings_current bag) of
        (Some prior, Some ni, Some dv, Some cur) \<Rightarrow> close (dval prior + dval ni + dval dv) (dval cur)
      | _ \<Rightarrow> True)"

lemma money_values:
  assumes "money_bag bag"
  shows "revenue bag = Some d \<Longrightarrow> money 1 d"
    and "cogs bag = Some d \<Longrightarrow> money 1 d"
    and "gross_profit bag = Some d \<Longrightarrow> money 1 d"
    and "operating_income bag = Some d \<Longrightarrow> money 1 d"
    and "net_income bag = Some d \<Longrightarrow> money 1 d"
    and "total_assets bag = Some d \<Longrightarrow> money 1 d"
    and "total_liabilities bag = Some d \<Longrightarrow> money 1 d"
    and "total_equity bag = Some d \<Longrightarrow> money 1 d"
    and "opening_cash bag = Some d \<Longrightarrow> money 1 d"
    and "closing_cash bag = Some d \<Longrightarrow> money 1 d"
    and "retained_earnings_prior bag = Some d \<Longrightarrow> money 1 d"
    and "retained_earnings_current bag = Some d \<Longrightarrow> money 1 d"
    and "dividends_paid bag = Some d \<Longrightarrow> money 1 d"
    and "operating_cash_flow bag = Some d \<Longrightarrow> money 1 d"
    and "investing_cash_flow bag = Some d \<Longrightarrow> money 1 d"
    and "financing_cash_flow bag = Some d \<Longrightarrow> money 1 d"
    and "net_change_in_cash bag = Some d \<Longrightarrow> money 1 d"
    and "cf_net_income_start bag = Some d \<Longrightarrow> money 1 d"
  using assms by (simp_all add: money_bag_def bag_values_def)

lemma money_sum2: "money 1 a \<Longrightarrow> money 1 b \<Longrightarrow>
    money 3 (dec_add a b) \<and> dval (dec_add a b) = dval a + dval b"
  using money_add[of 1 a 1 b] money_mono[of 2 _ 3] by simp

lemma money_sum3: "money 1 a \<Longrightarrow> money 1 b \<Longrightarrow> money 1 c \<Longrightarrow>
    money 3 (dec_add (dec_add a b) c) \<and> dval (dec_add (dec_add a b) c) = dval a + dval b + dval c"
  using money_add[of 1 a 1 b] money_add[of 2 "dec_add a b" 1 c] by simp

lemma within_money_sum:
  "money 1 a \<Longrightarrow> money 1 b \<Longrightarrow> fst (within_default a b) \<longleftrightarrow> close (dval a) (dval b)"
  "money 1 a \<Longrightarrow> money 1 b \<Longrightarrow> money 1 c \<Longrightarrow>
     fst (within_default (dec_add a b) c) \<longleftrightarrow> close (dval a + dval b) (dval c)"
  "money 1 a \<Longrightarrow> money 1 b \<Longrightarrow> money 1 c \<Longrightarrow>
     fst (within_default c (dec_add a b)) \<longleftrightarrow> close (dval c) (dval a + dval b)"
  "money 1 a \<Longrightarrow> money 1 b \<Longrightarrow> money 1 c \<Longrightarrow> money 1 d \<Longrightarrow>
     fst (within_default (dec_add (dec_add a b) c) d) \<longleftrightarrow> close (dval a + dval b + dval c) (dval d)"
  using money_sum2[of a b] money_sum3[of a b c] within_default_money money_mono[of 1 _ 3]
  by simp_all

lemma violated_money:
  assumes "money_bag bag"
  shows "violated val_001_sides bag \<longleftrightarrow> \<not> income_identity bag"
    and "violated val_002_sides bag \<longleftrightarrow> \<not> balance_identity bag"
    and "violated val_003_sides bag \<longleftrightarrow> \<not> cash_flow_identity bag"
    and "violated xst_001_sides bag \<longleftrightarrow> \<not> net_income_interlock bag"
    and "violated xst_002_sides bag \<longleftrightarrow> \<not> cash_bridge bag"
    and "violated xst_003_sides bag \<longleftrightarrow> \<not> retained_earnings_bridge bag"
  by (simp_all add: violated_def rule_unfolds income_identity_def balance_identity_def cash_flow_identity_def
      net_income_interlock_def cash_bridge_def retained_earnings_bridge_def
      within_money_sum money_values[OF assms] split: option.split)

subsection \<open>What the aggregation selects\<close>

definition is_fy :: "parsed_line_item \<Rightarrow> bool" where
  "is_fy i \<longleftrightarrow> fiscal_period i = ''FY''"

text \<open>\<open>better x y\<close>: \<open>x\<close> displaces \<open>y\<close>, annual before interim, then the later filing.\<close>

definition better :: "parsed_line_item \<Rightarrow> parsed_line_item \<Rightarrow> bool" where
  "better x y \<longleftrightarrow> is_fy x \<and> \<not> is_fy y \<or> is_fy x = is_fy y \<and> filing_date y < filing_date x"

fun pick :: "parsed_line_item option \<Rightarrow> parsed_line_item \<Rightarrow> parsed_line_item option" where
  "pick None x = Some x"
| "pick (Some y) x = Some (if better x y then x else y)"

lemma select_item_map_of:
  "map_of (select_item best item) =
     (if map_of CANONICAL_TO_BAG_FIELD (canonical_field item) = None then map_of best
      else (map_of best)(canonical_field item := pick (map_of best (canonical_field item)) item))"
  by (auto simp: select_item_def Let_def update_conv better_def is_fy_def fun_eq_iff split: option.splits)

lemma select_fold_map_of:
  assumes "map_of CANONICAL_TO_BAG_FIELD k \<noteq> None"
  shows "map_of (foldl select_item best items) k =
     foldl pick (map_of best k) (filter (\<lambda>i. canonical_field i = k) items)"
  using assms by (induction items arbitrary: best) (auto simp: select_item_map_of)

lemma select_distinct: "distinct (map fst best) \<Longrightarrow> distinct (map fst (select_item best item))"
  by (auto simp: select_item_def Let_def distinct_update split: option.splits)

lemma select_fold_distinct: "distinct (map fst best) \<Longrightarrow> distinct (map fst (foldl select_item best items))"
  by (induction items arbitrary: best) (simp_all add: select_distinct)

lemma foldl_pick_Some: "\<exists>x. foldl pick (Some y) xs = Some x"
  by (induction xs arbitrary: y) simp_all

lemma foldl_pick_None: "foldl pick None xs = None \<longleftrightarrow> xs = []"
proof (cases xs)
  case (Cons y ys)
  with foldl_pick_Some[of y ys] show ?thesis by auto
qed simp

lemma better_trans: "better x y \<Longrightarrow> better y z \<Longrightarrow> better x z"
  by (auto simp: better_def)

lemma not_better_trans: "\<not> better x y \<Longrightarrow> \<not> better y z \<Longrightarrow> \<not> better x z"
  by (auto simp: better_def)

lemma better_not_better_trans: "better x y \<Longrightarrow> \<not> better z y \<Longrightarrow> better x z"
  by (auto simp: better_def)

text \<open>The fold returns the first of the best.\<close>

definition first_best :: "parsed_line_item \<Rightarrow> parsed_line_item list \<Rightarrow> bool" where
  "first_best x zs \<longleftrightarrow> (\<exists>xs ys. zs = xs @ x # ys \<and> (\<forall>y \<in> set xs. better x y) \<and> (\<forall>y \<in> set ys. \<not> better y x))"

lemma first_best_single: "first_best x [x]"
  unfolding first_best_def by (intro exI[of _ "[]"]) simp

lemma first_best_snoc: "first_best y xs \<Longrightarrow> first_best (if better x y then x else y) (xs @ [x])"
proof (cases "better x y")
  case True
  assume "first_best y xs"
  then obtain us vs where xs: "xs = us @ y # vs"
    and us: "\<forall>z \<in> set us. better y z" and vs: "\<forall>z \<in> set vs. \<not> better z y"
    by (auto simp: first_best_def)
  have "\<forall>z \<in> set xs. better x z"
  proof
    fix z
    assume "z \<in> set xs"
    then consider "z \<in> set us" | "z = y" | "z \<in> set vs" by (auto simp: xs)
    then show "better x z"
      by cases (use True us vs better_trans[OF True] better_not_better_trans[OF True] in auto)
  qed
  with True show ?thesis
    unfolding first_best_def by (intro exI[of _ xs] exI[of _ "[]"]) simp
next
  case False
  assume "first_best y xs"
  then obtain us vs where "xs = us @ y # vs"
    "\<forall>z \<in> set us. better y z" "\<forall>z \<in> set vs. \<not> better z y"
    by (auto simp: first_best_def)
  with False have "xs @ [x] = us @ y # (vs @ [x]) \<and> (\<forall>z \<in> set us. better y z) \<and>
      (\<forall>z \<in> set (vs @ [x]). \<not> better z y)" by auto
  then have "first_best y (xs @ [x])" unfolding first_best_def by blast
  with False show ?thesis by simp
qed

lemma foldl_pick_first_best: "foldl pick None xs = Some x \<Longrightarrow> first_best x xs"
proof (induction xs arbitrary: x rule: rev_induct)
  case Nil
  then show ?case by simp
next
  case (snoc z xs)
  show ?case
  proof (cases "foldl pick None xs")
    case None
    then have "xs = []" by (simp add: foldl_pick_None)
    with snoc.prems show ?thesis by (simp add: first_best_single)
  next
    case (Some y)
    with snoc first_best_snoc[OF snoc.IH[OF Some], of z] show ?thesis by simp
  qed
qed

fun get_bag_attr :: "bag_attr \<Rightarrow> data_bag \<Rightarrow> decimal option" where
  "get_bag_attr A_cash_bs bag = closing_cash bag"
| "get_bag_attr A_revenue bag = revenue bag"
| "get_bag_attr A_cogs bag = cogs bag"
| "get_bag_attr A_gross_profit bag = gross_profit bag"
| "get_bag_attr A_operating_income bag = operating_income bag"
| "get_bag_attr A_net_income bag = net_income bag"
| "get_bag_attr A_total_assets bag = total_assets bag"
| "get_bag_attr A_total_liabilities bag = total_liabilities bag"
| "get_bag_attr A_total_equity bag = total_equity bag"
| "get_bag_attr A_retained_earnings_current bag = retained_earnings_current bag"
| "get_bag_attr A_dividends_paid bag = dividends_paid bag"
| "get_bag_attr A_operating_cash_flow bag = operating_cash_flow bag"
| "get_bag_attr A_investing_cash_flow bag = investing_cash_flow bag"
| "get_bag_attr A_financing_cash_flow bag = financing_cash_flow bag"
| "get_bag_attr A_net_change_in_cash bag = net_change_in_cash bag"

lemma get_set_bag_attr:
  "get_bag_attr a (set_bag_attr b v bag) = (if a = b then v else get_bag_attr a bag)"
  by (cases b; cases a) simp_all

lemma canonical_attr_inj:
  "map_of CANONICAL_TO_BAG_FIELD c = Some a \<Longrightarrow> map_of CANONICAL_TO_BAG_FIELD d = Some a \<Longrightarrow> c = d"
  by (rule map_of_value_inj[of CANONICAL_TO_BAG_FIELD]) (simp_all add: CANONICAL_TO_BAG_FIELD_def)

lemma fill_bag_attr:
  assumes "map_of CANONICAL_TO_BAG_FIELD c = Some a"
  shows "get_bag_attr a (fill_bag bag (d, i)) = (if d = c then Some (value_reported i) else get_bag_attr a bag)"
proof (cases "map_of CANONICAL_TO_BAG_FIELD d")
  case None
  with assms show ?thesis by (auto simp: fill_bag_def)
next
  case (Some b)
  then show ?thesis
    using assms canonical_attr_inj[of c a d] by (auto simp: fill_bag_def get_set_bag_attr)
qed

lemma fill_fold_attr:
  assumes "map_of CANONICAL_TO_BAG_FIELD c = Some a" and "distinct (map fst best)"
  shows "get_bag_attr a (foldl fill_bag bag best) =
     (case map_of best c of Some i \<Rightarrow> Some (value_reported i) | None \<Rightarrow> get_bag_attr a bag)"
  using assms(2)
proof (induction best arbitrary: bag)
  case Nil
  then show ?case by simp
next
  case (Cons di best)
  obtain d i where di: "di = (d, i)" by (cases di)
  have "d = c \<Longrightarrow> map_of best c = None" using Cons.prems di by (simp add: map_of_eq_None_iff)
  then show ?case using Cons di fill_bag_attr[OF assms(1), of bag d i] by (auto split: option.splits)
qed

definition filled_bag :: "parsed_line_item list \<Rightarrow> data_bag" where
  "filled_bag items = foldl fill_bag empty_bag (foldl select_item [] items)"

lemma aggregate_filled:
  "aggregate_line_items_to_bag items =
     (if cf_net_income_start (filled_bag items) = None \<and> net_income (filled_bag items) \<noteq> None
      then (filled_bag items)\<lparr>cf_net_income_start := net_income (filled_bag items)\<rparr> else filled_bag items)"
  by (simp add: aggregate_line_items_to_bag_def filled_bag_def Let_def)

lemma get_cf_update [simp]: "get_bag_attr a (bag\<lparr>cf_net_income_start := v\<rparr>) = get_bag_attr a bag"
  by (cases a) simp_all

lemma get_aggregate: "get_bag_attr a (aggregate_line_items_to_bag items) = get_bag_attr a (filled_bag items)"
  by (simp add: aggregate_filled)

lemma get_empty_bag [simp]: "get_bag_attr a empty_bag = None"
  by (cases a) (simp_all add: empty_bag_def)

lemma get_filled:
  assumes "map_of CANONICAL_TO_BAG_FIELD c = Some a"
  shows "get_bag_attr a (filled_bag items) =
     map_option value_reported (foldl pick None (filter (\<lambda>i. canonical_field i = c) items))"
  using fill_fold_attr[OF assms select_fold_distinct[of "[]" items], of empty_bag] assms
  by (simp add: filled_bag_def select_fold_map_of split: option.splits)

lemma set_never_sets:
  "opening_cash (set_bag_attr a v bag) = opening_cash bag"
  "retained_earnings_prior (set_bag_attr a v bag) = retained_earnings_prior bag"
  "cf_net_income_start (set_bag_attr a v bag) = cf_net_income_start bag"
  by (cases a; simp)+

lemma fill_never_sets:
  "opening_cash (fill_bag bag ci) = opening_cash bag"
  "retained_earnings_prior (fill_bag bag ci) = retained_earnings_prior bag"
  "cf_net_income_start (fill_bag bag ci) = cf_net_income_start bag"
  by (simp_all add: fill_bag_def set_never_sets split: option.split)

lemma fill_fold_never_sets:
  "opening_cash (foldl fill_bag bag best) = opening_cash bag"
  "retained_earnings_prior (foldl fill_bag bag best) = retained_earnings_prior bag"
  "cf_net_income_start (foldl fill_bag bag best) = cf_net_income_start bag"
  by (induction best arbitrary: bag) (simp_all add: fill_never_sets)

lemma aggregate_unset:
  "opening_cash (aggregate_line_items_to_bag items) = None"
  "retained_earnings_prior (aggregate_line_items_to_bag items) = None"
  "cf_net_income_start (aggregate_line_items_to_bag items) = net_income (aggregate_line_items_to_bag items)"
  by (simp_all add: aggregate_filled filled_bag_def fill_fold_never_sets empty_bag_def)

lemma within_default_self: "fst (within_default x x)"
proof -
  have "coeff (exact_add x (dec_neg x)) = 0"
    using dval_exact_add[of x "dec_neg x"] by simp
  then have "coeff (dec_abs (dec_sub x x)) = 0"
    by (simp add: dec_sub_def dec_add_exact coeff_dec_fix_0_iff dec_abs_def)
  then have z: "dval (dec_abs (dec_sub x x)) = 0" by (rule dval_zero_iff[THEN iffD2])
  have "0 \<le> dval (dec_max default_absolute_tolerance t)" for t
    unfolding dval_max by (simp add: default_absolute_tolerance_def dval_Dec le_max_iff_disj)
  then show ?thesis
    unfolding within_default_def within_tolerance_def Let_def fst_conv dec_le_iff z by blast
qed

lemma aggregate_interlocks_silent:
  "\<not> violated xst_001_sides (aggregate_line_items_to_bag items)"
  "\<not> violated xst_002_sides (aggregate_line_items_to_bag items)"
  "\<not> violated xst_003_sides (aggregate_line_items_to_bag items)"
  by (simp_all add: violated_def rule_unfolds aggregate_unset within_default_self split: option.split)

lemma deduction_points:
  "sum_list (map (\<lambda>d. fst (snd d)) (fst (foldl deduct ([], n) fs))) =
     25 * int (length (filter (\<lambda>f. severity f = CRITICAL) fs))
       + 5 * int (length (filter (\<lambda>f. severity f = WARNING) fs))"
proof (induction fs rule: rev_induct)
  case Nil
  then show ?case by simp
next
  case (snoc f fs)
  then show ?case
    by (cases "severity f") (simp_all add: deduct_def deduction_per_critical_def deduction_per_warning_def)
qed

lemma confidence_deductions:
  "deductions (compute_confidence r) = fst (foldl deduct ([], base_confidence) (findings r))"
  by (simp add: compute_confidence_def split_beta)

subsection \<open>Properties\<close>

text \<open>
  C1: On a bag of two-decimal money values (the database columns' \<^verbatim>\<open>NUMERIC(26,2)\<close>) a run
  of the engine blocks the export exactly when one of the five critical accounting
  identities is present and off by more than the tolerance of 1,000 or 0.5 percent, the
  comparison being the exact one on rationals: no rounding of the decimal context ever
  decides it.
\<close>

theorem engine_blocks_iff_identity_violated:
  assumes "money_bag bag"
  shows "is_blocked (engine_run bag) \<longleftrightarrow>
     \<not> (income_identity bag \<and> balance_identity bag \<and> cash_flow_identity bag
        \<and> net_income_interlock bag \<and> cash_bridge bag)"
  using violated_money[OF assms] by (auto simp: engine_blocked_iff critical_sides_def)

definition sample_bag :: data_bag where
  "sample_bag = empty_bag\<lparr>revenue := Some (Dec 100000000 (-2)), cogs := Some (Dec (- 60000000) (-2)),
     gross_profit := Some (Dec 39000000 (-2))\<rparr>"

lemma engine_blocks_iff_identity_violated_witness:
  "money_bag sample_bag \<and> is_blocked (engine_run sample_bag)"
proof -
  have m: "money_bag sample_bag"
    by (simp add: sample_bag_def empty_bag_def money_bag_def bag_values_def money_def)
  have "\<not> income_identity sample_bag"
    by (simp add: sample_bag_def income_identity_def close_def dval_Dec power_int_minus)
  with m show ?thesis using engine_blocks_iff_identity_violated[OF m] by blast
qed

text \<open>
  The confidence score of a run is 100 less 25 points for every violated critical rule
  and 5 for the retained-earnings bridge, never below 0; so a report is exportable exactly
  when its score is at least 95, and a blocked one never scores above 75.
\<close>

theorem exportable_iff_confidence_95:
  "final_score (compute_confidence (engine_run bag)) =
     max 0 (100 - 25 * int (length (filter (\<lambda>s. violated s bag) critical_sides))
                - (if violated xst_003_sides bag then 5 else 0))
   \<and> (\<not> is_blocked (engine_run bag) \<longleftrightarrow> 95 \<le> final_score (compute_confidence (engine_run bag)))
   \<and> (is_blocked (engine_run bag) \<longleftrightarrow> final_score (compute_confidence (engine_run bag)) \<le> 75)"
proof -
  define n where "n = length (filter (\<lambda>s. violated s bag) critical_sides)"
  have score: "final_score (compute_confidence (engine_run bag)) =
      max 0 (100 - 25 * int n - (if violated xst_003_sides bag then 5 else 0))"
    by (auto simp: final_score_eq critical_count warning_count n_def)
  have "is_blocked (engine_run bag) \<longleftrightarrow> 0 < n"
    by (simp add: blocked_iff_critical critical_count n_def)
  then show ?thesis unfolding score n_def[symmetric] by (auto simp: max_def)
qed

text \<open>
  For any list of findings the score stays within 0 and 100, the deduction log accounts
  for every point (the score is 100 less the logged points, floored at 0), and it has one
  entry per critical or warning finding, none for an informational one.
\<close>

theorem confidence_accounts_for_findings:
  "let c = compute_confidence r; pts = sum_list (map (\<lambda>d. fst (snd d)) (deductions c))
   in 0 \<le> final_score c \<and> final_score c \<le> 100 \<and> final_score c = max 0 (base_score c - pts)
      \<and> pts = 25 * int (length (critical_findings r)) + 5 * int (length (warning_findings r))"
proof -
  let ?p = "25 * int (length (critical_findings r)) + 5 * int (length (warning_findings r))"
  have "sum_list (map (\<lambda>d. fst (snd d)) (deductions (compute_confidence r))) = ?p"
    by (simp add: confidence_deductions deduction_points critical_findings_def warning_findings_def)
  moreover have "base_score (compute_confidence r) = 100"
    by (simp add: compute_confidence_def base_confidence_def split_beta)
  moreover have "final_score (compute_confidence r) = max 0 (100 - ?p)"
    by (simp add: final_score_eq algebra_simps)
  ultimately show ?thesis by (simp add: Let_def)
qed

text \<open>
  For every mapped concept the bag holds the value of the first best item of that
  concept: an annual figure before an interim one, then the latest filing, ties going to
  the item that came first; and it holds nothing exactly when no item has the concept.
\<close>

theorem aggregate_selects_first_best:
  assumes "map_of CANONICAL_TO_BAG_FIELD c = Some a"
  shows "case get_bag_attr a (aggregate_line_items_to_bag items) of
      None \<Rightarrow> \<forall>i \<in> set items. canonical_field i \<noteq> c
    | Some v \<Rightarrow> \<exists>x. first_best x (filter (\<lambda>i. canonical_field i = c) items) \<and> v = value_reported x"
proof (cases "foldl pick None (filter (\<lambda>i. canonical_field i = c) items)")
  case None
  then show ?thesis
    by (simp add: get_aggregate get_filled[OF assms] foldl_pick_None filter_empty_conv)
next
  case (Some x)
  from foldl_pick_first_best[OF Some] show ?thesis
    using Some by (auto simp: get_aggregate get_filled[OF assms])
qed

definition sample_item :: parsed_line_item where
  "sample_item = \<lparr>company_id = ''c1'', fiscal_year = 2024, fiscal_period = ''FY'',
     reporting_standard = ''US_GAAP'', filing_date = 739000, canonical_field = ''revenue'',
     concept_raw = ''us-gaap:Revenues'', statement_type = ''IS'', value_reported = Dec 1000 (-2),
     reported_currency = Some ''USD'', source_file_hash = ''h'', extraction_method = ''xbrl'',
     derived_expression_formula = None, period_end_date = None, period_start_date = None\<rparr>"

lemma aggregate_selects_first_best_witness:
  "map_of CANONICAL_TO_BAG_FIELD ''revenue'' = Some A_revenue
   \<and> get_bag_attr A_revenue (aggregate_line_items_to_bag [sample_item]) \<noteq> None"
proof -
  have m: "map_of CANONICAL_TO_BAG_FIELD ''revenue'' = Some A_revenue"
    by (simp add: CANONICAL_TO_BAG_FIELD_def)
  from aggregate_selects_first_best[OF m, of "[sample_item]"] m show ?thesis
    by (auto simp: sample_item_def split: option.splits)
qed

text \<open>
  Validating a parsed filing never exercises the cross-statement interlocks.  The
  aggregation leaves the opening cash and the prior retained earnings unset and copies the
  net income into the cash-flow opener, so XST-001 passes or is skipped, XST-002 and XST-003
  are always skipped, and the score is one of 25, 50, 75 and 100: only the three
  intra-statement rules can block an export.
\<close>

theorem parsed_items_never_fail_interlocks:
  "let rep = validate_parsed_items items; bag = aggregate_line_items_to_bag items;
       n = length (filter (\<lambda>s. violated s bag) [val_001_sides, val_002_sides, val_003_sides])
   in run_xst_001 bag \<in> {[], skipped ''XST-001'' ''XST-001 skipped: net_income or cf_net_income_start not available.''}
      \<and> run_xst_002 bag = skipped ''XST-002'' ''XST-002 skipped: opening_cash, net_change_in_cash, or closing_cash not available.''
      \<and> run_xst_003 bag = skipped ''XST-003'' ''XST-003 skipped: retained earnings or net_income fields not available.''
      \<and> (is_exportable rep \<longleftrightarrow> n = 0)
      \<and> final_score (confidence rep) = 100 - 25 * int n"
proof -
  let ?bag = "aggregate_line_items_to_bag items"
  let ?n = "length (filter (\<lambda>s. violated s ?bag) [val_001_sides, val_002_sides, val_003_sides])"
  have crit: "length (critical_findings (engine_run ?bag)) = ?n"
    unfolding critical_count critical_sides_def by (simp add: aggregate_interlocks_silent)
  have "run_xst_001 ?bag \<in> {[], skipped ''XST-001'' ''XST-001 skipped: net_income or cf_net_income_start not available.''}"
    by (simp add: run_xst_001_def aggregate_unset within_default_self split_beta split: option.split)
  moreover have "run_xst_002 ?bag = skipped ''XST-002'' ''XST-002 skipped: opening_cash, net_change_in_cash, or closing_cash not available.''"
    "run_xst_003 ?bag = skipped ''XST-003'' ''XST-003 skipped: retained earnings or net_income fields not available.''"
    by (simp_all add: run_xst_002_def run_xst_003_def aggregate_unset)
  moreover have "is_exportable (validate_parsed_items items) \<longleftrightarrow> ?n = 0"
    by (simp only: validate_parsed_items_def Let_def validation_report.simps blocked_iff_critical crit) simp
  moreover have "final_score (confidence (validate_parsed_items items)) = 100 - 25 * int ?n"
    by (simp add: validate_parsed_items_def Let_def final_score_eq crit warning_count aggregate_interlocks_silent)
  ultimately show ?thesis by (simp only: Let_def simp_thms)
qed

end
