(* ===== verification/Models.thy ===== *)
theory Models
  imports PyDecimal PyDate
begin

text \<open>
  The database rows of \<^verbatim>\<open>apps/api/models/__init__.py\<close> that more than one component reads or
  writes: extraction jobs and financial line items.  UUIDs are strings, time stamps are
  microseconds on the UTC clock, status columns hold the string the code stores (the columns
  are \<^verbatim>\<open>VARCHAR\<close>, so statuses outside the \<open>JobStatus\<close> enumeration can be stored too).
\<close>

type_synonym uuid = string
type_synonym instant = int

subsection \<open>Jobs\<close>

datatype JobStatus = JOB_PENDING | JOB_QUEUED | JOB_RUNNING | JOB_COMPLETED | JOB_FAILED | JOB_CANCELLED

fun status_value :: "JobStatus \<Rightarrow> string" where
  "status_value JOB_PENDING = ''pending''"
| "status_value JOB_QUEUED = ''queued''"
| "status_value JOB_RUNNING = ''running''"
| "status_value JOB_COMPLETED = ''completed''"
| "status_value JOB_FAILED = ''failed''"
| "status_value JOB_CANCELLED = ''cancelled''"

text \<open>Error messages keep what is interpolated into them; the wording is left out.\<close>

datatype error_text =
    FreeText string
  | ValidationBlockedText (blocked_critical: nat) (blocked_confidence: int)
  | FXGapText (gap_currency: string) (gap_date: date) (gap_context: string) (gap_lookback: int) (gap_items: nat)

record financial_job =
  job_id :: uuid
  job_tenant_id :: uuid
  job_company_id :: "uuid option"
  job_created_by :: "uuid option"
  job_status :: string
  job_type :: string
  job_fiscal_year :: "int option"
  job_document_url :: "string option"
  job_result_url :: "string option"
  job_error_message :: "error_text option"
  job_celery_task_id :: "string option"
  job_started_at :: "instant option"
  job_completed_at :: "instant option"
  job_created_at :: instant
  job_updated_at :: instant

definition is_terminal :: "financial_job \<Rightarrow> bool" where
  "is_terminal j = (job_status j \<in> {''completed'', ''failed'', ''cancelled''})"

definition is_cancellable :: "financial_job \<Rightarrow> bool" where
  "is_cancellable j = (job_status j \<in> {''pending'', ''queued'', ''running''})"

lemma not_terminal_and_cancellable: "\<not> (is_terminal j \<and> is_cancellable j)"
  by (auto simp: is_terminal_def is_cancellable_def)

lemma enum_statuses_classified:
  "job_status j = status_value s \<Longrightarrow> is_terminal j \<noteq> is_cancellable j"
  by (cases s) (auto simp: is_terminal_def is_cancellable_def)

subsection \<open>Line items\<close>

record financial_line_item =
  fli_id :: uuid
  fli_company_id :: uuid
  fli_fiscal_year :: int
  fli_fiscal_period :: string
  fli_reporting_standard :: string
  fli_filing_date :: date
  fli_is_restated :: bool
  fli_canonical_field :: string
  fli_statement_type :: string
  fli_value_usd :: "decimal option"
  fli_value_reported :: "decimal option"
  fli_reported_currency :: "string option"
  fli_fx_rate_used :: "decimal option"
  fli_source_file_hash :: "string option"
  fli_derived_expression_formula :: "string option"
  fli_extraction_method :: "string option"
  fli_created_at :: instant
  fli_updated_at :: instant

text \<open>The unique constraint \<^verbatim>\<open>uq_financial_line_items_point_in_time\<close>.\<close>

definition point_in_time :: "financial_line_item \<Rightarrow> uuid \<times> int \<times> string \<times> string \<times> date" where
  "point_in_time r = (fli_company_id r, fli_fiscal_year r, fli_fiscal_period r, fli_canonical_field r, fli_filing_date r)"

text \<open>The tables the currency and ingestion services share.\<close>

record session =
  line_items :: "financial_line_item list"
  financial_jobs :: "financial_job list"

subsection \<open>UUIDs\<close>

text \<open>
  \<open>uuid.UUID(s)\<close> followed by \<open>str\<close>: hyphens dropped, letters lowered, 32 hexadecimal digits required.
  (The braces and the \<^verbatim>\<open>urn:\<close> prefix Python also tolerates are left out.)
\<close>

definition is_hex :: "char \<Rightarrow> bool" where
  "is_hex c = (let n = (of_char c :: nat) in (48 \<le> n \<and> n \<le> 57) \<or> (97 \<le> n \<and> n \<le> 102))"

definition uuid_of_string :: "string \<Rightarrow> py_error + uuid" where
  "uuid_of_string s =
     (let h = filter (\<lambda>c. c \<noteq> CHR ''-'') (str_lower s)
      in if length h = 32 \<and> list_all is_hex h
         then Inr (take 8 h @ ''-'' @ take 4 (drop 8 h) @ ''-'' @ take 4 (drop 12 h) @ ''-''
                   @ take 4 (drop 16 h) @ ''-'' @ drop 20 h)
         else Inl ValueError)"

definition canonical_uuid :: "string \<Rightarrow> bool" where
  "canonical_uuid s = (uuid_of_string s = Inr s)"

subsection \<open>Loading and storing one row\<close>

text \<open>
  \<open>session.get(Model, id)\<close>, and the flush of the attributes assigned to the object it
  returned: the row with that primary key changes, no other.
\<close>

definition get_row :: "('r \<Rightarrow> uuid) \<Rightarrow> uuid \<Rightarrow> 'r list \<Rightarrow> 'r option" where
  "get_row key i rows = find (\<lambda>r. key r = i) rows"

definition put_row :: "('r \<Rightarrow> uuid) \<Rightarrow> uuid \<Rightarrow> 'r \<Rightarrow> 'r list \<Rightarrow> 'r list" where
  "put_row key i r rows = update_where (\<lambda>x. key x = i) (\<lambda>_. r) rows"

lemma get_row_Some: "get_row key i rows = Some r \<Longrightarrow> r \<in> set rows \<and> key r = i"
  by (auto simp: get_row_def find_Some_iff)

lemma get_row_None: "get_row key i rows = None \<longleftrightarrow> (\<forall>r \<in> set rows. key r \<noteq> i)"
  by (auto simp: get_row_def find_None_iff)

lemma get_row_distinct:
  "distinct (map key rows) \<Longrightarrow> r \<in> set rows \<Longrightarrow> get_row key (key r) rows = Some r"
proof (induction rows)
  case (Cons a rows)
  then show ?case by (auto simp: get_row_def)
qed (simp add: get_row_def)

lemma put_row_keys: "key r = i \<Longrightarrow> map key (put_row key i r rows) = map key rows"
  by (auto simp: put_row_def update_where_def)

lemma get_put_same:
  "key r = i \<Longrightarrow> get_row key i rows \<noteq> None \<Longrightarrow> get_row key i (put_row key i r rows) = Some r"
  by (induction rows) (auto simp: get_row_def put_row_def)

lemma get_put_other:
  "key r = i \<Longrightarrow> j \<noteq> i \<Longrightarrow> get_row key j (put_row key i r rows) = get_row key j rows"
  by (induction rows) (auto simp: get_row_def put_row_def)

lemma set_put_row:
  "x \<in> set (put_row key i r rows) \<Longrightarrow> x = r \<or> (x \<in> set rows \<and> key x \<noteq> i)"
  by (auto simp: put_row_def set_update_where)

lemma put_row_self:
  "distinct (map key rows) \<Longrightarrow> r \<in> set rows \<Longrightarrow> put_row key (key r) r rows = rows"
  by (auto simp: put_row_def update_where_def distinct_map intro!: map_idI dest: inj_onD)

lemma put_row_length [simp]: "length (put_row key i r rows) = length rows"
  by (simp add: put_row_def)

text \<open>
  The contract of a table whose rows are changed in place by attribute assignments that
  leave the primary key alone: what is read back, and what does not move.
\<close>

locale row_table =
  fixes key :: "'r \<Rightarrow> uuid" and upd :: "'p \<Rightarrow> 'r \<Rightarrow> 'r"
  assumes key_upd: "key (upd p r) = key r"
begin

lemma read_back:
  "get_row key i rows = Some r \<Longrightarrow> get_row key i (put_row key i (upd p r) rows) = Some (upd p r)"
  using get_row_Some[of key i rows r] by (simp add: get_put_same key_upd)

lemma others_unmoved:
  "get_row key i rows = Some r \<Longrightarrow> j \<noteq> i \<Longrightarrow>
     get_row key j (put_row key i (upd p r) rows) = get_row key j rows"
  using get_row_Some[of key i rows r] by (simp add: get_put_other key_upd)

lemma keys_kept:
  "get_row key i rows = Some r \<Longrightarrow> map key (put_row key i (upd p r) rows) = map key rows"
  using get_row_Some[of key i rows r] by (simp add: put_row_keys key_upd)

end

end
