(* ===== verification/CurrencyNormaliser.thy ===== *)
theory CurrencyNormaliser
  imports PyDecimal PyDate
begin

text \<open>
  \<^verbatim>\<open>services/extraction/normaliser/currency.py\<close>: the dual-pass translation to USD.  The FX
  rate provider is the module's \<open>FXRateProvider\<close> protocol: a record of its two methods,
  which return a rate or raise.  Every exception of the currency package is a value of
  \<open>fx_error\<close>; \<open>MissingFXRate\<close> is the subclass \<^verbatim>\<open>MissingFXRateException\<close> of
  \<^verbatim>\<open>FXRateLookupError\<close> with its four attributes.
\<close>

datatype fx_error =
    PyErr py_error
  | FXRateLookupError
  | MissingFXRate (missing_currency: string) (missing_date: date) (missing_context: string) (missing_lookback: int)

abbreviation lift :: "py_error + 'a \<Rightarrow> fx_error + 'a" where
  "lift \<equiv> map_error PyErr"

record fx_rate_provider =
  spot_rate :: "string \<Rightarrow> date \<Rightarrow> fx_error + decimal"
  weighted_average_rate :: "string \<Rightarrow> date \<Rightarrow> date \<Rightarrow> fx_error + decimal"

record translation_result =
  tr_value_usd :: decimal
  tr_fx_rate_used :: decimal
  tr_rate_type :: string
  tr_currency :: string

definition monetary_scale :: int where "monetary_scale = -2"
definition fx_rate_scale :: int where "fx_rate_scale = -10"

definition select_rate :: "fx_rate_provider \<Rightarrow> string \<Rightarrow> string \<Rightarrow> date \<Rightarrow> date option
    \<Rightarrow> fx_error + (decimal \<times> string)" where
  "select_rate fx cur st period_end period_start =
     (if st = ''BS'' then rbind (spot_rate fx cur period_end) (\<lambda>rate. Inr (rate, ''spot''))
      else if st = ''IS'' \<or> st = ''CF''
      then (case period_start of
              None \<Rightarrow> Inl (PyErr ValueError)
            | Some start \<Rightarrow>
                rbind (weighted_average_rate fx cur start period_end) (\<lambda>rate. Inr (rate, ''weighted_average'')))
      else Inl (PyErr ValueError))"

definition translate :: "fx_rate_provider \<Rightarrow> decimal \<Rightarrow> string \<Rightarrow> string \<Rightarrow> date \<Rightarrow> date option
    \<Rightarrow> fx_error + translation_result" where
  "translate fx value cur statement_type period_end period_start =
     (if str_upper cur = ''USD''
      then rbind (lift (dec_quantize ROUND_HALF_UP monetary_scale value)) (\<lambda>v.
             Inr \<lparr>tr_value_usd = v, tr_fx_rate_used = Dec 1 0, tr_rate_type = ''identity'', tr_currency = ''USD''\<rparr>)
      else
        rbind (select_rate fx cur (str_upper statement_type) period_end period_start) (\<lambda>(rate, rate_type).
          if dec_is_zero rate then Inl FXRateLookupError
          else
            rbind (lift (dec_div value rate)) (\<lambda>q.
            rbind (lift (dec_quantize ROUND_HALF_UP monetary_scale q)) (\<lambda>value_usd.
            rbind (lift (dec_quantize ROUND_HALF_UP fx_rate_scale rate)) (\<lambda>rate_stored.
              Inr \<lparr>tr_value_usd = value_usd, tr_fx_rate_used = rate_stored,
                    tr_rate_type = rate_type, tr_currency = cur\<rparr>)))))"

subsection \<open>What a provider promises\<close>

text \<open>
  A rate that comes back is in the stored scale of ten decimals, fits the decimal context
  and is not negative.
\<close>

definition scaled_rate :: "decimal \<Rightarrow> bool" where
  "scaled_rate r \<longleftrightarrow> expo r = fx_rate_scale \<and> fits r \<and> 0 \<le> coeff r"

lemma scale_bound: "10 ^ 27 * (x :: rat) \<le> y \<Longrightarrow> x \<le> y / 10 ^ 27"
  by (simp add: le_divide_eq mult.commute)

lemma add_error_bounds: "2 * a \<le> 1 / 100 \<Longrightarrow> b \<le> m \<Longrightarrow> c \<le> a + b \<Longrightarrow> c \<le> 1 / 200 + (m :: rat)"
  by linarith

locale rate_provider =
  fixes fx :: fx_rate_provider
  assumes spot_scaled: "spot_rate fx c d = Inr r \<Longrightarrow> scaled_rate r"
    and average_scaled: "weighted_average_rate fx c s e = Inr r \<Longrightarrow> scaled_rate r"
begin

lemma selected_scaled: "select_rate fx c st e s = Inr (r, t) \<Longrightarrow> scaled_rate r"
  by (auto simp: select_rate_def rbind_eq_Inr spot_scaled average_scaled split: if_splits option.splits)

text \<open>The rate in the result is the provider's own, and the value is the quotient rounded to cents.\<close>

lemma translate_accuracy:
  assumes t: "translate fx v c st e s = Inr res" and c: "str_upper c \<noteq> ''USD''"
  shows "\<exists>rt. select_rate fx c (str_upper st) e s = Inr (tr_fx_rate_used res, rt) \<and> tr_rate_type res = rt"
    and "0 < dval (tr_fx_rate_used res)"
    and "\<bar>dval (tr_value_usd res) - dval v / dval (tr_fx_rate_used res)\<bar>
           \<le> 1 / 200 + \<bar>dval v / dval (tr_fx_rate_used res)\<bar> / 10 ^ 27"
    and "expo (tr_value_usd res) = -2 \<and> fits (tr_value_usd res)"
proof -
  obtain rate rt q u where sel: "select_rate fx c (str_upper st) e s = Inr (rate, rt)"
    and nz: "\<not> dec_is_zero rate" and q: "dec_div v rate = Inr q"
    and u: "dec_quantize ROUND_HALF_UP monetary_scale q = Inr u"
    and st: "dec_quantize ROUND_HALF_UP fx_rate_scale rate = Inr (tr_fx_rate_used res)"
    and res: "tr_value_usd res = u" "tr_rate_type res = rt"
    using t c by (auto simp: translate_def rbind_eq_Inr split: if_splits)
  have sc: "scaled_rate rate" by (rule selected_scaled[OF sel])
  then have "dec_quantize ROUND_HALF_UP fx_rate_scale rate = Inr rate"
    by (simp add: scaled_rate_def)
  with st have rate: "tr_fx_rate_used res = rate" by simp
  show "\<exists>rt. select_rate fx c (str_upper st) e s = Inr (tr_fx_rate_used res, rt) \<and> tr_rate_type res = rt"
    using sel res rate by simp
  show "0 < dval (tr_fx_rate_used res)"
    using sc nz by (simp add: rate dval_0_less_iff scaled_rate_def dec_is_zero_def)
  show "expo (tr_value_usd res) = -2 \<and> fits (tr_value_usd res)"
    using dec_quantize_InrD[OF u] by (simp add: res monetary_scale_def)
  have "2 * \<bar>dval u - dval q\<bar> \<le> 1 / 100"
    using dec_quantize_error[OF u] by (simp add: monetary_scale_def power_int_minus)
  moreover have "\<bar>dval q - dval v / dval rate\<bar> \<le> \<bar>dval v / dval rate\<bar> / 10 ^ 27"
    using dec_div_error[OF q] by (rule scale_bound)
  moreover have "\<bar>dval u - dval v / dval rate\<bar> \<le> \<bar>dval u - dval q\<bar> + \<bar>dval q - dval v / dval rate\<bar>"
    using abs_triangle_ineq[of "dval u - dval q" "dval q - dval v / dval rate"] by simp
  ultimately show "\<bar>dval (tr_value_usd res) - dval v / dval (tr_fx_rate_used res)\<bar>
           \<le> 1 / 200 + \<bar>dval v / dval (tr_fx_rate_used res)\<bar> / 10 ^ 27"
    unfolding rate res by (rule add_error_bounds)
qed

end

subsection \<open>Which rate is read\<close>

text \<open>The two passes: the balance sheet never looks at an average, a flow never at a spot rate.\<close>

lemma select_rate_balance_sheet:
  "select_rate fx c ''BS'' e s = select_rate (fx\<lparr>weighted_average_rate := avg\<rparr>) c ''BS'' e s'"
  by (simp add: select_rate_def)

lemma select_rate_flow:
  "st \<in> {''IS'', ''CF''} \<Longrightarrow> select_rate fx c st e s = select_rate (fx\<lparr>spot_rate := spot\<rparr>) c st e s"
  by (auto simp: select_rate_def split: option.split)

lemma translate_usd:
  "str_upper c = ''USD'' \<Longrightarrow> translate fx v c st e s =
     rbind (lift (dec_quantize ROUND_HALF_UP monetary_scale v)) (\<lambda>v.
       Inr \<lparr>tr_value_usd = v, tr_fx_rate_used = Dec 1 0, tr_rate_type = ''identity'', tr_currency = ''USD''\<rparr>)"
  by (simp add: translate_def)

lemma translate_error_kinds:
  "translate fx v c st e s = Inl x \<Longrightarrow> x = PyErr InvalidOperation \<or> x = PyErr ValueError \<or> x = FXRateLookupError
     \<or> spot_rate fx c e = Inl x \<or> (\<exists>b. s = Some b \<and> weighted_average_rate fx c b e = Inl x)"
proof -
  have div: "dec_is_zero r \<or> dec_div v r \<noteq> Inl y" for r y
    using dec_div_Inl_iff[of v r] by (auto simp: dec_is_zero_def)
  assume "translate fx v c st e s = Inl x"
  then show ?thesis
    using div by (fastforce simp: translate_def select_rate_def rbind_eq_Inl map_error_def
        dest: dec_quantize_Inl split: if_splits option.splits sum.splits)
qed

end
