(* ===== verification/FXTranslator.thy ===== *)
theory FXTranslator
  imports CurrencyNormaliser
begin

text \<open>
  \<^verbatim>\<open>services/currency/translator.py\<close>: the historical rate provider (calendar-day look-back,
  spot and period-average rates) and the engine that feeds it to the normaliser.  The rate
  repository is the module's \<open>FXRateRepository\<close> protocol: a function from a currency and a
  date range to the stored daily closings, or an exception.
\<close>

record daily_rate =
  dr_currency :: string
  on_date :: date
  dr_rate :: decimal
  dr_source :: string

type_synonym rate_repository = "string \<Rightarrow> date \<Rightarrow> date \<Rightarrow> fx_error + daily_rate list"

definition max_lookback_days :: int where "max_lookback_days = 5"

text \<open>The dict comprehension: for a repeated date the last row wins.\<close>

definition build_rate_map :: "daily_rate list \<Rightarrow> (date \<rightharpoonup> decimal)" where
  "build_rate_map drs = foldl (\<lambda>m dr. m(on_date dr \<mapsto> dr_rate dr)) Map.empty drs"

text \<open>\<open>for delta in range(max_lookback + 1)\<close>, from \<open>delta\<close> on, \<open>n\<close> rounds left.\<close>

fun lookback_from :: "(date \<rightharpoonup> decimal) \<Rightarrow> date \<Rightarrow> int \<Rightarrow> nat \<Rightarrow> py_error + decimal option" where
  "lookback_from rate_map target delta 0 = Inr None"
| "lookback_from rate_map target delta (Suc n) =
     rbind (date_add target (- delta)) (\<lambda>candidate.
       case rate_map candidate of
         Some r \<Rightarrow> Inr (Some r)
       | None \<Rightarrow> lookback_from rate_map target (delta + 1) n)"

definition resolve_with_lookback :: "(date \<rightharpoonup> decimal) \<Rightarrow> date \<Rightarrow> int \<Rightarrow> py_error + decimal option" where
  "resolve_with_lookback rate_map target max_lookback =
     lookback_from rate_map target 0 (nat (max_lookback + 1))"

definition assert_nonzero_rate :: "decimal \<Rightarrow> fx_error + unit" where
  "assert_nonzero_rate r = (if dec_le r (Dec 0 0) then Inl FXRateLookupError else Inr ())"

definition usd_rate :: "fx_error + decimal" where
  "usd_rate = lift (dec_quantize ROUND_HALF_EVEN fx_rate_scale (Dec 1 0))"

definition get_spot_rate :: "rate_repository \<Rightarrow> string \<Rightarrow> date \<Rightarrow> fx_error + decimal" where
  "get_spot_rate repo cur d =
     (if str_upper cur = ''USD'' then usd_rate
      else
        rbind (lift (date_add d (- max_lookback_days))) (\<lambda>fetch_start.
        rbind (repo cur fetch_start d) (\<lambda>daily_rates.
        rbind (lift (resolve_with_lookback (build_rate_map daily_rates) d max_lookback_days)) (\<lambda>rate.
          case rate of
            None \<Rightarrow> Inl (MissingFXRate cur d ''spot'' max_lookback_days)
          | Some r \<Rightarrow>
              rbind (assert_nonzero_rate r) (\<lambda>_.
              lift (dec_quantize ROUND_HALF_EVEN fx_rate_scale r))))))"

text \<open>The calendar-day loop: \<open>while current <= period_end\<close>.\<close>

function resolve_days :: "(date \<rightharpoonup> decimal) \<Rightarrow> string \<Rightarrow> date \<Rightarrow> date \<Rightarrow> fx_error + decimal list" where
  "resolve_days rate_map cur current period_end =
     (if period_end < current then Inr []
      else
        rbind (lift (resolve_with_lookback rate_map current max_lookback_days)) (\<lambda>rate.
          case rate of
            None \<Rightarrow> Inl (MissingFXRate cur current ''weighted_average'' max_lookback_days)
          | Some r \<Rightarrow>
              rbind (assert_nonzero_rate r) (\<lambda>_.
                if valid_date (current + 1)
                then rbind (resolve_days rate_map cur (current + 1) period_end) (\<lambda>rs. Inr (r # rs))
                else Inl (PyErr OverflowError))))"
  by pat_completeness auto
termination
  by (relation "measure (\<lambda>(m, c, s, e). nat (e + 1 - s))") auto

declare resolve_days.simps [simp del]

definition get_weighted_average_rate :: "rate_repository \<Rightarrow> string \<Rightarrow> date \<Rightarrow> date \<Rightarrow> fx_error + decimal" where
  "get_weighted_average_rate repo cur period_start period_end =
     (if period_end < period_start then Inl (PyErr ValueError)
      else if str_upper cur = ''USD'' then usd_rate
      else
        rbind (lift (date_add period_start (- max_lookback_days))) (\<lambda>fetch_start.
        rbind (repo cur fetch_start period_end) (\<lambda>daily_rates.
        rbind (resolve_days (build_rate_map daily_rates) cur period_start period_end) (\<lambda>resolved.
        rbind (lift (dec_div (dec_sum (Dec 0 0) resolved) (Dec (int (length resolved)) 0))) (\<lambda>avg.
          lift (dec_quantize ROUND_HALF_EVEN fx_rate_scale avg))))))"

definition historical_provider :: "rate_repository \<Rightarrow> fx_rate_provider" where
  "historical_provider repo =
     \<lparr>spot_rate = get_spot_rate repo, weighted_average_rate = get_weighted_average_rate repo\<rparr>"

definition engine_translate :: "rate_repository \<Rightarrow> decimal \<Rightarrow> string \<Rightarrow> string \<Rightarrow> date \<Rightarrow> date option
    \<Rightarrow> fx_error + translation_result" where
  "engine_translate repo = translate (historical_provider repo)"

subsection \<open>Look-back\<close>

text \<open>The most recent closing on or before a day, at most \<open>n\<close> days back.\<close>

fun last_known :: "(date \<rightharpoonup> decimal) \<Rightarrow> date \<Rightarrow> nat \<Rightarrow> decimal option" where
  "last_known m d 0 = None"
| "last_known m d (Suc n) = (case m d of Some r \<Rightarrow> Some r | None \<Rightarrow> last_known m (d - 1) n)"

lemma lookback_from_eq:
  "valid_date (t - k) \<Longrightarrow> valid_date (t - k - int n + 1) \<Longrightarrow>
     lookback_from m t k n = Inr (last_known m (t - k) n)"
proof (induction n arbitrary: k)
  case 0
  then show ?case by simp
next
  case (Suc n)
  have "n \<noteq> 0 \<Longrightarrow> valid_date (t - (k + 1)) \<and> valid_date (t - (k + 1) - int n + 1)"
    using Suc.prems by (auto simp: valid_date_def)
  then have "lookback_from m t (k + 1) n = Inr (last_known m (t - (k + 1)) n)"
    using Suc.IH[of "k + 1"] by (cases n) auto
  moreover have "date_add t (- k) = Inr (t - k)"
    using Suc.prems(1) by (simp add: date_add_Inr)
  moreover have "t - (k + 1) = t - k - 1" by simp
  ultimately show ?case by (simp split: option.split)
qed

lemma resolve_eq:
  assumes "valid_date t" and "valid_date (t - 5)"
  shows "resolve_with_lookback m t max_lookback_days = Inr (last_known m t 6)"
  using lookback_from_eq[of t 0 6 m] assms
  by (simp add: resolve_with_lookback_def max_lookback_days_def)

lemma last_known_Some_iff:
  "last_known m d n = Some r \<longleftrightarrow>
     (\<exists>k < n. m (d - int k) = Some r \<and> (\<forall>j < k. m (d - int j) = None))"
proof (induction n arbitrary: d)
  case 0
  then show ?case by simp
next
  case (Suc n)
  show ?case
  proof (cases "m d")
    case (Some x)
    then show ?thesis by (auto intro!: exI[of _ 0] dest: spec[of _ 0] split: option.split) 
  next
    case None
    have sh: "d - 1 - int k = d - int (Suc k)" for k by simp
    have "(\<exists>k < n. m (d - int (Suc k)) = Some r \<and> (\<forall>j < k. m (d - int (Suc j)) = None))
       \<longleftrightarrow> (\<exists>k < Suc n. m (d - int k) = Some r \<and> (\<forall>j < k. m (d - int j) = None))"
      (is "?L \<longleftrightarrow> ?R")
    proof
      assume ?L
      then obtain k where k: "k < n" "m (d - int (Suc k)) = Some r" "\<forall>j < k. m (d - int (Suc j)) = None"
        by blast
      then have "\<forall>j < Suc k. m (d - int j) = None"
        using None by (simp add: All_less_Suc2)
      with k show ?R by (intro exI[of _ "Suc k"]) simp
    next
      assume ?R
      then obtain k where k: "k < Suc n" "m (d - int k) = Some r" "\<forall>j < k. m (d - int j) = None"
        by blast
      with None obtain i where "k = Suc i" by (cases k) auto
      with k show ?L by (auto simp: All_less_Suc2)
    qed
    then show ?thesis using None Suc.IH[of "d - 1"] by (simp only: last_known.simps option.case sh)
  qed
qed

lemma last_known_None_iff: "last_known m d n = None \<longleftrightarrow> (\<forall>k < n. m (d - int k) = None)"
proof (induction n arbitrary: d)
  case 0
  then show ?case by simp
next
  case (Suc n)
  have "d - 1 - int k = d - int (Suc k)" for k by simp
  with Suc[of "d - 1"] show ?case
    by (auto simp: All_less_Suc2 simp del: of_nat_Suc split: option.split)
qed

subsection \<open>The provider keeps its interface\<close>

lemma usd_rate_eq: "usd_rate = Inr (Dec 10000000000 (-10))"
  by (simp add: usd_rate_def dec_quantize_def dec_rescale_def fx_rate_scale_def prec_def ndigits_le_iff)

lemma assert_nonzero_Inr: "assert_nonzero_rate r = Inr u \<longleftrightarrow> 0 < coeff r"
  using dval_0_less_iff[of r] by (auto simp: assert_nonzero_rate_def dec_le_iff dval_Dec not_le)

lemma quantized_scaled:
  "dec_quantize m fx_rate_scale r = Inr q \<Longrightarrow> 0 \<le> coeff r \<Longrightarrow> scaled_rate q"
  using dec_quantize_InrD[of m fx_rate_scale r q] dec_quantize_nonneg[of m fx_rate_scale r q]
  by (simp add: scaled_rate_def)

lemma usd_scaled: "usd_rate = Inr r \<Longrightarrow> scaled_rate r"
  by (auto simp: usd_rate_eq scaled_rate_def fx_rate_scale_def fits_def prec_def)

lemma spot_scaled: "get_spot_rate repo c d = Inr r \<Longrightarrow> scaled_rate r"
  by (auto simp: get_spot_rate_def rbind_eq_Inr assert_nonzero_Inr usd_scaled intro!: quantized_scaled
      split: if_splits option.splits)

lemma resolve_days_pos: "resolve_days m c s e = Inr rs \<Longrightarrow> \<forall>r \<in> set rs. 0 < coeff r"
proof (induction m c s e arbitrary: rs rule: resolve_days.induct)
  case (1 m c s e)
  show ?case
  proof (cases "e < s")
    case True
    with "1.prems" show ?thesis by (simp add: resolve_days.simps[of m c s e])
  next
    case False
    with "1.prems" obtain r rs' where "resolve_with_lookback m s max_lookback_days = Inr (Some r)"
      "0 < coeff r" "valid_date (s + 1)" "resolve_days m c (s + 1) e = Inr rs'" "rs = r # rs'"
      by (auto simp: resolve_days.simps[of m c s e] rbind_eq_Inr assert_nonzero_Inr split: if_splits option.splits)
    with "1.IH"[OF False] show ?thesis by (simp add: assert_nonzero_Inr)
  qed
qed

lemma dec_sum_nonneg: "0 \<le> coeff acc \<Longrightarrow> \<forall>d \<in> set ds. 0 < coeff d \<Longrightarrow> 0 \<le> coeff (dec_sum acc ds)"
proof (cases ds)
  case (Cons d ds')
  assume "0 \<le> coeff acc" "\<forall>d \<in> set ds. 0 < coeff d"
  then show ?thesis using Cons dec_sum_pos[of "dec_add acc d" ds'] dec_add_pos[of acc d] by simp
qed simp

lemma dec_div_nonneg:
  assumes "dec_div a b = Inr q" and "0 \<le> coeff a" and "0 < coeff b"
  shows "0 \<le> coeff q"
proof (cases "coeff a = 0")
  case True
  with assms show ?thesis by (auto simp: dec_div_def)
next
  case False
  with assms dec_div_pos[OF assms(1)] show ?thesis by simp
qed

lemma average_scaled:
  assumes "get_weighted_average_rate repo c s e = Inr r" shows "scaled_rate r"
proof (cases "str_upper c = ''USD''")
  case True
  with assms show ?thesis by (simp add: get_weighted_average_rate_def usd_scaled split: if_splits)
next
  case False
  with assms obtain m rs q where rs: "resolve_days m c s e = Inr rs"
    and q: "dec_div (dec_sum (Dec 0 0) rs) (Dec (int (length rs)) 0) = Inr q"
    and r: "dec_quantize ROUND_HALF_EVEN fx_rate_scale q = Inr r"
    by (auto simp: get_weighted_average_rate_def rbind_eq_Inr split: if_splits)
  have "0 < int (length rs)" using q dec_div_Inl_iff[of "dec_sum (Dec 0 0) rs" "Dec (int (length rs)) 0"]
    by (cases rs) auto
  then have "0 \<le> coeff q"
    using dec_div_nonneg[OF q] dec_sum_nonneg[of "Dec 0 0" rs] resolve_days_pos[OF rs] by simp
  with r show ?thesis by (rule quantized_scaled)
qed

interpretation hist: rate_provider "historical_provider repo" for repo
  by unfold_locales (auto simp: historical_provider_def spot_scaled average_scaled)

subsection \<open>One rate per calendar day\<close>

definition day_rate :: "(date \<rightharpoonup> decimal) \<Rightarrow> string \<Rightarrow> date \<Rightarrow> fx_error + decimal" where
  "day_rate m cur d =
     (case last_known m d 6 of
        None \<Rightarrow> Inl (MissingFXRate cur d ''weighted_average'' max_lookback_days)
      | Some r \<Rightarrow> if dval r \<le> 0 then Inl FXRateLookupError else Inr r)"

lemma resolve_days_eq:
  "valid_date (s - 5) \<Longrightarrow> valid_date (e + 1) \<Longrightarrow> resolve_days m c s e = rmap (day_rate m c) [s..e]"
proof (induction m c s e rule: resolve_days.induct)
  case (1 m c s e)
  show ?case
  proof (cases "e < s")
    case True
    then show ?thesis by (simp add: resolve_days.simps[of m c s e])
  next
    case False
    then have v: "valid_date s" "valid_date (s + 1)" "valid_date (s + 1 - 5)"
      using "1.prems" by (auto simp: valid_date_def)
    have res: "resolve_with_lookback m s max_lookback_days = Inr (last_known m s 6)"
      using resolve_eq[OF v(1) "1.prems"(1)] .
    show ?thesis
    proof (cases "last_known m s 6")
      case None
      then show ?thesis
        using False res by (simp add: resolve_days.simps[of m c s e] upto_rec1[of s e] day_rate_def[of m c s])
    next
      case (Some r)
      have "0 < coeff r \<Longrightarrow> resolve_days m c (s + 1) e = rmap (day_rate m c) [s + 1..e]"
        using "1.IH"[OF False] Some res v "1.prems" by (simp add: assert_nonzero_Inr)
      then show ?thesis
        using False res Some v dval_0_less_iff[of r]
        by (auto simp: resolve_days.simps[of m c s e] upto_rec1[of s e] day_rate_def[of m c s]
            assert_nonzero_rate_def dec_le_iff dval_Dec not_le)
    qed
  qed
qed

lemma dec_sum_scaled:
  assumes "\<forall>d \<in> set ds. expo d = -10 \<and> 0 < coeff d" and "0 \<le> a" and "a + (\<Sum>d\<leftarrow>ds. coeff d) < 10 ^ 28"
  shows "dec_sum (Dec a (-10)) ds = Dec (a + (\<Sum>d\<leftarrow>ds. coeff d)) (-10)"
  using assms
proof (induction ds arbitrary: a)
  case Nil
  then show ?case by simp
next
  case (Cons d ds)
  have "0 \<le> (\<Sum>d\<leftarrow>ds. coeff d)" using Cons.prems(1) by (intro sum_list_nonneg) auto
  then have "dec_add (Dec a (-10)) d = Dec (a + coeff d) (-10)"
    using Cons.prems by (simp add: dec_add_def scale_to_def Let_def fits_def prec_def)
  then show ?case using Cons.IH[of "a + coeff d"] Cons.prems by (simp add: add.assoc)
qed

lemma dec_sum_from_zero:
  assumes "\<forall>d \<in> set ds. expo d = -10 \<and> 0 < coeff d" and "(\<Sum>d\<leftarrow>ds. coeff d) < 10 ^ 28" and "ds \<noteq> []"
  shows "dec_sum (Dec 0 0) ds = Dec (\<Sum>d\<leftarrow>ds. coeff d) (-10)"
proof (cases ds)
  case (Cons d ds')
  have "0 \<le> (\<Sum>d\<leftarrow>ds'. coeff d)" using assms(1) Cons by (intro sum_list_nonneg) auto
  then have "dec_add (Dec 0 0) d = Dec (coeff d) (-10)"
    using assms Cons by (cases d) (simp add: dec_add_def scale_to_def Let_def fits_def prec_def)
  then show ?thesis using dec_sum_scaled[of ds' "coeff d"] assms Cons by simp
qed (use assms in simp)

lemma sum_list_between:
  "\<forall>x \<in> set xs. lo \<le> x \<and> x \<le> hi \<Longrightarrow>
     int (length xs) * lo \<le> sum_list xs \<and> sum_list xs \<le> int (length xs) * hi"
  by (induction xs) (auto simp: algebra_simps)

lemma round_between:
  fixes Q lo hi :: int and A :: rat
  assumes "\<bar>of_int Q - A\<bar> \<le> 501 / 1000" and "of_int lo \<le> A" and "A \<le> of_int hi"
  shows "lo \<le> Q \<and> Q \<le> hi"
proof -
  have "of_int Q - A \<le> 501 / 1000" "- (of_int Q - A) \<le> 501 / 1000"
    using assms(1) unfolding abs_le_iff by blast+
  with assms(2,3) have "of_int Q < (of_int (hi + 1) :: rat)" "of_int lo < (of_int (Q + 1) :: rat)"
    unfolding of_int_add by linarith+
  then show ?thesis by (simp only: of_int_less_iff) simp
qed

subsection \<open>The average of a period\<close>

text \<open>
  A stored market rate: ten decimals, positive and below ten to the eighth units per dollar, so that
  every sum over the days of the calendar fits the decimal context.
\<close>

definition market_rate :: "decimal \<Rightarrow> bool" where
  "market_rate r \<longleftrightarrow> expo r = -10 \<and> 0 < coeff r \<and> coeff r < 10 ^ 18"

lemma market_rate_bounds:
  "\<forall>r \<in> set rs. market_rate r \<Longrightarrow> \<forall>r \<in> set rs. 0 \<le> coeff r \<and> coeff r \<le> 10 ^ 18"
  by (auto simp: market_rate_def intro: less_imp_le)

lemma market_rate_fits: "market_rate r \<Longrightarrow> fits r"
  by (simp add: market_rate_def fits_def prec_def)

text \<open>The arithmetic mean of the rates, in units of the tenth decimal.\<close>

definition mean_units :: "decimal list \<Rightarrow> rat" where
  "mean_units rs = of_int (\<Sum>r\<leftarrow>rs. coeff r) / of_nat (length rs)"

lemma mean_units_between:
  assumes "rs \<noteq> []" and "\<forall>r \<in> set rs. lo \<le> coeff r \<and> coeff r \<le> hi"
  shows "of_int lo \<le> mean_units rs" and "mean_units rs \<le> of_int hi"
proof -
  have n: "0 < (of_nat (length rs) :: rat)" using assms(1) by simp
  have "int (length rs) * lo \<le> (\<Sum>r\<leftarrow>rs. coeff r) \<and> (\<Sum>r\<leftarrow>rs. coeff r) \<le> int (length rs) * hi"
    using sum_list_between[of "map coeff rs" lo hi] assms(2) by simp
  then have "of_nat (length rs) * of_int lo \<le> (of_int (\<Sum>r\<leftarrow>rs. coeff r) :: rat)"
    and "(of_int (\<Sum>r\<leftarrow>rs. coeff r) :: rat) \<le> of_nat (length rs) * of_int hi"
    by (metis of_int_le_iff of_int_mult of_int_of_nat_eq)+
  with n show "of_int lo \<le> mean_units rs" and "mean_units rs \<le> of_int hi"
    by (simp_all add: mean_units_def pos_le_divide_eq pos_divide_le_eq mult.commute)
qed

lemma units_triangle:
  fixes c x A :: rat
  assumes "2 * \<bar>c - x\<bar> \<le> 1" and "10 ^ 27 * \<bar>x - A\<bar> \<le> \<bar>A\<bar>" and "0 \<le> A" and "A \<le> 10 ^ 18"
  shows "\<bar>c - A\<bar> \<le> 501 / 1000"
proof -
  have "10 ^ 27 * \<bar>x - A\<bar> \<le> 10 ^ 18" using assms(2-4) by simp
  moreover have "\<bar>c - A\<bar> \<le> \<bar>c - x\<bar> + \<bar>x - A\<bar>" by simp
  ultimately show ?thesis using assms(1) by simp
qed

lemma sum_coeff_bound:
  assumes "\<forall>r \<in> set rs. market_rate r" and "length rs \<le> 3652059"
  shows "(\<Sum>r\<leftarrow>rs. coeff r) < 10 ^ 28"
proof -
  have "(\<Sum>r\<leftarrow>rs. coeff r) \<le> int (length rs) * 10 ^ 18"
    using sum_list_between[of "map coeff rs" 0 "10 ^ 18"] market_rate_bounds[OF assms(1)] by simp
  also have "\<dots> \<le> 3652059 * 10 ^ 18" using assms(2) by simp
  finally show ?thesis by simp
qed

lemma powi_minus_10: "(10 :: rat) powi (-10) = 1 / 10 ^ 10"
  by (simp add: power_int_minus field_simps)

lemma scale_units_cent:
  "2 * \<bar>c * (1 / 10 ^ 10) - d\<bar> \<le> 1 / 10 ^ 10 \<Longrightarrow> 2 * \<bar>c - d * 10 ^ 10\<bar> \<le> (1 :: rat)"
  by (auto simp: abs_if split: if_splits)

lemma scale_units_relative:
  "10 ^ 27 * \<bar>d - a * (1 / 10 ^ 10)\<bar> \<le> \<bar>a * (1 / 10 ^ 10)\<bar> \<Longrightarrow> 10 ^ 27 * \<bar>d * 10 ^ 10 - a\<bar> \<le> \<bar>a :: rat\<bar>"
  by (auto simp: abs_if split: if_splits)

lemma average_rounds_mean:
  assumes rs: "\<forall>r \<in> set rs. market_rate r" and ne: "rs \<noteq> []" and len: "length rs \<le> 3652059"
  shows "\<exists>q avg. dec_div (dec_sum (Dec 0 0) rs) (Dec (int (length rs)) 0) = Inr q
      \<and> dec_quantize ROUND_HALF_EVEN fx_rate_scale q = Inr avg \<and> expo avg = -10
      \<and> \<bar>of_int (coeff avg) - mean_units rs\<bar> \<le> 501 / 1000
      \<and> (\<forall>lo hi. (\<forall>r \<in> set rs. lo \<le> coeff r \<and> coeff r \<le> hi) \<longrightarrow> lo \<le> coeff avg \<and> coeff avg \<le> hi)"
proof -
  let ?S = "\<Sum>r\<leftarrow>rs. coeff r"
  have sum: "dec_sum (Dec 0 0) rs = Dec ?S (-10)"
    using rs ne sum_coeff_bound[OF rs len] by (intro dec_sum_from_zero) (auto simp: market_rate_def)
  obtain q where q: "dec_div (Dec ?S (-10)) (Dec (int (length rs)) 0) = Inr q"
    using ne dec_div_Inl_iff[of "Dec ?S (-10)" "Dec (int (length rs)) 0"]
    by (cases "dec_div (Dec ?S (-10)) (Dec (int (length rs)) 0)") auto
  define c where "c = dec_rescale ROUND_HALF_EVEN q (-10)"
  have "2 * \<bar>of_int c * (1 / 10 ^ 10) - dval q\<bar> \<le> 1 / 10 ^ 10"
    using dec_rescale_error[of ROUND_HALF_EVEN q "-10"] unfolding powi_minus_10 c_def .
  then have near1: "2 * \<bar>of_int c - dval q * 10 ^ 10\<bar> \<le> 1" by (rule scale_units_cent)
  have quot: "dval (Dec ?S (-10)) / dval (Dec (int (length rs)) 0) = mean_units rs * (1 / 10 ^ 10)"
    by (simp add: dval_Dec powi_minus_10 mean_units_def)
  have near2: "10 ^ 27 * \<bar>dval q * 10 ^ 10 - mean_units rs\<bar> \<le> \<bar>mean_units rs\<bar>"
    using dec_div_error[OF q] unfolding quot by (rule scale_units_relative)
  have "0 \<le> mean_units rs" "mean_units rs \<le> 10 ^ 18"
    using mean_units_between[OF ne market_rate_bounds[OF rs]] by simp_all
  with near1 near2 have near: "\<bar>of_int c - mean_units rs\<bar> \<le> 501 / 1000" by (rule units_triangle)
  have bet: "lo \<le> c \<and> c \<le> hi" if "\<forall>r \<in> set rs. lo \<le> coeff r \<and> coeff r \<le> hi" for lo hi
    using near mean_units_between[OF ne that] by (rule round_between)
  have "0 \<le> c \<and> c \<le> 10 ^ 18" by (rule bet[OF market_rate_bounds[OF rs]])
  then have "dec_quantize ROUND_HALF_EVEN fx_rate_scale q = Inr (Dec c (-10))"
    by (simp add: dec_quantize_def fx_rate_scale_def c_def ndigits_le_iff prec_def)
  with q near bet sum show ?thesis by auto
qed

subsection \<open>Which closing is used\<close>

lemma build_rate_map_eq: "build_rate_map drs = map_of (rev (map (\<lambda>dr. (on_date dr, dr_rate dr)) drs))"
proof -
  have "foldl (\<lambda>m dr. m(on_date dr \<mapsto> dr_rate dr)) m drs
      = m ++ map_of (rev (map (\<lambda>dr. (on_date dr, dr_rate dr)) drs))" for m
    by (induction drs arbitrary: m) (auto simp: map_add_def fun_eq_iff split: option.split)
  then show ?thesis by (simp add: build_rate_map_def)
qed

lemma build_rate_map_None: "build_rate_map drs d = None \<longleftrightarrow> (\<forall>dr \<in> set drs. on_date dr \<noteq> d)"
  by (auto simp: build_rate_map_eq map_of_eq_None_iff image_image)

lemma build_rate_map_Some:
  assumes "distinct (map on_date drs)"
  shows "build_rate_map drs d = Some r \<longleftrightarrow> (\<exists>dr \<in> set drs. on_date dr = d \<and> dr_rate dr = r)"
proof -
  have "distinct (map fst (rev (map (\<lambda>dr. (on_date dr, dr_rate dr)) drs)))"
    using assms by (simp add: rev_map[symmetric] comp_def)
  then show ?thesis unfolding build_rate_map_eq by (simp only: map_of_eq_Some_iff) auto
qed

lemma build_rate_map_market:
  "build_rate_map drs d = Some r \<Longrightarrow> \<forall>dr \<in> set drs. market_rate (dr_rate dr) \<Longrightarrow> market_rate r"
  by (auto simp: build_rate_map_eq dest!: map_of_SomeD)

lemma last_known_market:
  "last_known (build_rate_map drs) d n = Some r \<Longrightarrow> \<forall>dr \<in> set drs. market_rate (dr_rate dr) \<Longrightarrow> market_rate r"
  by (auto simp: last_known_Some_iff dest: build_rate_map_market)

text \<open>The last known closing is the row with the greatest date in the window.\<close>

lemma last_known_latest:
  assumes "distinct (map on_date drs)"
  shows "last_known (build_rate_map drs) d n = Some r \<longleftrightarrow>
     (\<exists>dr \<in> set drs. dr_rate dr = r \<and> d - int n < on_date dr \<and> on_date dr \<le> d
        \<and> (\<forall>dr' \<in> set drs. on_date dr' \<le> d \<longrightarrow> on_date dr' \<le> on_date dr))"
    (is "?L \<longleftrightarrow> ?R")
proof
  assume ?L
  then obtain k dr where k: "k < n" "dr \<in> set drs" "on_date dr = d - int k" "dr_rate dr = r"
    and none: "\<forall>j < k. \<forall>dr' \<in> set drs. on_date dr' \<noteq> d - int j"
    by (auto simp: last_known_Some_iff build_rate_map_Some[OF assms] build_rate_map_None)
  have "on_date dr' \<le> on_date dr" if "dr' \<in> set drs" "on_date dr' \<le> d" for dr'
  proof (rule ccontr)
    assume "\<not> ?thesis"
    then have "nat (d - on_date dr') < k \<and> on_date dr' = d - int (nat (d - on_date dr'))"
      using k that by auto
    with none that show False by blast
  qed
  with k show ?R by (intro bexI[of _ dr]) auto
next
  assume ?R
  then obtain dr where dr: "dr \<in> set drs" "dr_rate dr = r" "d - int n < on_date dr" "on_date dr \<le> d"
    "\<forall>dr' \<in> set drs. on_date dr' \<le> d \<longrightarrow> on_date dr' \<le> on_date dr" by blast
  define k where "k = nat (d - on_date dr)"
  have "k < n" "d - int k = on_date dr" using dr by (auto simp: k_def)
  moreover have "\<forall>j < k. build_rate_map drs (d - int j) = None"
    using dr unfolding build_rate_map_None k_def by force
  ultimately show ?L
    unfolding last_known_Some_iff build_rate_map_Some[OF assms] using dr by (intro exI[of _ k]) auto
qed

lemma last_known_gap:
  "last_known (build_rate_map drs) d n = None
     \<longleftrightarrow> (\<forall>dr \<in> set drs. \<not> (d - int n < on_date dr \<and> on_date dr \<le> d))" (is "?L \<longleftrightarrow> ?R")
proof
  assume L: ?L
  show ?R
  proof
    fix dr assume "dr \<in> set drs"
    moreover have "d - int n < on_date dr \<and> on_date dr \<le> d \<Longrightarrow>
        nat (d - on_date dr) < n \<and> on_date dr = d - int (nat (d - on_date dr))" by auto
    ultimately show "\<not> (d - int n < on_date dr \<and> on_date dr \<le> d)"
      using L unfolding last_known_None_iff build_rate_map_None by metis
  qed
next
  assume R: ?R
  show ?L unfolding last_known_None_iff build_rate_map_None using R by auto
qed

lemma spot_rate_eq:
  assumes "str_upper cur \<noteq> ''USD''" and "valid_date d" and "valid_date (d - 5)"
    and "repo cur (d - 5) d = Inr rows" and "\<forall>row \<in> set rows. market_rate (dr_rate row)"
  shows "get_spot_rate repo cur d =
    (case last_known (build_rate_map rows) d 6 of
       None \<Rightarrow> Inl (MissingFXRate cur d ''spot'' 5) | Some r \<Rightarrow> Inr r)"
proof -
  have "date_add d (- max_lookback_days) = Inr (d - 5)"
    using assms(3) by (simp add: date_add_Inr max_lookback_days_def)
  moreover have "assert_nonzero_rate r = Inr () \<and> dec_quantize ROUND_HALF_EVEN fx_rate_scale r = Inr r"
    if "last_known (build_rate_map rows) d 6 = Some r" for r
    using last_known_market[OF that assms(5)]
    by (simp add: assert_nonzero_Inr market_rate_def fx_rate_scale_def fits_def prec_def)
  ultimately show ?thesis
    using assms(1,4) resolve_eq[OF assms(2,3), of "build_rate_map rows"]
    by (simp add: get_spot_rate_def max_lookback_days_def split: option.split)
qed

lemma average_eq:
  assumes "str_upper cur \<noteq> ''USD''" and "s \<le> e" and "valid_date (s - 5)" and "valid_date (e + 1)"
    and "repo cur (s - 5) e = Inr rows"
  shows "get_weighted_average_rate repo cur s e =
    rbind (rmap (day_rate (build_rate_map rows) cur) [s..e]) (\<lambda>rs.
    rbind (lift (dec_div (dec_sum (Dec 0 0) rs) (Dec (int (length rs)) 0))) (\<lambda>avg.
      lift (dec_quantize ROUND_HALF_EVEN fx_rate_scale avg)))"
proof -
  have "date_add s (- max_lookback_days) = Inr (s - 5)"
    using assms(3) by (simp add: date_add_Inr max_lookback_days_def)
  then show ?thesis
    using assms resolve_days_eq[OF assms(3,4)] by (simp add: get_weighted_average_rate_def)
qed

lemma rmap_first_Inl:
  "f x = Inl err \<Longrightarrow> \<forall>y \<in> set ys. \<exists>z. f y = Inr z \<Longrightarrow> rmap f (ys @ x # zs) = Inl err"
  by (induction ys) auto

lemma upto_split_at: "s \<le> d \<Longrightarrow> d \<le> e \<Longrightarrow> [s..e] = [s..d - 1] @ d # [d + 1..e]"
  by (metis upto_rec1 upto_split2 zle_diff1_eq order.strict_implies_order upto_split3)

lemma day_rate_market:
  assumes "\<forall>row \<in> set rows. market_rate (dr_rate row)" and "last_known (build_rate_map rows) d 6 = Some r"
  shows "day_rate (build_rate_map rows) cur d = Inr r"
  using last_known_market[OF assms(2,1)] dval_0_less_iff[of r]
  by (simp add: day_rate_def assms(2) market_rate_def)

subsection \<open>Closings in reach of a day\<close>

text \<open>A day has a closing in reach when one is stored for it or one of the five days before.\<close>

definition closing_in_reach :: "daily_rate list \<Rightarrow> date \<Rightarrow> bool" where
  "closing_in_reach rows d = list_ex (\<lambda>row. d - 5 \<le> on_date row \<and> on_date row \<le> d) rows"

lemma lookback_outcome:
  "lookback_from m t k n = Inr x \<Longrightarrow> x = None \<longleftrightarrow> (\<forall>j < n. m (t - k - int j) = None)"
proof (induction n arbitrary: k)
  case (Suc n)
  then have d: "date_add t (- k) = Inr (t - k)" by (auto simp: rbind_eq_Inr date_add_def split: if_splits)
  show ?case
  proof (cases "m (t - k)")
    case None
    have sh: "t - (k + 1) - int j = t - k - int (Suc j)" for j by simp
    have "lookback_from m t (k + 1) n = Inr x" using Suc.prems d None by simp
    from Suc.IH[OF this] None show ?thesis unfolding sh by (simp add: All_less_Suc2 del: of_nat_Suc)
  next
    case (Some r)
    then show ?thesis using Suc.prems d by (auto intro!: exI[of _ 0])
  qed
qed simp

lemma resolve_outcome:
  assumes "resolve_with_lookback (build_rate_map rows) d max_lookback_days = Inr x"
  shows "x = None \<longleftrightarrow> \<not> closing_in_reach rows d"
proof -
  have "x = None \<longleftrightarrow> last_known (build_rate_map rows) d 6 = None"
    using lookback_outcome[of "build_rate_map rows" d 0 6 x] assms
    by (simp add: resolve_with_lookback_def max_lookback_days_def last_known_None_iff)
  also have "\<dots> \<longleftrightarrow> \<not> closing_in_reach rows d"
    unfolding last_known_gap closing_in_reach_def list_ex_iff by auto
  finally show ?thesis .
qed

lemma lift_names_no_gap [simp]: "lift r \<noteq> Inl (MissingFXRate c d x n)"
  by (cases r) auto

lemma assert_names_no_gap [simp]: "assert_nonzero_rate r \<noteq> Inl (MissingFXRate c d x n)"
  by (simp add: assert_nonzero_rate_def)

lemma usd_names_no_gap [simp]: "usd_rate \<noteq> Inl (MissingFXRate c d x n)"
  by (simp add: usd_rate_eq)

lemma resolve_days_found:
  "resolve_days m c s e = Inr rs \<Longrightarrow> d \<in> {s..e} \<Longrightarrow> \<exists>r. resolve_with_lookback m d max_lookback_days = Inr (Some r)"
proof (induction m c s e arbitrary: rs rule: resolve_days.induct)
  case (1 m c s e)
  then have s: "\<not> e < s" by auto
  with "1.prems" obtain r rs' where r: "resolve_with_lookback m s max_lookback_days = Inr (Some r)"
    "assert_nonzero_rate r = Inr ()" "valid_date (s + 1)" "resolve_days m c (s + 1) e = Inr rs'"
    by (auto simp: resolve_days.simps[of m c s e] rbind_eq_Inr split: if_splits option.splits)
  show ?case
  proof (cases "d = s")
    case False
    with "1.prems" "1.IH"[OF s] r show ?thesis by simp
  qed (use r in simp)
qed

lemma resolve_days_gap:
  "resolve_days m c s e = Inl (MissingFXRate c' d' x n) \<Longrightarrow> \<exists>d \<in> {s..e}. resolve_with_lookback m d max_lookback_days = Inr None"
proof (induction m c s e rule: resolve_days.induct)
  case (1 m c s e)
  then have s: "s \<le> e" by (auto simp: resolve_days.simps[of m c s e] split: if_splits)
  with "1.prems" obtain y where y: "resolve_with_lookback m s max_lookback_days = Inr y"
    by (auto simp: resolve_days.simps[of m c s e] rbind_eq_Inl)
  show ?case
  proof (cases y)
    case None
    then show ?thesis using s y by auto
  next
    case (Some r)
    with "1.prems" s y have r: "assert_nonzero_rate r = Inr ()" "valid_date (s + 1)"
      "resolve_days m c (s + 1) e = Inl (MissingFXRate c' d' x n)"
      by (auto simp: resolve_days.simps[of m c s e] rbind_eq_Inl split: if_splits)
    have "\<exists>d \<in> {s + 1..e}. resolve_with_lookback m d max_lookback_days = Inr None"
      using "1.IH" r s y Some by simp
    then show ?thesis by auto
  qed
qed

text \<open>A repository raises its own errors, never the one that names a gap: finding gaps is the provider's part.\<close>

definition plain_repository :: "rate_repository \<Rightarrow> bool" where
  "plain_repository repo \<longleftrightarrow> (\<forall>cur s e c d x n. repo cur s e \<noteq> Inl (MissingFXRate c d x n))"

text \<open>A rate exists, or is reported missing, by what the repository returned for the window.\<close>

lemma spot_rate_reach:
  assumes "str_upper cur \<noteq> ''USD''"
  shows "get_spot_rate repo cur d = Inr r \<Longrightarrow> \<exists>rows. repo cur (d - 5) d = Inr rows \<and> closing_in_reach rows d"
    and "plain_repository repo \<Longrightarrow> get_spot_rate repo cur d = Inl (MissingFXRate c' d' x n)
      \<Longrightarrow> \<exists>rows. repo cur (d - 5) d = Inr rows \<and> \<not> closing_in_reach rows d"
  using assms
  by (auto simp: get_spot_rate_def rbind_eq_Inr rbind_eq_Inl date_add_Inr max_lookback_days_def
      plain_repository_def dest!: resolve_outcome[unfolded max_lookback_days_def] split: if_splits option.splits)

lemma average_reach:
  assumes "str_upper cur \<noteq> ''USD''"
  shows "get_weighted_average_rate repo cur s e = Inr r \<Longrightarrow> \<exists>rows. repo cur (s - 5) e = Inr rows \<and> (\<forall>d \<in> {s..e}. closing_in_reach rows d)"
    and "plain_repository repo \<Longrightarrow> get_weighted_average_rate repo cur s e = Inl (MissingFXRate c' d' x n)
      \<Longrightarrow> \<exists>rows. repo cur (s - 5) e = Inr rows \<and> (\<exists>d \<in> {s..e}. \<not> closing_in_reach rows d)"
proof -
  have fetch: "date_add s (- max_lookback_days) = Inr y \<Longrightarrow> y = s - 5" for y
    by (simp add: date_add_Inr max_lookback_days_def)
  show "\<exists>rows. repo cur (s - 5) e = Inr rows \<and> (\<forall>d \<in> {s..e}. closing_in_reach rows d)"
    if a: "get_weighted_average_rate repo cur s e = Inr r"
  proof -
    from a assms fetch obtain rows rs where "repo cur (s - 5) e = Inr rows" "resolve_days (build_rate_map rows) cur s e = Inr rs"
      by (auto simp: get_weighted_average_rate_def rbind_eq_Inr split: if_splits)
    then show ?thesis using resolve_days_found resolve_outcome by blast
  qed
  show "\<exists>rows. repo cur (s - 5) e = Inr rows \<and> (\<exists>d \<in> {s..e}. \<not> closing_in_reach rows d)"
    if a: "get_weighted_average_rate repo cur s e = Inl (MissingFXRate c' d' x n)" and p: "plain_repository repo"
  proof -
    from a assms p fetch obtain rows where "repo cur (s - 5) e = Inr rows"
      "resolve_days (build_rate_map rows) cur s e = Inl (MissingFXRate c' d' x n)"
      by (auto simp: get_weighted_average_rate_def rbind_eq_Inl plain_repository_def split: if_splits)
    then show ?thesis using resolve_days_gap resolve_outcome by blast
  qed
qed

subsection \<open>Properties of the rates\<close>

text \<open>
  The spot rate of a day is the closing stored for the latest date in the six-day window
  that ends on that day, read unchanged; it is missing exactly when the window holds no
  closing, and the error then names the currency, the day and the five days searched.
\<close>

lemma spot_rate_is_latest_closing:
  assumes "str_upper cur \<noteq> ''USD''" and "valid_date d" and "valid_date (d - 5)"
    and "repo cur (d - 5) d = Inr rows" and "\<forall>row \<in> set rows. market_rate (dr_rate row)"
    and "distinct (map on_date rows)"
  shows "(get_spot_rate repo cur d = Inr r \<longleftrightarrow>
            (\<exists>row \<in> set rows. dr_rate row = r \<and> d - 5 \<le> on_date row \<and> on_date row \<le> d
               \<and> (\<forall>row' \<in> set rows. on_date row' \<le> d \<longrightarrow> on_date row' \<le> on_date row)))
       \<and> ((\<forall>row \<in> set rows. \<not> (d - 5 \<le> on_date row \<and> on_date row \<le> d)) \<longleftrightarrow>
            get_spot_rate repo cur d = Inl (MissingFXRate cur d ''spot'' 5))"
proof -
  have win: "d - 5 \<le> x \<longleftrightarrow> d - int 6 < x" for x :: int by auto
  show ?thesis
    unfolding spot_rate_eq[of cur d repo rows, OF assms(1-5)] win last_known_gap[symmetric]
      last_known_latest[OF assms(6), symmetric]
    by (simp split: option.split)
qed

text \<open>
  The weighted average of a period is one rate per calendar day, weekends and holidays
  carrying the last known closing: when every day has one, the average exists, is the
  arithmetic mean of those rates rounded to ten decimals, and lies between any bounds the
  daily rates respect.
\<close>

lemma weighted_average_is_mean_of_days:
  assumes "str_upper cur \<noteq> ''USD''" and "s \<le> e" and "valid_date (s - 5)" and "valid_date (e + 1)"
    and "repo cur (s - 5) e = Inr rows" and "\<forall>row \<in> set rows. market_rate (dr_rate row)"
    and "\<forall>d \<in> {s..e}. last_known (build_rate_map rows) d 6 = Some (rate_on d)"
  shows "\<exists>avg. get_weighted_average_rate repo cur s e = Inr avg \<and> expo avg = -10
     \<and> \<bar>of_int (coeff avg) - mean_units (map rate_on [s..e])\<bar> \<le> 501 / 1000
     \<and> (\<forall>lo hi. (\<forall>d \<in> {s..e}. lo \<le> coeff (rate_on d) \<and> coeff (rate_on d) \<le> hi)
           \<longrightarrow> lo \<le> coeff avg \<and> coeff avg \<le> hi)"
proof -
  have rs: "rmap (day_rate (build_rate_map rows) cur) [s..e] = Inr (map rate_on [s..e])"
    using assms(6,7) by (intro rmap_cong_Inr day_rate_market) auto
  have "\<forall>r \<in> set (map rate_on [s..e]). market_rate r"
    using assms(6,7) by (auto intro: last_known_market)
  moreover have "map rate_on [s..e] \<noteq> []" using assms(2) by simp
  moreover have "length (map rate_on [s..e]) \<le> 3652059"
    using assms(3,4) by (simp add: valid_date_def max_ordinal_def nat_le_iff)
  ultimately show ?thesis
    using average_rounds_mean[of "map rate_on [s..e]"] rs average_eq[of cur s e repo rows, OF assms(1-5)]
    by fastforce
qed

text \<open>
  A single day of the period with no closing in its look-back window blocks the average:
  the first such day is named in the error, and no average of the other days is formed.
\<close>

lemma weighted_average_blocked_by_gap:
  assumes "str_upper cur \<noteq> ''USD''" and "s \<le> e" and "valid_date (s - 5)" and "valid_date (e + 1)"
    and "repo cur (s - 5) e = Inr rows" and "\<forall>row \<in> set rows. market_rate (dr_rate row)"
    and "s \<le> d" and "d \<le> e" and "\<forall>row \<in> set rows. \<not> (d - 5 \<le> on_date row \<and> on_date row \<le> d)"
    and "\<forall>d' \<in> {s..<d}. \<exists>row \<in> set rows. d' - 5 \<le> on_date row \<and> on_date row \<le> d'"
  shows "get_weighted_average_rate repo cur s e = Inl (MissingFXRate cur d ''weighted_average'' 5)"
proof -
  let ?f = "day_rate (build_rate_map rows) cur"
  have win: "x - 5 \<le> y \<longleftrightarrow> x - int 6 < y" for x y :: int by auto
  have "last_known (build_rate_map rows) d 6 = None"
    using assms(9) unfolding last_known_gap win .
  then have bad: "?f d = Inl (MissingFXRate cur d ''weighted_average'' 5)"
    by (simp add: day_rate_def max_lookback_days_def)
  have "\<exists>r. ?f d' = Inr r" if "d' \<in> {s..<d}" for d'
  proof -
    have "last_known (build_rate_map rows) d' 6 \<noteq> None"
      using assms(10) that unfolding last_known_gap win by blast
    then show ?thesis using day_rate_market[OF assms(6)] by blast
  qed
  then have "rmap ?f [s..e] = Inl (MissingFXRate cur d ''weighted_average'' 5)"
    unfolding upto_split_at[OF assms(7,8)] by (intro rmap_first_Inl bad) auto
  then show ?thesis by (simp add: average_eq[of cur s e repo rows, OF assms(1-5)])
qed

text \<open>
  A successful translation of a foreign amount uses the rate of the pass its statement
  type demands, the spot rate of the period end for a balance sheet and the weighted average of the
  period for a flow; the stored rate is that rate, it is positive, and the dollar
  value is the quotient to within half a cent plus one part in ten to the 27.
\<close>

lemma translation_accuracy:
  assumes "engine_translate repo v cur st e s = Inr res" and "str_upper cur \<noteq> ''USD''"
  shows "(str_upper st = ''BS'' \<and> get_spot_rate repo cur e = Inr (tr_fx_rate_used res)
           \<or> str_upper st \<in> {''IS'', ''CF''} \<and> (\<exists>b. s = Some b
               \<and> get_weighted_average_rate repo cur b e = Inr (tr_fx_rate_used res)))
    \<and> 0 < dval (tr_fx_rate_used res)
    \<and> \<bar>dval (tr_value_usd res) - dval v / dval (tr_fx_rate_used res)\<bar>
        \<le> 1 / 200 + \<bar>dval v / dval (tr_fx_rate_used res)\<bar> / 10 ^ 27"
proof -
  note t = assms(1)[unfolded engine_translate_def]
  obtain rt where "select_rate (historical_provider repo) cur (str_upper st) e s = Inr (tr_fx_rate_used res, rt)"
    using hist.translate_accuracy(1)[OF t assms(2)] by blast
  then have "str_upper st = ''BS'' \<and> get_spot_rate repo cur e = Inr (tr_fx_rate_used res)
           \<or> str_upper st \<in> {''IS'', ''CF''} \<and> (\<exists>b. s = Some b
               \<and> get_weighted_average_rate repo cur b e = Inr (tr_fx_rate_used res))"
    by (auto simp: select_rate_def rbind_eq_Inr historical_provider_def split: if_splits option.splits)
  then show ?thesis
    using hist.translate_accuracy(2,3)[OF t assms(2)] by blast
qed

subsection \<open>Instances\<close>

text \<open>Two closings of the rupee, on a Friday and the Wednesday before it.\<close>

definition sample_rows :: "daily_rate list" where
  "sample_rows =
     [\<lparr>dr_currency = ''INR'', on_date = 738612, dr_rate = Dec 828550000000 (-10), dr_source = ''ECB''\<rparr>,
      \<lparr>dr_currency = ''INR'', on_date = 738614, dr_rate = Dec 829000000000 (-10), dr_source = ''ECB''\<rparr>]"

definition sample_repo :: rate_repository where
  "sample_repo cur s e = Inr (filter (\<lambda>dr. dr_currency dr = cur \<and> s \<le> on_date dr \<and> on_date dr \<le> e) sample_rows)"

lemma inr_not_usd: "str_upper ''INR'' \<noteq> ''USD''"
  by code_simp

lemma sample_market: "\<forall>row \<in> set sample_rows. market_rate (dr_rate row)"
  by (simp add: sample_rows_def market_rate_def)

lemma sample_repo_all: "s \<le> 738612 \<Longrightarrow> 738614 \<le> e \<Longrightarrow> sample_repo ''INR'' s e = Inr sample_rows"
  by (simp add: sample_repo_def sample_rows_def)

text \<open>Sunday reads Friday's closing.\<close>

lemma spot_rate_is_latest_closing_witness:
  "get_spot_rate sample_repo ''INR'' 738616 = Inr (Dec 829000000000 (-10))"
proof -
  have v: "valid_date 738616" "valid_date (738616 - 5)" by (simp_all add: valid_date_def max_ordinal_def)
  have d: "distinct (map on_date sample_rows)" by (simp add: sample_rows_def)
  have "\<exists>row \<in> set sample_rows. dr_rate row = Dec 829000000000 (-10) \<and> 738616 - 5 \<le> on_date row
      \<and> on_date row \<le> 738616 \<and> (\<forall>row' \<in> set sample_rows. on_date row' \<le> 738616 \<longrightarrow> on_date row' \<le> on_date row)"
    by (simp add: sample_rows_def)
  with spot_rate_is_latest_closing[of "''INR''" 738616 sample_repo sample_rows "Dec 829000000000 (-10)",
      OF inr_not_usd v sample_repo_all sample_market d]
  show ?thesis by simp
qed

lemma weighted_average_is_mean_of_days_witness:
  "\<exists>avg. get_weighted_average_rate sample_repo ''INR'' 738614 738616 = Inr avg \<and> coeff avg = 829000000000"
proof -
  have v: "(738614 :: int) \<le> 738616" "valid_date (738614 - 5)" "valid_date (738616 + 1)"
    by (simp_all add: valid_date_def max_ordinal_def)
  have "\<forall>d \<in> {738614..738616}. last_known (build_rate_map sample_rows) d 6 = Some (Dec 829000000000 (-10))"
    unfolding set_upto[symmetric] by code_simp
  from weighted_average_is_mean_of_days[of "''INR''" 738614 738616 sample_repo sample_rows "\<lambda>_. Dec 829000000000 (-10)",
      OF inr_not_usd v sample_repo_all sample_market this]
  obtain avg where "get_weighted_average_rate sample_repo ''INR'' 738614 738616 = Inr avg"
    and "829000000000 \<le> coeff avg \<and> coeff avg \<le> 829000000000"
    by fastforce
  then show ?thesis by auto
qed

lemma weighted_average_blocked_by_gap_witness:
  "get_weighted_average_rate sample_repo ''INR'' 738612 738620
     = Inl (MissingFXRate ''INR'' 738620 ''weighted_average'' 5)"
proof -
  have v: "(738612 :: int) \<le> 738620" "valid_date (738612 - 5)" "valid_date (738620 + 1)"
    by (simp_all add: valid_date_def max_ordinal_def)
  have gap: "\<forall>row \<in> set sample_rows. \<not> (738620 - 5 \<le> on_date row \<and> on_date row \<le> 738620)"
    by (simp add: sample_rows_def)
  have fill: "\<forall>d' \<in> {738612..<738620}. \<exists>row \<in> set sample_rows. d' - 5 \<le> on_date row \<and> on_date row \<le> d'"
    by (auto simp: sample_rows_def)
  show ?thesis
    by (rule weighted_average_blocked_by_gap[of "''INR''" 738612 738620 sample_repo sample_rows 738620,
          OF inr_not_usd v sample_repo_all sample_market _ _ gap fill]) simp_all
qed

lemma translation_accuracy_witness:
  "\<exists>res. engine_translate sample_repo (Dec 100000000 (-2)) ''INR'' ''BS'' 738616 None = Inr res
     \<and> tr_value_usd res = Dec 1206273 (-2)
     \<and> \<bar>dval (tr_value_usd res) - dval (Dec 100000000 (-2)) / dval (tr_fx_rate_used res)\<bar>
        \<le> 1 / 200 + \<bar>dval (Dec 100000000 (-2)) / dval (tr_fx_rate_used res)\<bar> / 10 ^ 27"
proof -
  obtain res where res: "engine_translate sample_repo (Dec 100000000 (-2)) ''INR'' ''BS'' 738616 None = Inr res"
    and v: "tr_value_usd res = Dec 1206273 (-2)"
  proof
    show "engine_translate sample_repo (Dec 100000000 (-2)) ''INR'' ''BS'' 738616 None
     = Inr \<lparr>tr_value_usd = Dec 1206273 (-2), tr_fx_rate_used = Dec 829000000000 (-10),
            tr_rate_type = ''spot'', tr_currency = ''INR''\<rparr>"
      by code_simp
  qed simp
  from translation_accuracy[OF res inr_not_usd] res v show ?thesis by blast
qed

end
