(* ===== verification/BulkProcessor.thy ===== *)
theory BulkProcessor
  imports Models FXTranslator "HOL-Library.Multiset"
begin

text \<open>
  \<^verbatim>\<open>services/currency/bulk_processor.py\<close>: translating a batch of line items to dollars inside
  one savepoint.  The session is the pair of tables the module reads and writes; rolling
  the savepoint back restores the line items it started with.  The order in which a query
  returns its rows (\<^verbatim>\<open>ORDER BY\<close> on text columns, ties included) is the parameter
  \<open>arrange\<close> of the loaders.
\<close>

record missing_rate =
  mr_currency :: string
  mr_target_date :: date
  mr_context :: string
  mr_lookback_days :: int

record bulk_result =
  rows_translated :: nat
  rows_skipped_usd :: nat
  rows_skipped_null :: nat
  rows_failed :: nat
  job_status_updated_to :: "string option"
  missing_rate_details :: "missing_rate option"

definition empty_result :: bulk_result where
  "empty_result = \<lparr>rows_translated = 0, rows_skipped_usd = 0, rows_skipped_null = 0, rows_failed = 0,
     job_status_updated_to = None, missing_rate_details = None\<rparr>"

definition bulk_success :: "bulk_result \<Rightarrow> bool" where
  "bulk_success r = (rows_failed r = 0)"

definition total_loaded :: "bulk_result \<Rightarrow> nat" where
  "total_loaded r = rows_translated r + rows_skipped_usd r + rows_skipped_null r + rows_failed r"

definition STATUS_FX_DATA_GAP :: string where "STATUS_FX_DATA_GAP = ''failed_fx_data_gap''"

definition TRANSLATABLE_STATUSES :: "string set" where
  "TRANSLATABLE_STATUSES = {''pending'', ''queued'', ''running'', ''completed''}"

subsection \<open>Period dates\<close>

type_synonym ymd = "int \<times> int \<times> int"
type_synonym period_overrides = "int \<times> string \<Rightarrow> (date \<times> date) option"

definition india_periods :: "int \<Rightarrow> (string \<times> ymd \<times> ymd) list" where
  "india_periods y =
     [(''FY'', (y, 4, 1), (y + 1, 3, 31)),
      (''Q1'', (y, 4, 1), (y, 6, 30)),
      (''Q2'', (y, 7, 1), (y, 9, 30)),
      (''Q3'', (y, 10, 1), (y, 12, 31)),
      (''Q4'', (y + 1, 1, 1), (y + 1, 3, 31))]"

definition calendar_periods :: "int \<Rightarrow> (string \<times> ymd \<times> ymd) list" where
  "calendar_periods y =
     [(''FY'', (y, 1, 1), (y, 12, 31)),
      (''Q1'', (y, 1, 1), (y, 3, 31)),
      (''Q2'', (y, 4, 1), (y, 6, 30)),
      (''Q3'', (y, 7, 1), (y, 9, 30)),
      (''Q4'', (y, 10, 1), (y, 12, 31))]"

text \<open>The dict displays construct every date before the look-up.\<close>

definition build_period :: "string \<times> ymd \<times> ymd \<Rightarrow> py_error + (string \<times> date \<times> date)" where
  "build_period e =
     (case e of (k, (y1, m1, d1), (y2, m2, d2)) \<Rightarrow>
        rbind (mk_date y1 m1 d1) (\<lambda>s. rbind (mk_date y2 m2 d2) (\<lambda>t. Inr (k, s, t))))"

definition derive_period_dates :: "int \<Rightarrow> string \<Rightarrow> string \<Rightarrow> py_error + (date \<times> date)" where
  "derive_period_dates fy fp std =
     (let p = str_strip (str_upper fp);
          is_india = (str_strip (str_upper std) = ''IND_AS'')
      in rbind (rmap build_period (if is_india then india_periods fy else calendar_periods fy)) (\<lambda>periods.
           case map_of periods p of None \<Rightarrow> Inl ValueError | Some r \<Rightarrow> Inr r))"

definition resolve_period_dates :: "period_overrides \<Rightarrow> int \<Rightarrow> string \<Rightarrow> string \<Rightarrow> py_error + (date \<times> date)" where
  "resolve_period_dates overrides fy fp std =
     (case overrides (fy, fp) of Some r \<Rightarrow> Inr r | None \<Rightarrow> derive_period_dates fy fp std)"

subsection \<open>One item\<close>

datatype item_status = Translated | SkippedUsd | SkippedNull

definition quantise_monetary :: "decimal \<Rightarrow> py_error + decimal" where
  "quantise_monetary v = dec_quantize ROUND_HALF_EVEN monetary_scale v"

definition item_currency :: "financial_line_item \<Rightarrow> string" where
  "item_currency item =
     str_strip (str_upper (case fli_reported_currency item of
        None \<Rightarrow> ''USD'' | Some c \<Rightarrow> if c = [] then ''USD'' else c))"

definition translate_item :: "rate_repository \<Rightarrow> period_overrides \<Rightarrow> instant \<Rightarrow> financial_line_item
    \<Rightarrow> fx_error + (item_status \<times> financial_line_item)" where
  "translate_item repo overrides now item =
     (case fli_value_reported item of
        None \<Rightarrow> Inr (SkippedNull, item)
      | Some value \<Rightarrow>
          (let currency = item_currency item in
           if currency = ''USD''
           then
             rbind (lift (quantise_monetary value)) (\<lambda>v.
             rbind (lift (dec_quantize ROUND_HALF_EVEN fx_rate_scale (Dec 1 0))) (\<lambda>one.
               Inr (SkippedUsd, item\<lparr>fli_value_usd := Some v, fli_fx_rate_used := Some one, fli_updated_at := now\<rparr>)))
           else
             rbind (lift (resolve_period_dates overrides (fli_fiscal_year item) (fli_fiscal_period item)
                (fli_reporting_standard item))) (\<lambda>(period_start, period_end).
             rbind (engine_translate repo value currency (fli_statement_type item) period_end (Some period_start)) (\<lambda>t.
             rbind (lift (quantise_monetary (tr_value_usd t))) (\<lambda>v.
               Inr (Translated, item\<lparr>fli_value_usd := Some v, fli_fx_rate_used := Some (tr_fx_rate_used t),
                                      fli_updated_at := now\<rparr>))))))"

subsection \<open>The batch\<close>

definition count_item :: "item_status \<Rightarrow> bulk_result \<Rightarrow> bulk_result" where
  "count_item st r =
     (case st of
        Translated \<Rightarrow> r\<lparr>rows_translated := rows_translated r + 1\<rparr>
      | SkippedUsd \<Rightarrow> r\<lparr>rows_skipped_usd := rows_skipped_usd r + 1\<rparr>
      | SkippedNull \<Rightarrow> r\<lparr>rows_skipped_null := rows_skipped_null r + 1\<rparr>)"

text \<open>An exception leaves the loop with the counters it had reached.\<close>

fun batch_loop :: "rate_repository \<Rightarrow> period_overrides \<Rightarrow> instant \<Rightarrow> financial_line_item list
    \<Rightarrow> bulk_result \<Rightarrow> financial_line_item list
    \<Rightarrow> (fx_error \<times> bulk_result) + (bulk_result \<times> financial_line_item list)" where
  "batch_loop repo ov now [] res rows = Inr (res, rows)"
| "batch_loop repo ov now (item # items) res rows =
     (case translate_item repo ov now item of
        Inl e \<Rightarrow> Inl (e, res)
      | Inr (st, item') \<Rightarrow>
          batch_loop repo ov now items (count_item st res) (put_row fli_id (fli_id item) item' rows))"

definition fx_gap_job :: "missing_rate \<Rightarrow> nat \<Rightarrow> instant \<Rightarrow> financial_job \<Rightarrow> financial_job" where
  "fx_gap_job mr failed now j =
     j\<lparr>job_status := STATUS_FX_DATA_GAP,
       job_error_message := Some (FXGapText (mr_currency mr) (mr_target_date mr) (mr_context mr)
          (mr_lookback_days mr) failed),
       job_updated_at := now\<rparr>"

definition update_job_status_fx_gap :: "instant \<Rightarrow> uuid option \<Rightarrow> missing_rate \<Rightarrow> bulk_result \<Rightarrow> session
    \<Rightarrow> bulk_result \<times> session" where
  "update_job_status_fx_gap now jid mr res s =
     (case jid of
        None \<Rightarrow> (res, s)
      | Some i \<Rightarrow>
          (case get_row job_id i (financial_jobs s) of
             None \<Rightarrow> (res, s)
           | Some job \<Rightarrow>
               (res\<lparr>job_status_updated_to := Some STATUS_FX_DATA_GAP\<rparr>,
                s\<lparr>financial_jobs := put_row job_id i (fx_gap_job mr (rows_failed res) now job) (financial_jobs s)\<rparr>)))"

definition translate_batch :: "rate_repository \<Rightarrow> period_overrides \<Rightarrow> instant \<Rightarrow> financial_line_item list
    \<Rightarrow> uuid option \<Rightarrow> session \<Rightarrow> fx_error + (bulk_result \<times> session)" where
  "translate_batch repo ov now items jid s =
     (if items = [] then Inr (empty_result, s)
      else
        case batch_loop repo ov now items empty_result (line_items s) of
          Inr (res, rows) \<Rightarrow> Inr (res, s\<lparr>line_items := rows\<rparr>)
        | Inl (MissingFXRate c d ctx lb, res) \<Rightarrow>
            let mr = \<lparr>mr_currency = c, mr_target_date = d, mr_context = ctx, mr_lookback_days = lb\<rparr>;
                res1 = res\<lparr>rows_failed := rows_translated res + 1, rows_translated := 0,
                           missing_rate_details := Some mr\<rparr>
            in Inr (update_job_status_fx_gap now jid mr res1 s)
        | Inl (e, res) \<Rightarrow> Inl e)"

subsection \<open>Loading\<close>

definition load_untranslated_by_company_year ::
    "(financial_line_item list \<Rightarrow> financial_line_item list) \<Rightarrow> uuid option \<Rightarrow> int option \<Rightarrow> session
      \<Rightarrow> financial_line_item list" where
  "load_untranslated_by_company_year arrange cid fy s =
     (case (cid, fy) of
        (Some c, Some y) \<Rightarrow>
          arrange (filter (\<lambda>r. fli_company_id r = c \<and> fli_fiscal_year r = y \<and> \<not> fli_is_restated r
                                \<and> fli_value_usd r = None) (line_items s))
      | _ \<Rightarrow> [])"

definition load_untranslated_by_period ::
    "(financial_line_item list \<Rightarrow> financial_line_item list) \<Rightarrow> uuid \<Rightarrow> int \<Rightarrow> string \<Rightarrow> session
      \<Rightarrow> financial_line_item list" where
  "load_untranslated_by_period arrange c y p s =
     arrange (filter (\<lambda>r. fli_company_id r = c \<and> fli_fiscal_year r = y \<and> fli_fiscal_period r = p
                           \<and> \<not> fli_is_restated r \<and> fli_value_usd r = None) (line_items s))"

subsection \<open>Entry points\<close>

definition translate_for_job ::
    "rate_repository \<Rightarrow> period_overrides \<Rightarrow> (financial_line_item list \<Rightarrow> financial_line_item list) \<Rightarrow> instant
      \<Rightarrow> uuid \<Rightarrow> session \<Rightarrow> fx_error + (bulk_result \<times> session)" where
  "translate_for_job repo ov arrange now jid s =
     (case get_row job_id jid (financial_jobs s) of
        None \<Rightarrow> Inr (empty_result, s)
      | Some job \<Rightarrow>
          if job_status job \<notin> TRANSLATABLE_STATUSES then Inr (empty_result, s)
          else translate_batch repo ov now
                 (load_untranslated_by_company_year arrange (job_company_id job) (job_fiscal_year job) s)
                 (Some jid) s)"

definition translate_for_company_period ::
    "rate_repository \<Rightarrow> period_overrides \<Rightarrow> (financial_line_item list \<Rightarrow> financial_line_item list) \<Rightarrow> instant
      \<Rightarrow> uuid \<Rightarrow> int \<Rightarrow> string \<Rightarrow> uuid option \<Rightarrow> session \<Rightarrow> fx_error + (bulk_result \<times> session)" where
  "translate_for_company_period repo ov arrange now c y p jid s =
     translate_batch repo ov now (load_untranslated_by_period arrange c y p s) jid s"

subsection \<open>Fiscal calendars\<close>

definition leap_day :: "int \<Rightarrow> int" where
  "leap_day y = (if is_leap y then 1 else 0)"

lemma mk_date_months:
  assumes "1 \<le> y" and "y \<le> 9999"
  shows "mk_date y 1 1 = Inr (days_before_year y + 1)"
    and "mk_date y 3 31 = Inr (days_before_year y + leap_day y + 90)"
    and "mk_date y 4 1 = Inr (days_before_year y + leap_day y + 91)"
    and "mk_date y 6 30 = Inr (days_before_year y + leap_day y + 181)"
    and "mk_date y 7 1 = Inr (days_before_year y + leap_day y + 182)"
    and "mk_date y 9 30 = Inr (days_before_year y + leap_day y + 273)"
    and "mk_date y 10 1 = Inr (days_before_year y + leap_day y + 274)"
    and "mk_date y 12 31 = Inr (days_before_year y + leap_day y + 365)"
  using assms
  by (simp_all add: mk_date_def days_in_month_def days_before_month_def month_lengths_def leap_day_def
      eval_nat_numeral)

lemma days_before_next_year: "days_before_year (y + 1) = days_before_year y + leap_day y + 365"
  by (simp add: days_before_year_Suc leap_day_def)

lemma upper_codes:
  "str_strip (str_upper ''FY'') = ''FY''" "str_strip (str_upper ''Q1'') = ''Q1''"
  "str_strip (str_upper ''Q2'') = ''Q2''" "str_strip (str_upper ''Q3'') = ''Q3''"
  "str_strip (str_upper ''Q4'') = ''Q4''"
  by code_simp+

text \<open>The five periods of a year, in day numbers; \<open>b\<close> is the last day before the year.\<close>

definition periods_from :: "date \<Rightarrow> int \<Rightarrow> int \<Rightarrow> int \<Rightarrow> int \<Rightarrow> (string \<times> date \<times> date) list" where
  "periods_from b q1 q2 q3 q4 =
     [(''FY'', b + 1, b + q1 + q2 + q3 + q4), (''Q1'', b + 1, b + q1), (''Q2'', b + q1 + 1, b + q1 + q2),
      (''Q3'', b + q1 + q2 + 1, b + q1 + q2 + q3), (''Q4'', b + q1 + q2 + q3 + 1, b + q1 + q2 + q3 + q4)]"

lemma calendar_built:
  assumes "1 \<le> y" and "y \<le> 9999"
  shows "rmap build_period (calendar_periods y)
    = Inr (periods_from (days_before_year y) (90 + leap_day y) 91 92 92)"
  by (simp add: calendar_periods_def build_period_def periods_from_def mk_date_months[OF assms])

lemma india_built:
  assumes "1 \<le> y" and "y \<le> 9998"
  shows "rmap build_period (india_periods y)
    = Inr (periods_from (days_before_year y + leap_day y + 90) 91 92 92 (90 + leap_day (y + 1)))"
proof -
  have y: "y \<le> 9999" "1 \<le> y + 1" "y + 1 \<le> 9999" using assms by simp_all
  show ?thesis
    by (simp add: india_periods_def build_period_def periods_from_def mk_date_months[OF assms(1) y(1)]
        mk_date_months[OF y(2,3)] days_before_next_year)
qed

lemma derive_built:
  assumes "1 \<le> y" and "y \<le> 9998"
  shows "\<exists>b q1 q2 q3 q4. {q1, q2, q3, q4} \<subseteq> {90..92}
    \<and> q1 + q2 + q3 + q4 = 365 + (if str_strip (str_upper std) = ''IND_AS'' then leap_day (y + 1) else leap_day y)
    \<and> (\<forall>fp. derive_period_dates y fp std
         = (case map_of (periods_from b q1 q2 q3 q4) (str_strip (str_upper fp)) of
              None \<Rightarrow> Inl ValueError | Some r \<Rightarrow> Inr r))"
proof (cases "str_strip (str_upper std) = ''IND_AS''")
  case True
  then show ?thesis
    using india_built[OF assms]
    by (intro exI[of _ "days_before_year y + leap_day y + 90"] exI[of _ 91] exI[of _ 92] exI[of _ "90 + leap_day (y + 1)"])
      (simp add: derive_period_dates_def Let_def, simp add: leap_day_def)
next
  case False
  have y: "y \<le> 9999" using assms by simp
  from False show ?thesis
    using calendar_built[OF assms(1) y]
    by (intro exI[of _ "days_before_year y"] exI[of _ "90 + leap_day y"] exI[of _ 91] exI[of _ 92])
      (simp add: derive_period_dates_def Let_def, simp add: leap_day_def)
qed

subsection \<open>Rows of a batch\<close>

definition set_usd :: "decimal \<times> decimal \<times> instant \<Rightarrow> financial_line_item \<Rightarrow> financial_line_item" where
  "set_usd p item = (case p of (v, rate, now) \<Rightarrow>
     item\<lparr>fli_value_usd := Some v, fli_fx_rate_used := Some rate, fli_updated_at := now\<rparr>)"

interpretation items: row_table fli_id set_usd
  by unfold_locales (simp add: set_usd_def split: prod.split)

interpretation gap_jobs: row_table job_id "\<lambda>(mr, n, now). fx_gap_job mr n now"
  by unfold_locales (auto simp: fx_gap_job_def)

text \<open>What a success returns, branch by branch.\<close>

lemma translate_item_cases:
  assumes "translate_item repo ov now item = Inr (st, item')"
  obtains (null) "fli_value_reported item = None" "st = SkippedNull" "item' = item"
  | (usd) w v where "fli_value_reported item = Some w" "item_currency item = ''USD''"
      "st = SkippedUsd" "quantise_monetary w = Inr v" "item' = set_usd (v, Dec 10000000000 (-10), now) item"
  | (foreign) w b e t where "fli_value_reported item = Some w" "item_currency item \<noteq> ''USD''"
      "st = Translated"
      "resolve_period_dates ov (fli_fiscal_year item) (fli_fiscal_period item) (fli_reporting_standard item) = Inr (b, e)"
      "engine_translate repo w (item_currency item) (fli_statement_type item) e (Some b) = Inr t"
      "item' = set_usd (tr_value_usd t, tr_fx_rate_used t, now) item"
proof (cases "fli_value_reported item")
  case None
  with assms have "st = SkippedNull" "item' = item" by (simp_all add: translate_item_def)
  with null[OF None] show ?thesis by blast
next
  case (Some w)
  show ?thesis
  proof (cases "item_currency item = ''USD''")
    case True
    have one: "lift (dec_quantize ROUND_HALF_EVEN fx_rate_scale (Dec 1 0)) = Inr (Dec 10000000000 (-10))"
      using usd_rate_eq by (simp add: usd_rate_def)
    from True Some assms obtain v where "quantise_monetary w = Inr v" "st = SkippedUsd"
      "item' = set_usd (v, Dec 10000000000 (-10), now) item"
      unfolding translate_item_def one by (auto simp: rbind_eq_Inr set_usd_def)
    with usd[OF Some True] show ?thesis by blast
  next
    case False
    with Some assms obtain b e t v where *:
      "resolve_period_dates ov (fli_fiscal_year item) (fli_fiscal_period item) (fli_reporting_standard item) = Inr (b, e)"
      "engine_translate repo w (item_currency item) (fli_statement_type item) e (Some b) = Inr t"
      "quantise_monetary (tr_value_usd t) = Inr v" "st = Translated" "item' = set_usd (v, tr_fx_rate_used t, now) item"
      by (auto simp: translate_item_def rbind_eq_Inr set_usd_def)
    have "expo (tr_value_usd t) = -2 \<and> fits (tr_value_usd t)"
    proof (cases "str_upper (item_currency item) = ''USD''")
      case True
      with *(2) show ?thesis
        by (auto simp: engine_translate_def translate_def rbind_eq_Inr monetary_scale_def
            dest: dec_quantize_InrD(2) dec_quantize_InrD(3))
    next
      case False
      show ?thesis using hist.translate_accuracy(4)[OF *(2)[unfolded engine_translate_def] False] .
    qed
    then have "v = tr_value_usd t" using *(3) by (simp add: quantise_monetary_def monetary_scale_def)
    with foreign[OF Some False *(4,1,2)] *(5) show ?thesis by blast
  qed
qed

lemma translate_item_id: "translate_item repo ov now item = Inr (st, item') \<Longrightarrow> fli_id item' = fli_id item"
  by (erule translate_item_cases) (auto simp: set_usd_def)

definition status_of :: "financial_line_item \<Rightarrow> item_status" where
  "status_of item =
     (if fli_value_reported item = None then SkippedNull
      else if item_currency item = ''USD'' then SkippedUsd else Translated)"

lemma translate_item_status: "translate_item repo ov now item = Inr (st, item') \<Longrightarrow> st = status_of item"
  by (erule translate_item_cases) (auto simp: status_of_def)

text \<open>The row a successful item becomes, and the table a successful loop leaves.\<close>

definition translated_row :: "rate_repository \<Rightarrow> period_overrides \<Rightarrow> instant \<Rightarrow> financial_line_item
    \<Rightarrow> financial_line_item" where
  "translated_row repo ov now item =
     (case translate_item repo ov now item of Inl _ \<Rightarrow> item | Inr (_, item') \<Rightarrow> item')"

lemma translated_row_id [simp]: "fli_id (translated_row repo ov now item) = fli_id item"
  by (auto simp: translated_row_def translate_item_id split: sum.split)

lemma count_item_simps:
  "rows_translated (count_item st r) = rows_translated r + (if st = Translated then 1 else 0)"
  "rows_skipped_usd (count_item st r) = rows_skipped_usd r + (if st = SkippedUsd then 1 else 0)"
  "rows_skipped_null (count_item st r) = rows_skipped_null r + (if st = SkippedNull then 1 else 0)"
  "rows_failed (count_item st r) = rows_failed r"
  "missing_rate_details (count_item st r) = missing_rate_details r"
  "job_status_updated_to (count_item st r) = job_status_updated_to r"
  by (simp_all add: count_item_def split: item_status.split)

lemma batch_loop_Inr:
  assumes "batch_loop repo ov now items res rows = Inr (res', rows')"
  shows "(\<forall>item \<in> set items. \<exists>item'. translate_item repo ov now item = Inr (status_of item, item'))
    \<and> rows' = foldl (\<lambda>rs item. put_row fli_id (fli_id item) (translated_row repo ov now item) rs) rows items
    \<and> rows_translated res' = rows_translated res + length (filter (\<lambda>i. status_of i = Translated) items)
    \<and> rows_skipped_usd res' = rows_skipped_usd res + length (filter (\<lambda>i. status_of i = SkippedUsd) items)
    \<and> rows_skipped_null res' = rows_skipped_null res + length (filter (\<lambda>i. status_of i = SkippedNull) items)
    \<and> rows_failed res' = rows_failed res \<and> missing_rate_details res' = missing_rate_details res"
  using assms
proof (induction items arbitrary: res rows)
  case Nil
  then show ?case by simp
next
  case (Cons item items)
  then obtain item' where item': "translate_item repo ov now item = Inr (status_of item, item')"
    and loop: "batch_loop repo ov now items (count_item (status_of item) res)
       (put_row fli_id (fli_id item) item' rows) = Inr (res', rows')"
    by (auto split: sum.splits dest: translate_item_status)
  have "translated_row repo ov now item = item'" by (simp add: translated_row_def item')
  with Cons.IH[OF loop] item' show ?case by (simp add: count_item_simps)
qed

lemma batch_loop_Inl:
  "batch_loop repo ov now items res rows = Inl (e, res') \<Longrightarrow>
     (\<exists>item \<in> set items. translate_item repo ov now item = Inl e)
     \<and> rows_failed res' = rows_failed res \<and> missing_rate_details res' = missing_rate_details res"
  by (induction items arbitrary: res rows) (auto split: sum.splits simp: count_item_simps)

lemma batch_loop_total:
  "(\<exists>item \<in> set items. \<exists>e. translate_item repo ov now item = Inl e)
    \<longleftrightarrow> (\<exists>x. batch_loop repo ov now items res rows = Inl x)"
  by (induction items arbitrary: res rows) (auto split: sum.split)

text \<open>Writing back rows with distinct ids is one pass over the table.\<close>

lemma put_rows_eq:
  assumes "distinct (map key items)" and "\<And>x. key (f x) = key x"
  shows "foldl (\<lambda>rs item. put_row key (key item) (f item) rs) rows items
    = map (\<lambda>r. case get_row key (key r) items of Some item \<Rightarrow> f item | None \<Rightarrow> r) rows"
  using assms(1)
proof (induction items arbitrary: rows)
  case Nil
  then show ?case by (simp add: get_row_def)
next
  case (Cons item items)
  have "get_row key (key item) items = None"
    using Cons.prems by (auto simp: get_row_None simp flip: image_iff) (metis image_eqI)
  with Cons assms(2) show ?case
    by (auto simp: put_row_def update_where_def get_row_def)
qed

lemma put_selected_rows:
  assumes ids: "distinct (map key rows)" and sel: "mset items = mset (filter P rows)"
    and f: "\<And>x. key (f x) = key x"
  shows "foldl (\<lambda>rs item. put_row key (key item) (f item) rs) rows items = update_where P f rows"
proof -
  have "mset (map key items) = mset (map key (filter P rows))" using sel by simp
  moreover have "distinct (map key (filter P rows))" using ids by (rule distinct_map_filter)
  ultimately have di: "distinct (map key items)" by (metis mset_eq_imp_distinct_iff)
  have set: "set items = {r \<in> set rows. P r}" using sel by (metis set_mset_mset set_filter)
  have "(case get_row key (key r) items of Some item \<Rightarrow> f item | None \<Rightarrow> r) = (if P r then f r else r)"
    if "r \<in> set rows" for r
  proof (cases "P r")
    case True
    with that set have "r \<in> set items" by simp
    then show ?thesis using get_row_distinct[OF di] True by simp
  next
    case False
    have "key x \<noteq> key r" if "x \<in> set items" for x
      using that \<open>r \<in> set rows\<close> False set ids by (auto dest: distinct_map[THEN iffD1] inj_onD)
    then have "get_row key (key r) items = None" by (simp add: get_row_None)
    then show ?thesis using False by simp
  qed
  then show ?thesis by (simp add: put_rows_eq[OF di f] update_where_def)
qed

subsection \<open>Outcomes of a batch\<close>

definition untranslated :: "uuid \<Rightarrow> int \<Rightarrow> financial_line_item \<Rightarrow> bool" where
  "untranslated c y r \<longleftrightarrow>
     fli_company_id r = c \<and> fli_fiscal_year r = y \<and> \<not> fli_is_restated r \<and> fli_value_usd r = None"

lemma load_company_year_mset:
  "(\<And>xs. mset (arrange xs) = mset xs) \<Longrightarrow>
     mset (load_untranslated_by_company_year arrange (Some c) (Some y) s) = mset (filter (untranslated c y) (line_items s))"
  by (simp add: load_untranslated_by_company_year_def untranslated_def)

lemma translate_batch_Inr:
  assumes "translate_batch repo ov now items jid s = Inr (res, s')"
  obtains (empty) "items = []" "res = empty_result" "s' = s"
  | (success) rows where "items \<noteq> []"
      "batch_loop repo ov now items empty_result (line_items s) = Inr (res, rows)" "s' = s\<lparr>line_items := rows\<rparr>"
  | (gap) mr res0 where "items \<noteq> []"
      "batch_loop repo ov now items empty_result (line_items s)
         = Inl (MissingFXRate (mr_currency mr) (mr_target_date mr) (mr_context mr) (mr_lookback_days mr), res0)"
      "(res, s') = update_job_status_fx_gap now jid mr
         (res0\<lparr>rows_failed := rows_translated res0 + 1, rows_translated := 0, missing_rate_details := Some mr\<rparr>) s"
proof (cases "items = []")
  case True
  with assms have "res = empty_result" "s' = s" by (simp_all add: translate_batch_def)
  with empty[OF True] show ?thesis by blast
next
  case False
  show ?thesis
  proof (cases "batch_loop repo ov now items empty_result (line_items s)")
    case (Inr p)
    obtain r rows where p: "p = (r, rows)" by fastforce
    with False assms Inr have "r = res" "s' = s\<lparr>line_items := rows\<rparr>"
      by (simp_all add: translate_batch_def)
    with success[OF False] Inr p show ?thesis by blast
  next
    case (Inl p)
    obtain x res0 where p: "p = (x, res0)" by fastforce
    show ?thesis
    proof (cases x)
      case (MissingFXRate c d ctx lb)
      let ?mr = "\<lparr>mr_currency = c, mr_target_date = d, mr_context = ctx, mr_lookback_days = lb\<rparr>"
      show ?thesis
      proof (rule gap[OF False])
        show "batch_loop repo ov now items empty_result (line_items s)
          = Inl (MissingFXRate (mr_currency ?mr) (mr_target_date ?mr) (mr_context ?mr) (mr_lookback_days ?mr), res0)"
          by (simp add: Inl p MissingFXRate)
        show "(res, s') = update_job_status_fx_gap now jid ?mr
         (res0\<lparr>rows_failed := rows_translated res0 + 1, rows_translated := 0, missing_rate_details := Some ?mr\<rparr>) s"
          using assms False by (simp add: translate_batch_def Inl p MissingFXRate Let_def)
      qed
    qed (use False assms Inl p in \<open>simp_all add: translate_batch_def\<close>)
  qed
qed

lemma gap_update:
  assumes "(res, s') = update_job_status_fx_gap now jid mr res1 s"
  shows "line_items s' = line_items s" and "rows_translated res = rows_translated res1"
    and "rows_failed res = rows_failed res1" and "missing_rate_details res = missing_rate_details res1"
  using assms by (simp_all add: update_job_status_fx_gap_def split: option.splits)

lemma gap_update_job:
  assumes "(res, s') = update_job_status_fx_gap now (Some i) mr res1 s"
    and "get_row job_id i (financial_jobs s) = Some job"
  shows "get_row job_id i (financial_jobs s') = Some (fx_gap_job mr (rows_failed res) now job)"
    and "job_status_updated_to res = Some STATUS_FX_DATA_GAP"
    and "j \<noteq> i \<Longrightarrow> get_row job_id j (financial_jobs s') = get_row job_id j (financial_jobs s)"
proof -
  have res: "res = res1\<lparr>job_status_updated_to := Some STATUS_FX_DATA_GAP\<rparr>"
    and jobs: "financial_jobs s' = put_row job_id i (fx_gap_job mr (rows_failed res1) now job) (financial_jobs s)"
    using assms by (simp_all add: update_job_status_fx_gap_def)
  show "job_status_updated_to res = Some STATUS_FX_DATA_GAP" using res by simp
  show "get_row job_id i (financial_jobs s') = Some (fx_gap_job mr (rows_failed res) now job)"
    using gap_jobs.read_back[OF assms(2), of "(mr, rows_failed res1, now)"] by (simp add: jobs res)
  show "j \<noteq> i \<Longrightarrow> get_row job_id j (financial_jobs s') = get_row job_id j (financial_jobs s)"
    using gap_jobs.others_unmoved[OF assms(2), of j "(mr, rows_failed res1, now)"] by (simp add: jobs)
qed

lemma translate_for_job_eq:
  assumes "get_row job_id jid (financial_jobs s) = Some job" and "job_status job \<in> TRANSLATABLE_STATUSES"
  shows "translate_for_job repo ov arrange now jid s = translate_batch repo ov now
     (load_untranslated_by_company_year arrange (job_company_id job) (job_fiscal_year job) s) (Some jid) s"
  using assms by (simp add: translate_for_job_def)

lemma batch_success_rows:
  assumes "translate_batch repo ov now items jid s = Inr (res, s')" and "bulk_success res"
    and "distinct (map fli_id (line_items s))" and "mset items = mset (filter P (line_items s))"
  shows "line_items s' = update_where P (translated_row repo ov now) (line_items s)"
    and "financial_jobs s' = financial_jobs s"
    and "\<forall>r \<in> set (line_items s). P r \<longrightarrow> (\<exists>r'. translate_item repo ov now r = Inr (status_of r, r'))"
    and "rows_translated res = length (filter (\<lambda>r. P r \<and> status_of r = Translated) (line_items s))"
    and "total_loaded res = length (filter P (line_items s))"
proof -
  have cnt: "length (filter Q items) = length (filter (\<lambda>r. P r \<and> Q r) (line_items s))" for Q
    using assms(4) by (metis (no_types, lifting) filter_filter mset_filter size_mset filter_cong)
  have "length (filter (\<lambda>i. status_of i = Translated) items) + length (filter (\<lambda>i. status_of i = SkippedUsd) items)
      + length (filter (\<lambda>i. status_of i = SkippedNull) items) = length items"
    by (induction items) (auto split: item_status.splits intro: item_status.exhaust)
  moreover have "length items = length (filter P (line_items s))" using assms(4) by (metis size_mset)
  moreover have set: "set items = {r \<in> set (line_items s). P r}" using assms(4) by (metis set_mset_mset set_filter)
  ultimately have tot: "length (filter (\<lambda>i. status_of i = Translated) items)
      + length (filter (\<lambda>i. status_of i = SkippedUsd) items)
      + length (filter (\<lambda>i. status_of i = SkippedNull) items) = length (filter P (line_items s))" by simp
  have *: "line_items s' = update_where P (translated_row repo ov now) (line_items s)
    \<and> financial_jobs s' = financial_jobs s
    \<and> (\<forall>r \<in> set (line_items s). P r \<longrightarrow> (\<exists>r'. translate_item repo ov now r = Inr (status_of r, r')))
    \<and> rows_translated res = length (filter (\<lambda>r. P r \<and> status_of r = Translated) (line_items s))
    \<and> total_loaded res = length (filter P (line_items s))"
    using assms(1)
  proof (cases rule: translate_batch_Inr)
    case empty
    then have "\<forall>r \<in> set (line_items s). \<not> P r" using set by auto
    with empty show ?thesis
      by (auto simp: update_where_none empty_result_def total_loaded_def filter_empty_conv)
  next
    case (success rows)
    note loop = batch_loop_Inr[OF success(2)]
    have "rows = update_where P (translated_row repo ov now) (line_items s)"
      using loop put_selected_rows[OF assms(3,4), of "translated_row repo ov now"] by simp
    with success loop set cnt tot show ?thesis
      by (simp add: empty_result_def total_loaded_def)
  next
    case (gap mr res0)
    with assms(2) gap_update(3)[OF gap(3)] show ?thesis by (simp add: bulk_success_def)
  qed
  then show "line_items s' = update_where P (translated_row repo ov now) (line_items s)"
    and "financial_jobs s' = financial_jobs s"
    and "\<forall>r \<in> set (line_items s). P r \<longrightarrow> (\<exists>r'. translate_item repo ov now r = Inr (status_of r, r'))"
    and "rows_translated res = length (filter (\<lambda>r. P r \<and> status_of r = Translated) (line_items s))"
    and "total_loaded res = length (filter P (line_items s))"
    by blast+
qed

lemma success_leaves_null_rows:
  assumes "translate_batch repo ov now items jid s = Inr (res, s')" and "bulk_success res"
    and "distinct (map fli_id (line_items s))" and "mset items = mset (filter (untranslated c y) (line_items s))"
    and "r \<in> set (line_items s')" and "untranslated c y r"
  shows "fli_value_reported r = None"
proof -
  note rows = batch_success_rows[OF assms(1-4)]
  obtain x where x: "x \<in> set (line_items s)"
    "r = (if untranslated c y x then translated_row repo ov now x else x)"
    using assms(5) unfolding rows(1) update_where_def by auto
  with assms(6) have u: "untranslated c y x" by (cases "untranslated c y x") auto
  with rows(3) x(1) obtain x' where x': "translate_item repo ov now x = Inr (status_of x, x')" by blast
  then have "r = x'" using x u by (simp add: translated_row_def)
  from x' show ?thesis
    using assms(6) \<open>r = x'\<close> by (cases rule: translate_item_cases) (auto simp: set_usd_def untranslated_def)
qed

text \<open>A batch of rows without a reported value changes nothing.\<close>

lemma null_batch_loop:
  assumes "\<forall>r \<in> set items. fli_value_reported r = None \<and> r \<in> set rows" and "distinct (map fli_id rows)"
  shows "\<exists>res. batch_loop repo ov now items res0 rows = Inr (res, rows)
     \<and> rows_translated res = rows_translated res0 \<and> rows_skipped_usd res = rows_skipped_usd res0
     \<and> rows_failed res = rows_failed res0"
  using assms(1)
proof (induction items arbitrary: res0)
  case (Cons r items)
  then have "put_row fli_id (fli_id r) r rows = rows"
    using put_row_self[OF assms(2)] by simp
  with Cons show ?case using Cons.IH[of "count_item SkippedNull res0"]
    by (simp add: translate_item_def count_item_simps)
qed simp

lemma null_batch:
  assumes "\<forall>r \<in> set items. fli_value_reported r = None \<and> r \<in> set (line_items s)"
    and "distinct (map fli_id (line_items s))"
  shows "\<exists>res. translate_batch repo ov now items jid s = Inr (res, s) \<and> bulk_success res
     \<and> rows_translated res = 0 \<and> rows_skipped_usd res = 0"
  using null_batch_loop[OF assms, of repo ov now empty_result]
  by (auto simp: translate_batch_def bulk_success_def empty_result_def)

subsection \<open>Items without a rate\<close>

text \<open>
  An item with a foreign value lacks its rate when the repository's answer for the period, from five days before
  its first day that matters, leaves such a day without a closing in reach: the end of the period
  for a balance sheet, any day of it for a flow.
\<close>

definition rates_due :: "financial_line_item \<Rightarrow> date \<times> date \<Rightarrow> date list" where
  "rates_due item p = (case p of (b, e) \<Rightarrow> if str_upper (fli_statement_type item) = ''BS'' then [e] else [b..e])"

definition lacks_rate :: "rate_repository \<Rightarrow> period_overrides \<Rightarrow> financial_line_item \<Rightarrow> bool" where
  "lacks_rate repo ov item =
     (fli_value_reported item \<noteq> None \<and> str_upper (item_currency item) \<noteq> ''USD''
      \<and> (case resolve_period_dates ov (fli_fiscal_year item) (fli_fiscal_period item) (fli_reporting_standard item) of
            Inl _ \<Rightarrow> False
          | Inr (b, e) \<Rightarrow>
              (case repo (item_currency item) ((if str_upper (fli_statement_type item) = ''BS'' then e else b) - 5) e of
                 Inl _ \<Rightarrow> False
               | Inr rows \<Rightarrow> list_ex (\<lambda>d. \<not> closing_in_reach rows d) (rates_due item (b, e)))))"

lemma currency_usd: "item_currency item = ''USD'' \<Longrightarrow> str_upper (item_currency item) = ''USD''"
proof -
  have "str_upper ''USD'' = ''USD''" by code_simp
  then show "item_currency item = ''USD'' \<Longrightarrow> ?thesis" by simp
qed

lemma engine_rate:
  assumes "engine_translate repo w cur st e (Some b) = Inr t" and "str_upper cur \<noteq> ''USD''"
  shows "if str_upper st = ''BS'' then get_spot_rate repo cur e = Inr (tr_fx_rate_used t)
    else get_weighted_average_rate repo cur b e = Inr (tr_fx_rate_used t)"
proof -
  obtain rt where "select_rate (historical_provider repo) cur (str_upper st) e (Some b) = Inr (tr_fx_rate_used t, rt)"
    using hist.translate_accuracy(1)[OF assms(1)[unfolded engine_translate_def] assms(2)] by blast
  then show ?thesis by (auto simp: select_rate_def rbind_eq_Inr historical_provider_def split: if_splits)
qed

lemma lacking_item_fails:
  assumes "lacks_rate repo ov item"
  shows "translate_item repo ov now item \<noteq> Inr (st, item')"
proof
  assume "translate_item repo ov now item = Inr (st, item')"
  then show False
  proof (cases rule: translate_item_cases)
    case (foreign w b e t)
    have c: "str_upper (item_currency item) \<noteq> ''USD''" using assms by (simp add: lacks_rate_def)
    from engine_rate[OF foreign(5) c] spot_rate_reach(1)[OF c] average_reach(1)[OF c] assms foreign(4) show False
      by (fastforce simp: lacks_rate_def rates_due_def list_ex_iff split: if_splits)
  qed (use assms currency_usd in \<open>auto simp: lacks_rate_def\<close>)
qed

lemma gap_item_lacks:
  assumes "plain_repository repo" and "translate_item repo ov now item = Inl (MissingFXRate c d x n)"
  shows "lacks_rate repo ov item"
proof -
  obtain w where w: "fli_value_reported item = Some w"
    using assms(2) by (cases "fli_value_reported item") (auto simp: translate_item_def)
  have u: "item_currency item \<noteq> ''USD''"
    using assms(2) w by (auto simp: translate_item_def rbind_eq_Inl)
  with assms(2) w obtain b e where p: "resolve_period_dates ov (fli_fiscal_year item) (fli_fiscal_period item)
      (fli_reporting_standard item) = Inr (b, e)"
    and t: "engine_translate repo w (item_currency item) (fli_statement_type item) e (Some b) = Inl (MissingFXRate c d x n)"
    by (auto simp: translate_item_def rbind_eq_Inl)
  have cur: "str_upper (item_currency item) \<noteq> ''USD''"
    using t by (auto simp: engine_translate_def translate_def rbind_eq_Inl)
  have "if str_upper (fli_statement_type item) = ''BS'' then get_spot_rate repo (item_currency item) e = Inl (MissingFXRate c d x n)
    else get_weighted_average_rate repo (item_currency item) b e = Inl (MissingFXRate c d x n)"
    using t cur by (auto simp: engine_translate_def translate_def select_rate_def historical_provider_def rbind_eq_Inl split: if_splits)
  with spot_rate_reach(2)[OF cur assms(1)] average_reach(2)[OF cur assms(1)] w cur p show ?thesis
    by (fastforce simp: lacks_rate_def rates_due_def list_ex_iff split: if_splits)
qed

subsection \<open>Properties\<close>

lemma batch_all_or_nothing:
  assumes "translate_for_job repo ov arrange now jid s = Inr (res, s')"
    and "get_row job_id jid (financial_jobs s) = Some job"
  shows "(bulk_success res \<longleftrightarrow> missing_rate_details res = None)
    \<and> (bulk_success res \<longrightarrow> financial_jobs s' = financial_jobs s)
    \<and> (\<not> bulk_success res \<longrightarrow> line_items s' = line_items s \<and> rows_translated res = 0
         \<and> (\<exists>job'. get_row job_id jid (financial_jobs s') = Some job' \<and> job_status job' = STATUS_FX_DATA_GAP)
         \<and> (\<forall>j. j \<noteq> jid \<longrightarrow> get_row job_id j (financial_jobs s') = get_row job_id j (financial_jobs s)))"
proof (cases "job_status job \<in> TRANSLATABLE_STATUSES")
  case False
  with assms have "res = empty_result" "s' = s" by (simp_all add: translate_for_job_def)
  then show ?thesis by (simp add: bulk_success_def empty_result_def)
next
  case True
  from assms(1)[unfolded translate_for_job_eq[OF assms(2) True]] show ?thesis
  proof (cases rule: translate_batch_Inr)
    case empty
    then show ?thesis by (simp add: bulk_success_def empty_result_def)
  next
    case (success rows)
    then show ?thesis
      using batch_loop_Inr[OF success(2)] by (simp add: bulk_success_def empty_result_def)
  next
    case (gap mr res0)
    show ?thesis
      using gap_update[OF gap(3)] gap_update_job[OF gap(3) assms(2)]
      by (simp add: bulk_success_def fx_gap_job_def)
  qed
qed

lemma gap_rolls_back:
  assumes "translate_for_job repo ov arrange now jid s = Inr (res, s')"
    and "get_row job_id jid (financial_jobs s) = Some job" and "\<not> bulk_success res"
  shows "line_items s' = line_items s
    \<and> (\<exists>job'. get_row job_id jid (financial_jobs s') = Some job' \<and> job_status job' = STATUS_FX_DATA_GAP)"
  using batch_all_or_nothing[OF assms(1,2)] assms(3) by blast

text \<open>
  C5: A batch is all or nothing.  When a single untranslated row of the job's company and year lacks its
  rate in what the repository returns, a run that returns reports a failure and no translated row, leaves every line item of
  the database as it was, and marks exactly the driving job \<^verbatim>\<open>failed_fx_data_gap\<close>; when no row
  lacks one, it reports success and no job changes.
\<close>

theorem fx_gap_rolls_back_batch:
  assumes "translate_for_job repo ov arrange now jid s = Inr (res, s')"
    and "get_row job_id jid (financial_jobs s) = Some job" and "job_status job \<in> TRANSLATABLE_STATUSES"
    and "job_company_id job = Some c" and "job_fiscal_year job = Some y"
    and "\<forall>xs. mset (arrange xs) = mset xs" and "plain_repository repo"
  shows "if \<exists>r \<in> set (line_items s). untranslated c y r \<and> lacks_rate repo ov r
    then \<not> bulk_success res \<and> rows_translated res = 0 \<and> line_items s' = line_items s
      \<and> (\<exists>job'. get_row job_id jid (financial_jobs s') = Some job' \<and> job_status job' = STATUS_FX_DATA_GAP)
      \<and> (\<forall>j. j \<noteq> jid \<longrightarrow> get_row job_id j (financial_jobs s') = get_row job_id j (financial_jobs s))
    else bulk_success res \<and> financial_jobs s' = financial_jobs s"
proof -
  let ?items = "load_untranslated_by_company_year arrange (Some c) (Some y) s"
  have items: "set ?items = {r \<in> set (line_items s). untranslated c y r}"
    using load_company_year_mset[of arrange c y s] assms(6) by (metis set_filter set_mset_mset)
  from assms(1)[unfolded translate_for_job_eq[OF assms(2,3)] assms(4,5)] show ?thesis
  proof (cases rule: translate_batch_Inr)
    case empty
    with items show ?thesis by (auto simp: bulk_success_def empty_result_def)
  next
    case (success rows)
    note loop = batch_loop_Inr[OF success(2)]
    have "\<not> lacks_rate repo ov r" if "r \<in> set ?items" for r
      using loop that lacking_item_fails by blast
    then show ?thesis using success loop items by (auto simp: bulk_success_def empty_result_def)
  next
    case (gap mr res0)
    then obtain r where "r \<in> set ?items" "translate_item repo ov now r
        = Inl (MissingFXRate (mr_currency mr) (mr_target_date mr) (mr_context mr) (mr_lookback_days mr))"
      using batch_loop_Inl by blast
    then have "\<exists>r \<in> set (line_items s). untranslated c y r \<and> lacks_rate repo ov r"
      using gap_item_lacks[OF assms(7)] items by blast
    then show ?thesis
      using gap_update[OF gap(3)] gap_update_job[OF gap(3) assms(2)]
      by (simp add: bulk_success_def fx_gap_job_def)
  qed
qed

text \<open>
  A successful run for a job rewrites exactly the current, untranslated rows of the
  job's company and year, each to its own translation, counts every one of them, and
  leaves untranslated only the rows that carry no reported value.
\<close>

lemma successful_run_translates_every_row:
  assumes "translate_for_job repo ov arrange now jid s = Inr (res, s')" and "bulk_success res"
    and "get_row job_id jid (financial_jobs s) = Some job" and "job_status job \<in> TRANSLATABLE_STATUSES"
    and "job_company_id job = Some c" and "job_fiscal_year job = Some y"
    and "distinct (map fli_id (line_items s))" and "\<forall>xs. mset (arrange xs) = mset xs"
  shows "line_items s' = update_where (untranslated c y) (translated_row repo ov now) (line_items s)
    \<and> total_loaded res = length (filter (untranslated c y) (line_items s))
    \<and> (\<forall>r \<in> set (line_items s'). untranslated c y r \<longrightarrow> fli_value_reported r = None)"
proof -
  have sel: "mset (load_untranslated_by_company_year arrange (Some c) (Some y) s)
      = mset (filter (untranslated c y) (line_items s))"
    using assms(8) by (intro load_company_year_mset) simp
  note rows = batch_success_rows[OF assms(1)[unfolded translate_for_job_eq[OF assms(3,4)] assms(5,6)]
      assms(2,7) sel]
  note null = success_leaves_null_rows[OF assms(1)[unfolded translate_for_job_eq[OF assms(3,4)] assms(5,6)]
      assms(2,7) sel]
  show ?thesis using rows(1,5) null by blast
qed

text \<open>
  Running the translation of a job again after a success changes no line item and
  translates nothing: a retried task is idempotent.
\<close>

lemma retry_after_success_is_noop:
  assumes "translate_for_job repo ov arrange now jid s = Inr (res, s')" and "bulk_success res"
    and "get_row job_id jid (financial_jobs s) = Some job" and "job_status job \<in> TRANSLATABLE_STATUSES"
    and "job_company_id job = Some c" and "job_fiscal_year job = Some y"
    and "distinct (map fli_id (line_items s))" and "\<forall>xs. mset (arrange xs) = mset xs"
  shows "\<exists>res2. translate_for_job repo2 ov2 arrange now2 jid s' = Inr (res2, s') \<and> bulk_success res2
    \<and> rows_translated res2 = 0 \<and> rows_skipped_usd res2 = 0"
proof -
  have sel: "mset (load_untranslated_by_company_year arrange (Some c) (Some y) s'')
      = mset (filter (untranslated c y) (line_items s''))" for s''
    using assms(8) by (intro load_company_year_mset) simp
  note batch = assms(1)[unfolded translate_for_job_eq[OF assms(3,4)] assms(5,6)]
  note rows = batch_success_rows[OF batch assms(2,7) sel]
  let ?items = "load_untranslated_by_company_year arrange (Some c) (Some y) s'"
  have items: "set ?items = {r \<in> set (line_items s'). untranslated c y r}"
    using sel[of s'] by (metis set_filter set_mset_mset)
  have job: "get_row job_id jid (financial_jobs s') = Some job" using assms(3) rows(2) by simp
  have "distinct (map fli_id (line_items s'))"
    using assms(7) map_update_where[of "untranslated c y" fli_id] by (simp add: rows(1))
  then show ?thesis
    using null_batch[of ?items s' repo2 ov2 now2 "Some jid"] items success_leaves_null_rows[OF batch assms(2,7) sel]
    by (simp add: translate_for_job_eq[OF job assms(4)] assms(5,6))
qed

text \<open>
  C10: translating one foreign line item writes three columns and nothing else: the dollar
  value is the reported value divided by the stored rate to within half a cent plus one
  part in ten to the 27 (the two roundings to cents never add up), and the stored rate is the spot rate
  of the derived period end for a balance sheet, the average over the derived period for a flow.
\<close>

lemma item_translation_accuracy:
  assumes "translate_item repo ov now item = Inr (Translated, item')"
    and "str_upper (item_currency item) \<noteq> ''USD''"
  shows "\<exists>w v rate b e. fli_value_reported item = Some w
    \<and> item' = item\<lparr>fli_value_usd := Some v, fli_fx_rate_used := Some rate, fli_updated_at := now\<rparr>
    \<and> 0 < dval rate \<and> \<bar>dval v - dval w / dval rate\<bar> \<le> 1 / 200 + \<bar>dval w / dval rate\<bar> / 10 ^ 27
    \<and> resolve_period_dates ov (fli_fiscal_year item) (fli_fiscal_period item) (fli_reporting_standard item) = Inr (b, e)
    \<and> (if str_upper (fli_statement_type item) = ''BS'' then get_spot_rate repo (item_currency item) e = Inr rate
       else get_weighted_average_rate repo (item_currency item) b e = Inr rate)"
  using assms(1)
proof (cases rule: translate_item_cases)
  case (foreign w b e t)
  note t = foreign(5)[unfolded engine_translate_def]
  note rate = engine_rate[OF foreign(5) assms(2)]
  have upd: "item' = item\<lparr>fli_value_usd := Some (tr_value_usd t), fli_fx_rate_used := Some (tr_fx_rate_used t),
      fli_updated_at := now\<rparr>"
    using foreign(6) by (simp add: set_usd_def)
  show ?thesis
    using foreign(1,4) upd rate hist.translate_accuracy(2,3)[OF t assms(2)] by blast
qed simp_all

text \<open>
  The four quarters partition the fiscal year.  Under every standard, for a year the
  calendar can hold, the first quarter starts with the year, each next one starts the day
  after the last ended, the fourth ends with the year, each has 90 to 92 days and the year
  365 or 366.
\<close>

lemma quarters_partition_year:
  assumes "1 \<le> y" and "y \<le> 9998"
  shows "\<exists>b e1 e2 e3 e.
      derive_period_dates y ''FY'' std = Inr (b, e)
    \<and> derive_period_dates y ''Q1'' std = Inr (b, e1)
    \<and> derive_period_dates y ''Q2'' std = Inr (e1 + 1, e2)
    \<and> derive_period_dates y ''Q3'' std = Inr (e2 + 1, e3)
    \<and> derive_period_dates y ''Q4'' std = Inr (e3 + 1, e)
    \<and> {e1 + 1 - b, e2 - e1, e3 - e2, e - e3} \<subseteq> {90..92}
    \<and> e + 1 - b \<in> {365, 366}"
proof -
  obtain b q1 q2 q3 q4 where q: "{q1, q2, q3, q4} \<subseteq> {90..92}"
    and len: "q1 + q2 + q3 + q4 = 365 + (if str_strip (str_upper std) = ''IND_AS'' then leap_day (y + 1) else leap_day y)"
    and eq: "\<And>fp. derive_period_dates y fp std
         = (case map_of (periods_from b q1 q2 q3 q4) (str_strip (str_upper fp)) of
              None \<Rightarrow> Inl ValueError | Some r \<Rightarrow> Inr r)"
    using derive_built[OF assms, of std] by blast
  show ?thesis
    unfolding eq upper_codes
    by (rule exI[of _ "b + 1"], rule exI[of _ "b + q1"], rule exI[of _ "b + q1 + q2"],
        rule exI[of _ "b + q1 + q2 + q3"], rule exI[of _ "b + q1 + q2 + q3 + q4"])
      (use q len in \<open>auto simp: periods_from_def leap_day_def split: if_splits\<close>)
qed

text \<open>
  The period code is matched case-insensitively against exactly five codes; anything
  else (half-years, months, an empty code) is refused with \<open>ValueError\<close> under every standard.
\<close>

lemma unknown_period_refused:
  assumes "1 \<le> y" and "y \<le> 9998"
  shows "derive_period_dates y fp std = Inl ValueError
    \<longleftrightarrow> str_strip (str_upper fp) \<notin> {''FY'', ''Q1'', ''Q2'', ''Q3'', ''Q4''}"
proof -
  obtain b q1 q2 q3 q4 where eq: "\<And>fp. derive_period_dates y fp std
         = (case map_of (periods_from b q1 q2 q3 q4) (str_strip (str_upper fp)) of
              None \<Rightarrow> Inl ValueError | Some r \<Rightarrow> Inr r)"
    using derive_built[OF assms, of std] by blast
  have none: "map_of (periods_from b q1 q2 q3 q4) k = None \<longleftrightarrow> k \<notin> {''FY'', ''Q1'', ''Q2'', ''Q3'', ''Q4''}" for k
    by (auto simp: map_of_eq_None_iff periods_from_def)
  show ?thesis unfolding eq none[symmetric] by (simp split: option.split)
qed

subsection \<open>Instances\<close>

definition sample_row :: "uuid \<Rightarrow> string \<Rightarrow> decimal option \<Rightarrow> financial_line_item" where
  "sample_row i cur v = \<lparr>fli_id = i, fli_company_id = ''c1'', fli_fiscal_year = 2023, fli_fiscal_period = ''FY'',
     fli_reporting_standard = ''IND_AS'', fli_filing_date = 738900, fli_is_restated = False,
     fli_canonical_field = ''total_assets'', fli_statement_type = ''BS'', fli_value_usd = None,
     fli_value_reported = v, fli_reported_currency = Some cur, fli_fx_rate_used = None,
     fli_source_file_hash = None, fli_derived_expression_formula = None, fli_extraction_method = None,
     fli_created_at = 0, fli_updated_at = 0\<rparr>"

definition sample_job :: "uuid \<Rightarrow> string \<Rightarrow> financial_job" where
  "sample_job i st = \<lparr>job_id = i, job_tenant_id = ''t1'', job_company_id = Some ''c1'', job_created_by = None,
     job_status = st, job_type = ''sec_10k_annual'', job_fiscal_year = Some 2023, job_document_url = None,
     job_result_url = None, job_error_message = None, job_celery_task_id = None, job_started_at = None,
     job_completed_at = None, job_created_at = 0, job_updated_at = 0\<rparr>"

definition sample_session :: session where
  "sample_session =
     \<lparr>line_items = [sample_row ''r1'' ''INR'' (Some (Dec 100000000 (-2))), sample_row ''r2'' ''usd'' (Some (Dec 500 (-2))),
                    sample_row ''r3'' ''INR'' None],
      financial_jobs = [sample_job ''j1'' ''running'', sample_job ''j2'' ''running'']\<rparr>"

text \<open>A closing on every day asked for, and a repository with no rows.\<close>

definition daily_repo :: rate_repository where
  "daily_repo cur s e = Inr [\<lparr>dr_currency = cur, on_date = e, dr_rate = Dec 829000000000 (-10), dr_source = ''ECB''\<rparr>]"

definition empty_repo :: rate_repository where
  "empty_repo cur s e = Inr []"

lemma sample_facts:
  "get_row job_id ''j1'' (financial_jobs sample_session) = Some (sample_job ''j1'' ''running'')"
  "job_status (sample_job ''j1'' ''running'') \<in> TRANSLATABLE_STATUSES"
  "job_company_id (sample_job ''j1'' ''running'') = Some ''c1''"
  "job_fiscal_year (sample_job ''j1'' ''running'') = Some 2023"
  "distinct (map fli_id (line_items sample_session))"
  by (simp_all add: sample_session_def sample_job_def sample_row_def get_row_def TRANSLATABLE_STATUSES_def)

definition run_with :: "rate_repository \<Rightarrow> fx_error + (bulk_result \<times> session)" where
  "run_with repo = translate_for_job repo Map.empty id 7 ''j1'' sample_session"

lemma sample_gap_run:
  "case run_with empty_repo of Inr (res, s') \<Rightarrow> rows_failed res = 1 | Inl _ \<Rightarrow> False"
  by code_simp

lemma sample_good_run:
  "case run_with daily_repo of Inr (res, s') \<Rightarrow> rows_failed res = 0 \<and> rows_translated res = 1 | Inl _ \<Rightarrow> False"
  by code_simp

lemma good_run:
  obtains res s' where "translate_for_job daily_repo Map.empty id 7 ''j1'' sample_session = Inr (res, s')"
    and "bulk_success res" and "rows_translated res = 1"
  using sample_good_run by (auto simp: run_with_def bulk_success_def split: sum.splits)

lemma arrange_id: "\<forall>xs. mset (id xs) = mset xs"
  by simp

text \<open>A missing rate after one row could be translated: the first is rolled back with the rest.\<close>

lemma fx_gap_rolls_back_batch_witness:
  "\<exists>res s'. translate_for_job empty_repo Map.empty id 7 ''j1'' sample_session = Inr (res, s')
     \<and> line_items s' = line_items sample_session
     \<and> (\<exists>job'. get_row job_id ''j1'' (financial_jobs s') = Some job' \<and> job_status job' = STATUS_FX_DATA_GAP)
     \<and> get_row job_id ''j2'' (financial_jobs s') = Some (sample_job ''j2'' ''running'')"
proof -
  obtain res s' where run: "translate_for_job empty_repo Map.empty id 7 ''j1'' sample_session = Inr (res, s')"
    using sample_gap_run by (auto simp: run_with_def split: sum.splits)
  let ?r = "sample_row ''r1'' ''INR'' (Some (Dec 100000000 (-2)))"
  have "lacks_rate empty_repo Map.empty ?r" by code_simp
  moreover have "untranslated ''c1'' 2023 ?r" "?r \<in> set (line_items sample_session)"
    by (simp_all add: untranslated_def sample_row_def sample_session_def)
  ultimately have lacking: "\<exists>r \<in> set (line_items sample_session). untranslated ''c1'' 2023 r \<and> lacks_rate empty_repo Map.empty r"
    by blast
  have "plain_repository empty_repo" by (simp add: plain_repository_def empty_repo_def)
  moreover have "get_row job_id ''j2'' (financial_jobs sample_session) = Some (sample_job ''j2'' ''running'')"
    by (simp add: sample_session_def sample_job_def get_row_def)
  ultimately show ?thesis
    using fx_gap_rolls_back_batch[OF run sample_facts(1-4) arrange_id] run lacking by auto
qed

lemma successful_run_translates_every_row_witness:
  "\<exists>res s'. translate_for_job daily_repo Map.empty id 7 ''j1'' sample_session = Inr (res, s')
     \<and> total_loaded res = 3
     \<and> (\<forall>r \<in> set (line_items s'). untranslated ''c1'' 2023 r \<longrightarrow> fli_value_reported r = None)"
proof -
  obtain res s' where run: "translate_for_job daily_repo Map.empty id 7 ''j1'' sample_session = Inr (res, s')"
    and ok: "bulk_success res" by (rule good_run)
  have "length (filter (untranslated ''c1'' 2023) (line_items sample_session)) = 3"
    by (simp add: sample_session_def sample_row_def untranslated_def)
  then show ?thesis
    using successful_run_translates_every_row[OF run ok sample_facts arrange_id] run by auto
qed

lemma retry_after_success_is_noop_witness:
  "\<exists>res s' res2. translate_for_job daily_repo Map.empty id 7 ''j1'' sample_session = Inr (res, s')
     \<and> rows_translated res = 1
     \<and> translate_for_job empty_repo Map.empty id 9 ''j1'' s' = Inr (res2, s') \<and> rows_translated res2 = 0"
proof -
  obtain res s' where run: "translate_for_job daily_repo Map.empty id 7 ''j1'' sample_session = Inr (res, s')"
    and ok: "bulk_success res" "rows_translated res = 1" by (rule good_run)
  then show ?thesis
    using retry_after_success_is_noop[OF run ok(1) sample_facts arrange_id] by blast
qed

lemma sample_item_run:
  "case translate_item daily_repo Map.empty 7 (sample_row ''r1'' ''INR'' (Some (Dec 100000000 (-2)))) of
     Inr (st, item') \<Rightarrow> (case st of Translated \<Rightarrow> True | _ \<Rightarrow> False) \<and> fli_value_usd item' = Some (Dec 1206273 (-2))
   | Inl _ \<Rightarrow> False"
  by code_simp

lemma item_translation_accuracy_witness:
  "\<exists>item' rate. translate_item daily_repo Map.empty 7 (sample_row ''r1'' ''INR'' (Some (Dec 100000000 (-2))))
     = Inr (Translated, item') \<and> fli_fx_rate_used item' = Some rate \<and> 0 < dval rate"
proof -
  obtain item' where t: "translate_item daily_repo Map.empty 7 (sample_row ''r1'' ''INR'' (Some (Dec 100000000 (-2))))
     = Inr (Translated, item')"
    using sample_item_run by (auto split: sum.splits item_status.splits)
  have "item_currency (sample_row ''r1'' ''INR'' (Some (Dec 100000000 (-2)))) = ''INR''"
    by code_simp
  then have c: "str_upper (item_currency (sample_row ''r1'' ''INR'' (Some (Dec 100000000 (-2))))) \<noteq> ''USD''"
    using inr_not_usd by simp
  from item_translation_accuracy[OF t c] t show ?thesis by fastforce
qed

lemma quarters_partition_year_witness:
  "\<exists>b e. derive_period_dates 2024 ''FY'' ''IND_AS'' = Inr (b, e) \<and> e + 1 - b \<in> {365, 366}"
  using quarters_partition_year[of 2024 "''IND_AS''"] by fastforce

lemma unknown_period_refused_witness:
  "derive_period_dates 2024 ''h1'' ''IFRS'' = Inl ValueError"
proof -
  have "str_strip (str_upper ''h1'') = ''H1''" by code_simp
  with unknown_period_refused[of 2024 "''h1''" "''IFRS''"] show ?thesis by simp
qed

end
