(* ===== verification/LineItemWriter.thy ===== *)
theory LineItemWriter
  imports Models ValidationEngine "HOL-Library.Multiset"
begin

text \<open>
  \<^verbatim>\<open>services/ingestion/writer.py\<close>: persisting parsed line items with point-in-time versions,
  the validation log, and the export gate on the job.  The ids that successive calls of
  \<open>gen_uuid7\<close> return are the parameter \<open>gen\<close>; the row order of an unordered query is the
  parameter \<open>arrange\<close>.  An exception leaves the caller to roll its transaction back, so an
  error result carries no state.  The columns' own rounding,
  the JSON rendering and the summary text of the log row are left out.
\<close>

datatype write_error = WritePy py_error | IntegrityError | StatementError

record validation_row =
  vr_id :: uuid
  vr_accession_number :: string
  vr_company_id :: "uuid option"
  vr_fiscal_year :: "int option"
  vr_fiscal_period :: "string option"
  vr_job_id :: "uuid option"
  vr_items_validated :: nat
  vr_is_exportable :: bool
  vr_critical_count :: nat
  vr_warning_count :: nat
  vr_confidence_score :: int
  vr_findings :: "finding list"
  vr_deductions :: "(string \<times> int \<times> message) list"
  vr_created_at :: instant

record write_session = session +
  validation_rows :: "validation_row list"

record write_result =
  items_inserted :: nat
  items_restated :: nat
  items_skipped :: nat
  validation_result_id :: "uuid option"
  wr_job_status_updated_to :: "string option"

definition total_processed :: "write_result \<Rightarrow> nat" where
  "total_processed r = items_inserted r + items_skipped r"

definition STATUS_VALIDATION_BLOCKED :: string where
  "STATUS_VALIDATION_BLOCKED = ''failed_validation_blocked''"

subsection \<open>Precision\<close>

definition HIGH_PRECISION_FIELDS :: "string list" where
  "HIGH_PRECISION_FIELDS =
     [''eps_basic'', ''eps_diluted'', ''shares_basic'', ''shares_diluted'', ''book_value_per_share'']"

definition quantise_value :: "string \<Rightarrow> decimal \<Rightarrow> py_error + decimal" where
  "quantise_value cfield v =
     (if cfield \<in> set HIGH_PRECISION_FIELDS then dec_quantize ROUND_HALF_EVEN (-10) v
      else dec_quantize ROUND_HALF_EVEN (-2) v)"

subsection \<open>Restatement\<close>

type_synonym context_key = "string \<times> int \<times> string \<times> string"

definition item_key :: "parsed_line_item \<Rightarrow> context_key" where
  "item_key i = (company_id i, fiscal_year i, fiscal_period i, canonical_field i)"

definition row_key :: "financial_line_item \<Rightarrow> context_key" where
  "row_key r = (fli_company_id r, fli_fiscal_year r, fli_fiscal_period r, fli_canonical_field r)"

definition build_row :: "uuid \<Rightarrow> instant \<Rightarrow> parsed_line_item \<Rightarrow> bool \<Rightarrow> py_error + financial_line_item" where
  "build_row new_id now item restated =
     rbind (uuid_of_string (company_id item)) (\<lambda>cid.
     rbind (quantise_value (canonical_field item) (value_reported item)) (\<lambda>v.
       Inr \<lparr>fli_id = new_id, fli_company_id = cid, fli_fiscal_year = fiscal_year item,
            fli_fiscal_period = fiscal_period item, fli_reporting_standard = reporting_standard item,
            fli_filing_date = filing_date item, fli_is_restated = restated,
            fli_canonical_field = canonical_field item, fli_statement_type = statement_type item,
            fli_value_usd = None, fli_value_reported = Some v,
            fli_reported_currency = reported_currency item, fli_fx_rate_used = None,
            fli_source_file_hash = Some (source_file_hash item),
            fli_derived_expression_formula = derived_expression_formula item,
            fli_extraction_method = Some (extraction_method item),
            fli_created_at = now, fli_updated_at = now\<rparr>))"

text \<open>
  The grouped conditions of the batch query select a row when one of the items has its
  company, year, period and field; the dict keeps the last row of each key.
\<close>

definition fetch_existing_non_restated :: "(financial_line_item list \<Rightarrow> financial_line_item list)
    \<Rightarrow> parsed_line_item list \<Rightarrow> financial_line_item list
    \<Rightarrow> py_error + (context_key \<Rightarrow> financial_line_item option)" where
  "fetch_existing_non_restated arrange items rows =
     rbind (rmap (\<lambda>i. rbind (uuid_of_string (company_id i)) (\<lambda>c.
              Inr (c, fiscal_year i, fiscal_period i, canonical_field i))) items) (\<lambda>keys.
       Inr (map_of (rev (map (\<lambda>r. (row_key r, r))
              (arrange (filter (\<lambda>r. row_key r \<in> set keys \<and> \<not> fli_is_restated r) rows))))))"

record write_plan =
  to_insert :: "financial_line_item list"
  ids_to_restate :: "uuid list"
  n_inserted :: nat
  n_restated :: nat
  n_skipped :: nat

definition empty_plan :: write_plan where
  "empty_plan = \<lparr>to_insert = [], ids_to_restate = [], n_inserted = 0, n_restated = 0, n_skipped = 0\<rparr>"

text \<open>One round of the loop; the id of a new row is the next that \<open>gen\<close> returns.\<close>

definition plan_item :: "(context_key \<Rightarrow> financial_line_item option) \<Rightarrow> (nat \<Rightarrow> uuid) \<Rightarrow> instant
    \<Rightarrow> parsed_line_item \<Rightarrow> write_plan \<Rightarrow> py_error + write_plan" where
  "plan_item existing_map gen now item p =
     (case existing_map (item_key item) of
        None \<Rightarrow>
          rbind (build_row (gen (n_inserted p)) now item False) (\<lambda>row.
            Inr (p\<lparr>to_insert := to_insert p @ [row], n_inserted := n_inserted p + 1\<rparr>))
      | Some existing \<Rightarrow>
          if fli_filing_date existing < filing_date item then
            rbind (build_row (gen (n_inserted p)) now item False) (\<lambda>row.
              Inr (p\<lparr>ids_to_restate := ids_to_restate p @ [fli_id existing],
                     to_insert := to_insert p @ [row],
                     n_inserted := n_inserted p + 1, n_restated := n_restated p + 1\<rparr>))
          else Inr (p\<lparr>n_skipped := n_skipped p + 1\<rparr>))"

fun plan_items :: "(context_key \<Rightarrow> financial_line_item option) \<Rightarrow> (nat \<Rightarrow> uuid) \<Rightarrow> instant
    \<Rightarrow> parsed_line_item list \<Rightarrow> write_plan \<Rightarrow> py_error + write_plan" where
  "plan_items em gen now [] p = Inr p"
| "plan_items em gen now (i # is) p = rbind (plan_item em gen now i p) (plan_items em gen now is)"

definition mark_restated :: "instant \<Rightarrow> financial_line_item \<Rightarrow> financial_line_item" where
  "mark_restated now r = r\<lparr>fli_is_restated := True, fli_updated_at := now\<rparr>"

definition restate_rows :: "uuid list \<Rightarrow> instant \<Rightarrow> financial_line_item list \<Rightarrow> financial_line_item list" where
  "restate_rows ids now rows = update_where (\<lambda>r. fli_id r \<in> set ids) (mark_restated now) rows"

text \<open>The bulk insert: the whole statement fails when a unique constraint would be violated.\<close>

definition insert_rows :: "financial_line_item list \<Rightarrow> financial_line_item list
    \<Rightarrow> write_error + financial_line_item list" where
  "insert_rows new rows =
     (if distinct (map fli_id (rows @ new)) \<and> distinct (map point_in_time (rows @ new))
      then Inr (rows @ new) else Inl IntegrityError)"

subsection \<open>Validation log and export gate\<close>

definition serialise_deductions :: "validation_report \<Rightarrow> (string \<times> int \<times> message) list" where
  "serialise_deductions report = map (\<lambda>(rid, pts, sev, reason). (rid, pts, reason)) (deductions (confidence report))"

text \<open>
  The log row is inserted by a textual statement with the casts \<^verbatim>\<open>:findings::jsonb\<close> and \<^verbatim>\<open>:deductions::jsonb\<close>.
  How the database layer reads the parameters of such a text is not code of the repository: whether it
  takes the statement for a row is the parameter \<open>accepts\<close>, and a refusal is an exception.
\<close>

definition persist_validation_result :: "(validation_row \<Rightarrow> bool) \<Rightarrow> uuid \<Rightarrow> instant \<Rightarrow> validation_report \<Rightarrow> string
    \<Rightarrow> uuid option \<Rightarrow> string option \<Rightarrow> int option \<Rightarrow> string option \<Rightarrow> write_session \<Rightarrow> write_error + write_session" where
  "persist_validation_result accepts row_id now report accession jid cid fy fp s =
     rbind (map_error WritePy (case cid of
              None \<Rightarrow> Inr None
            | Some c \<Rightarrow> if c = [] then Inr None else rbind (uuid_of_string c) (\<lambda>u. Inr (Some u)))) (\<lambda>c.
       let row = \<lparr>vr_id = row_id, vr_accession_number = accession, vr_company_id = c, vr_fiscal_year = fy,
           vr_fiscal_period = fp, vr_job_id = jid, vr_items_validated = items_validated report,
           vr_is_exportable = is_exportable report,
           vr_critical_count = length (critical_findings (validation_result report)),
           vr_warning_count = length (warning_findings (validation_result report)),
           vr_confidence_score = final_score (confidence report),
           vr_findings = findings (validation_result report),
           vr_deductions = serialise_deductions report, vr_created_at = now\<rparr>
       in if accepts row then Inr (s\<lparr>validation_rows := validation_rows s @ [row]\<rparr>) else Inl StatementError)"

definition blocked_job :: "validation_report \<Rightarrow> instant \<Rightarrow> financial_job \<Rightarrow> financial_job" where
  "blocked_job report now j =
     j\<lparr>job_status := STATUS_VALIDATION_BLOCKED, job_updated_at := now,
       job_error_message := Some (ValidationBlockedText
         (length (critical_findings (validation_result report))) (final_score (confidence report)))\<rparr>"

definition maybe_update_job_status :: "instant \<Rightarrow> validation_report \<Rightarrow> uuid option \<Rightarrow> write_session
    \<Rightarrow> string option \<times> write_session" where
  "maybe_update_job_status now report jid s =
     (case jid of
        None \<Rightarrow> (None, s)
      | Some i \<Rightarrow>
          if is_exportable report then (None, s)
          else
            (case get_row job_id i (financial_jobs s) of
               None \<Rightarrow> (None, s)
             | Some job \<Rightarrow>
                 if job_status job \<notin> {''pending'', ''queued'', ''running''} then (None, s)
                 else (Some STATUS_VALIDATION_BLOCKED,
                       s\<lparr>financial_jobs := put_row job_id i (blocked_job report now job) (financial_jobs s)\<rparr>)))"

text \<open>\<open>Counter.most_common(1)\<close>: the first key, in order of first occurrence, with the greatest count.\<close>

definition most_common :: "'a list \<Rightarrow> 'a" where
  "most_common xs =
     foldl (\<lambda>best x. if count_list xs best < count_list xs x then x else best) (hd xs) (tl xs)"

definition infer_primary_context :: "parsed_line_item list \<Rightarrow> string option \<times> int option \<times> string option" where
  "infer_primary_context items =
     (if items = [] then (None, None, None)
      else
        let fy_items = filter (\<lambda>i. fiscal_period i = ''FY'') items;
            candidates = (if fy_items \<noteq> [] then fy_items else items);
            (cid, fy) = most_common (map (\<lambda>i. (company_id i, fiscal_year i)) candidates)
        in (Some cid, Some fy,
            Some (if fy_items \<noteq> [] then ''FY'' else fiscal_period (hd candidates))))"

subsection \<open>The write\<close>

definition finish_write :: "(validation_row \<Rightarrow> bool) \<Rightarrow> uuid \<Rightarrow> instant \<Rightarrow> validation_report \<Rightarrow> uuid option \<Rightarrow> string
    \<Rightarrow> string option \<times> int option \<times> string option \<Rightarrow> nat \<times> nat \<times> nat \<Rightarrow> write_session
    \<Rightarrow> write_error + (write_result \<times> write_session)" where
  "finish_write accepts row_id now report jid accession ctx counts s =
     (case (ctx, counts) of ((cid, fy, fp), (ins, rst, skp)) \<Rightarrow>
        rbind (persist_validation_result accepts row_id now report accession jid cid fy fp s) (\<lambda>s1.
          case maybe_update_job_status now report jid s1 of (st, s2) \<Rightarrow>
            Inr (\<lparr>items_inserted = ins, items_restated = rst, items_skipped = skp,
                  validation_result_id = Some row_id, wr_job_status_updated_to = st\<rparr>, s2)))"

definition write_items :: "(validation_row \<Rightarrow> bool) \<Rightarrow> (financial_line_item list \<Rightarrow> financial_line_item list) \<Rightarrow> (nat \<Rightarrow> uuid) \<Rightarrow> instant
    \<Rightarrow> parsed_line_item list \<Rightarrow> validation_report \<Rightarrow> uuid option \<Rightarrow> string \<Rightarrow> write_session
    \<Rightarrow> write_error + (write_result \<times> write_session)" where
  "write_items accepts arrange gen now items report jid accession s =
     (if items = []
      then finish_write accepts (gen 0) now report jid accession (None, None, None) (0, 0, 0) s
      else
        rbind (map_error WritePy (fetch_existing_non_restated arrange items (line_items s))) (\<lambda>em.
        rbind (map_error WritePy (plan_items em gen now items empty_plan)) (\<lambda>p.
        rbind (insert_rows (to_insert p) (restate_rows (ids_to_restate p) now (line_items s))) (\<lambda>rows.
          finish_write accepts (gen (n_inserted p)) now report jid accession (infer_primary_context items)
            (n_inserted p, n_restated p, n_skipped p) (s\<lparr>line_items := rows\<rparr>)))))"

subsection \<open>What the query returns\<close>

definition current :: "financial_line_item \<Rightarrow> bool" where
  "current r \<longleftrightarrow> \<not> fli_is_restated r"

definition current_unique :: "financial_line_item list \<Rightarrow> bool" where
  "current_unique rows \<longleftrightarrow> distinct (map row_key (filter current rows))"

definition current_row :: "financial_line_item list \<Rightarrow> context_key \<Rightarrow> financial_line_item option" where
  "current_row rows k = find (\<lambda>r. current r \<and> row_key r = k) rows"

lemma current_row_Some:
  assumes "current_unique rows"
  shows "current_row rows k = Some r \<longleftrightarrow> r \<in> set rows \<and> current r \<and> row_key r = k"
proof
  assume "current_row rows k = Some r"
  then show "r \<in> set rows \<and> current r \<and> row_key r = k"
    by (auto simp: current_row_def find_Some_iff)
next
  assume r: "r \<in> set rows \<and> current r \<and> row_key r = k"
  then obtain x where x: "current_row rows k = Some x"
    by (cases "current_row rows k") (auto simp: current_row_def find_None_iff)
  then have "x \<in> set rows \<and> current x \<and> row_key x = k"
    by (auto simp: current_row_def find_Some_iff)
  with r assms have "x = r" by (auto simp: current_unique_def distinct_map dest: inj_onD)
  with x show "current_row rows k = Some r" by simp
qed

lemma current_row_None: "current_row rows k = None \<longleftrightarrow> (\<forall>r \<in> set rows. current r \<longrightarrow> row_key r \<noteq> k)"
  by (auto simp: current_row_def find_None_iff)

lemma rmap_item_keys:
  "\<forall>i \<in> set items. canonical_uuid (company_id i) \<Longrightarrow>
     rmap (\<lambda>i. rbind (uuid_of_string (company_id i)) (\<lambda>c.
       Inr (c, fiscal_year i, fiscal_period i, canonical_field i))) items = Inr (map item_key items)"
  by (induction items) (simp_all add: canonical_uuid_def item_key_def)

lemma map_of_rows:
  assumes "distinct (map f xs)"
  shows "map_of (rev (map (\<lambda>r. (f r, r)) xs)) k = Some r \<longleftrightarrow> r \<in> set xs \<and> f r = k"
proof -
  have "distinct (map fst (rev (map (\<lambda>r. (f r, r)) xs)))"
    using assms by (simp add: rev_map[symmetric] comp_def)
  then show ?thesis by (simp only: map_of_eq_Some_iff) auto
qed

lemma fetch_existing:
  assumes "\<forall>i \<in> set items. canonical_uuid (company_id i)" and "current_unique rows"
    and "\<forall>xs. mset (arrange xs) = mset xs"
  shows "\<exists>em. fetch_existing_non_restated arrange items rows = Inr em
     \<and> (\<forall>i \<in> set items. em (item_key i) = current_row rows (item_key i))"
proof -
  let ?sel = "filter (\<lambda>r. row_key r \<in> item_key ` set items \<and> \<not> fli_is_restated r) rows"
  let ?em = "map_of (rev (map (\<lambda>r. (row_key r, r)) (arrange ?sel)))"
  have m: "mset (map row_key (arrange ?sel)) = mset (map row_key ?sel)" using assms(3) by (simp add: mset_map)
  have sel: "?sel = filter (\<lambda>r. row_key r \<in> item_key ` set items) (filter current rows)"
    by (simp add: current_def conj_commute)
  have "distinct (map row_key ?sel)"
    unfolding sel using assms(2)[unfolded current_unique_def] by (rule distinct_map_filter)
  then have d: "distinct (map row_key (arrange ?sel))" using mset_eq_imp_distinct_iff[OF m] by simp
  have "set (arrange ?sel) = set ?sel" by (rule mset_eq_setD) (rule assms(3)[rule_format])
  then have em: "?em k = Some r \<longleftrightarrow> r \<in> set ?sel \<and> row_key r = k" for k r
    unfolding map_of_rows[OF d] by simp
  have "?em (item_key i) = current_row rows (item_key i)" if "i \<in> set items" for i
  proof -
    have "?em (item_key i) = Some r \<longleftrightarrow> current_row rows (item_key i) = Some r" for r
      unfolding em current_row_Some[OF assms(2)] using that by (auto simp: current_def)
    then show ?thesis by (rule option_ext)
  qed
  moreover have "fetch_existing_non_restated arrange items rows = Inr ?em"
    by (simp add: fetch_existing_non_restated_def rmap_item_keys[OF assms(1)])
  ultimately show ?thesis by blast
qed

subsection \<open>What the loop plans\<close>

text \<open>An item is taken when nothing current covers its context, or only an older filing.\<close>

definition accepted :: "(context_key \<Rightarrow> financial_line_item option) \<Rightarrow> parsed_line_item \<Rightarrow> bool" where
  "accepted em i \<longleftrightarrow> (case em (item_key i) of None \<Rightarrow> True | Some e \<Rightarrow> fli_filing_date e < filing_date i)"

definition row_of :: "parsed_line_item \<Rightarrow> financial_line_item \<Rightarrow> bool" where
  "row_of i r \<longleftrightarrow> current r \<and> row_key r = item_key i \<and> fli_filing_date r = filing_date i
     \<and> fli_value_usd r = None
     \<and> (\<exists>v. quantise_value (canonical_field i) (value_reported i) = Inr v \<and> fli_value_reported r = Some v)"

lemma build_row_Inr:
  "build_row n now i False = Inr r \<Longrightarrow> canonical_uuid (company_id i) \<Longrightarrow> row_of i r \<and> fli_id r = n"
  by (auto simp: build_row_def rbind_eq_Inr row_of_def current_def row_key_def item_key_def canonical_uuid_def)

lemma plan_item_Inr:
  assumes "plan_item em gen now i p = Inr p'" and "canonical_uuid (company_id i)"
  shows "(accepted em i \<longrightarrow> (\<exists>r. row_of i r \<and> fli_id r = gen (n_inserted p) \<and> to_insert p' = to_insert p @ [r]
            \<and> n_inserted p' = n_inserted p + 1 \<and> n_skipped p' = n_skipped p))
    \<and> (\<not> accepted em i \<longrightarrow> to_insert p' = to_insert p \<and> n_inserted p' = n_inserted p \<and> n_skipped p' = n_skipped p + 1)
    \<and> ids_to_restate p' = ids_to_restate p @
        (case em (item_key i) of Some e \<Rightarrow> if fli_filing_date e < filing_date i then [fli_id e] else [] | None \<Rightarrow> [])"
  using assms(1) build_row_Inr[of _ now i _, OF _ assms(2)]
  by (auto simp: plan_item_def accepted_def rbind_eq_Inr split: option.splits if_splits)

definition restated_id :: "(context_key \<Rightarrow> financial_line_item option) \<Rightarrow> parsed_line_item \<Rightarrow> uuid list" where
  "restated_id em i =
     (case em (item_key i) of Some e \<Rightarrow> if fli_filing_date e < filing_date i then [fli_id e] else [] | None \<Rightarrow> [])"

lemma plan_items_Inr:
  assumes "plan_items em gen now items p = Inr p'" and "\<forall>i \<in> set items. canonical_uuid (company_id i)"
  shows "\<exists>news. to_insert p' = to_insert p @ news \<and> list_all2 row_of (filter (accepted em) items) news
     \<and> map fli_id news = map gen [n_inserted p..<n_inserted p + length news]
     \<and> n_inserted p' = n_inserted p + length news
     \<and> n_skipped p' = n_skipped p + length (filter (\<lambda>i. \<not> accepted em i) items)
     \<and> ids_to_restate p' = ids_to_restate p @ concat (map (restated_id em) items)"
  using assms
proof (induction items arbitrary: p)
  case Nil
  then show ?case by simp
next
  case (Cons i items)
  then obtain q where q: "plan_item em gen now i p = Inr q" and rest: "plan_items em gen now items q = Inr p'"
    by (auto simp: rbind_eq_Inr)
  note one = plan_item_Inr[OF q, folded restated_id_def]
  obtain news where news: "to_insert p' = to_insert q @ news" "list_all2 row_of (filter (accepted em) items) news"
    "map fli_id news = map gen [n_inserted q..<n_inserted q + length news]"
    "n_inserted p' = n_inserted q + length news"
    "n_skipped p' = n_skipped q + length (filter (\<lambda>i. \<not> accepted em i) items)"
    "ids_to_restate p' = ids_to_restate q @ concat (map (restated_id em) items)"
    using Cons.IH[OF rest] Cons.prems(2) by auto
  show ?case
  proof (cases "accepted em i")
    case True
    then obtain r where r: "row_of i r" "fli_id r = gen (n_inserted p)" "to_insert q = to_insert p @ [r]"
      "n_inserted q = n_inserted p + 1" "n_skipped q = n_skipped p"
      "ids_to_restate q = ids_to_restate p @ restated_id em i"
      using one Cons.prems(2) by auto
    have "[n_inserted p..<n_inserted p + length (r # news)]
        = n_inserted p # [n_inserted q..<n_inserted q + length news]"
      using r(4) by (simp add: upt_conv_Cons del: upt_Suc)
    with True r news show ?thesis by (intro exI[of _ "r # news"]) simp
  next
    case False
    with one Cons.prems(2) news show ?thesis by (intro exI[of _ news]) auto
  qed
qed

subsection \<open>The tables after a write\<close>

definition superseded :: "parsed_line_item list \<Rightarrow> financial_line_item \<Rightarrow> bool" where
  "superseded items r \<longleftrightarrow> current r \<and> (\<exists>i \<in> set items. item_key i = row_key r \<and> fli_filing_date r < filing_date i)"

definition taken :: "financial_line_item list \<Rightarrow> parsed_line_item \<Rightarrow> bool" where
  "taken rows i = accepted (current_row rows) i"

interpretation blocked_jobs: row_table job_id "\<lambda>(report, now). blocked_job report now"
  by unfold_locales (auto simp: blocked_job_def)

lemma finish_write_Inr:
  assumes "finish_write accepts row_id now report jid acc ctx counts s = Inr (res, s')"
  shows "line_items s' = line_items s"
    and "\<exists>vr. validation_rows s' = validation_rows s @ [vr] \<and> vr_id vr = row_id
           \<and> vr_is_exportable vr = is_exportable report \<and> vr_accession_number vr = acc
           \<and> vr_confidence_score vr = final_score (confidence report)"
    and "items_inserted res = fst counts" and "items_restated res = fst (snd counts)"
    and "items_skipped res = snd (snd counts)"
    and "\<exists>s1. financial_jobs s1 = financial_jobs s
          \<and> (wr_job_status_updated_to res, s') = maybe_update_job_status now report jid s1"
proof -
  obtain s1 where s1: "persist_validation_result accepts row_id now report acc jid (fst ctx) (fst (snd ctx)) (snd (snd ctx)) s = Inr s1"
    and upd: "(wr_job_status_updated_to res, s') = maybe_update_job_status now report jid s1"
    and res: "items_inserted res = fst counts" "items_restated res = fst (snd counts)" "items_skipped res = snd (snd counts)"
  proof -
    obtain c f q i r k where ct: "ctx = (c, f, q)" "counts = (i, r, k)" by (metis prod_cases3)
    with assms obtain s1 where s1: "persist_validation_result accepts row_id now report acc jid c f q s = Inr s1"
      and "(case maybe_update_job_status now report jid s1 of (st, s2) \<Rightarrow>
            Inr (\<lparr>items_inserted = i, items_restated = r, items_skipped = k,
                  validation_result_id = Some row_id, wr_job_status_updated_to = st\<rparr>, s2)) = (Inr (res, s') :: write_error + _)"
      by (auto simp: finish_write_def rbind_eq_Inr)
    then show thesis using that[of s1] ct by (cases "maybe_update_job_status now report jid s1") auto
  qed
  have "line_items s' = line_items s1 \<and> validation_rows s' = validation_rows s1"
    using upd by (auto simp: maybe_update_job_status_def split: option.splits if_splits)
  moreover have "line_items s1 = line_items s \<and> financial_jobs s1 = financial_jobs s
      \<and> (\<exists>vr. validation_rows s1 = validation_rows s @ [vr] \<and> vr_id vr = row_id
           \<and> vr_is_exportable vr = is_exportable report \<and> vr_accession_number vr = acc
           \<and> vr_confidence_score vr = final_score (confidence report))"
    using s1 by (auto simp: persist_validation_result_def rbind_eq_Inr Let_def split: if_splits)
  ultimately show "line_items s' = line_items s"
    and "\<exists>vr. validation_rows s' = validation_rows s @ [vr] \<and> vr_id vr = row_id
           \<and> vr_is_exportable vr = is_exportable report \<and> vr_accession_number vr = acc
           \<and> vr_confidence_score vr = final_score (confidence report)"
    and "\<exists>s1. financial_jobs s1 = financial_jobs s
          \<and> (wr_job_status_updated_to res, s') = maybe_update_job_status now report jid s1"
    using upd by auto
  show "items_inserted res = fst counts" "items_restated res = fst (snd counts)" "items_skipped res = snd (snd counts)"
    by (fact res)+
qed

lemma restated_ids:
  assumes "distinct (map fli_id rows)" and "current_unique rows" and "r \<in> set rows"
  shows "fli_id r \<in> set (concat (map (restated_id (current_row rows)) items)) \<longleftrightarrow> superseded items r"
proof
  assume "fli_id r \<in> set (concat (map (restated_id (current_row rows)) items))"
  then obtain i where "i \<in> set items" and "fli_id r \<in> set (restated_id (current_row rows) i)" by auto
  then obtain e where i: "i \<in> set items" "current_row rows (item_key i) = Some e"
    "fli_filing_date e < filing_date i" "fli_id e = fli_id r"
    by (cases "current_row rows (item_key i)") (auto simp: restated_id_def split: if_splits)
  then have e: "e \<in> set rows" "current e" "row_key e = item_key i"
    using current_row_Some[OF assms(2)] by blast+
  with i(4) assms(1,3) have "e = r" by (auto simp: distinct_map dest: inj_onD)
  with i e show "superseded items r" by (auto simp: superseded_def)
next
  assume "superseded items r"
  then obtain i where i: "current r" "i \<in> set items" "item_key i = row_key r" "fli_filing_date r < filing_date i"
    by (auto simp: superseded_def)
  then have "current_row rows (item_key i) = Some r"
    using current_row_Some[OF assms(2)] assms(3) by simp
  with i have "fli_id r \<in> set (restated_id (current_row rows) i)" by (simp add: restated_id_def)
  with i(2) show "fli_id r \<in> set (concat (map (restated_id (current_row rows)) items))" by auto
qed

lemma accepted_cong: "em (item_key i) = em' (item_key i) \<Longrightarrow> accepted em i = accepted em' i"
  by (simp add: accepted_def)

lemma restated_id_cong: "em (item_key i) = em' (item_key i) \<Longrightarrow> restated_id em i = restated_id em' i"
  by (simp add: restated_id_def)

definition sound_input :: "(financial_line_item list \<Rightarrow> financial_line_item list) \<Rightarrow> parsed_line_item list
    \<Rightarrow> financial_line_item list \<Rightarrow> bool" where
  "sound_input arrange items rows \<longleftrightarrow>
     (\<forall>i \<in> set items. canonical_uuid (company_id i)) \<and> current_unique rows
     \<and> (\<forall>xs. mset (arrange xs) = mset xs)"

lemma write_outcome:
  assumes w: "write_items accepts arrange gen now items report jid acc s = Inr (res, s')"
    and snd: "sound_input arrange items (line_items s)" and ids: "distinct (map fli_id (line_items s))"
  shows "\<exists>news. line_items s'
        = map (\<lambda>r. if superseded items r then mark_restated now r else r) (line_items s) @ news
      \<and> list_all2 row_of (filter (taken (line_items s)) items) news
      \<and> items_inserted res = length news
      \<and> items_skipped res = length (filter (\<lambda>i. \<not> taken (line_items s) i) items)
      \<and> (items \<noteq> [] \<longrightarrow> distinct (map fli_id (line_items s')) \<and> distinct (map point_in_time (line_items s')))"
proof (cases "items = []")
  case True
  with w have "finish_write accepts (gen 0) now report jid acc (None, None, None) (0, 0, 0) s = Inr (res, s')"
    by (simp add: write_items_def)
  from finish_write_Inr[OF this] True show ?thesis by (auto simp: superseded_def)
next
  case False
  obtain em p rows where em: "fetch_existing_non_restated arrange items (line_items s) = Inr em"
    and p: "plan_items em gen now items empty_plan = Inr p"
    and rows: "insert_rows (to_insert p) (restate_rows (ids_to_restate p) now (line_items s)) = Inr rows"
    and fin: "finish_write accepts (gen (n_inserted p)) now report jid acc (infer_primary_context items)
            (n_inserted p, n_restated p, n_skipped p) (s\<lparr>line_items := rows\<rparr>) = Inr (res, s')"
    using w False by (auto simp: write_items_def rbind_eq_Inr)
  have agree: "em (item_key i) = current_row (line_items s) (item_key i)" if "i \<in> set items" for i
    using fetch_existing[of items "line_items s" arrange] em snd that by (auto simp: sound_input_def)
  have acc: "filter (accepted em) items = filter (taken (line_items s)) items"
    "filter (\<lambda>i. \<not> accepted em i) items = filter (\<lambda>i. \<not> taken (line_items s) i) items"
    "map (restated_id em) items = map (restated_id (current_row (line_items s))) items"
    using agree accepted_cong restated_id_cong unfolding taken_def
    by (auto intro!: filter_cong map_cong simp: restated_id_def accepted_def)
  obtain news where news: "to_insert p = news" "list_all2 row_of (filter (taken (line_items s)) items) news"
    "n_inserted p = length news" "n_skipped p = length (filter (\<lambda>i. \<not> taken (line_items s) i) items)"
    "ids_to_restate p = concat (map (restated_id (current_row (line_items s))) items)"
    using plan_items_Inr[OF p] snd unfolding acc by (auto simp: empty_plan_def sound_input_def)
  have cu: "current_unique (line_items s)" using snd by (simp add: sound_input_def)
  have "restate_rows (ids_to_restate p) now (line_items s)
      = map (\<lambda>r. if superseded items r then mark_restated now r else r) (line_items s)"
    unfolding restate_rows_def update_where_def news(5)
    using restated_ids[OF ids cu] by (intro map_cong) auto
  with rows news(1) have rows': "rows = map (\<lambda>r. if superseded items r then mark_restated now r else r) (line_items s) @ news"
    and dis: "distinct (map fli_id rows)" "distinct (map point_in_time rows)"
    by (simp_all only: insert_rows_def split: if_splits) auto
  show ?thesis
    using finish_write_Inr(1,3,5)[OF fin] rows' dis news(2-4) by auto
qed

lemma current_after:
  "filter current (map (\<lambda>r. if superseded items r then mark_restated now r else r) rows)
     = filter (\<lambda>r. current r \<and> \<not> superseded items r) rows"
  by (induction rows) (auto simp: mark_restated_def current_def)

lemma news_current: "list_all2 row_of is news \<Longrightarrow> filter current news = news \<and> map row_key news = map item_key is"
  by (induction rule: list_all2_induct) (auto simp: row_of_def)

lemma taken_supersedes:
  assumes "current_unique rows" and "r \<in> set rows" and "current r" and "i \<in> set items"
    and "item_key i = row_key r" and "taken rows i"
  shows "superseded items r"
  using assms current_row_Some[OF assms(1), of "row_key r" r]
  by (auto simp: taken_def accepted_def superseded_def)

lemma write_keeps_current_unique:
  assumes cu: "current_unique rows" and keys: "distinct (map item_key items)"
    and news: "list_all2 row_of (filter (taken rows) items) news"
  shows "current_unique (map (\<lambda>r. if superseded items r then mark_restated now r else r) rows @ news)"
proof -
  have old: "distinct (map row_key (filter (\<lambda>r. current r \<and> \<not> superseded items r) rows))"
    using distinct_map_filter[OF cu[unfolded current_unique_def], of "\<lambda>r. \<not> superseded items r"]
    by (simp add: conj_commute)
  have new: "distinct (map item_key (filter (taken rows) items))" using keys by (rule distinct_map_filter)
  have "row_key r \<noteq> item_key i"
    if "r \<in> set rows" "current r" "\<not> superseded items r" "i \<in> set items" "taken rows i" for r i
    using taken_supersedes[OF cu that(1,2,4) _ that(5)] that(3) by metis
  then have "set (map row_key (filter (\<lambda>r. current r \<and> \<not> superseded items r) rows))
      \<inter> set (map item_key (filter (taken rows) items)) = {}" by (fastforce simp del: split_paired_Ex)
  with old new news_current[OF news] show ?thesis
    by (simp add: current_unique_def current_after)
qed

lemma write_covers_item:
  fixes now :: instant
  assumes cu: "current_unique rows" and keys: "distinct (map item_key items)"
    and news: "list_all2 row_of (filter (taken rows) items) news" and i: "i \<in> set items"
  defines "rows' \<equiv> map (\<lambda>r. if superseded items r then mark_restated now r else r) rows @ news"
  shows "\<exists>r. current_row rows' (item_key i) = Some r \<and> filing_date i \<le> fli_filing_date r
     \<and> (if taken rows i then row_of i r else current_row rows (item_key i) = Some r)"
proof -
  have cu': "current_unique rows'"
    unfolding rows'_def by (rule write_keeps_current_unique[OF cu keys news])
  show ?thesis
  proof (cases "taken rows i")
    case True
    then have "i \<in> set (filter (taken rows) items)" using i by simp
    then obtain r where r: "r \<in> set news" "row_of i r"
      using list_all2_left[OF news] by blast
    then have "current_row rows' (item_key i) = Some r"
      unfolding current_row_Some[OF cu'] by (auto simp: rows'_def row_of_def)
    with r True show ?thesis by (auto simp: row_of_def)
  next
    case False
    then obtain r where r: "current_row rows (item_key i) = Some r" "filing_date i \<le> fli_filing_date r"
      by (auto simp: taken_def accepted_def not_less split: option.splits)
    then have mem: "r \<in> set rows" "current r" "row_key r = item_key i"
      using current_row_Some[OF cu] by blast+
    have "j = i" if "j \<in> set items" "item_key j = item_key i" for j
      using keys that i by (auto simp: distinct_map dest: inj_onD)
    then have "\<not> superseded items r" using r(2) mem by (force simp: superseded_def)
    then have "r \<in> set rows'" using mem by (force simp: rows'_def)
    then have "current_row rows' (item_key i) = Some r"
      unfolding current_row_Some[OF cu'] using mem by simp
    with r False show ?thesis by auto
  qed
qed

lemma plan_nothing:
  "\<forall>i \<in> set items. \<not> accepted em i \<Longrightarrow>
     plan_items em gen now items p = Inr (p\<lparr>n_skipped := n_skipped p + length items\<rparr>)"
  by (induction items arbitrary: p) (auto simp: plan_item_def accepted_def not_less split: option.splits)

lemma most_common_in: "xs \<noteq> [] \<Longrightarrow> most_common xs \<in> set xs"
  unfolding most_common_def
  by (rule foldl_invariant[where I = "\<lambda>b. b \<in> set xs"]) (auto dest: list.set_sel(2))

lemma primary_company:
  assumes "items \<noteq> []" and "\<forall>i \<in> set items. canonical_uuid (company_id i)"
  shows "\<exists>c y p. infer_primary_context items = (Some c, Some y, Some p) \<and> canonical_uuid c"
proof -
  let ?fy = "filter (\<lambda>i. fiscal_period i = ''FY'') items"
  let ?cand = "if ?fy \<noteq> [] then ?fy else items"
  have "map (\<lambda>i. (company_id i, fiscal_year i)) ?cand \<noteq> []" using assms(1) by simp
  from most_common_in[OF this]
  have "most_common (map (\<lambda>i. (company_id i, fiscal_year i)) ?cand) \<in> (\<lambda>i. (company_id i, fiscal_year i)) ` set items"
    by (auto split: if_splits)
  then obtain i where "i \<in> set items"
    "most_common (map (\<lambda>i. (company_id i, fiscal_year i)) ?cand) = (company_id i, fiscal_year i)" by auto
  then show ?thesis using assms by (auto simp: infer_primary_context_def Let_def)
qed

lemma finish_write_total:
  assumes "cid = None \<or> (\<exists>c. cid = Some c \<and> canonical_uuid c)" and "\<forall>row. accepts row"
  shows "\<exists>res s'. finish_write accepts row_id now report jid acc (cid, fy, fp) counts s = Inr (res, s')"
proof -
  have "\<exists>c. (case cid of None \<Rightarrow> Inr None
      | Some c \<Rightarrow> if c = [] then Inr None else rbind (uuid_of_string c) (\<lambda>u. Inr (Some u))) = (Inr c :: py_error + uuid option)"
    using assms by (auto simp: canonical_uuid_def)
  then obtain s1 where "persist_validation_result accepts row_id now report acc jid cid fy fp s = Inr s1"
    unfolding persist_validation_result_def using assms(2) by (auto simp: Let_def)
  then show ?thesis
    by (cases "maybe_update_job_status now report jid s1"; cases counts) (simp add: finish_write_def)
qed

subsection \<open>Properties\<close>

text \<open>
  The line item table is append-only.  A write changes no stored row except the restated
  flag (and time stamp) of current rows for whose context the batch brings a later filing; every row
  it adds comes from an item whose context had no current row or an older one, quantised,
  untranslated and current; and the counters account for every item.
\<close>

lemma write_is_append_only:
  assumes "write_items accepts arrange gen now items report jid acc s = Inr (res, s')"
    and "sound_input arrange items (line_items s)" and "distinct (map fli_id (line_items s))"
  shows "\<exists>news. line_items s'
        = map (\<lambda>r. if superseded items r then mark_restated now r else r) (line_items s) @ news
      \<and> (\<forall>r \<in> set news. \<exists>i \<in> set items. taken (line_items s) i \<and> row_of i r)
      \<and> length news = items_inserted res \<and> total_processed res = length items"
proof -
  obtain news where news: "line_items s'
        = map (\<lambda>r. if superseded items r then mark_restated now r else r) (line_items s) @ news"
    "list_all2 row_of (filter (taken (line_items s)) items) news" "items_inserted res = length news"
    "items_skipped res = length (filter (\<lambda>i. \<not> taken (line_items s) i) items)"
    using write_outcome[OF assms] by blast
  have "\<exists>i \<in> set items. taken (line_items s) i \<and> row_of i r" if "r \<in> set news" for r
    using list_all2_right[OF news(2) that] by auto
  moreover have "total_processed res = length items"
    using news(3,4) list_all2_lengthD[OF news(2)] length_filter_not[of "taken (line_items s)" items]
    by (simp add: total_processed_def)
  ultimately show ?thesis using news(1,3) by auto
qed

text \<open>
  C2: point-in-time versions stay unambiguous.  When the contexts of a batch are distinct and its company ids are in canonical form,
  every context still has at most one current row afterwards, and each item's context is
  covered by a row filed no earlier than the item: its own row if it was newer, else the
  row that was current before.
\<close>

lemma write_keeps_one_current_version:
  assumes "write_items accepts arrange gen now items report jid acc s = Inr (res, s')"
    and "sound_input arrange items (line_items s)" and "distinct (map fli_id (line_items s))"
    and "distinct (map item_key items)"
  shows "current_unique (line_items s')
    \<and> (\<forall>i \<in> set items. \<exists>r. current_row (line_items s') (item_key i) = Some r \<and> filing_date i \<le> fli_filing_date r
         \<and> (if taken (line_items s) i then row_of i r else current_row (line_items s) (item_key i) = Some r))"
proof -
  have cu: "current_unique (line_items s)" using assms(2) by (simp add: sound_input_def)
  obtain news where news: "line_items s'
        = map (\<lambda>r. if superseded items r then mark_restated now r else r) (line_items s) @ news"
    "list_all2 row_of (filter (taken (line_items s)) items) news"
    using write_outcome[OF assms(1-3)] by blast
  show ?thesis
    unfolding news(1) using write_keeps_current_unique[OF cu assms(4) news(2)]
      write_covers_item[OF cu assms(4) news(2)] by blast
qed

text \<open>
  Ingestion is idempotent: writing the same batch again, with a log row that is taken, succeeds, inserts and restates
  nothing, skips every item and leaves the line items as they are.
\<close>

lemma second_write_is_noop:
  assumes "write_items accepts arrange gen now items report jid acc s = Inr (res, s')"
    and "sound_input arrange items (line_items s)" and "distinct (map fli_id (line_items s))"
    and "distinct (map item_key items)" and "items \<noteq> []" and "\<forall>row. accepts2 row"
  shows "\<exists>res2 s2. write_items accepts2 arrange gen2 now2 items report2 jid2 acc2 s' = Inr (res2, s2)
    \<and> line_items s2 = line_items s' \<and> items_inserted res2 = 0 \<and> items_restated res2 = 0
    \<and> items_skipped res2 = length items"
proof -
  have can: "\<forall>i \<in> set items. canonical_uuid (company_id i)" and cu: "current_unique (line_items s)"
    and arr: "\<forall>xs. mset (arrange xs) = mset xs" using assms(2) by (auto simp: sound_input_def)
  obtain news where news: "line_items s'
        = map (\<lambda>r. if superseded items r then mark_restated now r else r) (line_items s) @ news"
    "list_all2 row_of (filter (taken (line_items s)) items) news"
    "distinct (map fli_id (line_items s')) \<and> distinct (map point_in_time (line_items s'))"
    using write_outcome[OF assms(1-3)] assms(5) by blast
  have cu': "current_unique (line_items s')"
    unfolding news(1) by (rule write_keeps_current_unique[OF cu assms(4) news(2)])
  obtain em where em: "fetch_existing_non_restated arrange items (line_items s') = Inr em"
    "\<forall>i \<in> set items. em (item_key i) = current_row (line_items s') (item_key i)"
    using fetch_existing[OF can cu' arr] by blast
  have "\<not> accepted em i" if i: "i \<in> set items" for i
  proof -
    obtain r where "current_row (line_items s') (item_key i) = Some r" "filing_date i \<le> fli_filing_date r"
      using write_covers_item[OF cu assms(4) news(2) i] unfolding news(1) by blast
    with em(2) i show ?thesis by (simp add: accepted_def)
  qed
  then have plan: "plan_items em gen2 now2 items empty_plan = Inr (empty_plan\<lparr>n_skipped := length items\<rparr>)"
    using plan_nothing[of items em gen2 now2 empty_plan] by (simp add: empty_plan_def)
  have ins: "insert_rows [] (restate_rows [] now2 (line_items s')) = Inr (line_items s')"
    using news(3) by (simp add: insert_rows_def restate_rows_def update_where_none)
  obtain c y p where ctx: "infer_primary_context items = (Some c, Some y, Some p)" "canonical_uuid c"
    using primary_company[OF assms(5) can] by blast
  obtain res2 s2 where fin: "finish_write accepts2 (gen2 0) now2 report2 jid2 acc2 (infer_primary_context items)
      (0, 0, length items) s' = Inr (res2, s2)"
    using finish_write_total[of "Some c" accepts2 "gen2 0" now2 report2 jid2 acc2 "Some y" "Some p" "(0, 0, length items)" s'] ctx assms(6)
    by auto
  have "write_items accepts2 arrange gen2 now2 items report2 jid2 acc2 s' = Inr (res2, s2)"
    using assms(5) em(1) plan ins fin by (simp add: write_items_def empty_plan_def)
  moreover note finish_write_Inr(1,3,4,5)[OF fin]
  ultimately show ?thesis by (intro exI[of _ res2] exI[of _ s2]) simp
qed

lemma write_items_finish:
  assumes "write_items accepts arrange gen now items report jid acc s = Inr (res, s')"
  obtains row_id ctx counts rows where
    "finish_write accepts row_id now report jid acc ctx counts (s\<lparr>line_items := rows\<rparr>) = Inr (res, s')"
proof (cases "items = []")
  case True
  with assms that[of "gen 0" "(None, None, None)" "(0, 0, 0)" "line_items s"] show thesis
    by (simp add: write_items_def)
next
  case False
  with assms show thesis by (auto simp: write_items_def rbind_eq_Inr intro: that simp del: split_paired_All)
qed

lemma blocked_job_update:
  assumes "(st, s') = maybe_update_job_status now report (Some i) s" and "get_row job_id i (financial_jobs s) = Some job"
  shows "if is_exportable report \<or> job_status job \<notin> {''pending'', ''queued'', ''running''}
     then st = None \<and> financial_jobs s' = financial_jobs s
     else st = Some STATUS_VALIDATION_BLOCKED
       \<and> get_row job_id i (financial_jobs s') = Some (blocked_job report now job)
       \<and> (\<forall>j. j \<noteq> i \<longrightarrow> get_row job_id j (financial_jobs s') = get_row job_id j (financial_jobs s))"
proof (cases "is_exportable report \<or> job_status job \<notin> {''pending'', ''queued'', ''running''}")
  case True
  with assms have "st = None \<and> s' = s"
    by (cases "is_exportable report") (simp_all add: maybe_update_job_status_def)
  with True show ?thesis by simp
next
  case False
  with assms have "st = Some STATUS_VALIDATION_BLOCKED"
    and "financial_jobs s' = put_row job_id i (blocked_job report now job) (financial_jobs s)"
    by (auto simp: maybe_update_job_status_def)
  with False show ?thesis
    using blocked_jobs.read_back[OF assms(2), of "(report, now)"]
      blocked_jobs.others_unmoved[OF assms(2), of _ "(report, now)"] by simp
qed

text \<open>
  The export gate.  Every write logs exactly one validation row carrying the report's
  verdict; a blocked report freezes its job as \<^verbatim>\<open>failed_validation_blocked\<close> when the job is
  still pending, queued or running, and touches no other job; an exportable report, or a
  job already finished, leaves every job alone.
\<close>

lemma blocked_report_freezes_job:
  assumes "write_items accepts arrange gen now items report (Some i) acc s = Inr (res, s')"
    and "get_row job_id i (financial_jobs s) = Some job"
  shows "(\<exists>vr. validation_rows s' = validation_rows s @ [vr] \<and> vr_is_exportable vr = is_exportable report
            \<and> vr_confidence_score vr = final_score (confidence report))
    \<and> (if is_exportable report \<or> job_status job \<notin> {''pending'', ''queued'', ''running''}
       then financial_jobs s' = financial_jobs s
       else (\<exists>job'. get_row job_id i (financial_jobs s') = Some job'
               \<and> job_status job' = STATUS_VALIDATION_BLOCKED \<and> job_company_id job' = job_company_id job)
         \<and> (\<forall>j. j \<noteq> i \<longrightarrow> get_row job_id j (financial_jobs s') = get_row job_id j (financial_jobs s)))"
proof -
  obtain row_id ctx counts rows where
    fin: "finish_write accepts row_id now report (Some i) acc ctx counts (s\<lparr>line_items := rows\<rparr>) = Inr (res, s')"
    by (rule write_items_finish[OF assms(1)])
  obtain s1 where s1: "financial_jobs s1 = financial_jobs s"
    "(wr_job_status_updated_to res, s') = maybe_update_job_status now report (Some i) s1"
    using finish_write_Inr(6)[OF fin] by auto
  have "get_row job_id i (financial_jobs s1) = Some job" using assms(2) s1(1) by simp
  from blocked_job_update[OF s1(2) this] finish_write_Inr(2)[OF fin] s1(1) show ?thesis
    by (auto simp: blocked_job_def)
qed

text \<open>
  A context that occurs twice in one batch is not deduplicated.  If nothing current covers
  the context, then with equal filing dates the insert violates the unique constraint and the
  whole batch fails; with different dates a write that succeeds leaves two current rows for the context.
\<close>

lemma duplicate_context_in_batch:
  assumes "sound_input arrange items (line_items s)" and "distinct (map fli_id (line_items s))"
    and "a < b" and "b < length items" and "item_key (items ! a) = item_key (items ! b)"
    and "current_row (line_items s) (item_key (items ! a)) = None"
    and "write_items accepts arrange gen now items report jid acc s = Inr (res, s')"
  shows "filing_date (items ! a) \<noteq> filing_date (items ! b) \<and> \<not> current_unique (line_items s')"
proof -
  obtain news where news: "line_items s'
        = map (\<lambda>r. if superseded items r then mark_restated now r else r) (line_items s) @ news"
    "list_all2 row_of (filter (taken (line_items s)) items) news"
    and dis: "distinct (map point_in_time (line_items s'))"
    using write_outcome[OF assms(7,1,2)] assms(4) by fastforce
  have tk: "taken (line_items s) (items ! a)" "taken (line_items s) (items ! b)"
    using assms(5,6) by (simp_all add: taken_def accepted_def)
  have b: "items = take b items @ items ! b # drop (Suc b) items"
    by (rule id_take_nth_drop[OF assms(4)])
  have "items ! a \<in> set (take b items)"
    using assms(3,4) by (auto simp: in_set_conv_nth intro!: exI[of _ a])
  then obtain xs ys where a: "take b items = xs @ items ! a # ys" by (metis in_set_conv_decomp)
  have split: "items = xs @ items ! a # ys @ items ! b # drop (Suc b) items"
    using b unfolding a by simp
  have "filter (taken (line_items s)) items
      = filter (taken (line_items s)) xs @ items ! a # filter (taken (line_items s)) ys
        @ items ! b # filter (taken (line_items s)) (drop (Suc b) items)"
    using tk by (subst split) simp
  with news(2) obtain us r vs q ws where n: "news = us @ r # vs @ q # ws" "row_of (items ! a) r" "row_of (items ! b) q"
    by (auto simp: list_all2_append1 list_all2_Cons1)
  have "point_in_time r \<noteq> point_in_time q" using dis unfolding news(1) n(1) by simp
  moreover have "row_key r = row_key q" "current r" "current q" using n(2,3) assms(5) by (simp_all add: row_of_def)
  moreover have "\<not> current_unique (line_items s')"
    unfolding current_unique_def news(1) n(1) using \<open>row_key r = row_key q\<close> \<open>current r\<close> \<open>current q\<close> by simp
  ultimately show ?thesis
    using n(2,3) by (auto simp: point_in_time_def row_key_def row_of_def)
qed

subsection \<open>Instances\<close>

definition sample_company :: string where
  "sample_company = ''0190a1b2-c3d4-7e5f-8a6b-0123456789ab''"

definition sample_parsed :: "string \<Rightarrow> date \<Rightarrow> parsed_line_item" where
  "sample_parsed cf d = sample_item\<lparr>company_id := sample_company, canonical_field := cf, filing_date := d\<rparr>"

definition stored_row :: financial_line_item where
  "stored_row = \<lparr>fli_id = ''r0'', fli_company_id = sample_company, fli_fiscal_year = fiscal_year sample_item,
     fli_fiscal_period = fiscal_period sample_item, fli_reporting_standard = ''US_GAAP'', fli_filing_date = 738000,
     fli_is_restated = False, fli_canonical_field = ''revenue'', fli_statement_type = ''IS'', fli_value_usd = None,
     fli_value_reported = Some (Dec 1 (-2)), fli_reported_currency = Some ''USD'', fli_fx_rate_used = None,
     fli_source_file_hash = None, fli_derived_expression_formula = None, fli_extraction_method = None,
     fli_created_at = 0, fli_updated_at = 0\<rparr>"

definition blocked_report :: validation_report where
  "blocked_report = \<lparr>validation_result = \<lparr>findings = []\<rparr>,
     confidence = \<lparr>base_score = 100, final_score = 75, deductions = []\<rparr>, items_validated = 0, is_exportable = False\<rparr>"

definition running_job :: financial_job where
  "running_job = \<lparr>job_id = ''j1'', job_tenant_id = ''t1'', job_company_id = Some sample_company, job_created_by = None,
     job_status = ''running'', job_type = ''sec_10k_annual'', job_fiscal_year = None, job_document_url = None,
     job_result_url = None, job_error_message = None, job_celery_task_id = None, job_started_at = None,
     job_completed_at = None, job_created_at = 0, job_updated_at = 0\<rparr>"

definition stored_session :: write_session where
  "stored_session = \<lparr>line_items = [stored_row], financial_jobs = [running_job], validation_rows = []\<rparr>"

definition fresh_ids :: "nat \<Rightarrow> uuid" where
  "fresh_ids n = replicate (Suc (Suc (Suc n))) (CHR ''x'')"

text \<open>A later filing of one stored context, and a context that is new.\<close>

definition restating_items :: "parsed_line_item list" where
  "restating_items = [sample_parsed ''revenue'' 738400, sample_parsed ''net_income'' 738400]"

definition duplicated_items :: "parsed_line_item list" where
  "duplicated_items = [sample_parsed ''cogs'' 738400, sample_parsed ''cogs'' 738500]"

definition sample_write :: "parsed_line_item list \<Rightarrow> write_error + (write_result \<times> write_session)" where
  "sample_write items = write_items (\<lambda>_. True) id fresh_ids 7 items blocked_report (Some ''j1'') ''a1'' stored_session"

lemma sample_write_ok:
  "case sample_write restating_items of Inr (res, s') \<Rightarrow> items_restated res = 1 | Inl _ \<Rightarrow> False"
  "case sample_write duplicated_items of Inr (res, s') \<Rightarrow> items_restated res = 0 | Inl _ \<Rightarrow> False"
  by code_simp+

lemma sample_write_Inr:
  obtains res s' where "write_items (\<lambda>_. True) id fresh_ids 7 restating_items blocked_report (Some ''j1'') ''a1'' stored_session = Inr (res, s')"
    and "items_restated res = 1"
  using sample_write_ok(1) by (auto simp: sample_write_def split: sum.splits)

lemma sample_sound:
  "sound_input id restating_items (line_items stored_session)" "sound_input id duplicated_items (line_items stored_session)"
proof -
  have "canonical_uuid sample_company" by code_simp
  then show "sound_input id restating_items (line_items stored_session)"
    "sound_input id duplicated_items (line_items stored_session)"
    by (simp_all add: sound_input_def restating_items_def duplicated_items_def sample_parsed_def stored_session_def
        current_unique_def current_def stored_row_def)
qed

lemma sample_ids: "distinct (map fli_id (line_items stored_session))"
  by (simp add: stored_session_def)

lemma sample_keys: "distinct (map item_key restating_items)" "restating_items \<noteq> []"
  by (simp_all add: restating_items_def item_key_def sample_parsed_def)

lemma write_is_append_only_witness:
  "\<exists>res s'. write_items (\<lambda>_. True) id fresh_ids 7 restating_items blocked_report (Some ''j1'') ''a1'' stored_session = Inr (res, s')
     \<and> items_restated res = 1 \<and> total_processed res = 2"
proof -
  obtain res s' where w: "write_items (\<lambda>_. True) id fresh_ids 7 restating_items blocked_report (Some ''j1'') ''a1'' stored_session = Inr (res, s')"
    and "items_restated res = 1" by (rule sample_write_Inr)
  with write_is_append_only[OF w sample_sound(1) sample_ids] show ?thesis
    by (auto simp: restating_items_def)
qed

lemma write_keeps_one_current_version_witness:
  "\<exists>res s'. write_items (\<lambda>_. True) id fresh_ids 7 restating_items blocked_report (Some ''j1'') ''a1'' stored_session = Inr (res, s')
     \<and> current_unique (line_items s')"
proof -
  obtain res s' where w: "write_items (\<lambda>_. True) id fresh_ids 7 restating_items blocked_report (Some ''j1'') ''a1'' stored_session = Inr (res, s')"
    by (rule sample_write_Inr)
  with write_keeps_one_current_version[OF w sample_sound(1) sample_ids sample_keys(1)] show ?thesis by blast
qed

lemma second_write_is_noop_witness:
  "\<exists>res s' res2 s2. write_items (\<lambda>_. True) id fresh_ids 7 restating_items blocked_report (Some ''j1'') ''a1'' stored_session = Inr (res, s')
     \<and> write_items (\<lambda>_. True) id fresh_ids 9 restating_items blocked_report None ''a2'' s' = Inr (res2, s2) \<and> items_skipped res2 = 2"
proof -
  obtain res s' where w: "write_items (\<lambda>_. True) id fresh_ids 7 restating_items blocked_report (Some ''j1'') ''a1'' stored_session = Inr (res, s')"
    by (rule sample_write_Inr)
  obtain res2 s2 where "write_items (\<lambda>_. True) id fresh_ids 9 restating_items blocked_report None ''a2'' s' = Inr (res2, s2)"
    "items_skipped res2 = length restating_items"
    using second_write_is_noop[OF w sample_sound(1) sample_ids sample_keys, of "\<lambda>_. True" fresh_ids 9 blocked_report None "''a2''"] by blast
  with w show ?thesis by (auto simp: restating_items_def)
qed

lemma blocked_report_freezes_job_witness:
  "\<exists>res s' job'. write_items (\<lambda>_. True) id fresh_ids 7 restating_items blocked_report (Some ''j1'') ''a1'' stored_session = Inr (res, s')
     \<and> get_row job_id ''j1'' (financial_jobs s') = Some job' \<and> job_status job' = STATUS_VALIDATION_BLOCKED"
proof -
  obtain res s' where w: "write_items (\<lambda>_. True) id fresh_ids 7 restating_items blocked_report (Some ''j1'') ''a1'' stored_session = Inr (res, s')"
    by (rule sample_write_Inr)
  have j: "get_row job_id ''j1'' (financial_jobs stored_session) = Some running_job"
    by (simp add: stored_session_def running_job_def get_row_def)
  from blocked_report_freezes_job[OF w j] w show ?thesis
    by (auto simp: blocked_report_def running_job_def)
qed

lemma duplicate_context_in_batch_witness:
  "\<exists>res s'. write_items (\<lambda>_. True) id fresh_ids 7 duplicated_items blocked_report (Some ''j1'') ''a1'' stored_session = Inr (res, s')
     \<and> \<not> current_unique (line_items s')"
proof -
  obtain res s' where w: "write_items (\<lambda>_. True) id fresh_ids 7 duplicated_items blocked_report (Some ''j1'') ''a1'' stored_session = Inr (res, s')"
    using sample_write_ok(2) by (auto simp: sample_write_def split: sum.splits)
  have "item_key (duplicated_items ! 0) = item_key (duplicated_items ! 1)"
    and "current_row (line_items stored_session) (item_key (duplicated_items ! 0)) = None"
    by (simp_all add: duplicated_items_def item_key_def sample_parsed_def current_row_def stored_session_def
        stored_row_def row_key_def)
  from duplicate_context_in_batch[OF sample_sound(2) sample_ids _ _ this w] w show ?thesis
    by (simp add: duplicated_items_def)
qed

end
