(* ===== verification/RateLimiter.thy ===== *)
theory RateLimiter
  imports Prelude
begin

text \<open>
  \<^verbatim>\<open>services/acquisition/source_registry/rate_limiter.py\<close>: the circuit breaker, the in-process
  token bucket and the Redis-backed limiter.  The monotonic clock is an argument of every operation that
  reads it; Python floats are modelled as exact rationals.  An \<open>acquire\<close> returns the state and
  the time at which the caller may go on: now, or the end of the sleep.
\<close>

subsection \<open>Circuit breaker\<close>

record breaker_config =
  failure_threshold :: nat
  hold_open_seconds :: rat

record circuit_breaker =
  consecutive_failures :: nat
  tripped_at :: "rat option"

datatype breaker_error = CircuitBreakerOpenError int

definition new_breaker :: circuit_breaker where
  "new_breaker = \<lparr>consecutive_failures = 0, tripped_at = None\<rparr>"

definition is_open :: "breaker_config \<Rightarrow> rat \<Rightarrow> circuit_breaker \<Rightarrow> bool" where
  "is_open cfg now b = (case tripped_at b of None \<Rightarrow> False | Some t \<Rightarrow> now - t < hold_open_seconds cfg)"

definition seconds_until_reset :: "breaker_config \<Rightarrow> rat \<Rightarrow> circuit_breaker \<Rightarrow> rat" where
  "seconds_until_reset cfg now b =
     (case tripped_at b of None \<Rightarrow> 0 | Some t \<Rightarrow> max 0 (hold_open_seconds cfg - (now - t)))"

text \<open>The message interpolates \<open>int(round(hold - elapsed, 0))\<close>: rounding half to even.\<close>

definition check :: "breaker_config \<Rightarrow> rat \<Rightarrow> circuit_breaker \<Rightarrow> breaker_error + circuit_breaker" where
  "check cfg now b =
     (case tripped_at b of
        None \<Rightarrow> Inr b
      | Some t \<Rightarrow>
          let elapsed = now - t
          in if hold_open_seconds cfg \<le> elapsed
             then Inr (b\<lparr>tripped_at := None, consecutive_failures := 0\<rparr>)
             else let x = hold_open_seconds cfg - elapsed; f = floor x
                  in Inl (CircuitBreakerOpenError
                       (if x - of_int f < 1 / 2 \<or> (x - of_int f = 1 / 2 \<and> even f) then f else f + 1)))"

definition record_success :: "circuit_breaker \<Rightarrow> circuit_breaker" where
  "record_success b = b\<lparr>consecutive_failures := 0\<rparr>"

definition record_failure :: "breaker_config \<Rightarrow> rat \<Rightarrow> circuit_breaker \<Rightarrow> circuit_breaker" where
  "record_failure cfg now b =
     (let b1 = b\<lparr>consecutive_failures := consecutive_failures b + 1\<rparr>
      in if failure_threshold cfg \<le> consecutive_failures b1 then b1\<lparr>tripped_at := Some now\<rparr> else b1)"

subsection \<open>Token bucket\<close>

record bucket_config =
  rate :: rat
  burst :: nat

record token_bucket =
  tokens :: rat
  last_refill :: rat

definition new_bucket :: "rat \<Rightarrow> nat \<Rightarrow> rat \<Rightarrow> py_error + (bucket_config \<times> token_bucket)" where
  "new_bucket r n now =
     (if r \<le> 0 then Inl ValueError
      else if n = 0 then Inl ValueError
      else Inr (\<lparr>rate = r, burst = n\<rparr>, \<lparr>tokens = of_nat n, last_refill = now\<rparr>))"

definition acquire :: "bucket_config \<Rightarrow> rat \<Rightarrow> token_bucket \<Rightarrow> rat \<times> token_bucket" where
  "acquire cfg now b =
     (let elapsed = now - last_refill b;
          filled = min (of_nat (burst cfg)) (tokens b + elapsed * rate cfg)
      in if 1 \<le> filled then (now, \<lparr>tokens = filled - 1, last_refill = now\<rparr>)
         else let wait_time = (1 - filled) / rate cfg
              in (now + wait_time, \<lparr>tokens = 0, last_refill = now + wait_time\<rparr>))"

fun acquire_all :: "bucket_config \<Rightarrow> rat list \<Rightarrow> token_bucket \<Rightarrow> rat list \<times> token_bucket" where
  "acquire_all cfg [] b = ([], b)"
| "acquire_all cfg (now # nows) b =
     (case acquire cfg now b of (g, b1) \<Rightarrow> case acquire_all cfg nows b1 of (gs, b2) \<Rightarrow> (g # gs, b2))"

subsection \<open>Redis limiter\<close>

text \<open>
  The two commands the limiter sends, on an abstract server state: \<open>INCR\<close> with its reply and
  \<open>EXPIRE\<close>; \<open>None\<close> is any exception of the client.
\<close>

record 's redis_counter =
  redis_incr :: "'s \<Rightarrow> string \<Rightarrow> rat \<Rightarrow> (nat \<times> 's) option"
  redis_expire :: "'s \<Rightarrow> string \<Rightarrow> nat \<Rightarrow> rat \<Rightarrow> 's option"

record redis_limiter =
  rl_key :: string
  rl_rate :: nat
  rl_window :: nat
  rl_fallback_config :: bucket_config
  rl_fallback :: token_bucket

definition fallback_acquire :: "rat \<Rightarrow> redis_limiter \<Rightarrow> rat \<times> redis_limiter" where
  "fallback_acquire now l =
     (case acquire (rl_fallback_config l) now (rl_fallback l) of (g, b) \<Rightarrow> (g, l\<lparr>rl_fallback := b\<rparr>))"

text \<open>A failing \<open>EXPIRE\<close> comes after the increment has taken effect.\<close>

definition redis_acquire :: "'s redis_counter \<Rightarrow> rat \<Rightarrow> redis_limiter \<Rightarrow> 's \<Rightarrow> rat \<times> redis_limiter \<times> 's" where
  "redis_acquire R now l s =
     (case redis_incr R s (rl_key l) now of
        None \<Rightarrow> (case fallback_acquire now l of (g, l1) \<Rightarrow> (g, l1, s))
      | Some (count, s1) \<Rightarrow>
          (case (if count = 1 then redis_expire R s1 (rl_key l) (rl_window l) now else Some s1) of
             None \<Rightarrow> (case fallback_acquire now l of (g, l1) \<Rightarrow> (g, l1, s1))
           | Some s2 \<Rightarrow>
               if rl_rate l < count then (now + of_nat (rl_window l) / of_nat (rl_rate l), l, s2)
               else (now, l, s2)))"

fun redis_acquire_all :: "'s redis_counter \<Rightarrow> rat list \<Rightarrow> redis_limiter \<Rightarrow> 's \<Rightarrow> rat list \<times> redis_limiter \<times> 's" where
  "redis_acquire_all R [] l s = ([], l, s)"
| "redis_acquire_all R (now # nows) l s =
     (case redis_acquire R now l s of (g, l1, s1) \<Rightarrow>
        case redis_acquire_all R nows l1 s1 of (gs, l2, s2) \<Rightarrow> (g # gs, l2, s2))"

subsection \<open>The breaker as a state machine\<close>

text \<open>
  What a caller does with a breaker: a check that passes, a check that is refused, and the
  two ways a request ends, each with the clock at which it happens.
\<close>

datatype breaker_event = Passed rat | Refused rat | Succeeded | Failed rat

inductive breaker_step :: "breaker_config \<Rightarrow> circuit_breaker \<Rightarrow> breaker_event \<Rightarrow> circuit_breaker \<Rightarrow> bool"
  for cfg where
    passed: "check cfg now b = Inr b' \<Longrightarrow> breaker_step cfg b (Passed now) b'"
  | refused: "check cfg now b = Inl e \<Longrightarrow> breaker_step cfg b (Refused now) b"
  | succeeded: "breaker_step cfg b Succeeded (record_success b)"
  | failed: "breaker_step cfg b (Failed now) (record_failure cfg now b)"

inductive_cases passedE: "breaker_step cfg b (Passed now) b'"
inductive_cases refusedE: "breaker_step cfg b (Refused now) b'"

inductive breaker_run :: "breaker_config \<Rightarrow> circuit_breaker \<Rightarrow> breaker_event list \<Rightarrow> circuit_breaker \<Rightarrow> bool"
  for cfg where
    run_nil: "breaker_run cfg b [] b"
  | run_snoc: "breaker_run cfg b es b1 \<Longrightarrow> breaker_step cfg b1 e b2 \<Longrightarrow> breaker_run cfg b (es @ [e]) b2"

fun event_time :: "breaker_event \<Rightarrow> rat option" where
  "event_time (Passed t) = Some t"
| "event_time (Refused t) = Some t"
| "event_time Succeeded = None"
| "event_time (Failed t) = Some t"

lemma check_Inl_iff: "(\<exists>e. check cfg now b = Inl e) \<longleftrightarrow> is_open cfg now b"
  by (auto simp: check_def is_open_def Let_def not_less split: option.split)

lemma check_open: "check cfg now b = Inl e \<Longrightarrow> is_open cfg now b"
  using check_Inl_iff by blast

lemma check_Inr:
  "check cfg now b = Inr b' \<Longrightarrow> \<not> is_open cfg now b \<and> tripped_at b' = None
     \<and> consecutive_failures b' = (if tripped_at b = None then consecutive_failures b else 0)"
  by (auto simp: check_def is_open_def Let_def split: option.splits if_splits)

lemma refused_step: "breaker_step cfg b (Refused now) b' \<Longrightarrow> b' = b \<and> is_open cfg now b"
  by (auto elim: refusedE dest: check_open)

lemma passed_step: "breaker_step cfg b (Passed now) b' \<Longrightarrow> tripped_at b' = None \<and> \<not> is_open cfg now b"
  by (auto elim: passedE dest: check_Inr)

subsection \<open>Token accounting\<close>

text \<open>
  After an \<open>acquire\<close> the bucket's clock stands at the granted time, its tokens are not negative
  and at most one less than the burst, and it has paid one token for the time gained.
\<close>

definition settled :: "bucket_config \<Rightarrow> rat \<Rightarrow> token_bucket \<Rightarrow> bool" where
  "settled cfg g b \<longleftrightarrow> last_refill b = g \<and> 0 \<le> tokens b \<and> tokens b \<le> of_nat (burst cfg) - 1"

lemma acquire_settled:
  assumes "0 < rate cfg" and "0 < burst cfg" and "acquire cfg now b = (g, b')"
  shows "settled cfg g b' \<and> tokens b' \<le> tokens b + (g - last_refill b) * rate cfg - 1 \<and> now \<le> g"
proof -
  define X where "X = tokens b + (now - last_refill b) * rate cfg"
  define F where "F = min (of_nat (burst cfg)) X"
  have n: "(1 :: rat) \<le> of_nat (burst cfg)" using assms(2) by simp
  have eq: "acquire cfg now b = (if 1 \<le> F then (now, \<lparr>tokens = F - 1, last_refill = now\<rparr>)
      else (now + (1 - F) / rate cfg, \<lparr>tokens = 0, last_refill = now + (1 - F) / rate cfg\<rparr>))"
    by (simp only: acquire_def Let_def F_def X_def)
  show ?thesis
  proof (cases "1 \<le> F")
    case True
    with assms(3) have "g = now" "b' = \<lparr>tokens = F - 1, last_refill = now\<rparr>"
      unfolding eq by auto
    moreover have "F \<le> X" "F \<le> of_nat (burst cfg)" by (simp_all add: F_def)
    ultimately show ?thesis using True by (simp add: settled_def X_def)
  next
    case False
    define w where "w = (1 - F) / rate cfg"
    from False assms(3) have g: "g = now + w" "b' = \<lparr>tokens = 0, last_refill = now + w\<rparr>"
      unfolding eq by (auto simp: w_def)
    have "w * rate cfg = 1 - F" using assms(1) by (simp add: w_def)
    moreover have "0 \<le> w" using False assms(1) by (simp add: w_def)
    moreover have "tokens b + (g - last_refill b) * rate cfg - 1 = X + w * rate cfg - 1"
      by (simp add: g X_def algebra_simps)
    moreover have "F \<le> X" by (simp add: F_def)
    ultimately show ?thesis using g n by (simp add: settled_def)
  qed
qed

lemma acquire_all_length: "acquire_all cfg nows b = (gs, b') \<Longrightarrow> length gs = length nows"
  by (induction nows arbitrary: b gs b') (auto split: prod.splits)

text \<open>From a settled bucket, the n-th grant has paid for n tokens.\<close>

lemma grants_paid:
  assumes "0 < rate cfg" and "0 < burst cfg" and "settled cfg g0 b"
    and "acquire_all cfg nows b = (gs, b')" and "j < length gs"
  shows "of_nat (Suc j) \<le> tokens b + (gs ! j - g0) * rate cfg"
  using assms(3-5)
proof (induction nows arbitrary: b g0 gs j)
  case Nil
  then show ?case by simp
next
  case (Cons now nows)
  obtain g b1 where a: "acquire cfg now b = (g, b1)" by fastforce
  obtain gs1 where r: "acquire_all cfg nows b1 = (gs1, b')" and gs: "gs = g # gs1"
    using Cons.prems(2) a by (auto split: prod.splits)
  from acquire_settled[OF assms(1,2) a] Cons.prems(1)
  have s: "settled cfg g b1" and t: "tokens b1 \<le> tokens b + (g - g0) * rate cfg - 1"
    by (simp_all add: settled_def)
  show ?case
  proof (cases j)
    case 0
    with s t gs show ?thesis by (simp add: settled_def)
  next
    case (Suc i)
    with Cons.prems(3) gs have "i < length gs1" by simp
    from Cons.IH[OF s r this] have "of_nat (Suc i) \<le> tokens b1 + (gs1 ! i - g) * rate cfg" .
    with t have "of_nat (Suc i) \<le> tokens b + (g - g0) * rate cfg - 1 + (gs1 ! i - g) * rate cfg" by linarith
    then show ?thesis using Suc gs by (simp add: algebra_simps)
  qed
qed

lemma acquire_all_drop:
  assumes "0 < rate cfg" and "0 < burst cfg" and "acquire_all cfg nows b = (gs, b')" and "i < length nows"
  shows "\<exists>b1. settled cfg (gs ! i) b1 \<and> acquire_all cfg (drop (Suc i) nows) b1 = (drop (Suc i) gs, b')"
  using assms(3,4)
proof (induction nows arbitrary: b gs i)
  case Nil
  then show ?case by simp
next
  case (Cons now nows)
  obtain g b1 where a: "acquire cfg now b = (g, b1)" by fastforce
  obtain gs1 b2 where r: "acquire_all cfg nows b1 = (gs1, b2)" by fastforce
  with Cons.prems(1) a have gs: "gs = g # gs1" and b2: "b2 = b'" by simp_all
  show ?case
  proof (cases i)
    case 0
    with r gs b2 acquire_settled[OF assms(1,2) a] show ?thesis by auto
  next
    case (Suc k)
    with Cons.IH[of b1 gs1 k] r gs b2 Cons.prems(2) show ?thesis by simp
  qed
qed

lemma bucket_grants_bound:
  assumes "new_bucket r n now0 = Inr (cfg, b)" and "acquire_all cfg nows b = (gs, b')"
    and "i \<le> j" and "j < length nows"
  shows "of_nat (j - i + 1) \<le> of_nat n + (gs ! j - gs ! i) * r"
proof -
  have cfg: "0 < rate cfg" "0 < burst cfg" "rate cfg = r" "burst cfg = n"
    using assms(1) by (auto simp: new_bucket_def split: if_splits)
  have i: "i < length nows" using assms(3,4) by simp
  obtain b1 where s: "settled cfg (gs ! i) b1" and d: "acquire_all cfg (drop (Suc i) nows) b1 = (drop (Suc i) gs, b')"
    using acquire_all_drop[OF cfg(1,2) assms(2) i] by blast
  have tok: "tokens b1 \<le> of_nat n - 1" using s cfg(4) by (simp add: settled_def)
  show ?thesis
  proof (cases "i = j")
    case True
    with cfg(2,4) show ?thesis by simp
  next
    case False
    with assms(3) obtain k where k: "j = Suc i + k" by (metis less_iff_Suc_add add_Suc le_neq_implies_less)
    then have "k < length (drop (Suc i) gs)"
      using assms(4) acquire_all_length[OF assms(2)] by simp
    from grants_paid[OF cfg(1,2) s d this] k acquire_all_length[OF assms(2)] assms(4)
    have "of_nat (Suc k) \<le> tokens b1 + (gs ! j - gs ! i) * r" by (simp add: cfg(3))
    with tok k show ?thesis by simp
  qed
qed

subsection \<open>Properties\<close>

text \<open>
  C17: the token bucket keeps the rate.  Whatever the arrival times, any run of consecutive
  grants, from the i-th to the j-th, holds at most the burst plus the rate times the
  time between the first and the last of them, and no caller is let go before it arrived.
\<close>

lemma token_bucket_rate_bound:
  assumes "new_bucket r n now0 = Inr (cfg, b)" and "acquire_all cfg nows b = (gs, b')"
    and "i \<le> j" and "j < length nows"
  shows "of_nat (j - i + 1) \<le> of_nat n + (gs ! j - gs ! i) * r"
  using assms by (rule bucket_grants_bound)

text \<open>
  A tripped breaker holds.  While the hold time after a trip has not elapsed no check
  passes, whatever successes and failures are reported in between; failures can only move the trip later;
  and the first check after the hold passes and resets the breaker completely.
\<close>

lemma tripped_breaker_blocks_for_hold:
  assumes "breaker_run cfg b es b'" and "tripped_at b = Some t"
    and "\<forall>e \<in> set es. \<forall>u. event_time e = Some u \<longrightarrow> t \<le> u \<and> u < t + hold_open_seconds cfg"
  shows "(\<forall>u. Passed u \<notin> set es)
    \<and> (\<exists>t' \<ge> t. tripped_at b' = Some t' \<and> (\<forall>now \<ge> t' + hold_open_seconds cfg. check cfg now b' = Inr new_breaker))"
  using assms
proof (induction rule: breaker_run.induct)
  case (run_nil b)
  then show ?case by (auto simp: check_def new_breaker_def Let_def)
next
  case (run_snoc b es b1 e b2)
  then obtain t' where t': "t \<le> t'" "tripped_at b1 = Some t'" and es: "\<forall>u. Passed u \<notin> set es" by auto
  have ev: "event_time e = Some u \<Longrightarrow> t \<le> u \<and> u < t + hold_open_seconds cfg" for u
    using run_snoc.prems(2) by auto
  have "(\<forall>u. e \<noteq> Passed u) \<and> (\<exists>t'' \<ge> t. tripped_at b2 = Some t'')"
    using run_snoc.hyps(2)
  proof cases
    case (passed now)
    then have "\<not> is_open cfg now b1" using passed_step run_snoc.hyps(2) by blast
    with t' ev[of now] passed show ?thesis by (simp add: is_open_def)
  next
    case (failed now)
    with t' ev[of now] show ?thesis by (auto simp: record_failure_def Let_def)
  qed (use t' in \<open>auto simp: record_success_def\<close>)
  then show ?case using es by (auto simp: check_def new_breaker_def Let_def)
qed

text \<open>Failures reported since the last success.\<close>

fun is_failure :: "breaker_event \<Rightarrow> bool" where
  "is_failure (Failed t) = True"
| "is_failure (Passed t) = False"
| "is_failure (Refused t) = False"
| "is_failure Succeeded = False"

definition failures_since_success :: "breaker_event list \<Rightarrow> nat" where
  "failures_since_success es = length (filter is_failure (takeWhile (\<lambda>e. e \<noteq> Succeeded) (rev es)))"

lemma failures_since_success_snoc:
  "failures_since_success (es @ [e]) = (if e = Succeeded then 0 else failures_since_success es + (if is_failure e then 1 else 0))"
  by (simp add: failures_since_success_def)

lemma counter_below_failures:
  "breaker_run cfg b es b' \<Longrightarrow> b = new_breaker \<Longrightarrow> consecutive_failures b' \<le> failures_since_success es"
proof (induction rule: breaker_run.induct)
  case (run_nil b)
  then show ?case by (simp add: new_breaker_def)
next
  case (run_snoc b es b1 e b2)
  then have IH: "consecutive_failures b1 \<le> failures_since_success es" by simp
  from run_snoc.hyps(2) show ?case
  proof cases
    case (passed now)
    with IH check_Inr[OF passed(2)] show ?thesis by (simp add: failures_since_success_snoc split: if_splits)
  qed (use IH in \<open>auto simp: failures_since_success_snoc record_success_def record_failure_def Let_def\<close>)
qed

text \<open>
  A breaker trips only on its threshold.  In any run of a fresh breaker, an open breaker
  was tripped by a failure that completed at least the configured number of failures with no success
  between them, and no check has passed since.
\<close>

lemma breaker_trips_on_threshold_only:
  assumes "breaker_run cfg new_breaker es b" and "tripped_at b = Some t"
  shows "\<exists>pre post. es = pre @ Failed t # post \<and> failure_threshold cfg \<le> failures_since_success (pre @ [Failed t])
    \<and> (\<forall>u. Passed u \<notin> set post)"
proof -
  have "breaker_run cfg b0 es b \<Longrightarrow> b0 = new_breaker \<Longrightarrow> tripped_at b = Some t \<Longrightarrow>
      \<exists>pre post. es = pre @ Failed t # post \<and> failure_threshold cfg \<le> failures_since_success (pre @ [Failed t])
      \<and> (\<forall>u. Passed u \<notin> set post)" for b0
  proof (induction rule: breaker_run.induct)
    case (run_nil b)
    then show ?case by (simp add: new_breaker_def)
  next
    case (run_snoc b es b1 e b2)
    have keep: ?case if t1: "tripped_at b1 = Some t" and e: "\<forall>u. e \<noteq> Passed u"
    proof -
      obtain pre post where "es = pre @ Failed t # post" "failure_threshold cfg \<le> failures_since_success (pre @ [Failed t])"
        "\<forall>u. Passed u \<notin> set post"
        using run_snoc.IH run_snoc.prems(1) t1 by blast
      then show ?thesis using e by (intro exI[of _ pre] exI[of _ "post @ [e]"]) auto
    qed
    from run_snoc.hyps(2) show ?case
    proof cases
      case (passed now)
      with check_Inr[OF passed(2)] run_snoc.prems(2) show ?thesis by simp
    next
      case (failed now)
      show ?thesis
      proof (cases "failure_threshold cfg \<le> consecutive_failures b1 + 1")
        case True
        with failed run_snoc.prems(2) have "now = t" by (simp add: record_failure_def Let_def)
        moreover have "consecutive_failures b1 + 1 \<le> failures_since_success (es @ [Failed now])"
          using counter_below_failures[OF run_snoc.hyps(1) run_snoc.prems(1)]
          by (simp add: failures_since_success_snoc)
        ultimately show ?thesis using True failed by (intro exI[of _ es] exI[of _ "[]"]) simp
      next
        case False
        with failed run_snoc.prems(2) show ?thesis by (intro keep) (simp_all add: record_failure_def Let_def)
      qed
    qed (use run_snoc.prems(2) keep in \<open>simp_all add: record_success_def\<close>)
  qed
  with assms show ?thesis by blast
qed

text \<open>
  The Redis limiter does not enforce a rate.  A caller over the limit sleeps one fixed
  slot of window over rate and then goes on without asking again, so while Redis answers, every one of any number of
  callers is let go within one slot of its arrival.
\<close>

lemma redis_limiter_only_delays:
  assumes "\<forall>s k now. redis_incr R s k now \<noteq> None" and "\<forall>s k w now. redis_expire R s k w now \<noteq> None"
    and "redis_acquire_all R nows l s = (gs, l', s')"
  shows "length gs = length nows \<and> l' = l
    \<and> (\<forall>i < length nows. gs ! i \<le> nows ! i + of_nat (rl_window l) / of_nat (rl_rate l))"
  using assms(3)
proof (induction nows arbitrary: l s gs)
  case Nil
  then show ?case by simp
next
  case (Cons now nows)
  obtain g l1 s1 where a: "redis_acquire R now l s = (g, l1, s1)" by (metis prod_cases3)
  obtain gs1 where r: "redis_acquire_all R nows l1 s1 = (gs1, l', s')" and gs: "gs = g # gs1"
    using Cons.prems a by (auto split: prod.splits)
  obtain c s2 where i: "redis_incr R s (rl_key l) now = Some (c, s2)" using assms(1) by fastforce
  obtain s3 where "redis_expire R s2 (rl_key l) (rl_window l) now = Some s3" using assms(2) by fastforce
  with i a have "l1 = l \<and> g \<le> now + of_nat (rl_window l) / of_nat (rl_rate l)"
    by (auto simp: redis_acquire_def split: if_splits)
  with Cons.IH[OF r] gs show ?case by (auto simp: less_Suc_eq_0_disj)
qed

subsection \<open>Instances\<close>

lemma token_bucket_rate_bound_witness:
  "fst (acquire_all \<lparr>rate = 8, burst = 2\<rparr> [0, 0, 0] \<lparr>tokens = 2, last_refill = 0\<rparr>) = [0, 0, 1 / 8]
   \<and> of_nat (2 - 0 + 1) \<le> of_nat 2 + (1 / 8 - 0) * (8 :: rat)"
proof -
  have n: "new_bucket 8 2 0 = Inr (\<lparr>rate = 8, burst = 2\<rparr>, \<lparr>tokens = 2, last_refill = 0\<rparr>)"
    by (simp add: new_bucket_def)
  have a: "acquire_all \<lparr>rate = 8, burst = 2\<rparr> [0, 0, 0] \<lparr>tokens = 2, last_refill = 0\<rparr>
      = ([0, 0, 1 / 8], \<lparr>tokens = 0, last_refill = 1 / 8\<rparr>)"
    by (simp add: acquire_def Let_def)
  from token_bucket_rate_bound[OF n a, of 0 2] a show ?thesis by simp
qed

definition sample_breaker :: breaker_config where
  "sample_breaker = \<lparr>failure_threshold = 2, hold_open_seconds = 10\<rparr>"

lemma sample_trip: "breaker_run sample_breaker new_breaker [Failed 0, Failed 1] \<lparr>consecutive_failures = 2, tripped_at = Some 1\<rparr>"
proof -
  have "breaker_run sample_breaker new_breaker ([] @ [Failed 0]) \<lparr>consecutive_failures = 1, tripped_at = None\<rparr>"
    by (rule run_snoc[OF run_nil]) (use failed[of sample_breaker new_breaker 0] in \<open>simp add: record_failure_def sample_breaker_def new_breaker_def\<close>)
  from run_snoc[OF this, of "Failed 1"] failed[of sample_breaker "\<lparr>consecutive_failures = 1, tripped_at = None\<rparr>" 1]
  show ?thesis by (simp add: record_failure_def sample_breaker_def eval_nat_numeral)
qed

lemma tripped_breaker_blocks_for_hold_witness:
  "check sample_breaker 11 \<lparr>consecutive_failures = 2, tripped_at = Some 1\<rparr> = Inr new_breaker"
  using tripped_breaker_blocks_for_hold[OF run_nil, of "\<lparr>consecutive_failures = 2, tripped_at = Some 1\<rparr>" 1 sample_breaker]
  by (simp add: sample_breaker_def)

lemma breaker_trips_on_threshold_only_witness:
  "\<exists>pre post. [Failed 0, Failed 1] = pre @ Failed 1 # post \<and> 2 \<le> failures_since_success (pre @ [Failed 1])"
  using breaker_trips_on_threshold_only[OF sample_trip, of 1] by (auto simp: sample_breaker_def)

text \<open>A counter that never expires.\<close>

definition counting_redis :: "nat redis_counter" where
  "counting_redis = \<lparr>redis_incr = (\<lambda>s k now. Some (Suc s, Suc s)), redis_expire = (\<lambda>s k w now. Some s)\<rparr>"

lemma redis_limiter_only_delays_witness:
  "\<exists>gs l' s'. redis_acquire_all counting_redis (replicate 100 0)
       \<lparr>rl_key = ''k'', rl_rate = 8, rl_window = 1, rl_fallback_config = \<lparr>rate = 8, burst = 8\<rparr>,
        rl_fallback = \<lparr>tokens = 8, last_refill = 0\<rparr>\<rparr> 0 = (gs, l', s')
     \<and> length gs = 100 \<and> (\<forall>i < 100. gs ! i \<le> 1 / 8)"
proof -
  let ?l = "\<lparr>rl_key = ''k'', rl_rate = 8, rl_window = 1, rl_fallback_config = \<lparr>rate = 8, burst = 8\<rparr>,
        rl_fallback = \<lparr>tokens = 8, last_refill = 0\<rparr>\<rparr>"
  obtain gs l' s' where run: "redis_acquire_all counting_redis (replicate 100 0) ?l 0 = (gs, l', s')"
    by (metis prod_cases3)
  from redis_limiter_only_delays[OF _ _ run] run show ?thesis
    by (simp add: counting_redis_def del: redis_acquire_all.simps)
qed

end
