(* ===== verification/SlidingWindow.thy ===== *)
theory SlidingWindow
  imports Prelude "HOL-Library.DAList"
begin

text \<open>
  \<^verbatim>\<open>apps/api/middleware/rate_limit.py\<close>: the Lua sliding-window script and the middleware that
  runs it.  The Redis server is the record of the sorted-set commands the script sends, one key at
  a time, on an abstract state; what the code relies on is the locale \<open>sorted_set\<close>,
  stated over the contents \<open>member \<rightharpoonup> score\<close> of the key.  Times are milliseconds.
\<close>

subsection \<open>The script\<close>

record 's zset_ops =
  zremrangebyscore :: "'s \<Rightarrow> int \<Rightarrow> int \<Rightarrow> 's"
  zcard :: "'s \<Rightarrow> nat"
  zrange_first :: "'s \<Rightarrow> (string \<times> int) option"
  zadd :: "'s \<Rightarrow> int \<Rightarrow> string \<Rightarrow> 's"
  pexpire :: "'s \<Rightarrow> int \<Rightarrow> 's"

definition sliding_window_lua :: "'s zset_ops \<Rightarrow> int \<Rightarrow> int \<Rightarrow> int \<Rightarrow> string \<Rightarrow> 's \<Rightarrow> (int \<times> int) \<times> 's" where
  "sliding_window_lua R now_ms window_ms limit member s =
     (let s1 = zremrangebyscore R s 0 (now_ms - window_ms);
          count = int (zcard R s1);
          reset_ms = (case zrange_first R s1 of None \<Rightarrow> now_ms + window_ms | Some (m, score) \<Rightarrow> score + window_ms)
      in if limit \<le> count then ((-1, reset_ms), s1)
         else ((limit - count - 1, reset_ms), pexpire R (zadd R s1 now_ms member) (window_ms + 1000)))"

definition window_ms :: int where "window_ms = 60000"

subsection \<open>The middleware\<close>

definition SKIP_EXACT :: "string set" where
  "SKIP_EXACT = {''/health'', ''/health/ready'', ''/health/detailed''}"

definition SKIP_PREFIXES :: "string list" where
  "SKIP_PREFIXES = [''/api/v1/docs'', ''/api/v1/redoc'', ''/api/v1/openapi.json'']"

definition startswith :: "string \<Rightarrow> string \<Rightarrow> bool" where
  "startswith s p = (take (length p) s = p)"

definition should_skip :: "string \<Rightarrow> bool" where
  "should_skip path = (if path \<in> SKIP_EXACT then True else list_ex (startswith path) SKIP_PREFIXES)"

record request =
  path :: string
  x_forwarded_for :: "string option"
  client_host :: "string option"
  auth_user_id :: "string option"
  request_id :: string

definition extract_ip :: "request \<Rightarrow> string option" where
  "extract_ip rq =
     (case x_forwarded_for rq of
        Some fwd \<Rightarrow> if fwd \<noteq> [] then Some (str_strip (takeWhile (\<lambda>c. c \<noteq> CHR '','') fwd)) else client_host rq
      | None \<Rightarrow> client_host rq)"

record limits =
  rate_limit_unauthenticated :: int
  rate_limit_free_tier :: int

definition resolve_limit :: "string option \<Rightarrow> limits \<Rightarrow> int \<times> string" where
  "resolve_limit auth cfg =
     (case auth of
        None \<Rightarrow> (rate_limit_unauthenticated cfg, ''anon'')
      | Some u \<Rightarrow> (rate_limit_free_tier cfg, ''auth''))"

definition limit_key :: "request \<Rightarrow> string" where
  "limit_key rq =
     (case auth_user_id rq of
        Some u \<Rightarrow> ''ratelimit:user:'' @ u
      | None \<Rightarrow> ''ratelimit:ip:'' @
          (case extract_ip rq of Some ip \<Rightarrow> if ip \<noteq> [] then ip else ''unknown'' | None \<Rightarrow> ''unknown''))"

text \<open>
  A response: the next layer's, with the rate limit headers when the check ran, or a 429
  that never reached it.  \<open>int(reset_ms / 1000)\<close> truncates a non-negative quotient.
\<close>

record rate_headers =
  header_limit :: int
  header_remaining :: int
  header_reset :: int

datatype response =
    Forwarded "rate_headers option"
  | TooManyRequests (too_limit: int) (too_reset_at: int) (too_retry_after: int) (too_request_id: string)

definition build_429_response :: "int \<Rightarrow> int \<Rightarrow> int \<Rightarrow> string \<Rightarrow> response" where
  "build_429_response now_ms limit reset_ms rid =
     TooManyRequests limit (reset_ms div 1000)
       (max 1 (if now_ms \<le> reset_ms then (reset_ms - now_ms) div 1000 else - ((now_ms - reset_ms) div 1000))) rid"

text \<open>
  The Redis client: absent, or a call of the script on the state of the key, which may raise.
  \<open>fault\<close> says whether this call raises.
\<close>

definition rate_check :: "'s zset_ops \<Rightarrow> bool \<Rightarrow> int \<Rightarrow> string \<Rightarrow> string \<Rightarrow> int \<Rightarrow> (string \<Rightarrow> 's)
    \<Rightarrow> ((int \<times> int) \<times> (string \<Rightarrow> 's)) option" where
  "rate_check R fault now_ms member key limit db =
     (if fault then None
      else case sliding_window_lua R now_ms window_ms limit member (db key) of
             (r, s) \<Rightarrow> Some (r, db(key := s)))"

definition dispatch :: "'s zset_ops option \<Rightarrow> bool \<Rightarrow> limits \<Rightarrow> int \<Rightarrow> string \<Rightarrow> request \<Rightarrow> (string \<Rightarrow> 's)
    \<Rightarrow> response \<times> (string \<Rightarrow> 's)" where
  "dispatch redis fault cfg now_ms member rq db =
     (if should_skip (path rq) then (Forwarded None, db)
      else
        case resolve_limit (auth_user_id rq) cfg of (limit, tier) \<Rightarrow>
        case redis of
          None \<Rightarrow> (Forwarded None, db)
        | Some R \<Rightarrow>
            (case rate_check R fault now_ms member (limit_key rq) limit db of
               None \<Rightarrow> (Forwarded None, db)
             | Some ((remaining, reset_ms), db1) \<Rightarrow>
                 if remaining < 0 then (build_429_response now_ms limit reset_ms (request_id rq), db1)
                 else (Forwarded (Some \<lparr>header_limit = limit, header_remaining = remaining,
                         header_reset = reset_ms div 1000\<rparr>), db1)))"

subsection \<open>What the sorted set promises\<close>

locale sorted_set =
  fixes R :: "'s zset_ops" and contents :: "'s \<Rightarrow> string \<rightharpoonup> int"
  assumes finite_contents: "finite (dom (contents s))"
    and prune: "contents (zremrangebyscore R s lo hi)
      = (\<lambda>m. case contents s m of Some x \<Rightarrow> if lo \<le> x \<and> x \<le> hi then None else Some x | None \<Rightarrow> None)"
    and card: "zcard R s = card (dom (contents s))"
    and first_None: "zrange_first R s = None \<longleftrightarrow> contents s = Map.empty"
    and first_Some: "zrange_first R s = Some (m, x) \<Longrightarrow> contents s m = Some x \<and> (\<forall>y \<in> ran (contents s). x \<le> y)"
    and add: "contents (zadd R s x m) = (contents s)(m \<mapsto> x)"
    and expire: "contents (pexpire R s t) = contents s"
begin

text \<open>The members a script at \<open>now\<close> still counts.\<close>

definition live :: "int \<Rightarrow> int \<Rightarrow> 's \<Rightarrow> string set" where
  "live now w s = {m. \<exists>x. contents s m = Some x \<and> \<not> (0 \<le> x \<and> x \<le> now - w)}"

lemma live_finite: "finite (live now w s)"
  by (rule finite_subset[OF _ finite_contents[of s]]) (auto simp: live_def)

lemma pruned_dom: "dom (contents (zremrangebyscore R s 0 (now - w))) = live now w s"
  by (auto simp: prune live_def split: option.splits if_splits)

lemma script_blocked_iff:
  "fst (fst (sliding_window_lua R now w limit m s)) = -1 \<longleftrightarrow> limit \<le> int (card (live now w s))"
  by (simp add: sliding_window_lua_def Let_def card pruned_dom)

lemma script_remaining:
  "fst (fst (sliding_window_lua R now w limit m s))
     = (if limit \<le> int (card (live now w s)) then -1 else limit - int (card (live now w s)) - 1)"
  by (simp add: sliding_window_lua_def Let_def card pruned_dom)

lemma script_contents:
  "contents (snd (sliding_window_lua R now w limit m s))
     = (let c = (\<lambda>m. case contents s m of Some x \<Rightarrow> if 0 \<le> x \<and> x \<le> now - w then None else Some x | None \<Rightarrow> None)
        in if limit \<le> int (card (live now w s)) then c else c(m \<mapsto> now))"
  by (simp add: sliding_window_lua_def Let_def card pruned_dom expire add) (simp add: prune)

lemma script_reset:
  assumes "live now w s \<noteq> {}"
  shows "\<exists>m x. contents s m = Some x \<and> m \<in> live now w s \<and> snd (fst (sliding_window_lua R now w limit m' s)) = x + w
     \<and> (\<forall>n \<in> live now w s. \<forall>y. contents s n = Some y \<longrightarrow> x \<le> y)"
proof -
  let ?s = "zremrangebyscore R s 0 (now - w)"
  have "dom (contents ?s) \<noteq> {}" using assms pruned_dom[of s now w] by simp
  then have "contents ?s \<noteq> Map.empty" by auto
  then obtain m x where f: "zrange_first R ?s = Some (m, x)"
    using first_None[of ?s] by fastforce
  with first_Some[OF f] have mx: "contents ?s m = Some x" "\<forall>y \<in> ran (contents ?s). x \<le> y" by auto
  have "x \<le> y" if "n \<in> live now w s" "contents s n = Some y" for n y
  proof -
    have "contents ?s n = Some y" using that by (auto simp: prune live_def)
    with mx(2) show ?thesis by (auto simp: ran_def)
  qed
  moreover have "contents s m = Some x" using mx(1) by (auto simp: prune split: option.splits if_splits)
  moreover have "m \<in> live now w s" using mx(1) pruned_dom by blast
  ultimately show ?thesis using f by (auto simp: sliding_window_lua_def Let_def)
qed

end

subsection \<open>The log the script keeps\<close>

text \<open>
  The specification of the script: a log of admitted requests, admission when fewer than
  \<open>limit\<close> of them lie in the window that ends now.
\<close>

definition in_window :: "int \<Rightarrow> int \<Rightarrow> int \<times> string \<Rightarrow> bool" where
  "in_window now w e \<longleftrightarrow> now - w < fst e"

definition spec_admits :: "int \<Rightarrow> int \<Rightarrow> int \<Rightarrow> (int \<times> string) list \<Rightarrow> bool" where
  "spec_admits now w limit lg \<longleftrightarrow> int (length (filter (in_window now w) lg)) < limit"

definition spec_step :: "int \<Rightarrow> int \<Rightarrow> int \<times> string \<Rightarrow> (int \<times> string) list \<Rightarrow> (int \<times> string) list" where
  "spec_step w limit e lg = (if spec_admits (fst e) w limit lg then e # lg else lg)"

definition represents :: "('s \<Rightarrow> string \<rightharpoonup> int) \<Rightarrow> int \<Rightarrow> int \<Rightarrow> (int \<times> string) list \<Rightarrow> 's \<Rightarrow> bool" where
  "represents contents w t lg s \<longleftrightarrow>
     distinct (map snd lg) \<and> (\<forall>e \<in> set lg. 0 \<le> fst e \<and> fst e \<le> t)
     \<and> (\<forall>m x. contents s m = Some x \<longrightarrow> (x, m) \<in> set lg)
     \<and> (\<forall>e \<in> set lg. in_window t w e \<longrightarrow> contents s (snd e) = Some (fst e))"

fun run_script :: "'s zset_ops \<Rightarrow> int \<Rightarrow> int \<Rightarrow> (int \<times> string) list \<Rightarrow> 's \<Rightarrow> bool list \<times> 's" where
  "run_script R w limit [] s = ([], s)"
| "run_script R w limit ((now, m) # calls) s =
     (case sliding_window_lua R now w limit m s of ((remaining, _), s1) \<Rightarrow>
        case run_script R w limit calls s1 of (fs, s2) \<Rightarrow> ((0 \<le> remaining) # fs, s2))"

lemma in_window_mono: "t \<le> now \<Longrightarrow> in_window now w e \<Longrightarrow> in_window t w e"
  by (simp add: in_window_def)

context sorted_set
begin

lemma live_card:
  assumes rep: "represents contents w t lg s" and now: "t \<le> now"
  shows "card (live now w s) = length (filter (in_window now w) lg)"
proof -
  have "live now w s = snd ` set (filter (in_window now w) lg)"
  proof (intro set_eqI iffI)
    fix m assume "m \<in> live now w s"
    then obtain x where "contents s m = Some x" "\<not> (0 \<le> x \<and> x \<le> now - w)" by (auto simp: live_def)
    moreover from this rep have "(x, m) \<in> set lg" by (simp add: represents_def)
    moreover from this rep have "0 \<le> x" by (fastforce simp: represents_def)
    ultimately show "m \<in> snd ` set (filter (in_window now w) lg)" by (force simp: in_window_def)
  next
    fix m assume "m \<in> snd ` set (filter (in_window now w) lg)"
    then obtain x where "(x, m) \<in> set lg" "in_window now w (x, m)" by auto
    moreover from this have "in_window t w (x, m)" using in_window_mono now by blast
    ultimately have "contents s m = Some x" "now - w < x" using rep by (auto simp: represents_def in_window_def)
    then show "m \<in> live now w s" by (auto simp: live_def)
  qed
  moreover have "distinct (map snd (filter (in_window now w) lg))"
    using rep by (auto simp: represents_def intro: distinct_map_filter)
  ultimately show ?thesis by (metis distinct_card length_map set_map)
qed

lemma step_refines:
  assumes rep: "represents contents w t lg s" and now: "t \<le> now" "0 \<le> now" and fresh: "m \<notin> snd ` set lg"
    and step: "sliding_window_lua R now w limit m s = ((remaining, reset_ms), s')"
  shows "(0 \<le> remaining \<longleftrightarrow> spec_admits now w limit lg) \<and> represents contents w now (spec_step w limit (now, m) lg) s'"
proof -
  have c: "card (live now w s) = length (filter (in_window now w) lg)" by (rule live_card[OF rep now(1)])
  have adm: "0 \<le> remaining \<longleftrightarrow> spec_admits now w limit lg"
    using script_remaining[of now w limit m s] step by (auto simp: c spec_admits_def split: if_splits)
  let ?p = "\<lambda>m. case contents s m of Some x \<Rightarrow> if 0 \<le> x \<and> x \<le> now - w then None else Some x | None \<Rightarrow> None"
  have p: "?p m = Some x \<longleftrightarrow> contents s m = Some x \<and> \<not> (0 \<le> x \<and> x \<le> now - w)" for m x
    by (auto split: option.split)
  have s': "contents s' = (if spec_admits now w limit lg then ?p(m \<mapsto> now) else ?p)"
    using script_contents[of now w limit m s] step by (auto simp: c spec_admits_def Let_def)
  have old: "\<forall>m x. ?p m = Some x \<longrightarrow> (x, m) \<in> set lg"
    "\<forall>e \<in> set lg. in_window now w e \<longrightarrow> ?p (snd e) = Some (fst e)"
    using rep in_window_mono[OF now(1)] unfolding represents_def p by (auto simp: in_window_def)
  have "represents contents w now (spec_step w limit (now, m) lg) s'"
  proof (cases "spec_admits now w limit lg")
    case True
    have "snd e \<noteq> m" if "e \<in> set lg" for e using fresh that by auto
    with True s' old rep fresh now show ?thesis
      by (auto simp: represents_def spec_step_def)
  next
    case False
    with s' old rep now show ?thesis by (auto simp: represents_def spec_step_def)
  qed
  with adm show ?thesis by blast
qed

lemma run_admits:
  assumes "represents contents w t lg s" and "sorted (t # map fst calls)" and "0 \<le> t"
    and "distinct (map snd calls)" and "snd ` set calls \<inter> snd ` set lg = {}"
    and "run_script R w limit calls s = (fs, s')" and "j < length calls"
  shows "length fs = length calls \<and>
    (fs ! j \<longleftrightarrow> int (length (filter (in_window (fst (calls ! j)) w) lg)
       + length (filter (\<lambda>(f, e). f \<and> in_window (fst (calls ! j)) w e) (take j (zip fs calls)))) < limit)"
  using assms
proof (induction calls arbitrary: t lg s fs j)
  case Nil
  then show ?case by simp
next
  case (Cons c calls)
  obtain now m where c: "c = (now, m)" by fastforce
  obtain remaining rst s1 where st: "sliding_window_lua R now w limit m s = ((remaining, rst), s1)"
    by (metis prod.collapse)
  obtain fs1 where r: "run_script R w limit calls s1 = (fs1, s')" and fs: "fs = (0 \<le> remaining) # fs1"
    using Cons.prems(6) st by (auto simp: c split: prod.splits)
  have now: "t \<le> now" "0 \<le> now" "sorted (now # map fst calls)" using Cons.prems(2,3) by (auto simp: c)
  have "m \<notin> snd ` set lg" using Cons.prems(5) by (auto simp: c)
  from step_refines[OF Cons.prems(1) now(1,2) this st]
  have adm: "0 \<le> remaining \<longleftrightarrow> spec_admits now w limit lg"
    and rep: "represents contents w now (spec_step w limit (now, m) lg) s1" by auto
  have len: "length fs1 = length calls"
  proof (cases calls)
    case Nil
    with r show ?thesis by simp
  next
    case (Cons d ds)
    with Cons.IH[OF rep now(3,2) _ _ r, of 0] Cons.prems(4,5) show ?thesis
      by (auto simp: c spec_step_def split: if_splits)
  qed
  show ?case
  proof (cases j)
    case 0
    with fs adm len show ?thesis by (simp add: c spec_admits_def)
  next
    case (Suc k)
    with Cons.prems(7) have k: "k < length calls" by simp
    have "distinct (map snd calls)" "snd ` set calls \<inter> snd ` set (spec_step w limit (now, m) lg) = {}"
      using Cons.prems(4,5) by (auto simp: c spec_step_def)
    from Cons.IH[OF rep now(3,2) this r k] show ?thesis
      using fs adm len Suc k by (auto simp: c spec_step_def add.assoc split: if_splits)
  qed
qed

end

subsection \<open>A sorted set in memory\<close>

text \<open>One key of the server as an association list without repeated members.\<close>

definition first_entry :: "(string \<times> int) list \<Rightarrow> (string \<times> int) option" where
  "first_entry es =
     (case es of [] \<Rightarrow> None | e # es \<Rightarrow> Some (foldl (\<lambda>b x. if snd x < snd b then x else b) e es))"

definition memory_zset :: "(string, int) alist zset_ops" where
  "memory_zset = \<lparr>zremrangebyscore = (\<lambda>s lo hi. DAList.filter (\<lambda>(m, x). \<not> (lo \<le> x \<and> x \<le> hi)) s),
     zcard = (\<lambda>s. length (DAList.impl_of s)), zrange_first = (\<lambda>s. first_entry (DAList.impl_of s)),
     zadd = (\<lambda>s x m. DAList.update m x s), pexpire = (\<lambda>s t. s)\<rparr>"

lemma foldl_min:
  "foldl (\<lambda>b x. if snd x < snd b then x else b) e es \<in> set (e # es)
   \<and> (\<forall>y \<in> set (e # es). snd (foldl (\<lambda>b x. if snd x < snd b then x else b) e es) \<le> (snd y :: int))"
proof (induction es arbitrary: e)
  case Nil
  then show ?case by simp
next
  case (Cons x es)
  show ?case using Cons[of "if snd x < snd e then x else e"] by (auto split: if_splits)
qed

lemma first_entry_Some:
  "first_entry es = Some (m, x) \<Longrightarrow> (m, x) \<in> set es \<and> (\<forall>y \<in> set es. x \<le> snd y)"
  using foldl_min[of "hd es" "tl es"] by (cases es) (auto simp: first_entry_def)

lemma map_of_filter_value:
  "distinct (map fst es) \<Longrightarrow> map_of (filter (\<lambda>(m, x). P x) es) m
     = (case map_of es m of Some x \<Rightarrow> if P x then Some x else None | None \<Rightarrow> None)"
  by (induction es) (auto simp: map_of_eq_None_iff image_iff split: option.split)

interpretation memory: sorted_set memory_zset DAList.lookup
proof
  fix s :: "(string, int) alist" and lo hi t :: int and m :: string and x :: int
  have d: "distinct (map fst (DAList.impl_of s))" by (rule impl_of_distinct)
  show "finite (dom (DAList.lookup s))" by (simp add: DAList.lookup_def finite_dom_map_of)
  show "DAList.lookup (zremrangebyscore memory_zset s lo hi)
      = (\<lambda>m. case DAList.lookup s m of Some x \<Rightarrow> if lo \<le> x \<and> x \<le> hi then None else Some x | None \<Rightarrow> None)"
    using map_of_filter_value[OF d, of "\<lambda>x. \<not> (lo \<le> x \<and> x \<le> hi)"]
    by (auto simp: memory_zset_def DAList.lookup_def DAList.filter.rep_eq fun_eq_iff split: option.split)
  show "zcard memory_zset s = card (dom (DAList.lookup s))"
    using d distinct_card[OF d] by (simp add: memory_zset_def DAList.lookup_def dom_map_of_conv_image_fst)
  show "zrange_first memory_zset s = None \<longleftrightarrow> DAList.lookup s = Map.empty"
    by (auto simp: memory_zset_def DAList.lookup_def first_entry_def split: list.split)
  show "zrange_first memory_zset s = Some (m, x) \<Longrightarrow>
      DAList.lookup s m = Some x \<and> (\<forall>y \<in> ran (DAList.lookup s). x \<le> y)"
    using d by (auto simp: memory_zset_def DAList.lookup_def ran_distinct dest!: first_entry_Some)
  show "DAList.lookup (zadd memory_zset s x m) = (DAList.lookup s)(m \<mapsto> x)"
    by (simp add: memory_zset_def DAList.lookup_def DAList.update.rep_eq update_conv')
  show "DAList.lookup (pexpire memory_zset s t) = DAList.lookup s" by (simp add: memory_zset_def)
qed

subsection \<open>Properties\<close>

text \<open>
  C11: the sliding window is exact.  Over any sequence of calls on one key with a clock that does not
  go back and unique members, a call is admitted exactly when fewer than the limit of the
  calls admitted before it lie inside the window that ends at its own time; so no
  window ever holds more than the limit, wherever it starts.
\<close>

lemma sliding_window_admits_at_most_limit:
  assumes "sorted_set R contents" and "contents s = Map.empty" and "sorted (0 # map fst calls)"
    and "distinct (map snd calls)" and "run_script R w limit calls s = (fs, s')" and "j < length calls"
  shows "(fs ! j \<longleftrightarrow>
      int (length (filter (\<lambda>(f, e). f \<and> in_window (fst (calls ! j)) w e) (take j (zip fs calls)))) < limit)
    \<and> (fs ! j \<longrightarrow> int (length (filter (\<lambda>(f, e). f \<and> in_window (fst (calls ! j)) w e) (take (Suc j) (zip fs calls)))) \<le> limit)"
proof -
  have rep: "represents contents w 0 [] s" using assms(2) by (simp add: represents_def)
  have len: "length fs = length calls"
    and adm: "fs ! j \<longleftrightarrow> int (length (filter (\<lambda>(f, e). f \<and> in_window (fst (calls ! j)) w e) (take j (zip fs calls)))) < limit"
    using sorted_set.run_admits[OF assms(1) rep assms(3) order_refl assms(4) _ assms(5,6)] by simp_all
  have "length (filter P (take (Suc j) (zip fs calls))) \<le> length (filter P (take j (zip fs calls))) + 1" for P
    using assms(6) len by (simp add: take_Suc_conv_app_nth)
  then have "int (length (filter P (take (Suc j) (zip fs calls)))) \<le> int (length (filter P (take j (zip fs calls)))) + 1" for P
    by (metis of_nat_1 of_nat_add of_nat_le_iff)
  then show ?thesis using adm by (meson order_trans zless_imp_add1_zle)
qed

text \<open>
  The middleware fails open and stops only the over-limit.  A request is answered 429,
  without reaching the application, exactly when its path is not exempt, Redis answers, and the window of its own
  key already holds the limit of its tier; the state of every other key is untouched, and when Redis is absent or
  raises the request goes through with no state changed.
\<close>

lemma dispatch_blocks_only_over_limit:
  assumes "sorted_set R contents" and "0 \<le> fst (resolve_limit (auth_user_id rq) cfg)"
    and "dispatch (Some R) fault cfg now m rq db = (resp, db')"
  shows "((\<exists>l a b c. resp = TooManyRequests l a b c) \<longleftrightarrow>
        \<not> should_skip (path rq) \<and> \<not> fault
        \<and> fst (resolve_limit (auth_user_id rq) cfg) \<le> int (card (sorted_set.live contents now window_ms (db (limit_key rq)))))
    \<and> (\<forall>k. k \<noteq> limit_key rq \<longrightarrow> db' k = db k)
    \<and> (fault \<or> should_skip (path rq) \<longrightarrow> resp = Forwarded None \<and> db' = db)
    \<and> dispatch None fault cfg now m rq db = (Forwarded None, db)"
proof -
  obtain limit tier where l: "resolve_limit (auth_user_id rq) cfg = (limit, tier)" by fastforce
  obtain remaining rst s1 where run: "sliding_window_lua R now window_ms limit m (db (limit_key rq)) = ((remaining, rst), s1)"
    by (metis prod.collapse)
  have "remaining < 0 \<longleftrightarrow> limit \<le> int (card (sorted_set.live contents now window_ms (db (limit_key rq))))"
    using sorted_set.script_remaining[OF assms(1), of now window_ms limit m "db (limit_key rq)"] run
    by (auto split: if_splits)
  then show ?thesis
    using assms(3) l run by (auto simp: dispatch_def rate_check_def build_429_response_def split: if_splits)
qed

text \<open>
  Limits are not shared: two authenticated users have the same key only when they are the
  same user, and no authenticated user shares a key with an anonymous address.
\<close>

lemma limit_keys_separate:
  "(auth_user_id a = Some u \<longrightarrow> auth_user_id b = Some v \<longrightarrow> limit_key a = limit_key b \<longrightarrow> u = v)
   \<and> (auth_user_id a = Some u \<longrightarrow> auth_user_id b = None \<longrightarrow> limit_key a \<noteq> limit_key b)"
  by (auto simp: limit_key_def)

subsection \<open>Instances\<close>

lemma sample_run:
  "fst (run_script memory_zset 100 2 [(10, ''a''), (20, ''b''), (30, ''c''), (115, ''d'')] DAList.empty)
     = [True, True, False, True]"
  by code_simp

lemma sliding_window_admits_at_most_limit_witness:
  "fst (run_script memory_zset 100 2 [(10, ''a''), (20, ''b''), (30, ''c''), (115, ''d'')] DAList.empty) ! 2 = False
   \<and> int (length (filter (\<lambda>(f, e). f \<and> in_window 115 100 e)
        (take 4 (zip [True, True, False, True] [(10, ''a''), (20, ''b''), (30, ''c''), (115, ''d'')])))) \<le> 2"
proof -
  let ?calls = "[(10, ''a''), (20, ''b''), (30, ''c''), (115, ''d'')] :: (int \<times> string) list"
  obtain fs s' where run: "run_script memory_zset 100 2 ?calls DAList.empty = (fs, s')" by fastforce
  have "fs = [True, True, False, True]" using sample_run by (simp only: run fst_conv)
  moreover have "DAList.lookup DAList.empty = (Map.empty :: string \<rightharpoonup> int)" by (simp add: DAList.lookup_def DAList.empty.rep_eq)
  from sliding_window_admits_at_most_limit[OF memory.sorted_set_axioms this _ _ run, of 3]
  have "fs ! 3 \<longrightarrow> int (length (filter (\<lambda>(f, e). f \<and> in_window (fst (?calls ! 3)) 100 e) (take (Suc 3) (zip fs ?calls)))) \<le> 2"
    by simp
  ultimately have "int (length (filter (\<lambda>(f, e). f \<and> in_window 115 100 e)
        (take 4 (zip [True, True, False, True] ?calls)))) \<le> 2"
    by (simp add: eval_nat_numeral)
  moreover have "fst (run_script memory_zset 100 2 ?calls DAList.empty) ! 2 = False"
    unfolding sample_run by simp
  ultimately show ?thesis by blast
qed

lemma dispatch_blocks_only_over_limit_witness:
  "\<exists>resp db'. dispatch (Some memory_zset) True \<lparr>rate_limit_unauthenticated = 20, rate_limit_free_tier = 60\<rparr> 5 ''m''
     \<lparr>path = ''/api/v1/jobs'', x_forwarded_for = None, client_host = None, auth_user_id = Some ''u'', request_id = ''r''\<rparr>
     (\<lambda>_. DAList.empty) = (resp, db') \<and> resp = Forwarded None"
proof -
  let ?rq = "\<lparr>path = ''/api/v1/jobs'', x_forwarded_for = None, client_host = None, auth_user_id = Some ''u'', request_id = ''r''\<rparr>"
  let ?cfg = "\<lparr>rate_limit_unauthenticated = 20, rate_limit_free_tier = 60\<rparr>"
  obtain resp db' where d: "dispatch (Some memory_zset) True ?cfg 5 ''m'' ?rq (\<lambda>_. DAList.empty) = (resp, db')" by fastforce
  have "0 \<le> fst (resolve_limit (auth_user_id ?rq) ?cfg)" by (simp add: resolve_limit_def)
  from dispatch_blocks_only_over_limit[OF memory.sorted_set_axioms this d] d show ?thesis by blast
qed

lemma limit_keys_separate_witness:
  "limit_key \<lparr>path = [], x_forwarded_for = None, client_host = None, auth_user_id = Some ''u'', request_id = []\<rparr>
   \<noteq> limit_key \<lparr>path = [], x_forwarded_for = Some ''u'', client_host = None, auth_user_id = None, request_id = []\<rparr>"
  using limit_keys_separate[of "\<lparr>path = [], x_forwarded_for = None, client_host = None, auth_user_id = Some ''u'', request_id = []\<rparr>"
      "''u''" "\<lparr>path = [], x_forwarded_for = Some ''u'', client_host = None, auth_user_id = None, request_id = []\<rparr>" "''u''"]
  by simp

end
