(* ===== verification/IngestionLock.thy ===== *)
theory IngestionLock
  imports Prelude
begin

text \<open>
  \<^verbatim>\<open>services/acquisition/jobs/redis_lock.py\<close>: the distributed ingestion lock, \<open>SET NX EX\<close> to
  take it and a compare-and-delete script to give it back.  Redis is the record \<open>kv_ops\<close> of the
  three commands on an abstract state; the locale \<open>kv_store\<close> says what they do to the entry
  of a key, its value and the second at which it expires.
\<close>

record 's kv_ops =
  kv_set_nx_ex :: "'s \<Rightarrow> int \<Rightarrow> string \<Rightarrow> string \<Rightarrow> int \<Rightarrow> bool \<times> 's"
  kv_get :: "'s \<Rightarrow> int \<Rightarrow> string \<Rightarrow> string option"
  kv_del :: "'s \<Rightarrow> string \<Rightarrow> 's"

definition lock_ttl_seconds :: int where "lock_ttl_seconds = 600"

record ingestion_lock =
  lock_key :: string
  lock_token :: string
  lock_ttl :: int

datatype lock_error = IngestionLockError string

definition lock_key_for :: "string \<Rightarrow> string \<Rightarrow> string" where
  "lock_key_for cid fiscal_year = ''lock:ingestion:'' @ cid @ '':'' @ fiscal_year"

definition try_acquire :: "'s kv_ops \<Rightarrow> int \<Rightarrow> ingestion_lock \<Rightarrow> 's \<Rightarrow> bool \<times> 's" where
  "try_acquire R now l s = kv_set_nx_ex R s now (lock_key l) (lock_token l) (lock_ttl l)"

definition release :: "'s kv_ops \<Rightarrow> int \<Rightarrow> ingestion_lock \<Rightarrow> 's \<Rightarrow> bool \<times> 's" where
  "release R now l s =
     (if kv_get R s now (lock_key l) = Some (lock_token l) then (True, kv_del R s (lock_key l)) else (False, s))"

definition aenter :: "'s kv_ops \<Rightarrow> int \<Rightarrow> ingestion_lock \<Rightarrow> 's \<Rightarrow> (lock_error + unit) \<times> 's" where
  "aenter R now l s =
     (case try_acquire R now l s of (acquired, s1) \<Rightarrow>
        if acquired then (Inr (), s1) else (Inl (IngestionLockError (lock_key l)), s1))"

definition aexit :: "'s kv_ops \<Rightarrow> int \<Rightarrow> ingestion_lock \<Rightarrow> 's \<Rightarrow> 's" where
  "aexit R now l s = snd (release R now l s)"

subsection \<open>What the store promises\<close>

definition live_entry :: "int \<Rightarrow> (string \<times> int) option \<Rightarrow> string option" where
  "live_entry now e = (case e of Some (v, expiry) \<Rightarrow> if now < expiry then Some v else None | None \<Rightarrow> None)"

locale kv_store =
  fixes R :: "'s kv_ops" and entry :: "'s \<Rightarrow> string \<Rightarrow> (string \<times> int) option"
  assumes get: "kv_get R s now k = live_entry now (entry s k)"
    and set_free: "live_entry now (entry s k) = None \<Longrightarrow>
      \<exists>s'. kv_set_nx_ex R s now k v ttl = (True, s') \<and> entry s' k = Some (v, now + ttl) \<and> (\<forall>j. j \<noteq> k \<longrightarrow> entry s' j = entry s j)"
    and set_taken: "live_entry now (entry s k) \<noteq> None \<Longrightarrow>
      \<exists>s'. kv_set_nx_ex R s now k v ttl = (False, s') \<and> entry s' = entry s"
    and del: "entry (kv_del R s k) k = None \<and> (\<forall>j. j \<noteq> k \<longrightarrow> entry (kv_del R s k) j = entry s j)"
begin

lemma acquire_cases:
  "try_acquire R now l s = (ok, s') \<Longrightarrow>
     (ok \<longleftrightarrow> live_entry now (entry s (lock_key l)) = None)
     \<and> entry s' (lock_key l) = (if ok then Some (lock_token l, now + lock_ttl l) else entry s (lock_key l))
     \<and> (\<forall>k. k \<noteq> lock_key l \<longrightarrow> entry s' k = entry s k)"
  using set_free[of now s "lock_key l" "lock_token l" "lock_ttl l"]
    set_taken[of now s "lock_key l" "lock_token l" "lock_ttl l"]
  by (cases "live_entry now (entry s (lock_key l)) = None") (auto simp: try_acquire_def)

lemma release_cases:
  "release R now l s = (ok, s') \<Longrightarrow>
     (ok \<longleftrightarrow> live_entry now (entry s (lock_key l)) = Some (lock_token l))
     \<and> entry s' (lock_key l) = (if ok then None else entry s (lock_key l))
     \<and> (\<forall>k. k \<noteq> lock_key l \<longrightarrow> entry s' k = entry s k)"
  using del[of s "lock_key l"] by (auto simp: release_def get split: if_splits)

end

subsection \<open>Workers\<close>

text \<open>
  The workers that contend for one key, each with a lock object of its own token: the store, the leases of the
  workers inside the critical section (when each lease runs out), and the clock.
  A step lets time pass, a worker enter, be refused or leave, or something happen to other keys.
\<close>

record 's lock_state =
  store :: 's
  leases :: "string \<rightharpoonup> int"
  clock :: int

inductive lock_step :: "'s kv_ops \<Rightarrow> ('s \<Rightarrow> string \<Rightarrow> (string \<times> int) option) \<Rightarrow> string \<Rightarrow> int
    \<Rightarrow> 's lock_state \<Rightarrow> 's lock_state \<Rightarrow> bool" for R entry key ttl where
  tick: "clock st \<le> t \<Longrightarrow> lock_step R entry key ttl st (st\<lparr>clock := t\<rparr>)"
| enter: "aenter R (clock st) \<lparr>lock_key = key, lock_token = tok, lock_ttl = ttl\<rparr> (store st) = (Inr (), s') \<Longrightarrow>
    leases st tok = None \<Longrightarrow>
    lock_step R entry key ttl st (st\<lparr>store := s', leases := (leases st)(tok \<mapsto> clock st + ttl)\<rparr>)"
| refused: "aenter R (clock st) \<lparr>lock_key = key, lock_token = tok, lock_ttl = ttl\<rparr> (store st) = (Inl e, s') \<Longrightarrow>
    lock_step R entry key ttl st (st\<lparr>store := s'\<rparr>)"
| leave: "leases st tok = Some x \<Longrightarrow>
    lock_step R entry key ttl st (st\<lparr>store := aexit R (clock st) \<lparr>lock_key = key, lock_token = tok, lock_ttl = ttl\<rparr> (store st),
                               leases := (leases st)(tok := None)\<rparr>)"
| elsewhere: "entry s' key = entry (store st) key \<Longrightarrow> lock_step R entry key ttl st (st\<lparr>store := s'\<rparr>)"

inductive lock_reachable :: "'s kv_ops \<Rightarrow> ('s \<Rightarrow> string \<Rightarrow> (string \<times> int) option) \<Rightarrow> string \<Rightarrow> int
    \<Rightarrow> 's lock_state \<Rightarrow> 's lock_state \<Rightarrow> bool" for R entry key ttl st0 where
  start: "lock_reachable R entry key ttl st0 st0"
| step: "lock_reachable R entry key ttl st0 st \<Longrightarrow> lock_step R entry key ttl st st' \<Longrightarrow>
    lock_reachable R entry key ttl st0 st'"

definition exclusive :: "('s \<Rightarrow> string \<Rightarrow> (string \<times> int) option) \<Rightarrow> string \<Rightarrow> 's lock_state \<Rightarrow> bool" where
  "exclusive entry key st \<longleftrightarrow>
     (\<forall>tok x. leases st tok = Some x \<longrightarrow> clock st < x \<longrightarrow> entry (store st) key = Some (tok, x))"

context kv_store
begin

lemma aenter_Inr:
  assumes "aenter R now \<lparr>lock_key = key, lock_token = tok, lock_ttl = ttl\<rparr> s = (Inr (), s')"
  shows "live_entry now (entry s key) = None \<and> entry s' key = Some (tok, now + ttl)"
  using assms acquire_cases[of now "\<lparr>lock_key = key, lock_token = tok, lock_ttl = ttl\<rparr>" s]
  by (auto simp: aenter_def split: prod.splits if_splits)

lemma aenter_Inl:
  assumes "aenter R now \<lparr>lock_key = key, lock_token = tok, lock_ttl = ttl\<rparr> s = (Inl e, s')"
  shows "live_entry now (entry s key) \<noteq> None \<and> entry s' key = entry s key"
  using assms acquire_cases[of now "\<lparr>lock_key = key, lock_token = tok, lock_ttl = ttl\<rparr>" s]
  by (auto simp: aenter_def split: prod.splits if_splits)

lemma aexit_entry:
  "entry (aexit R now \<lparr>lock_key = key, lock_token = tok, lock_ttl = ttl\<rparr> s) key
     = (if live_entry now (entry s key) = Some tok then None else entry s key)"
  using release_cases[of now "\<lparr>lock_key = key, lock_token = tok, lock_ttl = ttl\<rparr>" s]
  by (cases "release R now \<lparr>lock_key = key, lock_token = tok, lock_ttl = ttl\<rparr> s") (auto simp: aexit_def)

lemma step_exclusive:
  assumes "lock_step R entry key ttl st st'" and "exclusive entry key st"
  shows "exclusive entry key st'"
  using assms(1)
proof cases
  case (enter tok s')
  from aenter_Inr[OF enter(2)] have free: "live_entry (clock st) (entry (store st) key) = None"
    and new: "entry s' key = Some (tok, clock st + ttl)" by auto
  have "leases st t = Some x \<Longrightarrow> \<not> clock st < x" for t x
    using assms(2) free by (auto simp: exclusive_def live_entry_def)
  with enter new show ?thesis by (auto simp: exclusive_def)
next
  case (refused tok e s')
  with aenter_Inl[OF refused(2)] assms(2) show ?thesis by (auto simp: exclusive_def)
next
  case (leave tok x)
  show ?thesis unfolding exclusive_def
  proof (intro allI impI)
    fix t y assume "leases st' t = Some y" "clock st' < y"
    with leave have t: "leases st t = Some y" "clock st < y" "t \<noteq> tok" by (auto split: if_splits)
    with assms(2) have e: "entry (store st) key = Some (t, y)" by (auto simp: exclusive_def)
    with t(2,3) leave aexit_entry[of "clock st" key tok ttl "store st"]
    show "entry (store st') key = Some (t, y)" by (simp add: live_entry_def)
  qed
qed (use assms(2) in \<open>auto simp: exclusive_def\<close>)

lemma reachable_exclusive:
  "lock_reachable R entry key ttl st0 st \<Longrightarrow> leases st0 = Map.empty \<Longrightarrow> exclusive entry key st"
proof (induction rule: lock_reachable.induct)
  case start
  then show ?case by (simp add: exclusive_def)
next
  case (step st st')
  then show ?case using step_exclusive by blast
qed

end

subsection \<open>A store in memory\<close>

definition memory_kv :: "(string \<Rightarrow> (string \<times> int) option) kv_ops" where
  "memory_kv = \<lparr>kv_set_nx_ex = (\<lambda>s now k v ttl. if live_entry now (s k) = None then (True, s(k \<mapsto> (v, now + ttl))) else (False, s)),
     kv_get = (\<lambda>s now k. live_entry now (s k)), kv_del = (\<lambda>s k. s(k := None))\<rparr>"

interpretation memory: kv_store memory_kv "\<lambda>s. s"
  by unfold_locales (auto simp: memory_kv_def)

subsection \<open>Properties\<close>

text \<open>
  C12: mutual exclusion.  Whatever the interleaving of workers, expiries, crashes and other keys,
  two workers whose leases have not run out are the same worker: a lease taken after
  another expired is never released by the late owner.
\<close>

lemma ingestion_lock_mutual_exclusion:
  assumes "kv_store R entry" and "leases st0 = Map.empty" and "lock_reachable R entry key ttl st0 st"
    and "leases st a = Some x" and "clock st < x" and "leases st b = Some y" and "clock st < y"
  shows "a = b"
proof -
  have "exclusive entry key st" using kv_store.reachable_exclusive[OF assms(1,3,2)] .
  then have "entry (store st) key = Some (a, x)" "entry (store st) key = Some (b, y)"
    using assms(4-7) unfolding exclusive_def by blast+
  then show ?thesis by simp
qed

text \<open>
  The lock cannot block for ever.  A worker that enters and then crashes keeps others out for
  exactly its time to live: every attempt in that time is refused, and once it is over the next attempt on an
  otherwise untouched key succeeds.
\<close>

lemma crashed_owner_blocks_for_ttl:
  assumes "kv_store R entry" and "aenter R now l s = (Inr (), s1)" and "entry s2 (lock_key l) = entry s1 (lock_key l)"
    and "lock_key l2 = lock_key l" and "now \<le> later"
  shows "(fst (aenter R later l2 s2) = Inr ()) \<longleftrightarrow> now + lock_ttl l \<le> later"
proof -
  have "entry s1 (lock_key l) = Some (lock_token l, now + lock_ttl l)"
    using assms(2) kv_store.acquire_cases[OF assms(1), of now l s]
    by (auto simp: aenter_def split: prod.splits if_splits)
  with assms(3,4) have "live_entry later (entry s2 (lock_key l2)) = None \<longleftrightarrow> now + lock_ttl l \<le> later"
    by (auto simp: live_entry_def)
  then show ?thesis
    using kv_store.acquire_cases[OF assms(1), of later l2 s2]
    by (auto simp: aenter_def split: prod.splits if_splits)
qed

subsection \<open>Instances\<close>

definition worker :: "string \<Rightarrow> ingestion_lock" where
  "worker tok = \<lparr>lock_key = lock_key_for ''c1'' ''2023'', lock_token = tok, lock_ttl = lock_ttl_seconds\<rparr>"

lemma worker_enters:
  "aenter memory_kv 0 (worker ''a'') Map.empty = (Inr (), [lock_key_for ''c1'' ''2023'' \<mapsto> (''a'', 600)])"
  by (simp add: aenter_def try_acquire_def memory_kv_def worker_def live_entry_def lock_ttl_seconds_def)

lemma ingestion_lock_mutual_exclusion_witness:
  "\<exists>st. lock_reachable memory_kv (\<lambda>s. s) (lock_key_for ''c1'' ''2023'') 600 \<lparr>store = Map.empty, leases = Map.empty, clock = 0\<rparr> st
     \<and> leases st ''a'' = Some 600 \<and> clock st < 600 \<and> \<not> (\<exists>y. leases st ''b'' = Some y \<and> clock st < y)"
proof -
  let ?st0 = "\<lparr>store = Map.empty, leases = Map.empty, clock = 0\<rparr> :: (string \<Rightarrow> (string \<times> int) option) lock_state"
  let ?st1 = "?st0\<lparr>store := [lock_key_for ''c1'' ''2023'' \<mapsto> (''a'', 600)], leases := Map.empty(''a'' \<mapsto> 600)\<rparr>"
  have "lock_step memory_kv (\<lambda>s. s) (lock_key_for ''c1'' ''2023'') 600 ?st0 ?st1"
    using enter[of memory_kv ?st0 "lock_key_for ''c1'' ''2023''" "''a''" 600 _ "\<lambda>s. s"] worker_enters
    by (simp add: worker_def lock_ttl_seconds_def)
  then have r: "lock_reachable memory_kv (\<lambda>s. s) (lock_key_for ''c1'' ''2023'') 600 ?st0 ?st1"
    by (rule step[OF start])
  have "\<not> (\<exists>y. leases ?st1 ''b'' = Some y \<and> clock ?st1 < y)"
    using ingestion_lock_mutual_exclusion[OF memory.kv_store_axioms _ r, of "''a''" 600 "''b''"] by auto
  with r show ?thesis by (intro exI[of _ ?st1]) simp
qed

lemma crashed_owner_blocks_for_ttl_witness:
  "fst (aenter memory_kv 599 (worker ''b'') [lock_key_for ''c1'' ''2023'' \<mapsto> (''a'', 600)]) \<noteq> Inr ()
   \<and> fst (aenter memory_kv 600 (worker ''b'') [lock_key_for ''c1'' ''2023'' \<mapsto> (''a'', 600)]) = Inr ()"
  using crashed_owner_blocks_for_ttl[OF memory.kv_store_axioms worker_enters,
      of "[lock_key_for ''c1'' ''2023'' \<mapsto> (''a'', 600)]" "worker ''b''" 599]
    crashed_owner_blocks_for_ttl[OF memory.kv_store_axioms worker_enters,
      of "[lock_key_for ''c1'' ''2023'' \<mapsto> (''a'', 600)]" "worker ''b''" 600]
  by (simp add: worker_def lock_ttl_seconds_def)

end
