(* ===== verification/Acquisition.thy ===== *)
theory Acquisition
  imports Models
begin

text \<open>
  \<^verbatim>\<open>services/acquisition/jobs/service.py\<close> with the repositories and the storage service it
  drives: executing an acquisition job.  The company resolver, SEC EDGAR, the document fetcher and the
  storage backend are the record \<open>external\<close>: functions that return or raise
  (\<open>None\<close>, any exception; the text of the message is an argument of the job update).
  Database sessions succeed, except for the unique constraints.
\<close>

subsection \<open>Rows\<close>

datatype AcquisitionJobStatus = ACQ_PENDING | ACQ_RUNNING | ACQ_COMPLETED | ACQ_FAILED

fun acq_status_value :: "AcquisitionJobStatus \<Rightarrow> string" where
  "acq_status_value ACQ_PENDING = ''pending''"
| "acq_status_value ACQ_RUNNING = ''running''"
| "acq_status_value ACQ_COMPLETED = ''completed''"
| "acq_status_value ACQ_FAILED = ''failed''"

datatype FilingStatus = DISCOVERED | DOWNLOADING | DOWNLOADED | FILING_FAILED

fun filing_status_value :: "FilingStatus \<Rightarrow> string" where
  "filing_status_value DISCOVERED = ''discovered''"
| "filing_status_value DOWNLOADING = ''downloading''"
| "filing_status_value DOWNLOADED = ''downloaded''"
| "filing_status_value FILING_FAILED = ''failed''"

record acquisition_job =
  aj_id :: uuid
  aj_ticker :: string
  aj_cik :: "string option"
  aj_company_name :: "string option"
  aj_job_type :: string
  aj_status :: string
  aj_error_message :: "string option"
  aj_filings_discovered :: nat
  aj_filings_new :: nat
  aj_documents_fetched :: nat
  aj_documents_stored :: nat
  aj_started_at :: "instant option"
  aj_completed_at :: "instant option"
  aj_created_at :: instant
  aj_updated_at :: instant

definition aj_is_terminal :: "acquisition_job \<Rightarrow> bool" where
  "aj_is_terminal j = (aj_status j \<in> {''completed'', ''failed''})"

record filing =
  fl_id :: uuid
  fl_company_id :: "uuid option"
  fl_filing_type :: string
  fl_accession_number :: string
  fl_filing_date :: date
  fl_period_end_date :: "(int \<times> int \<times> int) option"
  fl_cik :: string
  fl_ticker :: "string option"
  fl_title :: "string option"
  fl_filing_url :: "string option"
  fl_document_url :: "string option"
  fl_status :: string
  fl_fiscal_year :: "int option"
  fl_fiscal_period :: "string option"
  fl_created_at :: instant
  fl_updated_at :: instant

record stored_document =
  sd_accession_number :: string
  sd_storage_type :: string
  sd_bucket_name :: "string option"
  sd_object_key :: string
  sd_content_hash :: string
  sd_content_length :: nat
  sd_mime_type :: string
  sd_stored_at :: instant

record acq_db =
  acq_jobs :: "acquisition_job list"
  filings :: "filing list"
  stored_documents :: "stored_document list"

subsection \<open>The outside world\<close>

record filing_meta =
  fm_accession_number :: string
  fm_filing_type :: string
  fm_filing_date :: date
  fm_period_end_date :: "(int \<times> int \<times> int) option"
  fm_cik :: string
  fm_ticker :: "string option"
  fm_title :: "string option"
  fm_filing_url :: "string option"
  fm_document_url :: "string option"

record fetched_document =
  fd_accession_number :: string
  fd_content :: string
  fd_content_hash :: string
  fd_mime_type :: string

record storage_result =
  sr_key :: string
  sr_bucket_name :: "string option"
  sr_storage_type :: string
  sr_content_length :: nat
  sr_content_hash :: string
  sr_mime_type :: string
  sr_stored_at :: instant

record external =
  resolve_by_ticker :: "string \<Rightarrow> string + (string \<times> string)"
  discover_filings :: "string \<Rightarrow> string + filing_meta list"
  fetch_document :: "filing_meta \<Rightarrow> fetched_document option"
  backend_store :: "string \<Rightarrow> fetched_document \<Rightarrow> storage_result option"
  object_key_for :: "string \<Rightarrow> string \<Rightarrow> string"

subsection \<open>Fiscal coordinates\<close>

definition derive_fiscal_coords :: "string \<Rightarrow> (int \<times> int \<times> int) option \<Rightarrow> int option \<times> string option" where
  "derive_fiscal_coords filing_type period_end =
     (case period_end of
        None \<Rightarrow> (None, None)
      | Some (year, month, day) \<Rightarrow>
          if filing_type \<in> {''10-K'', ''20-F'', ''6-K''} then (Some year, Some ''FY'')
          else if filing_type = ''10-Q'' then
            (Some year, Some (if month \<le> 3 then ''Q1'' else if month \<le> 6 then ''Q2''
                              else if month \<le> 9 then ''Q3'' else ''Q4''))
          else (Some year, None))"

subsection \<open>Repositories\<close>

definition exists_accession_number :: "string \<Rightarrow> filing list \<Rightarrow> bool" where
  "exists_accession_number acc fs = (0 < length (filter (\<lambda>f. fl_accession_number f = acc) fs))"

text \<open>The flush of a new filing fails on the unique accession number.\<close>

definition create_filing_record :: "(nat \<Rightarrow> uuid) \<Rightarrow> instant \<Rightarrow> filing_meta \<Rightarrow> int option \<Rightarrow> string option \<Rightarrow> string
    \<Rightarrow> filing list \<Rightarrow> (uuid \<times> filing list) option" where
  "create_filing_record gen now fm fy fp st fs =
     (if exists_accession_number (fm_accession_number fm) fs then None
      else
        let i = gen (length fs)
        in Some (i, fs @ [\<lparr>fl_id = i, fl_company_id = None, fl_filing_type = fm_filing_type fm,
             fl_accession_number = fm_accession_number fm, fl_filing_date = fm_filing_date fm,
             fl_period_end_date = fm_period_end_date fm, fl_cik = fm_cik fm, fl_ticker = fm_ticker fm,
             fl_title = fm_title fm, fl_filing_url = fm_filing_url fm, fl_document_url = fm_document_url fm,
             fl_status = st, fl_fiscal_year = fy, fl_fiscal_period = fp,
             fl_created_at = now, fl_updated_at = now\<rparr>]))"

definition set_filing_status :: "string \<times> instant \<Rightarrow> filing \<Rightarrow> filing" where
  "set_filing_status p f = (case p of (st, now) \<Rightarrow> f\<lparr>fl_status := st, fl_updated_at := now\<rparr>)"

definition update_filing_status :: "instant \<Rightarrow> uuid \<Rightarrow> FilingStatus \<Rightarrow> acq_db \<Rightarrow> acq_db" where
  "update_filing_status now i st db =
     (case get_row fl_id i (filings db) of
        None \<Rightarrow> db
      | Some f \<Rightarrow> db\<lparr>filings := put_row fl_id i (set_filing_status (filing_status_value st, now) f) (filings db)\<rparr>)"

text \<open>\<open>repo.update\<close>: the set fields are assigned; the time stamp moves only when one of them changed.\<close>

definition update_job :: "instant \<Rightarrow> uuid \<Rightarrow> (acquisition_job \<Rightarrow> acquisition_job) \<Rightarrow> acq_db \<Rightarrow> acq_db" where
  "update_job now i f db =
     (case get_row aj_id i (acq_jobs db) of
        None \<Rightarrow> db
      | Some j \<Rightarrow>
          let j1 = f j
          in if j1 = j then db
             else db\<lparr>acq_jobs := put_row aj_id i (j1\<lparr>aj_updated_at := now\<rparr>) (acq_jobs db)\<rparr>)"

definition create_job :: "uuid \<Rightarrow> instant \<Rightarrow> string \<Rightarrow> acq_db \<Rightarrow> py_error + (acquisition_job \<times> acq_db)" where
  "create_job i now ticker db =
     (if length ticker < 1 \<or> 20 < length ticker then Inl ValueError
      else
        let j = \<lparr>aj_id = i, aj_ticker = str_upper (str_strip ticker), aj_cik = None, aj_company_name = None,
                 aj_job_type = ''sec_filing_discovery'', aj_status = ''pending'', aj_error_message = None,
                 aj_filings_discovered = 0, aj_filings_new = 0, aj_documents_fetched = 0,
                 aj_documents_stored = 0, aj_started_at = None, aj_completed_at = None,
                 aj_created_at = now, aj_updated_at = now\<rparr>
        in Inr (j, db\<lparr>acq_jobs := acq_jobs db @ [j]\<rparr>))"

subsection \<open>Storing a document\<close>

definition get_by_accession_number :: "string \<Rightarrow> stored_document list \<Rightarrow> stored_document scalar" where
  "get_by_accession_number acc ds = scalar_one_or_none (filter (\<lambda>d. sd_accession_number d = acc) ds)"

definition storage_store :: "external \<Rightarrow> fetched_document \<Rightarrow> acq_db \<Rightarrow> acq_db option" where
  "storage_store ex doc db =
     (case get_by_accession_number (fd_accession_number doc) (stored_documents db) of
        ManyRows \<Rightarrow> None
      | OneRow d \<Rightarrow> Some db
      | NoRow \<Rightarrow>
          (case backend_store ex (object_key_for ex (fd_accession_number doc) (fd_mime_type doc)) doc of
             None \<Rightarrow> None
           | Some r \<Rightarrow>
               Some (db\<lparr>stored_documents := stored_documents db @
                 [\<lparr>sd_accession_number = fd_accession_number doc, sd_storage_type = sr_storage_type r,
                   sd_bucket_name = sr_bucket_name r, sd_object_key = sr_key r,
                   sd_content_hash = sr_content_hash r, sd_content_length = sr_content_length r,
                   sd_mime_type = sr_mime_type r, sd_stored_at = sr_stored_at r\<rparr>]\<rparr>)))"

subsection \<open>One filing\<close>

definition process_one_filing :: "external \<Rightarrow> (nat \<Rightarrow> uuid) \<Rightarrow> instant \<Rightarrow> filing_meta \<Rightarrow> acq_db
    \<Rightarrow> (bool \<times> bool \<times> bool) \<times> acq_db" where
  "process_one_filing ex gen now fm db =
     (if exists_accession_number (fm_accession_number fm) (filings db) then ((False, False, False), db)
      else
        case derive_fiscal_coords (fm_filing_type fm) (fm_period_end_date fm) of (fy, fp) \<Rightarrow>
        case create_filing_record gen now fm fy fp (filing_status_value DOWNLOADING) (filings db) of
          None \<Rightarrow> ((True, False, False), db)
        | Some (i, fs) \<Rightarrow>
            let db1 = db\<lparr>filings := fs\<rparr>
            in case fetch_document ex fm of
                 None \<Rightarrow> ((True, False, False), update_filing_status now i FILING_FAILED db1)
               | Some doc \<Rightarrow>
                   (case storage_store ex doc db1 of
                      Some db2 \<Rightarrow> ((True, True, True), update_filing_status now i DOWNLOADED db2)
                    | None \<Rightarrow> ((True, True, False), update_filing_status now i FILING_FAILED db1)))"

definition tally :: "bool \<times> bool \<times> bool \<Rightarrow> nat \<times> nat \<times> nat \<Rightarrow> nat \<times> nat \<times> nat" where
  "tally r c = (case (r, c) of ((is_new, fetched, stored), (n, f, s)) \<Rightarrow>
     (if is_new then n + 1 else n, if fetched then f + 1 else f, if stored then s + 1 else s))"

fun process_filings :: "external \<Rightarrow> (nat \<Rightarrow> uuid) \<Rightarrow> instant \<Rightarrow> filing_meta list \<Rightarrow> nat \<times> nat \<times> nat \<Rightarrow> acq_db
    \<Rightarrow> (nat \<times> nat \<times> nat) \<times> acq_db" where
  "process_filings ex gen now [] c db = (c, db)"
| "process_filings ex gen now (fm # fms) c db =
     (case process_one_filing ex gen now fm db of (r, db1) \<Rightarrow> process_filings ex gen now fms (tally r c) db1)"

subsection \<open>The job\<close>

text \<open>The read and the write of \<open>_mark_running\<close>, in one session.\<close>

definition mark_running :: "instant \<Rightarrow> uuid \<Rightarrow> acq_db \<Rightarrow> py_error + (string \<times> acq_db)" where
  "mark_running now i db =
     (case get_row aj_id i (acq_jobs db) of
        None \<Rightarrow> Inl ValueError
      | Some j \<Rightarrow>
          if aj_status j \<noteq> acq_status_value ACQ_PENDING then Inl ValueError
          else Inr (aj_ticker j, update_job now i
                 (\<lambda>j. j\<lparr>aj_status := acq_status_value ACQ_RUNNING, aj_started_at := Some now\<rparr>) db))"

definition mark_completed :: "instant \<Rightarrow> uuid \<Rightarrow> nat \<times> nat \<times> nat \<Rightarrow> acq_db \<Rightarrow> acq_db" where
  "mark_completed now i c db =
     (case c of (n, f, s) \<Rightarrow> update_job now i
        (\<lambda>j. j\<lparr>aj_status := acq_status_value ACQ_COMPLETED, aj_completed_at := Some now, aj_filings_new := n,
               aj_documents_fetched := f, aj_documents_stored := s\<rparr>) db)"

definition mark_failed :: "instant \<Rightarrow> uuid \<Rightarrow> string \<Rightarrow> acq_db \<Rightarrow> acq_db" where
  "mark_failed now i err db = update_job now i
     (\<lambda>j. j\<lparr>aj_status := acq_status_value ACQ_FAILED, aj_completed_at := Some now, aj_error_message := Some err\<rparr>) db"

definition resolve_company :: "external \<Rightarrow> instant \<Rightarrow> uuid \<Rightarrow> string \<Rightarrow> acq_db \<Rightarrow> string + (string \<times> acq_db)" where
  "resolve_company ex now i ticker db =
     (case resolve_by_ticker ex ticker of
        Inl e \<Rightarrow> Inl e
      | Inr (cik, name) \<Rightarrow>
          Inr (cik, update_job now i (\<lambda>j. j\<lparr>aj_cik := Some cik, aj_company_name := Some name\<rparr>) db))"

definition discover :: "external \<Rightarrow> instant \<Rightarrow> uuid \<Rightarrow> string \<Rightarrow> acq_db \<Rightarrow> string + (filing_meta list \<times> acq_db)" where
  "discover ex now i cik db =
     (case discover_filings ex cik of
        Inl e \<Rightarrow> Inl e
      | Inr fms \<Rightarrow> Inr (fms, update_job now i (\<lambda>j. j\<lparr>aj_filings_discovered := length fms\<rparr>) db))"

datatype execute_error = NotPending | StepFailed string

text \<open>The outcome and the database it leaves: a failed step is recorded before its exception goes on.\<close>

definition execute :: "external \<Rightarrow> (nat \<Rightarrow> uuid) \<Rightarrow> instant \<Rightarrow> uuid \<Rightarrow> acq_db \<Rightarrow> (execute_error + unit) \<times> acq_db" where
  "execute ex gen now i db =
     (case mark_running now i db of
        Inl e \<Rightarrow> (Inl NotPending, db)
      | Inr (ticker, db1) \<Rightarrow>
          (case resolve_company ex now i ticker db1 of
             Inl e \<Rightarrow> (Inl (StepFailed e), mark_failed now i e db1)
           | Inr (cik, db2) \<Rightarrow>
               (case discover ex now i cik db2 of
                  Inl e \<Rightarrow> (Inl (StepFailed e), mark_failed now i e db2)
                | Inr (fms, db3) \<Rightarrow>
                    (case process_filings ex gen now fms (0, 0, 0) db3 of
                       (c, db4) \<Rightarrow> (Inr (), mark_completed now i c db4)))))"

subsection \<open>One filing, case by case\<close>

interpretation filing_rows: row_table fl_id set_filing_status
  by unfold_locales (simp add: set_filing_status_def split: prod.split)

text \<open>The ids the generator will still return are not in the table.\<close>

definition fresh_ids :: "(nat \<Rightarrow> uuid) \<Rightarrow> filing list \<Rightarrow> bool" where
  "fresh_ids gen fs \<longleftrightarrow> inj gen \<and> (\<forall>f \<in> set fs. \<forall>k \<ge> length fs. fl_id f \<noteq> gen k)"

definition known :: "filing list \<Rightarrow> string set" where
  "known fs = fl_accession_number ` set fs"

lemma exists_iff_known: "exists_accession_number acc fs \<longleftrightarrow> acc \<in> known fs"
  by (auto simp: exists_accession_number_def known_def filter_empty_conv)

lemma put_last_row:
  "\<forall>r \<in> set rows. key r \<noteq> i \<Longrightarrow> key r0 = i \<Longrightarrow> put_row key i r1 (rows @ [r0]) = rows @ [r1]"
  by (induction rows) (auto simp: put_row_def)

lemma get_last_row: "\<forall>r \<in> set rows. key r \<noteq> i \<Longrightarrow> key r0 = i \<Longrightarrow> get_row key i (rows @ [r0]) = Some r0"
  by (induction rows) (auto simp: get_row_def)

lemma update_new_filing:
  assumes "\<forall>g \<in> set fs. fl_id g \<noteq> fl_id f" and "filings db = fs @ [f]"
  shows "filings (update_filing_status now (fl_id f) st db) = fs @ [set_filing_status (filing_status_value st, now) f]"
    and "acq_jobs (update_filing_status now i st db) = acq_jobs db"
    and "stored_documents (update_filing_status now i st db) = stored_documents db"
  using get_last_row[OF assms(1) refl] put_last_row[OF assms(1) refl] assms(2)
  by (simp_all add: update_filing_status_def split: option.split)

lemma storage_store_Some:
  assumes "storage_store ex doc db = Some db'"
  shows "filings db' = filings db \<and> acq_jobs db' = acq_jobs db
    \<and> (\<exists>ds. stored_documents db' = stored_documents db @ ds)
    \<and> (\<exists>d \<in> set (stored_documents db'). sd_accession_number d = fd_accession_number doc)"
proof (cases "get_by_accession_number (fd_accession_number doc) (stored_documents db)")
  case (OneRow d)
  then have "d \<in> set (filter (\<lambda>d. sd_accession_number d = fd_accession_number doc) (stored_documents db))"
    by (simp add: get_by_accession_number_def scalar_OneRow_iff)
  with OneRow assms show ?thesis by (auto simp: storage_store_def)
qed (use assms in \<open>auto simp: storage_store_def split: option.splits\<close>)

lemma process_known:
  "fm_accession_number fm \<in> known (filings db) \<Longrightarrow> process_one_filing ex gen now fm db = ((False, False, False), db)"
  by (simp add: process_one_filing_def exists_iff_known)

lemma process_new:
  assumes fresh: "fresh_ids gen (filings db)" and new: "fm_accession_number fm \<notin> known (filings db)"
    and p: "process_one_filing ex gen now fm db = (r, db')"
  shows "\<exists>f fetched stored. r = (True, fetched, stored) \<and> filings db' = filings db @ [f]
    \<and> fl_accession_number f = fm_accession_number fm \<and> fl_id f = gen (length (filings db))
    \<and> (fl_fiscal_year f, fl_fiscal_period f) = derive_fiscal_coords (fm_filing_type fm) (fm_period_end_date fm)
    \<and> fl_status f = (if stored then ''downloaded'' else ''failed'')
    \<and> (stored \<longrightarrow> fetched) \<and> (fetched \<longleftrightarrow> fetch_document ex fm \<noteq> None)
    \<and> acq_jobs db' = acq_jobs db \<and> (\<exists>ds. stored_documents db' = stored_documents db @ ds)
    \<and> (\<forall>doc. stored \<longrightarrow> fetch_document ex fm = Some doc \<longrightarrow>
         (\<exists>d \<in> set (stored_documents db'). sd_accession_number d = fd_accession_number doc))"
proof -
  obtain fy fp where c: "derive_fiscal_coords (fm_filing_type fm) (fm_period_end_date fm) = (fy, fp)" by fastforce
  obtain f where cr: "create_filing_record gen now fm fy fp (filing_status_value DOWNLOADING) (filings db)
      = Some (gen (length (filings db)), filings db @ [f])"
    and f: "fl_accession_number f = fm_accession_number fm" "fl_id f = gen (length (filings db))"
      "fl_fiscal_year f = fy" "fl_fiscal_period f = fp"
    using new by (simp add: create_filing_record_def exists_iff_known Let_def)
  have ids: "\<forall>g \<in> set (filings db). fl_id g \<noteq> fl_id f" using fresh f(2) by (auto simp: fresh_ids_def)
  define db1 where "db1 = db\<lparr>filings := filings db @ [f]\<rparr>"
  have db1: "filings db1 = filings db @ [f]" "acq_jobs db1 = acq_jobs db" "stored_documents db1 = stored_documents db"
    by (simp_all add: db1_def)
  note st = set_filing_status_def
  show ?thesis
  proof (cases "fetch_document ex fm")
    case None
    with p new c cr have r: "r = (True, False, False)" "db' = update_filing_status now (fl_id f) FILING_FAILED db1"
      by (simp_all add: process_one_filing_def exists_iff_known Let_def f(2) db1_def)
    with update_new_filing[OF ids db1(1)] db1 f c None show ?thesis
      by (intro exI[of _ "set_filing_status (filing_status_value FILING_FAILED, now) f"] exI[of _ False] exI[of _ False])
        (simp add: st)
  next
    case (Some doc)
    show ?thesis
    proof (cases "storage_store ex doc db1")
      case None
      with Some p new c cr have r: "r = (True, True, False)" "db' = update_filing_status now (fl_id f) FILING_FAILED db1"
        by (simp_all add: process_one_filing_def exists_iff_known Let_def f(2) db1_def)
      with update_new_filing[OF ids db1(1)] db1 f c Some show ?thesis
        by (intro exI[of _ "set_filing_status (filing_status_value FILING_FAILED, now) f"] exI[of _ True] exI[of _ False])
        (simp add: st)
    next
      case (Some db2)
      with \<open>fetch_document ex fm = Some doc\<close> p new c cr
      have r: "r = (True, True, True)" "db' = update_filing_status now (fl_id f) DOWNLOADED db2"
        by (simp_all add: process_one_filing_def exists_iff_known Let_def f(2) db1_def)
      note s = storage_store_Some[OF Some]
      have db2: "filings db2 = filings db @ [f]" using s db1 by simp
      from r update_new_filing[OF ids db2] s db1 f c \<open>fetch_document ex fm = Some doc\<close>
      show ?thesis
        by (intro exI[of _ "set_filing_status (filing_status_value DOWNLOADED, now) f"] exI[of _ True] exI[of _ True])
        (simp add: st)
    qed
  qed
qed

subsection \<open>All filings\<close>

lemma fresh_ids_append: "fresh_ids gen fs \<Longrightarrow> fl_id f = gen (length fs) \<Longrightarrow> fresh_ids gen (fs @ [f])"
  by (auto simp: fresh_ids_def dest: injD)

definition settled :: "filing \<Rightarrow> bool" where
  "settled f \<longleftrightarrow> fl_status f \<in> {''downloaded'', ''failed''}"

lemma process_filings_outcome:
  assumes "process_filings ex gen now fms (n, f, s) db = ((n', f', s'), db')" and "fresh_ids gen (filings db)"
  shows "\<exists>new F. filings db' = filings db @ new \<and> distinct (map fl_accession_number new)
    \<and> set (map fl_accession_number new) = set (map fm_accession_number fms) - known (filings db)
    \<and> (\<forall>g \<in> set new. settled g) \<and> n' = n + length new \<and> s' = s + length (filter (\<lambda>g. fl_status g = ''downloaded'') new)
    \<and> f' = f + F \<and> length (filter (\<lambda>g. fl_status g = ''downloaded'') new) \<le> F \<and> F \<le> length new
    \<and> acq_jobs db' = acq_jobs db \<and> (\<exists>ds. stored_documents db' = stored_documents db @ ds)"
  using assms
proof (induction fms arbitrary: n f s db)
  case Nil
  then show ?case by simp
next
  case (Cons fm fms)
  obtain r db1 where p: "process_one_filing ex gen now fm db = (r, db1)" by fastforce
  obtain n1 f1 s1 where t: "tally r (n, f, s) = (n1, f1, s1)" by (metis prod_cases3)
  have rest: "process_filings ex gen now fms (n1, f1, s1) db1 = ((n', f', s'), db')"
    using Cons.prems(1) p t by simp
  show ?case
  proof (cases "fm_accession_number fm \<in> known (filings db)")
    case True
    with p process_known have "db1 = db" "r = (False, False, False)" by fastforce+
    with t have "(n1, f1, s1) = (n, f, s)" by (simp add: tally_def)
    with Cons.IH[OF rest] Cons.prems(2) \<open>db1 = db\<close> True show ?thesis by (simp add: insert_Diff_if)
  next
    case False
    obtain g fetched stored where g: "r = (True, fetched, stored)" "filings db1 = filings db @ [g]"
      "fl_accession_number g = fm_accession_number fm" "fl_id g = gen (length (filings db))"
      "fl_status g = (if stored then ''downloaded'' else ''failed'')" "stored \<longrightarrow> fetched"
      "acq_jobs db1 = acq_jobs db" "\<exists>ds. stored_documents db1 = stored_documents db @ ds"
      using process_new[OF Cons.prems(2) False p] by blast
    have n1: "n1 = n + 1" "f1 = f + (if fetched then 1 else 0)" "s1 = s + (if stored then 1 else 0)"
      using t g(1) by (auto simp: tally_def)
    have "fresh_ids gen (filings db1)" unfolding g(2) by (rule fresh_ids_append[OF Cons.prems(2) g(4)])
    from Cons.IH[OF rest this] obtain new F where new: "filings db' = filings db1 @ new"
      "distinct (map fl_accession_number new)"
      "set (map fl_accession_number new) = set (map fm_accession_number fms) - known (filings db1)"
      "\<forall>g \<in> set new. settled g" "n' = n1 + length new"
      "s' = s1 + length (filter (\<lambda>g. fl_status g = ''downloaded'') new)"
      "f' = f1 + F" "length (filter (\<lambda>g. fl_status g = ''downloaded'') new) \<le> F" "F \<le> length new"
      "acq_jobs db' = acq_jobs db1" "\<exists>ds. stored_documents db' = stored_documents db1 @ ds"
      by blast
    have kn: "known (filings db1) = insert (fm_accession_number fm) (known (filings db))"
      by (auto simp: known_def g(2,3))
    have notin: "fm_accession_number fm \<notin> set (map fl_accession_number new)"
      unfolding new(3) kn by simp
    have "set (map fl_accession_number (g # new)) = set (map fm_accession_number (fm # fms)) - known (filings db)"
      using False by (auto simp: g(3) new(3)[unfolded set_map] kn)
    moreover have "settled g" using g(5) by (simp add: settled_def)
    ultimately show ?thesis
      using new n1 g notin by (intro exI[of _ "g # new"] exI[of _ "F + (if fetched then 1 else 0)"]) auto
  qed
qed

lemma process_all_known:
  "set (map fm_accession_number fms) \<subseteq> known (filings db) \<Longrightarrow> process_filings ex gen now fms c db = (c, db)"
  by (induction fms) (auto simp: process_known tally_def split: prod.splits)

subsection \<open>The life of a job\<close>

lemma update_job_same:
  assumes "get_row aj_id i (acq_jobs db) = Some j" and "\<And>j. aj_id (f j) = aj_id j"
  shows "\<exists>j'. get_row aj_id i (acq_jobs (update_job now i f db)) = Some j' \<and> (j' = f j \<or> j' = (f j)\<lparr>aj_updated_at := now\<rparr>)"
proof (cases "f j = j")
  case True
  with assms show ?thesis by (auto simp: update_job_def Let_def)
next
  case False
  have "aj_id ((f j)\<lparr>aj_updated_at := now\<rparr>) = i"
    using assms get_row_Some[OF assms(1)] by simp
  with False assms(1) show ?thesis
    using get_put_same[of aj_id "(f j)\<lparr>aj_updated_at := now\<rparr>" i "acq_jobs db"]
    by (auto simp: update_job_def Let_def)
qed

lemma update_job_other:
  assumes "k \<noteq> i" and "\<And>j. aj_id (f j) = aj_id j"
  shows "get_row aj_id k (acq_jobs (update_job now i f db)) = get_row aj_id k (acq_jobs db)"
proof (cases "get_row aj_id i (acq_jobs db)")
  case (Some j)
  have "aj_id ((f j)\<lparr>aj_updated_at := now\<rparr>) = i"
    using assms(2) get_row_Some[OF Some] by simp
  with Some assms(1) show ?thesis
    using get_put_other[of aj_id "(f j)\<lparr>aj_updated_at := now\<rparr>" i k "acq_jobs db"]
    by (simp add: update_job_def Let_def)
qed (simp add: update_job_def)

lemma update_job_tables [simp]:
  "filings (update_job now i f db) = filings db" "stored_documents (update_job now i f db) = stored_documents db"
  by (auto simp: update_job_def Let_def split: option.split)

text \<open>A successful or failed run, step by step.\<close>

definition begin_job :: "instant \<Rightarrow> uuid \<Rightarrow> acq_db \<Rightarrow> acq_db" where
  "begin_job now i db = update_job now i (\<lambda>j. j\<lparr>aj_status := ''running'', aj_started_at := Some now\<rparr>) db"

definition resolved_job :: "instant \<Rightarrow> uuid \<Rightarrow> string \<times> string \<Rightarrow> acq_db \<Rightarrow> acq_db" where
  "resolved_job now i p db = update_job now i (\<lambda>j. j\<lparr>aj_cik := Some (fst p), aj_company_name := Some (snd p)\<rparr>) (begin_job now i db)"

definition discovered_job :: "instant \<Rightarrow> uuid \<Rightarrow> string \<times> string \<Rightarrow> filing_meta list \<Rightarrow> acq_db \<Rightarrow> acq_db" where
  "discovered_job now i p fms db = update_job now i (\<lambda>j. j\<lparr>aj_filings_discovered := length fms\<rparr>) (resolved_job now i p db)"

lemma execute_cases:
  assumes "execute ex gen now i db = (res, db')"
    and "get_row aj_id i (acq_jobs db) = Some j" and "aj_status j = ''pending''"
  obtains (unresolved) e where "resolve_by_ticker ex (aj_ticker j) = Inl e" "res = Inl (StepFailed e)"
      "db' = mark_failed now i e (begin_job now i db)"
  | (undiscovered) p e where "resolve_by_ticker ex (aj_ticker j) = Inr p" "discover_filings ex (fst p) = Inl e"
      "res = Inl (StepFailed e)" "db' = mark_failed now i e (resolved_job now i p db)"
  | (finished) p fms c db1 where "resolve_by_ticker ex (aj_ticker j) = Inr p" "discover_filings ex (fst p) = Inr fms"
      "process_filings ex gen now fms (0, 0, 0) (discovered_job now i p fms db) = (c, db1)"
      "res = Inr ()" "db' = mark_completed now i c db1"
proof (cases "resolve_by_ticker ex (aj_ticker j)")
  case (Inl e)
  then show thesis using assms unresolved
    by (simp add: execute_def mark_running_def resolve_company_def begin_job_def)
next
  case (Inr p)
  show thesis
  proof (cases "discover_filings ex (fst p)")
    case (Inl e)
    then show thesis using assms Inr undiscovered[OF Inr Inl]
      by (cases p) (simp add: execute_def mark_running_def resolve_company_def discover_def begin_job_def resolved_job_def)
  next
    case r: (Inr fms)
    obtain c db1 where "process_filings ex gen now fms (0, 0, 0) (discovered_job now i p fms db) = (c, db1)" by fastforce
    with r show thesis using assms Inr finished[OF Inr r]
      by (cases p) (simp add: execute_def mark_running_def resolve_company_def discover_def begin_job_def
          resolved_job_def discovered_job_def)
  qed
qed

lemma staged_tables [simp]:
  "filings (begin_job now i db) = filings db" "stored_documents (begin_job now i db) = stored_documents db"
  "filings (resolved_job now i p db) = filings db" "stored_documents (resolved_job now i p db) = stored_documents db"
  "filings (discovered_job now i p fms db) = filings db" "stored_documents (discovered_job now i p fms db) = stored_documents db"
  by (simp_all add: begin_job_def resolved_job_def discovered_job_def)

lemma staged_others:
  "k \<noteq> i \<Longrightarrow> get_row aj_id k (acq_jobs (begin_job now i db)) = get_row aj_id k (acq_jobs db)"
  "k \<noteq> i \<Longrightarrow> get_row aj_id k (acq_jobs (resolved_job now i p db)) = get_row aj_id k (acq_jobs db)"
  "k \<noteq> i \<Longrightarrow> get_row aj_id k (acq_jobs (discovered_job now i p fms db)) = get_row aj_id k (acq_jobs db)"
  by (simp_all add: begin_job_def resolved_job_def discovered_job_def update_job_other)

lemma update_job_present:
  "get_row aj_id i (acq_jobs db) = Some j \<Longrightarrow> (\<And>j. aj_id (f j) = aj_id j) \<Longrightarrow>
     \<exists>j'. get_row aj_id i (acq_jobs (update_job now i f db)) = Some j'"
  using update_job_same[of i db j f now] by blast

lemma staged_present:
  assumes "get_row aj_id i (acq_jobs db) = Some j"
  shows "\<exists>j'. get_row aj_id i (acq_jobs (begin_job now i db)) = Some j'"
    and "\<exists>j'. get_row aj_id i (acq_jobs (resolved_job now i p db)) = Some j'"
    and "\<exists>j'. get_row aj_id i (acq_jobs (discovered_job now i p fms db)) = Some j' \<and> aj_filings_discovered j' = length fms"
proof -
  show b: "\<exists>j'. get_row aj_id i (acq_jobs (begin_job now i db)) = Some j'"
    unfolding begin_job_def by (rule update_job_present[OF assms]) simp
  then show r: "\<exists>j'. get_row aj_id i (acq_jobs (resolved_job now i p db)) = Some j'"
    unfolding resolved_job_def by (auto intro!: update_job_present)
  then obtain j1 where "get_row aj_id i (acq_jobs (resolved_job now i p db)) = Some j1" by blast
  from update_job_same[OF this, of "\<lambda>j. j\<lparr>aj_filings_discovered := length fms\<rparr>" now]
  show "\<exists>j'. get_row aj_id i (acq_jobs (discovered_job now i p fms db)) = Some j' \<and> aj_filings_discovered j' = length fms"
    by (auto simp: discovered_job_def)
qed

lemma mark_failed_job:
  assumes "get_row aj_id i (acq_jobs db) = Some j"
  shows "\<exists>j'. get_row aj_id i (acq_jobs (mark_failed now i e db)) = Some j' \<and> aj_status j' = ''failed''
     \<and> aj_error_message j' = Some e"
  using update_job_same[OF assms, of "\<lambda>j. j\<lparr>aj_status := acq_status_value ACQ_FAILED, aj_completed_at := Some now, aj_error_message := Some e\<rparr>" now]
  by (auto simp: mark_failed_def)

lemma mark_completed_job:
  assumes "get_row aj_id i (acq_jobs db) = Some j"
  shows "\<exists>j'. get_row aj_id i (acq_jobs (mark_completed now i (n, f, s) db)) = Some j' \<and> aj_status j' = ''completed''
     \<and> aj_filings_new j' = n \<and> aj_documents_fetched j' = f \<and> aj_documents_stored j' = s
     \<and> aj_filings_discovered j' = aj_filings_discovered j"
  using update_job_same[OF assms, of "\<lambda>j. j\<lparr>aj_status := acq_status_value ACQ_COMPLETED, aj_completed_at := Some now,
      aj_filings_new := n, aj_documents_fetched := f, aj_documents_stored := s\<rparr>" now]
  by (auto simp: mark_completed_def)

lemma execute_others:
  assumes "execute ex gen now i db = (res, db')" and "get_row aj_id i (acq_jobs db) = Some j"
    and "aj_status j = ''pending''" and "fresh_ids gen (filings db)" and "k \<noteq> i"
  shows "get_row aj_id k (acq_jobs db') = get_row aj_id k (acq_jobs db)"
  using assms(1-3)
proof (cases rule: execute_cases)
  case (finished p fms c db1)
  obtain n f s where c: "c = (n, f, s)" by (metis prod_cases3)
  have "acq_jobs db1 = acq_jobs (discovered_job now i p fms db)"
    using process_filings_outcome[OF finished(3)[unfolded c]] assms(4) by auto
  with finished(5) c assms(5) show ?thesis by (simp add: mark_completed_def update_job_other staged_others)
qed (use assms(5) in \<open>simp_all add: mark_failed_def update_job_other staged_others\<close>)

text \<open>What a run that discovered its filings leaves: the job's counters against the filings it added.\<close>

lemma finished_run:
  assumes "process_filings ex gen now fms (0, 0, 0) (discovered_job now i p fms db) = (c, db1)"
    and "get_row aj_id i (acq_jobs db) = Some j" and "fresh_ids gen (filings db)"
  shows "\<exists>j' new. get_row aj_id i (acq_jobs (mark_completed now i c db1)) = Some j' \<and> aj_status j' = ''completed''
    \<and> filings (mark_completed now i c db1) = filings db @ new \<and> distinct (map fl_accession_number new)
    \<and> known new = set (map fm_accession_number fms) - known (filings db) \<and> (\<forall>g \<in> set new. settled g)
    \<and> aj_filings_discovered j' = length fms \<and> aj_filings_new j' = length new
    \<and> aj_documents_stored j' = length (filter (\<lambda>g. fl_status g = ''downloaded'') new)
    \<and> aj_documents_stored j' \<le> aj_documents_fetched j' \<and> aj_documents_fetched j' \<le> aj_filings_new j'
    \<and> aj_filings_new j' \<le> aj_filings_discovered j'
    \<and> set (map fm_accession_number fms) \<subseteq> known (filings (mark_completed now i c db1))"
proof -
  obtain n f s where c: "c = (n, f, s)" by (metis prod_cases3)
  obtain j1 where j1: "get_row aj_id i (acq_jobs (discovered_job now i p fms db)) = Some j1" "aj_filings_discovered j1 = length fms"
    using staged_present(3)[OF assms(2)] by blast
  have fr: "fresh_ids gen (filings (discovered_job now i p fms db))" using assms(3) by simp
  obtain new F where new: "filings db1 = filings db @ new" "distinct (map fl_accession_number new)"
    "set (map fl_accession_number new) = set (map fm_accession_number fms) - known (filings db)"
    "\<forall>g \<in> set new. settled g" "n = length new" "s = length (filter (\<lambda>g. fl_status g = ''downloaded'') new)"
    "f = F" "length (filter (\<lambda>g. fl_status g = ''downloaded'') new) \<le> F" "F \<le> length new"
    "acq_jobs db1 = acq_jobs (discovered_job now i p fms db)"
    using process_filings_outcome[OF assms(1)[unfolded c] fr] by auto
  have "length new = card (set (map fl_accession_number new))" using distinct_card[OF new(2)] by simp
  also have "\<dots> \<le> card (set (map fm_accession_number fms))" unfolding new(3) by (rule card_mono) auto
  also have "\<dots> \<le> length fms" using card_length[of "map fm_accession_number fms"] by simp
  finally have le: "length new \<le> length fms" .
  have kn: "known new = set (map fm_accession_number fms) - known (filings db)" using new(3) by (simp add: known_def)
  have all: "set (map fm_accession_number fms) \<subseteq> known (filings db @ new)"
    using kn by (auto simp: known_def)
  from j1 new(10) have "get_row aj_id i (acq_jobs db1) = Some j1" by simp
  from mark_completed_job[OF this, of now n f s] obtain j' where
    j': "get_row aj_id i (acq_jobs (mark_completed now i c db1)) = Some j'" "aj_status j' = ''completed''" "aj_filings_new j' = n"
    "aj_documents_fetched j' = f" "aj_documents_stored j' = s" "aj_filings_discovered j' = length fms"
    using c j1(2) by auto
  have "filings (mark_completed now i c db1) = filings db @ new" using new(1) c by (simp add: mark_completed_def)
  with j' new(2,4-9) kn all le show ?thesis by (intro exI[of _ j'] exI[of _ new]) simp
qed

subsection \<open>Properties\<close>

text \<open>
  C15: a pending job always reaches a terminal state, and which one is decided outside.  When the company does not
  resolve, or its filings cannot be discovered, the job is failed with that step's message, and no
  filing or document appears; when both succeed the job is completed, records how many filings were
  found, and each of them is in the table.  No other job changes.
\<close>

lemma execute_reaches_terminal:
  assumes "execute ex gen now i db = (res, db')" and "get_row aj_id i (acq_jobs db) = Some j"
    and "aj_status j = ''pending''" and "fresh_ids gen (filings db)"
  shows "\<exists>j'. get_row aj_id i (acq_jobs db') = Some j'
    \<and> (case rbind (resolve_by_ticker ex (aj_ticker j)) (\<lambda>(cik, name). discover_filings ex cik) of
         Inl e \<Rightarrow> res = Inl (StepFailed e) \<and> aj_status j' = ''failed'' \<and> aj_error_message j' = Some e
           \<and> filings db' = filings db \<and> stored_documents db' = stored_documents db
       | Inr fms \<Rightarrow> res = Inr () \<and> aj_status j' = ''completed'' \<and> aj_filings_discovered j' = length fms
           \<and> set (map fm_accession_number fms) \<subseteq> known (filings db'))
    \<and> (\<forall>k. k \<noteq> i \<longrightarrow> get_row aj_id k (acq_jobs db') = get_row aj_id k (acq_jobs db))"
proof -
  have oth: "\<forall>k. k \<noteq> i \<longrightarrow> get_row aj_id k (acq_jobs db') = get_row aj_id k (acq_jobs db)"
    using execute_others[OF assms] by blast
  from assms(1-3) show ?thesis
  proof (cases rule: execute_cases)
  case (unresolved e)
  obtain j1 where "get_row aj_id i (acq_jobs (begin_job now i db)) = Some j1" using staged_present(1)[OF assms(2)] by blast
  from mark_failed_job[OF this, of now e] unresolved show ?thesis
    using oth by (auto simp: mark_failed_def)
next
  case (undiscovered p e)
  obtain j1 where "get_row aj_id i (acq_jobs (resolved_job now i p db)) = Some j1" using staged_present(2)[OF assms(2)] by blast
  from mark_failed_job[OF this, of now e] undiscovered show ?thesis
    using oth by (cases p) (auto simp: mark_failed_def)
next
  case (finished p fms c db1)
  from finished_run[OF finished(3) assms(2,4)] finished oth show ?thesis by (cases p) auto
  qed
qed

text \<open>
  C29: the counters of a completed job are the truth about the filings.  When the company resolves and its filings are
  discovered, the run appends exactly one filing for every discovered accession number not already known, each settled as
  downloaded or failed; \<open>filings_new\<close> counts them, \<open>documents_stored\<close> counts the downloaded
  ones, and stored \<open>\<le>\<close> fetched \<open>\<le>\<close> new \<open>\<le>\<close> discovered.
\<close>

lemma execute_counts_filings:
  assumes "execute ex gen now i db = (res, db')" and "get_row aj_id i (acq_jobs db) = Some j"
    and "aj_status j = ''pending''" and "fresh_ids gen (filings db)"
    and "resolve_by_ticker ex (aj_ticker j) = Inr (cik, name)" and "discover_filings ex cik = Inr fms"
  shows "\<exists>j' new. get_row aj_id i (acq_jobs db') = Some j' \<and> filings db' = filings db @ new
    \<and> distinct (map fl_accession_number new)
    \<and> known new = set (map fm_accession_number fms) - known (filings db) \<and> (\<forall>g \<in> set new. settled g)
    \<and> aj_filings_discovered j' = length fms \<and> aj_filings_new j' = length new
    \<and> aj_documents_stored j' = length (filter (\<lambda>g. fl_status g = ''downloaded'') new)
    \<and> aj_documents_stored j' \<le> aj_documents_fetched j' \<and> aj_documents_fetched j' \<le> aj_filings_new j'
    \<and> aj_filings_new j' \<le> aj_filings_discovered j'"
  using assms(1-3)
proof (cases rule: execute_cases)
  case (finished p fms' c db1)
  then have "p = (cik, name)" using assms(5) by simp
  then have "fms' = fms" using assms(6) finished(2) by simp
  with finished_run[OF finished(3) assms(2,4)] finished(5) show ?thesis by blast
qed (use assms(5,6) in auto)

text \<open>
  Discovery is final.  After a completed run, a second job for the same ticker, with the
  same answers from outside, completes with nothing new and leaves filings and documents
  as they are; in particular a filing whose download failed is never fetched again.
\<close>

lemma second_job_adds_nothing:
  assumes "execute ex gen now i db = (Inr (), db')" and "get_row aj_id i (acq_jobs db) = Some j"
    and "aj_status j = ''pending''" and "fresh_ids gen (filings db)"
    and "get_row aj_id k (acq_jobs db') = Some j2" and "aj_status j2 = ''pending''" and "aj_ticker j2 = aj_ticker j"
  shows "\<exists>db2 j'. execute ex gen2 now2 k db' = (Inr (), db2) \<and> filings db2 = filings db'
    \<and> stored_documents db2 = stored_documents db' \<and> get_row aj_id k (acq_jobs db2) = Some j' \<and> aj_filings_new j' = 0"
  using assms(1-3)
proof (cases rule: execute_cases)
  case (finished p fms c db1)
  obtain n f s where c: "c = (n, f, s)" by (metis prod_cases3)
  have fr: "fresh_ids gen (filings (discovered_job now i p fms db))" using assms(4) by simp
  obtain new where "filings db1 = filings db @ new"
    "set (map fl_accession_number new) = set (map fm_accession_number fms) - known (filings db)"
    using process_filings_outcome[OF finished(3)[unfolded c] fr] by auto
  then have "set (map fm_accession_number fms) \<subseteq> known (filings db1)"
    by (auto simp: known_def)
  then have all: "set (map fm_accession_number fms) \<subseteq> known (filings (discovered_job now2 k p fms db'))"
    using finished(5) c by (simp add: mark_completed_def)
  let ?d = "discovered_job now2 k p fms db'"
  obtain j1 where j1: "get_row aj_id k (acq_jobs ?d) = Some j1" using staged_present(3)[OF assms(5)] by blast
  obtain res2 db2 where run: "execute ex gen2 now2 k db' = (res2, db2)" by fastforce
  from run assms(5,6) have "res2 = Inr () \<and> db2 = mark_completed now2 k (0, 0, 0) ?d"
  proof (cases rule: execute_cases)
    case (finished p' fms' c' db1')
    with \<open>resolve_by_ticker ex (aj_ticker j) = Inr p\<close> \<open>discover_filings ex (fst p) = Inr fms\<close> assms(7)
      process_all_known[OF all] show ?thesis by auto
  qed (use finished(1,2) assms(7) in simp_all)
  with run mark_completed_job[OF j1, of now2 0 0 0] show ?thesis
    by (auto simp: mark_completed_def)
qed simp_all

subsection \<open>Instances\<close>

definition sample_meta :: "string \<Rightarrow> filing_meta" where
  "sample_meta acc = \<lparr>fm_accession_number = acc, fm_filing_type = ''10-Q'', fm_filing_date = 738900,
     fm_period_end_date = Some (2023, 6, 30), fm_cik = ''0000320193'', fm_ticker = Some ''AAPL'', fm_title = None,
     fm_filing_url = None, fm_document_url = None\<rparr>"

text \<open>Two filings are discovered; the document of the second cannot be fetched.\<close>

definition sample_external :: external where
  "sample_external = \<lparr>resolve_by_ticker = (\<lambda>t. if t = ''AAPL'' then Inr (''0000320193'', ''Apple'') else Inl ''unknown''),
     discover_filings = (\<lambda>c. Inr [sample_meta ''a1'', sample_meta ''a2'', sample_meta ''a1'']),
     fetch_document = (\<lambda>m. if fm_accession_number m = ''a1'' then Some \<lparr>fd_accession_number = ''a1'', fd_content = ''x'',
        fd_content_hash = ''h'', fd_mime_type = ''text/html''\<rparr> else None),
     backend_store = (\<lambda>k d. Some \<lparr>sr_key = k, sr_bucket_name = None, sr_storage_type = ''local'',
        sr_content_length = length (fd_content d), sr_content_hash = fd_content_hash d,
        sr_mime_type = fd_mime_type d, sr_stored_at = 5\<rparr>),
     object_key_for = (\<lambda>a m. a)\<rparr>"

definition sample_acq_job :: "uuid \<Rightarrow> acquisition_job" where
  "sample_acq_job i = \<lparr>aj_id = i, aj_ticker = ''AAPL'', aj_cik = None, aj_company_name = None,
     aj_job_type = ''sec_filing_discovery'', aj_status = ''pending'', aj_error_message = None,
     aj_filings_discovered = 0, aj_filings_new = 0, aj_documents_fetched = 0, aj_documents_stored = 0,
     aj_started_at = None, aj_completed_at = None, aj_created_at = 0, aj_updated_at = 0\<rparr>"

definition sample_db :: acq_db where
  "sample_db = \<lparr>acq_jobs = [sample_acq_job ''j1'', sample_acq_job ''j2''], filings = [], stored_documents = []\<rparr>"

definition numbered :: "nat \<Rightarrow> uuid" where
  "numbered n = replicate n (CHR ''x'')"

lemma sample_fresh: "fresh_ids numbered (filings sample_db)"
  by (simp add: fresh_ids_def sample_db_def numbered_def inj_def)

lemma sample_jobs:
  "get_row aj_id ''j1'' (acq_jobs sample_db) = Some (sample_acq_job ''j1'')" "aj_status (sample_acq_job ''j1'') = ''pending''"
  "get_row aj_id ''j2'' (acq_jobs sample_db) = Some (sample_acq_job ''j2'')"
  by (simp_all add: sample_db_def sample_acq_job_def get_row_def)

definition sample_execution :: "(execute_error + unit) \<times> acq_db" where
  "sample_execution = execute sample_external numbered 9 ''j1'' sample_db"

lemma sample_execution_result: "(case fst sample_execution of Inr u \<Rightarrow> True | Inl e \<Rightarrow> False) \<and> length (filings (snd sample_execution)) = 2"
  by code_simp

lemma sample_execute: "\<exists>db'. execute sample_external numbered 9 ''j1'' sample_db = (Inr (), db') \<and> length (filings db') = 2"
  using sample_execution_result by (cases "execute sample_external numbered 9 ''j1'' sample_db")
    (auto simp: sample_execution_def split: sum.splits)

lemma sample_outside:
  "resolve_by_ticker sample_external (aj_ticker (sample_acq_job ''j1'')) = Inr (''0000320193'', ''Apple'')"
  "discover_filings sample_external ''0000320193'' = Inr [sample_meta ''a1'', sample_meta ''a2'', sample_meta ''a1'']"
  by (simp_all add: sample_external_def sample_acq_job_def)

lemma execute_reaches_terminal_witness:
  "\<exists>db' j'. execute sample_external numbered 9 ''j1'' sample_db = (Inr (), db')
     \<and> get_row aj_id ''j1'' (acq_jobs db') = Some j' \<and> aj_status j' = ''completed''
     \<and> get_row aj_id ''j2'' (acq_jobs db') = Some (sample_acq_job ''j2'')"
proof -
  obtain db' where run: "execute sample_external numbered 9 ''j1'' sample_db = (Inr (), db')" using sample_execute by blast
  from execute_reaches_terminal[OF run sample_jobs(1,2) sample_fresh] run sample_jobs(3) show ?thesis
    by (auto simp: sample_outside)
qed

lemma execute_counts_filings_witness:
  "\<exists>db' j'. execute sample_external numbered 9 ''j1'' sample_db = (Inr (), db')
     \<and> get_row aj_id ''j1'' (acq_jobs db') = Some j' \<and> aj_filings_new j' = 2"
proof -
  obtain db' where run: "execute sample_external numbered 9 ''j1'' sample_db = (Inr (), db')" "length (filings db') = 2"
    using sample_execute by blast
  have e: "filings sample_db = []" by (simp add: sample_db_def)
  obtain j' new where "get_row aj_id ''j1'' (acq_jobs db') = Some j'" "filings db' = filings sample_db @ new"
    "aj_filings_new j' = length new"
    using execute_counts_filings[OF run(1) sample_jobs(1,2) sample_fresh sample_outside] by blast
  with run e show ?thesis by auto
qed

lemma second_job_adds_nothing_witness:
  "\<exists>db' db2 j'. execute sample_external numbered 9 ''j1'' sample_db = (Inr (), db')
     \<and> execute sample_external numbered 11 ''j2'' db' = (Inr (), db2)
     \<and> get_row aj_id ''j2'' (acq_jobs db2) = Some j' \<and> aj_filings_new j' = 0"
proof -
  obtain db' where run: "execute sample_external numbered 9 ''j1'' sample_db = (Inr (), db')" using sample_execute by blast
  have "get_row aj_id ''j2'' (acq_jobs db') = Some (sample_acq_job ''j2'')"
    using execute_others[OF run sample_jobs(1,2) sample_fresh, of "''j2''"] sample_jobs(3) by simp
  from second_job_adds_nothing[OF run sample_jobs(1,2) sample_fresh this] run show ?thesis
    by (simp add: sample_acq_job_def) blast
qed

end
