(* ===== verification/Accounts.thy ===== *)
theory Accounts
  imports Prelude Models
begin

text \<open>
  Accounts: the tables of \<^verbatim>\<open>apps/api/models/__init__.py\<close> for workspaces, users, memberships and
  sessions, \<^verbatim>\<open>apps/api/repositories/auth.py\<close>, the helpers of \<^verbatim>\<open>apps/api/core/security.py\<close>, and the
  transaction around a request (\<open>get_db\<close> of \<^verbatim>\<open>apps/api/core/database.py\<close>).

  Cryptography (SHA-256, bcrypt, JSON Web Tokens) and the HIBP answer are parameters.  One
  clock reading stands for a request.  \<^verbatim>\<open>created_at\<close>, \<^verbatim>\<open>updated_at\<close> and the TOTP columns, which
  none of this code reads, are left out, and so are the snapshot of changes in the audit entry of
  a registration, log lines and the text of emails.
\<close>

subsection \<open>Roles\<close>

datatype UserRole = OWNER | ADMIN | ANALYST | VIEWER

fun role_value :: "UserRole \<Rightarrow> string" where
  "role_value OWNER = ''owner''"
| "role_value ADMIN = ''admin''"
| "role_value ANALYST = ''analyst''"
| "role_value VIEWER = ''viewer''"

definition ROLE_RANK :: "(string \<times> int) list" where
  "ROLE_RANK = [(role_value VIEWER, 0), (role_value ANALYST, 1), (role_value ADMIN, 2), (role_value OWNER, 3)]"

definition role_rank :: "string \<Rightarrow> int" where
  "role_rank r = (case map_of ROLE_RANK r of Some k \<Rightarrow> k | None \<Rightarrow> -1)"

text \<open>The order of authority the ranks induce.\<close>

instantiation UserRole :: linorder
begin

definition less_eq_UserRole :: "UserRole \<Rightarrow> UserRole \<Rightarrow> bool" where
  "less_eq_UserRole a b = (role_rank (role_value a) \<le> role_rank (role_value b))"

definition less_UserRole :: "UserRole \<Rightarrow> UserRole \<Rightarrow> bool" where
  "less_UserRole a b = (role_rank (role_value a) < role_rank (role_value b))"

instance
proof
  fix a b :: UserRole
  show "a \<le> b \<Longrightarrow> b \<le> a \<Longrightarrow> a = b"
    by (cases a; cases b) (auto simp: less_eq_UserRole_def role_rank_def ROLE_RANK_def)
qed (auto simp: less_eq_UserRole_def less_UserRole_def)

end

lemma role_rank_value [simp]:
  "role_rank ''viewer'' = 0" "role_rank ''analyst'' = 1" "role_rank ''admin'' = 2" "role_rank ''owner'' = 3"
  by (simp_all add: role_rank_def ROLE_RANK_def)

lemma role_rank_at_least:
  "role_rank (role_value m) \<le> role_rank r \<longleftrightarrow> (\<exists>u. r = role_value u \<and> m \<le> u)"
proof -
  have known: "\<exists>u. r = role_value u" if "role_rank r \<noteq> -1"
    using that
    by (auto simp: role_rank_def ROLE_RANK_def split: option.splits if_splits
        intro: exI[of _ VIEWER] exI[of _ ANALYST] exI[of _ ADMIN] exI[of _ OWNER])
  have "0 \<le> role_rank (role_value m)" by (cases m) auto
  with known show ?thesis unfolding less_eq_UserRole_def by fastforce
qed

subsection \<open>Tables\<close>

record tenant =
  tn_id :: uuid
  tn_name :: string
  tn_slug :: string

record user =
  us_id :: uuid
  us_email :: string
  us_full_name :: string
  us_password_hash :: string
  us_is_active :: bool
  us_reset_token :: "string option"
  us_reset_expires_at :: "instant option"
  us_last_login_at :: "instant option"
  us_deleted_at :: "instant option"

record membership =
  mb_id :: uuid
  mb_tenant_id :: uuid
  mb_user_id :: uuid
  mb_role :: UserRole
  mb_invited_by_id :: "uuid option"
  mb_is_active :: bool
  mb_joined_at :: "instant option"
  mb_deleted_at :: "instant option"

record refresh_token =
  rt_id :: uuid
  rt_user_id :: uuid
  rt_tenant_id :: uuid
  rt_token_hash :: string
  rt_jti :: string
  rt_expires_at :: instant
  rt_revoked_at :: "instant option"
  rt_ip_address :: "string option"
  rt_user_agent :: "string option"

record audit_entry =
  au_tenant_id :: uuid
  au_user_id :: "uuid option"
  au_action :: string
  au_entity_type :: "string option"
  au_entity_id :: "uuid option"
  au_ip_address :: "string option"
  au_user_agent :: "string option"
  au_request_id :: "uuid option"

record auth_db =
  tenants :: "tenant list"
  users :: "user list"
  memberships :: "membership list"
  refresh_tokens :: "refresh_token list"
  audit_log :: "audit_entry list"

definition token_is_valid :: "instant \<Rightarrow> refresh_token \<Rightarrow> bool" where
  "token_is_valid now t = (rt_revoked_at t = None \<and> now < rt_expires_at t)"

subsection \<open>Cryptography, the environment of a request, and its state\<close>

record claims =
  cl_sub :: string
  cl_tid :: string
  cl_role :: string
  cl_jti :: string
  cl_exp :: instant
  cl_iat :: instant
  cl_type :: string

datatype jwt_error = ExpiredSignatureError | JWTError

record crypto =
  sha256_hexdigest :: "string \<Rightarrow> string"
  sha256_digest :: "string \<Rightarrow> string"
  bcrypt_hashpw :: "string \<Rightarrow> string \<Rightarrow> string"
  bcrypt_checkpw :: "string \<Rightarrow> string \<Rightarrow> bool option"
  jwt_encode :: "claims \<Rightarrow> string"
  jwt_decode :: "instant \<Rightarrow> string \<Rightarrow> jwt_error + claims"

text \<open>
  What a request finds outside the program: the clock, fresh random values and primary keys,
  the order in which the database returns unordered rows, whether PostgreSQL accepts a string
  as \<^verbatim>\<open>INET\<close>, whether Redis and the email backend answer.
\<close>

record auth_env =
  now :: instant
  fresh_salt :: string
  fresh_jti :: string
  fresh_token :: string
  fresh_slug :: "string \<Rightarrow> string"
  fresh_tenant_id :: uuid
  fresh_user_id :: uuid
  fresh_membership_id :: uuid
  fresh_token_id :: uuid
  arrange :: "membership list \<Rightarrow> membership list"
  inet_ok :: "string \<Rightarrow> bool"
  redis_up :: bool
  email_up :: bool
  is_breached :: bool
  access_minutes :: int
  refresh_days :: int
  reset_hours :: int

record http_request =
  rq_forwarded_for :: "string option"
  rq_client_host :: "string option"
  rq_user_agent :: "string option"
  rq_request_id :: "string option"

datatype email = ResetEmail (reset_to: string) (reset_link_token: string) | PasswordChangedEmail (changed_to: string)

datatype auth_error =
    UnauthorizedError string | ForbiddenError UserRole string | ConflictError | BreachedPassword
  | APIError string | IntegrityError | DataError | MultipleResultsFound

text \<open>
  The state a request works on: the rows its transaction sees, the audit rows added to the
  session and not flushed yet, the blocklist in Redis (key and expiry) and the emails handed
  to the backend.  The last two are outside the transaction.
\<close>

record request_state =
  rs_db :: auth_db
  rs_pending :: "audit_entry list"
  rs_blocklist :: "(string \<times> instant) list"
  rs_mail :: "email list"

type_synonym 'a handler = "request_state \<Rightarrow> (auth_error + 'a) \<times> request_state"

definition seconds :: "int \<Rightarrow> int" where
  "seconds n = n * 1000000"

subsection \<open>Security helpers\<close>

definition hash_password :: "crypto \<Rightarrow> string \<Rightarrow> string \<Rightarrow> string" where
  "hash_password C salt pw = bcrypt_hashpw C (sha256_digest C pw) salt"

definition verify_password :: "crypto \<Rightarrow> string \<Rightarrow> string \<Rightarrow> bool" where
  "verify_password C pw h = (case bcrypt_checkpw C (sha256_digest C pw) h of None \<Rightarrow> False | Some b \<Rightarrow> b)"

definition create_access_token :: "crypto \<Rightarrow> auth_env \<Rightarrow> uuid \<Rightarrow> uuid \<Rightarrow> string \<Rightarrow> string \<times> string" where
  "create_access_token C E user_id tenant_id role =
     (let payload = \<lparr>cl_sub = user_id, cl_tid = tenant_id, cl_role = role, cl_jti = fresh_jti E,
                     cl_exp = now E + seconds (60 * access_minutes E), cl_iat = now E, cl_type = ''access''\<rparr>
      in (jwt_encode C payload, fresh_jti E))"

record token_payload =
  tp_sub :: uuid
  tp_tid :: uuid
  tp_role :: string
  tp_jti :: string
  tp_exp :: instant
  tp_iat :: instant

definition verify_access_token :: "crypto \<Rightarrow> instant \<Rightarrow> string \<Rightarrow> auth_error + token_payload" where
  "verify_access_token C t token =
     (case jwt_decode C t token of
        Inl ExpiredSignatureError \<Rightarrow> Inl (UnauthorizedError ''Access token has expired'')
      | Inl JWTError \<Rightarrow> Inl (UnauthorizedError ''Invalid access token'')
      | Inr raw \<Rightarrow>
          if cl_type raw \<noteq> ''access'' then Inl (UnauthorizedError ''Invalid token type'')
          else (case (uuid_of_string (cl_sub raw), uuid_of_string (cl_tid raw)) of
                  (Inr sub, Inr tid) \<Rightarrow>
                    Inr \<lparr>tp_sub = sub, tp_tid = tid, tp_role = cl_role raw, tp_jti = cl_jti raw,
                         tp_exp = cl_exp raw, tp_iat = cl_iat raw\<rparr>
                | _ \<Rightarrow> Inl (UnauthorizedError ''Malformed token payload'')))"

definition hash_refresh_token :: "crypto \<Rightarrow> string \<Rightarrow> string" where
  "hash_refresh_token C raw = sha256_hexdigest C raw"

definition generate_refresh_token_expiry :: "auth_env \<Rightarrow> instant" where
  "generate_refresh_token_expiry E = now E + seconds (86400 * refresh_days E)"

definition hash_password_reset_token :: "crypto \<Rightarrow> string \<Rightarrow> string" where
  "hash_password_reset_token C raw = sha256_hexdigest C raw"

subsection \<open>What a request says about its client\<close>

definition client_ip :: "http_request \<Rightarrow> string option" where
  "client_ip q = (case rq_forwarded_for q of
       Some (c # cs) \<Rightarrow> Some (str_strip (takeWhile (\<lambda>x. x \<noteq> CHR '','') (c # cs)))
     | _ \<Rightarrow> rq_client_host q)"

definition client_ua :: "http_request \<Rightarrow> string option" where
  "client_ua q = rq_user_agent q"

definition request_id :: "http_request \<Rightarrow> uuid option" where
  "request_id q = (case rq_request_id q of None \<Rightarrow> None
     | Some raw \<Rightarrow> (case uuid_of_string raw of Inr u \<Rightarrow> Some u | Inl _ \<Rightarrow> None))"

subsection \<open>Repository\<close>

definition get_user_by_email :: "string \<Rightarrow> auth_db \<Rightarrow> user scalar" where
  "get_user_by_email email db =
     scalar_one_or_none (filter (\<lambda>u. us_email u = email \<and> us_deleted_at u = None) (users db))"

definition get_user_by_id :: "uuid \<Rightarrow> auth_db \<Rightarrow> user scalar" where
  "get_user_by_id i db =
     scalar_one_or_none (filter (\<lambda>u. us_id u = i \<and> us_deleted_at u = None) (users db))"

definition get_refresh_token_by_hash :: "string \<Rightarrow> auth_db \<Rightarrow> refresh_token scalar" where
  "get_refresh_token_by_hash h db = scalar_one_or_none (filter (\<lambda>t. rt_token_hash t = h) (refresh_tokens db))"

definition get_refresh_token_by_jti :: "string \<Rightarrow> auth_db \<Rightarrow> refresh_token scalar" where
  "get_refresh_token_by_jti j db = scalar_one_or_none (filter (\<lambda>t. rt_jti t = j) (refresh_tokens db))"

definition revoke_refresh_token :: "instant \<Rightarrow> refresh_token \<Rightarrow> auth_db \<Rightarrow> auth_db" where
  "revoke_refresh_token t tok db =
     db\<lparr>refresh_tokens := put_row rt_id (rt_id tok) (tok\<lparr>rt_revoked_at := Some t\<rparr>) (refresh_tokens db)\<rparr>"

definition is_active_membership :: "uuid \<Rightarrow> membership \<Rightarrow> bool" where
  "is_active_membership uid m = (mb_user_id m = uid \<and> mb_is_active m \<and> mb_deleted_at m = None)"

text \<open>\<^verbatim>\<open>LIMIT 1\<close> without an order: the first row in whatever order the database returns them.\<close>

definition get_active_membership :: "auth_env \<Rightarrow> uuid \<Rightarrow> auth_db \<Rightarrow> membership option" where
  "get_active_membership E uid db =
     (case arrange E (filter (is_active_membership uid) (memberships db)) of [] \<Rightarrow> None | m # _ \<Rightarrow> Some m)"

definition put_user :: "user \<Rightarrow> auth_db \<Rightarrow> auth_db" where
  "put_user u db = db\<lparr>users := put_row us_id (us_id u) u (users db)\<rparr>"

definition update_password_reset_token :: "user \<Rightarrow> string \<Rightarrow> instant \<Rightarrow> auth_db \<Rightarrow> auth_db" where
  "update_password_reset_token u h e db = put_user (u\<lparr>us_reset_token := Some h, us_reset_expires_at := Some e\<rparr>) db"

definition get_user_by_reset_token_hash :: "string \<Rightarrow> auth_db \<Rightarrow> user scalar" where
  "get_user_by_reset_token_hash h db =
     scalar_one_or_none (filter (\<lambda>u. us_reset_token u = Some h \<and> us_deleted_at u = None) (users db))"

definition complete_password_reset :: "user \<Rightarrow> string \<Rightarrow> auth_db \<Rightarrow> auth_db" where
  "complete_password_reset u h db =
     put_user (u\<lparr>us_password_hash := h, us_reset_token := None, us_reset_expires_at := None\<rparr>) db"

definition revoke_all_user_refresh_tokens :: "instant \<Rightarrow> uuid \<Rightarrow> auth_db \<Rightarrow> auth_db" where
  "revoke_all_user_refresh_tokens t uid db =
     db\<lparr>refresh_tokens := update_where (\<lambda>r. rt_user_id r = uid \<and> rt_revoked_at r = None)
                             (\<lambda>r. r\<lparr>rt_revoked_at := Some t\<rparr>) (refresh_tokens db)\<rparr>"

definition update_last_login :: "instant \<Rightarrow> user \<Rightarrow> auth_db \<Rightarrow> auth_db" where
  "update_last_login t u db = put_user (u\<lparr>us_last_login_at := Some t\<rparr>) db"

text \<open>
  The inserts, with the constraints that can stop their flush: unique keys and foreign keys
  raise \<open>IntegrityError\<close>, a value the column cannot hold raises \<open>DataError\<close>.
\<close>

definition create_tenant :: "auth_env \<Rightarrow> string \<Rightarrow> auth_db \<Rightarrow> auth_error + (tenant \<times> auth_db)" where
  "create_tenant E name db =
     (let t = \<lparr>tn_id = fresh_tenant_id E, tn_name = name, tn_slug = fresh_slug E name\<rparr>
      in if tn_id t \<in> set (map tn_id (tenants db)) \<or> tn_slug t \<in> set (map tn_slug (tenants db))
         then Inl IntegrityError
         else Inr (t, db\<lparr>tenants := tenants db @ [t]\<rparr>))"

definition create_user :: "auth_env \<Rightarrow> string \<Rightarrow> string \<Rightarrow> string \<Rightarrow> auth_db \<Rightarrow> auth_error + (user \<times> auth_db)" where
  "create_user E email full_name password_hash db =
     (let u = \<lparr>us_id = fresh_user_id E, us_email = email, us_full_name = full_name,
               us_password_hash = password_hash, us_is_active = True, us_reset_token = None,
               us_reset_expires_at = None, us_last_login_at = None, us_deleted_at = None\<rparr>
      in if us_id u \<in> set (map us_id (users db)) \<or> us_email u \<in> set (map us_email (users db))
         then Inl IntegrityError
         else Inr (u, db\<lparr>users := users db @ [u]\<rparr>))"

definition create_membership :: "auth_env \<Rightarrow> uuid \<Rightarrow> uuid \<Rightarrow> UserRole \<Rightarrow> uuid option \<Rightarrow> auth_db \<Rightarrow> auth_error + (membership \<times> auth_db)" where
  "create_membership E tid uid role invited_by db =
     (let m = \<lparr>mb_id = fresh_membership_id E, mb_tenant_id = tid, mb_user_id = uid, mb_role = role,
               mb_invited_by_id = invited_by, mb_is_active = True, mb_joined_at = Some (now E),
               mb_deleted_at = None\<rparr>
      in if mb_id m \<in> set (map mb_id (memberships db))
            \<or> (tid, uid) \<in> set (map (\<lambda>x. (mb_tenant_id x, mb_user_id x)) (memberships db))
            \<or> tid \<notin> set (map tn_id (tenants db)) \<or> uid \<notin> set (map us_id (users db))
         then Inl IntegrityError
         else Inr (m, db\<lparr>memberships := memberships db @ [m]\<rparr>))"

definition client_columns_ok :: "auth_env \<Rightarrow> string option \<Rightarrow> string option \<Rightarrow> bool" where
  "client_columns_ok E ip ua =
     ((case ip of None \<Rightarrow> True | Some a \<Rightarrow> inet_ok E a) \<and> (case ua of None \<Rightarrow> True | Some a \<Rightarrow> length a \<le> 500))"

definition create_refresh_token ::
    "auth_env \<Rightarrow> uuid \<Rightarrow> uuid \<Rightarrow> string \<Rightarrow> string \<Rightarrow> instant \<Rightarrow> string option \<Rightarrow> string option \<Rightarrow> auth_db \<Rightarrow> auth_error + auth_db" where
  "create_refresh_token E uid tid token_hash jti expires_at ip ua db =
     (let t = \<lparr>rt_id = fresh_token_id E, rt_user_id = uid, rt_tenant_id = tid, rt_token_hash = token_hash,
               rt_jti = jti, rt_expires_at = expires_at, rt_revoked_at = None, rt_ip_address = ip,
               rt_user_agent = ua\<rparr>
      in if \<not> client_columns_ok E ip ua then Inl DataError
         else if rt_id t \<in> set (map rt_id (refresh_tokens db))
                 \<or> rt_token_hash t \<in> set (map rt_token_hash (refresh_tokens db))
                 \<or> rt_jti t \<in> set (map rt_jti (refresh_tokens db))
                 \<or> tid \<notin> set (map tn_id (tenants db)) \<or> uid \<notin> set (map us_id (users db))
         then Inl IntegrityError
         else Inr (db\<lparr>refresh_tokens := refresh_tokens db @ [t]\<rparr>))"

text \<open>\<open>create_audit_log\<close> only adds the entry to the session; the commit flushes it.\<close>

definition create_audit_log ::
    "http_request \<Rightarrow> uuid \<Rightarrow> uuid \<Rightarrow> string \<Rightarrow> request_state \<Rightarrow> request_state" where
  "create_audit_log q tid uid action s =
     s\<lparr>rs_pending := rs_pending s @
         [\<lparr>au_tenant_id = tid, au_user_id = Some uid, au_action = action, au_entity_type = Some ''user'',
           au_entity_id = Some uid, au_ip_address = client_ip q, au_user_agent = client_ua q,
           au_request_id = request_id q\<rparr>]\<rparr>"

subsection \<open>The transaction around a request\<close>

text \<open>
  \<open>get_db\<close>: the rows change when the handler returns and the commit succeeds; any exception,
  in the handler or in the flush of pending audit rows, rolls the rows back.
\<close>

definition audit_error :: "auth_env \<Rightarrow> auth_db \<Rightarrow> audit_entry \<Rightarrow> auth_error option" where
  "audit_error E db a =
     (if \<not> client_columns_ok E (au_ip_address a) (au_user_agent a) then Some DataError
      else if au_tenant_id a \<notin> set (map tn_id (tenants db)) then Some IntegrityError
      else (case au_user_id a of None \<Rightarrow> None
            | Some u \<Rightarrow> if u \<in> set (map us_id (users db)) then None else Some IntegrityError))"

fun flush_audit :: "auth_env \<Rightarrow> auth_db \<Rightarrow> audit_entry list \<Rightarrow> auth_error + auth_db" where
  "flush_audit E db [] = Inr db"
| "flush_audit E db (a # as) =
     (case audit_error E db a of
        Some e \<Rightarrow> Inl e
      | None \<Rightarrow> flush_audit E (db\<lparr>audit_log := audit_log db @ [a]\<rparr>) as)"

definition in_request :: "auth_env \<Rightarrow> 'a handler \<Rightarrow> 'a handler" where
  "in_request E h s =
     (case h (s\<lparr>rs_pending := []\<rparr>) of
        (Inl e, s1) \<Rightarrow> (Inl e, s1\<lparr>rs_db := rs_db s, rs_pending := []\<rparr>)
      | (Inr x, s1) \<Rightarrow>
          (case flush_audit E (rs_db s1) (rs_pending s1) of
             Inl e \<Rightarrow> (Inl e, s1\<lparr>rs_db := rs_db s, rs_pending := []\<rparr>)
           | Inr db \<Rightarrow> (Inr x, s1\<lparr>rs_db := db, rs_pending := []\<rparr>)))"

end
