(* ===== verification/Auth.thy ===== *)
theory Auth
  imports Accounts
begin

text \<open>
  The handlers of \<^verbatim>\<open>apps/api/routers/auth.py\<close> (register, login, refresh, logout, forgotten and
  reset passwords) and \<^verbatim>\<open>apps/api/middleware/auth.py\<close> (the JWT middleware and the role
  dependencies); what any sequence of requests does to the table of refresh tokens; the
  single use of refresh cookies and reset links, the reach of a logout, the role gate.
\<close>

subsection \<open>Redis blocklist and email\<close>

text \<open>
  \<^verbatim>\<open>SETEX\<close> rejects a time to live that is not positive; every failure is caught and logged.
\<close>

definition blocklist_jti :: "auth_env \<Rightarrow> string \<Rightarrow> int \<Rightarrow> request_state \<Rightarrow> request_state" where
  "blocklist_jti E jti ttl s =
     (if redis_up E \<and> 0 < ttl
      then s\<lparr>rs_blocklist := (''blocklist:'' @ jti, now E + seconds ttl) # rs_blocklist s\<rparr> else s)"

definition is_jti_blocklisted :: "bool \<Rightarrow> instant \<Rightarrow> (string \<times> instant) list \<Rightarrow> string \<Rightarrow> bool" where
  "is_jti_blocklisted up t bl jti =
     (up \<and> (case map_of bl (''blocklist:'' @ jti) of None \<Rightarrow> False | Some e \<Rightarrow> t < e))"

definition send_email :: "auth_env \<Rightarrow> email \<Rightarrow> request_state \<Rightarrow> request_state" where
  "send_email E m s = (if email_up E then s\<lparr>rs_mail := rs_mail s @ [m]\<rparr> else s)"

subsection \<open>Handlers\<close>

record auth_reply =
  ar_access_token :: string
  ar_user_id :: uuid
  ar_tenant_id :: uuid
  ar_role :: string
  ar_cookie :: string

definition INVALID_CREDENTIALS :: string where
  "INVALID_CREDENTIALS = ''Invalid email or password.''"

definition INVALID_TOKEN :: string where
  "INVALID_TOKEN = ''Refresh token is invalid or has expired.''"

text \<open>
  What login and refresh do once the user and the membership are settled: an access token,
  a refresh token in the table and the cookie, an audit entry.
\<close>

definition issue_session ::
    "crypto \<Rightarrow> auth_env \<Rightarrow> http_request \<Rightarrow> uuid \<Rightarrow> uuid \<Rightarrow> string \<Rightarrow> string \<Rightarrow> auth_reply handler" where
  "issue_session C E q uid tid role action s =
     (let (access_token, jti) = create_access_token C E uid tid role; raw = fresh_token E
      in case create_refresh_token E uid tid (hash_refresh_token C raw) jti (generate_refresh_token_expiry E)
                (client_ip q) (client_ua q) (rs_db s) of
           Inl e \<Rightarrow> (Inl e, s)
         | Inr db \<Rightarrow>
             (Inr \<lparr>ar_access_token = access_token, ar_user_id = uid, ar_tenant_id = tid, ar_role = role, ar_cookie = raw\<rparr>,
              create_audit_log q tid uid action (s\<lparr>rs_db := db\<rparr>)))"

definition register_rows ::
    "crypto \<Rightarrow> auth_env \<Rightarrow> string \<Rightarrow> string \<Rightarrow> string \<Rightarrow> string \<Rightarrow> auth_db \<Rightarrow> auth_error + (uuid \<times> uuid \<times> auth_db)" where
  "register_rows C E workspace email full_name password_hash db =
     rbind (create_tenant E workspace db) (\<lambda>(t, db1).
     rbind (create_user E email full_name password_hash db1) (\<lambda>(u, db2).
     rbind (create_membership E (tn_id t) (us_id u) OWNER None db2) (\<lambda>(m, db3).
     Inr (tn_id t, us_id u, db3))))"

definition conflict_if_integrity :: "auth_error \<Rightarrow> auth_error" where
  "conflict_if_integrity e = (if e = IntegrityError then ConflictError else e)"

definition register ::
    "crypto \<Rightarrow> auth_env \<Rightarrow> http_request \<Rightarrow> string \<Rightarrow> string \<Rightarrow> string \<Rightarrow> string \<Rightarrow> auth_reply handler" where
  "register C E q workspace email full_name pw s =
     (if is_breached E then (Inl BreachedPassword, s)
      else case get_user_by_email email (rs_db s) of
        ManyRows \<Rightarrow> (Inl MultipleResultsFound, s)
      | OneRow u \<Rightarrow> (Inl ConflictError, s)
      | NoRow \<Rightarrow>
          (case register_rows C E workspace email full_name (hash_password C (fresh_salt E) pw) (rs_db s) of
             Inl e \<Rightarrow> (Inl (conflict_if_integrity e), s)
           | Inr (tid, uid, db) \<Rightarrow>
               (case issue_session C E q uid tid (role_value OWNER) ''user.registered'' (s\<lparr>rs_db := db\<rparr>) of
                  (Inl e, s1) \<Rightarrow> (Inl (conflict_if_integrity e), s1)
                | (Inr r, s1) \<Rightarrow> (Inr r, s1))))"

definition login :: "crypto \<Rightarrow> auth_env \<Rightarrow> http_request \<Rightarrow> string \<Rightarrow> string \<Rightarrow> auth_reply handler" where
  "login C E q email pw s =
     (case get_user_by_email email (rs_db s) of
        ManyRows \<Rightarrow> (Inl MultipleResultsFound, s)
      | NoRow \<Rightarrow> (Inl (UnauthorizedError INVALID_CREDENTIALS), s)
      | OneRow u \<Rightarrow>
          if \<not> verify_password C pw (us_password_hash u) then (Inl (UnauthorizedError INVALID_CREDENTIALS), s)
          else if \<not> us_is_active u then (Inl (UnauthorizedError INVALID_CREDENTIALS), s)
          else (case get_active_membership E (us_id u) (rs_db s) of
                  None \<Rightarrow> (Inl (UnauthorizedError INVALID_CREDENTIALS), s)
                | Some m \<Rightarrow>
                    issue_session C E q (us_id u) (mb_tenant_id m) (role_value (mb_role m)) ''user.login''
                      (s\<lparr>rs_db := update_last_login (now E) u (rs_db s)\<rparr>)))"

definition refresh :: "crypto \<Rightarrow> auth_env \<Rightarrow> http_request \<Rightarrow> string option \<Rightarrow> auth_reply handler" where
  "refresh C E q cookie s =
     (let refused = (Inl (UnauthorizedError INVALID_TOKEN), s)
      in case cookie of None \<Rightarrow> refused | Some raw \<Rightarrow>
         if raw = '''' then refused
         else (case get_refresh_token_by_hash (hash_refresh_token C raw) (rs_db s) of
           ManyRows \<Rightarrow> (Inl MultipleResultsFound, s)
         | NoRow \<Rightarrow> refused
         | OneRow stored \<Rightarrow>
             if \<not> token_is_valid (now E) stored then refused
             else (case get_user_by_id (rt_user_id stored) (rs_db s) of
                ManyRows \<Rightarrow> (Inl MultipleResultsFound, s)
              | NoRow \<Rightarrow> refused
              | OneRow u \<Rightarrow>
                  if \<not> us_is_active u then refused
                  else (case get_active_membership E (us_id u) (rs_db s) of
                     None \<Rightarrow> refused
                   | Some m \<Rightarrow>
                       (case issue_session C E q (us_id u) (mb_tenant_id m) (role_value (mb_role m))
                               ''user.token_refresh''
                               (s\<lparr>rs_db := revoke_refresh_token (now E) stored (rs_db s)\<rparr>) of
                          (Inl e, s1) \<Rightarrow> (Inl e, s1)
                        | (Inr r, s1) \<Rightarrow>
                            (Inr r, blocklist_jti E (rt_jti stored) (access_minutes E * 60) s1))))))"

record auth_context =
  cx_user_id :: uuid
  cx_tenant_id :: uuid
  cx_role :: string
  cx_jti :: string
  cx_payload :: token_payload

definition remaining_ttl :: "instant \<Rightarrow> instant \<Rightarrow> int" where
  "remaining_ttl t expires = max 0 ((expires - t) div 1000000)"

definition logout :: "auth_env \<Rightarrow> http_request \<Rightarrow> auth_context \<Rightarrow> unit handler" where
  "logout E q ctx s =
     (case get_refresh_token_by_jti (cx_jti ctx) (rs_db s) of
        ManyRows \<Rightarrow> (Inl MultipleResultsFound, s)
      | found \<Rightarrow>
          (let s1 = (case found of
                       OneRow t \<Rightarrow> if rt_revoked_at t = None
                                    then s\<lparr>rs_db := revoke_refresh_token (now E) t (rs_db s)\<rparr> else s
                     | _ \<Rightarrow> s);
               s2 = blocklist_jti E (cx_jti ctx) (remaining_ttl (now E) (tp_exp (cx_payload ctx))) s1
           in (Inr (), create_audit_log q (cx_tenant_id ctx) (cx_user_id ctx) ''user.logout'' s2)))"

definition nil_uuid :: uuid where
  "nil_uuid = ''00000000-0000-0000-0000-000000000000''"

definition audit_tenant :: "membership option \<Rightarrow> uuid" where
  "audit_tenant m = (case m of Some x \<Rightarrow> mb_tenant_id x | None \<Rightarrow> nil_uuid)"

definition forgot_password :: "crypto \<Rightarrow> auth_env \<Rightarrow> http_request \<Rightarrow> string \<Rightarrow> unit handler" where
  "forgot_password C E q email s =
     (case get_user_by_email email (rs_db s) of
        ManyRows \<Rightarrow> (Inl MultipleResultsFound, s)
      | NoRow \<Rightarrow> (Inr (), s)
      | OneRow u \<Rightarrow>
          if \<not> us_is_active u then (Inr (), s)
          else
            (let raw = fresh_token E;
                 db = update_password_reset_token u (hash_password_reset_token C raw)
                        (now E + seconds (3600 * reset_hours E)) (rs_db s);
                 s1 = send_email E (ResetEmail (us_email u) raw) (s\<lparr>rs_db := db\<rparr>)
             in (Inr (), create_audit_log q (audit_tenant (get_active_membership E (us_id u) db)) (us_id u)
                           ''user.password_reset_requested'' s1)))"

definition reset_password :: "crypto \<Rightarrow> auth_env \<Rightarrow> http_request \<Rightarrow> string \<Rightarrow> string \<Rightarrow> unit handler" where
  "reset_password C E q token new_password s =
     (case get_user_by_reset_token_hash (hash_password_reset_token C token) (rs_db s) of
        ManyRows \<Rightarrow> (Inl MultipleResultsFound, s)
      | NoRow \<Rightarrow> (Inl (APIError ''INVALID_RESET_TOKEN''), s)
      | OneRow u \<Rightarrow>
          if (case us_reset_expires_at u of None \<Rightarrow> True | Some e \<Rightarrow> e < now E)
          then (Inl (APIError ''INVALID_RESET_TOKEN''), s)
          else
            (let db1 = complete_password_reset u (hash_password C (fresh_salt E) new_password) (rs_db s);
                 db2 = revoke_all_user_refresh_tokens (now E) (us_id u) db1;
                 s1 = create_audit_log q (audit_tenant (get_active_membership E (us_id u) db2)) (us_id u)
                        ''user.password_reset'' (s\<lparr>rs_db := db2\<rparr>)
             in (Inr (), send_email E (PasswordChangedEmail (us_email u)) s1)))"

subsection \<open>The middleware and the role dependencies\<close>

text \<open>\<open>JWTAuthMiddleware.dispatch\<close>: the context it leaves for the handlers.\<close>

definition jwt_dispatch ::
    "crypto \<Rightarrow> bool \<Rightarrow> instant \<Rightarrow> (string \<times> instant) list \<Rightarrow> string option \<Rightarrow> auth_context option" where
  "jwt_dispatch C up t bl header =
     (let auth_header = (case header of None \<Rightarrow> '''' | Some h \<Rightarrow> h)
      in if take 7 auth_header = ''Bearer '' then
           (case verify_access_token C t (drop 7 auth_header) of
              Inl e \<Rightarrow> None
            | Inr p \<Rightarrow>
                if is_jti_blocklisted up t bl (tp_jti p) then None
                else Some \<lparr>cx_user_id = tp_sub p, cx_tenant_id = tp_tid p, cx_role = tp_role p,
                           cx_jti = tp_jti p, cx_payload = p\<rparr>)
         else None)"

definition require_authenticated :: "auth_context option \<Rightarrow> auth_error + auth_context" where
  "require_authenticated ctx =
     (case ctx of None \<Rightarrow> Inl (UnauthorizedError ''Authentication required'') | Some c \<Rightarrow> Inr c)"

definition require_role :: "UserRole \<Rightarrow> auth_context option \<Rightarrow> auth_error + auth_context" where
  "require_role minimum ctx =
     rbind (require_authenticated ctx) (\<lambda>c.
       if role_rank (cx_role c) < role_rank (role_value minimum)
       then Inl (ForbiddenError minimum (cx_role c)) else Inr c)"

definition get_current_user :: "auth_context option \<Rightarrow> auth_db \<Rightarrow> auth_error + user" where
  "get_current_user ctx db =
     rbind (require_authenticated ctx) (\<lambda>c.
       case scalar_one_or_none (filter (\<lambda>u. us_id u = cx_user_id c \<and> us_deleted_at u = None \<and> us_is_active u) (users db)) of
         ManyRows \<Rightarrow> Inl MultipleResultsFound
       | NoRow \<Rightarrow> Inl (UnauthorizedError ''User account not found or has been deactivated'')
       | OneRow u \<Rightarrow> Inr u)"

subsection \<open>Lemmas about one request\<close>

lemma flush_audit_db:
  "flush_audit E db as = Inr db' \<Longrightarrow> db' = db\<lparr>audit_log := audit_log db @ as\<rparr>"
  by (induction E db as arbitrary: db' rule: flush_audit.induct) (auto split: option.splits)

lemma flush_audit_one:
  "flush_audit E db [a] = (case audit_error E db a of None \<Rightarrow> Inr (db\<lparr>audit_log := audit_log db @ [a]\<rparr>) | Some e \<Rightarrow> Inl e)"
  by (simp split: option.splits)

lemma in_request_Inr:
  assumes "in_request E h s = (Inr x, s')"
  obtains s1 where "h (s\<lparr>rs_pending := []\<rparr>) = (Inr x, s1)"
    and "flush_audit E (rs_db s1) (rs_pending s1) = Inr (rs_db s')"
    and "s' = s1\<lparr>rs_db := (rs_db s1)\<lparr>audit_log := audit_log (rs_db s1) @ rs_pending s1\<rparr>, rs_pending := []\<rparr>"
  using assms
  by (auto simp: in_request_def split: prod.splits sum.splits dest: flush_audit_db)

lemma in_request_Inl: "in_request E h s = (Inl e, s') \<Longrightarrow> rs_db s' = rs_db s"
  by (auto simp: in_request_def split: prod.splits sum.splits)

text \<open>An operation that fails inside the handler fails the request with the same exception.\<close>

lemma in_request_fails: "fst (h (s\<lparr>rs_pending := []\<rparr>)) = Inl e \<Longrightarrow> fst (in_request E h s) = Inl e"
  by (auto simp: in_request_def split: prod.splits)

lemma blocklist_jti_db [simp]:
  "rs_db (blocklist_jti E j n s) = rs_db s" "rs_pending (blocklist_jti E j n s) = rs_pending s"
  "rs_mail (blocklist_jti E j n s) = rs_mail s"
  by (simp_all add: blocklist_jti_def)

lemma send_email_db [simp]:
  "rs_db (send_email E m s) = rs_db s" "rs_pending (send_email E m s) = rs_pending s"
  "rs_blocklist (send_email E m s) = rs_blocklist s"
  by (simp_all add: send_email_def)

lemma create_audit_log_db [simp]:
  "rs_db (create_audit_log q t u a s) = rs_db s" "rs_blocklist (create_audit_log q t u a s) = rs_blocklist s"
  "rs_mail (create_audit_log q t u a s) = rs_mail s"
  by (simp_all add: create_audit_log_def)

lemmas auth_queries = get_user_by_email_def get_user_by_id_def get_refresh_token_by_hash_def
  get_refresh_token_by_jti_def get_user_by_reset_token_hash_def

lemmas scalar_iffs = scalar_OneRow_iff scalar_NoRow_iff scalar_ManyRows_iff

text \<open>The row found by a unique query is in the table and satisfies the query.\<close>

lemma scalar_filter_OneRow:
  "scalar_one_or_none (filter P rows) = OneRow r \<Longrightarrow> r \<in> set rows \<and> P r"
proof -
  assume "scalar_one_or_none (filter P rows) = OneRow r"
  then have "r \<in> set (filter P rows)" by (simp add: scalar_OneRow_iff)
  then show ?thesis by simp
qed

lemma scalar_filter_unique:
  assumes "distinct (map k rows)" "r \<in> set rows" "\<And>x. x \<in> set rows \<Longrightarrow> P x \<longleftrightarrow> k x = k r"
  shows "scalar_one_or_none (filter P rows) = OneRow r"
proof -
  have "filter P rows = filter (\<lambda>x. k x = k r) rows"
    using assms(3) by (auto intro: filter_cong)
  then show ?thesis using filter_by_key_distinct[OF assms(1,2)] by simp
qed

lemma get_active_membership_Some:
  assumes "get_active_membership E uid db = Some m" "\<And>ms. set (arrange E ms) = set ms"
  shows "m \<in> set (memberships db)" "is_active_membership uid m"
proof -
  from assms(1) have "m \<in> set (arrange E (filter (is_active_membership uid) (memberships db)))"
    by (auto simp: get_active_membership_def split: list.splits)
  then have "m \<in> set (filter (is_active_membership uid) (memberships db))" using assms(2) by blast
  then show "m \<in> set (memberships db)" "is_active_membership uid m" by auto
qed

lemma get_active_membership_None:
  assumes "\<And>m. m \<in> set (memberships db) \<Longrightarrow> \<not> is_active_membership uid m"
    "\<And>ms. set (arrange E ms) = set ms"
  shows "get_active_membership E uid db = None"
proof -
  have "filter (is_active_membership uid) (memberships db) = []"
    using assms(1) by (simp add: filter_empty_conv)
  then have "arrange E (filter (is_active_membership uid) (memberships db)) = []"
    using assms(2)[of "[]"] by simp
  then show ?thesis by (simp add: get_active_membership_def)
qed

subsection \<open>How the refresh tokens evolve\<close>

text \<open>
  The unique constraints of the table, and what any sequence of requests may do to it: rows
  are appended, and an existing row changes in \<open>rt_revoked_at\<close> alone, from unset to set.
\<close>

definition tokens_wf :: "refresh_token list \<Rightarrow> bool" where
  "tokens_wf ts = (distinct (map rt_id ts) \<and> distinct (map rt_token_hash ts) \<and> distinct (map rt_jti ts))"

definition token_later :: "refresh_token \<Rightarrow> refresh_token \<Rightarrow> bool" where
  "token_later a b = (\<exists>r. b = a\<lparr>rt_revoked_at := r\<rparr> \<and> (rt_revoked_at a \<noteq> None \<longrightarrow> r \<noteq> None))"

definition tokens_evolve :: "refresh_token list \<Rightarrow> refresh_token list \<Rightarrow> bool" where
  "tokens_evolve ts ts' = (\<exists>us new. ts' = us @ new \<and> list_all2 token_later ts us)"

lemma token_later_refl [simp]: "token_later a a"
  by (auto simp: token_later_def intro: exI[of _ "rt_revoked_at a"])

lemma token_later_trans: "token_later a b \<Longrightarrow> token_later b c \<Longrightarrow> token_later a c"
  by (auto simp: token_later_def)

lemma token_later_keys:
  "token_later a b \<Longrightarrow> rt_id b = rt_id a \<and> rt_token_hash b = rt_token_hash a \<and> rt_jti b = rt_jti a
     \<and> rt_user_id b = rt_user_id a"
  by (auto simp: token_later_def)

lemma tokens_evolve_refl [simp]: "tokens_evolve ts ts"
  by (auto simp: tokens_evolve_def list_all2_refl intro: exI[of _ ts])

lemma tokens_evolve_trans:
  assumes "tokens_evolve a b" "tokens_evolve b c" shows "tokens_evolve a c"
proof -
  from assms obtain us new vs new' where b: "b = us @ new" "list_all2 token_later a us"
    and c: "c = vs @ new'" "list_all2 token_later (us @ new) vs" unfolding tokens_evolve_def by blast
  from c(2) obtain v1 v2 where v: "vs = v1 @ v2" "list_all2 token_later us v1"
    by (metis list_all2_append1)
  then have "list_all2 token_later a v1" using b(2) token_later_trans list_all2_trans by blast
  then show ?thesis using c(1) v(1) unfolding tokens_evolve_def by auto
qed

lemma tokens_evolve_append [simp]: "tokens_evolve ts (ts @ new)"
  by (auto simp: tokens_evolve_def list_all2_refl intro: exI[of _ ts])

lemma later_rows_keys:
  "list_all2 token_later ts us \<Longrightarrow> map rt_id us = map rt_id ts \<and> map rt_token_hash us = map rt_token_hash ts
     \<and> map rt_jti us = map rt_jti ts"
  by (induction rule: list_all2_induct) (auto dest: token_later_keys)

text \<open>The two updates of the table that are not inserts.\<close>

lemma later_revoke_where:
  "list_all2 token_later ts (update_where P (\<lambda>r. r\<lparr>rt_revoked_at := Some t\<rparr>) ts)"
proof (induction ts)
  case Nil
  then show ?case by simp
next
  case (Cons a ts)
  have "token_later a (a\<lparr>rt_revoked_at := Some t\<rparr>)"
    unfolding token_later_def by (intro exI[of _ "Some t"]) simp
  with Cons show ?case by simp
qed

lemma revoke_is_update_where:
  assumes "tokens_wf ts" "tok \<in> set ts"
  shows "put_row rt_id (rt_id tok) (tok\<lparr>rt_revoked_at := Some t\<rparr>) ts
           = update_where (\<lambda>r. rt_id r = rt_id tok) (\<lambda>r. r\<lparr>rt_revoked_at := Some t\<rparr>) ts"
proof -
  have "r = tok" if "r \<in> set ts" "rt_id r = rt_id tok" for r
    using that assms by (auto simp: tokens_wf_def distinct_map dest: inj_onD)
  then show ?thesis by (auto simp: put_row_def update_where_def)
qed

definition new_refresh_token :: "crypto \<Rightarrow> auth_env \<Rightarrow> http_request \<Rightarrow> uuid \<Rightarrow> uuid \<Rightarrow> refresh_token" where
  "new_refresh_token C E q uid tid =
     \<lparr>rt_id = fresh_token_id E, rt_user_id = uid, rt_tenant_id = tid,
      rt_token_hash = hash_refresh_token C (fresh_token E), rt_jti = fresh_jti E,
      rt_expires_at = generate_refresh_token_expiry E, rt_revoked_at = None,
      rt_ip_address = client_ip q, rt_user_agent = client_ua q\<rparr>"

lemma create_refresh_token_Inr:
  "create_refresh_token E uid tid h j e ip ua db = Inr db' \<Longrightarrow>
     \<exists>t. db' = db\<lparr>refresh_tokens := refresh_tokens db @ [t]\<rparr>
       \<and> t = \<lparr>rt_id = fresh_token_id E, rt_user_id = uid, rt_tenant_id = tid, rt_token_hash = h, rt_jti = j,
             rt_expires_at = e, rt_revoked_at = None, rt_ip_address = ip, rt_user_agent = ua\<rparr>
       \<and> (tokens_wf (refresh_tokens db) \<longrightarrow> tokens_wf (refresh_tokens db @ [t]))"
  by (auto simp: create_refresh_token_def Let_def tokens_wf_def split: if_splits)

lemma issue_session_Inr:
  assumes "issue_session C E q uid tid role act s = (Inr r, s1)"
  shows "rs_db s1 = (rs_db s)\<lparr>refresh_tokens := refresh_tokens (rs_db s) @ [new_refresh_token C E q uid tid]\<rparr>"
    and "tokens_wf (refresh_tokens (rs_db s)) \<longrightarrow> tokens_wf (refresh_tokens (rs_db s1))"
    and "r = \<lparr>ar_access_token = fst (create_access_token C E uid tid role), ar_user_id = uid, ar_tenant_id = tid,
              ar_role = role, ar_cookie = fresh_token E\<rparr>"
    and "rs_blocklist s1 = rs_blocklist s"
proof -
  obtain tok jti where at: "create_access_token C E uid tid role = (tok, jti)" by fastforce
  then have jti: "jti = fresh_jti E" by (simp add: create_access_token_def Let_def)
  from assms at obtain db where
    ins: "create_refresh_token E uid tid (hash_refresh_token C (fresh_token E)) jti (generate_refresh_token_expiry E)
            (client_ip q) (client_ua q) (rs_db s) = Inr db"
    and out: "r = \<lparr>ar_access_token = tok, ar_user_id = uid, ar_tenant_id = tid, ar_role = role, ar_cookie = fresh_token E\<rparr>"
      "s1 = create_audit_log q tid uid act (s\<lparr>rs_db := db\<rparr>)"
    by (auto simp: issue_session_def Let_def split: sum.splits)
  from create_refresh_token_Inr[OF ins] jti out at
  show "rs_db s1 = (rs_db s)\<lparr>refresh_tokens := refresh_tokens (rs_db s) @ [new_refresh_token C E q uid tid]\<rparr>"
    and "tokens_wf (refresh_tokens (rs_db s)) \<longrightarrow> tokens_wf (refresh_tokens (rs_db s1))"
    and "r = \<lparr>ar_access_token = fst (create_access_token C E uid tid role), ar_user_id = uid, ar_tenant_id = tid,
              ar_role = role, ar_cookie = fresh_token E\<rparr>"
    and "rs_blocklist s1 = rs_blocklist s"
    by (auto simp: new_refresh_token_def)
qed

text \<open>A handler keeps the table's history when each successful run only moves tokens forward.\<close>

definition keeps_history :: "'a handler \<Rightarrow> bool" where
  "keeps_history h = (\<forall>s x s1. h s = (Inr x, s1) \<longrightarrow> tokens_wf (refresh_tokens (rs_db s)) \<longrightarrow>
     tokens_evolve (refresh_tokens (rs_db s)) (refresh_tokens (rs_db s1)) \<and> tokens_wf (refresh_tokens (rs_db s1)))"

lemma keeps_historyD:
  "keeps_history h \<Longrightarrow> h s = (Inr x, s1) \<Longrightarrow> tokens_wf (refresh_tokens (rs_db s)) \<Longrightarrow>
     tokens_evolve (refresh_tokens (rs_db s)) (refresh_tokens (rs_db s1)) \<and> tokens_wf (refresh_tokens (rs_db s1))"
  unfolding keeps_history_def by blast

lemma update_where_history:
  assumes "tokens_wf ts"
  shows "tokens_evolve ts (update_where P (\<lambda>r. r\<lparr>rt_revoked_at := Some t\<rparr>) ts)"
    and "tokens_wf (update_where P (\<lambda>r. r\<lparr>rt_revoked_at := Some t\<rparr>) ts)"
proof -
  note l = later_revoke_where[of ts P t]
  show "tokens_evolve ts (update_where P (\<lambda>r. r\<lparr>rt_revoked_at := Some t\<rparr>) ts)"
    unfolding tokens_evolve_def using l by auto
  show "tokens_wf (update_where P (\<lambda>r. r\<lparr>rt_revoked_at := Some t\<rparr>) ts)"
    using assms later_rows_keys[OF l] by (simp add: tokens_wf_def)
qed

lemma revoke_history:
  assumes "tokens_wf (refresh_tokens db)" "tok \<in> set (refresh_tokens db)"
  shows "tokens_evolve (refresh_tokens db) (refresh_tokens (revoke_refresh_token t tok db))"
    and "tokens_wf (refresh_tokens (revoke_refresh_token t tok db))"
  using update_where_history[OF assms(1)] by (simp_all add: revoke_refresh_token_def revoke_is_update_where assms)

lemma issue_session_history:
  assumes "issue_session C E q uid tid role act s = (Inr r, s1)" "tokens_wf (refresh_tokens (rs_db s))"
  shows "tokens_evolve (refresh_tokens (rs_db s)) (refresh_tokens (rs_db s1))" "tokens_wf (refresh_tokens (rs_db s1))"
  using issue_session_Inr(1,2)[OF assms(1)] assms(2) by auto

lemma put_user_tokens [simp]: "refresh_tokens (put_user u db) = refresh_tokens db"
  by (simp add: put_user_def)

lemma user_updates_tokens [simp]:
  "refresh_tokens (update_last_login t u db) = refresh_tokens db"
  "refresh_tokens (update_password_reset_token u h e db) = refresh_tokens db"
  "refresh_tokens (complete_password_reset u h db) = refresh_tokens db"
  by (simp_all add: update_last_login_def update_password_reset_token_def complete_password_reset_def)

lemma register_rows_tokens: "register_rows C E ws em nm ph db = Inr (t, u, db') \<Longrightarrow> refresh_tokens db' = refresh_tokens db"
  by (auto simp: register_rows_def rbind_eq_Inr create_tenant_def create_user_def create_membership_def Let_def
      split: if_splits)

lemma refresh_Inr:
  assumes "refresh C E q cookie s = (Inr r, s1)"
  obtains raw stored u m s2 where "cookie = Some raw" "raw \<noteq> ''''"
    and "get_refresh_token_by_hash (hash_refresh_token C raw) (rs_db s) = OneRow stored"
    and "token_is_valid (now E) stored"
    and "get_user_by_id (rt_user_id stored) (rs_db s) = OneRow u" "us_is_active u"
    and "get_active_membership E (us_id u) (rs_db s) = Some m"
    and "issue_session C E q (us_id u) (mb_tenant_id m) (role_value (mb_role m)) ''user.token_refresh''
           (s\<lparr>rs_db := revoke_refresh_token (now E) stored (rs_db s)\<rparr>) = (Inr r, s2)"
    and "s1 = blocklist_jti E (rt_jti stored) (access_minutes E * 60) s2"
  using assms
  by (auto simp: refresh_def Let_def split: option.splits if_splits scalar.splits prod.splits sum.splits)

lemma stored_by_hash:
  "get_refresh_token_by_hash h db = OneRow t \<Longrightarrow> t \<in> set (refresh_tokens db) \<and> rt_token_hash t = h"
  unfolding get_refresh_token_by_hash_def by (drule scalar_filter_OneRow) simp

lemma stored_by_jti:
  "get_refresh_token_by_jti j db = OneRow t \<Longrightarrow> t \<in> set (refresh_tokens db) \<and> rt_jti t = j"
  unfolding get_refresh_token_by_jti_def by (drule scalar_filter_OneRow) simp

lemma register_history: "keeps_history (register C E q ws em nm pw)"
  unfolding keeps_history_def register_def
  by (auto split: if_splits scalar.splits sum.splits prod.splits
      dest!: register_rows_tokens dest: issue_session_history)

lemma login_history: "keeps_history (login C E q em pw)"
  unfolding keeps_history_def login_def
  by (auto split: if_splits scalar.splits option.splits dest: issue_session_history)

lemma refresh_history: "keeps_history (refresh C E q cookie)"
proof -
  have "tokens_evolve (refresh_tokens (rs_db s)) (refresh_tokens (rs_db s1)) \<and> tokens_wf (refresh_tokens (rs_db s1))"
    if run: "refresh C E q cookie s = (Inr r, s1)" and wf: "tokens_wf (refresh_tokens (rs_db s))" for s r s1
  proof (rule refresh_Inr[OF run])
    fix raw stored u m s2
    assume st: "get_refresh_token_by_hash (hash_refresh_token C raw) (rs_db s) = OneRow stored"
      and iss: "issue_session C E q (us_id u) (mb_tenant_id m) (role_value (mb_role m)) ''user.token_refresh''
           (s\<lparr>rs_db := revoke_refresh_token (now E) stored (rs_db s)\<rparr>) = (Inr r, s2)"
      and s1: "s1 = blocklist_jti E (rt_jti stored) (access_minutes E * 60) s2"
    from stored_by_hash[OF st] have mem: "stored \<in> set (refresh_tokens (rs_db s))" by simp
    note rev = revoke_history[OF wf mem, of "now E"]
    note iss2 = issue_session_history[OF iss] 
    from iss2 rev s1 show ?thesis by (auto intro: tokens_evolve_trans)
  qed
  then show ?thesis unfolding keeps_history_def by blast
qed

lemma logout_history: "keeps_history (logout E q ctx)"
  unfolding keeps_history_def logout_def Let_def
  by (auto split: scalar.splits if_splits dest: stored_by_jti intro!: revoke_history)

lemma forgot_history: "keeps_history (forgot_password C E q em)"
  unfolding keeps_history_def forgot_password_def Let_def
  by (auto split: if_splits scalar.splits)

lemma reset_history: "keeps_history (reset_password C E q tok pw)"
  unfolding keeps_history_def reset_password_def Let_def
  by (auto split: if_splits scalar.splits option.splits
      simp: revoke_all_user_refresh_tokens_def update_where_history)

lemma in_request_history:
  assumes h: "keeps_history h" and wf: "tokens_wf (refresh_tokens (rs_db s))"
  shows "tokens_evolve (refresh_tokens (rs_db s)) (refresh_tokens (rs_db (snd (in_request E h s))))
         \<and> tokens_wf (refresh_tokens (rs_db (snd (in_request E h s))))"
proof -
  obtain r s' where run: "in_request E h s = (r, s')" by fastforce
  show ?thesis
  proof (cases r)
    case (Inl e)
    then show ?thesis using run wf in_request_Inl[of E h s e s'] by simp
  next
    case (Inr x)
    with run have "in_request E h s = (Inr x, s')" by simp
    then show ?thesis
      by (rule in_request_Inr) (use run wf keeps_historyD[OF h] in fastforce)
  qed
qed

subsection \<open>Sequences of requests\<close>

datatype auth_call =
    CallRegister string string string string
  | CallLogin string string
  | CallRefresh "string option"
  | CallLogout auth_context
  | CallForgot string
  | CallReset string string

definition serve :: "crypto \<Rightarrow> auth_env \<Rightarrow> http_request \<Rightarrow> auth_call \<Rightarrow> request_state \<Rightarrow> request_state" where
  "serve C E q call s =
     (case call of
        CallRegister w em nm pw \<Rightarrow> snd (in_request E (register C E q w em nm pw) s)
      | CallLogin em pw \<Rightarrow> snd (in_request E (login C E q em pw) s)
      | CallRefresh cookie \<Rightarrow> snd (in_request E (refresh C E q cookie) s)
      | CallLogout ctx \<Rightarrow> snd (in_request E (logout E q ctx) s)
      | CallForgot em \<Rightarrow> snd (in_request E (forgot_password C E q em) s)
      | CallReset tok pw \<Rightarrow> snd (in_request E (reset_password C E q tok pw) s))"

text \<open>
  Requests one after the other, each with its own clock, random values and outside world, and
  between them anything that leaves the table of refresh tokens alone (no other part of the
  program writes it).
\<close>

inductive auth_run :: "crypto \<Rightarrow> request_state \<Rightarrow> request_state \<Rightarrow> bool" for C where
  auth_start: "auth_run C s s"
| auth_request: "auth_run C s s1 \<Longrightarrow> auth_run C s (serve C E q call s1)"
| auth_elsewhere: "auth_run C s s1 \<Longrightarrow> refresh_tokens (rs_db s2) = refresh_tokens (rs_db s1) \<Longrightarrow> auth_run C s s2"

lemma serve_history:
  "tokens_wf (refresh_tokens (rs_db s)) \<Longrightarrow>
     tokens_evolve (refresh_tokens (rs_db s)) (refresh_tokens (rs_db (serve C E q call s)))
     \<and> tokens_wf (refresh_tokens (rs_db (serve C E q call s)))"
  by (cases call) (simp_all add: serve_def in_request_history register_history login_history refresh_history
      logout_history forgot_history reset_history)

lemma auth_run_history:
  "auth_run C s s' \<Longrightarrow> tokens_wf (refresh_tokens (rs_db s)) \<Longrightarrow>
     tokens_evolve (refresh_tokens (rs_db s)) (refresh_tokens (rs_db s')) \<and> tokens_wf (refresh_tokens (rs_db s'))"
proof (induction rule: auth_run.induct)
  case (auth_request s s1 E q call)
  then show ?case using serve_history[of s1 C E q call] tokens_evolve_trans by blast
qed auto

text \<open>A hash whose row is revoked is refused whatever comes later.\<close>

definition spent :: "string \<Rightarrow> auth_db \<Rightarrow> bool" where
  "spent h db = (\<exists>t \<in> set (refresh_tokens db). rt_token_hash t = h \<and> rt_revoked_at t \<noteq> None)"

lemma spent_evolves:
  assumes "spent h db" "tokens_evolve (refresh_tokens db) (refresh_tokens db')"
  shows "spent h db'"
proof -
  from assms(1) obtain t where t: "t \<in> set (refresh_tokens db)" "rt_token_hash t = h" "rt_revoked_at t \<noteq> None"
    by (auto simp: spent_def)
  from assms(2) obtain us new where u: "refresh_tokens db' = us @ new" "list_all2 token_later (refresh_tokens db) us"
    by (auto simp: tokens_evolve_def)
  from list_all2_left[OF u(2) t(1)] obtain b where "b \<in> set us" "token_later t b" by blast
  then have "rt_token_hash b = h \<and> rt_revoked_at b \<noteq> None \<and> b \<in> set (refresh_tokens db')"
    using t u(1) by (auto simp: token_later_def)
  then show ?thesis unfolding spent_def by blast
qed

lemma spent_refused:
  assumes "spent (hash_refresh_token C raw) (rs_db s)" "tokens_wf (refresh_tokens (rs_db s))"
  shows "fst (in_request E (refresh C E q (Some raw)) s) = Inl (UnauthorizedError INVALID_TOKEN)"
proof (rule in_request_fails)
  from assms(1) obtain t where t: "t \<in> set (refresh_tokens (rs_db s))" "rt_token_hash t = hash_refresh_token C raw"
      "rt_revoked_at t \<noteq> None" by (auto simp: spent_def)
  have "get_refresh_token_by_hash (hash_refresh_token C raw) (rs_db s) = OneRow t"
    unfolding get_refresh_token_by_hash_def using assms(2) t
    by (intro scalar_filter_unique[of rt_token_hash]) (auto simp: tokens_wf_def)
  then show "fst (refresh C E q (Some raw) (s\<lparr>rs_pending := []\<rparr>)) = Inl (UnauthorizedError INVALID_TOKEN)"
    using t(3) by (simp add: refresh_def token_is_valid_def Let_def)
qed

lemma revoked_is_spent:
  assumes "tok \<in> set (refresh_tokens db)"
  shows "spent (rt_token_hash tok) (revoke_refresh_token t tok db)"
proof -
  have "tok\<lparr>rt_revoked_at := Some t\<rparr> \<in> set (refresh_tokens (revoke_refresh_token t tok db))"
    using assms by (auto simp: revoke_refresh_token_def put_row_def set_update_where)
  then show ?thesis unfolding spent_def by (intro bexI[of _ "tok\<lparr>rt_revoked_at := Some t\<rparr>"]) simp_all
qed

text \<open>What a successful refresh did, read off the committed rows.\<close>

lemma refresh_request_Inr:
  assumes "in_request E (refresh C E q cookie) s = (Inr r, s')"
  obtains raw stored u m where "cookie = Some raw" "raw \<noteq> ''''"
    and "stored \<in> set (refresh_tokens (rs_db s))" "rt_token_hash stored = hash_refresh_token C raw"
    and "token_is_valid (now E) stored"
    and "get_user_by_id (rt_user_id stored) (rs_db s) = OneRow u" "us_is_active u"
    and "get_active_membership E (us_id u) (rs_db s) = Some m"
    and "refresh_tokens (rs_db s') = refresh_tokens (revoke_refresh_token (now E) stored (rs_db s))
            @ [new_refresh_token C E q (us_id u) (mb_tenant_id m)]"
    and "users (rs_db s') = users (rs_db s)" "memberships (rs_db s') = memberships (rs_db s)"
        "tenants (rs_db s') = tenants (rs_db s)"
    and "r = \<lparr>ar_access_token = fst (create_access_token C E (us_id u) (mb_tenant_id m) (role_value (mb_role m))),
              ar_user_id = us_id u, ar_tenant_id = mb_tenant_id m, ar_role = role_value (mb_role m),
              ar_cookie = fresh_token E\<rparr>"
    and "redis_up E \<and> 0 < access_minutes E \<longrightarrow>
           rs_blocklist s' = (''blocklist:'' @ rt_jti stored, now E + seconds (access_minutes E * 60)) # rs_blocklist s"
proof (rule in_request_Inr[OF assms])
  fix s1
  assume h: "refresh C E q cookie (s\<lparr>rs_pending := []\<rparr>) = (Inr r, s1)"
    and s': "s' = s1\<lparr>rs_db := (rs_db s1)\<lparr>audit_log := audit_log (rs_db s1) @ rs_pending s1\<rparr>, rs_pending := []\<rparr>"
  show thesis
  proof (rule refresh_Inr[OF h])
    fix raw stored u m s2
    assume f: "cookie = Some raw" "raw \<noteq> ''''"
        "get_refresh_token_by_hash (hash_refresh_token C raw) (rs_db (s\<lparr>rs_pending := []\<rparr>)) = OneRow stored"
        "token_is_valid (now E) stored"
        "get_user_by_id (rt_user_id stored) (rs_db (s\<lparr>rs_pending := []\<rparr>)) = OneRow u" "us_is_active u"
        "get_active_membership E (us_id u) (rs_db (s\<lparr>rs_pending := []\<rparr>)) = Some m"
      and iss: "issue_session C E q (us_id u) (mb_tenant_id m) (role_value (mb_role m)) ''user.token_refresh''
           (s\<lparr>rs_pending := [], rs_db := revoke_refresh_token (now E) stored (rs_db (s\<lparr>rs_pending := []\<rparr>))\<rparr>) = (Inr r, s2)"
      and s1: "s1 = blocklist_jti E (rt_jti stored) (access_minutes E * 60) s2"
    note i = issue_session_Inr[OF iss]
    show thesis
      by (rule that[of raw stored u m])
         (use f i s1 s' stored_by_hash[of "hash_refresh_token C raw" "rs_db s" stored] in
            \<open>auto simp: revoke_refresh_token_def blocklist_jti_def\<close>)
  qed
qed

subsection \<open>What a successful password reset did\<close>

lemma reset_request_Inr:
  assumes "in_request E (reset_password C E q tok pw) s = (Inr x, s')"
  obtains u e where "u \<in> set (users (rs_db s))" "us_reset_token u = Some (hash_password_reset_token C tok)"
    and "us_deleted_at u = None" "us_reset_expires_at u = Some e" "now E \<le> e"
    and "users (rs_db s') = users (complete_password_reset u (hash_password C (fresh_salt E) pw) (rs_db s))"
    and "refresh_tokens (rs_db s') = refresh_tokens (revoke_all_user_refresh_tokens (now E) (us_id u) (rs_db s))"
    and "memberships (rs_db s') = memberships (rs_db s)"
    and "scalar_one_or_none (filter (\<lambda>u. us_reset_token u = Some (hash_password_reset_token C tok)
            \<and> us_deleted_at u = None) (users (rs_db s))) = OneRow u"
proof (rule in_request_Inr[OF assms])
  fix s1
  assume h: "reset_password C E q tok pw (s\<lparr>rs_pending := []\<rparr>) = (Inr x, s1)"
    and s': "s' = s1\<lparr>rs_db := (rs_db s1)\<lparr>audit_log := audit_log (rs_db s1) @ rs_pending s1\<rparr>, rs_pending := []\<rparr>"
  from h obtain u where u: "get_user_by_reset_token_hash (hash_password_reset_token C tok) (rs_db s) = OneRow u"
    by (auto simp: reset_password_def split: scalar.splits)
  from h u obtain e where e: "us_reset_expires_at u = Some e" "now E \<le> e"
    by (auto simp: reset_password_def Let_def split: option.splits if_splits)
  from scalar_filter_OneRow[OF u[unfolded get_user_by_reset_token_hash_def]] have
    m: "u \<in> set (users (rs_db s))" "us_reset_token u = Some (hash_password_reset_token C tok)" "us_deleted_at u = None"
    by auto
  show thesis
    by (rule that[of u e])
       (use h u e m s' in \<open>auto simp: reset_password_def Let_def revoke_all_user_refresh_tokens_def
          get_user_by_reset_token_hash_def complete_password_reset_def put_user_def\<close>)
qed

lemma revoke_all_spends:
  assumes "t \<in> set (refresh_tokens db)" "rt_user_id t = uid"
  shows "spent (rt_token_hash t) (revoke_all_user_refresh_tokens tm uid db)"
proof -
  let ?b = "if rt_revoked_at t = None then t\<lparr>rt_revoked_at := Some tm\<rparr> else t"
  have "?b \<in> set (refresh_tokens (revoke_all_user_refresh_tokens tm uid db))"
    using assms by (auto simp: revoke_all_user_refresh_tokens_def set_update_where)
  then show ?thesis unfolding spent_def by (rule bexI[rotated]) auto
qed

subsection \<open>Properties\<close>

text \<open>
  C3: A refresh cookie is accepted once.  A request to \<^verbatim>\<open>/refresh\<close> that succeeds revokes the
  presented token; after any later sequence of authentication requests (whatever the clock,
  the random values and the state of Redis) the same cookie is answered with the same 401,
  and the hypotheses are only the unique constraints of the table.
\<close>

theorem refresh_cookie_single_use:
  assumes "tokens_wf (refresh_tokens (rs_db s))"
    and "in_request E (refresh C E q (Some raw)) s = (Inr r, s')"
    and "auth_run C s' s''"
  shows "fst (in_request E2 (refresh C E2 q2 (Some raw)) s'') = Inl (UnauthorizedError INVALID_TOKEN)"
proof -
  have wf': "tokens_wf (refresh_tokens (rs_db s'))"
    using in_request_history[OF refresh_history assms(1), of E C E q "Some raw"] assms(2) by simp
  note run = auth_run_history[OF assms(3) wf']
  have "spent (hash_refresh_token C raw) (rs_db s')"
  proof (rule refresh_request_Inr[OF assms(2)])
    fix raw' stored u m
    assume f: "Some raw = Some raw'" "stored \<in> set (refresh_tokens (rs_db s))"
        "rt_token_hash stored = hash_refresh_token C raw'"
        "refresh_tokens (rs_db s') = refresh_tokens (revoke_refresh_token (now E) stored (rs_db s))
            @ [new_refresh_token C E q (us_id u) (mb_tenant_id m)]"
    from revoked_is_spent[OF f(2), of "now E"] f show ?thesis by (auto simp: spent_def)
  qed
  then have "spent (hash_refresh_token C raw) (rs_db s'')" using spent_evolves run by blast
  then show ?thesis using spent_refused run by blast
qed

text \<open>
  A successful refresh is a rotation on behalf of the token's own user: the token was stored,
  unrevoked and unexpired and its user active; exactly that row is revoked, exactly one row is
  added (same user, 30-day expiry, the hash of the new cookie), users and memberships do not
  change, and the reply's tenant and role are those of a membership active now.  The
  tenant the old token was issued for plays no part.
\<close>

theorem refresh_rotates:
  assumes "tokens_wf (refresh_tokens (rs_db s))" "\<And>ms. set (arrange E ms) = set ms"
    and "in_request E (refresh C E q (Some raw)) s = (Inr r, s')"
  shows "\<exists>old \<in> set (refresh_tokens (rs_db s)). \<exists>m \<in> set (memberships (rs_db s)).
     rt_token_hash old = hash_refresh_token C raw \<and> token_is_valid (now E) old \<and>
     is_active_membership (rt_user_id old) m \<and>
     refresh_tokens (rs_db s') =
       update_where (\<lambda>t. rt_id t = rt_id old) (\<lambda>t. t\<lparr>rt_revoked_at := Some (now E)\<rparr>) (refresh_tokens (rs_db s))
       @ [\<lparr>rt_id = fresh_token_id E, rt_user_id = rt_user_id old, rt_tenant_id = mb_tenant_id m,
           rt_token_hash = hash_refresh_token C (ar_cookie r), rt_jti = fresh_jti E,
           rt_expires_at = now E + seconds (86400 * refresh_days E), rt_revoked_at = None,
           rt_ip_address = client_ip q, rt_user_agent = client_ua q\<rparr>] \<and>
     users (rs_db s') = users (rs_db s) \<and> memberships (rs_db s') = memberships (rs_db s) \<and>
     ar_user_id r = rt_user_id old \<and> ar_tenant_id r = mb_tenant_id m \<and> ar_role r = role_value (mb_role m)"
proof (rule refresh_request_Inr[OF assms(3)])
  fix raw' stored u m
  assume f: "Some raw = Some raw'" "stored \<in> set (refresh_tokens (rs_db s))"
      "rt_token_hash stored = hash_refresh_token C raw'" "token_is_valid (now E) stored"
      "get_user_by_id (rt_user_id stored) (rs_db s) = OneRow u"
      "get_active_membership E (us_id u) (rs_db s) = Some m"
    and g: "refresh_tokens (rs_db s') = refresh_tokens (revoke_refresh_token (now E) stored (rs_db s))
            @ [new_refresh_token C E q (us_id u) (mb_tenant_id m)]"
      "users (rs_db s') = users (rs_db s)" "memberships (rs_db s') = memberships (rs_db s)"
      "r = \<lparr>ar_access_token = fst (create_access_token C E (us_id u) (mb_tenant_id m) (role_value (mb_role m))),
              ar_user_id = us_id u, ar_tenant_id = mb_tenant_id m, ar_role = role_value (mb_role m),
              ar_cookie = fresh_token E\<rparr>"
  have "us_id u = rt_user_id stored"
    using scalar_filter_OneRow[OF f(5)[unfolded get_user_by_id_def]] by simp
  then show ?thesis
    using f g get_active_membership_Some[OF f(6) assms(2)]
    by (intro bexI[of _ stored] bexI[of _ m])
       (simp_all add: revoke_refresh_token_def revoke_is_update_where[OF assms(1)] new_refresh_token_def
          generate_refresh_token_expiry_def)
qed

text \<open>
  C13: a successful password reset ends every session of the account.  The account named by the
  reset link gets the new password hash and nothing else of the table of users changes; every refresh
  cookie issued to it before is refused after any later sequence of requests; the link itself
  is refused from then on until another reset is requested.
\<close>

theorem reset_ends_sessions:
  assumes "tokens_wf (refresh_tokens (rs_db s))" "distinct (map us_id (users (rs_db s)))"
    and "in_request E (reset_password C E q tok pw) s = (Inr x, s')"
    and "auth_run C s' s''"
  shows "\<exists>u \<in> set (users (rs_db s)).
     us_reset_token u = Some (hash_password_reset_token C tok) \<and>
     users (rs_db s') = update_where (\<lambda>v. us_id v = us_id u)
        (\<lambda>_. u\<lparr>us_password_hash := hash_password C (fresh_salt E) pw, us_reset_token := None, us_reset_expires_at := None\<rparr>)
        (users (rs_db s)) \<and>
     (\<forall>t \<in> set (refresh_tokens (rs_db s)). rt_user_id t = us_id u \<and> rt_token_hash t = hash_refresh_token C raw \<longrightarrow>
        fst (in_request E2 (refresh C E2 q2 (Some raw)) s'') = Inl (UnauthorizedError INVALID_TOKEN)) \<and>
     fst (in_request E3 (reset_password C E3 q3 tok pw3) s') = Inl (APIError ''INVALID_RESET_TOKEN'')"
proof (rule reset_request_Inr[OF assms(3)])
  fix u :: user and e
  let ?h = "hash_password_reset_token C tok"
  let ?u = "u\<lparr>us_password_hash := hash_password C (fresh_salt E) pw, us_reset_token := None, us_reset_expires_at := None\<rparr>"
  assume u: "u \<in> set (users (rs_db s))" "us_reset_token u = Some ?h"
    and us: "users (rs_db s') = users (complete_password_reset u (hash_password C (fresh_salt E) pw) (rs_db s))"
    and rt: "refresh_tokens (rs_db s') = refresh_tokens (revoke_all_user_refresh_tokens (now E) (us_id u) (rs_db s))"
    and one: "scalar_one_or_none (filter (\<lambda>u. us_reset_token u = Some ?h \<and> us_deleted_at u = None) (users (rs_db s))) = OneRow u"
  have users': "users (rs_db s') = update_where (\<lambda>v. us_id v = us_id u) (\<lambda>_. ?u) (users (rs_db s))"
    using us by (simp add: complete_password_reset_def put_user_def put_row_def)
  have wf': "tokens_wf (refresh_tokens (rs_db s'))"
    using in_request_history[OF reset_history assms(1), of E C E q tok pw] assms(3) by simp
  note run = auth_run_history[OF assms(4) wf']
  have sessions: "fst (in_request E2 (refresh C E2 q2 (Some raw)) s'') = Inl (UnauthorizedError INVALID_TOKEN)"
    if "t \<in> set (refresh_tokens (rs_db s))" "rt_user_id t = us_id u" "rt_token_hash t = hash_refresh_token C raw" for t
  proof -
    have "spent (rt_token_hash t) (rs_db s')"
      using revoke_all_spends[OF that(1,2), of "now E"] rt by (simp add: spent_def)
    then show ?thesis using that(3) spent_evolves run spent_refused by metis
  qed
  have "filter (\<lambda>v. us_reset_token v = Some ?h \<and> us_deleted_at v = None) (users (rs_db s')) = []"
  proof -
    have "us_id v = us_id u" if "v \<in> set (users (rs_db s))" "us_reset_token v = Some ?h" "us_deleted_at v = None" for v
    proof -
      have "v \<in> set (filter (\<lambda>u. us_reset_token u = Some ?h \<and> us_deleted_at u = None) (users (rs_db s)))"
        using that by simp
      moreover have "filter (\<lambda>u. us_reset_token u = Some ?h \<and> us_deleted_at u = None) (users (rs_db s)) = [u]"
        using one by (simp add: scalar_OneRow_iff)
      ultimately have "v \<in> set [u]" by (simp only:)
      then show ?thesis by simp
    qed
    then show ?thesis unfolding users' filter_empty_conv by (auto simp: set_update_where)
  qed
  then have "fst (in_request E3 (reset_password C E3 q3 tok pw3) s') = Inl (APIError ''INVALID_RESET_TOKEN'')"
    by (intro in_request_fails) (simp add: reset_password_def get_user_by_reset_token_hash_def scalar_NoRow_iff)
  with u users' sessions show ?thesis by blast
qed

lemma audit_of_nobody:
  assumes "nil_uuid \<notin> set (map tn_id (tenants db))"
  shows "\<exists>e \<in> {IntegrityError, DataError}. flush_audit E db
     [\<lparr>au_tenant_id = nil_uuid, au_user_id = Some uid, au_action = act, au_entity_type = Some ''user'',
       au_entity_id = Some uid, au_ip_address = ip, au_user_agent = ua, au_request_id = rid\<rparr>] = Inl e"
  using assms by (auto simp: audit_error_def)

text \<open>
  An active account with no active membership can never reset its password.  Both handlers
  then write their audit row under the nil UUID, which no tenant has, so the commit fails and
  the whole request is rolled back: the link that was already mailed is not stored, and a
  reset with a valid link leaves the old password and all sessions in place.
\<close>

theorem reset_without_membership_rolls_back:
  assumes "\<And>ms. set (arrange E ms) = set ms"
    and "get_user_by_email em (rs_db s) = OneRow u" "us_is_active u"
    and "get_user_by_reset_token_hash (hash_password_reset_token C tok) (rs_db s) = OneRow u"
    and "us_reset_expires_at u = Some e" "now E \<le> e"
    and "\<And>m. m \<in> set (memberships (rs_db s)) \<Longrightarrow> \<not> is_active_membership (us_id u) m"
    and "nil_uuid \<notin> set (map tn_id (tenants (rs_db s)))"
  shows "\<exists>err \<in> {IntegrityError, DataError}. \<exists>err' \<in> {IntegrityError, DataError}.
     in_request E (forgot_password C E q em) s =
       (Inl err, s\<lparr>rs_pending := [], rs_mail := rs_mail s @ (if email_up E then [ResetEmail (us_email u) (fresh_token E)] else [])\<rparr>) \<and>
     in_request E (reset_password C E q tok pw) s =
       (Inl err', s\<lparr>rs_pending := [], rs_mail := rs_mail s @ (if email_up E then [PasswordChangedEmail (us_email u)] else [])\<rparr>)"
proof -
  have none: "get_active_membership E (us_id u) db = None" if "memberships db = memberships (rs_db s)" for db
    using get_active_membership_None[of db "us_id u" E] assms(1,7) that by simp
  have forgot: "\<exists>err \<in> {IntegrityError, DataError}. in_request E (forgot_password C E q em) s =
       (Inl err, s\<lparr>rs_pending := [], rs_mail := rs_mail s @ (if email_up E then [ResetEmail (us_email u) (fresh_token E)] else [])\<rparr>)"
    using assms(2,3,8) audit_of_nobody
    by (simp add: in_request_def forgot_password_def Let_def none audit_tenant_def create_audit_log_def
        update_password_reset_token_def put_user_def audit_error_def send_email_def)
  have reset: "\<exists>err \<in> {IntegrityError, DataError}. in_request E (reset_password C E q tok pw) s =
       (Inl err, s\<lparr>rs_pending := [], rs_mail := rs_mail s @ (if email_up E then [PasswordChangedEmail (us_email u)] else [])\<rparr>)"
    using assms(4,5,6,8)
    by (simp add: in_request_def reset_password_def Let_def none audit_tenant_def create_audit_log_def
        complete_password_reset_def revoke_all_user_refresh_tokens_def put_user_def audit_error_def send_email_def)
  from forgot reset show ?thesis by blast
qed

text \<open>When a token verifies, and when the middleware and a role dependency let a request through.\<close>

lemma verify_access_token_Inr:
  "verify_access_token C t token = Inr p \<longleftrightarrow>
     (\<exists>raw sub tid. jwt_decode C t token = Inr raw \<and> cl_type raw = ''access'' \<and>
        uuid_of_string (cl_sub raw) = Inr sub \<and> uuid_of_string (cl_tid raw) = Inr tid \<and>
        p = \<lparr>tp_sub = sub, tp_tid = tid, tp_role = cl_role raw, tp_jti = cl_jti raw,
             tp_exp = cl_exp raw, tp_iat = cl_iat raw\<rparr>)"
  by (auto simp: verify_access_token_def split: sum.splits jwt_error.splits)

definition context_of :: "token_payload \<Rightarrow> auth_context" where
  "context_of p = \<lparr>cx_user_id = tp_sub p, cx_tenant_id = tp_tid p, cx_role = tp_role p, cx_jti = tp_jti p, cx_payload = p\<rparr>"

lemma bearer_prefix: "take 7 h = ''Bearer '' \<Longrightarrow> h = ''Bearer '' @ drop 7 h"
  using append_take_drop_id[of 7 h] by simp

lemma jwt_dispatch_bearer:
  "jwt_dispatch C up t bl (Some (''Bearer '' @ token)) =
     (case verify_access_token C t token of Inl e \<Rightarrow> None
      | Inr p \<Rightarrow> if is_jti_blocklisted up t bl (tp_jti p) then None else Some (context_of p))"
  by (simp add: jwt_dispatch_def context_of_def split: sum.split)

lemma jwt_dispatch_Some:
  "jwt_dispatch C up t bl header = Some c \<longleftrightarrow>
     (\<exists>token p. header = Some (''Bearer '' @ token) \<and> verify_access_token C t token = Inr p \<and>
        \<not> is_jti_blocklisted up t bl (tp_jti p) \<and> c = context_of p)" (is "?L \<longleftrightarrow> ?R")
proof
  assume L: ?L
  then obtain h where h: "header = Some h" "take 7 h = ''Bearer ''"
    by (cases header) (auto simp: jwt_dispatch_def split: if_splits)
  then have hd: "header = Some (''Bearer '' @ drop 7 h)" using bearer_prefix by simp
  with L have "jwt_dispatch C up t bl (Some (''Bearer '' @ drop 7 h)) = Some c" by (simp only:)
  then have "\<exists>p. verify_access_token C t (drop 7 h) = Inr p \<and> \<not> is_jti_blocklisted up t bl (tp_jti p) \<and> c = context_of p"
    unfolding jwt_dispatch_bearer by (auto split: sum.splits if_splits)
  with hd show ?R by blast
next
  assume ?R
  then obtain token p where b: "header = Some (''Bearer '' @ token)" "verify_access_token C t token = Inr p"
      "\<not> is_jti_blocklisted up t bl (tp_jti p)" "c = context_of p" by blast
  show ?L unfolding b(1) jwt_dispatch_bearer using b(2-4) by simp
qed

lemma require_role_Inr:
  "require_role minimum ctx = Inr c \<longleftrightarrow>
     ctx = Some c \<and> (\<exists>r. cx_role c = role_value r \<and> minimum \<le> r)"
proof -
  have "require_role minimum ctx = Inr c \<longleftrightarrow>
     ctx = Some c \<and> role_rank (role_value minimum) \<le> role_rank (cx_role c)"
    by (auto simp: require_role_def require_authenticated_def rbind_eq_Inr not_less split: option.splits if_splits)
  then show ?thesis unfolding role_rank_at_least .
qed

text \<open>
  What lets a request through a role dependency.  The header must be \<^verbatim>\<open>Bearer \<close> and a token
  that decodes to an access payload with well-formed ids, the token must not be on the
  blocklist while Redis answers, and its role must be one of the four with at least the
  required authority; nothing else is consulted, in particular not the database.
\<close>

theorem role_gate:
  "require_role minimum (jwt_dispatch C up t bl header) = Inr c \<longleftrightarrow>
     (\<exists>token raw sub tid r. header = Some (''Bearer '' @ token) \<and> jwt_decode C t token = Inr raw \<and>
        cl_type raw = ''access'' \<and> uuid_of_string (cl_sub raw) = Inr sub \<and> uuid_of_string (cl_tid raw) = Inr tid \<and>
        \<not> is_jti_blocklisted up t bl (cl_jti raw) \<and> cl_role raw = role_value r \<and> minimum \<le> r \<and>
        c = \<lparr>cx_user_id = sub, cx_tenant_id = tid, cx_role = cl_role raw, cx_jti = cl_jti raw,
             cx_payload = \<lparr>tp_sub = sub, tp_tid = tid, tp_role = cl_role raw, tp_jti = cl_jti raw,
                           tp_exp = cl_exp raw, tp_iat = cl_iat raw\<rparr>\<rparr>)"
  unfolding require_role_Inr jwt_dispatch_Some verify_access_token_Inr context_of_def
  by (rule iffI; clarsimp; blast)

lemma logout_revokes:
  assumes "logout E q ctx s = (Inr (), s1)" "tokens_wf (refresh_tokens (rs_db s))"
    and "tok \<in> set (refresh_tokens (rs_db s1))" "rt_jti tok = cx_jti ctx"
  shows "rt_revoked_at tok \<noteq> None"
proof (cases "get_refresh_token_by_jti (cx_jti ctx) (rs_db s)")
  case NoRow
  then have "\<forall>t \<in> set (refresh_tokens (rs_db s)). rt_jti t \<noteq> cx_jti ctx"
    by (simp add: get_refresh_token_by_jti_def scalar_NoRow_iff filter_empty_conv)
  with NoRow assms show ?thesis by (auto simp: logout_def Let_def)
next
  case (OneRow t)
  note m = stored_by_jti[OF OneRow]
  have only: "r = t" if "r \<in> set (refresh_tokens (rs_db s))" "rt_jti r = cx_jti ctx" for r
    using that m assms(2) by (simp add: tokens_wf_def distinct_map) (metis inj_onD)
  show ?thesis
  proof (cases "rt_revoked_at t")
    case None
    with OneRow assms(1) have "refresh_tokens (rs_db s1) = refresh_tokens (revoke_refresh_token (now E) t (rs_db s))"
      by (auto simp: logout_def Let_def)
    with assms(3,4) only show ?thesis
      by (auto simp: revoke_refresh_token_def put_row_def set_update_where)
  next
    case (Some x)
    with OneRow assms only show ?thesis by (auto simp: logout_def Let_def)
  qed
qed (use assms in \<open>simp add: logout_def\<close>)

text \<open>
  Logging out shuts the access token out for whole seconds only.  After a logout with Redis
  answering, the middleware refuses the token until its expiry less the fraction of a second
  by which the remaining lifetime was truncated, and accepts it again from then on for as long as
  it verifies; the paired refresh token is revoked at once.
\<close>

theorem logout_blocks_whole_seconds:
  assumes "in_request E (logout E q ctx) s = (Inr (), s')" "redis_up E"
    and "tokens_wf (refresh_tokens (rs_db s))"
    and "verify_access_token C t token = Inr p" "ctx = context_of p" "now E + 1000000 \<le> tp_exp p"
  shows "jwt_dispatch C True t (rs_blocklist s') (Some (''Bearer '' @ token)) =
           (if t < tp_exp p - (tp_exp p - now E) mod 1000000 then None else Some ctx)
         \<and> (\<forall>tok \<in> set (refresh_tokens (rs_db s')). rt_jti tok = cx_jti ctx \<longrightarrow> rt_revoked_at tok \<noteq> None)"
proof (rule in_request_Inr[OF assms(1)])
  fix s1
  assume h: "logout E q ctx (s\<lparr>rs_pending := []\<rparr>) = (Inr (), s1)"
    and s': "s' = s1\<lparr>rs_db := (rs_db s1)\<lparr>audit_log := audit_log (rs_db s1) @ rs_pending s1\<rparr>, rs_pending := []\<rparr>"
  have ttl: "0 < remaining_ttl (now E) (tp_exp p)"
    "now E + seconds (remaining_ttl (now E) (tp_exp p)) = tp_exp p - (tp_exp p - now E) mod 1000000"
    using assms(6) by (simp_all add: remaining_ttl_def seconds_def minus_mod_eq_div_mult algebra_simps)
  have bl: "rs_blocklist s' = (''blocklist:'' @ tp_jti p, tp_exp p - (tp_exp p - now E) mod 1000000) # rs_blocklist s"
    using h s' ttl assms(2,5)
    by (auto simp: logout_def Let_def context_of_def blocklist_jti_def split: scalar.splits if_splits)
  have dispatch: "jwt_dispatch C True t (rs_blocklist s') (Some (''Bearer '' @ token)) =
           (if t < tp_exp p - (tp_exp p - now E) mod 1000000 then None else Some ctx)"
    unfolding jwt_dispatch_bearer assms(4,5) bl by (simp add: is_jti_blocklisted_def)
  have "rt_revoked_at tok \<noteq> None" if "tok \<in> set (refresh_tokens (rs_db s'))" "rt_jti tok = cx_jti ctx" for tok
    using logout_revokes[OF h] assms(3) that s' by simp
  with dispatch show ?thesis by blast
qed

subsection \<open>Concrete runs\<close>

text \<open>
  One account with a membership in a workspace and one without; the parameters stand-ins
  that satisfy the laws used above.
\<close>

definition demo_uid :: uuid where "demo_uid = ''11111111-1111-1111-1111-111111111111''"
definition demo_tid :: uuid where "demo_tid = ''22222222-2222-2222-2222-222222222222''"

definition demo_claims :: claims where
  "demo_claims = \<lparr>cl_sub = demo_uid, cl_tid = demo_tid, cl_role = ''analyst'', cl_jti = ''j0'',
                  cl_exp = 900000000, cl_iat = 0, cl_type = ''access''\<rparr>"

definition demo_crypto :: crypto where
  "demo_crypto = \<lparr>sha256_hexdigest = (\<lambda>s. ''#'' @ s), sha256_digest = (\<lambda>s. s),
     bcrypt_hashpw = (\<lambda>p s. s @ p), bcrypt_checkpw = (\<lambda>p h. Some (h = ''$'' @ p)),
     jwt_encode = cl_jti,
     jwt_decode = (\<lambda>t x. if x \<noteq> ''j0'' then Inl JWTError else if 900000000 < t then Inl ExpiredSignatureError else Inr demo_claims)\<rparr>"

definition demo_env :: auth_env where
  "demo_env = \<lparr>now = 500000, fresh_salt = ''$'', fresh_jti = ''j1'', fresh_token = ''raw1'', fresh_slug = (\<lambda>n. n),
     fresh_tenant_id = ''t9'', fresh_user_id = ''u9'', fresh_membership_id = ''m9'', fresh_token_id = ''r1'',
     arrange = (\<lambda>ms. ms), inet_ok = (\<lambda>_. True), redis_up = True, email_up = True, is_breached = False,
     access_minutes = 15, refresh_days = 30, reset_hours = 1\<rparr>"

definition demo_request :: http_request where
  "demo_request = \<lparr>rq_forwarded_for = Some ''10.0.0.1, 10.0.0.2'', rq_client_host = None, rq_user_agent = None, rq_request_id = None\<rparr>"

definition demo_user :: user where
  "demo_user = \<lparr>us_id = demo_uid, us_email = ''a'', us_full_name = ''A'', us_password_hash = ''$pw'', us_is_active = True,
     us_reset_token = Some ''#link'', us_reset_expires_at = Some 1000000, us_last_login_at = None, us_deleted_at = None\<rparr>"

definition demo_old_token :: refresh_token where
  "demo_old_token = \<lparr>rt_id = ''r0'', rt_user_id = demo_uid, rt_tenant_id = demo_tid, rt_token_hash = ''#raw0'', rt_jti = ''j0'',
     rt_expires_at = 1000000, rt_revoked_at = None, rt_ip_address = None, rt_user_agent = None\<rparr>"

definition demo_membership :: membership where
  "demo_membership = \<lparr>mb_id = ''m0'', mb_tenant_id = demo_tid, mb_user_id = demo_uid, mb_role = ANALYST, mb_invited_by_id = None,
     mb_is_active = True, mb_joined_at = None, mb_deleted_at = None\<rparr>"

definition demo_state :: request_state where
  "demo_state = \<lparr>rs_db = \<lparr>tenants = [\<lparr>tn_id = demo_tid, tn_name = ''T'', tn_slug = ''t''\<rparr>], users = [demo_user],
     memberships = [demo_membership], refresh_tokens = [demo_old_token], audit_log = []\<rparr>,
     rs_pending = [], rs_blocklist = [], rs_mail = []\<rparr>"

lemma demo_wf: "tokens_wf (refresh_tokens (rs_db demo_state))"
  by (simp add: demo_state_def tokens_wf_def)

lemma demo_arrange: "set (arrange demo_env ms) = set ms"
  by (simp add: demo_env_def)

definition demo_refresh :: "(auth_error + auth_reply) \<times> request_state" where
  "demo_refresh = in_request demo_env (refresh demo_crypto demo_env demo_request (Some ''raw0'')) demo_state"

lemma run_returns:
  assumes "case fst x of Inr r \<Rightarrow> P r | Inl _ \<Rightarrow> False"
  obtains r where "x = (Inr r, snd x)" "P r"
  using assms by (cases x; cases "fst x") auto

lemma demo_refresh_runs: "case fst demo_refresh of Inr r \<Rightarrow> ar_cookie r = ''raw1'' | Inl _ \<Rightarrow> False"
  by code_simp

lemma refresh_cookie_single_use_witness:
  "fst (in_request demo_env (refresh demo_crypto demo_env demo_request (Some ''raw0'')) (snd demo_refresh))
     = Inl (UnauthorizedError INVALID_TOKEN)"
  by (rule run_returns[OF demo_refresh_runs])
     (rule refresh_cookie_single_use[OF demo_wf _ auth_start], simp add: demo_refresh_def)

lemma refresh_rotates_witness:
  "\<exists>old \<in> set (refresh_tokens (rs_db demo_state)). \<exists>m \<in> set (memberships (rs_db demo_state)).
     rt_token_hash old = ''#raw0'' \<and> is_active_membership (rt_user_id old) m \<and>
     length (refresh_tokens (rs_db (snd demo_refresh))) = 2"
proof (rule run_returns[OF demo_refresh_runs])
  fix r
  assume "demo_refresh = (Inr r, snd demo_refresh)"
  then have "in_request demo_env (refresh demo_crypto demo_env demo_request (Some ''raw0'')) demo_state = (Inr r, snd demo_refresh)"
    by (simp add: demo_refresh_def)
  from refresh_rotates[OF demo_wf demo_arrange this] show ?thesis
    by (auto simp: demo_state_def hash_refresh_token_def demo_crypto_def)
qed

definition demo_reset :: "(auth_error + unit) \<times> request_state" where
  "demo_reset = in_request demo_env (reset_password demo_crypto demo_env demo_request ''link'' ''new'') demo_state"

lemma demo_reset_runs: "case fst demo_reset of Inr r \<Rightarrow> r = () | Inl _ \<Rightarrow> False"
  by code_simp

lemma reset_ends_sessions_witness:
  "fst (in_request demo_env (refresh demo_crypto demo_env demo_request (Some ''raw0'')) (snd demo_reset))
     = Inl (UnauthorizedError INVALID_TOKEN)"
proof (rule run_returns[OF demo_reset_runs])
  fix r
  assume "demo_reset = (Inr r, snd demo_reset)"
  then have run: "in_request demo_env (reset_password demo_crypto demo_env demo_request ''link'' ''new'') demo_state = (Inr r, snd demo_reset)"
    by (simp add: demo_reset_def)
  have d: "distinct (map us_id (users (rs_db demo_state)))" by (simp add: demo_state_def)
  from reset_ends_sessions[OF demo_wf d run auth_start, of "''raw0''" demo_env demo_request] show ?thesis
    by (simp add: demo_state_def demo_user_def demo_old_token_def hash_refresh_token_def demo_crypto_def)
qed

definition demo_lonely :: request_state where
  "demo_lonely = demo_state\<lparr>rs_db := (rs_db demo_state)\<lparr>memberships := []\<rparr>\<rparr>"

lemma reset_without_membership_rolls_back_witness:
  "rs_db (snd (in_request demo_env (reset_password demo_crypto demo_env demo_request ''link'' ''new'') demo_lonely)) = rs_db demo_lonely"
proof -
  have h: "get_user_by_email ''a'' (rs_db demo_lonely) = OneRow demo_user" "us_is_active demo_user"
    "get_user_by_reset_token_hash (hash_password_reset_token demo_crypto ''link'') (rs_db demo_lonely) = OneRow demo_user"
    "us_reset_expires_at demo_user = Some 1000000" "now demo_env \<le> 1000000"
    "\<And>m. m \<in> set (memberships (rs_db demo_lonely)) \<Longrightarrow> \<not> is_active_membership (us_id demo_user) m"
    "nil_uuid \<notin> set (map tn_id (tenants (rs_db demo_lonely)))"
    by (simp_all add: demo_lonely_def demo_state_def demo_user_def demo_env_def get_user_by_email_def
        get_user_by_reset_token_hash_def hash_password_reset_token_def demo_crypto_def nil_uuid_def demo_tid_def)
  from reset_without_membership_rolls_back[OF demo_arrange h, of demo_request "''new''"]
  show ?thesis by auto
qed

definition demo_payload :: token_payload where
  "demo_payload = \<lparr>tp_sub = demo_uid, tp_tid = demo_tid, tp_role = ''analyst'', tp_jti = ''j0'', tp_exp = 900000000, tp_iat = 0\<rparr>"

definition demo_logout :: "(auth_error + unit) \<times> request_state" where
  "demo_logout = in_request demo_env (logout demo_env demo_request (context_of demo_payload)) demo_state"

lemma demo_logout_runs: "case fst demo_logout of Inr r \<Rightarrow> r = () | Inl _ \<Rightarrow> False"
  by code_simp

lemma demo_token_verifies: "verify_access_token demo_crypto 899600000 ''j0'' = Inr demo_payload"
  by code_simp

text \<open>Logged out half a second past the second, the token works again for its last 0.5 s.\<close>

lemma logout_blocks_whole_seconds_witness:
  "jwt_dispatch demo_crypto True 899600000 (rs_blocklist (snd demo_logout)) (Some (''Bearer '' @ ''j0''))
     = Some (context_of demo_payload)"
proof (rule run_returns[OF demo_logout_runs])
  fix r
  assume "demo_logout = (Inr r, snd demo_logout)"
  then have run: "in_request demo_env (logout demo_env demo_request (context_of demo_payload)) demo_state = (Inr (), snd demo_logout)"
    by (simp add: demo_logout_def)
  have "redis_up demo_env" "now demo_env + 1000000 \<le> tp_exp demo_payload"
    by (simp_all add: demo_env_def demo_payload_def)
  from logout_blocks_whole_seconds[OF run this(1) demo_wf demo_token_verifies refl this(2)] show ?thesis
    by (simp add: demo_payload_def demo_env_def)
qed

end
