(* ===== verification/Invitations.thy ===== *)
theory Invitations
  imports Auth
begin

text \<open>
  Team invitations: \<^verbatim>\<open>apps/api/repositories/invitations.py\<close> and the handlers of
  \<^verbatim>\<open>apps/api/routers/invitations.py\<close>.  The role dependency of a handler is its first step, the
  transaction of \<open>get_db\<close> surrounds it.  Emails are kept as recipient, raw token and role.
\<close>

subsection \<open>Rows and state\<close>

datatype InvitationStatus = INV_PENDING | INV_ACCEPTED | INV_CANCELLED | INV_EXPIRED

fun invitation_status_value :: "InvitationStatus \<Rightarrow> string" where
  "invitation_status_value INV_PENDING = ''pending''"
| "invitation_status_value INV_ACCEPTED = ''accepted''"
| "invitation_status_value INV_CANCELLED = ''cancelled''"
| "invitation_status_value INV_EXPIRED = ''expired''"

record invitation =
  iv_id :: uuid
  iv_tenant_id :: uuid
  iv_invitee_email :: string
  iv_role :: string
  iv_token_hash :: string
  iv_status :: string
  iv_expires_at :: instant
  iv_accepted_at :: "instant option"
  iv_invited_by_id :: "uuid option"
  iv_accepted_by_id :: "uuid option"
  iv_created_at :: instant
  iv_updated_at :: instant

definition is_expired :: "instant \<Rightarrow> invitation \<Rightarrow> bool" where
  "is_expired t i = (iv_expires_at i < t)"

definition is_usable :: "instant \<Rightarrow> invitation \<Rightarrow> bool" where
  "is_usable t i = (iv_status i = invitation_status_value INV_PENDING \<and> \<not> is_expired t i)"

text \<open>The rows the handlers see, and the emails handed to the backend.\<close>

record inv_state =
  is_db :: auth_db
  is_invitations :: "invitation list"
  is_mail :: "(string \<times> string \<times> string) list"

datatype inv_error =
    InvAuth auth_error | InvNotFound | InvConflict | InvForbidden | InvIntegrityError
  | InvMultipleResults | InvValueError

type_synonym 'a inv_handler = "inv_state \<Rightarrow> (inv_error + 'a) \<times> inv_state"

text \<open>\<open>get_db\<close>: an exception rolls the rows back; emails are out.\<close>

definition inv_transaction :: "'a inv_handler \<Rightarrow> 'a inv_handler" where
  "inv_transaction h s =
     (case h s of
        (Inl e, s1) \<Rightarrow> (Inl e, s1\<lparr>is_db := is_db s, is_invitations := is_invitations s\<rparr>)
      | (Inr x, s1) \<Rightarrow> (Inr x, s1))"

subsection \<open>Repository\<close>

definition invitation_expiry_hours :: int where
  "invitation_expiry_hours = 72"

definition invitation_expiry :: "auth_env \<Rightarrow> instant" where
  "invitation_expiry E = now E + seconds (3600 * invitation_expiry_hours)"

definition hash_invitation_token :: "crypto \<Rightarrow> string \<Rightarrow> string" where
  "hash_invitation_token C raw = sha256_hexdigest C raw"

definition create_invitation_row ::
    "auth_env \<Rightarrow> uuid \<Rightarrow> uuid \<Rightarrow> string \<Rightarrow> string \<Rightarrow> UserRole \<Rightarrow> inv_state \<Rightarrow> inv_error + (invitation \<times> inv_state)" where
  "create_invitation_row E tid by token_hash email role s =
     (let i = \<lparr>iv_id = fresh_token_id E, iv_tenant_id = tid, iv_invitee_email = email, iv_role = role_value role,
               iv_token_hash = token_hash, iv_status = invitation_status_value INV_PENDING,
               iv_expires_at = invitation_expiry E, iv_accepted_at = None, iv_invited_by_id = Some by,
               iv_accepted_by_id = None, iv_created_at = now E, iv_updated_at = now E\<rparr>
      in if iv_id i \<in> set (map iv_id (is_invitations s))
            \<or> iv_token_hash i \<in> set (map iv_token_hash (is_invitations s))
            \<or> tid \<notin> set (map tn_id (tenants (is_db s))) \<or> by \<notin> set (map us_id (users (is_db s)))
         then Inl InvIntegrityError
         else Inr (i, s\<lparr>is_invitations := is_invitations s @ [i]\<rparr>))"

definition get_by_token_hash :: "string \<Rightarrow> invitation list \<Rightarrow> invitation scalar" where
  "get_by_token_hash h is =
     scalar_one_or_none (filter (\<lambda>i. iv_token_hash i = h \<and> iv_status i = invitation_status_value INV_PENDING) is)"

definition get_active_by_email :: "instant \<Rightarrow> uuid \<Rightarrow> string \<Rightarrow> invitation list \<Rightarrow> invitation scalar" where
  "get_active_by_email t tid email is =
     scalar_one_or_none (filter (\<lambda>i. iv_tenant_id i = tid \<and> iv_invitee_email i = email
        \<and> iv_status i = invitation_status_value INV_PENDING \<and> t < iv_expires_at i) is)"

definition put_invitation :: "invitation \<Rightarrow> inv_state \<Rightarrow> inv_state" where
  "put_invitation i s = s\<lparr>is_invitations := put_row iv_id (iv_id i) i (is_invitations s)\<rparr>"

definition accept_row :: "auth_env \<Rightarrow> invitation \<Rightarrow> uuid \<Rightarrow> invitation" where
  "accept_row E i by = i\<lparr>iv_status := invitation_status_value INV_ACCEPTED, iv_accepted_at := Some (now E),
                        iv_accepted_by_id := Some by, iv_updated_at := now E\<rparr>"

definition cancel_row :: "auth_env \<Rightarrow> invitation \<Rightarrow> invitation" where
  "cancel_row E i = i\<lparr>iv_status := invitation_status_value INV_CANCELLED, iv_updated_at := now E\<rparr>"

text \<open>The new hash must be unused: the column is unique.\<close>

definition refresh_invitation_token :: "auth_env \<Rightarrow> invitation \<Rightarrow> string \<Rightarrow> inv_state \<Rightarrow> inv_error + (invitation \<times> inv_state)" where
  "refresh_invitation_token E i new_hash s =
     (let i' = i\<lparr>iv_token_hash := new_hash, iv_expires_at := invitation_expiry E, iv_updated_at := now E\<rparr>
      in if new_hash \<in> set (map iv_token_hash (filter (\<lambda>x. iv_id x \<noteq> iv_id i) (is_invitations s)))
         then Inl InvIntegrityError else Inr (i', put_invitation i' s))"

definition list_for_tenant :: "(invitation list \<Rightarrow> invitation list) \<Rightarrow> uuid \<Rightarrow> string option \<Rightarrow> inv_state \<Rightarrow> invitation list" where
  "list_for_tenant by_created_desc tid status s =
     by_created_desc (filter (\<lambda>i. iv_tenant_id i = tid \<and> (case status of None \<Rightarrow> True | Some x \<Rightarrow> iv_status i = x))
                        (is_invitations s))"

fun role_of_value :: "string \<Rightarrow> inv_error + UserRole" where
  "role_of_value r = (if r = ''owner'' then Inr OWNER else if r = ''admin'' then Inr ADMIN
     else if r = ''analyst'' then Inr ANALYST else if r = ''viewer'' then Inr VIEWER else Inl InvValueError)"

definition join_tenant :: "auth_env \<Rightarrow> uuid \<Rightarrow> uuid \<Rightarrow> string \<Rightarrow> uuid option \<Rightarrow> inv_state \<Rightarrow> inv_error + inv_state" where
  "join_tenant E tid uid role by s =
     rbind (role_of_value role) (\<lambda>r.
       case create_membership E tid uid r by (is_db s) of
         Inl e \<Rightarrow> Inl InvIntegrityError
       | Inr (m, db) \<Rightarrow> Inr (s\<lparr>is_db := db\<rparr>))"

definition get_invited_user :: "string \<Rightarrow> auth_db \<Rightarrow> user scalar" where
  "get_invited_user email db =
     scalar_one_or_none (filter (\<lambda>u. us_email u = email \<and> us_deleted_at u = None \<and> us_is_active u) (users db))"

definition get_membership :: "uuid \<Rightarrow> uuid \<Rightarrow> auth_db \<Rightarrow> membership scalar" where
  "get_membership tid uid db =
     scalar_one_or_none (filter (\<lambda>m. mb_tenant_id m = tid \<and> mb_user_id m = uid \<and> mb_deleted_at m = None) (memberships db))"

subsection \<open>Handlers\<close>

definition dispatch_invitation_email :: "auth_env \<Rightarrow> string \<Rightarrow> string \<Rightarrow> string \<Rightarrow> inv_state \<Rightarrow> inv_state" where
  "dispatch_invitation_email E to raw role s = (if email_up E then s\<lparr>is_mail := is_mail s @ [(to, raw, role)]\<rparr> else s)"

text \<open>The request schema refuses the owner role before the handler runs.\<close>

definition reject_owner_invitation :: "UserRole \<Rightarrow> inv_error + UserRole" where
  "reject_owner_invitation r = (if r = OWNER then Inl InvValueError else Inr r)"

definition create_invitation ::
    "crypto \<Rightarrow> auth_env \<Rightarrow> auth_context option \<Rightarrow> string \<Rightarrow> UserRole \<Rightarrow> invitation inv_handler" where
  "create_invitation C E ctx email role s =
     (case require_role ADMIN ctx of
        Inl e \<Rightarrow> (Inl (InvAuth e), s)
      | Inr c \<Rightarrow>
     (case reject_owner_invitation role of
        Inl e \<Rightarrow> (Inl e, s)
      | Inr role' \<Rightarrow>
     (case get_active_by_email (now E) (cx_tenant_id c) (str_lower email) (is_invitations s) of
        ManyRows \<Rightarrow> (Inl InvMultipleResults, s)
      | OneRow x \<Rightarrow> (Inl InvConflict, s)
      | NoRow \<Rightarrow>
          (case create_invitation_row E (cx_tenant_id c) (cx_user_id c) (hash_invitation_token C (fresh_token E))
                  (str_lower email) role' s of
             Inl e \<Rightarrow> (Inl e, s)
           | Inr (i, s1) \<Rightarrow> (Inr i, dispatch_invitation_email E (iv_invitee_email i) (fresh_token E) (iv_role i) s1)))))"

definition validate_invitation :: "crypto \<Rightarrow> auth_env \<Rightarrow> string \<Rightarrow> (invitation \<times> bool) inv_handler" where
  "validate_invitation C E token s =
     (case get_by_token_hash (hash_invitation_token C token) (is_invitations s) of
        ManyRows \<Rightarrow> (Inl InvMultipleResults, s)
      | NoRow \<Rightarrow> (Inl InvNotFound, s)
      | OneRow i \<Rightarrow> (Inr (i, is_usable (now E) i), s))"

definition accept_invitation :: "crypto \<Rightarrow> auth_env \<Rightarrow> auth_context option \<Rightarrow> string \<Rightarrow> invitation inv_handler" where
  "accept_invitation C E ctx token s =
     (case require_authenticated ctx of
        Inl e \<Rightarrow> (Inl (InvAuth e), s)
      | Inr c \<Rightarrow>
     (case get_by_token_hash (hash_invitation_token C token) (is_invitations s) of
        ManyRows \<Rightarrow> (Inl InvMultipleResults, s)
      | NoRow \<Rightarrow> (Inl InvNotFound, s)
      | OneRow i \<Rightarrow>
          if \<not> is_usable (now E) i then (Inl InvNotFound, s)
          else
     (case get_invited_user (iv_invitee_email i) (is_db s) of
        ManyRows \<Rightarrow> (Inl InvMultipleResults, s)
      | NoRow \<Rightarrow> (Inl InvForbidden, s)
      | OneRow u \<Rightarrow>
          if us_id u \<noteq> cx_user_id c then (Inl InvForbidden, s)
          else
     (case get_membership (iv_tenant_id i) (cx_user_id c) (is_db s) of
        ManyRows \<Rightarrow> (Inl InvMultipleResults, s)
      | OneRow m \<Rightarrow> (Inl InvConflict, s)
      | NoRow \<Rightarrow>
          (let i' = accept_row E i (cx_user_id c); s1 = put_invitation i' s
           in case join_tenant E (iv_tenant_id i) (cx_user_id c) (iv_role i) (iv_invited_by_id i) s1 of
                Inl e \<Rightarrow> (Inl e, s1)
              | Inr s2 \<Rightarrow> (Inr i', s2))))))"

definition resend_invitation :: "crypto \<Rightarrow> auth_env \<Rightarrow> auth_context option \<Rightarrow> string \<Rightarrow> invitation inv_handler" where
  "resend_invitation C E ctx token s =
     (case require_role ADMIN ctx of
        Inl e \<Rightarrow> (Inl (InvAuth e), s)
      | Inr c \<Rightarrow>
     (case get_by_token_hash (hash_invitation_token C token) (is_invitations s) of
        ManyRows \<Rightarrow> (Inl InvMultipleResults, s)
      | NoRow \<Rightarrow> (Inl InvNotFound, s)
      | OneRow i \<Rightarrow>
          if iv_tenant_id i \<noteq> cx_tenant_id c then (Inl InvNotFound, s)
          else if iv_status i \<noteq> invitation_status_value INV_PENDING then (Inl InvConflict, s)
          else
          (case refresh_invitation_token E i (hash_invitation_token C (fresh_token E)) s of
             Inl e \<Rightarrow> (Inl e, s)
           | Inr (i', s1) \<Rightarrow> (Inr i', dispatch_invitation_email E (iv_invitee_email i') (fresh_token E) (iv_role i') s1))))"

definition cancel_invitation :: "crypto \<Rightarrow> auth_env \<Rightarrow> auth_context option \<Rightarrow> string \<Rightarrow> unit inv_handler" where
  "cancel_invitation C E ctx token s =
     (case require_role ADMIN ctx of
        Inl e \<Rightarrow> (Inl (InvAuth e), s)
      | Inr c \<Rightarrow>
     (case get_by_token_hash (hash_invitation_token C token) (is_invitations s) of
        ManyRows \<Rightarrow> (Inl InvMultipleResults, s)
      | NoRow \<Rightarrow> (Inl InvNotFound, s)
      | OneRow i \<Rightarrow>
          if iv_tenant_id i \<noteq> cx_tenant_id c then (Inl InvNotFound, s)
          else if iv_status i \<noteq> invitation_status_value INV_PENDING then (Inl InvConflict, s)
          else (Inr (), put_invitation (cancel_row E i) s)))"

subsection \<open>Settled invitations never move again\<close>

definition invs_wf :: "invitation list \<Rightarrow> bool" where
  "invs_wf is = (distinct (map iv_id is) \<and> distinct (map iv_token_hash is))"

definition settled_kept :: "invitation list \<Rightarrow> invitation list \<Rightarrow> bool" where
  "settled_kept is is' = (\<forall>i \<in> set is. iv_status i \<noteq> ''pending'' \<longrightarrow> i \<in> set is')"

lemma settled_kept_refl [simp]: "settled_kept is is"
  by (simp add: settled_kept_def)

lemma settled_kept_trans: "settled_kept a b \<Longrightarrow> settled_kept b c \<Longrightarrow> settled_kept a c"
  by (auto simp: settled_kept_def)

lemma pending_found:
  "get_by_token_hash h is = OneRow i \<Longrightarrow> i \<in> set is \<and> iv_token_hash i = h \<and> iv_status i = ''pending''"
  unfolding get_by_token_hash_def by (drule scalar_filter_OneRow) simp

lemma settled_not_found:
  assumes "invs_wf is" "i \<in> set is" "iv_token_hash i = h" "iv_status i \<noteq> ''pending''"
  shows "get_by_token_hash h is = NoRow"
proof -
  have "j = i" if "j \<in> set is" "iv_token_hash j = h" for j
    using that assms(1-3) by (simp add: invs_wf_def distinct_map) (metis inj_onD)
  then show ?thesis
    using assms(4) by (auto simp: get_by_token_hash_def scalar_NoRow_iff filter_empty_conv)
qed

lemma put_pending:
  assumes "invs_wf is" "i \<in> set is" "iv_status i = ''pending''" "iv_id i' = iv_id i"
    and "iv_token_hash i' \<notin> set (map iv_token_hash (filter (\<lambda>x. iv_id x \<noteq> iv_id i) is))"
  shows "settled_kept is (put_row iv_id (iv_id i) i' is)" "invs_wf (put_row iv_id (iv_id i) i' is)"
proof -
  have only: "j = i" if "j \<in> set is" "iv_id j = iv_id i" for j
    using that assms(1,2) by (simp add: invs_wf_def distinct_map) (metis inj_onD)
  show "settled_kept is (put_row iv_id (iv_id i) i' is)"
    using only assms(3) by (auto simp: settled_kept_def put_row_def set_update_where)
  have ids: "map iv_id (put_row iv_id (iv_id i) i' is) = map iv_id is"
    by (rule put_row_keys) (rule assms(4))
  have "distinct (map iv_token_hash (put_row iv_id (iv_id i) i' is))"
    using assms(1,5)
  proof (induction "is")
    case (Cons a "is")
    have tail: "put_row iv_id (iv_id i) i' is = is" if "iv_id a = iv_id i"
      unfolding put_row_def using Cons.prems(1) that
      by (intro update_where_none) (auto simp: invs_wf_def, metis image_eqI)
    have hashes: "iv_token_hash ` set (put_row iv_id (iv_id i) i' is)
                    \<subseteq> insert (iv_token_hash i') (iv_token_hash ` {x \<in> set is. iv_id x \<noteq> iv_id i})"
      by (auto dest: set_put_row)
    show ?case
    proof (cases "iv_id a = iv_id i")
      case True
      have "x \<in> set is \<Longrightarrow> iv_id x \<noteq> iv_id i" for x
        using Cons.prems(1) True by (auto simp: invs_wf_def) (metis image_eqI)
      then have "filter (\<lambda>x. iv_id x \<noteq> iv_id i) is = is" by simp
      with True Cons.prems tail show ?thesis by (simp add: put_row_def invs_wf_def)
    next
      case False
      have IH: "distinct (map iv_token_hash (put_row iv_id (iv_id i) i' is))"
        using Cons.prems False by (intro Cons.IH) (auto simp: invs_wf_def)
      have "iv_token_hash a \<notin> iv_token_hash ` set (put_row iv_id (iv_id i) i' is)"
        using hashes Cons.prems False by (auto simp: invs_wf_def)
      with False IH show ?thesis by (simp add: put_row_def)
    qed
  qed (simp add: put_row_def)
  with ids assms(1) show "invs_wf (put_row iv_id (iv_id i) i' is)" by (simp add: invs_wf_def)
qed

lemma own_hash_free:
  assumes "invs_wf is" "i \<in> set is"
  shows "iv_token_hash i \<notin> set (map iv_token_hash (filter (\<lambda>x. iv_id x \<noteq> iv_id i) is))"
  using assms by (auto simp: invs_wf_def distinct_map dest: inj_onD)

definition inv_keeps :: "'a inv_handler \<Rightarrow> bool" where
  "inv_keeps h = (\<forall>s x s1. h s = (Inr x, s1) \<longrightarrow> invs_wf (is_invitations s) \<longrightarrow>
     settled_kept (is_invitations s) (is_invitations s1) \<and> invs_wf (is_invitations s1))"

lemma put_invitation_keeps:
  assumes "invs_wf (is_invitations s)" "i \<in> set (is_invitations s)" "iv_status i = ''pending''"
    and "iv_id i' = iv_id i" "iv_token_hash i' = iv_token_hash i"
  shows "settled_kept (is_invitations s) (is_invitations (put_invitation i' s))
         \<and> invs_wf (is_invitations (put_invitation i' s))"
  using put_pending[OF assms(1-4)] own_hash_free[OF assms(1,2)] assms(4,5)
  by (simp add: put_invitation_def)

lemma dispatch_email_rows [simp]:
  "is_invitations (dispatch_invitation_email E t r x s) = is_invitations s"
  "is_db (dispatch_invitation_email E t r x s) = is_db s"
  by (simp_all add: dispatch_invitation_email_def)

lemma create_row_keeps:
  "create_invitation_row E tid by h em r s = Inr (i, s1) \<Longrightarrow> invs_wf (is_invitations s) \<Longrightarrow>
     settled_kept (is_invitations s) (is_invitations s1) \<and> invs_wf (is_invitations s1)"
  by (auto simp: create_invitation_row_def Let_def invs_wf_def settled_kept_def split: if_splits)

lemma create_keeps: "inv_keeps (create_invitation C E ctx em r)"
  unfolding inv_keeps_def create_invitation_def
  by (auto split: sum.splits scalar.splits dest: create_row_keeps)

lemma validate_keeps: "inv_keeps (validate_invitation C E tok)"
  unfolding inv_keeps_def validate_invitation_def by (auto split: scalar.splits)

lemma join_tenant_Inr:
  assumes "join_tenant E t u role b s = Inr s1"
  obtains r m db where "role_of_value role = Inr r" "create_membership E t u r b (is_db s) = Inr (m, db)"
    "s1 = s\<lparr>is_db := db\<rparr>"
proof (cases "role_of_value role")
  case (Inr r)
  then show ?thesis
  proof (cases "create_membership E t u r b (is_db s)")
    case (Inr md)
    obtain m db where "md = (m, db)" by fastforce
    with assms \<open>role_of_value role = Inr r\<close> Inr that show ?thesis by (simp add: join_tenant_def)
  qed (use assms in \<open>simp add: join_tenant_def\<close>)
qed (use assms in \<open>simp add: join_tenant_def\<close>)

lemma create_membership_Inr:
  assumes "create_membership E tid uid r b db = Inr (m, db')"
  shows "memberships db' = memberships db @
       [\<lparr>mb_id = fresh_membership_id E, mb_tenant_id = tid, mb_user_id = uid, mb_role = r, mb_invited_by_id = b,
         mb_is_active = True, mb_joined_at = Some (now E), mb_deleted_at = None\<rparr>]"
    and "x \<in> set (memberships db) \<Longrightarrow> \<not> (mb_tenant_id x = tid \<and> mb_user_id x = uid)"
  using assms by (auto simp: create_membership_def Let_def split: if_splits) (metis (no_types, lifting) image_eqI)

lemma join_tenant_rows: "join_tenant E t u r b s = Inr s1 \<Longrightarrow> is_invitations s1 = is_invitations s"
  by (erule join_tenant_Inr) simp

text \<open>What a successful acceptance went through.\<close>

lemma accept_Inr:
  assumes "accept_invitation C E ctx token s = (Inr x, s1)"
  obtains c i u where "ctx = Some c" "get_by_token_hash (hash_invitation_token C token) (is_invitations s) = OneRow i"
    and "is_usable (now E) i" "get_invited_user (iv_invitee_email i) (is_db s) = OneRow u" "us_id u = cx_user_id c"
    and "get_membership (iv_tenant_id i) (cx_user_id c) (is_db s) = NoRow"
    and "join_tenant E (iv_tenant_id i) (cx_user_id c) (iv_role i) (iv_invited_by_id i)
           (put_invitation (accept_row E i (cx_user_id c)) s) = Inr s1"
    and "x = accept_row E i (cx_user_id c)"
  using assms
  by (auto simp: accept_invitation_def require_authenticated_def Let_def
      split: sum.splits scalar.splits if_splits option.splits)

lemma accept_keeps: "inv_keeps (accept_invitation C E ctx tok)"
  unfolding inv_keeps_def
proof (intro allI impI)
  fix s x s1
  assume run: "accept_invitation C E ctx tok s = (Inr x, s1)" and wf: "invs_wf (is_invitations s)"
  show "settled_kept (is_invitations s) (is_invitations s1) \<and> invs_wf (is_invitations s1)"
  proof (rule accept_Inr[OF run])
    fix c i
    assume i: "get_by_token_hash (hash_invitation_token C tok) (is_invitations s) = OneRow i"
      and j: "join_tenant E (iv_tenant_id i) (cx_user_id c) (iv_role i) (iv_invited_by_id i)
           (put_invitation (accept_row E i (cx_user_id c)) s) = Inr s1"
    from pending_found[OF i] join_tenant_rows[OF j] put_invitation_keeps[OF wf, of i "accept_row E i (cx_user_id c)"]
    show ?thesis by (simp add: accept_row_def)
  qed
qed

lemma cancel_keeps: "inv_keeps (cancel_invitation C E ctx tok)"
  unfolding inv_keeps_def cancel_invitation_def
  by (auto split: sum.splits scalar.splits if_splits dest!: pending_found
      simp: cancel_row_def put_invitation_keeps)

lemma resend_keeps: "inv_keeps (resend_invitation C E ctx tok)"
proof -
  have "settled_kept (is_invitations s) (is_invitations s1) \<and> invs_wf (is_invitations s1)"
    if "refresh_invitation_token E i h s = Inr (i', s1)" "i \<in> set (is_invitations s)" "iv_status i = ''pending''"
      "invs_wf (is_invitations s)" for i i' s s1 h
    using that put_pending[of "is_invitations s" i i']
    by (auto simp: refresh_invitation_token_def Let_def put_invitation_def split: if_splits)
  then show ?thesis
    unfolding inv_keeps_def resend_invitation_def
    by (auto split: sum.splits scalar.splits if_splits dest!: pending_found)
qed

text \<open>An acceptance and a cancellation settle the invitation of the link.\<close>

definition has_settled :: "string \<Rightarrow> invitation list \<Rightarrow> bool" where
  "has_settled h is = (\<exists>i \<in> set is. iv_token_hash i = h \<and> iv_status i \<noteq> ''pending'')"

lemma put_settles:
  "i' \<in> set (is_invitations (put_invitation i' s)) \<Longrightarrow> iv_status i' \<noteq> ''pending'' \<Longrightarrow>
     is_invitations s1 = is_invitations (put_invitation i' s) \<Longrightarrow> has_settled (iv_token_hash i') (is_invitations s1)"
  unfolding has_settled_def by auto

lemma put_invitation_mem: "i \<in> set (is_invitations s) \<Longrightarrow> iv_id i' = iv_id i \<Longrightarrow> i' \<in> set (is_invitations (put_invitation i' s))"
  by (auto simp: put_invitation_def put_row_def set_update_where)

lemma accept_settles:
  assumes "accept_invitation C E ctx token s = (Inr x, s1)"
  shows "has_settled (hash_invitation_token C token) (is_invitations s1)"
proof (rule accept_Inr[OF assms])
  fix c i
  assume i: "get_by_token_hash (hash_invitation_token C token) (is_invitations s) = OneRow i"
    and j: "join_tenant E (iv_tenant_id i) (cx_user_id c) (iv_role i) (iv_invited_by_id i)
         (put_invitation (accept_row E i (cx_user_id c)) s) = Inr s1"
  show ?thesis
    using put_settles[OF put_invitation_mem[of i s "accept_row E i (cx_user_id c)"] _ join_tenant_rows[OF j]]
      pending_found[OF i] by (simp add: accept_row_def)
qed

lemma cancel_settles:
  assumes "cancel_invitation C E ctx token s = (Inr x, s1)"
  shows "has_settled (hash_invitation_token C token) (is_invitations s1)"
proof -
  from assms obtain i where i: "get_by_token_hash (hash_invitation_token C token) (is_invitations s) = OneRow i"
      "s1 = put_invitation (cancel_row E i) s"
    by (auto simp: cancel_invitation_def split: sum.splits scalar.splits if_splits)
  show ?thesis
    using put_settles[OF put_invitation_mem[of i s "cancel_row E i"], of s1] pending_found[OF i(1)] i(2)
    by (simp add: cancel_row_def)
qed

subsection \<open>Sequences of requests\<close>

datatype inv_call =
    CallCreate "auth_context option" string UserRole
  | CallAccept "auth_context option" string
  | CallResend "auth_context option" string
  | CallCancel "auth_context option" string

definition inv_serve :: "crypto \<Rightarrow> auth_env \<Rightarrow> inv_call \<Rightarrow> inv_state \<Rightarrow> inv_state" where
  "inv_serve C E call s =
     (case call of
        CallCreate ctx em r \<Rightarrow> snd (inv_transaction (create_invitation C E ctx em r) s)
      | CallAccept ctx tok \<Rightarrow> snd (inv_transaction (accept_invitation C E ctx tok) s)
      | CallResend ctx tok \<Rightarrow> snd (inv_transaction (resend_invitation C E ctx tok) s)
      | CallCancel ctx tok \<Rightarrow> snd (inv_transaction (cancel_invitation C E ctx tok) s))"

inductive inv_run :: "crypto \<Rightarrow> inv_state \<Rightarrow> inv_state \<Rightarrow> bool" for C where
  inv_start: "inv_run C s s"
| inv_request: "inv_run C s s1 \<Longrightarrow> inv_run C s (inv_serve C E call s1)"
| inv_elsewhere: "inv_run C s s1 \<Longrightarrow> is_invitations s2 = is_invitations s1 \<Longrightarrow> inv_run C s s2"

lemma transaction_keeps:
  assumes "inv_keeps h" "invs_wf (is_invitations s)"
  shows "settled_kept (is_invitations s) (is_invitations (snd (inv_transaction h s)))
         \<and> invs_wf (is_invitations (snd (inv_transaction h s)))"
  using assms by (auto simp: inv_transaction_def inv_keeps_def split: prod.splits sum.splits)

lemma inv_run_keeps:
  "inv_run C s s' \<Longrightarrow> invs_wf (is_invitations s) \<Longrightarrow>
     settled_kept (is_invitations s) (is_invitations s') \<and> invs_wf (is_invitations s')"
proof (induction rule: inv_run.induct)
  case (inv_request s s1 E call)
  then have "settled_kept (is_invitations s1) (is_invitations (inv_serve C E call s1))
      \<and> invs_wf (is_invitations (inv_serve C E call s1))"
    by (cases call) (simp_all add: inv_serve_def transaction_keeps create_keeps accept_keeps resend_keeps cancel_keeps)
  with inv_request show ?case using settled_kept_trans by blast
qed auto

lemma inv_transaction_Inr: "inv_transaction h s = (Inr x, s') \<longleftrightarrow> h s = (Inr x, s')"
  by (auto simp: inv_transaction_def split: prod.splits sum.splits)

subsection \<open>Properties\<close>

text \<open>
  C14: an invitation link dies with its first use.  Once an acceptance or a cancellation of the link has
  succeeded, no later sequence of invitation requests (interleaved with anything that leaves
  the invitations alone) revives it: looking it up, accepting, resending and cancelling all
  answer 404 to a caller who passes the role dependency.  (The description of the DELETE endpoint promises 409;
  the look-up finds pending rows only, so the check that would answer 409 is never reached.)
\<close>

theorem settled_invitation_stays_dead:
  assumes "invs_wf (is_invitations s)"
    and "inv_transaction (accept_invitation C E ctx token) s = (Inr x, s1)
         \<or> inv_transaction (cancel_invitation C E ctx token) s = (Inr (), s1)"
    and "inv_run C s1 s2" "require_role ADMIN (Some c) = Inr c"
  shows "fst (inv_transaction (validate_invitation C E2 token) s2) = Inl InvNotFound \<and>
         fst (inv_transaction (accept_invitation C E2 (Some c) token) s2) = Inl InvNotFound \<and>
         fst (inv_transaction (resend_invitation C E2 (Some c) token) s2) = Inl InvNotFound \<and>
         fst (inv_transaction (cancel_invitation C E2 (Some c) token) s2) = Inl InvNotFound"
proof -
  let ?h = "hash_invitation_token C token"
  have settled: "has_settled ?h (is_invitations s1)"
    using assms(2) accept_settles cancel_settles unfolding inv_transaction_Inr by blast
  have wf1: "invs_wf (is_invitations s1)"
    using assms(1,2) accept_keeps cancel_keeps unfolding inv_transaction_Inr inv_keeps_def by blast
  note run = inv_run_keeps[OF assms(3) wf1]
  from settled run obtain i where "i \<in> set (is_invitations s2)" "iv_token_hash i = ?h" "iv_status i \<noteq> ''pending''"
    unfolding settled_kept_def has_settled_def by blast
  with run have "get_by_token_hash ?h (is_invitations s2) = NoRow" using settled_not_found by blast
  with assms(4) show ?thesis
    by (simp add: inv_transaction_def validate_invitation_def accept_invitation_def resend_invitation_def
        cancel_invitation_def require_authenticated_def)
qed

text \<open>
  C30: what accepting an invitation grants.  A successful acceptance was made by the active account
  whose email the pending, unexpired invitation names, and adds exactly one membership: in the
  invitation's workspace, with the invitation's role, for an account that had no membership row there,
  live or deleted.
\<close>

theorem accept_grants_invited_role:
  assumes "inv_transaction (accept_invitation C E (Some c) token) s = (Inr x, s')"
  shows "\<exists>i \<in> set (is_invitations s). \<exists>u \<in> set (users (is_db s)). \<exists>r.
     iv_token_hash i = hash_invitation_token C token \<and> is_usable (now E) i \<and>
     us_email u = iv_invitee_email i \<and> us_is_active u \<and> us_deleted_at u = None \<and> us_id u = cx_user_id c \<and>
     iv_role i = role_value r \<and>
     memberships (is_db s') = memberships (is_db s) @
       [\<lparr>mb_id = fresh_membership_id E, mb_tenant_id = iv_tenant_id i, mb_user_id = cx_user_id c, mb_role = r,
         mb_invited_by_id = iv_invited_by_id i, mb_is_active = True, mb_joined_at = Some (now E), mb_deleted_at = None\<rparr>] \<and>
     (\<forall>m \<in> set (memberships (is_db s)). \<not> (mb_tenant_id m = iv_tenant_id i \<and> mb_user_id m = cx_user_id c))"
proof (rule accept_Inr[OF assms[unfolded inv_transaction_Inr]])
  fix c' i u
  assume a: "Some c = Some c'" "get_by_token_hash (hash_invitation_token C token) (is_invitations s) = OneRow i"
    "is_usable (now E) i" "get_invited_user (iv_invitee_email i) (is_db s) = OneRow u" "us_id u = cx_user_id c'"
    "join_tenant E (iv_tenant_id i) (cx_user_id c') (iv_role i) (iv_invited_by_id i)
           (put_invitation (accept_row E i (cx_user_id c')) s) = Inr s'"
  note i = pending_found[OF a(2)] and u = scalar_filter_OneRow[OF a(4)[unfolded get_invited_user_def]]
  show ?thesis
  proof (rule join_tenant_Inr[OF a(6)])
    fix r m db
    assume j: "role_of_value (iv_role i) = Inr r"
      "create_membership E (iv_tenant_id i) (cx_user_id c') r (iv_invited_by_id i)
         (is_db (put_invitation (accept_row E i (cx_user_id c')) s)) = Inr (m, db)"
      "s' = put_invitation (accept_row E i (cx_user_id c')) s\<lparr>is_db := db\<rparr>"
    have "iv_role i = role_value r" using j(1) by (auto split: if_splits)
    then show ?thesis
      using i u a j
      by (intro bexI[of _ i] bexI[of _ u] exI[of _ r])
         (use create_membership_Inr[OF j(2)] j(3) in \<open>simp_all add: put_invitation_def\<close>)
  qed
qed

text \<open>
  A removed member cannot be invited back.  When the account has only a soft-deleted
  membership in the workspace, accepting a valid invitation passes every check, then violates
  the unique key on workspace and user, so every attempt fails with an integrity error and is
  rolled back, leaving the invitation pending.
\<close>

theorem removed_member_cannot_rejoin:
  assumes "get_by_token_hash (hash_invitation_token C token) (is_invitations s) = OneRow i" "is_usable (now E) i"
    and "get_invited_user (iv_invitee_email i) (is_db s) = OneRow u" "us_id u = cx_user_id c"
    and "get_membership (iv_tenant_id i) (cx_user_id c) (is_db s) = NoRow"
    and "m \<in> set (memberships (is_db s))" "mb_tenant_id m = iv_tenant_id i" "mb_user_id m = cx_user_id c"
    and "iv_role i = role_value r"
  shows "mb_deleted_at m \<noteq> None \<and> inv_transaction (accept_invitation C E (Some c) token) s = (Inl InvIntegrityError, s)"
proof
  show "mb_deleted_at m \<noteq> None"
    using assms(5-8) by (auto simp: get_membership_def scalar_NoRow_iff filter_empty_conv)
  have "(iv_tenant_id i, cx_user_id c) \<in> set (map (\<lambda>x. (mb_tenant_id x, mb_user_id x)) (memberships (is_db s)))"
    using assms(6-8) by force
  moreover have "role_of_value (iv_role i) = Inr r" using assms(9) by (cases r) simp_all
  ultimately have "join_tenant E (iv_tenant_id i) (cx_user_id c) (iv_role i) (iv_invited_by_id i)
      (put_invitation (accept_row E i (cx_user_id c)) s) = Inl InvIntegrityError"
    by (simp add: join_tenant_def create_membership_def Let_def put_invitation_def)
  then show "inv_transaction (accept_invitation C E (Some c) token) s = (Inl InvIntegrityError, s)"
    using assms(1-5)
    by (simp add: inv_transaction_def accept_invitation_def require_authenticated_def Let_def put_invitation_def)
qed

text \<open>
  Two active invitations for one address in one workspace make every further invitation of it
  fail: \<open>scalar_one_or_none\<close> raises.
\<close>

lemma two_active_invitations_block:
  assumes "require_role ADMIN ctx = Inr c" "r \<noteq> OWNER"
    and "2 \<le> length (filter (\<lambda>i. iv_tenant_id i = cx_tenant_id c \<and> iv_invitee_email i = str_lower em
        \<and> iv_status i = ''pending'' \<and> now E < iv_expires_at i) (is_invitations s))"
  shows "create_invitation C E ctx em r s = (Inl InvMultipleResults, s)"
proof -
  have "get_active_by_email (now E) (cx_tenant_id c) (str_lower em) (is_invitations s) = ManyRows"
    using assms(3) by (simp add: get_active_by_email_def scalar_ManyRows_iff)
  with assms(1,2) show ?thesis by (simp add: create_invitation_def reject_owner_invitation_def)
qed

subsection \<open>Concrete runs\<close>

definition demo_invitation :: "string \<Rightarrow> instant \<Rightarrow> invitation" where
  "demo_invitation h e = \<lparr>iv_id = h, iv_tenant_id = demo_tid, iv_invitee_email = ''a'', iv_role = ''viewer'', iv_token_hash = h,
     iv_status = ''pending'', iv_expires_at = e, iv_accepted_at = None, iv_invited_by_id = None,
     iv_accepted_by_id = None, iv_created_at = 0, iv_updated_at = 0\<rparr>"

definition demo_inv_state :: inv_state where
  "demo_inv_state = \<lparr>is_db = rs_db demo_lonely, is_invitations = [demo_invitation ''#x'' 1000000], is_mail = []\<rparr>"

definition demo_admin :: auth_context where
  "demo_admin = \<lparr>cx_user_id = demo_uid, cx_tenant_id = demo_tid, cx_role = ''admin'', cx_jti = ''j0'', cx_payload = demo_payload\<rparr>"

definition demo_accept :: "(inv_error + invitation) \<times> inv_state" where
  "demo_accept = inv_transaction (accept_invitation demo_crypto demo_env (Some demo_admin) ''x'') demo_inv_state"

lemma demo_accept_runs: "case fst demo_accept of Inr i \<Rightarrow> iv_status i = ''accepted'' | Inl _ \<Rightarrow> False"
  by code_simp

lemma settled_invitation_stays_dead_witness:
  "fst (inv_transaction (accept_invitation demo_crypto demo_env (Some demo_admin) ''x'') (snd demo_accept)) = Inl InvNotFound"
proof (rule run_returns[OF demo_accept_runs])
  fix r
  assume "demo_accept = (Inr r, snd demo_accept)"
  then have run: "inv_transaction (accept_invitation demo_crypto demo_env (Some demo_admin) ''x'') demo_inv_state
      = (Inr r, snd demo_accept)" by (simp add: demo_accept_def)
  have h: "invs_wf (is_invitations demo_inv_state)" "require_role ADMIN (Some demo_admin) = Inr demo_admin"
    by (simp_all add: demo_inv_state_def invs_wf_def require_role_def require_authenticated_def demo_admin_def)
  from settled_invitation_stays_dead[OF h(1) disjI1[OF run] inv_start h(2)] show ?thesis by blast
qed

lemma accept_grants_invited_role_witness:
  "memberships (is_db (snd demo_accept)) =
     [\<lparr>mb_id = ''m9'', mb_tenant_id = demo_tid, mb_user_id = demo_uid, mb_role = VIEWER, mb_invited_by_id = None,
       mb_is_active = True, mb_joined_at = Some 500000, mb_deleted_at = None\<rparr>]"
proof (rule run_returns[OF demo_accept_runs])
  fix r
  assume "demo_accept = (Inr r, snd demo_accept)"
  then have run: "inv_transaction (accept_invitation demo_crypto demo_env (Some demo_admin) ''x'') demo_inv_state
      = (Inr r, snd demo_accept)" by (simp add: demo_accept_def)
  have v: "''viewer'' = role_value q \<Longrightarrow> q = VIEWER" for q by (cases q) simp_all
  from accept_grants_invited_role[OF run] show ?thesis
    by (auto simp: demo_inv_state_def demo_lonely_def demo_state_def demo_invitation_def demo_admin_def demo_env_def dest!: v)
qed

definition demo_removed :: inv_state where
  "demo_removed = demo_inv_state\<lparr>is_db := (is_db demo_inv_state)\<lparr>memberships := [demo_membership\<lparr>mb_deleted_at := Some 7\<rparr>]\<rparr>\<rparr>"

lemma removed_member_cannot_rejoin_witness:
  "inv_transaction (accept_invitation demo_crypto demo_env (Some demo_admin) ''x'') demo_removed = (Inl InvIntegrityError, demo_removed)"
proof -
  have h: "get_by_token_hash (hash_invitation_token demo_crypto ''x'') (is_invitations demo_removed) = OneRow (demo_invitation ''#x'' 1000000)"
    "is_usable (now demo_env) (demo_invitation ''#x'' 1000000)"
    "get_invited_user (iv_invitee_email (demo_invitation ''#x'' 1000000)) (is_db demo_removed) = OneRow demo_user"
    "us_id demo_user = cx_user_id demo_admin"
    "get_membership (iv_tenant_id (demo_invitation ''#x'' 1000000)) (cx_user_id demo_admin) (is_db demo_removed) = NoRow"
    "demo_membership\<lparr>mb_deleted_at := Some 7\<rparr> \<in> set (memberships (is_db demo_removed))"
    "mb_tenant_id (demo_membership\<lparr>mb_deleted_at := Some 7\<rparr>) = iv_tenant_id (demo_invitation ''#x'' 1000000)"
    "mb_user_id (demo_membership\<lparr>mb_deleted_at := Some 7\<rparr>) = cx_user_id demo_admin"
    "iv_role (demo_invitation ''#x'' 1000000) = role_value VIEWER"
    by (simp_all add: demo_removed_def demo_inv_state_def demo_lonely_def demo_state_def demo_invitation_def demo_admin_def
        demo_env_def demo_user_def demo_membership_def get_by_token_hash_def hash_invitation_token_def demo_crypto_def
        is_usable_def is_expired_def get_invited_user_def get_membership_def)
  from removed_member_cannot_rejoin[OF h] show ?thesis by blast
qed

text \<open>
  Resending an expired invitation while a newer one is active makes the second active
  invitation the constraint is meant to exclude, and the next one fails.
\<close>

definition demo_two :: inv_state where
  "demo_two = demo_inv_state\<lparr>is_invitations := [demo_invitation ''#x'' 1, demo_invitation ''#y'' 1000000]\<rparr>"

lemma resend_makes_second_active:
  "fst (create_invitation demo_crypto (demo_env\<lparr>fresh_token := ''z'', fresh_token_id := ''r2''\<rparr>) (Some demo_admin) ''A'' VIEWER
      (inv_serve demo_crypto demo_env (CallResend (Some demo_admin) ''x'') demo_two)) = Inl InvMultipleResults"
  by code_simp

end
