(* ===== verification/Tenancy.thy ===== *)
theory Tenancy
  imports Prelude Models
begin

text \<open>
  What the tenant-scoped repositories share: every query carries the tenant of the caller, an
  update loads the row through such a query and flushes it, a list is counted and cut into
  pages.  The repositories of companies and of jobs are instances.
\<close>

subsection \<open>Rows of a tenant\<close>

text \<open>
  \<open>SELECT \<dots> WHERE id = i AND tenant_id = t\<close> with \<open>scalar_one_or_none\<close>: the primary key leaves
  at most one row.
\<close>

definition tenant_get :: "('r \<Rightarrow> uuid) \<Rightarrow> ('r \<Rightarrow> uuid) \<Rightarrow> uuid \<Rightarrow> uuid \<Rightarrow> 'r list \<Rightarrow> 'r option" where
  "tenant_get key tenant_of tid i rows = find (\<lambda>r. key r = i \<and> tenant_of r = tid) rows"

definition tenant_update ::
    "('r \<Rightarrow> uuid) \<Rightarrow> ('r \<Rightarrow> uuid) \<Rightarrow> ('r \<Rightarrow> 'r) \<Rightarrow> uuid \<Rightarrow> uuid \<Rightarrow> 'r list \<Rightarrow> 'r option \<times> 'r list" where
  "tenant_update key tenant_of f tid i rows =
     (case tenant_get key tenant_of tid i rows of
        None \<Rightarrow> (None, rows)
      | Some r \<Rightarrow> (Some (f r), put_row key i (f r) rows))"

lemma tenant_get_Some:
  "tenant_get key tn tid i rows = Some r \<Longrightarrow> r \<in> set rows \<and> key r = i \<and> tn r = tid"
  by (auto simp: tenant_get_def find_Some_iff)

lemma tenant_get_None:
  "tenant_get key tn tid i rows = None \<longleftrightarrow> (\<forall>r \<in> set rows. \<not> (key r = i \<and> tn r = tid))"
  by (auto simp: tenant_get_def find_None_iff)

lemma tenant_get_unique:
  assumes "distinct (map key rows)" "r \<in> set rows"
  shows "tenant_get key tn (tn r) (key r) rows = Some r"
proof -
  have "\<exists>x. tenant_get key tn (tn r) (key r) rows = Some x"
    using assms(2) tenant_get_None[of key tn "tn r" "key r" rows] by (cases "tenant_get key tn (tn r) (key r) rows") auto
  then obtain x where x: "tenant_get key tn (tn r) (key r) rows = Some x" ..
  with tenant_get_Some[OF x] assms show ?thesis by (simp add: distinct_map) (metis inj_onD)
qed

text \<open>An update that keeps the primary key and the tenant of a row.\<close>

locale tenant_rows =
  fixes key :: "'r \<Rightarrow> uuid" and tenant_of :: "'r \<Rightarrow> uuid" and step :: "'p \<Rightarrow> 'r \<Rightarrow> 'r"
  assumes key_step: "key (step p r) = key r"
    and tenant_step: "tenant_of (step p r) = tenant_of r"
begin

lemma keys_kept: "map key (snd (tenant_update key tenant_of (step p) tid i rows)) = map key rows"
proof (cases "tenant_get key tenant_of tid i rows")
  case (Some r)
  with tenant_get_Some[OF Some] show ?thesis
    by (simp add: tenant_update_def put_row_keys key_step)
qed (simp add: tenant_update_def)

lemma foreign_untouched:
  assumes "tenant_get key tenant_of tid i rows = None"
  shows "tenant_update key tenant_of (step p) tid i rows = (None, rows)"
  using assms by (simp add: tenant_update_def)

text \<open>Only the named row of the caller's tenant changes, by the step.\<close>

lemma only_named_row:
  assumes "distinct (map key rows)"
  shows "snd (tenant_update key tenant_of (step p) tid i rows)
           = map (\<lambda>r. if key r = i \<and> tenant_of r = tid then step p r else r) rows"
proof (cases "tenant_get key tenant_of tid i rows")
  case None
  then have "map (\<lambda>r. if key r = i \<and> tenant_of r = tid then step p r else r) rows = rows"
    unfolding tenant_get_None by (intro map_idI) auto
  with None show ?thesis by (simp add: tenant_update_def)
next
  case (Some r)
  note r = tenant_get_Some[OF Some]
  have "x = r" if "x \<in> set rows" "key x = i" for x
    using that r assms by (simp add: distinct_map) (metis inj_onD)
  then show ?thesis using Some r by (auto simp: tenant_update_def put_row_def update_where_def)
qed

lemma read_own_write:
  assumes "tenant_get key tenant_of tid i rows = Some r" "distinct (map key rows)"
  shows "tenant_get key tenant_of tid i (snd (tenant_update key tenant_of (step p) tid i rows)) = Some (step p r)"
proof -
  note r = tenant_get_Some[OF assms(1)]
  have "step p r \<in> set (snd (tenant_update key tenant_of (step p) tid i rows))"
    using r by (auto simp: only_named_row[OF assms(2)] intro!: image_eqI[of _ _ r])
  moreover have "distinct (map key (snd (tenant_update key tenant_of (step p) tid i rows)))"
    using assms(2) by (simp only: keys_kept)
  ultimately show ?thesis
    using tenant_get_unique[of key _ "step p r" tenant_of] r by (simp add: key_step tenant_step)
qed

lemma other_tenants_kept:
  assumes "distinct (map key rows)" "tid' \<noteq> tid"
  shows "filter (\<lambda>r. tenant_of r = tid') (snd (tenant_update key tenant_of (step p) tid i rows))
           = filter (\<lambda>r. tenant_of r = tid') rows"
  unfolding only_named_row[OF assms(1)] using assms(2)
  by (induction rows) (auto simp: tenant_step)

end

subsection \<open>Pages\<close>

text \<open>\<open>OFFSET (page - 1) * size LIMIT size\<close> of an ordered result, and the number of pages.\<close>

definition page_of :: "nat \<Rightarrow> nat \<Rightarrow> 'r list \<Rightarrow> 'r list" where
  "page_of per page rows = take per (drop ((page - 1) * per) rows)"

definition page_count :: "nat \<Rightarrow> nat \<Rightarrow> nat" where
  "page_count per amount = (if per = 0 then 0 else (amount + per - 1) div per)"

lemma pages_prefix:
  "concat (map (\<lambda>p. page_of n p rows) [1..<Suc k]) = take (k * n) rows"
proof (induction k)
  case 0
  then show ?case by simp
next
  case (Suc k)
  have "concat (map (\<lambda>p. page_of n p rows) [1..<Suc (Suc k)]) = take (k * n) rows @ take n (drop (k * n) rows)"
    using Suc by (simp add: page_of_def)
  then show ?case by (simp add: take_add[symmetric] add.commute)
qed

lemma page_count_enough: "0 < n \<Longrightarrow> amount \<le> page_count n amount * n"
proof -
  assume n: "0 < n"
  have "(amount + n - 1) mod n < n" using n by simp
  moreover have "(amount + n - 1) div n * n + (amount + n - 1) mod n = amount + n - 1" by simp
  ultimately have "amount + n - 1 < (amount + n - 1) div n * n + n" by linarith
  with n show ?thesis by (simp add: page_count_def)
qed

lemma page_count_tight: "0 < amount \<Longrightarrow> 0 < n \<Longrightarrow> (page_count n amount - 1) * n < amount"
proof -
  assume t: "0 < amount" and n: "0 < n"
  have le: "(amount + n - 1) div n * n \<le> amount + n - 1" by (simp add: div_times_less_eq_dividend)
  have "((amount + n - 1) div n - 1) * n = (amount + n - 1) div n * n - n" by (simp add: diff_mult_distrib)
  also have "\<dots> < amount" using le t n by linarith
  finally show ?thesis using n by (simp add: page_count_def)
qed

text \<open>The pages put together are the whole result, and none of them is empty.\<close>

lemma pages_cover:
  "0 < n \<Longrightarrow> concat (map (\<lambda>p. page_of n p rows) [1..<Suc (page_count n (length rows))]) = rows"
  unfolding pages_prefix using page_count_enough[of n "length rows"] by simp

lemma page_nonempty:
  assumes "0 < n" "1 \<le> p" "p \<le> page_count n (length rows)"
  shows "page_of n p rows \<noteq> []"
proof -
  have "rows \<noteq> []" using assms by (auto simp: page_count_def)
  then have "(page_count n (length rows) - 1) * n < length rows" using assms(1) page_count_tight by blast
  moreover have "(p - 1) * n \<le> (page_count n (length rows) - 1) * n" using assms(3) by (intro mult_le_mono1 diff_le_mono)
  ultimately have "(p - 1) * n < length rows" by (rule le_less_trans[rotated])
  then show ?thesis using assms(1) by (simp add: page_of_def)
qed

end
