(* ===== verification/PyParse.thy ===== *)
theory PyParse
  imports PyDecimal PyDate
begin

text \<open>
  What the program reads out of text with Python's own functions: \<open>str.split\<close>, \<open>int\<close>,
  \<open>decimal.Decimal\<close>, the constructor \<open>date(y, m, d)\<close> and the attributes \<open>year\<close> and
  \<open>month\<close> of a date.  The lemmas say that a date gives back the year and month it was made
  of, and which number a run of digits denotes.  Digits outside ASCII are left out.
\<close>

subsection \<open>Splitting\<close>

fun split_on :: "char \<Rightarrow> string \<Rightarrow> string list" where
  "split_on s [] = [[]]"
| "split_on s (c # cs) =
     (if c = s then [] # split_on s cs
      else (case split_on s cs of w # ws \<Rightarrow> (c # w) # ws | [] \<Rightarrow> [[c]]))"

lemma split_on_nonempty [simp]: "split_on s cs \<noteq> []"
  by (induction cs) (auto split: list.splits)

lemma split_on_none: "s \<notin> set cs \<Longrightarrow> split_on s cs = [cs]"
  by (induction cs) auto

lemma split_on_append: "s \<notin> set a \<Longrightarrow> split_on s (a @ s # b) = a # split_on s b"
  by (induction a) auto

subsection \<open>Integers\<close>

definition is_digit :: "char \<Rightarrow> bool" where
  "is_digit c = (48 \<le> (of_char c :: nat) \<and> (of_char c :: nat) \<le> 57)"

definition digit :: "char \<Rightarrow> int" where
  "digit c = int (of_char c) - 48"

definition digits_value :: "string \<Rightarrow> int" where
  "digits_value ds = foldl (\<lambda>a c. 10 * a + digit c) 0 ds"

fun split_sign :: "string \<Rightarrow> int \<times> string" where
  "split_sign [] = (1, [])"
| "split_sign (c # cs) = (if c = CHR ''-'' then (-1, cs) else if c = CHR ''+'' then (1, cs) else (1, c # cs))"

text \<open>\<open>int(s)\<close>: underscores may stand between digits, at most 4300 digits are converted.\<close>

definition py_int :: "string \<Rightarrow> py_error + int" where
  "py_int s =
     (let (sg, u) = split_sign (str_strip s); gs = split_on (CHR ''_'') u
      in if list_all (\<lambda>g. g \<noteq> [] \<and> list_all is_digit g) gs \<and> length (concat gs) \<le> 4300
         then Inr (sg * digits_value (concat gs)) else Inl ValueError)"

subsection \<open>Decimal literals\<close>

datatype dec_literal = Finite decimal | Infinite | QuietNaN | SignalingNaN | Malformed

fun split_exponent :: "string \<Rightarrow> string \<times> string option" where
  "split_exponent [] = ([], None)"
| "split_exponent (c # cs) =
     (if c = CHR ''e'' then ([], Some cs) else (case split_exponent cs of (m, e) \<Rightarrow> (c # m, e)))"

definition parse_exponent :: "string option \<Rightarrow> int option" where
  "parse_exponent e =
     (case e of None \<Rightarrow> Some 0
      | Some t \<Rightarrow> (let (sg, ds) = split_sign t
                  in if ds \<noteq> [] \<and> list_all is_digit ds then Some (sg * digits_value ds) else None))"

definition parse_finite :: "int \<Rightarrow> string \<Rightarrow> dec_literal" where
  "parse_finite sg u =
     (let (m, e) = split_exponent u;
          ip = takeWhile (\<lambda>c. c \<noteq> CHR ''.'') m; fp = drop 1 (dropWhile (\<lambda>c. c \<noteq> CHR ''.'') m)
      in if list_all is_digit (ip @ fp) \<and> ip @ fp \<noteq> [] then
           (case parse_exponent e of
              Some x \<Rightarrow> Finite (Dec (sg * digits_value (ip @ fp)) (x - int (length fp)))
            | None \<Rightarrow> Malformed)
         else Malformed)"

definition py_decimal :: "string \<Rightarrow> dec_literal" where
  "py_decimal s =
     (let (sg, t) = split_sign (filter (\<lambda>c. c \<noteq> CHR ''_'') (str_strip s)); u = str_lower t
      in if u = ''inf'' \<or> u = ''infinity'' then Infinite
         else if take 3 u = ''nan'' \<and> list_all is_digit (drop 3 u) then QuietNaN
         else if take 4 u = ''snan'' \<and> list_all is_digit (drop 4 u) then SignalingNaN
         else parse_finite sg u)"

lemma digits_value_append: "digits_value (xs @ [c]) = 10 * digits_value xs + digit c"
  by (simp add: digits_value_def)

lemma digits_value_nonneg: "list_all is_digit ds \<Longrightarrow> 0 \<le> digits_value ds"
  by (induction ds rule: rev_induct)
    (auto simp: digits_value_append digit_def is_digit_def, simp add: digits_value_def)

lemma digits_value_zeros: "digits_value (replicate k CHR ''0'' @ s) = digits_value s"
  by (induction k) (simp_all add: digits_value_def digit_def)

lemma split_exponent_none: "CHR ''e'' \<notin> set m \<Longrightarrow> split_exponent m = (m, None)"
  by (induction m) auto

lemma digit_not_letter:
  assumes "is_digit c"
  shows "c \<noteq> CHR ''.''" "c \<noteq> CHR ''e''" "c \<noteq> CHR ''-''" "c \<noteq> CHR ''+''" "c \<noteq> CHR ''_''" "c \<noteq> CHR ''i''"
    "c \<noteq> CHR ''n''" "c \<noteq> CHR ''s''" "c \<noteq> CHR '',''" "c \<noteq> CHR ''(''" "\<not> is_space c" "char_lower c = c"
  using assms by (auto simp: is_digit_def is_space_def char_lower_def Let_def)

lemma str_strip_id:
  assumes "\<forall>c \<in> set s. \<not> is_space c"
  shows "str_strip s = s"
proof -
  have id: "dropWhile is_space t = t" if "\<forall>c \<in> set t. \<not> is_space c" for t
    using that by (cases t) auto
  show ?thesis using assms id[of s] id[of "rev s"] by (simp add: str_strip_def)
qed

lemma digit_zero: "is_digit CHR ''0''"
  by (simp add: is_digit_def)

lemma strip_digits: "list_all is_digit s \<Longrightarrow> str_strip s = s"
  by (intro str_strip_id) (auto simp: list_all_iff digit_not_letter)

text \<open>A run of digits denotes its value, as an integer and as a decimal of exponent 0.\<close>

lemma py_decimal_digits:
  assumes "list_all is_digit ds" "ds \<noteq> []"
  shows "py_decimal ds = Finite (Dec (digits_value ds) 0)"
proof -
  from assms obtain c cs where ds: "ds = c # cs" and c: "is_digit c" by (cases ds) auto
  note d = digit_not_letter[OF c]
  have strip: "str_strip ds = ds" using assms(1) by (rule strip_digits)
  have us: "filter (\<lambda>c. c \<noteq> CHR ''_'') ds = ds"
    using assms(1) by (induction ds) (auto dest: digit_not_letter)
  have low: "str_lower ds = ds"
    using assms(1) by (induction ds) (auto simp: str_lower_def digit_not_letter)
  have "CHR ''e'' \<notin> set ds" using assms(1) digit_not_letter(2) by (auto simp: list_all_iff)
  then have e: "split_exponent ds = (ds, None)" by (rule split_exponent_none)
  have tw: "takeWhile (\<lambda>c. c \<noteq> CHR ''.'') ds = ds" "dropWhile (\<lambda>c. c \<noteq> CHR ''.'') ds = []"
    using assms(1) digit_not_letter(1) by (auto simp: list_all_iff takeWhile_eq_all_conv)
  have "parse_finite 1 ds = Finite (Dec (digits_value ds) 0)"
    using assms by (simp add: parse_finite_def e parse_exponent_def Let_def tw)
  moreover have "split_sign ds = (1, ds)" using d by (simp add: ds)
  moreover have "ds \<noteq> ''inf''" "ds \<noteq> ''infinity''" "take 3 ds \<noteq> ''nan''" "take 4 ds \<noteq> ''snan''"
    using d by (auto simp: ds)
  ultimately show ?thesis by (simp add: py_decimal_def strip us low Let_def)
qed

subsection \<open>Dates\<close>

definition c_int :: "int \<Rightarrow> bool" where
  "c_int n = (- (2 ^ 31) \<le> n \<and> n < 2 ^ 31)"

definition py_date :: "int \<Rightarrow> int \<Rightarrow> int \<Rightarrow> py_error + date" where
  "py_date y m d = (if c_int y \<and> c_int m \<and> c_int d then mk_date y m d else Inl OverflowError)"

text \<open>
  \<open>date.fromisoformat\<close> on the calendar forms \<^verbatim>\<open>YYYY-MM-DD\<close> and \<^verbatim>\<open>YYYYMMDD\<close>; the week forms are left out.
\<close>

definition date_fromisoformat :: "string \<Rightarrow> py_error + date" where
  "date_fromisoformat s =
     (let t = (if length s = 10 \<and> s ! 4 = CHR ''-'' \<and> s ! 7 = CHR ''-''
               then take 4 s @ take 2 (drop 5 s) @ drop 8 s else s)
      in if length t = 8 \<and> list_all is_digit t
         then mk_date (digits_value (take 4 t)) (digits_value (take 2 (drop 4 t))) (digits_value (drop 6 t))
         else Inl ValueError)"

text \<open>The proleptic Gregorian date of an ordinal: 400-, 100-, 4- and 1-year cycles.\<close>

definition year_cycles :: "date \<Rightarrow> int \<times> int \<times> int \<times> int \<times> int" where
  "year_cycles d =
     (let n = d - 1; n400 = n div 146097; n = n mod 146097; n100 = n div 36524; n = n mod 36524;
          n4 = n div 1461; n = n mod 1461
      in (n400, n100, n4, n div 365, n mod 365))"

definition date_year :: "date \<Rightarrow> int" where
  "date_year d =
     (case year_cycles d of (n400, n100, n4, n1, _) \<Rightarrow>
        let y = n400 * 400 + n100 * 100 + n4 * 4 + n1 + 1
        in if n1 = 4 \<or> n100 = 4 then y - 1 else y)"

definition date_month :: "date \<Rightarrow> int" where
  "date_month d =
     (let y = date_year d; k = d - days_before_year y
      in int (length (takeWhile (\<lambda>m. days_before_month y m < k) [1..12])))"

lemma days_before_year_cycles:
  assumes "y - 1 = 400 * a + 100 * b + 4 * c + e" "0 \<le> b" "b < 4" "0 \<le> c" "c < 25" "0 \<le> e" "e < 4"
  shows "days_before_year y = 146097 * a + 36524 * b + 1461 * c + 365 * e"
proof -
  have "(y - 1) div 4 = 100 * a + 25 * b + c" "(y - 1) div 100 = 4 * a + b" "(y - 1) div 400 = a"
    using assms by (auto intro: int_div_pos_eq[where r = e]
        int_div_pos_eq[where r = "4 * c + e"] int_div_pos_eq[where r = "100 * b + 4 * c + e"])
  with assms(1) show ?thesis by (simp add: days_before_year_def)
qed

lemma is_leap_cycles:
  assumes "y - 1 = 400 * a + 100 * b + 4 * c + e" "0 \<le> b" "b < 4" "0 \<le> c" "c < 25" "0 \<le> e" "e < 4"
  shows "is_leap y \<longleftrightarrow> e = 3 \<and> (c = 24 \<longrightarrow> b = 3)"
proof -
  have y4: "y = 4 * (100 * a + 25 * b + c) + (e + 1)" using assms(1) by simp
  have e: "y mod 4 = 0 \<longleftrightarrow> e = 3" unfolding y4 mod_mult_self4 using assms(6,7) by presburger
  show ?thesis
  proof (cases "e = 3")
    case True
    have y100: "y = 100 * (4 * a + b) + 4 * (c + 1)" using assms(1) True by simp
    have c: "y mod 100 = 0 \<longleftrightarrow> c = 24"
      unfolding y100 mod_mult_self4 using assms(4,5) by (cases "c = 24") auto
    have b: "c = 24 \<Longrightarrow> y mod 400 = 0 \<longleftrightarrow> b = 3"
    proof -
      assume "c = 24"
      then have y400: "y = 400 * a + 100 * (b + 1)" using assms(1) True by simp
      show "y mod 400 = 0 \<longleftrightarrow> b = 3"
        unfolding y400 mod_mult_self4 using assms(2,3) by (cases "b = 3") auto
    qed
    show ?thesis using True e b c by (auto simp: is_leap_def)
  qed (simp add: is_leap_def e)
qed

lemma cycle_digits:
  fixes x :: int
  obtains a b c e where "x = 400 * a + 100 * b + 4 * c + e" "0 \<le> b" "b < 4" "0 \<le> c" "c < 25" "0 \<le> e" "e < 4"
proof
  have "x mod 100 = x mod 400 mod 100" "x mod 4 = x mod 100 mod 4" by (simp_all add: mod_mod_cancel)
  then show "x = 400 * (x div 400) + 100 * (x mod 400 div 100) + 4 * (x mod 100 div 4) + x mod 4"
    using mult_div_mod_eq[of 400 x] mult_div_mod_eq[of 100 "x mod 400"] mult_div_mod_eq[of 4 "x mod 100"] by linarith
  show "0 \<le> x mod 400 div 100" "0 \<le> x mod 100 div 4" "0 \<le> x mod 4" "x mod 4 < 4"
    by (simp_all add: pos_imp_zdiv_nonneg_iff)
  show "x mod 400 div 100 < 4" "x mod 100 div 4 < 25"
    using pos_mod_bound[of 400 x] pos_mod_bound[of 100 x] by linarith+
qed

lemma date_year_of_day:
  assumes "1 \<le> k" "k \<le> (if is_leap y then 366 else 365)"
  shows "date_year (days_before_year y + k) = y"
proof -
  obtain a b c e where y: "y - 1 = 400 * a + 100 * b + 4 * c + e"
    and r: "0 \<le> b" "b < 4" "0 \<le> c" "c < 25" "0 \<le> e" "e < 4" by (rule cycle_digits)
  note dby = days_before_year_cycles[OF y r] and leap = is_leap_cycles[OF y r]
  define m where "m = 36524 * b + 1461 * c + 365 * e + (k - 1)"
  have k: "k \<le> 365 \<or> (k = 366 \<and> e = 3 \<and> (c = 24 \<longrightarrow> b = 3))" using assms(2) leap by (auto split: if_splits)
  have m: "0 \<le> m" "m < 146097" using r assms(1) k by (auto simp: m_def)
  obtain d where d: "d = days_before_year y + k" by simp
  have n: "d - 1 = 146097 * a + m" by (simp add: d dby m_def)
  have q: "(146097 * a + m) div 146097 = a" "(146097 * a + m) mod 146097 = m" using m by auto
  show ?thesis
  proof (cases "c = 24 \<and> k = 366")
    case True
    then have "m = 146096" using k by (auto simp: m_def)
    with True k y show ?thesis unfolding d[symmetric] by (simp add: date_year_def year_cycles_def Let_def n q)
  next
    case False
    define u where "u = 1461 * c + 365 * e + (k - 1)"
    have "0 \<le> u \<and> u < 36524" using r assms(1) k False by (auto simp: u_def)
    moreover have "m = 36524 * b + u" by (simp add: m_def u_def)
    ultimately have mb: "m div 36524 = b" "m mod 36524 = u" by auto
    define v where "v = 365 * e + (k - 1)"
    have "0 \<le> v \<and> v < 1461" using r assms(1) k by (auto simp: v_def)
    moreover have "u = 1461 * c + v" by (simp add: u_def v_def)
    ultimately have uc: "u div 1461 = c" "u mod 1461 = v" by auto
    have ve: "v div 365 = (if k = 366 then 4 else e)"
    proof (cases "k = 366")
      case False
      then show ?thesis using assms(1) k by (intro int_div_pos_eq[where r = "k - 1"]) (auto simp: v_def)
    qed (use k in \<open>simp add: v_def\<close>)
    have cyc: "year_cycles d = (a, b, c, (if k = 366 then 4 else e), v mod 365)"
      unfolding year_cycles_def Let_def n q mb uc ve ..
    have "b \<noteq> 4" "e \<noteq> 4" using r by auto
    moreover have "y = a * 400 + b * 100 + c * 4 + e + 1" using y by simp
    ultimately show ?thesis using k unfolding d[symmetric] date_year_def cyc
      by (cases "k = 366") (simp_all add: Let_def)
  qed
qed

lemma month_cases:
  fixes m :: int
  assumes "1 \<le> m" "m \<le> 12"
  shows "m = 1 \<or> m = 2 \<or> m = 3 \<or> m = 4 \<or> m = 5 \<or> m = 6 \<or> m = 7 \<or> m = 8 \<or> m = 9 \<or> m = 10 \<or> m = 11 \<or> m = 12"
  using assms by presburger

lemma months_upto: "[1..12] = [1, 2, 3, 4, 5, 6, 7, 8, 9, 10, 11, 12 :: int]" by code_simp

lemma days_before_month_values:
  "days_before_month y 1 = 0" "days_before_month y 2 = 31"
  "days_before_month y 3 = (if is_leap y then 60 else 59)"
  "days_before_month y 4 = (if is_leap y then 91 else 90)"
  "days_before_month y 5 = (if is_leap y then 121 else 120)"
  "days_before_month y 6 = (if is_leap y then 152 else 151)"
  "days_before_month y 7 = (if is_leap y then 182 else 181)"
  "days_before_month y 8 = (if is_leap y then 213 else 212)"
  "days_before_month y 9 = (if is_leap y then 244 else 243)"
  "days_before_month y 10 = (if is_leap y then 274 else 273)"
  "days_before_month y 11 = (if is_leap y then 305 else 304)"
  "days_before_month y 12 = (if is_leap y then 335 else 334)"
  by (simp_all add: days_before_month_def month_lengths_def eval_nat_numeral)

lemma days_in_month_values:
  "days_in_month y 1 = 31" "days_in_month y 2 = (if is_leap y then 29 else 28)"
  "days_in_month y 3 = 31"
  "days_in_month y 4 = 30"
  "days_in_month y 5 = 31"
  "days_in_month y 6 = 30"
  "days_in_month y 7 = 31"
  "days_in_month y 8 = 31"
  "days_in_month y 9 = 30"
  "days_in_month y 10 = 31"
  "days_in_month y 11 = 30"
  "days_in_month y 12 = 31"
  by (simp_all add: days_in_month_def month_lengths_def eval_nat_numeral)

text \<open>A date gives back the year and the month it was made of.\<close>

lemma date_parts:
  assumes "mk_date y m d = Inr x"
  shows "date_year x = y" "date_month x = m"
proof -
  from assms have r: "1 \<le> m" "m \<le> 12" "1 \<le> d" "d \<le> days_in_month y m"
    and x: "x = days_before_year y + (days_before_month y m + d)"
    by (auto simp: mk_date_def split: if_splits)
  note vals = days_before_month_values days_in_month_values
  have "1 \<le> days_before_month y m + d \<and> days_before_month y m + d \<le> (if is_leap y then 366 else 365)"
    using month_cases[OF r(1,2)] r(3,4) by (cases "is_leap y"; elim disjE; simp add: vals)
  then show yr: "date_year x = y" unfolding x by (intro date_year_of_day) auto
  have "takeWhile (\<lambda>j. days_before_month y j < days_before_month y m + d) [1..12] = [1..m]"
    using month_cases[OF r(1,2)] r(3,4) by (cases "is_leap y"; elim disjE; simp add: vals upto_rec1)
  moreover have "x - days_before_year y = days_before_month y m + d" by (simp add: x)
  ultimately show "date_month x = m" using r(1) by (simp add: date_month_def yr Let_def)
qed

subsection \<open>Printing\<close>

fun show_nat :: "nat \<Rightarrow> string" where
  "show_nat n = (if n < 10 then [char_of (48 + n)] else show_nat (n div 10) @ [char_of (48 + n mod 10)])"

declare show_nat.simps [simp del]

definition show_int :: "int \<Rightarrow> string" where
  "show_int i = (if i < 0 then CHR ''-'' # show_nat (nat (- i)) else show_nat (nat i))"

lemma digit_char: "k < 10 \<Longrightarrow> is_digit (char_of (48 + k)) \<and> digit (char_of (48 + k)) = int k"
  by (simp add: is_digit_def digit_def of_char_of)

text \<open>What is printed reads back.\<close>

lemma show_nat_reads: "list_all is_digit (show_nat n) \<and> show_nat n \<noteq> [] \<and> digits_value (show_nat n) = int n"
proof (induction n rule: show_nat.induct)
  case (1 n)
  show ?case
  proof (cases "n < 10")
    case True
    then show ?thesis using digit_char[of n] by (simp add: show_nat.simps[of n] digits_value_def)
  next
    case False
    have "10 * int (n div 10) + int (n mod 10) = int n"
      using mult_div_mod_eq[of 10 n] by linarith
    with False show ?thesis using 1 digit_char[of "n mod 10"]
      by (subst (1 2 3) show_nat.simps) (simp add: digits_value_append)
  qed
qed

lemma show_nat_inj: "show_nat m = show_nat n \<Longrightarrow> m = n"
  by (metis show_nat_reads of_nat_eq_iff)

end
