(* ===== verification/Companies.thy ===== *)
theory Companies
  imports Tenancy Auth PyParse "HOL-Library.Multiset"
begin

text \<open>
  The companies of a workspace: the validators of \<^verbatim>\<open>apps/api/schemas/companies.py\<close>,
  \<^verbatim>\<open>apps/api/repositories/companies.py\<close> and the handlers of \<^verbatim>\<open>apps/api/routers/companies.py\<close>; the external lookup
  \<^verbatim>\<open>/resolve\<close> is in \<^verbatim>\<open>CompanyResolver\<close>.  Case-insensitive search and the order of creation
  times are the database's, so they are parameters of the list.
\<close>

subsection \<open>Rows and request bodies\<close>

record company =
  co_id :: uuid
  co_tenant_id :: uuid
  co_name :: string
  co_ticker :: string
  co_cik :: "string option"
  co_exchange :: "string option"
  co_sector :: "string option"
  co_industry :: "string option"
  co_description :: "string option"
  co_website :: "string option"
  co_is_active :: bool
  co_created_at :: instant
  co_updated_at :: instant
  co_deleted_at :: "instant option"

record company_create =
  cc_name :: string
  cc_ticker :: string
  cc_cik :: "string option"
  cc_exchange :: "string option"
  cc_sector :: "string option"
  cc_industry :: "string option"
  cc_description :: "string option"
  cc_website :: "string option"

text \<open>A field of a PATCH body is absent (\<open>None\<close>), null (\<open>Some None\<close>) or given.\<close>

record company_update =
  cu_name :: "string option option"
  cu_ticker :: "string option option"
  cu_cik :: "string option option"
  cu_exchange :: "string option option"
  cu_sector :: "string option option"
  cu_industry :: "string option option"
  cu_description :: "string option option"
  cu_website :: "string option option"
  cu_is_active :: "bool option option"

datatype company_error = CoAuth auth_error | CoValidation | CoConflict | CoNotFound | CoIntegrity

subsection \<open>Validators\<close>

definition zfill :: "nat \<Rightarrow> string \<Rightarrow> string" where
  "zfill n s = replicate (n - length s) CHR ''0'' @ s"

definition normalise_ticker :: "string \<Rightarrow> string" where
  "normalise_ticker v = str_upper (str_strip v)"

definition validate_and_pad_cik :: "string option \<Rightarrow> company_error + string option" where
  "validate_and_pad_cik v =
     (case v of None \<Rightarrow> Inr None
      | Some x \<Rightarrow>
          (let stripped = str_strip x
           in if stripped = [] then Inr None
              else if list_all is_digit stripped \<and> 1 \<le> length stripped \<and> length stripped \<le> 10
              then Inr (Some (zfill 10 stripped)) else Inl CoValidation))"

definition strip_name :: "string \<Rightarrow> company_error + string" where
  "strip_name v = (let stripped = str_strip v in if stripped = [] then Inl CoValidation else Inr stripped)"

definition length_in :: "nat \<Rightarrow> nat \<Rightarrow> string \<Rightarrow> bool" where
  "length_in lo hi s = (lo \<le> length s \<and> length s \<le> hi)"

definition opt_at_most :: "nat \<Rightarrow> string option \<Rightarrow> bool" where
  "opt_at_most n v = (case v of None \<Rightarrow> True | Some s \<Rightarrow> length s \<le> n)"

text \<open>The length limits of the fields apply to the raw values, before the validators.\<close>

definition validate_create :: "company_create \<Rightarrow> company_error + company_create" where
  "validate_create b =
     (if length_in 1 255 (cc_name b) \<and> length_in 1 20 (cc_ticker b) \<and> opt_at_most 50 (cc_exchange b)
         \<and> opt_at_most 100 (cc_sector b) \<and> opt_at_most 100 (cc_industry b) \<and> opt_at_most 500 (cc_website b)
      then rbind (strip_name (cc_name b)) (\<lambda>nm.
           rbind (validate_and_pad_cik (cc_cik b)) (\<lambda>ck.
           Inr (b\<lparr>cc_name := nm, cc_ticker := normalise_ticker (cc_ticker b), cc_cik := ck\<rparr>)))
      else Inl CoValidation)"

text \<open>A validator of an optional field runs when the field is present.\<close>

definition on_field :: "('a \<Rightarrow> 'e + 'b) \<Rightarrow> 'a option \<Rightarrow> 'e + 'b option" where
  "on_field f v = (case v of None \<Rightarrow> Inr None | Some x \<Rightarrow> rbind (f x) (\<lambda>y. Inr (Some y)))"

definition fields_set :: "company_update \<Rightarrow> bool" where
  "fields_set b = (cu_name b \<noteq> None \<or> cu_ticker b \<noteq> None \<or> cu_cik b \<noteq> None \<or> cu_exchange b \<noteq> None
     \<or> cu_sector b \<noteq> None \<or> cu_industry b \<noteq> None \<or> cu_description b \<noteq> None \<or> cu_website b \<noteq> None
     \<or> cu_is_active b \<noteq> None)"

definition opt_field :: "(string \<Rightarrow> bool) \<Rightarrow> string option option \<Rightarrow> bool" where
  "opt_field P v = (case v of Some (Some s) \<Rightarrow> P s | _ \<Rightarrow> True)"

definition validate_update :: "company_update \<Rightarrow> company_error + company_update" where
  "validate_update b =
     (if opt_field (length_in 1 255) (cu_name b) \<and> opt_field (length_in 1 20) (cu_ticker b)
         \<and> opt_field (length_in 0 50) (cu_exchange b) \<and> opt_field (length_in 0 100) (cu_sector b)
         \<and> opt_field (length_in 0 100) (cu_industry b) \<and> opt_field (length_in 0 500) (cu_website b)
      then rbind (on_field (on_field strip_name) (cu_name b)) (\<lambda>nm.
           rbind (on_field validate_and_pad_cik (cu_cik b)) (\<lambda>ck.
           if \<not> fields_set b then Inl CoValidation
           else Inr (b\<lparr>cu_name := nm, cu_ticker := map_option (map_option normalise_ticker) (cu_ticker b),
                       cu_cik := ck\<rparr>)))
      else Inl CoValidation)"

subsection \<open>Repository\<close>

text \<open>\<^verbatim>\<open>uq_companies_tenant_ticker\<close> and \<^verbatim>\<open>uq_companies_tenant_cik\<close> (nulls are distinct).\<close>

definition ticker_key :: "company \<Rightarrow> uuid \<times> string" where
  "ticker_key c = (co_tenant_id c, co_ticker c)"

definition same_cik :: "company \<Rightarrow> company \<Rightarrow> bool" where
  "same_cik a b = (co_tenant_id a = co_tenant_id b \<and> co_cik a = co_cik b \<and> co_cik a \<noteq> None)"

definition violates_unique :: "company \<Rightarrow> company list \<Rightarrow> bool" where
  "violates_unique c rows = (\<exists>r \<in> set rows. co_id r \<noteq> co_id c \<and> (ticker_key r = ticker_key c \<or> same_cik r c))"

definition create_company_row :: "auth_env \<Rightarrow> uuid \<Rightarrow> company_create \<Rightarrow> company list \<Rightarrow> company_error + (company \<times> company list)" where
  "create_company_row E tid b rows =
     (let c = \<lparr>co_id = fresh_token_id E, co_tenant_id = tid, co_name = cc_name b, co_ticker = cc_ticker b,
               co_cik = cc_cik b, co_exchange = cc_exchange b, co_sector = cc_sector b, co_industry = cc_industry b,
               co_description = cc_description b, co_website = cc_website b, co_is_active = True,
               co_created_at = now E, co_updated_at = now E, co_deleted_at = None\<rparr>
      in if co_id c \<in> set (map co_id rows) \<or> violates_unique c rows then Inl CoIntegrity
         else Inr (c, rows @ [c]))"

definition live :: "company list \<Rightarrow> company list" where
  "live rows = filter (\<lambda>c. co_deleted_at c = None) rows"

definition get_company_row :: "uuid \<Rightarrow> uuid \<Rightarrow> bool \<Rightarrow> company list \<Rightarrow> company option" where
  "get_company_row tid i include_deleted rows =
     tenant_get co_id co_tenant_id tid i (if include_deleted then rows else live rows)"

definition company_matches :: "(string \<Rightarrow> string \<Rightarrow> bool) \<Rightarrow> uuid \<Rightarrow> string option \<Rightarrow> bool option \<Rightarrow> bool \<Rightarrow> company \<Rightarrow> bool" where
  "company_matches ilike tid search active include_deleted c =
     (co_tenant_id c = tid \<and> (include_deleted \<or> co_deleted_at c = None)
      \<and> (case active of None \<Rightarrow> True | Some a \<Rightarrow> co_is_active c = a)
      \<and> (case search of None \<Rightarrow> True | Some s \<Rightarrow> s = [] \<or> ilike (''%'' @ s @ ''%'') (co_name c)))"

definition list_company_rows ::
    "(company list \<Rightarrow> company list) \<Rightarrow> (string \<Rightarrow> string \<Rightarrow> bool) \<Rightarrow> uuid \<Rightarrow> nat \<Rightarrow> nat \<Rightarrow> string option \<Rightarrow> bool option \<Rightarrow> bool
     \<Rightarrow> company list \<Rightarrow> company list \<times> nat" where
  "list_company_rows by_created_desc ilike tid page per search active include_deleted rows =
     (let hits = filter (company_matches ilike tid search active include_deleted) rows
      in (page_of per page (by_created_desc hits), length hits))"

text \<open>The assignments of \<open>update\<close>; null for a column that cannot be null fails the flush.\<close>

definition set_fields :: "company_update \<Rightarrow> company \<Rightarrow> company" where
  "set_fields b c =
     c\<lparr>co_name := (case cu_name b of Some (Some v) \<Rightarrow> v | _ \<Rightarrow> co_name c),
       co_ticker := (case cu_ticker b of Some (Some v) \<Rightarrow> v | _ \<Rightarrow> co_ticker c),
       co_cik := (case cu_cik b of Some v \<Rightarrow> v | None \<Rightarrow> co_cik c),
       co_exchange := (case cu_exchange b of Some v \<Rightarrow> v | None \<Rightarrow> co_exchange c),
       co_sector := (case cu_sector b of Some v \<Rightarrow> v | None \<Rightarrow> co_sector c),
       co_industry := (case cu_industry b of Some v \<Rightarrow> v | None \<Rightarrow> co_industry c),
       co_description := (case cu_description b of Some v \<Rightarrow> v | None \<Rightarrow> co_description c),
       co_website := (case cu_website b of Some v \<Rightarrow> v | None \<Rightarrow> co_website c),
       co_is_active := (case cu_is_active b of Some (Some v) \<Rightarrow> v | _ \<Rightarrow> co_is_active c)\<rparr>"

definition nulls_required :: "company_update \<Rightarrow> bool" where
  "nulls_required b = (cu_name b = Some None \<or> cu_ticker b = Some None \<or> cu_is_active b = Some None)"

definition update_step :: "instant \<times> company_update \<Rightarrow> company \<Rightarrow> company" where
  "update_step p c = (if set_fields (snd p) c = c then c else (set_fields (snd p) c)\<lparr>co_updated_at := fst p\<rparr>)"

definition update_company_row ::
    "auth_env \<Rightarrow> uuid \<Rightarrow> uuid \<Rightarrow> company_update \<Rightarrow> company list \<Rightarrow> company_error + (company option \<times> company list)" where
  "update_company_row E tid i b rows =
     (case get_company_row tid i False rows of
        None \<Rightarrow> Inr (None, rows)
      | Some c \<Rightarrow>
          (let c' = update_step (now E, b) c
           in if nulls_required b \<or> violates_unique c' rows then Inl CoIntegrity
              else Inr (Some c', put_row co_id i c' rows)))"

definition delete_step :: "instant \<Rightarrow> company \<Rightarrow> company" where
  "delete_step t c = c\<lparr>co_deleted_at := Some t, co_updated_at := t\<rparr>"

definition soft_delete_row :: "auth_env \<Rightarrow> uuid \<Rightarrow> uuid \<Rightarrow> company list \<Rightarrow> bool \<times> company list" where
  "soft_delete_row E tid i rows =
     (case get_company_row tid i False rows of
        None \<Rightarrow> (False, rows)
      | Some c \<Rightarrow> (True, put_row co_id i (delete_step (now E) c) rows))"

subsection \<open>Handlers\<close>

text \<open>
  The result of a handler and the rows after the request; an exception leaves the rows as they
  were (\<open>get_db\<close> rolls back).
\<close>

definition conflict_if_unique :: "company_error \<Rightarrow> company_error" where
  "conflict_if_unique e = (if e = CoIntegrity then CoConflict else e)"

definition create_company ::
    "auth_env \<Rightarrow> auth_context option \<Rightarrow> company_create \<Rightarrow> company list \<Rightarrow> (company_error + company) \<times> company list" where
  "create_company E ctx body rows =
     (case map_error CoAuth (require_role ANALYST ctx) of
        Inl e \<Rightarrow> (Inl e, rows)
      | Inr c \<Rightarrow>
     (case validate_create body of
        Inl e \<Rightarrow> (Inl e, rows)
      | Inr b \<Rightarrow>
     (case create_company_row E (cx_tenant_id c) b rows of
        Inl e \<Rightarrow> (Inl (conflict_if_unique e), rows)
      | Inr (co, rows') \<Rightarrow> (Inr co, rows'))))"

definition get_company :: "auth_context option \<Rightarrow> uuid \<Rightarrow> company list \<Rightarrow> company_error + company" where
  "get_company ctx i rows =
     rbind (map_error CoAuth (require_authenticated ctx)) (\<lambda>c.
       case get_company_row (cx_tenant_id c) i False rows of None \<Rightarrow> Inl CoNotFound | Some co \<Rightarrow> Inr co)"

record 'r listing =
  li_items :: "'r list"
  li_total :: nat
  li_page :: nat
  li_page_size :: nat
  li_pages :: nat

definition list_companies ::
    "(company list \<Rightarrow> company list) \<Rightarrow> (string \<Rightarrow> string \<Rightarrow> bool) \<Rightarrow> auth_context option \<Rightarrow> nat \<Rightarrow> nat \<Rightarrow> string option \<Rightarrow> bool option
     \<Rightarrow> company list \<Rightarrow> company_error + company listing" where
  "list_companies by_created_desc ilike ctx page per search active rows =
     rbind (map_error CoAuth (require_authenticated ctx)) (\<lambda>c.
       if \<not> (1 \<le> page \<and> 1 \<le> per \<and> per \<le> 100) then Inl CoValidation
       else (let (items, n) = list_company_rows by_created_desc ilike (cx_tenant_id c) page per search active False rows
             in Inr \<lparr>li_items = items, li_total = n, li_page = page, li_page_size = per, li_pages = page_count per n\<rparr>))"

definition update_company ::
    "auth_env \<Rightarrow> auth_context option \<Rightarrow> uuid \<Rightarrow> company_update \<Rightarrow> company list \<Rightarrow> (company_error + company) \<times> company list" where
  "update_company E ctx i body rows =
     (case map_error CoAuth (require_role ANALYST ctx) of
        Inl e \<Rightarrow> (Inl e, rows)
      | Inr c \<Rightarrow>
     (case validate_update body of
        Inl e \<Rightarrow> (Inl e, rows)
      | Inr b \<Rightarrow>
     (case update_company_row E (cx_tenant_id c) i b rows of
        Inl e \<Rightarrow> (Inl (conflict_if_unique e), rows)
      | Inr (None, rows') \<Rightarrow> (Inl CoNotFound, rows)
      | Inr (Some co, rows') \<Rightarrow> (Inr co, rows'))))"

definition delete_company ::
    "auth_env \<Rightarrow> auth_context option \<Rightarrow> uuid \<Rightarrow> company list \<Rightarrow> (company_error + unit) \<times> company list" where
  "delete_company E ctx i rows =
     (case map_error CoAuth (require_role ADMIN ctx) of
        Inl e \<Rightarrow> (Inl e, rows)
      | Inr c \<Rightarrow>
          (case soft_delete_row E (cx_tenant_id c) i rows of
             (False, rows') \<Rightarrow> (Inl CoNotFound, rows)
           | (True, rows') \<Rightarrow> (Inr (), rows')))"

subsection \<open>The contract of the tenant-scoped updates\<close>

lemma set_fields_keys [simp]:
  "co_id (set_fields b c) = co_id c" "co_tenant_id (set_fields b c) = co_tenant_id c"
  "co_deleted_at (set_fields b c) = co_deleted_at c"
  by (simp_all add: set_fields_def)

lemma update_step_keys [simp]:
  "co_id (update_step p c) = co_id c" "co_tenant_id (update_step p c) = co_tenant_id c"
  by (simp_all add: update_step_def)

lemma delete_step_keys [simp]:
  "co_id (delete_step t c) = co_id c" "co_tenant_id (delete_step t c) = co_tenant_id c"
  "ticker_key (delete_step t c) = ticker_key c" "same_cik r (delete_step t c) = same_cik r c"
  "same_cik (delete_step t c) r = same_cik c r"
  by (simp_all add: delete_step_def ticker_key_def same_cik_def)

interpretation patched: tenant_rows co_id co_tenant_id update_step
  by unfold_locales simp_all

interpretation deleted: tenant_rows co_id co_tenant_id delete_step
  by unfold_locales simp_all

definition companies_wf :: "company list \<Rightarrow> bool" where
  "companies_wf rows = (distinct (map co_id rows) \<and> (\<forall>c \<in> set rows. \<not> violates_unique c rows))"

text \<open>A live row found for a tenant is the row the unfiltered query finds.\<close>

lemma live_row:
  assumes "get_company_row tid i False rows = Some c" "distinct (map co_id rows)"
  shows "tenant_get co_id co_tenant_id tid i rows = Some c"
    and "c \<in> set rows" "co_id c = i" "co_tenant_id c = tid" "co_deleted_at c = None"
proof -
  have c: "c \<in> set (live rows)" "co_id c = i" "co_tenant_id c = tid"
    using assms(1) tenant_get_Some[of co_id co_tenant_id tid i "live rows" c] by (simp_all add: get_company_row_def)
  then show "c \<in> set rows" "co_id c = i" "co_tenant_id c = tid" "co_deleted_at c = None" by (auto simp: live_def)
  then show "tenant_get co_id co_tenant_id tid i rows = Some c"
    using tenant_get_unique[OF assms(2), of c co_tenant_id] by simp
qed

lemma update_row_is_tenant_update:
  assumes "update_company_row E tid i b rows = Inr (Some c', rows')" "distinct (map co_id rows)"
  shows "rows' = snd (tenant_update co_id co_tenant_id (update_step (now E, b)) tid i rows)"
    and "\<not> violates_unique c' rows" "c' \<in> set rows'"
    and "\<exists>c \<in> set rows. c' = update_step (now E, b) c \<and> co_id c = i \<and> co_tenant_id c = tid \<and> rows' = put_row co_id i c' rows"
proof -
  from assms(1) obtain c where c: "get_company_row tid i False rows = Some c"
    and d: "c' = update_step (now E, b) c" "\<not> violates_unique c' rows" "rows' = put_row co_id i c' rows"
    by (auto simp: update_company_row_def Let_def split: option.splits if_splits)
  note l = live_row[OF c assms(2)]
  from d l show "rows' = snd (tenant_update co_id co_tenant_id (update_step (now E, b)) tid i rows)"
    "\<not> violates_unique c' rows" "c' \<in> set rows'"
    by (auto simp: tenant_update_def put_row_def set_update_where)
  from d l show "\<exists>c \<in> set rows. c' = update_step (now E, b) c \<and> co_id c = i \<and> co_tenant_id c = tid \<and> rows' = put_row co_id i c' rows"
    by blast
qed

lemma delete_row_is_tenant_update:
  assumes "soft_delete_row E tid i rows = (True, rows')" "distinct (map co_id rows)"
  shows "rows' = snd (tenant_update co_id co_tenant_id (delete_step (now E)) tid i rows)"
    and "\<exists>c \<in> set rows. co_id c = i \<and> co_tenant_id c = tid \<and> rows' = put_row co_id i (delete_step (now E) c) rows"
proof -
  from assms(1) obtain c where c: "get_company_row tid i False rows = Some c"
    and d: "rows' = put_row co_id i (delete_step (now E) c) rows"
    by (auto simp: soft_delete_row_def split: option.splits)
  note l = live_row[OF c assms(2)]
  from d l show "rows' = snd (tenant_update co_id co_tenant_id (delete_step (now E)) tid i rows)"
    by (simp add: tenant_update_def)
  from d l show "\<exists>c \<in> set rows. co_id c = i \<and> co_tenant_id c = tid \<and> rows' = put_row co_id i (delete_step (now E) c) rows"
    by blast
qed

text \<open>Putting a row that violates nothing keeps the table well-formed.\<close>

lemma same_cik_sym: "same_cik a b \<longleftrightarrow> same_cik b a"
  unfolding same_cik_def by metis

lemma put_row_wf:
  assumes "companies_wf rows" "c \<in> set rows" "co_id c' = co_id c" "\<not> violates_unique c' rows"
  shows "companies_wf (put_row co_id (co_id c) c' rows)"
proof -
  have ids: "distinct (map co_id (put_row co_id (co_id c) c' rows))"
    using assms(1,3) by (simp add: companies_wf_def put_row_keys)
  have "\<not> violates_unique x (put_row co_id (co_id c) c' rows)" if "x \<in> set (put_row co_id (co_id c) c' rows)" for x
    unfolding violates_unique_def
  proof (rule, elim bexE conjE)
    fix r
    assume r: "r \<in> set (put_row co_id (co_id c) c' rows)" "co_id r \<noteq> co_id x"
      and clash: "ticker_key r = ticker_key x \<or> same_cik r x"
    note x = set_put_row[OF that] and r' = set_put_row[OF r(1)]
    show False
    proof (cases "x = c' \<or> r = c'")
      case True
      then have "violates_unique c' rows"
        using x r' r(2) clash same_cik_sym unfolding violates_unique_def by metis
      with assms(4) show ?thesis by blast
    next
      case False
      with x r' have "x \<in> set rows" "r \<in> set rows" by auto
      with assms(1) r(2) clash show ?thesis unfolding companies_wf_def violates_unique_def by blast
    qed
  qed
  with ids show ?thesis by (simp add: companies_wf_def)
qed

lemma create_row_wf:
  assumes "create_company_row E tid b rows = Inr (c, rows')" "companies_wf rows"
  shows "companies_wf rows'" "rows' = rows @ [c]" "co_tenant_id c = tid"
proof -
  from assms(1) have c: "rows' = rows @ [c]" "co_tenant_id c = tid" "co_id c \<notin> set (map co_id rows)"
      "\<not> violates_unique c rows"
    by (auto simp: create_company_row_def Let_def split: if_splits)
  have "\<not> violates_unique x (rows @ [c])" if "x \<in> set (rows @ [c])" for x
    using that c(3,4) assms(2) same_cik_sym unfolding violates_unique_def companies_wf_def by (auto simp: image_iff) metis+
  with c assms(2) show "companies_wf rows'" "rows' = rows @ [c]" "co_tenant_id c = tid"
    by (simp_all add: companies_wf_def)
qed

lemma delete_no_violation:
  "companies_wf rows \<Longrightarrow> c \<in> set rows \<Longrightarrow> \<not> violates_unique (delete_step t c) rows"
  by (simp add: companies_wf_def violates_unique_def)

subsection \<open>One request\<close>

datatype company_call = CoCreate company_create | CoUpdate uuid company_update | CoDelete uuid

definition company_serve :: "auth_env \<Rightarrow> auth_context option \<Rightarrow> company_call \<Rightarrow> company list \<Rightarrow> company list" where
  "company_serve E ctx call rows =
     (case call of
        CoCreate b \<Rightarrow> snd (create_company E ctx b rows)
      | CoUpdate i b \<Rightarrow> snd (update_company E ctx i b rows)
      | CoDelete i \<Rightarrow> snd (delete_company E ctx i rows))"

text \<open>The ways a request can change the table.\<close>

lemma company_serve_cases:
  assumes "companies_wf rows"
  obtains (same) "company_serve E ctx call rows = rows"
  | (created) c co b where "require_role ANALYST ctx = Inr c" "create_company_row E (cx_tenant_id c) b rows = Inr (co, rows @ [co])"
      "company_serve E ctx call rows = rows @ [co]" "co_tenant_id co = cx_tenant_id c" "companies_wf (rows @ [co])"
  | (patched) c i b where "require_role ANALYST ctx = Inr c"
      "company_serve E ctx call rows = snd (tenant_update co_id co_tenant_id (update_step (now E, b)) (cx_tenant_id c) i rows)"
      "companies_wf (company_serve E ctx call rows)"
  | (deleted) c i where "require_role ADMIN ctx = Inr c"
      "company_serve E ctx call rows = snd (tenant_update co_id co_tenant_id (delete_step (now E)) (cx_tenant_id c) i rows)"
      "companies_wf (company_serve E ctx call rows)"
proof (cases call)
  case (CoCreate body)
  show thesis
  proof (cases "fst (create_company E ctx body rows)")
    case (Inl e)
    then have "company_serve E ctx call rows = rows"
      by (auto simp: CoCreate company_serve_def create_company_def split: sum.splits prod.splits)
    then show thesis by (rule same)
  next
    case (Inr co)
    then obtain c b rows' where r: "require_role ANALYST ctx = Inr c" "create_company_row E (cx_tenant_id c) b rows = Inr (co, rows')"
        "company_serve E ctx call rows = rows'"
      by (auto simp: CoCreate company_serve_def create_company_def split: sum.splits prod.splits)
    from created[OF r(1)] create_row_wf[OF r(2) assms] r(2,3) show thesis by simp
  qed
next
  case (CoUpdate i body)
  show thesis
  proof (cases "fst (update_company E ctx i body rows)")
    case (Inl e)
    then have "company_serve E ctx call rows = rows"
      by (auto simp: CoUpdate company_serve_def update_company_def split: sum.splits prod.splits option.splits)
    then show thesis by (rule same)
  next
    case (Inr co)
    then obtain c b rows' where r: "require_role ANALYST ctx = Inr c"
        "update_company_row E (cx_tenant_id c) i b rows = Inr (Some co, rows')" "company_serve E ctx call rows = rows'"
      by (auto simp: CoUpdate company_serve_def update_company_def split: sum.splits prod.splits option.splits)
    have d: "distinct (map co_id rows)" using assms by (simp add: companies_wf_def)
    note u = update_row_is_tenant_update[OF r(2) d]
    from u(4) obtain x where "x \<in> set rows" "co = update_step (now E, b) x" "co_id x = i" "rows' = put_row co_id i co rows"
      by blast
    then have "companies_wf rows'" using put_row_wf[OF assms, of x co] u(2) by simp
    then have "companies_wf (company_serve E ctx call rows)" using r(3) by simp
    then show thesis by (rule patched[OF r(1) trans[OF r(3) u(1)]])
  qed
next
  case (CoDelete i)
  show thesis
  proof (cases "fst (delete_company E ctx i rows)")
    case (Inl e)
    then have "company_serve E ctx call rows = rows"
      by (auto simp: CoDelete company_serve_def delete_company_def split: sum.splits prod.splits bool.splits)
    then show thesis by (rule same)
  next
    case (Inr co)
    then obtain c rows' where r: "require_role ADMIN ctx = Inr c"
        "soft_delete_row E (cx_tenant_id c) i rows = (True, rows')" "company_serve E ctx call rows = rows'"
      by (auto simp: CoDelete company_serve_def delete_company_def split: sum.splits prod.splits bool.splits)
    have d: "distinct (map co_id rows)" using assms by (simp add: companies_wf_def)
    note u = delete_row_is_tenant_update[OF r(2) d]
    from u(2) obtain x where x: "x \<in> set rows" "co_id x = i" "rows' = put_row co_id i (delete_step (now E) x) rows"
      by blast
    have "companies_wf rows'" using put_row_wf[OF assms x(1), of "delete_step (now E) x"] delete_no_violation[OF assms x(1)] x by simp
    then have "companies_wf (company_serve E ctx call rows)" using r(3) by simp
    then show thesis by (rule deleted[OF r(1) trans[OF r(3) u(1)]])
  qed
qed

subsection \<open>Properties\<close>

text \<open>
  C6: requests to the companies API stay in the caller's workspace and keep its keys unique.
  Whatever the request, the ids, the tickers of each workspace and its CIKs stay distinct; the rows
  of every other workspace are unchanged; no row is ever removed; and a caller below
  ANALYST changes nothing.
\<close>

theorem company_requests_stay_in_tenant:
  assumes "companies_wf rows"
  shows "companies_wf (company_serve E ctx call rows)
    \<and> (\<forall>tid. (\<forall>c. ctx = Some c \<longrightarrow> cx_tenant_id c \<noteq> tid) \<longrightarrow>
          filter (\<lambda>r. co_tenant_id r = tid) (company_serve E ctx call rows) = filter (\<lambda>r. co_tenant_id r = tid) rows)
    \<and> (\<exists>new. map co_id (company_serve E ctx call rows) = map co_id rows @ new)
    \<and> ((\<forall>c. require_role ANALYST ctx \<noteq> Inr c) \<longrightarrow> company_serve E ctx call rows = rows)"
proof -
  have d: "distinct (map co_id rows)" using assms by (simp add: companies_wf_def)
  have admin: "\<exists>c. require_role ANALYST ctx = Inr c" if "require_role ADMIN ctx = Inr c" for c
    using that unfolding require_role_Inr by (auto simp: less_eq_UserRole_def) (metis role_value.simps role_rank_value le_cases)?
  show ?thesis
    using assms
  proof (cases rule: company_serve_cases[of rows E ctx call])
    case same
    then show ?thesis using assms by auto
  next
    case (created c co b)
    then show ?thesis by (auto simp: require_role_Inr)
  next
    case (patched c i b)
    have "filter (\<lambda>r. co_tenant_id r = tid) (company_serve E ctx call rows) = filter (\<lambda>r. co_tenant_id r = tid) rows"
      if "\<forall>c. ctx = Some c \<longrightarrow> cx_tenant_id c \<noteq> tid" for tid
      unfolding patched(2) using that patched(1) by (intro patched.other_tenants_kept[OF d]) (auto simp: require_role_Inr)
    with patched show ?thesis by (auto simp: patched.keys_kept)
  next
    case (deleted c i)
    have "filter (\<lambda>r. co_tenant_id r = tid) (company_serve E ctx call rows) = filter (\<lambda>r. co_tenant_id r = tid) rows"
      if "\<forall>c. ctx = Some c \<longrightarrow> cx_tenant_id c \<noteq> tid" for tid
      unfolding deleted(2) using that deleted(1) by (intro deleted.other_tenants_kept[OF d]) (auto simp: require_role_Inr)
    with deleted admin show ?thesis by (auto simp: deleted.keys_kept)
  qed
qed

text \<open>
  A soft-deleted company keeps its ticker.  The API answers 404 for it, yet every
  attempt to create a company with that ticker in the workspace is refused as a conflict and
  leaves the table unchanged.
\<close>

theorem deleted_ticker_stays_taken:
  assumes "gone \<in> set rows" "distinct (map co_id rows)" "co_deleted_at gone \<noteq> None"
    and "ctx = Some c" "require_role ANALYST ctx = Inr c" "co_tenant_id gone = cx_tenant_id c"
    and "validate_create body = Inr b" "co_ticker gone = cc_ticker b"
  shows "get_company ctx (co_id gone) rows = Inl CoNotFound \<and> create_company E ctx body rows = (Inl CoConflict, rows)"
proof
  have "get_company_row (cx_tenant_id c) (co_id gone) False rows = None"
  proof (rule ccontr)
    assume "get_company_row (cx_tenant_id c) (co_id gone) False rows \<noteq> None"
    then obtain x where x: "get_company_row (cx_tenant_id c) (co_id gone) False rows = Some x" by blast
    note l = live_row[OF x assms(2)]
    then have "x = gone" using assms(1,2) by (simp add: distinct_map) (metis inj_onD)
    with l(5) assms(3) show False by simp
  qed
  with assms(4) show "get_company ctx (co_id gone) rows = Inl CoNotFound"
    by (simp add: get_company_def require_authenticated_def)
  have "create_company_row E (cx_tenant_id c) b rows = Inl CoIntegrity"
  proof (cases "co_id gone = fresh_token_id E")
    case True
    then have "fresh_token_id E \<in> co_id ` set rows" using assms(1) by (metis image_eqI)
    then show ?thesis by (simp add: create_company_row_def Let_def)
  next
    case False
    have "violates_unique x rows" if "co_id x = fresh_token_id E" "ticker_key x = ticker_key gone" for x
      using assms(1) False that unfolding violates_unique_def by metis
    then show ?thesis using assms(6,8) by (simp add: create_company_row_def Let_def ticker_key_def)
  qed
  with assms(5,7) show "create_company E ctx body rows = (Inl CoConflict, rows)"
    by (simp add: create_company_def conflict_if_unique_def)
qed

text \<open>
  The pages of a company list are a partition of it.  When the database orders the rows the same
  way each time, the items of pages 1 to \<open>pages\<close>, put together, are exactly the caller's live
  companies that match the filters, in that order; \<open>total\<close> is their number, and no page up to
  \<open>pages\<close> is empty.
\<close>

theorem company_pages_partition:
  assumes "require_authenticated ctx = Inr c" "1 \<le> per" "per \<le> 100"
    and "\<And>rs. mset (by_created_desc rs) = mset rs"
    and hits: "hits = by_created_desc (filter (company_matches ilike (cx_tenant_id c) search active False) rows)"
  shows "\<exists>n. (\<forall>page \<in> {1..n}. \<exists>r. list_companies by_created_desc ilike ctx page per search active rows = Inr r
              \<and> li_pages r = n \<and> li_total r = length hits \<and> li_items r \<noteq> [])
     \<and> concat (map (\<lambda>page. li_items (projr (list_companies by_created_desc ilike ctx page per search active rows))) [1..<Suc n]) = hits
     \<and> (\<forall>co \<in> set hits. co_tenant_id co = cx_tenant_id c \<and> co_deleted_at co = None)"
proof -
  let ?n = "page_count per (length hits)"
  have len: "length (filter (company_matches ilike (cx_tenant_id c) search active False) rows) = length hits"
    unfolding hits using assms(4) by (metis mset_eq_length)
  have ok: "list_companies by_created_desc ilike ctx page per search active rows = Inr \<lparr>li_items = page_of per page hits,
      li_total = length hits, li_page = page, li_page_size = per, li_pages = ?n\<rparr>" if "1 \<le> page" for page
    using assms(1-3) that len
    by (simp add: list_companies_def list_company_rows_def Let_def hits[symmetric])
  have "map (\<lambda>page. li_items (projr (list_companies by_created_desc ilike ctx page per search active rows))) [1..<Suc ?n]
      = map (\<lambda>page. page_of per page hits) [1..<Suc ?n]"
    using ok by (intro map_cong) auto
  then have "concat (map (\<lambda>page. li_items (projr (list_companies by_created_desc ilike ctx page per search active rows)))
      [1..<Suc ?n]) = hits"
    using pages_cover[of per hits] assms(2) by (simp only:)
  moreover have "\<forall>page \<in> {1..?n}. page_of per page hits \<noteq> []"
    using page_nonempty[of per _ hits] assms(2) by auto
  moreover have "\<forall>co \<in> set hits. co_tenant_id co = cx_tenant_id c \<and> co_deleted_at co = None"
    unfolding hits mset_eq_setD[OF assms(4)] by (auto simp: company_matches_def)
  ultimately show ?thesis using ok by (intro exI[of _ ?n]) auto
qed

text \<open>
  The normal form of a CIK.  A CIK the validator accepts comes out as ten digits of the same
  number, and validating the result again changes nothing.
\<close>

theorem cik_normal_form:
  assumes "validate_and_pad_cik (Some x) = Inr (Some y)"
  shows "length y = 10 \<and> list_all is_digit y \<and> digits_value y = digits_value (str_strip x)
         \<and> validate_and_pad_cik (Some y) = Inr (Some y)"
proof -
  from assms have y: "y = zfill 10 (str_strip x)" "list_all is_digit (str_strip x)" "length (str_strip x) \<le> 10"
    by (auto simp: validate_and_pad_cik_def Let_def split: if_splits)
  then have l: "length y = 10" by (simp add: zfill_def)
  moreover have d: "list_all is_digit y" using y digit_zero by (auto simp: zfill_def list_all_iff)
  moreover have "digits_value y = digits_value (str_strip x)" using y(1) by (simp add: zfill_def digits_value_zeros)
  moreover have "validate_and_pad_cik (Some y) = Inr (Some y)"
    using l d by (auto simp: validate_and_pad_cik_def strip_digits zfill_def)
  ultimately show ?thesis by blast
qed

subsection \<open>Concrete instances\<close>

definition demo_company :: company where
  "demo_company = \<lparr>co_id = ''c1'', co_tenant_id = demo_tid, co_name = ''Acme'', co_ticker = ''ACM'', co_cik = None,
     co_exchange = None, co_sector = None, co_industry = None, co_description = None, co_website = None,
     co_is_active = True, co_created_at = 0, co_updated_at = 0, co_deleted_at = Some 5\<rparr>"

definition demo_body :: company_create where
  "demo_body = \<lparr>cc_name = ''Acme'', cc_ticker = '' acm'', cc_cik = Some '' 320193 '', cc_exchange = None, cc_sector = None,
     cc_industry = None, cc_description = None, cc_website = None\<rparr>"

definition demo_analyst :: auth_context where
  "demo_analyst = context_of demo_payload"

lemma demo_analyst_role: "require_role ANALYST (Some demo_analyst) = Inr demo_analyst"
  by (simp add: require_role_def require_authenticated_def demo_analyst_def context_of_def demo_payload_def)

lemma company_requests_stay_in_tenant_witness:
  "companies_wf (company_serve demo_env (Some demo_analyst) (CoCreate demo_body) [demo_company\<lparr>co_tenant_id := ''other''\<rparr>])"
proof -
  have "companies_wf [demo_company\<lparr>co_tenant_id := ''other''\<rparr>]" by (simp add: companies_wf_def violates_unique_def)
  from company_requests_stay_in_tenant[OF this] show ?thesis by blast
qed

lemma deleted_ticker_stays_taken_witness:
  "create_company demo_env (Some demo_analyst) demo_body [demo_company] = (Inl CoConflict, [demo_company])"
proof -
  have "\<exists>b. validate_create demo_body = Inr b \<and> cc_ticker b = ''ACM''"
  proof -
    have "case validate_create demo_body of Inr b \<Rightarrow> cc_ticker b = ''ACM'' | Inl _ \<Rightarrow> False" by code_simp
    then show ?thesis by (auto split: sum.splits)
  qed
  then obtain b where b: "validate_create demo_body = Inr b" "cc_ticker b = ''ACM''" by blast
  have h: "demo_company \<in> set [demo_company]" "distinct (map co_id [demo_company])" "co_deleted_at demo_company \<noteq> None"
    "co_tenant_id demo_company = cx_tenant_id demo_analyst" "co_ticker demo_company = cc_ticker b"
    using b(2) by (simp_all add: demo_company_def demo_analyst_def context_of_def demo_payload_def)
  from deleted_ticker_stays_taken[OF h(1-3) refl demo_analyst_role h(4) b(1) h(5)] show ?thesis by blast
qed

lemma company_pages_partition_witness:
  "\<exists>n. concat (map (\<lambda>page. li_items (projr (list_companies (\<lambda>r. r) (\<lambda>p s. True) (Some demo_analyst) page 2 None None
        [demo_company\<lparr>co_deleted_at := None\<rparr>, demo_company, demo_company\<lparr>co_deleted_at := None, co_id := ''c2''\<rparr>]))) [1..<Suc n])
     = [demo_company\<lparr>co_deleted_at := None\<rparr>, demo_company\<lparr>co_deleted_at := None, co_id := ''c2''\<rparr>]"
proof -
  have h: "require_authenticated (Some demo_analyst) = Inr demo_analyst" by (simp add: require_authenticated_def)
  have hits: "filter (company_matches (\<lambda>p s. True) (cx_tenant_id demo_analyst) None None False)
      [demo_company\<lparr>co_deleted_at := None\<rparr>, demo_company, demo_company\<lparr>co_deleted_at := None, co_id := ''c2''\<rparr>]
      = [demo_company\<lparr>co_deleted_at := None\<rparr>, demo_company\<lparr>co_deleted_at := None, co_id := ''c2''\<rparr>]"
    by (simp add: company_matches_def demo_company_def demo_analyst_def context_of_def demo_payload_def)
  have two: "1 \<le> (2 :: nat)" "(2 :: nat) \<le> 100" by simp_all
  from company_pages_partition[OF h two refl hits[symmetric]] show ?thesis by blast
qed

lemma cik_normal_form_witness: "length ''0000320193'' = 10 \<and> validate_and_pad_cik (Some ''0000320193'') = Inr (Some ''0000320193'')"
proof -
  have "validate_and_pad_cik (Some '' 320193 '') = Inr (Some ''0000320193'')" by code_simp
  from cik_normal_form[OF this] show ?thesis by blast
qed

text \<open>A ticker of blanks passes the validators as the empty ticker.\<close>

lemma blank_ticker_accepted:
  "map_sum (\<lambda>e. e) cc_ticker (validate_create (demo_body\<lparr>cc_ticker := ''  ''\<rparr>)) = Inr []"
  by code_simp

end
