(* ===== verification/Jobs.thy ===== *)
theory Jobs
  imports Companies
begin

text \<open>
  Extraction jobs: \<^verbatim>\<open>apps/api/repositories/jobs.py\<close>, the handlers of \<^verbatim>\<open>apps/api/routers/jobs.py\<close>
  (create, list, get, status, cancel, upload URL, upload complete) and the file-name
  sanitiser of \<^verbatim>\<open>apps/api/core/s3.py\<close>.  The row itself is in \<^verbatim>\<open>Models\<close>.  A dispatched Celery task
  is recorded; the pre-signed URL is the object store's.
\<close>

subsection \<open>Repository\<close>

text \<open>A field of a \<open>JobUpdate\<close> is set or not; every caller sets values, never null.\<close>

record job_update =
  ju_status :: "string option"
  ju_error_message :: "error_text option"
  ju_celery_task_id :: "string option"
  ju_started_at :: "instant option"
  ju_completed_at :: "instant option"

definition no_job_update :: job_update where
  "no_job_update = \<lparr>ju_status = None, ju_error_message = None, ju_celery_task_id = None, ju_started_at = None, ju_completed_at = None\<rparr>"

record job_create =
  jc_company_id :: uuid
  jc_job_type :: string
  jc_fiscal_year :: "int option"

definition create_job_row :: "uuid \<Rightarrow> instant \<Rightarrow> uuid \<Rightarrow> uuid \<Rightarrow> uuid \<Rightarrow> job_create \<Rightarrow> financial_job" where
  "create_job_row i t tid cid by schema =
     \<lparr>job_id = i, job_tenant_id = tid, job_company_id = Some cid, job_created_by = Some by,
      job_status = status_value JOB_PENDING, job_type = jc_job_type schema, job_fiscal_year = jc_fiscal_year schema,
      job_document_url = None, job_result_url = None, job_error_message = None, job_celery_task_id = None,
      job_started_at = None, job_completed_at = None, job_created_at = t, job_updated_at = t\<rparr>"

definition get_job_by_id :: "uuid \<Rightarrow> uuid \<Rightarrow> financial_job list \<Rightarrow> financial_job option" where
  "get_job_by_id tid i jobs = tenant_get job_id job_tenant_id tid i jobs"

definition job_matches :: "uuid \<Rightarrow> uuid option \<Rightarrow> string option \<Rightarrow> financial_job \<Rightarrow> bool" where
  "job_matches tid cid status j =
     (job_tenant_id j = tid \<and> (case cid of None \<Rightarrow> True | Some c \<Rightarrow> job_company_id j = Some c)
      \<and> (case status of None \<Rightarrow> True | Some s \<Rightarrow> job_status j = s))"

definition list_job_rows ::
    "(financial_job list \<Rightarrow> financial_job list) \<Rightarrow> uuid \<Rightarrow> uuid option \<Rightarrow> string option \<Rightarrow> nat \<Rightarrow> nat \<Rightarrow> financial_job list
     \<Rightarrow> financial_job list \<times> nat" where
  "list_job_rows by_created_desc tid cid status page per jobs =
     (let hits = filter (job_matches tid cid status) jobs
      in (page_of per page (by_created_desc hits), length hits))"

definition set_job_fields :: "job_update \<Rightarrow> financial_job \<Rightarrow> financial_job" where
  "set_job_fields u j =
     j\<lparr>job_status := (case ju_status u of None \<Rightarrow> job_status j | Some s \<Rightarrow> s),
       job_error_message := (case ju_error_message u of None \<Rightarrow> job_error_message j | Some s \<Rightarrow> Some s),
       job_celery_task_id := (case ju_celery_task_id u of None \<Rightarrow> job_celery_task_id j | Some s \<Rightarrow> Some s),
       job_started_at := (case ju_started_at u of None \<Rightarrow> job_started_at j | Some s \<Rightarrow> Some s),
       job_completed_at := (case ju_completed_at u of None \<Rightarrow> job_completed_at j | Some s \<Rightarrow> Some s)\<rparr>"

definition status_step :: "instant \<times> job_update \<Rightarrow> financial_job \<Rightarrow> financial_job" where
  "status_step p j = (if set_job_fields (snd p) j = j then j else (set_job_fields (snd p) j)\<lparr>job_updated_at := fst p\<rparr>)"

definition update_status :: "instant \<Rightarrow> uuid \<Rightarrow> uuid \<Rightarrow> job_update \<Rightarrow> financial_job list \<Rightarrow> financial_job option \<times> financial_job list" where
  "update_status t tid i u jobs = tenant_update job_id job_tenant_id (status_step (t, u)) tid i jobs"

definition cancel_step :: "instant \<Rightarrow> financial_job \<Rightarrow> financial_job" where
  "cancel_step t j =
     (if job_status j \<in> {status_value JOB_PENDING, status_value JOB_QUEUED, status_value JOB_RUNNING}
      then j\<lparr>job_status := status_value JOB_CANCELLED, job_completed_at := Some t, job_updated_at := t\<rparr> else j)"

definition cancel_job_row :: "instant \<Rightarrow> uuid \<Rightarrow> uuid \<Rightarrow> financial_job list \<Rightarrow> financial_job option \<times> financial_job list" where
  "cancel_job_row t tid i jobs = tenant_update job_id job_tenant_id (cancel_step t) tid i jobs"

definition document_step :: "instant \<times> string \<Rightarrow> financial_job \<Rightarrow> financial_job" where
  "document_step p j = j\<lparr>job_document_url := Some (snd p), job_updated_at := fst p\<rparr>"

definition set_document_url :: "instant \<Rightarrow> uuid \<Rightarrow> uuid \<Rightarrow> string \<Rightarrow> financial_job list \<Rightarrow> financial_job option \<times> financial_job list" where
  "set_document_url t tid i url jobs = tenant_update job_id job_tenant_id (document_step (t, url)) tid i jobs"

subsection \<open>Object keys\<close>

text \<open>\<open>\w\<close> on the characters of the model: letters, digits and the underscore of ASCII.\<close>

definition is_word_char :: "char \<Rightarrow> bool" where
  "is_word_char c = (let n = (of_char c :: nat) in
     (48 \<le> n \<and> n \<le> 57) \<or> (65 \<le> n \<and> n \<le> 90) \<or> (97 \<le> n \<and> n \<le> 122) \<or> n = 95)"

definition unsafe_char :: "char \<Rightarrow> bool" where
  "unsafe_char c = (\<not> is_word_char c \<and> c \<noteq> CHR ''-'' \<and> c \<noteq> CHR ''.'')"

definition leading_unsafe :: "char \<Rightarrow> bool" where
  "leading_unsafe c = (c = CHR ''.'' \<or> c = CHR ''_'')"

definition make_safe_filename :: "string \<Rightarrow> string" where
  "make_safe_filename filename =
     (let name1 = map (\<lambda>c. if c = CHR 0x5C then CHR ''/'' else c) filename;
          base = rev (takeWhile (\<lambda>c. c \<noteq> CHR ''/'') (rev name1));
          name2 = map (\<lambda>c. if unsafe_char c then CHR ''_'' else c) base;
          name3 = dropWhile leading_unsafe name2;
          name4 = (if name3 = [] then ''document'' else name3)
      in take 255 name4)"

definition key_prefix :: "uuid \<Rightarrow> uuid \<Rightarrow> string" where
  "key_prefix tid i = tid @ ''/jobs/'' @ i @ ''/''"

subsection \<open>Handlers\<close>

datatype job_error =
    JobAuth auth_error | JobNotFound | CompanyNotFound | JobConflict string | JobValidation | DispatchFailed

text \<open>A dispatched extraction task: its arguments.\<close>

record extraction_call =
  ec_job_id :: uuid
  ec_tenant_id :: uuid
  ec_fiscal_period :: string
  ec_filing_date_iso :: string
  ec_reporting_standard :: string

record jobs_state =
  js_jobs :: "financial_job list"
  js_companies :: "company list"
  js_tasks :: "extraction_call list"

type_synonym 'a job_handler = "jobs_state \<Rightarrow> (job_error + 'a) \<times> jobs_state"

definition FISCAL_YEAR_MIN :: int where "FISCAL_YEAR_MIN = 1900"
definition FISCAL_YEAR_MAX :: int where "FISCAL_YEAR_MAX = 2100"

definition is_lower_letter :: "char \<Rightarrow> bool" where
  "is_lower_letter c = (let n = (of_char c :: nat) in 97 \<le> n \<and> n \<le> 122)"

text \<open>\<open>[a-z][a-z0-9_]*[a-z0-9]\<close> on the whole stripped string.\<close>

definition snake_case :: "string \<Rightarrow> bool" where
  "snake_case s =
     (2 \<le> length s \<and> is_lower_letter (hd s)
      \<and> list_all (\<lambda>c. is_lower_letter c \<or> is_digit c \<or> c = CHR ''_'') s
      \<and> (is_lower_letter (last s) \<or> is_digit (last s)))"

definition validate_job_create :: "job_create \<Rightarrow> job_error + job_create" where
  "validate_job_create b =
     (if length_in 3 100 (jc_job_type b) \<and> snake_case (str_strip (jc_job_type b))
         \<and> (case jc_fiscal_year b of None \<Rightarrow> True | Some y \<Rightarrow> FISCAL_YEAR_MIN \<le> y \<and> y \<le> FISCAL_YEAR_MAX)
      then Inr (b\<lparr>jc_job_type := str_strip (jc_job_type b)\<rparr>) else Inl JobValidation)"

definition create_job_api :: "auth_env \<Rightarrow> auth_context option \<Rightarrow> job_create \<Rightarrow> financial_job job_handler" where
  "create_job_api E ctx body s =
     (case map_error JobAuth (require_role ANALYST ctx) of
        Inl e \<Rightarrow> (Inl e, s)
      | Inr c \<Rightarrow>
     (case validate_job_create body of
        Inl e \<Rightarrow> (Inl e, s)
      | Inr b \<Rightarrow>
     (case get_company_row (cx_tenant_id c) (jc_company_id b) False (js_companies s) of
        None \<Rightarrow> (Inl CompanyNotFound, s)
      | Some co \<Rightarrow>
          (let j = create_job_row (fresh_token_id E) (now E) (cx_tenant_id c) (jc_company_id b) (cx_user_id c) b
           in (Inr j, s\<lparr>js_jobs := js_jobs s @ [j]\<rparr>)))))"

definition list_jobs ::
    "(financial_job list \<Rightarrow> financial_job list) \<Rightarrow> auth_context option \<Rightarrow> nat \<Rightarrow> nat \<Rightarrow> uuid option \<Rightarrow> string option
     \<Rightarrow> financial_job list \<Rightarrow> job_error + financial_job listing" where
  "list_jobs by_created_desc ctx page per cid status jobs =
     rbind (map_error JobAuth (require_authenticated ctx)) (\<lambda>c.
       if \<not> (1 \<le> page \<and> 1 \<le> per \<and> per \<le> 100) then Inl JobValidation
       else (let (items, n) = list_job_rows by_created_desc (cx_tenant_id c) cid status page per jobs
             in Inr \<lparr>li_items = items, li_total = n, li_page = page, li_page_size = per, li_pages = page_count per n\<rparr>))"

definition get_job :: "auth_context option \<Rightarrow> uuid \<Rightarrow> financial_job list \<Rightarrow> job_error + financial_job" where
  "get_job ctx i jobs =
     rbind (map_error JobAuth (require_authenticated ctx)) (\<lambda>c.
       case get_job_by_id (cx_tenant_id c) i jobs of None \<Rightarrow> Inl JobNotFound | Some j \<Rightarrow> Inr j)"

definition cancel_job :: "auth_env \<Rightarrow> auth_context option \<Rightarrow> uuid \<Rightarrow> financial_job job_handler" where
  "cancel_job E ctx i s =
     (case map_error JobAuth (require_role ANALYST ctx) of
        Inl e \<Rightarrow> (Inl e, s)
      | Inr c \<Rightarrow>
     (case get_job_by_id (cx_tenant_id c) i (js_jobs s) of
        None \<Rightarrow> (Inl JobNotFound, s)
      | Some j \<Rightarrow>
          if is_terminal j then (Inl (JobConflict (job_status j)), s)
          else
     (case cancel_job_row (now E) (cx_tenant_id c) i (js_jobs s) of
        (None, jobs) \<Rightarrow> (Inl JobNotFound, s)
      | (Some j', jobs) \<Rightarrow> (Inr j', s\<lparr>js_jobs := jobs\<rparr>))))"

definition generate_upload_url :: "auth_context option \<Rightarrow> uuid \<Rightarrow> string \<Rightarrow> jobs_state \<Rightarrow> job_error + string" where
  "generate_upload_url ctx i filename s =
     rbind (map_error JobAuth (require_role ANALYST ctx)) (\<lambda>c.
       if \<not> length_in 1 255 filename then Inl JobValidation
       else case get_job_by_id (cx_tenant_id c) i (js_jobs s) of
         None \<Rightarrow> Inl JobNotFound
       | Some j \<Rightarrow> if is_terminal j then Inl (JobConflict (job_status j))
                   else Inr (key_prefix (cx_tenant_id c) i @ make_safe_filename filename))"

definition DEFAULT_FISCAL_PERIOD :: string where "DEFAULT_FISCAL_PERIOD = ''FY''"
definition DEFAULT_REPORTING_STANDARD :: string where "DEFAULT_REPORTING_STANDARD = ''US_GAAP''"
definition ANNUAL_JOB_TYPE_TOKENS :: "string list" where
  "ANNUAL_JOB_TYPE_TOKENS = [''annual'', ''10k'', ''20f'', ''6k'']"

definition contains :: "string \<Rightarrow> string \<Rightarrow> bool" where
  "contains token s = list_ex (\<lambda>k. take (length token) (drop k s) = token) [0..<Suc (length s)]"

definition derive_fiscal_period :: "string \<Rightarrow> string option \<Rightarrow> string" where
  "derive_fiscal_period ty requested =
     (case requested of
        Some (c # cs) \<Rightarrow> str_upper (str_strip (c # cs))
      | _ \<Rightarrow> if list_ex (\<lambda>t. contains t (str_lower ty)) ANNUAL_JOB_TYPE_TOKENS then ''FY'' else DEFAULT_FISCAL_PERIOD)"

record upload_body =
  ub_key :: string
  ub_fiscal_period :: "string option"
  ub_filing_date_iso :: "string option"
  ub_reporting_standard :: "string option"

definition or_default :: "string option \<Rightarrow> string \<Rightarrow> string" where
  "or_default v d = (case v of Some (c # cs) \<Rightarrow> c # cs | _ \<Rightarrow> d)"

definition reporting_standard_of :: "upload_body \<Rightarrow> string" where
  "reporting_standard_of b =
     (let x = str_upper (str_strip (or_default (ub_reporting_standard b) []))
      in if x = [] then DEFAULT_REPORTING_STANDARD else x)"

text \<open>
  The rows are committed before the task is dispatched, so a broker that does not answer
  (\<open>broker_up\<close> false, after the retries) fails the request but not the commit.
\<close>

definition upload_complete ::
    "auth_env \<Rightarrow> string \<Rightarrow> bool \<Rightarrow> auth_context option \<Rightarrow> uuid \<Rightarrow> upload_body \<Rightarrow> financial_job job_handler" where
  "upload_complete E today broker_up ctx i body s =
     (case map_error JobAuth (require_role ANALYST ctx) of
        Inl e \<Rightarrow> (Inl e, s)
      | Inr c \<Rightarrow>
     if \<not> length_in 1 2000 (ub_key body) then (Inl JobValidation, s) else
     (case get_job_by_id (cx_tenant_id c) i (js_jobs s) of
        None \<Rightarrow> (Inl JobNotFound, s)
      | Some j \<Rightarrow>
          if is_terminal j then (Inl (JobConflict (job_status j)), s)
          else if take (length (key_prefix (cx_tenant_id c) i)) (ub_key body) \<noteq> key_prefix (cx_tenant_id c) i
          then (Inl JobValidation, s)
          else
     (case set_document_url (now E) (cx_tenant_id c) i (ub_key body) (js_jobs s) of
        (None, jobs1) \<Rightarrow> (Inl JobNotFound, s)
      | (Some j1, jobs1) \<Rightarrow>
     (case update_status (now E) (cx_tenant_id c) i (no_job_update\<lparr>ju_status := Some (status_value JOB_QUEUED)\<rparr>) jobs1 of
        (None, jobs2) \<Rightarrow> (Inl JobNotFound, s)
      | (Some queued, jobs2) \<Rightarrow>
          (let s1 = s\<lparr>js_jobs := jobs2\<rparr>
           in if \<not> broker_up then (Inl DispatchFailed, s1)
              else (Inr queued,
                    s1\<lparr>js_tasks := js_tasks s1 @
                        [\<lparr>ec_job_id = i, ec_tenant_id = cx_tenant_id c,
                          ec_fiscal_period = derive_fiscal_period (job_type queued) (ub_fiscal_period body),
                          ec_filing_date_iso = or_default (ub_filing_date_iso body) today,
                          ec_reporting_standard = reporting_standard_of body\<rparr>]\<rparr>))))))"

subsection \<open>The contract of the tenant-scoped updates\<close>

lemma set_job_fields_keys [simp]:
  "job_id (set_job_fields u j) = job_id j" "job_tenant_id (set_job_fields u j) = job_tenant_id j"
  "job_type (set_job_fields u j) = job_type j" "job_document_url (set_job_fields u j) = job_document_url j"
  by (simp_all add: set_job_fields_def)

lemma status_step_keys [simp]:
  "job_id (status_step p j) = job_id j" "job_tenant_id (status_step p j) = job_tenant_id j"
  "job_type (status_step p j) = job_type j" "job_document_url (status_step p j) = job_document_url j"
  by (simp_all add: status_step_def)

lemma status_step_status [simp]:
  "job_status (status_step (t, u) j) = (case ju_status u of None \<Rightarrow> job_status j | Some s \<Rightarrow> s)"
proof -
  have "job_status (set_job_fields u j) = (case ju_status u of None \<Rightarrow> job_status j | Some s \<Rightarrow> s)"
    by (simp add: set_job_fields_def)
  then show ?thesis by (auto simp: status_step_def)
qed

lemma cancel_step_keys [simp]:
  "job_id (cancel_step t j) = job_id j" "job_tenant_id (cancel_step t j) = job_tenant_id j"
  by (simp_all add: cancel_step_def)

lemma document_step_keys [simp]:
  "job_id (document_step p j) = job_id j" "job_tenant_id (document_step p j) = job_tenant_id j"
  "job_status (document_step p j) = job_status j" "job_type (document_step p j) = job_type j"
  by (simp_all add: document_step_def)

interpretation statused: tenant_rows job_id job_tenant_id status_step
  by unfold_locales simp_all

interpretation cancelled: tenant_rows job_id job_tenant_id cancel_step
  by unfold_locales simp_all

interpretation documented: tenant_rows job_id job_tenant_id document_step
  by unfold_locales simp_all

lemmas job_row_ops = get_job_by_id_def update_status_def cancel_job_row_def set_document_url_def

text \<open>Uploading is the two updates of the named row in a row.\<close>

definition queue_step :: "instant \<Rightarrow> string \<Rightarrow> financial_job \<Rightarrow> financial_job" where
  "queue_step t url j =
     status_step (t, no_job_update\<lparr>ju_status := Some (status_value JOB_QUEUED)\<rparr>) (document_step (t, url) j)"

lemma queue_step_keys [simp]:
  "job_id (queue_step t url j) = job_id j" "job_tenant_id (queue_step t url j) = job_tenant_id j"
  "job_status (queue_step t url j) = ''queued''" "job_type (queue_step t url j) = job_type j"
  "job_document_url (queue_step t url j) = Some url"
  by (simp_all add: queue_step_def) (simp add: document_step_def)

lemma upload_rows:
  assumes "get_job_by_id tid i jobs = Some j" "distinct (map job_id jobs)"
  shows "\<exists>jobs1. set_document_url t tid i url jobs = (Some (document_step (t, url) j), jobs1) \<and>
     update_status t tid i (no_job_update\<lparr>ju_status := Some (status_value JOB_QUEUED)\<rparr>) jobs1 =
       (Some (queue_step t url j), map (\<lambda>r. if job_id r = i \<and> job_tenant_id r = tid then queue_step t url r else r) jobs)"
proof -
  let ?jobs1 = "snd (tenant_update job_id job_tenant_id (document_step (t, url)) tid i jobs)"
  have g: "tenant_get job_id job_tenant_id tid i jobs = Some j" using assms(1) by (simp add: get_job_by_id_def)
  have one: "set_document_url t tid i url jobs = (Some (document_step (t, url) j), ?jobs1)"
    using g by (simp add: set_document_url_def tenant_update_def)
  have d1: "distinct (map job_id ?jobs1)" using assms(2) by (simp only: documented.keys_kept)
  note g1 = documented.read_own_write[OF g assms(2), of "(t, url)"]
  have "snd (update_status t tid i (no_job_update\<lparr>ju_status := Some (status_value JOB_QUEUED)\<rparr>) ?jobs1)
      = map (\<lambda>r. if job_id r = i \<and> job_tenant_id r = tid then queue_step t url r else r) jobs"
    unfolding update_status_def statused.only_named_row[OF d1]
    unfolding documented.only_named_row[OF assms(2)] by (simp add: queue_step_def)
  moreover have "fst (update_status t tid i (no_job_update\<lparr>ju_status := Some (status_value JOB_QUEUED)\<rparr>) ?jobs1)
      = Some (queue_step t url j)"
    using g1 by (simp add: update_status_def tenant_update_def[of _ _ _ _ _ ?jobs1] queue_step_def)
  ultimately have "update_status t tid i (no_job_update\<lparr>ju_status := Some (status_value JOB_QUEUED)\<rparr>) ?jobs1
      = (Some (queue_step t url j), map (\<lambda>r. if job_id r = i \<and> job_tenant_id r = tid then queue_step t url r else r) jobs)"
    by (intro prod_eqI) (simp_all only: fst_conv snd_conv)
  with one show ?thesis by blast
qed

text \<open>What a request to upload-complete does when its checks pass.\<close>

definition queued_rows :: "instant \<Rightarrow> uuid \<Rightarrow> uuid \<Rightarrow> string \<Rightarrow> financial_job list \<Rightarrow> financial_job list" where
  "queued_rows t tid i url jobs = map (\<lambda>r. if job_id r = i \<and> job_tenant_id r = tid then queue_step t url r else r) jobs"

lemma queued_row_found:
  assumes "get_job_by_id tid i jobs = Some j" "distinct (map job_id jobs)"
  shows "get_job_by_id tid i (queued_rows t tid i url jobs) = Some (queue_step t url j)"
proof -
  note g = tenant_get_Some[OF assms(1)[unfolded get_job_by_id_def]]
  have "queue_step t url j \<in> set (queued_rows t tid i url jobs)"
    using g by (auto simp: queued_rows_def intro!: image_eqI[of _ _ j])
  moreover have "map job_id (queued_rows t tid i url jobs) = map job_id jobs" by (simp add: queued_rows_def)
  ultimately show ?thesis
    using tenant_get_unique[of job_id "queued_rows t tid i url jobs" "queue_step t url j" job_tenant_id] assms(2) g
    by (simp add: get_job_by_id_def)
qed

lemma upload_complete_checked:
  assumes "require_role ANALYST ctx = Inr c" "length_in 1 2000 (ub_key body)"
    and "get_job_by_id (cx_tenant_id c) i (js_jobs s) = Some j" "\<not> is_terminal j"
    and "take (length (key_prefix (cx_tenant_id c) i)) (ub_key body) = key_prefix (cx_tenant_id c) i"
    and "distinct (map job_id (js_jobs s))"
  shows "upload_complete E today broker_up ctx i body s =
    (let s1 = s\<lparr>js_jobs := queued_rows (now E) (cx_tenant_id c) i (ub_key body) (js_jobs s)\<rparr>
     in if broker_up
     then (Inr (queue_step (now E) (ub_key body) j),
           s1\<lparr>js_tasks := js_tasks s @
               [\<lparr>ec_job_id = i, ec_tenant_id = cx_tenant_id c,
                 ec_fiscal_period = derive_fiscal_period (job_type j) (ub_fiscal_period body),
                 ec_filing_date_iso = or_default (ub_filing_date_iso body) today,
                 ec_reporting_standard = reporting_standard_of body\<rparr>]\<rparr>)
     else (Inl DispatchFailed, s1))"
proof -
  from upload_rows[OF assms(3,6), of "now E" "ub_key body"] obtain jobs1 where u:
    "set_document_url (now E) (cx_tenant_id c) i (ub_key body) (js_jobs s) = (Some (document_step (now E, ub_key body) j), jobs1)"
    "update_status (now E) (cx_tenant_id c) i (no_job_update\<lparr>ju_status := Some (status_value JOB_QUEUED)\<rparr>) jobs1 =
       (Some (queue_step (now E) (ub_key body) j), queued_rows (now E) (cx_tenant_id c) i (ub_key body) (js_jobs s))"
    unfolding queued_rows_def by blast
  from assms(1-5) u show ?thesis by (simp add: upload_complete_def Let_def del: status_value.simps)
qed

lemma upload_complete_refused:
  assumes "\<nexists>c j. require_role ANALYST ctx = Inr c \<and> length_in 1 2000 (ub_key body)
     \<and> get_job_by_id (cx_tenant_id c) i (js_jobs s) = Some j \<and> \<not> is_terminal j
     \<and> take (length (key_prefix (cx_tenant_id c) i)) (ub_key body) = key_prefix (cx_tenant_id c) i"
  shows "snd (upload_complete E today broker_up ctx i body s) = s"
  using assms by (auto simp: upload_complete_def split: sum.splits option.splits)

subsection \<open>Properties\<close>

datatype job_call = JCreate job_create | JCancel uuid | JUpload string bool uuid upload_body

definition job_serve :: "auth_env \<Rightarrow> auth_context option \<Rightarrow> job_call \<Rightarrow> jobs_state \<Rightarrow> jobs_state" where
  "job_serve E ctx call s =
     (case call of
        JCreate b \<Rightarrow> snd (create_job_api E ctx b s)
      | JCancel i \<Rightarrow> snd (cancel_job E ctx i s)
      | JUpload today up i b \<Rightarrow> snd (upload_complete E today up ctx i b s))"

text \<open>What a request may do to the row of one job.\<close>

definition lifecycle_step :: "auth_context option \<Rightarrow> financial_job \<Rightarrow> financial_job \<Rightarrow> bool" where
  "lifecycle_step ctx j j' = (j' = j \<or>
     (\<exists>c. ctx = Some c \<and> cx_tenant_id c = job_tenant_id j \<and> job_id j' = job_id j \<and> job_tenant_id j' = job_tenant_id j \<and>
        \<not> is_terminal j \<and> (is_cancellable j \<and> job_status j' = ''cancelled'' \<or> job_status j' = ''queued'')))"

lemma list_all2_map_self: "list_all2 R xs (map f xs) \<longleftrightarrow> (\<forall>x \<in> set xs. R x (f x))"
  by (induction xs) auto

lemma lifecycle_refl [simp]: "lifecycle_step ctx j j"
  by (simp add: lifecycle_step_def)

lemma create_job_rows:
  "js_jobs (snd (create_job_api E ctx b s)) = js_jobs s \<or>
   (\<exists>c j. ctx = Some c \<and> js_jobs (snd (create_job_api E ctx b s)) = js_jobs s @ [j]
      \<and> job_tenant_id j = cx_tenant_id c \<and> job_status j = ''pending'')"
proof (cases "fst (create_job_api E ctx b s)")
  case (Inl e)
  then show ?thesis by (auto simp: create_job_api_def Let_def split: sum.splits option.splits)
next
  case (Inr j)
  then obtain c where "require_role ANALYST ctx = Inr c" "job_tenant_id j = cx_tenant_id c" "job_status j = ''pending''"
      "js_jobs (snd (create_job_api E ctx b s)) = js_jobs s @ [j]"
    by (auto simp: create_job_api_def create_job_row_def Let_def split: sum.splits option.splits)
  then show ?thesis unfolding require_role_Inr by blast
qed

lemma cancel_lifecycle:
  assumes "distinct (map job_id (js_jobs s))"
  shows "\<exists>f. js_jobs (snd (cancel_job E ctx i s)) = map f (js_jobs s) \<and> (\<forall>j \<in> set (js_jobs s). lifecycle_step ctx j (f j))"
proof (cases "fst (cancel_job E ctx i s)")
  case (Inl e)
  then have "js_jobs (snd (cancel_job E ctx i s)) = map (\<lambda>j. j) (js_jobs s)"
    by (auto simp: cancel_job_def split: sum.splits option.splits prod.splits)
  then show ?thesis by (intro exI[of _ "\<lambda>j. j"]) simp
next
  case (Inr x)
  then obtain c j where r: "require_role ANALYST ctx = Inr c" "get_job_by_id (cx_tenant_id c) i (js_jobs s) = Some j"
      "\<not> is_terminal j" "js_jobs (snd (cancel_job E ctx i s)) = snd (cancel_job_row (now E) (cx_tenant_id c) i (js_jobs s))"
    by (auto simp: cancel_job_def split: sum.splits option.splits prod.splits if_splits)
  let ?f = "\<lambda>r. if job_id r = i \<and> job_tenant_id r = cx_tenant_id c then cancel_step (now E) r else r"
  have "js_jobs (snd (cancel_job E ctx i s)) = map ?f (js_jobs s)"
    using r(4) cancelled.only_named_row[OF assms] by (simp add: cancel_job_row_def)
  moreover have "lifecycle_step ctx a (?f a)" for a
    using r(1) by (auto simp: lifecycle_step_def cancel_step_def is_cancellable_def is_terminal_def require_role_Inr)
  ultimately show ?thesis by blast
qed

lemma upload_lifecycle:
  assumes "distinct (map job_id (js_jobs s))"
  shows "\<exists>f. js_jobs (snd (upload_complete E today up ctx i b s)) = map f (js_jobs s) \<and> (\<forall>j \<in> set (js_jobs s). lifecycle_step ctx j (f j))"
proof (cases "\<exists>c j. require_role ANALYST ctx = Inr c \<and> length_in 1 2000 (ub_key b)
     \<and> get_job_by_id (cx_tenant_id c) i (js_jobs s) = Some j \<and> \<not> is_terminal j
     \<and> take (length (key_prefix (cx_tenant_id c) i)) (ub_key b) = key_prefix (cx_tenant_id c) i")
  case False
  then show ?thesis using upload_complete_refused[of ctx b i s] by (intro exI[of _ "\<lambda>j. j"]) simp
next
  case True
  then obtain c j where c: "require_role ANALYST ctx = Inr c" "length_in 1 2000 (ub_key b)"
     "get_job_by_id (cx_tenant_id c) i (js_jobs s) = Some j" "\<not> is_terminal j"
     "take (length (key_prefix (cx_tenant_id c) i)) (ub_key b) = key_prefix (cx_tenant_id c) i" by blast
  let ?f = "\<lambda>r. if job_id r = i \<and> job_tenant_id r = cx_tenant_id c then queue_step (now E) (ub_key b) r else r"
  have "js_jobs (snd (upload_complete E today up ctx i b s)) = map ?f (js_jobs s)"
    using upload_complete_checked[OF c assms] by (simp add: Let_def queued_rows_def)
  moreover have "lifecycle_step ctx a (?f a)" if "a \<in> set (js_jobs s)" for a
  proof (cases "job_id a = i \<and> job_tenant_id a = cx_tenant_id c")
    case named: True
    have "a = j" using named that tenant_get_Some[OF c(3)[unfolded get_job_by_id_def]] assms
      by (simp add: distinct_map) (metis inj_onD)
    with named c(1,4) show ?thesis by (simp add: lifecycle_step_def require_role_Inr)
  qed auto
  ultimately show ?thesis by blast
qed

text \<open>
  C7: requests to the jobs API respect the life cycle and the workspace of a job.  Whatever the
  request, the table afterwards is the old rows in their order, followed by at most one new pending job of the
  caller's workspace; an old row is either unchanged or belongs to the caller's workspace, was
  not terminal, and is now cancelled (from a cancellable state) or queued.
\<close>

theorem job_requests_respect_lifecycle:
  assumes "distinct (map job_id (js_jobs s))"
  shows "\<exists>old new. js_jobs (job_serve E ctx call s) = old @ new \<and> list_all2 (lifecycle_step ctx) (js_jobs s) old
     \<and> (new = [] \<or> (\<exists>c j. ctx = Some c \<and> new = [j] \<and> job_tenant_id j = cx_tenant_id c \<and> job_status j = ''pending''))"
proof (cases call)
  case (JCreate b)
  have all: "list_all2 (lifecycle_step ctx) (js_jobs s) (js_jobs s)" by (simp add: list_all2_refl)
  show ?thesis
  proof (cases "js_jobs (job_serve E ctx call s) = js_jobs s")
    case True
    with all show ?thesis by (intro exI[of _ "js_jobs s"] exI[of _ "[]"]) simp
  next
    case False
    with create_job_rows[of E ctx b s] obtain c j where "ctx = Some c" "js_jobs (job_serve E ctx call s) = js_jobs s @ [j]"
        "job_tenant_id j = cx_tenant_id c" "job_status j = ''pending''"
      by (auto simp: JCreate job_serve_def)
    with all show ?thesis by (intro exI[of _ "js_jobs s"] exI[of _ "[j]"]) simp
  qed
next
  case (JCancel i)
  from cancel_lifecycle[OF assms, of E ctx i] obtain f where
    f: "js_jobs (snd (cancel_job E ctx i s)) = map f (js_jobs s)" "\<forall>j \<in> set (js_jobs s). lifecycle_step ctx j (f j)" by blast
  then show ?thesis
    by (intro exI[of _ "map f (js_jobs s)"] exI[of _ "[]"]) (simp add: JCancel job_serve_def list_all2_map_self)
next
  case (JUpload today up i b)
  from upload_lifecycle[OF assms, of E today up ctx i b] obtain f where
    f: "js_jobs (snd (upload_complete E today up ctx i b s)) = map f (js_jobs s)" "\<forall>j \<in> set (js_jobs s). lifecycle_step ctx j (f j)" by blast
  then show ?thesis
    by (intro exI[of _ "map f (js_jobs s)"] exI[of _ "[]"]) (simp add: JUpload job_serve_def list_all2_map_self)
qed

text \<open>
  Cancelling a gated job reports success and does nothing.  A job frozen by the FX gap or by
  a blocked validation is neither terminal nor cancellable, so the cancel request passes the terminal check,
  skips the repository's assignment, and answers 200 with the job unchanged.
\<close>

theorem cancel_of_gated_job_is_noop:
  assumes "require_role ANALYST ctx = Inr c" "distinct (map job_id (js_jobs s))"
    and "get_job_by_id (cx_tenant_id c) i (js_jobs s) = Some j"
    and "job_status j = ''failed_fx_data_gap'' \<or> job_status j = ''failed_validation_blocked''"
  shows "cancel_job E ctx i s = (Inr j, s)"
proof -
  have step: "cancel_step (now E) j = j" and live: "\<not> is_terminal j"
    using assms(4) by (auto simp: cancel_step_def is_terminal_def)
  note g = assms(3)[unfolded get_job_by_id_def]
  have "put_row job_id i j (js_jobs s) = js_jobs s"
    using put_row_self[OF assms(2), of j] tenant_get_Some[OF g] by simp
  then have "cancel_job_row (now E) (cx_tenant_id c) i (js_jobs s) = (Some j, js_jobs s)"
    using g step by (simp add: cancel_job_row_def tenant_update_def)
  with assms(1,3) live show ?thesis by (simp add: cancel_job_def)
qed

subsection \<open>Upload keys\<close>

lemma safe_filename_form:
  "\<exists>base. make_safe_filename f = take 255
     (if dropWhile leading_unsafe (map (\<lambda>c. if unsafe_char c then CHR ''_'' else c) base) = [] then ''document''
      else dropWhile leading_unsafe (map (\<lambda>c. if unsafe_char c then CHR ''_'' else c) base))"
  unfolding make_safe_filename_def Let_def by blast

lemma set_if_else: "c \<in> set (if P then a else b) \<Longrightarrow> c \<in> set a \<or> c \<in> set b"
  by (simp split: if_split_asm)

lemma safe_filename_chars:
  assumes "c \<in> set (make_safe_filename f)"
  shows "is_word_char c \<or> c = CHR ''-'' \<or> c = CHR ''.''"
proof -
  from safe_filename_form[of f] obtain base where m: "make_safe_filename f = take 255
     (if dropWhile leading_unsafe (map (\<lambda>c. if unsafe_char c then CHR ''_'' else c) base) = [] then ''document''
      else dropWhile leading_unsafe (map (\<lambda>c. if unsafe_char c then CHR ''_'' else c) base))" (is "_ = take 255 ?n") ..
  from assms have "c \<in> set ?n" unfolding m by (rule in_set_takeD)
  then have "c \<in> set ''document'' \<or> c \<in> set (map (\<lambda>c. if unsafe_char c then CHR ''_'' else c) base)"
    by (rule disjE[OF set_if_else]) (blast, blast dest: set_dropWhileD)
  then show ?thesis by (auto simp: unsafe_char_def is_word_char_def)
qed

lemma safe_filename_shape:
  "make_safe_filename f \<noteq> []" "length (make_safe_filename f) \<le> 255"
  "\<not> leading_unsafe (hd (make_safe_filename f))"
proof -
  from safe_filename_form[of f] obtain base where m: "make_safe_filename f = take 255
     (if dropWhile leading_unsafe (map (\<lambda>c. if unsafe_char c then CHR ''_'' else c) base) = [] then ''document''
      else dropWhile leading_unsafe (map (\<lambda>c. if unsafe_char c then CHR ''_'' else c) base))" (is "_ = take 255 (if ?n = [] then _ else ?n)") ..
  show "make_safe_filename f \<noteq> []" "length (make_safe_filename f) \<le> 255" unfolding m by (simp_all del: dropWhile_eq_Nil_conv)
  have "\<not> leading_unsafe (hd ?n)" if "?n \<noteq> []" using that by (rule hd_dropWhile)
  then show "\<not> leading_unsafe (hd (make_safe_filename f))"
    unfolding m by (cases "?n = []") (simp_all add: leading_unsafe_def del: dropWhile_eq_Nil_conv)
qed

text \<open>
  The key of an upload URL is accepted by upload-complete.  When the first request hands out
  a key for a job, a second one by the same caller with that key queues the job, stores the key and dispatches
  exactly one extraction task; the file part of the key has no slash, at most 255
  characters and does not begin with a dot or an underscore, whatever name the client sent.
\<close>

theorem upload_key_round_trip:
  assumes "generate_upload_url ctx i filename s = Inr key" "ctx = Some c" "distinct (map job_id (js_jobs s))"
    and "length (cx_tenant_id c) = 36" "length i = 36" "ub_key body = key"
  shows "\<exists>j file. key = key_prefix (cx_tenant_id c) i @ file \<and> CHR ''/'' \<notin> set file \<and> file \<noteq> [] \<and> length file \<le> 255
     \<and> hd file \<noteq> CHR ''.'' \<and> hd file \<noteq> CHR ''_''
     \<and> fst (upload_complete E today True ctx i body s) = Inr j
     \<and> job_id j = i \<and> job_status j = ''queued'' \<and> job_document_url j = Some key
     \<and> get_job_by_id (cx_tenant_id c) i (js_jobs (snd (upload_complete E today True ctx i body s))) = Some j
     \<and> (\<exists>task. js_tasks (snd (upload_complete E today True ctx i body s)) = js_tasks s @ [task] \<and> ec_job_id task = i)"
proof -
  from assms(1,2) obtain j where j: "require_role ANALYST ctx = Inr c" "get_job_by_id (cx_tenant_id c) i (js_jobs s) = Some j"
      "\<not> is_terminal j" "key = key_prefix (cx_tenant_id c) i @ make_safe_filename filename"
    by (auto simp: generate_upload_url_def rbind_eq_Inr require_role_Inr split: if_splits option.splits)
  have pre: "take (length (key_prefix (cx_tenant_id c) i)) (ub_key body) = key_prefix (cx_tenant_id c) i"
    using assms(6) j(4) by simp
  have len: "length_in 1 2000 (ub_key body)"
    using assms(4-6) j(4) safe_filename_shape(2)[of filename] by (simp add: length_in_def key_prefix_def)
  have slash: "CHR ''/'' \<notin> set (make_safe_filename filename)"
    using safe_filename_chars[of "CHR ''/''" filename] by (auto simp: is_word_char_def)
  note up = upload_complete_checked[OF j(1) len j(2,3) pre assms(3), of E today True]
  note t = tenant_get_Some[OF j(2)[unfolded get_job_by_id_def]]
  have "get_job_by_id (cx_tenant_id c) i (queued_rows (now E) (cx_tenant_id c) i (ub_key body) (js_jobs s))
      = Some (queue_step (now E) (ub_key body) j)"
    by (rule queued_row_found[OF j(2) assms(3)])
  then show ?thesis
    using up j(4) slash safe_filename_shape[of filename] assms(6) t
    by (intro exI[of _ "queue_step (now E) (ub_key body) j"] exI[of _ "make_safe_filename filename"])
       (simp add: Let_def leading_unsafe_def)
qed

subsection \<open>Concrete instances\<close>

definition demo_job :: financial_job where
  "demo_job = \<lparr>job_id = ''33333333-3333-3333-3333-333333333333'', job_tenant_id = demo_tid, job_company_id = Some ''c1'',
     job_created_by = Some demo_uid, job_status = ''pending'', job_type = ''sec_10k_annual'', job_fiscal_year = Some 2023,
     job_document_url = None, job_result_url = None, job_error_message = None, job_celery_task_id = None,
     job_started_at = None, job_completed_at = None, job_created_at = 0, job_updated_at = 0\<rparr>"

definition demo_jobs :: jobs_state where
  "demo_jobs = \<lparr>js_jobs = [demo_job], js_companies = [], js_tasks = []\<rparr>"

lemma demo_jobs_distinct: "distinct (map job_id (js_jobs demo_jobs))"
  by (simp add: demo_jobs_def)

lemma job_requests_respect_lifecycle_witness:
  "\<exists>old new. js_jobs (job_serve demo_env (Some demo_analyst) (JCancel (job_id demo_job)) demo_jobs) = old @ new
     \<and> list_all2 (lifecycle_step (Some demo_analyst)) [demo_job] old"
  using job_requests_respect_lifecycle[OF demo_jobs_distinct, of demo_env "Some demo_analyst" "JCancel (job_id demo_job)"]
  by (auto simp: demo_jobs_def)

definition gated_jobs :: jobs_state where
  "gated_jobs = demo_jobs\<lparr>js_jobs := [demo_job\<lparr>job_status := ''failed_fx_data_gap''\<rparr>]\<rparr>"

lemma cancel_of_gated_job_is_noop_witness:
  "cancel_job demo_env (Some demo_analyst) (job_id demo_job) gated_jobs
     = (Inr (demo_job\<lparr>job_status := ''failed_fx_data_gap''\<rparr>), gated_jobs)"
proof -
  have h: "distinct (map job_id (js_jobs gated_jobs))"
    "get_job_by_id (cx_tenant_id demo_analyst) (job_id demo_job) (js_jobs gated_jobs) = Some (demo_job\<lparr>job_status := ''failed_fx_data_gap''\<rparr>)"
    "job_status (demo_job\<lparr>job_status := ''failed_fx_data_gap''\<rparr>) = ''failed_fx_data_gap''"
    by (simp_all add: gated_jobs_def demo_jobs_def demo_job_def get_job_by_id_def tenant_get_def demo_analyst_def
        context_of_def demo_payload_def)
  from cancel_of_gated_job_is_noop[OF demo_analyst_role h(1,2) disjI1[OF h(3)]] show ?thesis .
qed

definition demo_upload :: upload_body where
  "demo_upload = \<lparr>ub_key = key_prefix demo_tid (job_id demo_job) @ ''a__b.pdf'', ub_fiscal_period = None,
     ub_filing_date_iso = Some ''2024-02-30'', ub_reporting_standard = None\<rparr>"

lemma upload_key_round_trip_witness:
  "\<exists>j. fst (upload_complete demo_env ''2024-01-01'' True (Some demo_analyst) (job_id demo_job) demo_upload demo_jobs) = Inr j
     \<and> job_status j = ''queued''"
proof -
  have l: "length (cx_tenant_id demo_analyst) = 36" "length (job_id demo_job) = 36"
    by (simp_all add: demo_analyst_def context_of_def demo_payload_def demo_tid_def demo_job_def)
  have g: "generate_upload_url (Some demo_analyst) (job_id demo_job) ''../a&_b.pdf'' demo_jobs = Inr (ub_key demo_upload)"
    by code_simp
  from upload_key_round_trip[OF g refl demo_jobs_distinct l refl, of demo_env "''2024-01-01''"] show ?thesis by blast
qed

end
