(* ===== verification/ExtractionTask.thy ===== *)
theory ExtractionTask
  imports Jobs PyDate
begin

text \<open>
  The Celery task that runs an extraction: \<^verbatim>\<open>workers/tasks/extraction_tasks.py\<close>.  One attempt is
  two transactions on the job with the extraction between them; Celery runs further attempts
  until one is final.  What \<open>AIExtractionService.extract\<close> does to the line items is left out:
  its outcome is an argument, one per attempt.  The strings of exceptions and of the JSON
  summary are arguments too.
\<close>

subsection \<open>One attempt\<close>

datatype task_exn =
    TaskValueError string | DocumentNotFoundError string | ClaudeAuthError string
  | OtherError (exn_type: string) (exn_text: string)

record extraction_result =
  er_inserted :: nat
  er_skipped :: nat
  er_rejected :: nat
  er_model_version :: string
  er_summary_json :: string

type_synonym extraction_outcome = "task_exn + extraction_result"

text \<open>
  The first transaction: the job is loaded, skipped when terminal, failed when it has no
  document, and set running otherwise.
\<close>

datatype start_result =
    StartSkipped string | StartRaises task_exn | StartRunning "uuid option" string

definition start_attempt :: "instant \<Rightarrow> string \<Rightarrow> uuid \<Rightarrow> uuid \<Rightarrow> financial_job list \<Rightarrow> start_result \<times> financial_job list" where
  "start_attempt t celery_task_id tid i jobs =
     (case get_job_by_id tid i jobs of
        None \<Rightarrow> (StartRaises (TaskValueError ''not found''), jobs)
      | Some j \<Rightarrow>
          if is_terminal j then (StartSkipped (job_status j), jobs)
          else (case job_document_url j of
             Some (c # cs) \<Rightarrow>
               (StartRunning (job_company_id j) (c # cs),
                snd (update_status t tid i (no_job_update\<lparr>ju_status := Some (status_value JOB_RUNNING),
                       ju_celery_task_id := Some celery_task_id, ju_started_at := Some t\<rparr>) jobs))
           | _ \<Rightarrow>
               (StartRaises (DocumentNotFoundError ''document_url is not set on the job''),
                snd (update_status t tid i (no_job_update\<lparr>ju_status := Some (status_value JOB_FAILED),
                       ju_error_message := Some (FreeText ''document_url is not set on the job''),
                       ju_completed_at := Some t\<rparr>) jobs))))"

definition mark_job_failed :: "instant \<Rightarrow> uuid \<Rightarrow> uuid \<Rightarrow> string \<Rightarrow> financial_job list \<Rightarrow> financial_job list" where
  "mark_job_failed t tid i message jobs =
     snd (update_status t tid i (no_job_update\<lparr>ju_status := Some (status_value JOB_FAILED),
            ju_error_message := Some (FreeText (take 1000 message)), ju_completed_at := Some t\<rparr>) jobs)"

definition complete_job :: "instant \<Rightarrow> uuid \<Rightarrow> uuid \<Rightarrow> string \<Rightarrow> financial_job list \<Rightarrow> financial_job list" where
  "complete_job t tid i summary jobs =
     snd (update_status t tid i (no_job_update\<lparr>ju_status := Some (status_value JOB_COMPLETED),
            ju_error_message := Some (FreeText summary), ju_completed_at := Some t\<rparr>) jobs)"

text \<open>How an attempt ends: a value, an exception, or a request to be run again.\<close>

datatype attempt_end = Returned string | Raised task_exn | RetryAfter int

definition max_retries :: nat where "max_retries = 3"

text \<open>The exception handlers of the task around one attempt.\<close>

definition handle_exn :: "instant \<Rightarrow> nat \<Rightarrow> uuid \<Rightarrow> uuid \<Rightarrow> task_exn \<Rightarrow> financial_job list \<Rightarrow> attempt_end \<times> financial_job list" where
  "handle_exn t retries tid i e jobs =
     (case e of
        TaskValueError m \<Rightarrow> (Raised e, mark_job_failed t tid i (''ValueError: '' @ m) jobs)
      | ClaudeAuthError m \<Rightarrow>
          (Raised e, mark_job_failed t tid i
             (''Authentication failed: invalid CLAUDE_API_KEY (HTTP 401).  Details: '' @ take 400 m) jobs)
      | DocumentNotFoundError m \<Rightarrow>
          if max_retries \<le> retries then (Raised e, mark_job_failed t tid i (''DocumentNotFoundError: '' @ take 500 m) jobs)
          else (RetryAfter (60 * 2 ^ retries), jobs)
      | OtherError ty m \<Rightarrow>
          if max_retries \<le> retries then (Raised e, mark_job_failed t tid i (ty @ '': '' @ take 500 m) jobs)
          else (RetryAfter (60 * 2 ^ retries), jobs))"

text \<open>The end of an attempt that reached the extraction.\<close>

definition finish_attempt ::
    "instant \<Rightarrow> nat \<Rightarrow> uuid \<Rightarrow> uuid \<Rightarrow> extraction_outcome \<Rightarrow> financial_job list \<Rightarrow> attempt_end \<times> financial_job list" where
  "finish_attempt t retries tid i outcome jobs =
     (case outcome of
        Inl e \<Rightarrow> handle_exn t retries tid i e jobs
      | Inr r \<Rightarrow> (Returned ''completed'', complete_job t tid i (er_summary_json r) jobs))"

text \<open>
  A whole attempt with nothing in between.  The ids and the filing date are checked first,
  outside the exception handlers.
\<close>

definition attempt ::
    "(nat \<Rightarrow> instant) \<Rightarrow> string \<Rightarrow> extraction_call \<Rightarrow> (nat \<Rightarrow> extraction_outcome) \<Rightarrow> nat \<Rightarrow> financial_job list
     \<Rightarrow> attempt_end \<times> financial_job list" where
  "attempt clock celery_task_id call outcome retries jobs =
     (case (uuid_of_string (ec_job_id call), uuid_of_string (ec_tenant_id call)) of
        (Inr i, Inr tid) \<Rightarrow>
          (case date_fromisoformat (ec_filing_date_iso call) of
             Inl e \<Rightarrow> (Raised (TaskValueError ''filing_date_iso''), jobs)
           | Inr d \<Rightarrow>
               (case start_attempt (clock retries) celery_task_id tid i jobs of
                  (StartSkipped status, jobs1) \<Rightarrow> (Returned ''skipped'', jobs1)
                | (StartRaises e, jobs1) \<Rightarrow> handle_exn (clock retries) retries tid i e jobs1
                | (StartRunning company text_key, jobs1) \<Rightarrow>
                    finish_attempt (clock retries) retries tid i (outcome retries) jobs1))
      | _ \<Rightarrow> (Raised (TaskValueError ''not a valid UUID''), jobs))"

text \<open>Celery: another attempt as long as the task asks for one.\<close>

function run_task ::
    "(nat \<Rightarrow> instant) \<Rightarrow> string \<Rightarrow> extraction_call \<Rightarrow> (nat \<Rightarrow> extraction_outcome) \<Rightarrow> nat \<Rightarrow> financial_job list
     \<Rightarrow> attempt_end \<times> financial_job list" where
  "run_task clock task_id call outcome retries jobs =
     (case attempt clock task_id call outcome retries jobs of
        (RetryAfter s, jobs1) \<Rightarrow>
          if retries < max_retries then run_task clock task_id call outcome (Suc retries) jobs1 else (RetryAfter s, jobs1)
      | (e, jobs1) \<Rightarrow> (e, jobs1))"
  by pat_completeness auto

termination
  by (relation "measure (\<lambda>(_, _, _, _, retries, _). max_retries - retries)") auto

declare run_task.simps [simp del]

subsection \<open>What the updates do to the job\<close>

definition others :: "uuid \<Rightarrow> uuid \<Rightarrow> financial_job list \<Rightarrow> financial_job list" where
  "others tid i jobs = filter (\<lambda>r. \<not> (job_id r = i \<and> job_tenant_id r = tid)) jobs"

text \<open>An update of the named job: the row read back, the others, and the keys.\<close>

lemma status_update_effect:
  assumes "get_job_by_id tid i jobs = Some j" "distinct (map job_id jobs)"
  shows "get_job_by_id tid i (snd (update_status t tid i u jobs)) = Some (status_step (t, u) j)"
    and "others tid i (snd (update_status t tid i u jobs)) = others tid i jobs"
    and "distinct (map job_id (snd (update_status t tid i u jobs)))"
proof -
  show "get_job_by_id tid i (snd (update_status t tid i u jobs)) = Some (status_step (t, u) j)"
    using statused.read_own_write[OF assms(1)[unfolded get_job_by_id_def] assms(2)]
    by (simp add: get_job_by_id_def update_status_def)
  show "others tid i (snd (update_status t tid i u jobs)) = others tid i jobs"
    unfolding others_def update_status_def statused.only_named_row[OF assms(2)]
    by (induction jobs) auto
  show "distinct (map job_id (snd (update_status t tid i u jobs)))"
    unfolding update_status_def statused.keys_kept by (rule assms(2))
qed

definition settled_as :: "string \<Rightarrow> uuid \<Rightarrow> uuid \<Rightarrow> financial_job list \<Rightarrow> financial_job list \<Rightarrow> bool" where
  "settled_as status tid i jobs jobs' =
     ((\<exists>j. get_job_by_id tid i jobs' = Some j \<and> job_status j = status) \<and> others tid i jobs' = others tid i jobs)"

lemma mark_failed_settles:
  assumes "get_job_by_id tid i jobs = Some j" "distinct (map job_id jobs)"
  shows "settled_as ''failed'' tid i jobs (mark_job_failed t tid i m jobs)"
  using status_update_effect[OF assms] by (simp add: settled_as_def mark_job_failed_def no_job_update_def)

lemma complete_settles:
  assumes "get_job_by_id tid i jobs = Some j" "distinct (map job_id jobs)"
  shows "settled_as ''completed'' tid i jobs (complete_job t tid i m jobs)"
  using status_update_effect[OF assms] by (simp add: settled_as_def complete_job_def no_job_update_def)

definition retryable :: "extraction_outcome \<Rightarrow> bool" where
  "retryable r = (case r of
     Inl (DocumentNotFoundError m) \<Rightarrow> True | Inl (OtherError ty m) \<Rightarrow> True | _ \<Rightarrow> False)"

text \<open>
  An attempt on a live job with a document: it completes the job, fails it, or leaves it
  running for another attempt, by the outcome of the extraction and the number of the attempt.
\<close>

definition ready_job :: "uuid \<Rightarrow> uuid \<Rightarrow> financial_job list \<Rightarrow> bool" where
  "ready_job tid i jobs = (distinct (map job_id jobs) \<and>
     (\<exists>j. get_job_by_id tid i jobs = Some j \<and> \<not> is_terminal j \<and> (\<exists>c cs. job_document_url j = Some (c # cs))))"

definition checked_call :: "extraction_call \<Rightarrow> uuid \<Rightarrow> uuid \<Rightarrow> bool" where
  "checked_call call tid i = (uuid_of_string (ec_job_id call) = Inr i \<and> uuid_of_string (ec_tenant_id call) = Inr tid
     \<and> (\<exists>d. date_fromisoformat (ec_filing_date_iso call) = Inr d))"

lemma start_ready:
  assumes "ready_job tid i jobs"
  obtains c key jobs1 where "start_attempt t task_id tid i jobs = (StartRunning c key, jobs1)"
    and "ready_job tid i jobs1" "others tid i jobs1 = others tid i jobs" "settled_as ''running'' tid i jobs jobs1"
proof -
  from assms obtain j c cs where j: "distinct (map job_id jobs)" "get_job_by_id tid i jobs = Some j"
      "\<not> is_terminal j" "job_document_url j = Some (c # cs)" by (auto simp: ready_job_def)
  let ?u = "no_job_update\<lparr>ju_status := Some (status_value JOB_RUNNING), ju_celery_task_id := Some task_id, ju_started_at := Some t\<rparr>"
  note e = status_update_effect[OF j(2,1), of t ?u]
  have s: "job_status (status_step (t, ?u) j) = ''running''" by simp
  then have live: "\<not> is_terminal (status_step (t, ?u) j)" by (simp add: is_terminal_def)
  have doc: "job_document_url (status_step (t, ?u) j) = Some (c # cs)" using j(4) by simp
  show thesis
  proof (rule that)
    show "start_attempt t task_id tid i jobs = (StartRunning (job_company_id j) (c # cs), snd (update_status t tid i ?u jobs))"
      using j by (simp add: start_attempt_def)
    show "ready_job tid i (snd (update_status t tid i ?u jobs))"
      using e(1,3) live doc unfolding ready_job_def by blast
    show "others tid i (snd (update_status t tid i ?u jobs)) = others tid i jobs" by (rule e(2))
    show "settled_as ''running'' tid i jobs (snd (update_status t tid i ?u jobs))"
      using e s by (simp add: settled_as_def)
  qed
qed

lemma settled_as_trans:
  "others tid i jobs1 = others tid i jobs \<Longrightarrow> settled_as st tid i jobs1 jobs2 \<Longrightarrow> settled_as st tid i jobs jobs2"
  by (simp add: settled_as_def)

lemma handle_exn_effect:
  assumes "ready_job tid i jobs"
  shows "if retryable (Inl e) \<and> retries < max_retries
         then handle_exn t retries tid i e jobs = (RetryAfter (60 * 2 ^ retries), jobs)
         else fst (handle_exn t retries tid i e jobs) = Raised e
              \<and> settled_as ''failed'' tid i jobs (snd (handle_exn t retries tid i e jobs))"
proof -
  from assms obtain j where "get_job_by_id tid i jobs = Some j" "distinct (map job_id jobs)" by (auto simp: ready_job_def)
  note f = mark_failed_settles[OF this]
  show ?thesis by (cases e) (auto simp: handle_exn_def retryable_def f)
qed

lemma finish_effect:
  assumes "ready_job tid i jobs"
  shows "if retryable outcome \<and> retries < max_retries
         then \<exists>s. finish_attempt t retries tid i outcome jobs = (RetryAfter s, jobs)
         else (\<forall>s. fst (finish_attempt t retries tid i outcome jobs) \<noteq> RetryAfter s)
              \<and> settled_as (if isl outcome then ''failed'' else ''completed'') tid i jobs
                  (snd (finish_attempt t retries tid i outcome jobs))"
proof (cases outcome)
  case (Inl e)
  with handle_exn_effect[OF assms, of e retries t] show ?thesis
    by (auto simp: finish_attempt_def split: if_splits)
next
  case (Inr r)
  from assms obtain j where "get_job_by_id tid i jobs = Some j" "distinct (map job_id jobs)" by (auto simp: ready_job_def)
  note f = complete_settles[OF this]
  from Inr show ?thesis by (simp add: finish_attempt_def retryable_def f)
qed

text \<open>Whether the attempts from \<open>k\<close> on end with a success.\<close>

definition succeeds_from :: "(nat \<Rightarrow> extraction_outcome) \<Rightarrow> nat \<Rightarrow> bool" where
  "succeeds_from outcome k = (\<exists>n. k \<le> n \<and> n \<le> max_retries \<and> \<not> isl (outcome n) \<and> (\<forall>m. k \<le> m \<and> m < n \<longrightarrow> retryable (outcome m)))"

lemma succeeds_now: "k \<le> max_retries \<Longrightarrow> \<not> isl (outcome k) \<Longrightarrow> succeeds_from outcome k"
  unfolding succeeds_from_def by (intro exI[of _ k]) auto

lemma succeeds_stop:
  assumes "isl (outcome k)" "\<not> (retryable (outcome k) \<and> k < max_retries)"
  shows "\<not> succeeds_from outcome k"
proof
  assume "succeeds_from outcome k"
  then obtain n where n: "k \<le> n" "n \<le> max_retries" "\<not> isl (outcome n)" "\<forall>m. k \<le> m \<and> m < n \<longrightarrow> retryable (outcome m)"
    unfolding succeeds_from_def by blast
  then have "k < n" using assms(1) le_neq_implies_less by blast
  with n assms(2) show False by auto
qed

lemma succeeds_later:
  assumes "isl (outcome k)" "retryable (outcome k)"
  shows "succeeds_from outcome k \<longleftrightarrow> succeeds_from outcome (Suc k)"
proof
  assume "succeeds_from outcome k"
  then obtain n where n: "k \<le> n" "n \<le> max_retries" "\<not> isl (outcome n)" "\<forall>m. k \<le> m \<and> m < n \<longrightarrow> retryable (outcome m)"
    unfolding succeeds_from_def by blast
  then have "Suc k \<le> n" using assms(1) by (metis Suc_leI le_neq_implies_less)
  with n show "succeeds_from outcome (Suc k)" unfolding succeeds_from_def by (intro exI[of _ n]) auto
next
  assume "succeeds_from outcome (Suc k)"
  then obtain n where n: "Suc k \<le> n" "n \<le> max_retries" "\<not> isl (outcome n)" "\<forall>m. Suc k \<le> m \<and> m < n \<longrightarrow> retryable (outcome m)"
    unfolding succeeds_from_def by blast
  have "retryable (outcome m)" if "k \<le> m" "m < n" for m
    using that n(4) assms(2) by (cases "m = k") auto
  with n show "succeeds_from outcome k" unfolding succeeds_from_def by (intro exI[of _ n]) auto
qed

lemma retryable_isl: "retryable r \<Longrightarrow> isl r"
  by (cases r) (auto simp: retryable_def)

lemma run_task_settles:
  "checked_call call tid i \<Longrightarrow> ready_job tid i jobs \<Longrightarrow> retries \<le> max_retries \<Longrightarrow>
     settled_as (if succeeds_from outcome retries then ''completed'' else ''failed'') tid i jobs
       (snd (run_task clock task_id call outcome retries jobs))
     \<and> (\<forall>s. fst (run_task clock task_id call outcome retries jobs) \<noteq> RetryAfter s)"
proof (induction clock task_id call outcome retries jobs rule: run_task.induct)
  case (1 clock task_id call outcome retries jobs)
  from 1(3) obtain c key jobs1 where s: "start_attempt (clock retries) task_id tid i jobs = (StartRunning c key, jobs1)"
      "ready_job tid i jobs1" "others tid i jobs1 = others tid i jobs" "settled_as ''running'' tid i jobs jobs1"
    using start_ready by blast
  have a: "attempt clock task_id call outcome retries jobs
      = finish_attempt (clock retries) retries tid i (outcome retries) jobs1"
    using 1(2) s(1) by (auto simp: attempt_def checked_call_def)
  note f = finish_effect[OF s(2), of "outcome retries" retries "clock retries"]
  show ?case
  proof (cases "retryable (outcome retries) \<and> retries < max_retries")
    case True
    with f obtain d where d: "attempt clock task_id call outcome retries jobs = (RetryAfter d, jobs1)"
      unfolding a by auto
    have r: "run_task clock task_id call outcome retries jobs = run_task clock task_id call outcome (Suc retries) jobs1"
      using d True by (subst run_task.simps) simp
    have IH: "settled_as (if succeeds_from outcome (Suc retries) then ''completed'' else ''failed'') tid i jobs1
       (snd (run_task clock task_id call outcome (Suc retries) jobs1))
     \<and> (\<forall>s. fst (run_task clock task_id call outcome (Suc retries) jobs1) \<noteq> RetryAfter s)"
      using 1(1)[OF d[symmetric] refl] True 1(2) s(2) by auto
    then show ?thesis
      unfolding r using settled_as_trans[OF s(3)] succeeds_later[of outcome retries] True retryable_isl by auto
  next
    case False
    with f have e: "\<forall>s. fst (attempt clock task_id call outcome retries jobs) \<noteq> RetryAfter s"
        "settled_as (if isl (outcome retries) then ''failed'' else ''completed'') tid i jobs1
           (snd (attempt clock task_id call outcome retries jobs))"
      unfolding a by simp_all
    have r: "run_task clock task_id call outcome retries jobs = attempt clock task_id call outcome retries jobs"
      using e(1) by (subst run_task.simps) (auto split: prod.splits attempt_end.splits)
    have "succeeds_from outcome retries \<longleftrightarrow> \<not> isl (outcome retries)"
      using succeeds_now[OF 1(4)] succeeds_stop[of outcome retries] False by blast
    then show ?thesis unfolding r using e settled_as_trans[OF s(3)] by auto
  qed
qed

subsection \<open>Properties\<close>

text \<open>
  C16: the extraction task always settles its job.  For a live job with a document and a call whose ids and
  date parse, the attempts Celery runs end without asking for another one and leave the job
  completed when some attempt up to the fourth succeeds after retryable failures only, and failed
  otherwise; no other job changes.  Retryable is what the handler retries: every exception but \<open>ValueError\<close> and a
  rejected API key, the missing and the empty document included, which the task's documentation excepts.
\<close>

theorem extraction_settles_job:
  assumes "uuid_of_string (ec_job_id call) = Inr i" "uuid_of_string (ec_tenant_id call) = Inr tid"
    and "date_fromisoformat (ec_filing_date_iso call) = Inr d"
    and "get_job_by_id tid i jobs = Some j" "\<not> is_terminal j" "job_document_url j = Some url" "url \<noteq> []"
    and "distinct (map job_id jobs)"
  shows "(\<forall>s. fst (run_task clock task_id call outcome 0 jobs) \<noteq> RetryAfter s)
     \<and> (\<exists>j'. get_job_by_id tid i (snd (run_task clock task_id call outcome 0 jobs)) = Some j'
          \<and> job_status j' = (if \<exists>n \<le> 3. (\<exists>r. outcome n = Inr r) \<and> (\<forall>m < n. retryable (outcome m))
                             then ''completed'' else ''failed''))
     \<and> filter (\<lambda>r. \<not> (job_id r = i \<and> job_tenant_id r = tid)) (snd (run_task clock task_id call outcome 0 jobs))
         = filter (\<lambda>r. \<not> (job_id r = i \<and> job_tenant_id r = tid)) jobs"
proof -
  have "checked_call call tid i" using assms(1-3) by (auto simp: checked_call_def)
  moreover have "ready_job tid i jobs" using assms(4-8) by (auto simp: ready_job_def neq_Nil_conv)
  moreover have "succeeds_from outcome 0 \<longleftrightarrow> (\<exists>n \<le> 3. (\<exists>r. outcome n = Inr r) \<and> (\<forall>m < n. retryable (outcome m)))"
  proof -
    have "\<not> isl x \<longleftrightarrow> (\<exists>r. x = Inr r)" for x :: extraction_outcome by (cases x) auto
    then show ?thesis by (auto simp: succeeds_from_def max_retries_def)
  qed
  ultimately show ?thesis
    using run_task_settles[of call tid i jobs 0 outcome clock task_id]
    unfolding settled_as_def others_def by simp
qed

text \<open>
  Cancelling a job does not stop its extraction.  A cancel request that is granted while
  an attempt is between its two transactions is overwritten by the end of the attempt: the
  cancelled job becomes completed when the extraction succeeds and failed when it ends in a
  final error.
\<close>

theorem cancel_lost_during_extraction:
  assumes "start_attempt t task_id tid i (js_jobs s) = (StartRunning company key, jobs1)" "distinct (map job_id (js_jobs s))"
    and "cancel_job E (Some c) i (s\<lparr>js_jobs := jobs1\<rparr>) = (Inr j, s2)" "cx_tenant_id c = tid"
    and "\<not> (retryable outcome \<and> retries < 3)"
  shows "job_status j = ''cancelled''
     \<and> (\<exists>j'. get_job_by_id tid i (snd (finish_attempt t' retries tid i outcome (js_jobs s2))) = Some j'
          \<and> job_status j' = (if isl outcome then ''failed'' else ''completed''))"
proof -
  from assms(1) obtain j0 u where j0: "get_job_by_id tid i (js_jobs s) = Some j0" "\<not> is_terminal j0"
      "jobs1 = snd (update_status t tid i u (js_jobs s))" "ju_status u = Some ''running''"
    by (auto simp: start_attempt_def split: option.splits if_splits list.splits)
  note e = status_update_effect[OF j0(1) assms(2), of t u]
  have d1: "distinct (map job_id jobs1)" and g1: "get_job_by_id tid i jobs1 = Some (status_step (t, u) j0)"
    and r1: "job_status (status_step (t, u) j0) = ''running''" using e j0(3,4) by simp_all
  have "require_role ANALYST (Some c) = Inr c"
    using assms(3) by (cases "require_role ANALYST (Some c)") (simp_all add: cancel_job_def require_role_Inr)
  then have c: "j = cancel_step (now E) (status_step (t, u) j0)"
      "js_jobs s2 = snd (tenant_update job_id job_tenant_id (cancel_step (now E)) tid i jobs1)"
    using assms(3,4) g1 r1
    by (auto simp: cancel_job_def cancel_job_row_def is_terminal_def get_job_by_id_def tenant_update_def
        split: sum.splits option.splits if_splits prod.splits)
  have st: "job_status j = ''cancelled''" using c(1) r1 by (simp add: cancel_step_def)
  have g2: "get_job_by_id tid i (js_jobs s2) = Some j"
    using cancelled.read_own_write[OF g1[unfolded get_job_by_id_def] d1] c by (simp add: get_job_by_id_def)
  have d2: "distinct (map job_id (js_jobs s2))" using d1 c(2) by (simp only: cancelled.keys_kept)
  note f = mark_failed_settles[OF g2 d2] and g = complete_settles[OF g2 d2]
  have "settled_as (if isl outcome then ''failed'' else ''completed'') tid i (js_jobs s2)
      (snd (finish_attempt t' retries tid i outcome (js_jobs s2)))"
  proof (cases outcome)
    case (Inl x)
    then show ?thesis using f assms(5)
      by (cases x) (auto simp: finish_attempt_def handle_exn_def retryable_def max_retries_def)
  qed (simp add: finish_attempt_def g)
  with st show ?thesis by (auto simp: settled_as_def)
qed

text \<open>
  A filing date that does not parse strands the job.  The upload request accepts any string
  as the date, queues the job and dispatches the task; every run of that task raises before its exception
  handlers, so the job stays queued however the task is run.
\<close>

theorem bad_filing_date_strands_job:
  assumes "upload_complete E today True ctx i body s = (Inr j, s')" "distinct (map job_id (js_jobs s))"
    and "ctx = Some c" "ub_filing_date_iso body = Some dt" "dt \<noteq> []" "date_fromisoformat dt = Inl e"
  shows "\<exists>call. js_tasks s' = js_tasks s @ [call] \<and>
     (\<exists>ex. run_task clock task_id call outcome 0 (js_jobs s') = (Raised (TaskValueError ex), js_jobs s'))
     \<and> get_job_by_id (cx_tenant_id c) i (js_jobs s') = Some j \<and> job_status j = ''queued''"
proof -
  have "\<exists>c j. require_role ANALYST ctx = Inr c \<and> length_in 1 2000 (ub_key body)
     \<and> get_job_by_id (cx_tenant_id c) i (js_jobs s) = Some j \<and> \<not> is_terminal j
     \<and> take (length (key_prefix (cx_tenant_id c) i)) (ub_key body) = key_prefix (cx_tenant_id c) i"
    using assms(1) by (auto simp: upload_complete_def split: sum.splits option.splits if_splits)
  then obtain c' j0 where r: "require_role ANALYST ctx = Inr c'" "length_in 1 2000 (ub_key body)"
     "get_job_by_id (cx_tenant_id c') i (js_jobs s) = Some j0" "\<not> is_terminal j0"
     "take (length (key_prefix (cx_tenant_id c') i)) (ub_key body) = key_prefix (cx_tenant_id c') i" by blast
  have cc: "c' = c" using r(1) assms(3) by (simp add: require_role_Inr)
  have row: "get_job_by_id (cx_tenant_id c) i (queued_rows (now E) (cx_tenant_id c) i (ub_key body) (js_jobs s))
      = Some (queue_step (now E) (ub_key body) j0)"
    using queued_row_found[OF r(3) assms(2)] cc by simp
  have u: "j = queue_step (now E) (ub_key body) j0"
    "js_jobs s' = queued_rows (now E) (cx_tenant_id c) i (ub_key body) (js_jobs s)"
    "\<exists>call. js_tasks s' = js_tasks s @ [call] \<and> ec_filing_date_iso call = dt"
    using upload_complete_checked[OF r assms(2), of E today True] assms(1,4,5) cc
    by (auto simp: Let_def or_default_def neq_Nil_conv)
  then obtain call where call: "js_tasks s' = js_tasks s @ [call]" "ec_filing_date_iso call = dt" by blast
  have "\<exists>ex. attempt clock task_id call outcome 0 (js_jobs s') = (Raised (TaskValueError ex), js_jobs s')"
    using assms(6) call(2) by (auto simp: attempt_def split: sum.splits)
  then have "\<exists>ex. run_task clock task_id call outcome 0 (js_jobs s') = (Raised (TaskValueError ex), js_jobs s')"
    by (subst run_task.simps) auto
  with call(1) row u(1,2) show ?thesis by auto
qed

subsection \<open>Concrete runs\<close>

definition demo_call :: extraction_call where
  "demo_call = \<lparr>ec_job_id = job_id demo_job, ec_tenant_id = demo_tid, ec_fiscal_period = ''FY'',
     ec_filing_date_iso = ''2024-02-29'', ec_reporting_standard = ''US_GAAP''\<rparr>"

definition demo_result :: extraction_result where
  "demo_result = \<lparr>er_inserted = 1, er_skipped = 0, er_rejected = 0, er_model_version = ''m'', er_summary_json = ''{}''\<rparr>"

definition queued_job :: financial_job where
  "queued_job = demo_job\<lparr>job_status := ''queued'', job_document_url := Some ''k''\<rparr>"

definition flaky :: "nat \<Rightarrow> extraction_outcome" where
  "flaky n = (if n < 2 then Inl (OtherError ''Timeout'' ''t'') else Inr demo_result)"

lemma demo_ids: "uuid_of_string (ec_job_id demo_call) = Inr (job_id demo_job)"
  "uuid_of_string (ec_tenant_id demo_call) = Inr demo_tid"
  by code_simp+

lemma demo_date: "date_fromisoformat (ec_filing_date_iso demo_call) = Inr 738945"
  by code_simp

lemma queued_job_found: "get_job_by_id demo_tid (job_id demo_job) [queued_job] = Some queued_job"
  by (simp add: get_job_by_id_def tenant_get_def queued_job_def demo_job_def)

text \<open>Two timeouts, then a success.\<close>

lemma extraction_settles_job_witness:
  "\<exists>j. get_job_by_id demo_tid (job_id demo_job) (snd (run_task int ''task'' demo_call flaky 0 [queued_job])) = Some j
     \<and> job_status j = ''completed''"
proof -
  have h: "\<not> is_terminal queued_job" "job_document_url queued_job = Some ''k''" "''k'' \<noteq> []" "distinct (map job_id [queued_job])"
    by (simp_all add: queued_job_def is_terminal_def)
  have "\<exists>n \<le> 3. (\<exists>r. flaky n = Inr r) \<and> (\<forall>m < n. retryable (flaky m))"
    by (intro exI[of _ 2]) (simp add: flaky_def retryable_def)
  with extraction_settles_job[OF demo_ids demo_date queued_job_found h, of int "''task''" flaky] show ?thesis by simp
qed

definition demo_started :: "start_result \<times> financial_job list" where
  "demo_started = start_attempt 1 ''task'' demo_tid (job_id demo_job) [queued_job]"

definition demo_cancelled :: "(job_error + financial_job) \<times> jobs_state" where
  "demo_cancelled = cancel_job demo_env (Some demo_analyst) (job_id demo_job)
     (demo_jobs\<lparr>js_jobs := [queued_job]\<rparr>\<lparr>js_jobs := snd demo_started\<rparr>)"

lemma demo_started_runs: "case fst demo_started of StartRunning c k \<Rightarrow> k = ''k'' | _ \<Rightarrow> False"
  by code_simp

lemma demo_cancelled_runs: "case fst demo_cancelled of Inr j \<Rightarrow> job_status j = ''cancelled'' | Inl _ \<Rightarrow> False"
  by code_simp

lemma cancel_lost_during_extraction_witness:
  "\<exists>j. get_job_by_id demo_tid (job_id demo_job)
         (snd (finish_attempt 2 0 demo_tid (job_id demo_job) (Inr demo_result) (js_jobs (snd demo_cancelled)))) = Some j
     \<and> job_status j = ''completed''"
proof (rule run_returns[OF demo_cancelled_runs])
  fix r
  assume "demo_cancelled = (Inr r, snd demo_cancelled)"
  then have run: "cancel_job demo_env (Some demo_analyst) (job_id demo_job)
     (demo_jobs\<lparr>js_jobs := [queued_job]\<rparr>\<lparr>js_jobs := snd demo_started\<rparr>) = (Inr r, snd demo_cancelled)"
    unfolding demo_cancelled_def .
  obtain c k where "fst demo_started = StartRunning c k"
    using demo_started_runs by (cases "fst demo_started") auto
  then have start: "start_attempt 1 ''task'' demo_tid (job_id demo_job) (js_jobs (demo_jobs\<lparr>js_jobs := [queued_job]\<rparr>))
      = (StartRunning c k, snd demo_started)"
    by (metis demo_started_def jobs_state.select_convs(1) jobs_state.surjective jobs_state.update_convs(1) prod.collapse)
  have h: "distinct (map job_id (js_jobs (demo_jobs\<lparr>js_jobs := [queued_job]\<rparr>)))" "cx_tenant_id demo_analyst = demo_tid"
    "\<not> (retryable (Inr demo_result) \<and> (0 :: nat) < 3)"
    by (simp_all add: demo_analyst_def context_of_def demo_payload_def retryable_def)
  from cancel_lost_during_extraction[OF start h(1) run h(2,3), of 2] show ?thesis by simp
qed

definition demo_uploaded :: "(job_error + financial_job) \<times> jobs_state" where
  "demo_uploaded = upload_complete demo_env ''2024-01-01'' True (Some demo_analyst) (job_id demo_job) demo_upload demo_jobs"

lemma demo_uploaded_runs: "case fst demo_uploaded of Inr j \<Rightarrow> job_status j = ''queued'' | Inl _ \<Rightarrow> False"
  by code_simp

text \<open>An upload with the filing date 30 February.\<close>

lemma bad_filing_date_strands_job_witness:
  "\<exists>call ex. js_tasks (snd demo_uploaded) = [call] \<and>
     run_task int ''task'' call flaky 0 (js_jobs (snd demo_uploaded)) = (Raised (TaskValueError ex), js_jobs (snd demo_uploaded))"
proof (rule run_returns[OF demo_uploaded_runs])
  fix r
  assume "demo_uploaded = (Inr r, snd demo_uploaded)"
  then have run: "upload_complete demo_env ''2024-01-01'' True (Some demo_analyst) (job_id demo_job) demo_upload demo_jobs
      = (Inr r, snd demo_uploaded)" unfolding demo_uploaded_def .
  have dt: "ub_filing_date_iso demo_upload = Some ''2024-02-30''" "''2024-02-30'' \<noteq> []" by (simp_all add: demo_upload_def)
  have bad: "date_fromisoformat ''2024-02-30'' = Inl ValueError" by code_simp
  from bad_filing_date_strands_job[OF run demo_jobs_distinct refl dt bad, of int "''task''" flaky] show ?thesis
    by (auto simp: demo_jobs_def)
qed

end
