(* ===== verification/XBRLParser.thy ===== *)
theory XBRLParser
  imports LineItem PyParse
begin

text \<open>
  The streaming XBRL parser \<^verbatim>\<open>services/ingestion/parsers/xbrl_parser.py\<close>: the taxonomy and its sign
  convention, the numbers and periods it reads, the two passes over the document, and the
  line items it packs.  The XML library is a parameter: what \<open>iterparse\<close> makes of the bytes (the
  element tree whose end events it delivers, children before parents, and whether a
  syntax error ends the stream) and \<open>Element.clear\<close>, whose documented effect is the
  hypothesis \<open>documented_clear\<close>.  Numbers that are not finite are kept apart from line items,
  whose values are finite decimals; logging and counters are left out.
\<close>

subsection \<open>Taxonomy\<close>

definition SCALE_MAP :: "(string \<times> decimal) list" where
  "SCALE_MAP = [(''0'', Dec 1 0), (''1'', Dec 10 0), (''2'', Dec 100 0), (''3'', Dec 1000 0), (''4'', Dec 10000 0),
     (''5'', Dec 100000 0), (''6'', Dec 1000000 0), (''7'', Dec 10000000 0), (''8'', Dec 100000000 0),
     (''9'', Dec 1000000000 0), (''-3'', Dec 1 (-3)), (''-6'', Dec 1 (-6))]"

definition PREFIX_TO_STANDARD :: "(string \<times> string) list" where
  "PREFIX_TO_STANDARD = [(''us-gaap'', ''US_GAAP''), (''gaap'', ''US_GAAP''), (''ifrs-full'', ''IFRS''), (''ifrs'', ''IFRS''),
     (''in-gaap'', ''IND_AS''), (''ind-as'', ''IND_AS'')]"

text \<open>Concept, canonical field, statement, outflow.\<close>

definition TAXONOMY :: "(string \<times> string \<times> string \<times> bool) list" where
  "TAXONOMY = [
    (''Revenues'', ''revenue'', ''IS'', False),
    (''RevenueFromContractWithCustomerExcludingAssessedTax'', ''revenue'', ''IS'', False),
    (''RevenueFromContractWithCustomerIncludingAssessedTax'', ''revenue'', ''IS'', False),
    (''RevenueFromContractWithCustomer'', ''revenue'', ''IS'', False),
    (''SalesRevenueNet'', ''revenue'', ''IS'', False),
    (''SalesRevenueGoodsNet'', ''revenue'', ''IS'', False),
    (''NetRevenues'', ''revenue'', ''IS'', False),
    (''Revenue'', ''revenue'', ''IS'', False),
    (''RevenueFromContractsWithCustomers'', ''revenue'', ''IS'', False),
    (''TotalRevenues'', ''revenue'', ''IS'', False),
    (''CostOfGoodsSold'', ''cogs'', ''IS'', True),
    (''CostOfRevenue'', ''cogs'', ''IS'', True),
    (''CostOfGoodsAndServicesSold'', ''cogs'', ''IS'', True),
    (''CostOfSales'', ''cogs'', ''IS'', True),
    (''CostOfGoodsSoldExcludingDepreciationDepletionAndAmortization'', ''cogs'', ''IS'', True),
    (''GrossProfit'', ''gross_profit'', ''IS'', False),
    (''OperatingExpenses'', ''operating_expenses'', ''IS'', True),
    (''ResearchAndDevelopmentExpense'', ''research_and_development'', ''IS'', True),
    (''ResearchAndDevelopmentExpenseExcludingAcquiredInProcessCost'', ''research_and_development'', ''IS'', True),
    (''SellingGeneralAndAdministrativeExpense'', ''selling_general_administrative'', ''IS'', True),
    (''SellingAndMarketingExpense'', ''selling_expense'', ''IS'', True),
    (''GeneralAndAdministrativeExpense'', ''general_and_administrative'', ''IS'', True),
    (''DistributionCosts'', ''distribution_costs'', ''IS'', True),
    (''OtherOperatingExpenses'', ''other_operating_expenses'', ''IS'', True),
    (''OtherOperatingIncomeExpenseNet'', ''other_operating_income'', ''IS'', False),
    (''DepreciationAndAmortizationNotIncludedElsewhere'', ''depreciation_amortization'', ''IS'', True),
    (''OperatingIncomeLoss'', ''operating_income'', ''IS'', False),
    (''OperatingProfit'', ''operating_income'', ''IS'', False),
    (''InterestExpense'', ''interest_expense'', ''IS'', True),
    (''InterestExpenseNet'', ''interest_expense'', ''IS'', True),
    (''FinanceCosts'', ''interest_expense'', ''IS'', True),
    (''FinanceExpenses'', ''interest_expense'', ''IS'', True),
    (''InvestmentIncomeInterest'', ''interest_income'', ''IS'', False),
    (''InterestAndDividendIncomeOperating'', ''interest_income'', ''IS'', False),
    (''FinanceIncome'', ''interest_income'', ''IS'', False),
    (''OtherNonoperatingIncomeExpense'', ''other_nonoperating_income'', ''IS'', False),
    (''IncomeLossFromContinuingOperationsBeforeIncomeTaxesExtraordinaryItemsNoncontrollingInterest'', ''income_before_tax'', ''IS'', False),
    (''IncomeLossFromContinuingOperationsBeforeIncomeTaxesDomestic'', ''income_before_tax'', ''IS'', False),
    (''IncomeLossBeforeIncomeTaxExpenseBenefit'', ''income_before_tax'', ''IS'', False),
    (''ProfitLossBeforeTax'', ''income_before_tax'', ''IS'', False),
    (''IncomeTaxExpenseBenefit'', ''income_tax_expense'', ''IS'', True),
    (''IncomeTaxExpense'', ''income_tax_expense'', ''IS'', True),
    (''NetIncomeLoss'', ''net_income'', ''IS'', False),
    (''NetIncome'', ''net_income'', ''IS'', False),
    (''ProfitLoss'', ''net_income'', ''IS'', False),
    (''NetIncomeLossAvailableToCommonStockholdersBasic'', ''net_income'', ''IS'', False),
    (''ProfitLossAttributableToOwnersOfParent'', ''net_income'', ''IS'', False),
    (''ComprehensiveIncomeNetOfTax'', ''comprehensive_income'', ''IS'', False),
    (''OtherComprehensiveIncomeLossNetOfTax'', ''other_comprehensive_income'', ''IS'', False),
    (''EarningsPerShareBasic'', ''eps_basic'', ''IS'', False),
    (''BasicEarningsLossPerShare'', ''eps_basic'', ''IS'', False),
    (''EarningsPerShareDiluted'', ''eps_diluted'', ''IS'', False),
    (''DilutedEarningsLossPerShare'', ''eps_diluted'', ''IS'', False),
    (''WeightedAverageNumberOfSharesOutstandingBasic'', ''shares_basic'', ''IS'', False),
    (''WeightedAverageNumberOfDilutedSharesOutstanding'', ''shares_diluted'', ''IS'', False),
    (''CashAndCashEquivalentsAtCarryingValue'', ''cash_and_equivalents'', ''BS'', False),
    (''CashAndCashEquivalents'', ''cash_and_equivalents'', ''BS'', False),
    (''Cash'', ''cash_and_equivalents'', ''BS'', False),
    (''CashCashEquivalentsAndShortTermInvestments'', ''cash_and_short_term_investments'', ''BS'', False),
    (''ShortTermInvestments'', ''short_term_investments'', ''BS'', False),
    (''AccountsReceivableNetCurrent'', ''accounts_receivable'', ''BS'', False),
    (''TradeAndOtherReceivablesCurrent'', ''accounts_receivable'', ''BS'', False),
    (''ReceivablesCurrent'', ''accounts_receivable'', ''BS'', False),
    (''InventoryNet'', ''inventory'', ''BS'', False),
    (''Inventories'', ''inventory'', ''BS'', False),
    (''PrepaidExpenseAndOtherAssetsCurrent'', ''prepaid_and_other_current'', ''BS'', False),
    (''AssetsCurrent'', ''total_current_assets'', ''BS'', False),
    (''CurrentAssets'', ''total_current_assets'', ''BS'', False),
    (''PropertyPlantAndEquipmentNet'', ''property_plant_equipment'', ''BS'', False),
    (''PropertyPlantAndEquipment'', ''property_plant_equipment'', ''BS'', False),
    (''Goodwill'', ''goodwill'', ''BS'', False),
    (''IntangibleAssetsNetExcludingGoodwill'', ''intangible_assets'', ''BS'', False),
    (''IntangibleAssetsOtherThanGoodwill'', ''intangible_assets'', ''BS'', False),
    (''IntangibleAssets'', ''intangible_assets'', ''BS'', False),
    (''GoodwillAndIntangibleAssetsNet'', ''goodwill_and_intangibles'', ''BS'', False),
    (''LongTermInvestments'', ''long_term_investments'', ''BS'', False),
    (''AssetsNoncurrent'', ''total_noncurrent_assets'', ''BS'', False),
    (''NoncurrentAssets'', ''total_noncurrent_assets'', ''BS'', False),
    (''DeferredTaxAssetsLiabilitiesNet'', ''deferred_tax_asset'', ''BS'', False),
    (''DeferredIncomeTaxAssetsNet'', ''deferred_tax_asset'', ''BS'', False),
    (''Assets'', ''total_assets'', ''BS'', False),
    (''TotalAssets'', ''total_assets'', ''BS'', False),
    (''AccountsPayableCurrent'', ''accounts_payable'', ''BS'', False),
    (''TradeAndOtherPayablesCurrent'', ''accounts_payable'', ''BS'', False),
    (''AccruedLiabilitiesCurrent'', ''accrued_liabilities'', ''BS'', False),
    (''DeferredRevenueCurrent'', ''deferred_revenue'', ''BS'', False),
    (''ContractWithCustomerLiabilityCurrent'', ''deferred_revenue'', ''BS'', False),
    (''ShortTermBorrowings'', ''short_term_debt'', ''BS'', False),
    (''LongTermDebtCurrent'', ''current_portion_long_term_debt'', ''BS'', False),
    (''LiabilitiesCurrent'', ''total_current_liabilities'', ''BS'', False),
    (''CurrentLiabilities'', ''total_current_liabilities'', ''BS'', False),
    (''LongTermDebt'', ''long_term_debt'', ''BS'', False),
    (''LongTermDebtNoncurrent'', ''long_term_debt'', ''BS'', False),
    (''LongTermBorrowings'', ''long_term_debt'', ''BS'', False),
    (''DeferredRevenueNoncurrent'', ''deferred_revenue_noncurrent'', ''BS'', False),
    (''DeferredIncomeTaxLiabilitiesNet'', ''deferred_tax_liability'', ''BS'', False),
    (''LiabilitiesNoncurrent'', ''total_noncurrent_liabilities'', ''BS'', False),
    (''NoncurrentLiabilities'', ''total_noncurrent_liabilities'', ''BS'', False),
    (''Liabilities'', ''total_liabilities'', ''BS'', False),
    (''TotalLiabilities'', ''total_liabilities'', ''BS'', False),
    (''CommonStockValue'', ''common_stock'', ''BS'', False),
    (''CommonStock'', ''common_stock'', ''BS'', False),
    (''ShareCapital'', ''common_stock'', ''BS'', False),
    (''AdditionalPaidInCapital'', ''additional_paid_in_capital'', ''BS'', False),
    (''AdditionalPaidInCapitalCommonStock'', ''additional_paid_in_capital'', ''BS'', False),
    (''SharePremium'', ''additional_paid_in_capital'', ''BS'', False),
    (''RetainedEarningsAccumulatedDeficit'', ''retained_earnings'', ''BS'', False),
    (''RetainedEarnings'', ''retained_earnings'', ''BS'', False),
    (''AccumulatedOtherComprehensiveIncomeLossNetOfTax'', ''accumulated_oci'', ''BS'', False),
    (''OtherReserves'', ''accumulated_oci'', ''BS'', False),
    (''TreasuryStockValue'', ''treasury_stock'', ''BS'', False),
    (''StockholdersEquity'', ''total_equity'', ''BS'', False),
    (''StockholdersEquityIncludingPortionAttributableToNoncontrollingInterest'', ''total_equity'', ''BS'', False),
    (''Equity'', ''total_equity'', ''BS'', False),
    (''EquityAttributableToOwnersOfParent'', ''total_equity'', ''BS'', False),
    (''MinorityInterest'', ''noncontrolling_interest'', ''BS'', False),
    (''LiabilitiesAndStockholdersEquity'', ''total_liabilities_and_equity'', ''BS'', False),
    (''NetCashProvidedByUsedInOperatingActivities'', ''operating_cash_flow'', ''CF'', False),
    (''NetCashProvidedByUsedInOperatingActivitiesContinuingOperations'', ''operating_cash_flow'', ''CF'', False),
    (''CashFlowsFromUsedInOperatingActivities'', ''operating_cash_flow'', ''CF'', False),
    (''DepreciationDepletionAndAmortization'', ''depreciation_amortization'', ''CF'', False),
    (''DepreciationAmortisationAndImpairmentLoss'', ''depreciation_amortization'', ''CF'', False),
    (''DepreciationAndAmortization'', ''depreciation_amortization'', ''CF'', False),
    (''ShareBasedCompensation'', ''stock_based_compensation'', ''CF'', False),
    (''DeferredIncomeTaxExpenseBenefit'', ''deferred_tax_cf'', ''CF'', False),
    (''IncreaseDecreaseInAccountsReceivable'', ''changes_in_receivables'', ''CF'', False),
    (''IncreaseDecreaseInInventories'', ''changes_in_inventory'', ''CF'', False),
    (''IncreaseDecreaseInAccountsPayable'', ''changes_in_payables'', ''CF'', False),
    (''NetCashProvidedByUsedInInvestingActivities'', ''investing_cash_flow'', ''CF'', False),
    (''NetCashProvidedByUsedInInvestingActivitiesContinuingOperations'', ''investing_cash_flow'', ''CF'', False),
    (''CashFlowsFromUsedInInvestingActivities'', ''investing_cash_flow'', ''CF'', False),
    (''PaymentsToAcquirePropertyPlantAndEquipment'', ''capex'', ''CF'', True),
    (''PurchaseOfPropertyPlantAndEquipment'', ''capex'', ''CF'', True),
    (''PurchasesOfPropertyPlantAndEquipment'', ''capex'', ''CF'', True),
    (''PaymentsToAcquireBusinessesNetOfCashAcquired'', ''acquisitions'', ''CF'', True),
    (''AcquisitionsNetOfCashAcquiredAndPurchasesOfBusinesses'', ''acquisitions'', ''CF'', True),
    (''PaymentsToAcquireInvestments'', ''purchase_of_investments'', ''CF'', True),
    (''ProceedsFromSaleOfInvestments'', ''proceeds_from_investments'', ''CF'', False),
    (''ProceedsFromSaleOfPropertyPlantAndEquipment'', ''proceeds_from_asset_sales'', ''CF'', False),
    (''NetCashProvidedByUsedInFinancingActivities'', ''financing_cash_flow'', ''CF'', False),
    (''NetCashProvidedByUsedInFinancingActivitiesContinuingOperations'', ''financing_cash_flow'', ''CF'', False),
    (''CashFlowsFromUsedInFinancingActivities'', ''financing_cash_flow'', ''CF'', False),
    (''PaymentsOfDividends'', ''dividends_paid'', ''CF'', True),
    (''PaymentsOfDividendsCommonStock'', ''dividends_paid'', ''CF'', True),
    (''DividendsPaid'', ''dividends_paid'', ''CF'', True),
    (''RepaymentsOfLongTermDebt'', ''debt_repayment'', ''CF'', True),
    (''ProceedsFromIssuanceOfCommonStock'', ''equity_issuance_proceeds'', ''CF'', False),
    (''ProceedsFromIssuanceOfLongTermDebt'', ''debt_issuance_proceeds'', ''CF'', False),
    (''PaymentsForRepurchaseOfCommonStock'', ''share_buybacks'', ''CF'', True),
    (''CashCashEquivalentsRestrictedCashAndRestrictedCashEquivalentsPeriodIncreaseDecreaseIncludingExchangeRateEffect'', ''net_change_in_cash'', ''CF'', False),
    (''CashCashEquivalentsRestrictedCashAndRestrictedCashEquivalentsPeriodIncreaseDecreaseExcludingExchangeRateEffect'', ''net_change_in_cash'', ''CF'', False),
    (''IncreaseDecreaseInCashAndCashEquivalents'', ''net_change_in_cash'', ''CF'', False),
    (''EffectOfExchangeRateOnCashCashEquivalentsRestrictedCashAndRestrictedCashEquivalents'', ''fx_effect_on_cash'', ''CF'', False)]"

subsection \<open>Documents, contexts and facts\<close>

datatype xml = Elem (tag: string) (attrs: "(string \<times> string) list") (text_of: "string option") (kids: "xml list")
  | Comment

text \<open>
  What \<open>iterparse\<close> delivers end events for: a document whose elements are all closed, or the elements
  closed before a syntax error.
\<close>

record xml_doc =
  forest :: "xml list"
  broken :: bool

record context_info =
  context_id :: string
  period_start :: "date option"
  period_end :: date
  entity_cik :: string

record xbrl_fact =
  fact_concept :: string
  context_ref :: string
  value_raw :: string
  unit_ref :: "string option"
  decimals :: "string option"
  sign_factor :: int
  fact_scale :: decimal
  extra :: "(string \<times> string) list"

datatype parse_error = XMLSyntaxError | AttributeError | PyError py_error

definition NS_XBRLI :: string where "NS_XBRLI = ''{http://www.xbrl.org/2003/instance}''"
definition NS_IXBRL :: string where "NS_IXBRL = ''{http://www.xbrl.org/2013/inlineXBRL}''"

definition TAG_CONTEXT :: string where "TAG_CONTEXT = NS_XBRLI @ ''context''"
definition TAG_INSTANT :: string where "TAG_INSTANT = NS_XBRLI @ ''instant''"
definition TAG_START :: string where "TAG_START = NS_XBRLI @ ''startDate''"
definition TAG_END :: string where "TAG_END = NS_XBRLI @ ''endDate''"
definition TAG_IX_NF :: string where "TAG_IX_NF = NS_IXBRL @ ''nonFraction''"

definition attr_or :: "xml \<Rightarrow> string \<Rightarrow> string \<Rightarrow> string" where
  "attr_or e k dflt = (case map_of (attrs e) k of Some v \<Rightarrow> v | None \<Rightarrow> dflt)"

subsection \<open>Numbers, periods, standards\<close>

definition classify_reporting_standard :: "string \<Rightarrow> string" where
  "classify_reporting_standard concept =
     (if CHR '':'' \<in> set concept
      then (case map_of PREFIX_TO_STANDARD (str_lower (hd (split_on (CHR '':'') concept))) of
              Some s \<Rightarrow> s | None \<Rightarrow> ''US_GAAP'')
      else ''US_GAAP'')"

text \<open>The regular expression for a number in parentheses: what stands inside them.\<close>

definition paren_inner :: "string \<Rightarrow> string option" where
  "paren_inner raw =
     (let t = str_strip raw; inner = butlast (tl t)
      in if 3 \<le> length t \<and> hd t = CHR ''('' \<and> last t = CHR '')''
            \<and> list_all (\<lambda>c. is_digit c \<or> c = CHR '','' \<or> c = CHR ''.'' \<or> is_space c) inner
         then Some inner else None)"

definition clean_number :: "string \<Rightarrow> string" where
  "clean_number raw = filter (\<lambda>c. c \<noteq> CHR '','' \<and> \<not> is_space c) raw"

text \<open>A quiet NaN and an infinity survive the products, a signalling NaN raises \<open>InvalidOperation\<close>.\<close>

definition scaled :: "string \<Rightarrow> decimal \<Rightarrow> int \<Rightarrow> dec_literal option" where
  "scaled cleaned scale sg =
     (case py_decimal cleaned of
        Finite d \<Rightarrow> Some (Finite (dec_mul (dec_mul d scale) (Dec sg 0)))
      | Infinite \<Rightarrow> Some Infinite
      | QuietNaN \<Rightarrow> Some QuietNaN
      | SignalingNaN \<Rightarrow> None
      | Malformed \<Rightarrow> None)"

definition parse_numeric :: "string \<Rightarrow> decimal \<Rightarrow> int \<Rightarrow> dec_literal option" where
  "parse_numeric raw scale sg =
     (if raw = [] then None
      else
        let (raw, sg) = (case paren_inner raw of Some inner \<Rightarrow> (inner, sg * -1) | None \<Rightarrow> (raw, sg));
            cleaned = clean_number raw
        in if cleaned = [] \<or> cleaned \<in> {''-'', ''+'', ''.''} then None else scaled cleaned scale sg)"

definition month_to_quarter :: "int \<Rightarrow> string" where
  "month_to_quarter m = (if m \<le> 3 then ''Q1'' else if m \<le> 6 then ''Q2'' else if m \<le> 9 then ''Q3'' else ''Q4'')"

definition infer_fiscal_period :: "date option \<Rightarrow> date \<Rightarrow> int \<times> string" where
  "infer_fiscal_period start end_date =
     (case start of
        None \<Rightarrow> (date_year end_date, month_to_quarter (date_month end_date))
      | Some s \<Rightarrow>
          (let duration_days = end_date - s
           in if duration_days < 100 then (date_year end_date, month_to_quarter (date_month end_date))
              else if duration_days < 200 then (date_year end_date, ''Q2'')
              else if duration_days < 300 then (date_year end_date, ''Q3'')
              else (date_year end_date, ''FY'')))"

text \<open>\<open>ValueError\<close> and \<open>IndexError\<close> are caught; a number too large for a C integer is not.\<close>

definition parse_date :: "string option \<Rightarrow> py_error + date option" where
  "parse_date text =
     (case text of
        None \<Rightarrow> Inr None
      | Some t \<Rightarrow>
          (if t = [] then Inr None
           else
             (case split_on (CHR ''-'') (str_strip t) of
                a # b # c # _ \<Rightarrow>
                  (case rbind (py_int a) (\<lambda>y. rbind (py_int b) (\<lambda>m. rbind (py_int c) (py_date y m))) of
                     Inr d \<Rightarrow> Inr (Some d)
                   | Inl ValueError \<Rightarrow> Inr None
                   | Inl e \<Rightarrow> Inl e)
              | _ \<Rightarrow> Inr None)))"

definition normalise_currency :: "string option \<Rightarrow> string option" where
  "normalise_currency unit =
     (case unit of
        None \<Rightarrow> None
      | Some u \<Rightarrow>
          (if u = [] then None
           else let code = str_upper (last (split_on (CHR '':'') u))
                in if length code = 3 \<and> list_all (\<lambda>c. 65 \<le> (of_char c :: nat) \<and> (of_char c :: nat) \<le> 90) code
                   then Some code else None))"

definition local_name :: "string \<Rightarrow> string" where
  "local_name concept = (if CHR '':'' \<in> set concept then last (split_on (CHR '':'') concept) else concept)"

subsection \<open>Pass 1: the context map\<close>

type_synonym context_map = "string \<rightharpoonup> context_info"

text \<open>\<open>elem.iter()\<close>: the element and everything below it, in document order.\<close>

fun iter_nodes :: "xml \<Rightarrow> xml list" where
  "iter_nodes (Elem t a x ks) = Elem t a x ks # concat (map iter_nodes ks)"
| "iter_nodes Comment = [Comment]"

record context_texts =
  instant_text :: "string option"
  start_text :: "string option"
  end_text :: "string option"
  cik_text :: string

text \<open>The tag of a comment is a function, which has no \<open>endswith\<close>.\<close>

fun scan_nodes :: "xml list \<Rightarrow> context_texts \<Rightarrow> parse_error + context_texts" where
  "scan_nodes [] x = Inr x"
| "scan_nodes (Comment # ns) x = Inl AttributeError"
| "scan_nodes (Elem t a txt ks # ns) x =
     scan_nodes ns
       (if t = TAG_INSTANT then x\<lparr>instant_text := txt\<rparr>
        else if t = TAG_START then x\<lparr>start_text := txt\<rparr>
        else if t = TAG_END then x\<lparr>end_text := txt\<rparr>
        else if drop (length t - 11) t = ''}identifier''
             then x\<lparr>cik_text := str_strip (case txt of Some s \<Rightarrow> s | None \<Rightarrow> [])\<rparr>
        else x)"

definition truthy :: "string option \<Rightarrow> bool" where
  "truthy x = (x \<noteq> None \<and> x \<noteq> Some [])"

definition add_context :: "string \<Rightarrow> context_texts \<Rightarrow> context_map \<Rightarrow> parse_error + context_map" where
  "add_context ctx_id x ctxs = map_error PyError
     (if truthy (instant_text x) then
        rbind (parse_date (instant_text x)) (\<lambda>d.
          case d of None \<Rightarrow> Inr ctxs
          | Some d \<Rightarrow> Inr (ctxs(ctx_id \<mapsto> \<lparr>context_id = ctx_id, period_start = None, period_end = d, entity_cik = cik_text x\<rparr>)))
      else if truthy (end_text x) then
        rbind (parse_date (end_text x)) (\<lambda>d_end.
          rbind (parse_date (start_text x)) (\<lambda>d_start.
            case d_end of None \<Rightarrow> Inr ctxs
            | Some d \<Rightarrow> Inr (ctxs(ctx_id \<mapsto> \<lparr>context_id = ctx_id, period_start = d_start, period_end = d, entity_cik = cik_text x\<rparr>))))
      else Inr ctxs)"

definition read_context :: "string \<Rightarrow> xml \<Rightarrow> context_map \<Rightarrow> parse_error + context_map" where
  "read_context ctx_id e ctxs =
     rbind (scan_nodes (iter_nodes e) \<lparr>instant_text = None, start_text = None, end_text = None, cik_text = []\<rparr>)
       (\<lambda>x. add_context ctx_id x ctxs)"

text \<open>
  The handler of one end event, on the element as the tree then holds it: the cleared element, whether
  the earlier siblings are deleted from the parent, and the map.
\<close>

definition on_context_event ::
    "(xml \<Rightarrow> xml) \<Rightarrow> xml \<Rightarrow> context_map \<Rightarrow> parse_error + xml \<times> bool \<times> context_map" where
  "on_context_event clr e ctxs =
     (if tag e \<noteq> TAG_CONTEXT then Inr (clr e, False, ctxs)
      else
        let ctx_id = attr_or e ''id'' ''''
        in if ctx_id = [] then Inr (clr e, False, ctxs)
           else rbind (read_context ctx_id e ctxs) (\<lambda>ctxs'. Inr (clr e, True, ctxs')))"

text \<open>The events of an element: those of its children, which change the tree, then its own.\<close>

fun context_pass :: "(xml \<Rightarrow> xml) \<Rightarrow> xml \<Rightarrow> context_map \<Rightarrow> parse_error + xml \<times> bool \<times> context_map"
  and context_pass_kids :: "(xml \<Rightarrow> xml) \<Rightarrow> xml list \<Rightarrow> xml list \<Rightarrow> context_map \<Rightarrow> parse_error + xml list \<times> context_map"
where
  "context_pass clr (Elem t a x ks) ctxs =
     rbind (context_pass_kids clr [] ks ctxs) (\<lambda>(ks', ctxs'). on_context_event clr (Elem t a x ks') ctxs')"
| "context_pass clr Comment ctxs = Inr (Comment, False, ctxs)"
| "context_pass_kids clr before [] ctxs = Inr (before, ctxs)"
| "context_pass_kids clr before (k # ks) ctxs =
     rbind (context_pass clr k ctxs) (\<lambda>(k', prune, ctxs').
       context_pass_kids clr (if prune then [k'] else before @ [k']) ks ctxs')"

definition collect_context_map ::
    "(string \<Rightarrow> xml_doc) \<Rightarrow> (xml \<Rightarrow> xml) \<Rightarrow> string \<Rightarrow> parse_error + context_map" where
  "collect_context_map iterparse clr content =
     rbind (context_pass_kids clr [] (forest (iterparse content)) Map.empty) (\<lambda>(_, ctxs). Inr ctxs)"

subsection \<open>Pass 2: the facts\<close>

text \<open>
  The end events of an element in their order.  The handler of pass 2 reads an element's own
  attributes and own text only, and by its event nothing has cleared them yet, so what
  is cleared behind it does not matter here.
\<close>

fun end_events :: "xml \<Rightarrow> xml list" where
  "end_events (Elem t a x ks) = concat (map end_events ks) @ [Elem t a x ks]"
| "end_events Comment = []"

definition sign_of :: "bool \<Rightarrow> string \<Rightarrow> int" where
  "sign_of is_outflow sign_attr = (if is_outflow then -1 else 1) * (if sign_attr = ''-'' then -1 else 1)"

definition fact_of :: "xml \<Rightarrow> xbrl_fact option" where
  "fact_of e =
     (if tag e \<noteq> TAG_IX_NF then None
      else
        let concept = attr_or e ''name'' ''''; ref = attr_or e ''contextRef'' ''''
        in if concept = [] \<or> ref = [] then None
           else (case map_of TAXONOMY (local_name concept) of
                   None \<Rightarrow> None
                 | Some (canonical, stmt, is_outflow) \<Rightarrow>
                     Some \<lparr>fact_concept = concept, context_ref = ref,
                           value_raw = str_strip (case text_of e of Some s \<Rightarrow> s | None \<Rightarrow> []),
                           unit_ref = map_of (attrs e) ''unitRef'', decimals = map_of (attrs e) ''decimals'',
                           sign_factor = sign_of is_outflow (attr_or e ''sign'' ''''),
                           fact_scale = (case map_of SCALE_MAP (attr_or e ''scale'' ''0'') of Some d \<Rightarrow> d | None \<Rightarrow> Dec 1 0),
                           extra = filter (\<lambda>(k, v). k \<notin> {''name'', ''contextRef'', ''unitRef'', ''decimals'', ''sign'', ''scale''}) (attrs e)\<rparr>))"

definition stream_xbrl_facts :: "(string \<Rightarrow> xml_doc) \<Rightarrow> string \<Rightarrow> xbrl_fact list" where
  "stream_xbrl_facts iterparse content = List.map_filter fact_of (concat (map end_events (forest (iterparse content))))"

subsection \<open>Line items\<close>

record document_call =
  dc_company_id :: string
  dc_filing_date :: date

text \<open>A produced item: its value is in the record when it is finite, beside the record otherwise.\<close>

datatype produced = Item parsed_line_item | NonFiniteItem dec_literal parsed_line_item

definition item_of :: "document_call \<Rightarrow> string \<Rightarrow> xbrl_fact \<Rightarrow> context_info \<Rightarrow> decimal \<Rightarrow> parsed_line_item" where
  "item_of call hash f ctx v =
     (let (canonical, stmt, _) = the (map_of TAXONOMY (local_name (fact_concept f)));
          (fy, fp) = infer_fiscal_period (period_start ctx) (period_end ctx)
      in \<lparr>company_id = dc_company_id call, fiscal_year = fy, fiscal_period = fp,
          reporting_standard = classify_reporting_standard (fact_concept f),
          filing_date = dc_filing_date call, canonical_field = canonical, concept_raw = fact_concept f,
          statement_type = stmt, value_reported = v, reported_currency = normalise_currency (unit_ref f),
          source_file_hash = hash, extraction_method = ''xbrl'', derived_expression_formula = None,
          period_end_date = Some (period_end ctx), period_start_date = period_start ctx\<rparr>)"

definition item_for_fact :: "document_call \<Rightarrow> string \<Rightarrow> context_map \<Rightarrow> xbrl_fact \<Rightarrow> produced option" where
  "item_for_fact call hash ctxs f =
     (case ctxs (context_ref f) of
        None \<Rightarrow> None
      | Some ctx \<Rightarrow>
          (case parse_numeric (value_raw f) (fact_scale f) (sign_factor f) of
             None \<Rightarrow> None
           | Some (Finite v) \<Rightarrow> Some (Item (item_of call hash f ctx v))
           | Some x \<Rightarrow> Some (NonFiniteItem x (item_of call hash f ctx (Dec 0 0)))))"

text \<open>The facts that arrived before a syntax error are lost with it: the generator raises through the loop.\<close>

definition parse_xbrl_document ::
    "(string \<Rightarrow> xml_doc) \<Rightarrow> (xml \<Rightarrow> xml) \<Rightarrow> (string \<Rightarrow> string) \<Rightarrow> string \<Rightarrow> document_call \<Rightarrow> parse_error + produced list" where
  "parse_xbrl_document iterparse clr sha256 content call =
     rbind (collect_context_map iterparse clr content) (\<lambda>ctxs.
       let items = List.map_filter (item_for_fact call (sha256 content) ctxs) (stream_xbrl_facts iterparse content)
       in if broken (iterparse content) then Inl XMLSyntaxError else Inr items)"

subsection \<open>The first pass finds no context\<close>

text \<open>What \<open>Element.clear\<close> does: no children, no attributes, no text; the tag stays.\<close>

definition documented_clear :: "(xml \<Rightarrow> xml) \<Rightarrow> bool" where
  "documented_clear clr \<longleftrightarrow> (\<forall>t a x ks. clr (Elem t a x ks) = Elem t [] None [])"

definition reset_element :: "xml \<Rightarrow> xml" where
  "reset_element e = (case e of Elem t _ _ _ \<Rightarrow> Elem t [] None [] | Comment \<Rightarrow> Comment)"

lemma reset_element_clears: "documented_clear reset_element"
  by (simp add: documented_clear_def reset_element_def)

definition bare :: "xml \<Rightarrow> bool" where
  "bare e \<longleftrightarrow> e = Comment \<or> (\<exists>t. e = Elem t [] None [])"

lemma scan_bare:
  assumes "\<forall>e \<in> set ns. bare e" "instant_text x = None" "end_text x = None"
  shows "scan_nodes ns x = Inl AttributeError \<or> (\<exists>y. scan_nodes ns x = Inr y \<and> instant_text y = None \<and> end_text y = None)"
  using assms
proof (induction ns x rule: scan_nodes.induct)
  case (3 t a tx ks ns x)
  then have "tx = None" by (auto simp: bare_def)
  with 3 show ?case by (auto split: if_splits)
qed auto

lemma iter_bare: "\<forall>k \<in> set ks. bare k \<Longrightarrow> n \<in> set (concat (map iter_nodes ks)) \<Longrightarrow> bare n"
  by (induction ks) (auto simp: bare_def)

lemma read_context_bare:
  assumes "\<forall>k \<in> set ks. bare k"
  shows "read_context i (Elem TAG_CONTEXT a x ks) ctxs \<in> {Inl AttributeError, Inr ctxs}"
proof -
  let ?x = "\<lparr>instant_text = None, start_text = None, end_text = None, cik_text = []\<rparr>"
  have ne: "TAG_CONTEXT \<noteq> TAG_INSTANT" "TAG_CONTEXT \<noteq> TAG_START" "TAG_CONTEXT \<noteq> TAG_END"
    "drop (length TAG_CONTEXT - 11) TAG_CONTEXT \<noteq> ''}identifier''" by code_simp+
  have "scan_nodes (iter_nodes (Elem TAG_CONTEXT a x ks)) ?x = scan_nodes (concat (map iter_nodes ks)) ?x"
    using ne by simp
  then show ?thesis
    using scan_bare[of "concat (map iter_nodes ks)" ?x] iter_bare[OF assms]
    by (auto simp: read_context_def add_context_def truthy_def)
qed

lemma event_bare:
  assumes "documented_clear clr" "\<forall>k \<in> set ks. bare k"
  shows "on_context_event clr (Elem t a x ks) ctxs = Inl AttributeError
    \<or> (\<exists>e' p. on_context_event clr (Elem t a x ks) ctxs = Inr (e', p, ctxs) \<and> bare e')"
  using read_context_bare[OF assms(2), of "attr_or (Elem t a x ks) ''id'' ''''" a x ctxs] assms(1)
  by (auto simp: on_context_event_def documented_clear_def bare_def Let_def)

lemma context_pass_finds_nothing:
  "documented_clear clr \<Longrightarrow>
     context_pass clr e ctxs = Inl AttributeError \<or> (\<exists>e' p. context_pass clr e ctxs = Inr (e', p, ctxs) \<and> bare e')"
  "documented_clear clr \<Longrightarrow> \<forall>k \<in> set before. bare k \<Longrightarrow>
     context_pass_kids clr before ks ctxs = Inl AttributeError
     \<or> (\<exists>ks'. context_pass_kids clr before ks ctxs = Inr (ks', ctxs) \<and> (\<forall>k \<in> set ks'. bare k))"
proof (induction clr e ctxs and clr before ks ctxs rule: context_pass_context_pass_kids.induct)
  case (1 clr t a x ks ctxs)
  from 1(1)[OF 1(2)] consider "context_pass_kids clr [] ks ctxs = Inl AttributeError"
    | ks' where "context_pass_kids clr [] ks ctxs = Inr (ks', ctxs)" "\<forall>k \<in> set ks'. bare k" by auto
  then show ?case
  proof cases
    case (2 ks')
    with event_bare[OF 1(2) 2(2), of t a x ctxs] show ?thesis by simp
  qed simp
next
  case (4 clr before k ks ctxs)
  from 4(1)[OF 4(3)] consider "context_pass clr k ctxs = Inl AttributeError"
    | e' p where "context_pass clr k ctxs = Inr (e', p, ctxs)" "bare e'" by auto
  then show ?case
  proof cases
    case (2 e' p)
    then have "\<forall>k \<in> set (if p then [e'] else before @ [e']). bare k" using 4(4) by auto
    with 4(2)[OF 4(3)] 2(1) show ?thesis by simp
  qed simp
qed (auto simp: bare_def intro: exI[of _ False])

theorem context_map_empty:
  assumes "documented_clear clr"
  shows "collect_context_map iterparse clr content \<in> {Inl AttributeError, Inr Map.empty}"
  using context_pass_finds_nothing(2)[OF assms, of "[]" "forest (iterparse content)" Map.empty]
  by (auto simp: collect_context_map_def)

lemma no_context_no_item: "List.map_filter (item_for_fact call h Map.empty) fs = []"
  by (induction fs) (simp_all add: List.map_filter_simps item_for_fact_def)

lemma parse_outcomes:
  assumes "documented_clear clr"
  shows "parse_xbrl_document iterparse clr sha256 content call
    \<in> {Inr [], Inl XMLSyntaxError, Inl AttributeError}"
proof -
  from context_map_empty[OF assms, of iterparse content]
  consider "collect_context_map iterparse clr content = Inl AttributeError"
    | "collect_context_map iterparse clr content = Inr Map.empty" by blast
  then show ?thesis
  proof cases
    case 2
    then show ?thesis unfolding parse_xbrl_document_def by (simp add: no_context_no_item Let_def)
  qed (simp add: parse_xbrl_document_def)
qed

text \<open>
  C4: C1 Whatever the document, the parser returns no line item: clearing every element at its own end
  event empties the dates of a context before the event of the context itself, so the map of
  contexts is always empty and no fact finds its period.  The call returns an empty list, or it
  raises.
\<close>

theorem xbrl_parser_returns_nothing:
  assumes "documented_clear clr"
  shows "parse_xbrl_document iterparse clr sha256 content call
    \<in> {Inr [], Inl XMLSyntaxError, Inl AttributeError}"
  using assms by (rule parse_outcomes)

text \<open>
  An annual filing in miniature: one context of the year 2023, one revenue fact and one context
  of its last day.  Read with the dates in place, the fact is the revenue of 2023; the parser
  returns nothing.
\<close>

definition sample_date :: "string \<Rightarrow> string \<Rightarrow> xml" where
  "sample_date t d = Elem t [] (Some d) []"

definition sample_filing :: xml_doc where
  "sample_filing = \<lparr>forest = [Elem ''html'' [] None
     [Elem TAG_CONTEXT [(''id'', ''FY2023'')] None
        [Elem (NS_XBRLI @ ''period'') [] None [sample_date TAG_START ''2023-01-01'', sample_date TAG_END ''2023-12-31'']],
      Elem TAG_IX_NF [(''name'', ''us-gaap:Revenues''), (''contextRef'', ''FY2023''), (''unitRef'', ''usd''), (''scale'', ''6'')]
        (Some ''1,234'') []]], broken = False\<rparr>"

definition sample_call :: document_call where
  "sample_call = \<lparr>dc_company_id = ''c'', dc_filing_date = 738945\<rparr>"

definition sample_contexts :: context_map where
  "sample_contexts = [''FY2023'' \<mapsto> \<lparr>context_id = ''FY2023'', period_start = Some 738521, period_end = 738885, entity_cik = []\<rparr>]"

lemma sample_dates: "mk_date 2023 1 1 = Inr 738521" "mk_date 2023 12 31 = Inr 738885"
  by code_simp+

lemma sample_item_with_contexts:
  "map (\<lambda>f. case item_for_fact sample_call ''h'' sample_contexts f of
          Some (Item i) \<Rightarrow> (canonical_field i, value_reported i, fiscal_year i, fiscal_period i, reported_currency i)
        | _ \<Rightarrow> ([], Dec 0 0, 0, [], None)) (stream_xbrl_facts (\<lambda>_. sample_filing) [])
   = [(''revenue'', Dec 1234000000 0, 2023, ''FY'', Some ''USD'')]"
  by code_simp

lemma xbrl_parser_returns_nothing_witness:
  "parse_xbrl_document (\<lambda>_. sample_filing) reset_element (\<lambda>_. ''h'') [] sample_call = Inr []"
proof -
  have "parse_xbrl_document (\<lambda>_. sample_filing) reset_element (\<lambda>_. ''h'') [] sample_call
    \<notin> {Inl XMLSyntaxError, Inl AttributeError}" by code_simp
  with xbrl_parser_returns_nothing[OF reset_element_clears, of "\<lambda>_. sample_filing" "\<lambda>_. ''h''" "[]" sample_call]
  show ?thesis by blast
qed

subsection \<open>Numbers\<close>

lemma clean_strip: "clean_number (str_strip s) = clean_number s"
proof -
  have drop: "filter P (dropWhile is_space t) = filter P t" if "\<And>c. is_space c \<Longrightarrow> \<not> P c" for P and t :: string
    using that by (induction t) auto
  have "clean_number (rev t) = rev (clean_number t)" for t by (simp add: clean_number_def rev_filter)
  then show ?thesis
    by (simp add: str_strip_def clean_number_def drop flip: rev_filter)
qed

lemma clean_chars:
  assumes "list_all is_digit (clean_number s)"
  shows "\<forall>c \<in> set s. is_digit c \<or> c = CHR '','' \<or> is_space c"
  using assms by (auto simp: clean_number_def list_all_iff)

lemma set_strip: "set (str_strip s) \<subseteq> set s"
  by (auto simp: str_strip_def dest!: set_dropWhileD)

lemma strip_parens: "str_strip (CHR ''('' # s @ '')'') = CHR ''('' # s @ '')''"
  by (simp add: str_strip_def is_space_def)

lemma parse_numeric_digits:
  assumes ds: "list_all is_digit (clean_number s)" "clean_number s \<noteq> []" and sg: "sg = 1 \<or> sg = -1"
    and n: "digits_value (clean_number s) * 10 ^ k < 10 ^ 28"
  shows "parse_numeric s (Dec (10 ^ k) 0) sg = Some (Finite (Dec (sg * (digits_value (clean_number s) * 10 ^ k)) 0))"
    and "parse_numeric (CHR ''('' # s @ '')'') (Dec (10 ^ k) 0) sg
      = Some (Finite (Dec (- sg * (digits_value (clean_number s) * 10 ^ k)) 0))"
proof -
  let ?n = "digits_value (clean_number s)"
  have n0: "0 \<le> ?n" using ds(1) by (rule digits_value_nonneg)
  then have n1: "0 \<le> ?n * 10 ^ k" by simp
  have amount: "scaled (clean_number s) (Dec (10 ^ k) 0) g = Some (Finite (Dec (g * (?n * 10 ^ k)) 0))" if "g = 1 \<or> g = -1" for g
  proof -
    have "fits (Dec (?n * 10 ^ k) 0)" "fits (Dec (?n * 10 ^ k * g) 0)" using that n n1 by (auto simp: fits_def prec_def)
    then show ?thesis using that by (auto simp: scaled_def py_decimal_digits[OF ds] dec_mul_def)
  qed
  have nosign: "clean_number s \<notin> {''-'', ''+'', ''.''}" using ds(1) by (auto simp: is_digit_def)
  have chars: "\<forall>c \<in> set (str_strip s). c \<noteq> CHR ''(''"
    using clean_chars[OF ds(1)] set_strip[of s] digit_not_letter(10) by (fastforce simp: is_space_def)
  then have plain: "paren_inner s = None"
    by (cases "str_strip s") (auto simp: paren_inner_def Let_def)
  have s0: "s \<noteq> []" using ds(2) by (auto simp: clean_number_def)
  show "parse_numeric s (Dec (10 ^ k) 0) sg = Some (Finite (Dec (sg * (?n * 10 ^ k)) 0))"
    using ds(2) nosign s0 amount[OF sg] by (simp add: parse_numeric_def plain)
  have "paren_inner (CHR ''('' # s @ '')'') = Some s"
    using clean_chars[OF ds(1)] s0 by (auto simp: paren_inner_def strip_parens Let_def list_all_iff butlast_append Suc_le_eq)
  then show "parse_numeric (CHR ''('' # s @ '')'') (Dec (10 ^ k) 0) sg = Some (Finite (Dec (- sg * (?n * 10 ^ k)) 0))"
    using ds(2) nosign amount[of "- sg"] sg by (auto simp: parse_numeric_def)
qed

text \<open>
  C9: C1 The amount of an item.  Take a tagged fact whose text shows \<open>n\<close> (digits, thousands separators and
  blanks), between parentheses or not, with one of the scales \<open>0\<close> to \<open>9\<close>.  When its concept is mapped and
  its context known, it yields one item, whose value is exactly \<open>n * 10 ^ scale\<close>, negated once for an
  outflow concept, once for the \<open>sign\<close> attribute and once for the parentheses.
\<close>

theorem fact_amount_exact:
  assumes tag: "tag e = TAG_IX_NF" "map_of (attrs e) ''name'' = Some concept" "concept \<noteq> []"
      "map_of (attrs e) ''contextRef'' = Some ref" "ref \<noteq> []"
    and tax: "map_of TAXONOMY (local_name concept) = Some (canonical, stmt, outflow)"
    and scale: "map_of SCALE_MAP (attr_or e ''scale'' ''0'') = Some (Dec (10 ^ k) 0)"
    and shown: "text_of e = Some (if parens then CHR ''('' # s @ '')'' else s)"
      "list_all is_digit (clean_number s)" "clean_number s \<noteq> []"
    and small: "digits_value (clean_number s) * 10 ^ k < 10 ^ 28"
    and ctx: "ctxs ref = Some ctx"
  shows "\<exists>f i. fact_of e = Some f \<and> item_for_fact call h ctxs f = Some (Item i) \<and> canonical_field i = canonical
    \<and> dval (value_reported i)
        = (if outflow then -1 else 1) * (if attr_or e ''sign'' '''' = ''-'' then -1 else 1) * (if parens then -1 else 1)
          * of_int (digits_value (clean_number s)) * 10 ^ k"
proof -
  let ?n = "digits_value (clean_number s)" and ?sg = "sign_of outflow (attr_or e ''sign'' '''')"
  let ?raw = "str_strip (if parens then CHR ''('' # s @ '')'' else s)"
  have sg: "?sg = 1 \<or> ?sg = -1" by (simp add: sign_of_def)
  have strip: "clean_number (str_strip s) = clean_number s" by (rule clean_strip)
  have num: "parse_numeric ?raw (Dec (10 ^ k) 0) ?sg
      = Some (Finite (Dec ((if parens then - ?sg else ?sg) * (?n * 10 ^ k)) 0))"
    using parse_numeric_digits(2)[OF shown(2,3) sg small]
      parse_numeric_digits(1)[of "str_strip s", unfolded strip, OF shown(2,3) sg small]
    by (simp add: strip_parens)
  obtain f where f: "fact_of e = Some f" "fact_concept f = concept" "context_ref f = ref" "value_raw f = ?raw"
      "fact_scale f = Dec (10 ^ k) 0" "sign_factor f = ?sg"
    using tag tax scale shown(1) by (simp add: fact_of_def attr_or_def[of e "''name''"] attr_or_def[of e "''contextRef''"])
  let ?v = "Dec ((if parens then - ?sg else ?sg) * (?n * 10 ^ k)) 0"
  have "item_for_fact call h ctxs f = Some (Item (item_of call h f ctx ?v))"
    unfolding item_for_fact_def f by (simp only: ctx num option.case dec_literal.case)
  moreover have "canonical_field (item_of call h f ctx ?v) = canonical" "value_reported (item_of call h f ctx ?v) = ?v"
    by (simp_all add: item_of_def f tax split: prod.splits)
  ultimately show ?thesis using f(1)
    by (intro exI[of _ f] exI[of _ "item_of call h f ctx ?v"]) (simp add: dval_Dec sign_of_def)
qed

definition sample_cost :: xml where
  "sample_cost = Elem TAG_IX_NF [(''name'', ''us-gaap:CostOfRevenue''), (''contextRef'', ''FY2023''), (''scale'', ''3'')] (Some ''(1,234)'') []"

lemma fact_amount_exact_witness:
  "\<exists>f i. fact_of sample_cost = Some f \<and> item_for_fact sample_call ''h'' sample_contexts f = Some (Item i)
     \<and> canonical_field i = ''cogs'' \<and> dval (value_reported i) = 1234000"
proof -
  have "map_of TAXONOMY (local_name ''us-gaap:CostOfRevenue'') = Some (''cogs'', ''IS'', True)" by code_simp
  moreover have "map_of SCALE_MAP (attr_or sample_cost ''scale'' ''0'') = Some (Dec (10 ^ 3) 0)" by code_simp
  moreover have "clean_number ''1,234'' = ''1234''" "list_all is_digit ''1234''" "digits_value ''1234'' = 1234" by code_simp+
  moreover have "attr_or sample_cost ''sign'' '''' = ''''" by code_simp
  moreover have "sample_contexts ''FY2023'' = Some \<lparr>context_id = ''FY2023'', period_start = Some 738521, period_end = 738885, entity_cik = []\<rparr>"
    by (simp add: sample_contexts_def)
  ultimately show ?thesis
    using fact_amount_exact[of sample_cost "''us-gaap:CostOfRevenue''" "''FY2023''" "''cogs''" "''IS''" True 3 True "''1,234''" sample_contexts _ sample_call "''h''"]
    by (simp add: sample_cost_def)
qed

subsection \<open>Periods\<close>

text \<open>
  C1 The period of an item, for a context that ends on day \<open>d\<close> of month \<open>m\<close> of year \<open>y\<close>: the year is \<open>y\<close>
  whatever the fiscal year of the company; a duration of 300 days or more is \<open>FY\<close>, one of 200 to 299 days
  \<open>Q3\<close>, of 100 to 199 days \<open>Q2\<close>; everything else, and every instant, is the calendar quarter of
  the month.  So the balance sheet of an annual filing is never filed under \<open>FY\<close>.
\<close>

theorem item_period_classified:
  assumes "item_for_fact call h ctxs f = Some (Item i)" "ctxs (context_ref f) = Some ctx"
    and "mk_date y m d = Inr (period_end ctx)"
  shows "fiscal_year i = y
    \<and> (fiscal_period i = ''FY'' \<longleftrightarrow> (\<exists>s. period_start ctx = Some s \<and> 300 \<le> period_end ctx - s))
    \<and> (fiscal_period i \<noteq> ''FY'' \<longrightarrow>
        fiscal_period i = ''Q'' @ [[CHR ''1'', CHR ''2'', CHR ''3'', CHR ''4''] !
          (case period_start ctx of
             Some s \<Rightarrow> if 200 \<le> period_end ctx - s then 2 else if 100 \<le> period_end ctx - s then 1 else nat ((m - 1) div 3)
           | None \<Rightarrow> nat ((m - 1) div 3))])"
proof -
  have m: "1 \<le> m" "m \<le> 12" using assms(3) by (auto simp: mk_date_def split: if_splits)
  have q: "month_to_quarter m = ''Q'' @ [[CHR ''1'', CHR ''2'', CHR ''3'', CHR ''4''] ! nat ((m - 1) div 3)]"
    using month_cases[OF m] by (elim disjE) (simp_all add: month_to_quarter_def)
  have nf: "month_to_quarter m \<noteq> ''FY''" by (simp add: month_to_quarter_def)
  obtain v where "i = item_of call h f ctx v"
    using assms(1,2) by (auto simp: item_for_fact_def split: option.splits dec_literal.splits)
  then have "fiscal_year i = fst (infer_fiscal_period (period_start ctx) (period_end ctx))"
    "fiscal_period i = snd (infer_fiscal_period (period_start ctx) (period_end ctx))"
    by (simp_all add: item_of_def split: prod.splits)
  then show ?thesis using date_parts[OF assms(3)] q nf
    by (cases "period_start ctx") (auto simp: infer_fiscal_period_def Let_def)
qed

definition sample_instant :: xbrl_fact where
  "sample_instant = \<lparr>fact_concept = ''us-gaap:Assets'', context_ref = ''AsOf2023'', value_raw = ''5,000'', unit_ref = Some ''USD'',
     decimals = None, sign_factor = 1, fact_scale = Dec 1 0, extra = []\<rparr>"

definition instant_contexts :: context_map where
  "instant_contexts = [''AsOf2023'' \<mapsto> \<lparr>context_id = ''AsOf2023'', period_start = None, period_end = 738885, entity_cik = []\<rparr>]"

lemma item_period_classified_witness:
  "\<exists>i. item_for_fact sample_call ''h'' instant_contexts sample_instant = Some (Item i)
     \<and> canonical_field i = ''total_assets'' \<and> fiscal_year i = 2023 \<and> fiscal_period i = ''Q4''"
proof -
  let ?ctx = "\<lparr>context_id = ''AsOf2023'', period_start = None, period_end = 738885, entity_cik = []\<rparr>"
  have c: "instant_contexts (context_ref sample_instant) = Some ?ctx"
    by (simp add: instant_contexts_def sample_instant_def)
  have "(case item_for_fact sample_call ''h'' instant_contexts sample_instant of
      Some (Item i) \<Rightarrow> canonical_field i = ''total_assets'' | _ \<Rightarrow> False)" by code_simp
  then obtain i where i: "item_for_fact sample_call ''h'' instant_contexts sample_instant = Some (Item i)"
    "canonical_field i = ''total_assets''" by (auto split: option.splits produced.splits)
  have "mk_date 2023 12 31 = Inr (period_end ?ctx)" by (simp add: sample_dates)
  from item_period_classified[OF i(1) c this] i show ?thesis by auto
qed

end
