(* ===== verification/LocalStorage.thy ===== *)
theory LocalStorage
  imports Models PyParse "HOL-Library.Sublist"
begin

text \<open>
  The file storage of filings, \<open>LocalStorageBackend\<close> of
  \<^verbatim>\<open>services/acquisition/storage/backend.py\<close>: object keys, the path a key stands for, and the four
  operations on a file system without symbolic links.  A file holds the UTF-8 bytes of its
  text, its companion \<^verbatim>\<open>.meta.json\<close> the four values written with it.  The directories
  themselves, the JSON rendering and the S3 backend (calls into its client) are left out.
\<close>

subsection \<open>Object keys\<close>

definition MIME_TO_EXT :: "(string \<times> string) list" where
  "MIME_TO_EXT = [(''text/html'', ''html''), (''application/xhtml+xml'', ''html''), (''text/plain'', ''txt''),
     (''application/xml'', ''xml''), (''text/xml'', ''xml'')]"

definition ext_for_mime :: "string \<Rightarrow> string" where
  "ext_for_mime mime =
     (case map_of MIME_TO_EXT (str_lower (str_strip (hd (split_on (CHR '';'') mime)))) of Some e \<Rightarrow> e | None \<Rightarrow> ''bin'')"

definition accession_nodashes :: "string \<Rightarrow> string" where
  "accession_nodashes acc = filter (\<lambda>c. c \<noteq> CHR ''-'') acc"

definition make_object_key :: "string \<Rightarrow> string \<Rightarrow> string" where
  "make_object_key acc mime = ''filings/'' @ accession_nodashes acc @ ''/document.'' @ ext_for_mime mime"

subsection \<open>Paths\<close>

type_synonym path = "string list"

text \<open>\<open>Path.resolve\<close>: \<^verbatim>\<open>.\<close> and empty segments vanish, \<^verbatim>\<open>..\<close> removes the segment before it.\<close>

fun resolve_from :: "path \<Rightarrow> string list \<Rightarrow> path" where
  "resolve_from p [] = p"
| "resolve_from p (s # ss) =
     resolve_from (if s = '''' \<or> s = ''.'' then p else if s = ''..'' then butlast p else p @ [s]) ss"

definition path_string :: "path \<Rightarrow> string" where
  "path_string p = (if p = [] then ''/'' else concat (map (\<lambda>s. CHR ''/'' # s) p))"

datatype storage_error = StorageError | StorageNotFoundError

definition full_path :: "path \<Rightarrow> string \<Rightarrow> storage_error + path" where
  "full_path base key =
     (let p = resolve_from (if take 1 key = ''/'' then [] else base) (split_on (CHR ''/'') key)
      in if prefix (path_string base) (path_string p) then Inr p else Inl StorageError)"

subsection \<open>Files\<close>

record meta_data =
  md_content_hash :: string
  md_content_length :: nat
  md_mime_type :: string
  md_stored_at :: instant

record file_system =
  files :: "path \<rightharpoonup> string"
  metas :: "path \<rightharpoonup> meta_data"

record stored =
  st_key :: string
  st_content_length :: nat
  st_content_hash :: string
  st_mime_type :: string
  st_stored_at :: instant
  st_from_cache :: bool

record store_request =
  rq_key :: string
  rq_content :: string
  rq_mime_type :: string
  rq_content_hash :: string
  rq_allow_overwrite :: bool

definition meta_of :: "instant \<Rightarrow> store_request \<Rightarrow> meta_data" where
  "meta_of now q = \<lparr>md_content_hash = rq_content_hash q, md_content_length = length (rq_content q),
     md_mime_type = rq_mime_type q, md_stored_at = now\<rparr>"

definition stored_as :: "string \<Rightarrow> bool \<Rightarrow> meta_data \<Rightarrow> stored" where
  "stored_as key cached m = \<lparr>st_key = key, st_content_length = md_content_length m, st_content_hash = md_content_hash m,
     st_mime_type = md_mime_type m, st_stored_at = md_stored_at m, st_from_cache = cached\<rparr>"

definition sync_store :: "path \<Rightarrow> instant \<Rightarrow> store_request \<Rightarrow> file_system \<Rightarrow> storage_error + stored \<times> file_system" where
  "sync_store base now q fs =
     rbind (full_path base (rq_key q)) (\<lambda>p.
       if files fs p \<noteq> None \<and> \<not> rq_allow_overwrite q
       then Inr (stored_as (rq_key q) True (case metas fs p of Some m \<Rightarrow> m | None \<Rightarrow> meta_of now q), fs)
       else Inr (stored_as (rq_key q) False (meta_of now q),
                 fs\<lparr>files := (files fs)(p \<mapsto> rq_content q), metas := (metas fs)(p \<mapsto> meta_of now q)\<rparr>))"

definition sync_retrieve :: "path \<Rightarrow> string \<Rightarrow> file_system \<Rightarrow> storage_error + string option" where
  "sync_retrieve base key fs = rbind (full_path base key) (\<lambda>p. Inr (files fs p))"

definition sync_exists :: "path \<Rightarrow> string \<Rightarrow> file_system \<Rightarrow> storage_error + bool" where
  "sync_exists base key fs = rbind (full_path base key) (\<lambda>p. Inr (files fs p \<noteq> None))"

definition sync_delete :: "path \<Rightarrow> string \<Rightarrow> file_system \<Rightarrow> storage_error + bool \<times> file_system" where
  "sync_delete base key fs =
     rbind (full_path base key) (\<lambda>p.
       if files fs p = None then Inr (False, fs)
       else Inr (True, fs\<lparr>files := (files fs)(p := None), metas := (metas fs)(p := None)\<rparr>))"

subsection \<open>The contract\<close>

text \<open>
  What a client of the store relies on: keeping a value at a free address shows it there, changes
  nothing where something is already kept, nor anywhere else.  Inside, the consequence for a
  sequence of stores: the first one wins.
\<close>

locale blob_store =
  fixes peek :: "'p \<Rightarrow> 's \<Rightarrow> 'v option" and keep :: "'p \<Rightarrow> 'w \<Rightarrow> 's \<Rightarrow> 's"
    and drop_at :: "'p \<Rightarrow> 's \<Rightarrow> 's" and val :: "'w \<Rightarrow> 'v"
  assumes peek_keep: "peek p' (keep p w s) = (if p' = p \<and> peek p s = None then Some (val w) else peek p' s)"
    and peek_drop: "peek p' (drop_at p s) = (if p' = p then None else peek p' s)"
begin

definition keep_all :: "('p \<times> 'w) list \<Rightarrow> 's \<Rightarrow> 's" where
  "keep_all ws s = foldl (\<lambda>s (p, w). keep p w s) s ws"

lemma first_wins:
  "peek p (keep_all ws s) = (case peek p s of Some v \<Rightarrow> Some v | None \<Rightarrow> map_option val (map_of ws p))"
proof (induction ws arbitrary: s)
  case (Cons w ws)
  obtain p' w' where w: "w = (p', w')" by fastforce
  have "keep_all (w # ws) s = keep_all ws (keep p' w' s)" by (simp add: keep_all_def w)
  then show ?case by (auto simp: Cons.IH peek_keep w split: option.splits)
qed (simp add: keep_all_def split: option.split)

lemma free_after_drop: "peek p (keep_all ((p, w) # ws) (drop_at p s)) = Some (val w)"
  by (simp add: first_wins peek_drop)

end

definition put_new :: "instant \<Rightarrow> path \<Rightarrow> store_request \<Rightarrow> file_system \<Rightarrow> file_system" where
  "put_new now p q fs =
     (if files fs p \<noteq> None then fs
      else fs\<lparr>files := (files fs)(p \<mapsto> rq_content q), metas := (metas fs)(p \<mapsto> meta_of now q)\<rparr>)"

definition remove_file :: "path \<Rightarrow> file_system \<Rightarrow> file_system" where
  "remove_file p fs = (if files fs p = None then fs else fs\<lparr>files := (files fs)(p := None), metas := (metas fs)(p := None)\<rparr>)"

interpretation disk: blob_store "\<lambda>p fs. files fs p" "\<lambda>p (now, q). put_new now p q" remove_file "\<lambda>(now, q). rq_content q"
  by unfold_locales (auto simp: put_new_def remove_file_def split: prod.splits)

lemma store_new:
  "full_path base (rq_key q) = Inr p \<Longrightarrow> \<not> rq_allow_overwrite q \<Longrightarrow>
     \<exists>r. sync_store base now q fs = Inr (r, put_new now p q fs)"
  by (simp add: sync_store_def put_new_def)

lemma store_refused: "full_path base (rq_key q) = Inl e \<Longrightarrow> sync_store base now q fs = Inl e"
  by (simp add: sync_store_def)

lemma delete_file: "full_path base key = Inr p \<Longrightarrow> sync_delete base key fs = Inr (files fs p \<noteq> None, remove_file p fs)"
  by (simp add: sync_delete_def remove_file_def)

text \<open>A sequence of store calls; one that raises leaves the files alone.\<close>

definition store_each :: "path \<Rightarrow> (instant \<times> store_request) list \<Rightarrow> file_system \<Rightarrow> file_system" where
  "store_each base qs fs =
     foldl (\<lambda>fs (now, q). case sync_store base now q fs of Inr (_, fs') \<Rightarrow> fs' | Inl _ \<Rightarrow> fs) fs qs"

definition addressed :: "path \<Rightarrow> (instant \<times> store_request) list \<Rightarrow> (path \<times> instant \<times> store_request) list" where
  "addressed base qs =
     List.map_filter (\<lambda>(now, q). case full_path base (rq_key q) of Inr p \<Rightarrow> Some (p, now, q) | Inl _ \<Rightarrow> None) qs"

lemma store_each_keeps:
  "\<forall>(now, q) \<in> set qs. \<not> rq_allow_overwrite q \<Longrightarrow> store_each base qs fs = disk.keep_all (addressed base qs) fs"
proof (induction qs arbitrary: fs)
  case (Cons x qs)
  obtain now q where x: "x = (now, q)" by fastforce
  show ?case
  proof (cases "full_path base (rq_key q)")
    case (Inl e)
    then have "store_each base (x # qs) fs = store_each base qs fs"
      by (simp add: store_each_def x store_refused)
    with Cons Inl show ?thesis by (simp add: addressed_def List.map_filter_simps x)
  next
    case (Inr p)
    with store_new[OF Inr, of now fs] Cons.prems x
    have "store_each base (x # qs) fs = store_each base qs (put_new now p q fs)"
      by (auto simp: store_each_def)
    with Cons Inr show ?thesis by (simp add: addressed_def List.map_filter_simps x disk.keep_all_def)
  qed
qed (simp add: store_each_def addressed_def disk.keep_all_def List.map_filter_simps)

text \<open>
  C1 Stored filings are written once: after any sequence of stores that do not ask to overwrite, a key
  reads the text that was there before or else the text of the first of those stores whose key
  leads to the same file.
\<close>

theorem first_store_wins:
  assumes "\<forall>(now, q) \<in> set qs. \<not> rq_allow_overwrite q" and "full_path base key = Inr p"
  shows "sync_retrieve base key (store_each base qs fs) =
    Inr (case files fs p of
           Some text \<Rightarrow> Some text
         | None \<Rightarrow> map_option (\<lambda>(now, q). rq_content q) (find (\<lambda>(now, q). full_path base (rq_key q) = Inr p) qs))"
proof -
  have "map_of (addressed base qs) p = find (\<lambda>(now, q). full_path base (rq_key q) = Inr p) qs"
    by (induction qs) (auto simp: addressed_def List.map_filter_simps split: sum.splits)
  then show ?thesis using assms(2)
    by (cases "files fs p") (simp_all add: sync_retrieve_def store_each_keeps[OF assms(1)] disk.first_wins)
qed

definition demo_base :: path where "demo_base = [''tmp'', ''fdh-filings'']"

definition demo_store :: "string \<Rightarrow> string \<Rightarrow> store_request" where
  "demo_store key body = \<lparr>rq_key = key, rq_content = body, rq_mime_type = ''text/html'', rq_content_hash = ''h'', rq_allow_overwrite = False\<rparr>"

lemma first_store_wins_witness:
  "sync_retrieve demo_base ''filings/1/document.html''
     (store_each demo_base [(1, demo_store ''filings/1/document.html'' ''one''), (2, demo_store ''filings//1/./document.html'' ''two'')]
        \<lparr>files = Map.empty, metas = Map.empty\<rparr>) = Inr (Some ''one'')"
proof -
  have k: "full_path demo_base ''filings/1/document.html'' = Inr [''tmp'', ''fdh-filings'', ''filings'', ''1'', ''document.html'']"
    by code_simp
  show ?thesis
    by (subst first_store_wins[OF _ k]) (simp_all add: demo_store_def k)
qed

subsection \<open>Where filings live\<close>

lemma ext_no_slash: "ext_for_mime m \<in> {''html'', ''txt'', ''xml'', ''bin''}"
  by (auto simp: ext_for_mime_def MIME_TO_EXT_def split: option.splits if_splits)

lemma object_key_segments:
  assumes "CHR ''/'' \<notin> set acc"
  shows "split_on (CHR ''/'') (make_object_key acc mime) = [''filings'', accession_nodashes acc, ''document.'' @ ext_for_mime mime]"
proof -
  have s: "CHR ''/'' \<notin> set (accession_nodashes acc)" "CHR ''/'' \<notin> set (''document.'' @ ext_for_mime mime)"
    using assms ext_no_slash[of mime] by (auto simp: accession_nodashes_def)
  have "make_object_key acc mime = ''filings'' @ CHR ''/'' # accession_nodashes acc @ CHR ''/'' # (''document.'' @ ext_for_mime mime)"
    by (simp add: make_object_key_def)
  then show ?thesis
    using split_on_append[of "CHR ''/''" "''filings''"] split_on_append[OF s(1)] split_on_none[OF s(2)] by simp
qed

lemma object_key_resolves:
  assumes "CHR ''/'' \<notin> set acc" "accession_nodashes acc \<notin> {'''', ''.'', ''..''}"
  shows "full_path base (make_object_key acc mime) = Inr (base @ [''filings'', accession_nodashes acc, ''document.'' @ ext_for_mime mime])"
proof -
  have "take 1 (make_object_key acc mime) \<noteq> ''/''" by (simp add: make_object_key_def)
  moreover have "prefix (path_string base) (path_string (base @ d # ds))" for d ds
    by (auto simp: path_string_def prefix_def)
  ultimately show ?thesis using assms(2) by (simp add: full_path_def object_key_segments[OF assms(1)] Let_def)
qed

text \<open>
  C1 The key of a filing leads to the file \<^verbatim>\<open>document\<close> of its own directory below the base: an accession
  number without slashes that is not made of dashes and at most two dots names one directory,
  and two accession numbers share it exactly when they agree up to dashes.
\<close>

theorem object_key_path:
  assumes "CHR ''/'' \<notin> set acc" "accession_nodashes acc \<notin> {'''', ''.'', ''..''}"
    and "CHR ''/'' \<notin> set acc'" "accession_nodashes acc' \<notin> {'''', ''.'', ''..''}"
  shows "full_path base (make_object_key acc mime) = Inr (base @ [''filings'', accession_nodashes acc, ''document.'' @ ext_for_mime mime])
    \<and> (full_path base (make_object_key acc mime) = full_path base (make_object_key acc' mime')
        \<longleftrightarrow> accession_nodashes acc = accession_nodashes acc' \<and> ext_for_mime mime = ext_for_mime mime')"
  using object_key_resolves[OF assms(1,2)] object_key_resolves[OF assms(3,4)] by simp

lemma object_key_path_witness:
  "full_path demo_base (make_object_key ''0000320193-24-000001'' ''text/html'')
     = Inr [''tmp'', ''fdh-filings'', ''filings'', ''000032019324000001'', ''document.html'']"
proof -
  have "CHR ''/'' \<notin> set ''0000320193-24-000001''" by simp
  moreover have n: "accession_nodashes ''0000320193-24-000001'' = ''000032019324000001''" by code_simp
  moreover have "ext_for_mime ''text/html'' = ''html''" by code_simp
  ultimately show ?thesis
    using object_key_path[of "''0000320193-24-000001''" "''0000320193-24-000001''" demo_base "''text/html''" "''text/html''"]
    by (simp add: demo_base_def)
qed

text \<open>
  The guard against path traversal compares strings, so it lets a key out of the base into
  a sibling whose name continues the name of the base.
\<close>

lemma traversal_guard_admits_siblings:
  "full_path demo_base ''../fdh-filings-old/secret'' = Inr [''tmp'', ''fdh-filings-old'', ''secret'']
   \<and> full_path demo_base ''../../etc/passwd'' = Inl StorageError"
  by code_simp

end
