(* ===== verification/IngestionTask.thy ===== *)
theory IngestionTask
  imports XBRLParser LocalStorage IngestionLock
begin

text \<open>
  The Celery task that parses one stored filing, \<^verbatim>\<open>workers/tasks/ingestion_tasks.py\<close>: the probing of the
  storage, the ingestion lock around the parse, the classification of errors into final and
  retried ones, and the attempts Celery makes.  The file system, the Redis store and the
  clock of each attempt are an argument, since other processes change them between attempts.
  What \<open>_serialise_line_items\<close> turns into strings is left as values.
\<close>

subsection \<open>Redis address\<close>

text \<open>\<open>s.rstrip(c)\<close> and \<open>s.rsplit(c, 1)[:-1]\<close>.\<close>

definition rstrip_char :: "char \<Rightarrow> string \<Rightarrow> string" where
  "rstrip_char c s = rev (dropWhile (\<lambda>x. x = c) (rev s))"

definition before_last :: "char \<Rightarrow> string \<Rightarrow> string" where
  "before_last c s = rev (drop 1 (dropWhile (\<lambda>x. x \<noteq> c) (rev s)))"

definition redis_lock_url :: "string option \<Rightarrow> string" where
  "redis_lock_url configured =
     before_last (CHR ''/'') (rstrip_char (CHR ''/'')
       (case configured of Some (c # cs) \<Rightarrow> c # cs | _ \<Rightarrow> ''redis://localhost:6379/0'')) @ ''/3''"

text \<open>An address with a database index loses it; without one the host itself is cut off.\<close>

lemma lock_url_needs_index:
  "redis_lock_url (Some ''redis://cache:6379/0'') = ''redis://cache:6379/3''
   \<and> redis_lock_url (Some ''redis://cache:6379'') = ''redis://3''"
  by code_simp

subsection \<open>One attempt\<close>

record ingest_call =
  ic_accession_number :: string
  ic_company_id :: string
  ic_fiscal_year :: int
  ic_filing_date_iso :: string

datatype ingest_error =
    IngestValueError | IngestLockError string | IngestNotFound | IngestStorageError | IngestParseError parse_error

record 's ingest_env =
  ie_iterparse :: "string \<Rightarrow> xml_doc"
  ie_clear :: "xml \<Rightarrow> xml"
  ie_sha256 :: "string \<Rightarrow> string"
  ie_files :: file_system
  ie_redis :: "'s kv_ops"
  ie_store :: 's
  ie_token :: string
  ie_entered :: int
  ie_left :: int

definition STORAGE_BASE :: path where "STORAGE_BASE = [''tmp'', ''fdh-filings'']"

definition PROBED_MIMES :: "string list" where
  "PROBED_MIMES = [''application/xml'', ''text/html'', ''application/xhtml+xml'']"

fun probe_storage :: "path \<Rightarrow> file_system \<Rightarrow> string \<Rightarrow> string list \<Rightarrow> storage_error + string option" where
  "probe_storage base fs acc [] = Inr None"
| "probe_storage base fs acc (m # ms) =
     rbind (sync_retrieve base (make_object_key acc m) fs) (\<lambda>content.
       case content of Some c \<Rightarrow> Inr (Some c) | None \<Rightarrow> probe_storage base fs acc ms)"

definition ingest_lock :: "'s ingest_env \<Rightarrow> ingest_call \<Rightarrow> ingestion_lock" where
  "ingest_lock E call = \<lparr>lock_key = lock_key_for (ic_company_id call) (show_int (ic_fiscal_year call)),
     lock_token = ie_token E, lock_ttl = lock_ttl_seconds\<rparr>"

definition parse_stored :: "'s ingest_env \<Rightarrow> ingest_call \<Rightarrow> string \<Rightarrow> ingest_error + produced list" where
  "parse_stored E call content =
     (case date_fromisoformat (ic_filing_date_iso call) of
        Inl e \<Rightarrow> Inl IngestValueError
      | Inr d \<Rightarrow> map_error IngestParseError
          (parse_xbrl_document (ie_iterparse E) (ie_clear E) (ie_sha256 E) content
             \<lparr>dc_company_id = ic_company_id call, dc_filing_date = d\<rparr>))"

definition run_xbrl_ingestion :: "'s ingest_env \<Rightarrow> ingest_call \<Rightarrow> (ingest_error + produced list) \<times> 's" where
  "run_xbrl_ingestion E call =
     (case probe_storage STORAGE_BASE (ie_files E) (ic_accession_number call) PROBED_MIMES of
        Inl _ \<Rightarrow> (Inl IngestStorageError, ie_store E)
      | Inr None \<Rightarrow> (Inl IngestNotFound, ie_store E)
      | Inr (Some content) \<Rightarrow>
          (case aenter (ie_redis E) (ie_entered E) (ingest_lock E call) (ie_store E) of
             (Inl (IngestionLockError k), s) \<Rightarrow> (Inl (IngestLockError k), s)
           | (Inr _, s) \<Rightarrow>
               (parse_stored E call content, aexit (ie_redis E) (ie_left E) (ingest_lock E call) s)))"

datatype ingest_end = Completed "produced list" | Raised ingest_error | RetryIn int

definition ingest_max_retries :: nat where "ingest_max_retries = 3"

text \<open>
  The arguments are checked outside the handlers.  A lost lock and a missing document are final;
  \<open>self.retry\<close> raises the error itself when the retries are used up.
\<close>

definition ingest_xbrl_document :: "'s ingest_env \<Rightarrow> ingest_call \<Rightarrow> nat \<Rightarrow> ingest_end \<times> 's" where
  "ingest_xbrl_document E call retries =
     (if ic_fiscal_year call < 1900 \<or> 2100 < ic_fiscal_year call then (Raised IngestValueError, ie_store E)
      else if isl (uuid_of_string (ic_company_id call)) then (Raised IngestValueError, ie_store E)
      else
        (case run_xbrl_ingestion E call of
           (Inr items, s) \<Rightarrow> (Completed items, s)
         | (Inl (IngestLockError k), s) \<Rightarrow> (Raised (IngestLockError k), s)
         | (Inl IngestNotFound, s) \<Rightarrow> (Raised IngestNotFound, s)
         | (Inl e, s) \<Rightarrow>
             (if ingest_max_retries \<le> retries then (Raised e, s) else (RetryIn (120 * 2 ^ retries), s))))"

text \<open>Celery: another attempt as long as the task asks for one.\<close>

function run_ingest :: "(nat \<Rightarrow> 's ingest_env) \<Rightarrow> ingest_call \<Rightarrow> nat \<Rightarrow> ingest_end" where
  "run_ingest env call retries =
     (case fst (ingest_xbrl_document (env retries) call retries) of
        RetryIn t \<Rightarrow> if retries < ingest_max_retries then run_ingest env call (Suc retries) else RetryIn t
      | e \<Rightarrow> e)"
  by pat_completeness auto

termination
  by (relation "measure (\<lambda>(_, _, retries). ingest_max_retries - retries)") auto

declare run_ingest.simps [simp del]

subsection \<open>What an attempt delivers\<close>

lemma completed_empty:
  assumes "documented_clear (ie_clear E)" "fst (ingest_xbrl_document E call retries) = Completed items"
  shows "items = []"
proof -
  have "fst (run_xbrl_ingestion E call) = Inr items"
    using assms(2) by (auto simp: ingest_xbrl_document_def split: if_splits prod.splits sum.splits ingest_error.splits)
  then obtain content where "parse_stored E call content = Inr items"
    by (auto simp: run_xbrl_ingestion_def split: sum.splits option.splits prod.splits unit.splits lock_error.splits)
  then obtain d where "parse_xbrl_document (ie_iterparse E) (ie_clear E) (ie_sha256 E) content
      \<lparr>dc_company_id = ic_company_id call, dc_filing_date = d\<rparr> = Inr items"
    by (auto simp: parse_stored_def split: sum.splits)
  with parse_outcomes[OF assms(1), of "ie_iterparse E" "ie_sha256 E" content
      "\<lparr>dc_company_id = ic_company_id call, dc_filing_date = d\<rparr>"]
  show ?thesis by simp
qed

lemma final_attempt: "fst (ingest_xbrl_document E call ingest_max_retries) \<noteq> RetryIn t"
  by (auto simp: ingest_xbrl_document_def split: prod.splits sum.splits ingest_error.splits)

text \<open>
  C1 The ingestion of a filing ends after at most four attempts, with an error or with no
  line item: whatever the storage holds, whatever other workers do and whenever, the task never hands a
  parsed figure on.
\<close>

theorem ingestion_delivers_nothing:
  assumes "\<forall>n. documented_clear (ie_clear (env n))"
  shows "run_ingest env call 0 = Completed [] \<or> (\<exists>e. run_ingest env call 0 = Raised e)"
proof -
  have "run_ingest env call r = Completed [] \<or> (\<exists>e. run_ingest env call r = Raised e)" if "r \<le> ingest_max_retries" for r
    using that
  proof (induction "ingest_max_retries - r" arbitrary: r)
    case 0
    then have "r = ingest_max_retries" by simp
    then show ?case
      using final_attempt[of "env r" call] completed_empty[OF assms[rule_format, of r]]
      by (subst (1 2) run_ingest.simps) (auto split: ingest_end.split)
  next
    case (Suc k)
    then have "run_ingest env call (Suc r) = Completed [] \<or> (\<exists>e. run_ingest env call (Suc r) = Raised e)" by simp
    then show ?case using completed_empty[OF assms[rule_format, of r]] Suc.prems Suc.hyps(2)
      by (subst (1 2) run_ingest.simps) (auto split: ingest_end.split)
  qed
  from this[of 0] show ?thesis by simp
qed

subsection \<open>The lock around an attempt\<close>

context kv_store
begin

lemma critical_section:
  assumes "aenter R t0 l s = (Inr (), s1)" "t1 \<le> t"
  shows "live_entry t0 (entry s (lock_key l)) = None
    \<and> live_entry t (entry (aexit R t1 l s1) (lock_key l)) = None
    \<and> (\<forall>j. j \<noteq> lock_key l \<longrightarrow> entry (aexit R t1 l s1) j = entry s j)"
proof -
  have a: "live_entry t0 (entry s (lock_key l)) = None" "entry s1 (lock_key l) = Some (lock_token l, t0 + lock_ttl l)"
    "\<forall>j. j \<noteq> lock_key l \<longrightarrow> entry s1 j = entry s j"
    using assms(1) acquire_cases[of t0 l s] by (auto simp: aenter_def split: prod.splits if_splits)
  obtain ok s2 where r: "release R t1 l s1 = (ok, s2)" by fastforce
  show ?thesis using a release_cases[OF r] assms(2)
    by (auto simp: aexit_def r live_entry_def split: if_splits)
qed

lemma refused_section:
  assumes "aenter R t0 l s = (Inl e, s1)"
  shows "live_entry t0 (entry s (lock_key l)) \<noteq> None \<and> (\<forall>j. entry s1 j = entry s j)"
proof -
  obtain ok s2 where t: "try_acquire R t0 l s = (ok, s2)" by fastforce
  show ?thesis using assms acquire_cases[OF t] by (auto simp: aenter_def t split: if_splits) metis
qed

end

text \<open>
  C1 The lock around an attempt.  While another worker holds the lock of the company and year the
  attempt completes nothing and leaves the lock to its owner; otherwise no live lock of the attempt
  is left once it is over, however the parse ended.  Locks of other companies and years are not touched.
\<close>

theorem ingest_leaves_no_lock:
  assumes "kv_store (ie_redis E) entry" and "ingest_xbrl_document E call retries = (e, s')" and "ie_left E \<le> t"
  shows "(\<forall>j. j \<noteq> lock_key (ingest_lock E call) \<longrightarrow> entry s' j = entry (ie_store E) j)
    \<and> (if live_entry (ie_entered E) (entry (ie_store E) (lock_key (ingest_lock E call))) = None
       then entry s' (lock_key (ingest_lock E call)) = entry (ie_store E) (lock_key (ingest_lock E call))
            \<or> live_entry t (entry s' (lock_key (ingest_lock E call))) = None
       else entry s' (lock_key (ingest_lock E call)) = entry (ie_store E) (lock_key (ingest_lock E call))
            \<and> (\<forall>items. e \<noteq> Completed items))"
proof -
  let ?l = "ingest_lock E call" and ?s = "ie_store E"
  have s': "s' = ?s \<and> (\<forall>items. e \<noteq> Completed items) \<or> s' = snd (run_xbrl_ingestion E call)
      \<and> (\<forall>items. e = Completed items \<longrightarrow> fst (run_xbrl_ingestion E call) = Inr items)"
    using assms(2) by (auto simp: ingest_xbrl_document_def split: if_splits prod.splits sum.splits ingest_error.splits)
  obtain r s1 where a: "aenter (ie_redis E) (ie_entered E) ?l ?s = (r, s1)" by fastforce
  show ?thesis
  proof (cases r)
    case (Inl x)
    note ref = kv_store.refused_section[OF assms(1) a[unfolded Inl]]
    have "(\<forall>j. entry (snd (run_xbrl_ingestion E call)) j = entry ?s j) \<and> isl (fst (run_xbrl_ingestion E call))"
      using ref by (auto simp: run_xbrl_ingestion_def a Inl split: sum.splits option.splits lock_error.splits)
    with s' ref show ?thesis by auto
  next
    case (Inr u)
    then have a: "aenter (ie_redis E) (ie_entered E) ?l ?s = (Inr (), s1)" using a by simp
    note sec = kv_store.critical_section[OF assms(1) a assms(3)]
    have "snd (run_xbrl_ingestion E call) = ?s \<or> snd (run_xbrl_ingestion E call) = aexit (ie_redis E) (ie_left E) ?l s1"
      unfolding run_xbrl_ingestion_def a by (simp split: sum.split option.split)
    moreover have "s' = ?s \<or> s' = snd (run_xbrl_ingestion E call)" using s' by blast
    ultimately have "s' = ?s \<or> s' = aexit (ie_redis E) (ie_left E) ?l s1" by argo
    then show ?thesis
    proof
      assume "s' = aexit (ie_redis E) (ie_left E) ?l s1"
      with sec show ?thesis by simp
    qed (use sec in simp)
  qed
qed

subsection \<open>Instances\<close>

definition demo_files :: file_system where
  "demo_files = \<lparr>files = [[''tmp'', ''fdh-filings'', ''filings'', ''1'', ''document.html''] \<mapsto> ''<html/>''], metas = Map.empty\<rparr>"

definition demo_ingest :: "(string \<Rightarrow> (string \<times> int) option) ingest_env" where
  "demo_ingest = \<lparr>ie_iterparse = (\<lambda>_. sample_filing), ie_clear = reset_element, ie_sha256 = (\<lambda>_. ''h''), ie_files = demo_files,
     ie_redis = memory_kv, ie_store = Map.empty, ie_token = ''a'', ie_entered = 0, ie_left = 5\<rparr>"

definition demo_ingest_call :: ingest_call where
  "demo_ingest_call = \<lparr>ic_accession_number = ''1'', ic_company_id = ''00000000-0000-0000-0000-00000000000c'',
     ic_fiscal_year = 2023, ic_filing_date_iso = ''2024-02-15''\<rparr>"

lemma ingestion_delivers_nothing_witness:
  "run_ingest (\<lambda>_. demo_ingest) demo_ingest_call 0 = Completed []"
proof -
  have "case fst (ingest_xbrl_document demo_ingest demo_ingest_call 0) of Completed _ \<Rightarrow> True | _ \<Rightarrow> False" by code_simp
  then have "\<not> (\<exists>e. run_ingest (\<lambda>_. demo_ingest) demo_ingest_call 0 = Raised e)"
    by (subst run_ingest.simps) (auto split: ingest_end.splits)
  then show ?thesis
    using ingestion_delivers_nothing[of "\<lambda>_. demo_ingest" demo_ingest_call] reset_element_clears
    by (simp add: demo_ingest_def)
qed

lemma ingest_leaves_no_lock_witness:
  "live_entry 5 (snd (ingest_xbrl_document demo_ingest demo_ingest_call 0) (lock_key (ingest_lock demo_ingest demo_ingest_call))) = None"
proof -
  obtain e s' where r: "ingest_xbrl_document demo_ingest demo_ingest_call 0 = (e, s')" by fastforce
  have "kv_store (ie_redis demo_ingest) (\<lambda>s. s)" using memory.kv_store_axioms by (simp add: demo_ingest_def)
  moreover have "ie_store demo_ingest = Map.empty" "ie_left demo_ingest \<le> 5" by (simp_all add: demo_ingest_def)
  ultimately show ?thesis using ingest_leaves_no_lock[OF _ r, of "\<lambda>s. s" 5]
    by (auto simp: r live_entry_def)
qed

text \<open>Two spellings of one company id are both accepted and lock different keys.\<close>

lemma lock_per_spelling:
  "uuid_of_string ''0000000000000000000000000000000C'' = uuid_of_string ''00000000-0000-0000-0000-00000000000c''
   \<and> \<not> isl (uuid_of_string ''0000000000000000000000000000000C'')
   \<and> lock_key_for ''0000000000000000000000000000000C'' ''2023'' \<noteq> lock_key_for ''00000000-0000-0000-0000-00000000000c'' ''2023''"
  by code_simp

end
