(* ===== verification/Aggregation.thy ===== *)
theory Aggregation
  imports Models "HOL-Library.AList" "HOL-Library.List_Lexorder" "HOL-Library.Char_ord" "HOL-Library.Product_Lexorder"
begin

text \<open>
  Cross-framework profiles, \<^verbatim>\<open>services/currency/aggregation_view.py\<close>: which line item stands for which
  presentation category of a company and period, the comparison of several companies, and
  the consolidation variance.  Dictionaries are association lists in insertion order.  The
  database's collation of canonical fields is a parameter.  The table of XBRL concepts per
  framework, which no code reads, is left out.
\<close>

subsection \<open>Tables\<close>

datatype PresentationCategory =
    TOTAL_REVENUE | COST_OF_GOODS_SOLD | GROSS_PROFIT | RESEARCH_AND_DEVELOPMENT | SELLING_GENERAL_ADMIN |
    TOTAL_OPERATING_EXPENSES | OPERATING_INCOME | INTEREST_EXPENSE | INTEREST_INCOME |
    OTHER_NONOPERATING_INCOME | INCOME_BEFORE_TAX | INCOME_TAX_EXPENSE | NET_INCOME | COMPREHENSIVE_INCOME |
    EPS_BASIC | EPS_DILUTED | CASH_AND_EQUIVALENTS | SHORT_TERM_INVESTMENTS | ACCOUNTS_RECEIVABLE |
    INVENTORY | TOTAL_CURRENT_ASSETS | PROPERTY_PLANT_EQUIPMENT | GOODWILL | INTANGIBLE_ASSETS |
    TOTAL_NONCURRENT_ASSETS | TOTAL_ASSETS | ACCOUNTS_PAYABLE | SHORT_TERM_DEBT | TOTAL_CURRENT_LIABILITIES |
    LONG_TERM_DEBT | TOTAL_NONCURRENT_LIABILITIES | TOTAL_LIABILITIES | RETAINED_EARNINGS | TOTAL_EQUITY |
    NONCONTROLLING_INTEREST | TOTAL_LIABILITIES_AND_EQUITY | OPERATING_CASH_FLOW | CAPEX |
    INVESTING_CASH_FLOW | DIVIDENDS_PAID | FINANCING_CASH_FLOW | NET_CHANGE_IN_CASH | FX_EFFECT_ON_CASH

fun category_value :: "PresentationCategory \<Rightarrow> string" where
  "category_value TOTAL_REVENUE = ''total_revenue''"
| "category_value COST_OF_GOODS_SOLD = ''cost_of_goods_sold''"
| "category_value GROSS_PROFIT = ''gross_profit''"
| "category_value RESEARCH_AND_DEVELOPMENT = ''research_and_development''"
| "category_value SELLING_GENERAL_ADMIN = ''selling_general_admin''"
| "category_value TOTAL_OPERATING_EXPENSES = ''total_operating_expenses''"
| "category_value OPERATING_INCOME = ''operating_income''"
| "category_value INTEREST_EXPENSE = ''interest_expense''"
| "category_value INTEREST_INCOME = ''interest_income''"
| "category_value OTHER_NONOPERATING_INCOME = ''other_nonoperating_income''"
| "category_value INCOME_BEFORE_TAX = ''income_before_tax''"
| "category_value INCOME_TAX_EXPENSE = ''income_tax_expense''"
| "category_value NET_INCOME = ''net_income''"
| "category_value COMPREHENSIVE_INCOME = ''comprehensive_income''"
| "category_value EPS_BASIC = ''eps_basic''"
| "category_value EPS_DILUTED = ''eps_diluted''"
| "category_value CASH_AND_EQUIVALENTS = ''cash_and_equivalents''"
| "category_value SHORT_TERM_INVESTMENTS = ''short_term_investments''"
| "category_value ACCOUNTS_RECEIVABLE = ''accounts_receivable''"
| "category_value INVENTORY = ''inventory''"
| "category_value TOTAL_CURRENT_ASSETS = ''total_current_assets''"
| "category_value PROPERTY_PLANT_EQUIPMENT = ''property_plant_equipment''"
| "category_value GOODWILL = ''goodwill''"
| "category_value INTANGIBLE_ASSETS = ''intangible_assets''"
| "category_value TOTAL_NONCURRENT_ASSETS = ''total_noncurrent_assets''"
| "category_value TOTAL_ASSETS = ''total_assets''"
| "category_value ACCOUNTS_PAYABLE = ''accounts_payable''"
| "category_value SHORT_TERM_DEBT = ''short_term_debt''"
| "category_value TOTAL_CURRENT_LIABILITIES = ''total_current_liabilities''"
| "category_value LONG_TERM_DEBT = ''long_term_debt''"
| "category_value TOTAL_NONCURRENT_LIABILITIES = ''total_noncurrent_liabilities''"
| "category_value TOTAL_LIABILITIES = ''total_liabilities''"
| "category_value RETAINED_EARNINGS = ''retained_earnings''"
| "category_value TOTAL_EQUITY = ''total_equity''"
| "category_value NONCONTROLLING_INTEREST = ''noncontrolling_interest''"
| "category_value TOTAL_LIABILITIES_AND_EQUITY = ''total_liabilities_and_equity''"
| "category_value OPERATING_CASH_FLOW = ''operating_cash_flow''"
| "category_value CAPEX = ''capex''"
| "category_value INVESTING_CASH_FLOW = ''investing_cash_flow''"
| "category_value DIVIDENDS_PAID = ''dividends_paid''"
| "category_value FINANCING_CASH_FLOW = ''financing_cash_flow''"
| "category_value NET_CHANGE_IN_CASH = ''net_change_in_cash''"
| "category_value FX_EFFECT_ON_CASH = ''fx_effect_on_cash''"

definition CANONICAL_TO_PRESENTATION :: "(string \<times> PresentationCategory) list" where
  "CANONICAL_TO_PRESENTATION = [
    (''revenue'', TOTAL_REVENUE), (''cogs'', COST_OF_GOODS_SOLD), (''gross_profit'', GROSS_PROFIT),
    (''research_and_development'', RESEARCH_AND_DEVELOPMENT),
    (''selling_general_administrative'', SELLING_GENERAL_ADMIN),
    (''selling_expense'', SELLING_GENERAL_ADMIN), (''general_and_administrative'', SELLING_GENERAL_ADMIN),
    (''distribution_costs'', SELLING_GENERAL_ADMIN), (''operating_expenses'', TOTAL_OPERATING_EXPENSES),
    (''other_operating_expenses'', TOTAL_OPERATING_EXPENSES), (''operating_income'', OPERATING_INCOME),
    (''interest_expense'', INTEREST_EXPENSE), (''interest_income'', INTEREST_INCOME),
    (''other_nonoperating_income'', OTHER_NONOPERATING_INCOME),
    (''other_operating_income'', OTHER_NONOPERATING_INCOME), (''income_before_tax'', INCOME_BEFORE_TAX),
    (''income_tax_expense'', INCOME_TAX_EXPENSE), (''net_income'', NET_INCOME),
    (''comprehensive_income'', COMPREHENSIVE_INCOME), (''other_comprehensive_income'', COMPREHENSIVE_INCOME),
    (''eps_basic'', EPS_BASIC), (''eps_diluted'', EPS_DILUTED),
    (''cash_and_equivalents'', CASH_AND_EQUIVALENTS),
    (''cash_and_short_term_investments'', CASH_AND_EQUIVALENTS),
    (''short_term_investments'', SHORT_TERM_INVESTMENTS), (''accounts_receivable'', ACCOUNTS_RECEIVABLE),
    (''inventory'', INVENTORY), (''prepaid_and_other_current'', TOTAL_CURRENT_ASSETS),
    (''total_current_assets'', TOTAL_CURRENT_ASSETS),
    (''property_plant_equipment'', PROPERTY_PLANT_EQUIPMENT), (''goodwill'', GOODWILL),
    (''intangible_assets'', INTANGIBLE_ASSETS), (''goodwill_and_intangibles'', INTANGIBLE_ASSETS),
    (''long_term_investments'', TOTAL_NONCURRENT_ASSETS), (''deferred_tax_asset'', TOTAL_NONCURRENT_ASSETS),
    (''total_noncurrent_assets'', TOTAL_NONCURRENT_ASSETS), (''total_assets'', TOTAL_ASSETS),
    (''accounts_payable'', ACCOUNTS_PAYABLE), (''accrued_liabilities'', ACCOUNTS_PAYABLE),
    (''deferred_revenue'', ACCOUNTS_PAYABLE), (''short_term_debt'', SHORT_TERM_DEBT),
    (''current_portion_long_term_debt'', SHORT_TERM_DEBT),
    (''total_current_liabilities'', TOTAL_CURRENT_LIABILITIES), (''long_term_debt'', LONG_TERM_DEBT),
    (''deferred_revenue_noncurrent'', TOTAL_NONCURRENT_LIABILITIES),
    (''deferred_tax_liability'', TOTAL_NONCURRENT_LIABILITIES),
    (''total_noncurrent_liabilities'', TOTAL_NONCURRENT_LIABILITIES),
    (''total_liabilities'', TOTAL_LIABILITIES), (''common_stock'', TOTAL_EQUITY),
    (''additional_paid_in_capital'', TOTAL_EQUITY), (''retained_earnings'', RETAINED_EARNINGS),
    (''accumulated_oci'', TOTAL_EQUITY), (''treasury_stock'', TOTAL_EQUITY),
    (''total_equity'', TOTAL_EQUITY), (''noncontrolling_interest'', NONCONTROLLING_INTEREST),
    (''total_liabilities_and_equity'', TOTAL_LIABILITIES_AND_EQUITY),
    (''operating_cash_flow'', OPERATING_CASH_FLOW), (''depreciation_amortization'', OPERATING_CASH_FLOW),
    (''stock_based_compensation'', OPERATING_CASH_FLOW), (''deferred_tax_cf'', OPERATING_CASH_FLOW),
    (''changes_in_receivables'', OPERATING_CASH_FLOW), (''changes_in_inventory'', OPERATING_CASH_FLOW),
    (''changes_in_payables'', OPERATING_CASH_FLOW), (''capex'', CAPEX),
    (''acquisitions'', INVESTING_CASH_FLOW), (''purchase_of_investments'', INVESTING_CASH_FLOW),
    (''proceeds_from_investments'', INVESTING_CASH_FLOW),
    (''proceeds_from_asset_sales'', INVESTING_CASH_FLOW), (''investing_cash_flow'', INVESTING_CASH_FLOW),
    (''dividends_paid'', DIVIDENDS_PAID), (''debt_repayment'', FINANCING_CASH_FLOW),
    (''equity_issuance_proceeds'', FINANCING_CASH_FLOW), (''debt_issuance_proceeds'', FINANCING_CASH_FLOW),
    (''share_buybacks'', FINANCING_CASH_FLOW), (''financing_cash_flow'', FINANCING_CASH_FLOW),
    (''net_change_in_cash'', NET_CHANGE_IN_CASH), (''fx_effect_on_cash'', FX_EFFECT_ON_CASH)]"

definition CATEGORY_PRIORITY :: "(string \<times> int) list" where
  "CATEGORY_PRIORITY = [
    (''revenue'', 1), (''net_income'', 1), (''gross_profit'', 1), (''operating_income'', 1),
    (''income_before_tax'', 1), (''income_tax_expense'', 1), (''comprehensive_income'', 1),
    (''total_assets'', 1), (''total_current_assets'', 1), (''total_noncurrent_assets'', 1),
    (''total_liabilities'', 1), (''total_current_liabilities'', 1), (''total_noncurrent_liabilities'', 1),
    (''total_equity'', 1), (''total_liabilities_and_equity'', 1), (''operating_cash_flow'', 1),
    (''investing_cash_flow'', 1), (''financing_cash_flow'', 1), (''net_change_in_cash'', 1),
    (''cash_and_equivalents'', 2), (''accounts_receivable'', 2), (''inventory'', 2), (''long_term_debt'', 2),
    (''retained_earnings'', 2), (''capex'', 2)]"

definition PRESENTATION_ORDER :: "string list" where
  "PRESENTATION_ORDER = map category_value [
    TOTAL_REVENUE, COST_OF_GOODS_SOLD, GROSS_PROFIT, RESEARCH_AND_DEVELOPMENT, SELLING_GENERAL_ADMIN,
    TOTAL_OPERATING_EXPENSES, OPERATING_INCOME, INTEREST_EXPENSE, INTEREST_INCOME, OTHER_NONOPERATING_INCOME,
    INCOME_BEFORE_TAX, INCOME_TAX_EXPENSE, NET_INCOME, COMPREHENSIVE_INCOME, EPS_BASIC, EPS_DILUTED,
    CASH_AND_EQUIVALENTS, SHORT_TERM_INVESTMENTS, ACCOUNTS_RECEIVABLE, INVENTORY, TOTAL_CURRENT_ASSETS,
    PROPERTY_PLANT_EQUIPMENT, GOODWILL, INTANGIBLE_ASSETS, TOTAL_NONCURRENT_ASSETS, TOTAL_ASSETS,
    ACCOUNTS_PAYABLE, SHORT_TERM_DEBT, TOTAL_CURRENT_LIABILITIES, LONG_TERM_DEBT,
    TOTAL_NONCURRENT_LIABILITIES, TOTAL_LIABILITIES, RETAINED_EARNINGS, NONCONTROLLING_INTEREST,
    TOTAL_EQUITY, TOTAL_LIABILITIES_AND_EQUITY, OPERATING_CASH_FLOW, CAPEX, INVESTING_CASH_FLOW,
    DIVIDENDS_PAID, FINANCING_CASH_FLOW, NET_CHANGE_IN_CASH, FX_EFFECT_ON_CASH]"

lemma PRESENTATION_ORDER_distinct: "distinct PRESENTATION_ORDER"
  by (simp add: PRESENTATION_ORDER_def)

definition DEFAULT_MATERIALITY_USD :: decimal where "DEFAULT_MATERIALITY_USD = Dec 10000000 (-2)"

definition cents :: "decimal \<Rightarrow> py_error + decimal" where
  "cents d = dec_quantize ROUND_HALF_EVEN (-2) d"

subsection \<open>Profiles\<close>

datatype category = Presented PresentationCategory | PassThrough string

record normalized_value =
  nv_category :: category
  nv_canonical_field :: string
  nv_reporting_standard :: string
  nv_value_usd :: "decimal option"
  nv_filing_date :: date

record normalized_profile =
  np_company_id :: uuid
  np_fiscal_year :: int
  np_fiscal_period :: string
  np_reporting_standard :: string
  np_values :: "(string \<times> normalized_value) list"
  np_source_row_count :: nat
  np_untranslated_count :: nat

definition get_usd :: "PresentationCategory \<Rightarrow> normalized_profile \<Rightarrow> decimal option" where
  "get_usd c p = (case map_of (np_values p) (category_value c) of None \<Rightarrow> None | Some v \<Rightarrow> nv_value_usd v)"

text \<open>The most recent filing first, restated rows left out.\<close>

definition fetch_rows ::
    "(string \<Rightarrow> 'k :: linorder) \<Rightarrow> financial_line_item list \<Rightarrow> uuid \<Rightarrow> int \<Rightarrow> string \<Rightarrow> financial_line_item list" where
  "fetch_rows collate items company fy fp =
     sort_key (\<lambda>r. (- fli_filing_date r, collate (fli_canonical_field r)))
       (filter (\<lambda>r. fli_company_id r = company \<and> fli_fiscal_year r = fy \<and> fli_fiscal_period r = fp \<and> \<not> fli_is_restated r) items)"

definition category_of :: "string \<Rightarrow> category" where
  "category_of canonical =
     (case map_of CANONICAL_TO_PRESENTATION canonical of Some c \<Rightarrow> Presented c | None \<Rightarrow> PassThrough canonical)"

fun category_key :: "category \<Rightarrow> string" where
  "category_key (Presented c) = category_value c"
| "category_key (PassThrough s) = s"

definition priority_of :: "string \<Rightarrow> int" where
  "priority_of canonical = (case map_of CATEGORY_PRIORITY canonical of Some p \<Rightarrow> p | None \<Rightarrow> 999)"

definition normalize_row :: "financial_line_item \<Rightarrow> py_error + normalized_value" where
  "normalize_row r =
     rbind (case fli_value_usd r of None \<Rightarrow> Inr None | Some v \<Rightarrow> rbind (cents v) (\<lambda>q. Inr (Some q))) (\<lambda>usd.
       Inr \<lparr>nv_category = category_of (fli_canonical_field r), nv_canonical_field = fli_canonical_field r,
            nv_reporting_standard = fli_reporting_standard r, nv_value_usd = usd, nv_filing_date = fli_filing_date r\<rparr>)"

record profile_state =
  std_counts :: "(string \<times> nat) list"
  untranslated :: nat
  seen_canonical :: "string list"
  category_occupant :: "(string \<times> int \<times> string) list"
  raw_values :: "(string \<times> normalized_value) list"

definition profile_start :: profile_state where
  "profile_start = \<lparr>std_counts = [], untranslated = 0, seen_canonical = [], category_occupant = [], raw_values = []\<rparr>"

text \<open>The counters, which every row moves, then the choice of the occupant.\<close>

definition count_row :: "financial_line_item \<Rightarrow> profile_state \<Rightarrow> profile_state" where
  "count_row r st =
     st\<lparr>std_counts := AList.update (fli_reporting_standard r)
          (Suc (case map_of (std_counts st) (fli_reporting_standard r) of Some n \<Rightarrow> n | None \<Rightarrow> 0)) (std_counts st),
        untranslated := untranslated st + (if fli_value_usd r = None then 1 else 0)\<rparr>"

definition profile_step :: "financial_line_item \<Rightarrow> profile_state \<Rightarrow> py_error + profile_state" where
  "profile_step r st0 =
     (let st = count_row r st0; canonical = fli_canonical_field r
      in if canonical \<in> set (seen_canonical st) then Inr st
         else
           let st = st\<lparr>seen_canonical := canonical # seen_canonical st\<rparr>;
               key = category_key (category_of canonical); priority = priority_of canonical
           in if (case map_of (category_occupant st) key of None \<Rightarrow> True | Some (p, _) \<Rightarrow> priority < p)
              then rbind (normalize_row r) (\<lambda>v.
                     Inr (st\<lparr>category_occupant := AList.update key (priority, canonical) (category_occupant st),
                             raw_values := AList.update key v (raw_values st)\<rparr>))
              else Inr st)"

fun profile_loop :: "financial_line_item list \<Rightarrow> profile_state \<Rightarrow> py_error + profile_state" where
  "profile_loop [] st = Inr st"
| "profile_loop (r # rs) st = rbind (profile_step r st) (profile_loop rs)"

text \<open>\<open>max\<close> over a dictionary: the first key of the largest count.\<close>

fun most_common_standard :: "(string \<times> nat) list \<Rightarrow> string" where
  "most_common_standard [] = ''UNKNOWN''"
| "most_common_standard [(k, n)] = k"
| "most_common_standard ((k, n) # (k', n') # cs) = (if n < n' then most_common_standard ((k', n') # cs) else most_common_standard ((k, n) # cs))"

definition build_profile_from_rows ::
    "financial_line_item list \<Rightarrow> uuid \<Rightarrow> int \<Rightarrow> string \<Rightarrow> py_error + normalized_profile" where
  "build_profile_from_rows rows company fy fp =
     (if rows = [] then Inr \<lparr>np_company_id = company, np_fiscal_year = fy, np_fiscal_period = fp, np_reporting_standard = ''UNKNOWN'',
        np_values = [], np_source_row_count = 0, np_untranslated_count = 0\<rparr>
      else rbind (profile_loop rows profile_start) (\<lambda>st.
        Inr \<lparr>np_company_id = company, np_fiscal_year = fy, np_fiscal_period = fp,
             np_reporting_standard = most_common_standard (std_counts st), np_values = raw_values st,
             np_source_row_count = length rows, np_untranslated_count = untranslated st\<rparr>))"

definition build_normalized_profile ::
    "(string \<Rightarrow> 'k :: linorder) \<Rightarrow> financial_line_item list \<Rightarrow> uuid \<Rightarrow> int \<Rightarrow> string \<Rightarrow> py_error + normalized_profile" where
  "build_normalized_profile collate items company fy fp =
     build_profile_from_rows (fetch_rows collate items company fy fp) company fy fp"

subsection \<open>Comparison and consolidation\<close>

record comparative_view =
  cv_entities :: "normalized_profile list"
  cv_fiscal_year :: int
  cv_fiscal_period :: string
  cv_ordered_categories :: "string list"

definition entity_count :: "comparative_view \<Rightarrow> nat" where
  "entity_count v = length (cv_entities v)"

definition sort_categories :: "string set \<Rightarrow> string list" where
  "sort_categories keys =
     filter (\<lambda>k. k \<in> keys) PRESENTATION_ORDER @ sorted_list_of_set {k \<in> keys. k \<notin> set PRESENTATION_ORDER}"

definition build_comparative_view ::
    "(string \<Rightarrow> 'k :: linorder) \<Rightarrow> financial_line_item list \<Rightarrow> uuid list \<Rightarrow> int \<Rightarrow> string \<Rightarrow> py_error + comparative_view" where
  "build_comparative_view collate items companies fy fp =
     rbind (rmap (\<lambda>c. build_normalized_profile collate items c fy fp) companies) (\<lambda>profiles.
       Inr \<lparr>cv_entities = profiles, cv_fiscal_year = fy, cv_fiscal_period = fp,
            cv_ordered_categories = sort_categories (set (concat (map (map fst \<circ> np_values) profiles)))\<rparr>)"

record consolidation_delta =
  cd_parent_company_id :: uuid
  cd_subsidiary_company_ids :: "uuid list"
  cd_consolidated_assets_usd :: decimal
  cd_sum_subsidiary_assets_usd :: decimal
  cd_fx_rounding_variance :: decimal
  cd_variance_is_material :: bool
  cd_materiality_threshold :: decimal
  cd_subsidiary_asset_detail :: "(uuid \<times> decimal) list"

definition assets_or_zero :: "normalized_profile \<Rightarrow> decimal" where
  "assets_or_zero p = (case get_usd TOTAL_ASSETS p of Some a \<Rightarrow> a | None \<Rightarrow> Dec 0 0)"

fun add_subsidiaries :: "normalized_profile list \<Rightarrow> (uuid \<times> decimal) list \<Rightarrow> decimal \<Rightarrow> (uuid \<times> decimal) list \<times> decimal" where
  "add_subsidiaries [] detail acc = (detail, acc)"
| "add_subsidiaries (s # ss) detail acc =
     add_subsidiaries ss (AList.update (np_company_id s) (assets_or_zero s) detail) (dec_add acc (assets_or_zero s))"

definition compute_consolidation_delta ::
    "normalized_profile \<Rightarrow> normalized_profile list \<Rightarrow> decimal \<Rightarrow> py_error + consolidation_delta" where
  "compute_consolidation_delta parent subs threshold =
     (let parent_assets = assets_or_zero parent;
          (detail, acc) = add_subsidiaries subs [] (Dec 0 0)
      in rbind (cents (dec_sub parent_assets acc)) (\<lambda>variance.
         rbind (cents parent_assets) (\<lambda>pq. rbind (cents acc) (\<lambda>sq. rbind (cents threshold) (\<lambda>tq.
           Inr \<lparr>cd_parent_company_id = np_company_id parent, cd_subsidiary_company_ids = map np_company_id subs,
                cd_consolidated_assets_usd = pq, cd_sum_subsidiary_assets_usd = sq, cd_fx_rounding_variance = variance,
                cd_variance_is_material = dec_lt threshold (dec_abs variance), cd_materiality_threshold = tq,
                cd_subsidiary_asset_detail = detail\<rparr>)))))"

subsection \<open>Which row stands for a category\<close>

text \<open>
  The reference: the first row of each canonical field, then among those of a category the first
  of the smallest priority.
\<close>

definition first_rows :: "financial_line_item list \<Rightarrow> financial_line_item list" where
  "first_rows rows = rev (foldl (\<lambda>acc r. if \<exists>s \<in> set acc. fli_canonical_field s = fli_canonical_field r then acc else r # acc) [] rows)"

definition key_of_row :: "financial_line_item \<Rightarrow> string" where
  "key_of_row r = category_key (category_of (fli_canonical_field r))"

definition occupant :: "financial_line_item list \<Rightarrow> string \<Rightarrow> financial_line_item option" where
  "occupant rows k =
     (case filter (\<lambda>r. key_of_row r = k) (first_rows rows) of
        [] \<Rightarrow> None | r # rs \<Rightarrow> Some (arg_min_list (\<lambda>r. priority_of (fli_canonical_field r)) (r # rs)))"

lemma first_rows_snoc:
  "first_rows (rows @ [r]) =
     (if \<exists>s \<in> set (first_rows rows). fli_canonical_field s = fli_canonical_field r then first_rows rows else first_rows rows @ [r])"
  by (simp add: first_rows_def)

lemma first_rows_fields: "fli_canonical_field ` set (first_rows rows) = fli_canonical_field ` set rows"
proof (induction rows rule: rev_induct)
  case (snoc r rows)
  then show ?case by (auto simp: first_rows_snoc) (metis image_eqI)+
qed (simp add: first_rows_def)

lemma arg_min_list_snoc:
  "xs \<noteq> [] \<Longrightarrow> arg_min_list f (xs @ [x]) = (let m = arg_min_list f xs in if f m \<le> f x then m else (x :: 'a))"
  for f :: "'a \<Rightarrow> 'b :: linorder"
proof (induction f xs rule: arg_min_list.induct)
  case (2 f a b xs)
  then show ?case by (auto simp: Let_def)
qed auto

lemma occupant_snoc:
  "occupant (rows @ [r]) k =
     (if fli_canonical_field r \<in> fli_canonical_field ` set rows \<or> key_of_row r \<noteq> k then occupant rows k
      else (case occupant rows k of
              None \<Rightarrow> Some r
            | Some m \<Rightarrow> if priority_of (fli_canonical_field m) \<le> priority_of (fli_canonical_field r) then Some m else Some r))"
proof -
  let ?c = "filter (\<lambda>r. key_of_row r = k) (first_rows rows)"
  have seen: "(\<exists>s \<in> set (first_rows rows). fli_canonical_field s = fli_canonical_field r)
      \<longleftrightarrow> fli_canonical_field r \<in> fli_canonical_field ` set rows"
    using first_rows_fields[of rows] by (metis (no_types, lifting) image_iff)
  show ?thesis
  proof (cases "fli_canonical_field r \<in> fli_canonical_field ` set rows \<or> key_of_row r \<noteq> k")
    case True
    then show ?thesis using seen by (auto simp: occupant_def first_rows_snoc)
  next
    case False
    then have c: "filter (\<lambda>r. key_of_row r = k) (first_rows (rows @ [r])) = ?c @ [r]"
      using seen by (simp add: first_rows_snoc)
    show ?thesis
    proof (cases ?c)
      case Nil
      then show ?thesis using False c by (simp add: occupant_def)
    next
      case (Cons x xs)
      then show ?thesis using False arg_min_list_snoc[of "x # xs" "\<lambda>r. priority_of (fli_canonical_field r)" r]
        by (simp add: occupant_def c Let_def)
    qed
  qed
qed

fun shown :: "financial_line_item option \<Rightarrow> normalized_value option \<Rightarrow> bool" where
  "shown None v = (v = None)"
| "shown (Some r) v = (\<exists>w. normalize_row r = Inr w \<and> v = Some w)"

text \<open>What the loop knows after a prefix of the rows.\<close>

definition tracks :: "financial_line_item list \<Rightarrow> profile_state \<Rightarrow> bool" where
  "tracks rows st \<longleftrightarrow> set (seen_canonical st) = fli_canonical_field ` set rows
     \<and> untranslated st = length (filter (\<lambda>r. fli_value_usd r = None) rows)
     \<and> (\<forall>k. map_of (category_occupant st) k = map_option (\<lambda>r. (priority_of (fli_canonical_field r), fli_canonical_field r)) (occupant rows k))
     \<and> (\<forall>k. shown (occupant rows k) (map_of (raw_values st) k))"

lemma profile_loop_append: "profile_loop (xs @ ys) st = rbind (profile_loop xs st) (profile_loop ys)"
proof (induction xs arbitrary: st)
  case (Cons x xs)
  then show ?case by (cases "profile_step x st") simp_all
qed simp

lemma step_tracks:
  assumes "tracks rows st" "profile_step r st = Inr st'"
  shows "tracks (rows @ [r]) st'"
proof -
  let ?seen = "fli_canonical_field r \<in> fli_canonical_field ` set rows"
  let ?p = "priority_of (fli_canonical_field r)"
  have un: "untranslated (count_row r st) = length (filter (\<lambda>r. fli_value_usd r = None) (rows @ [r]))"
    and same: "seen_canonical (count_row r st) = seen_canonical st" "category_occupant (count_row r st) = category_occupant st"
      "raw_values (count_row r st) = raw_values st"
    using assms(1) by (simp_all add: tracks_def count_row_def)
  have seen: "set (seen_canonical st) = fli_canonical_field ` set rows" using assms(1) by (simp add: tracks_def)
  have occ: "map_of (category_occupant st) k = map_option (\<lambda>r. (priority_of (fli_canonical_field r), fli_canonical_field r)) (occupant rows k)" for k
    using assms(1) by (simp add: tracks_def)
  have vals: "shown (occupant rows k) (map_of (raw_values st) k)" for k
    using assms(1) by (simp add: tracks_def)
  show ?thesis
  proof (cases ?seen)
    case True
    then have st': "st' = count_row r st" using assms(2) seen same by (simp add: profile_step_def)
    have o: "occupant (rows @ [r]) k = occupant rows k" for k using True by (simp add: occupant_snoc)
    have "fli_canonical_field ` set (rows @ [r]) = fli_canonical_field ` set rows" using True by auto
    then show ?thesis unfolding tracks_def st' o same using un seen occ vals
      by (simp del: filter_append set_append)
  next
    case new: False
    show ?thesis
    proof (cases "case occupant rows (key_of_row r) of None \<Rightarrow> True | Some m \<Rightarrow> ?p < priority_of (fli_canonical_field m)")
      case True
      then obtain v where v: "normalize_row r = Inr v"
        and st': "st' = count_row r st\<lparr>seen_canonical := fli_canonical_field r # seen_canonical st,
            category_occupant := AList.update (key_of_row r) (?p, fli_canonical_field r) (category_occupant st),
            raw_values := AList.update (key_of_row r) v (raw_values st)\<rparr>"
        using assms(2) new seen same occ[of "key_of_row r"]
        by (auto simp: profile_step_def Let_def key_of_row_def rbind_eq_Inr split: option.splits)
      have o: "occupant (rows @ [r]) k = (if k = key_of_row r then Some r else occupant rows k)" for k
        using True new by (auto simp: occupant_snoc split: option.splits)
      show ?thesis using un seen occ vals v
        by (auto simp: tracks_def st' o update_conv')
    next
      case False
      then have st': "st' = count_row r st\<lparr>seen_canonical := fli_canonical_field r # seen_canonical st\<rparr>"
        using assms(2) new seen same occ[of "key_of_row r"]
        by (auto simp: profile_step_def Let_def key_of_row_def split: option.splits)
      have o: "occupant (rows @ [r]) k = occupant rows k" for k
        using False new by (auto simp: occupant_snoc split: option.splits)
      show ?thesis using un seen occ vals same by (auto simp: tracks_def st' o)
    qed
  qed
qed

lemma loop_tracks: "profile_loop rows profile_start = Inr st \<Longrightarrow> tracks rows st"
proof (induction rows arbitrary: st rule: rev_induct)
  case Nil
  then show ?case by (auto simp: tracks_def profile_start_def occupant_def first_rows_def)
next
  case (snoc r rows)
  then show ?case using step_tracks by (auto simp: profile_loop_append rbind_eq_Inr)
qed

lemma normalize_row_cents:
  assumes "normalize_row r = Inr v"
  shows "nv_canonical_field v = fli_canonical_field r \<and> nv_filing_date v = fli_filing_date r
    \<and> (case fli_value_usd r of None \<Rightarrow> nv_value_usd v = None
       | Some d \<Rightarrow> \<exists>q. nv_value_usd v = Some q \<and> expo q = -2 \<and> 2 * \<bar>dval q - dval d\<bar> \<le> 1 / 100)"
proof (cases "fli_value_usd r")
  case (Some d)
  with assms obtain q where q: "cents d = Inr q" "nv_value_usd v = Some q"
    by (auto simp: normalize_row_def rbind_eq_Inr)
  have "expo q = -2" using q(1) by (auto simp: cents_def dec_quantize_def Let_def split: if_splits)
  moreover have "2 * \<bar>dval q - dval d\<bar> \<le> 1 / 100"
    using dec_quantize_error[OF q(1)[unfolded cents_def]] by (simp add: power_int_minus)
  ultimately show ?thesis using assms Some q(2) by (auto simp: normalize_row_def rbind_eq_Inr)
qed (use assms in \<open>auto simp: normalize_row_def\<close>)

lemma arg_min_list_member: "xs \<noteq> [] \<Longrightarrow> arg_min_list f xs \<in> set xs"
  for f :: "'a \<Rightarrow> 'b :: linorder"
  by (induction f xs rule: arg_min_list.induct) (auto simp: Let_def)

lemma first_rows_subset: "set (first_rows rows) \<subseteq> set rows"
  by (induction rows rule: rev_induct) (auto simp: first_rows_snoc, simp add: first_rows_def)

lemma occupant_in_rows: "occupant rows k = Some r \<Longrightarrow> r \<in> set rows"
proof -
  assume o: "occupant rows k = Some r"
  then obtain x xs where c: "filter (\<lambda>r. key_of_row r = k) (first_rows rows) = x # xs"
    and r: "r = arg_min_list (\<lambda>r. priority_of (fli_canonical_field r)) (x # xs)"
    by (auto simp: occupant_def split: list.splits)
  have "r \<in> set (x # xs)" unfolding r by (rule arg_min_list_member) simp
  with first_rows_subset show ?thesis unfolding c[symmetric] by auto
qed

text \<open>
  C8: C1 A profile holds, for each category, the row the reference picks: of the first rows of the canonical
  fields that map to the category, the first of the best priority, its dollar value rounded to
  cents; a category no row maps to is absent.  The counters are those of all rows.
\<close>

theorem profile_picks_reference_rows:
  assumes "build_profile_from_rows rows company fy fp = Inr p"
  shows "(case occupant rows k of
            None \<Rightarrow> map_of (np_values p) k = None
          | Some r \<Rightarrow> r \<in> set rows \<and> (\<exists>v. map_of (np_values p) k = Some v \<and> nv_canonical_field v = fli_canonical_field r
              \<and> nv_filing_date v = fli_filing_date r
              \<and> (case fli_value_usd r of
                   None \<Rightarrow> nv_value_usd v = None
                 | Some d \<Rightarrow> \<exists>q. nv_value_usd v = Some q \<and> expo q = -2 \<and> 2 * \<bar>dval q - dval d\<bar> \<le> 1 / 100)))
    \<and> np_source_row_count p = length rows
    \<and> np_untranslated_count p = length (filter (\<lambda>r. fli_value_usd r = None) rows)"
proof -
  have main: "(case occupant rows k of None \<Rightarrow> map_of (np_values p) k = None
      | Some r \<Rightarrow> \<exists>v. normalize_row r = Inr v \<and> map_of (np_values p) k = Some v)
    \<and> np_source_row_count p = length rows
    \<and> np_untranslated_count p = length (filter (\<lambda>r. fli_value_usd r = None) rows)"
  proof (cases "rows = []")
    case True
    with assms show ?thesis by (auto simp: build_profile_from_rows_def occupant_def first_rows_def)
  next
    case False
    with assms obtain st where st: "profile_loop rows profile_start = Inr st" "np_values p = raw_values st"
        "np_source_row_count p = length rows" "np_untranslated_count p = untranslated st"
      by (auto simp: build_profile_from_rows_def rbind_eq_Inr)
    have "tracks rows st" by (rule loop_tracks[OF st(1)])
    then have "shown (occupant rows k) (map_of (raw_values st) k)"
      "untranslated st = length (filter (\<lambda>r. fli_value_usd r = None) rows)" by (simp_all add: tracks_def)
    then show ?thesis using st(2-) by (cases "occupant rows k") auto
  qed
  show ?thesis
  proof (cases "occupant rows k")
    case (Some r)
    with main obtain v where "normalize_row r = Inr v" "map_of (np_values p) k = Some v" by auto
    with Some main occupant_in_rows[OF Some] normalize_row_cents[of r v] show ?thesis by auto
  qed (use main in auto)
qed

subsection \<open>Order of the categories\<close>

lemma sort_categories_sorts:
  assumes "finite keys"
  shows "set (sort_categories keys) = keys" "distinct (sort_categories keys)"
  using assms PRESENTATION_ORDER_distinct by (auto simp: sort_categories_def)

text \<open>
  A comparison of companies: one profile per company in the order asked, and every category that occurs
  in one of them exactly once, the known ones in the order of a financial statement.
\<close>

theorem view_lists_each_category_once:
  assumes "build_comparative_view collate items companies fy fp = Inr v"
  shows "entity_count v = length companies
    \<and> (\<forall>i < length companies. build_normalized_profile collate items (companies ! i) fy fp = Inr (cv_entities v ! i))
    \<and> distinct (cv_ordered_categories v)
    \<and> set (cv_ordered_categories v) = (\<Union>p \<in> set (cv_entities v). fst ` set (np_values p))
    \<and> (\<exists>us. cv_ordered_categories v = filter (\<lambda>k. k \<in> set (cv_ordered_categories v)) PRESENTATION_ORDER @ us \<and> sorted us)"
proof -
  let ?keys = "set (concat (map (map fst \<circ> np_values) (cv_entities v)))"
  from assms obtain ps where ps: "rmap (\<lambda>c. build_normalized_profile collate items c fy fp) companies = Inr ps"
    and v: "cv_entities v = ps" "cv_ordered_categories v = sort_categories ?keys"
    by (auto simp: build_comparative_view_def rbind_eq_Inr)
  have k: "?keys = (\<Union>p \<in> set (cv_entities v). fst ` set (np_values p))" by auto
  have s: "set (cv_ordered_categories v) = ?keys" "distinct (cv_ordered_categories v)"
    using sort_categories_sorts[of ?keys] by (simp_all add: v(2))
  have "cv_ordered_categories v = filter (\<lambda>k. k \<in> set (cv_ordered_categories v)) PRESENTATION_ORDER
      @ sorted_list_of_set {k \<in> ?keys. k \<notin> set PRESENTATION_ORDER}"
    unfolding s(1) by (simp only: v(2) sort_categories_def)
  moreover have "sorted (sorted_list_of_set {k \<in> ?keys. k \<notin> set PRESENTATION_ORDER})" by simp
  ultimately show ?thesis
    using rmap_Inr_length[OF ps] rmap_Inr_nth[OF ps] s k by (auto simp: entity_count_def v(1))
qed

subsection \<open>The consolidation variance\<close>

text \<open>Amounts in whole cents: what profiles hold, and the zero the sums start from.\<close>

definition in_cents :: "decimal \<Rightarrow> int \<Rightarrow> bool" where
  "in_cents d n \<longleftrightarrow> d = Dec n (-2) \<or> (d = Dec 0 0 \<and> n = 0)"

definition asset_cents :: "normalized_profile \<Rightarrow> int" where
  "asset_cents p = coeff (assets_or_zero p)"

lemma in_cents_dval: "in_cents d n \<Longrightarrow> dval d = of_int n / 100"
  by (auto simp: in_cents_def dval_Dec power_int_minus field_simps)

lemma in_cents_add:
  assumes "in_cents a m" "in_cents b n" "\<bar>m + n\<bar> < 10 ^ prec"
  shows "in_cents (dec_add a b) (m + n)"
  using assms by (auto simp: in_cents_def dec_add_def scale_to_def fits_def)

lemma in_cents_neg: "in_cents a m \<Longrightarrow> in_cents (dec_neg a) (- m)"
  by (auto simp: in_cents_def dec_neg_def)

lemma cents_in_cents:
  assumes "in_cents d n" "\<bar>n\<bar> < 10 ^ prec"
  shows "cents d = Inr (Dec n (-2))"
proof -
  have "ndigits \<bar>n\<bar> \<le> prec" using ndigits_fits[of "Dec n (-2)"] assms(2) by (simp add: fits_def)
  then show ?thesis using assms(1) by (auto simp: in_cents_def cents_def dec_quantize_def dec_rescale_def)
qed

lemma add_subsidiaries_sum:
  assumes "\<forall>s \<in> set ss. in_cents (assets_or_zero s) (asset_cents s)" "in_cents acc n"
    and "\<bar>n\<bar> + sum_list (map (\<lambda>s. \<bar>asset_cents s\<bar>) ss) < 10 ^ prec"
  shows "in_cents (snd (add_subsidiaries ss detail acc)) (n + sum_list (map asset_cents ss))"
  using assms
proof (induction ss detail acc arbitrary: n rule: add_subsidiaries.induct)
  case (2 s ss detail acc)
  have nonneg: "0 \<le> sum_list (map (\<lambda>s. \<bar>asset_cents s\<bar>) ss)" by (rule sum_list_nonneg) auto
  then have "in_cents (dec_add acc (assets_or_zero s)) (n + asset_cents s)"
    using 2(2-) by (intro in_cents_add) auto
  moreover have "\<bar>n + asset_cents s\<bar> + sum_list (map (\<lambda>s. \<bar>asset_cents s\<bar>) ss) < 10 ^ prec" using 2(4) by simp
  ultimately show ?case using 2(1)[of "n + asset_cents s"] 2(2) by (simp add: add.assoc)
qed simp

lemma abs_sum_list: "\<bar>sum_list (map f xs)\<bar> \<le> sum_list (map (\<lambda>x. \<bar>f x :: int\<bar>) xs)"
  by (induction xs) auto

text \<open>
  C1 The variance of a group whose profiles hold whole cents, with less than 28 digits in all: it is the
  parent's total assets less the sum of the subsidiaries', exactly, a profile without total assets
  counting as zero; it is material exactly when its size exceeds the threshold.
\<close>

theorem consolidation_variance_exact:
  assumes cts: "\<forall>s \<in> set (parent # subs). in_cents (assets_or_zero s) (asset_cents s)"
    and small: "sum_list (map (\<lambda>s. \<bar>asset_cents s\<bar>) (parent # subs)) < 10 ^ 28"
    and thr: "cents threshold = Inr tq"
  shows "\<exists>d. compute_consolidation_delta parent subs threshold = Inr d
    \<and> dval (cd_fx_rounding_variance d) = dval (assets_or_zero parent) - sum_list (map (\<lambda>s. dval (assets_or_zero s)) subs)
    \<and> dval (cd_sum_subsidiary_assets_usd d) = sum_list (map (\<lambda>s. dval (assets_or_zero s)) subs)
    \<and> (cd_variance_is_material d \<longleftrightarrow> dval threshold < \<bar>dval (cd_fx_rounding_variance d)\<bar>)"
proof -
  let ?n = "sum_list (map asset_cents subs)" and ?p = "asset_cents parent"
  obtain detail acc where a: "add_subsidiaries subs [] (Dec 0 0) = (detail, acc)" by fastforce
  have p: "in_cents (assets_or_zero parent) ?p" using cts by simp
  have "in_cents (Dec 0 0) 0" by (simp add: in_cents_def)
  from add_subsidiaries_sum[OF _ this, of subs "[]"] have acc: "in_cents acc ?n"
    using cts small by (simp add: a prec_def)
  have tot: "\<bar>?p\<bar> + sum_list (map (\<lambda>s. \<bar>asset_cents s\<bar>) subs) < 10 ^ prec" using small by (simp add: prec_def)
  have b: "\<bar>?p\<bar> < 10 ^ prec" "\<bar>?n\<bar> < 10 ^ prec" "\<bar>?p - ?n\<bar> < 10 ^ prec"
    using tot abs_sum_list[of asset_cents subs] by linarith+
  have var: "in_cents (dec_sub (assets_or_zero parent) acc) (?p - ?n)"
    unfolding dec_sub_def using in_cents_add[OF p in_cents_neg[OF acc]] b(3) by simp
  have sums: "sum_list (map (\<lambda>s. dval (assets_or_zero s)) subs) = of_int ?n / 100"
    using cts by (induction subs) (auto simp: in_cents_dval add_divide_distrib)
  have fit: "fits (Dec (?p - ?n) (-2))" using b(3) by (simp add: fits_def)
  let ?d = "\<lparr>cd_parent_company_id = np_company_id parent, cd_subsidiary_company_ids = map np_company_id subs,
      cd_consolidated_assets_usd = Dec ?p (-2), cd_sum_subsidiary_assets_usd = Dec ?n (-2),
      cd_fx_rounding_variance = Dec (?p - ?n) (-2),
      cd_variance_is_material = dec_lt threshold (dec_abs (Dec (?p - ?n) (-2))), cd_materiality_threshold = tq,
      cd_subsidiary_asset_detail = detail\<rparr>"
  have "compute_consolidation_delta parent subs threshold = Inr ?d"
    by (simp only: compute_consolidation_delta_def a Let_def prod.case cents_in_cents[OF var b(3)]
        cents_in_cents[OF p b(1)] cents_in_cents[OF acc b(2)] thr rbind_Inr)
  moreover have "dval (Dec (?p - ?n) (-2)) = dval (assets_or_zero parent) - of_int ?n / 100"
    by (simp add: in_cents_dval[OF p] dval_Dec power_int_minus field_simps)
  moreover have "dval (Dec ?n (-2)) = of_int ?n / 100" by (simp add: dval_Dec power_int_minus field_simps)
  ultimately show ?thesis
    by (intro exI[of _ ?d]) (simp add: sums dec_lt_iff dval_abs[OF fit])
qed

subsection \<open>Instances\<close>

definition demo_row :: "string \<Rightarrow> date \<Rightarrow> decimal option \<Rightarrow> financial_line_item" where
  "demo_row field filed usd = \<lparr>fli_id = field, fli_company_id = ''acme'', fli_fiscal_year = 2023, fli_fiscal_period = ''FY'',
     fli_reporting_standard = ''US_GAAP'', fli_filing_date = filed, fli_is_restated = False, fli_canonical_field = field,
     fli_statement_type = ''BS'', fli_value_usd = usd, fli_value_reported = usd, fli_reported_currency = Some ''USD'',
     fli_fx_rate_used = None, fli_source_file_hash = None, fli_derived_expression_formula = None, fli_extraction_method = None,
     fli_created_at = 0, fli_updated_at = 0\<rparr>"

definition demo_rows :: "financial_line_item list" where
  "demo_rows = [demo_row ''common_stock'' 700 (Some (Dec 100 0)), demo_row ''total_equity'' 600 (Some (Dec 900125 (-3))),
     demo_row ''total_equity'' 500 (Some (Dec 800 0)), demo_row ''goodwill'' 500 None]"

lemma demo_occupant: "occupant demo_rows ''total_equity'' = Some (demo_row ''total_equity'' 600 (Some (Dec 900125 (-3))))"
  by code_simp

lemma profile_picks_reference_rows_witness:
  "\<exists>p v q. build_profile_from_rows demo_rows ''acme'' 2023 ''FY'' = Inr p \<and> map_of (np_values p) ''total_equity'' = Some v
     \<and> nv_value_usd v = Some q \<and> 2 * \<bar>dval q - dval (Dec 900125 (-3))\<bar> \<le> 1 / 100 \<and> np_untranslated_count p = 1"
proof -
  have "case build_profile_from_rows demo_rows ''acme'' 2023 ''FY'' of Inr _ \<Rightarrow> True | Inl _ \<Rightarrow> False" by code_simp
  then obtain p where p: "build_profile_from_rows demo_rows ''acme'' 2023 ''FY'' = Inr p" by (auto split: sum.splits)
  have u: "length (filter (\<lambda>r. fli_value_usd r = None) demo_rows) = 1" by code_simp
  have d: "fli_value_usd (demo_row ''total_equity'' 600 (Some (Dec 900125 (-3)))) = Some (Dec 900125 (-3))"
    by (simp add: demo_row_def)
  show ?thesis
    using profile_picks_reference_rows[OF p, of "''total_equity''"] unfolding demo_occupant u option.case d
    by (intro exI[of _ p]) (auto simp: p)
qed

text \<open>When a filing reports no total, a component stands for it: here equity is the common stock.\<close>

lemma component_stands_for_total:
  "case build_profile_from_rows [demo_row ''common_stock'' 700 (Some (Dec 100 0)), demo_row ''treasury_stock'' 700 (Some (Dec (-40) 0))] ''acme'' 2023 ''FY'' of
     Inr p \<Rightarrow> get_usd TOTAL_EQUITY p = Some (Dec 10000 (-2)) | Inl _ \<Rightarrow> False"
  by code_simp

definition demo_profile :: "string \<Rightarrow> int option \<Rightarrow> normalized_profile" where
  "demo_profile company n = \<lparr>np_company_id = company, np_fiscal_year = 2023, np_fiscal_period = ''FY'', np_reporting_standard = ''IFRS'',
     np_values = (case n of None \<Rightarrow> [] | Some c \<Rightarrow> [(''total_assets'', \<lparr>nv_category = Presented TOTAL_ASSETS, nv_canonical_field = ''total_assets'',
        nv_reporting_standard = ''IFRS'', nv_value_usd = Some (Dec c (-2)), nv_filing_date = 700\<rparr>)]),
     np_source_row_count = 1, np_untranslated_count = 0\<rparr>"

lemma demo_assets:
  "assets_or_zero (demo_profile c (Some n)) = Dec n (-2)" "assets_or_zero (demo_profile c None) = Dec 0 0"
  "in_cents (assets_or_zero (demo_profile c x)) (asset_cents (demo_profile c x))"
  by (cases x; simp add: demo_profile_def assets_or_zero_def get_usd_def in_cents_def asset_cents_def)+

lemma consolidation_variance_exact_witness:
  "\<exists>d. compute_consolidation_delta (demo_profile ''p'' (Some 50000000)) [demo_profile ''a'' (Some 20000000), demo_profile ''b'' None]
         DEFAULT_MATERIALITY_USD = Inr d
     \<and> dval (cd_fx_rounding_variance d) = 300000 \<and> cd_variance_is_material d"
proof -
  have t: "cents DEFAULT_MATERIALITY_USD = Inr DEFAULT_MATERIALITY_USD" by code_simp
  have "sum_list (map (\<lambda>s. \<bar>asset_cents s\<bar>) (demo_profile ''p'' (Some 50000000) # [demo_profile ''a'' (Some 20000000), demo_profile ''b'' None])) < 10 ^ 28"
    by (simp add: asset_cents_def demo_assets)
  moreover have "\<forall>s \<in> set (demo_profile ''p'' (Some 50000000) # [demo_profile ''a'' (Some 20000000), demo_profile ''b'' None]).
      in_cents (assets_or_zero s) (asset_cents s)" using demo_assets(3) by auto
  ultimately obtain d where d: "compute_consolidation_delta (demo_profile ''p'' (Some 50000000))
        [demo_profile ''a'' (Some 20000000), demo_profile ''b'' None] DEFAULT_MATERIALITY_USD = Inr d"
    and v: "dval (cd_fx_rounding_variance d) = 300000"
      "cd_variance_is_material d \<longleftrightarrow> dval DEFAULT_MATERIALITY_USD < \<bar>dval (cd_fx_rounding_variance d)\<bar>"
    using consolidation_variance_exact[OF _ _ t] by (fastforce simp: demo_assets dval_Dec power_int_minus)
  have "dval DEFAULT_MATERIALITY_USD = 100000" by (simp add: DEFAULT_MATERIALITY_USD_def dval_Dec power_int_minus)
  with d v show ?thesis by auto
qed

lemma view_lists_each_category_once_witness:
  "\<exists>v. build_comparative_view (\<lambda>s. s) demo_rows [''acme'', ''none''] 2023 ''FY'' = Inr v \<and> entity_count v = 2
     \<and> distinct (cv_ordered_categories v)"
proof -
  have "case build_comparative_view (\<lambda>s. s) demo_rows [''acme'', ''none''] 2023 ''FY'' of Inr _ \<Rightarrow> True | Inl _ \<Rightarrow> False"
    by (simp add: build_comparative_view_def) code_simp
  then obtain v where v: "build_comparative_view (\<lambda>s. s) demo_rows [''acme'', ''none''] 2023 ''FY'' = Inr v" by (auto split: sum.splits)
  from view_lists_each_category_once[OF v] v show ?thesis by auto
qed

end
