(* ===== verification/EdgarHttp.thy ===== *)
theory EdgarHttp
  imports RateLimiter PyParse
begin

text \<open>
  The request loop that \<^verbatim>\<open>SECEdgarSource._get\<close>
  (\<^verbatim>\<open>services/acquisition/source_registry/sources/sec_edgar.py\<close>) and
  \<^verbatim>\<open>SECFilingDocumentFetcher._get\<close> (\<^verbatim>\<open>services/acquisition/document_fetcher/fetcher.py\<close>)
  share word for word: circuit breaker, rate limiter, retries with exponential backoff.  The HTTP client
  and the random source are the record \<open>network\<close>; the client's state carries the breaker, the limiter,
  the clock, the outside world and the log of the requests sent.  A call that sleeps without end has no
  outcome: its result is \<open>None\<close>.
\<close>

subsection \<open>Delays\<close>

text \<open>
  \<open>float(s)\<close>, floats being exact rationals: beyond the largest double the value is infinite;
  underscores stand between digits only.
\<close>

datatype py_float = FFinite rat | FPosInf | FNegInf | FNaN

fun underscores_ok :: "char \<Rightarrow> string \<Rightarrow> bool" where
  "underscores_ok p [] = (p \<noteq> CHR ''_'')"
| "underscores_ok p (c # cs) = ((c = CHR ''_'' \<longrightarrow> is_digit p) \<and> (p = CHR ''_'' \<longrightarrow> is_digit c) \<and> underscores_ok c cs)"

definition float_max :: rat where
  "float_max = 2 ^ 1024"

definition float_of_string :: "string \<Rightarrow> py_error + py_float" where
  "float_of_string s =
     (let t = str_strip s; neg = (t \<noteq> [] \<and> hd t = CHR ''-'')
      in if \<not> underscores_ok (CHR '' '') t then Inl ValueError
         else case py_decimal t of
             Finite d \<Rightarrow> Inr (if float_max \<le> dval d then FPosInf else if dval d \<le> - float_max then FNegInf
                            else FFinite (dval d))
           | Infinite \<Rightarrow> Inr (if neg then FNegInf else FPosInf)
           | QuietNaN \<Rightarrow> if length (snd (split_sign t)) = 3 then Inr FNaN else Inl ValueError
           | _ \<Rightarrow> Inl ValueError)"

fun float_plus :: "py_float \<Rightarrow> rat \<Rightarrow> py_float" where
  "float_plus (FFinite x) y = FFinite (x + y)"
| "float_plus FPosInf y = FPosInf"
| "float_plus FNegInf y = FNegInf"
| "float_plus FNaN y = FNaN"

text \<open>\<open>asyncio.sleep\<close>: at once for a delay that is not positive, never for infinity, \<open>ValueError\<close> for NaN.\<close>

datatype sleep_result = WakesAt rat | SleepsForever | SleepRaises

fun asyncio_sleep :: "rat \<Rightarrow> py_float \<Rightarrow> sleep_result" where
  "asyncio_sleep now (FFinite x) = WakesAt (now + max 0 x)"
| "asyncio_sleep now FPosInf = SleepsForever"
| "asyncio_sleep now FNegInf = WakesAt now"
| "asyncio_sleep now FNaN = SleepRaises"

subsection \<open>The HTTP client\<close>

datatype http_exception = ConnectError | TimeoutException | RemoteProtocolError | OtherHttpError string

datatype http_error =
    BreakerOpen breaker_error
  | HTTPStatusError nat
  | NetworkError http_exception
  | RaisedInSleep
  | RetriesExhausted
  | PyRaised py_error

record http_response =
  resp_status :: nat
  resp_retry_after :: "string option"
  resp_content_type :: "string option"
  resp_encoding :: "string option"
  resp_content :: string
  resp_text :: string
  resp_url :: string

text \<open>
  What the loop calls: the limiter's \<open>acquire\<close>, \<open>client.get\<close> with the time of its reply,
  \<open>random.uniform(0, 0.5)\<close>, and whether \<open>raise_for_status\<close> raises for a status.
\<close>

record ('l, 'w) network =
  net_acquire :: "rat \<Rightarrow> 'l \<Rightarrow> rat \<times> 'l"
  net_get :: "'w \<Rightarrow> rat \<Rightarrow> string \<Rightarrow> (http_exception + http_response) \<times> rat \<times> 'w"
  net_jitter :: "'w \<Rightarrow> rat \<times> 'w"
  net_status_raises :: "nat \<Rightarrow> bool"

record ('l, 'w) client =
  cl_breaker :: circuit_breaker
  cl_limiter :: 'l
  cl_world :: 'w
  cl_clock :: rat
  cl_sent :: "(rat \<times> string) list"

record http_config =
  hc_breaker :: breaker_config
  hc_max_retries :: int
  hc_base_delay :: rat

definition retryable_status :: "nat \<Rightarrow> bool" where
  "retryable_status st = (st \<in> {429, 500, 502, 503, 504})"

definition retryable_exception :: "http_exception \<Rightarrow> bool" where
  "retryable_exception e = (e \<in> {ConnectError, TimeoutException, RemoteProtocolError})"

definition breaker_failure :: "http_config \<Rightarrow> ('l, 'w) client \<Rightarrow> ('l, 'w) client" where
  "breaker_failure cfg c = c\<lparr>cl_breaker := record_failure (hc_breaker cfg) (cl_clock c) (cl_breaker c)\<rparr>"

definition breaker_success :: "('l, 'w) client \<Rightarrow> ('l, 'w) client" where
  "breaker_success c = c\<lparr>cl_breaker := record_success (cl_breaker c)\<rparr>"

text \<open>Wait for the limiter, then send: the request is logged with the time at which it leaves.\<close>

definition send_request :: "('l, 'w) network \<Rightarrow> string \<Rightarrow> ('l, 'w) client \<Rightarrow> (http_exception + http_response) \<times> ('l, 'w) client" where
  "send_request N url c =
     (case net_acquire N (cl_clock c) (cl_limiter c) of (g, l) \<Rightarrow>
        case net_get N (cl_world c) g url of (r, t, w) \<Rightarrow>
          (r, c\<lparr>cl_limiter := l, cl_world := w, cl_clock := t, cl_sent := cl_sent c @ [(g, url)]\<rparr>))"

text \<open>The backoff delay of an attempt, before the jitter; the sleep with the jitter added.\<close>

definition backoff :: "http_config \<Rightarrow> nat \<Rightarrow> rat" where
  "backoff cfg attempt = hc_base_delay cfg * 2 ^ attempt"

definition retry_delay :: "http_config \<Rightarrow> nat \<Rightarrow> string option \<Rightarrow> py_float" where
  "retry_delay cfg attempt retry_after =
     (case retry_after of
        None \<Rightarrow> FFinite (backoff cfg attempt)
      | Some h \<Rightarrow> if h = [] then FFinite (backoff cfg attempt)
                  else case float_of_string h of Inr x \<Rightarrow> x | Inl _ \<Rightarrow> FFinite (backoff cfg attempt))"

definition sleep_with_jitter :: "('l, 'w) network \<Rightarrow> py_float \<Rightarrow> ('l, 'w) client \<Rightarrow> (http_error option + unit) \<times> ('l, 'w) client" where
  "sleep_with_jitter N delay c =
     (case net_jitter N (cl_world c) of (j, w) \<Rightarrow>
        let c1 = c\<lparr>cl_world := w\<rparr>
        in case asyncio_sleep (cl_clock c) (float_plus delay j) of
             WakesAt t \<Rightarrow> (Inr (), c1\<lparr>cl_clock := t\<rparr>)
           | SleepsForever \<Rightarrow> (Inl None, c1)
           | SleepRaises \<Rightarrow> (Inl (Some RaisedInSleep), c1))"

subsection \<open>The loop\<close>

type_synonym ('l, 'w) fetch_result = "(http_error + http_response) option \<times> ('l, 'w) client"

text \<open>
  One iteration of the loop: it ends the call with a result, or goes on from a new state (the last
  exception and the client).
\<close>

datatype ('l, 'w) iteration =
    Ends "(http_error + http_response) option" "('l, 'w) client"
  | GoesOn "http_exception option" "('l, 'w) client"

fun after_sleep :: "http_exception option \<Rightarrow> (http_error option + unit) \<times> ('l, 'w) client \<Rightarrow> ('l, 'w) iteration" where
  "after_sleep le (Inl e, c) = Ends (map_option Inl e) c"
| "after_sleep le (Inr _, c) = GoesOn le c"

definition iterate :: "('l, 'w) network \<Rightarrow> http_config \<Rightarrow> string \<Rightarrow> nat \<Rightarrow> http_exception option \<Rightarrow> ('l, 'w) client
    \<Rightarrow> ('l, 'w) iteration" where
  "iterate N cfg url attempt le c =
     (let final = (hc_max_retries cfg \<le> int attempt) in
      case send_request N url c of
        (Inr resp, c1) \<Rightarrow>
          let st = resp_status resp; bad = (400 \<le> st) in
          if retryable_status st then
            (let c2 = (if final then breaker_failure cfg c1 else c1)
             in if final \<and> net_status_raises N st then Ends (Some (Inl (HTTPStatusError st))) c2
                else after_sleep le (sleep_with_jitter N (retry_delay cfg attempt (resp_retry_after resp)) c2))
          else
            (let c2 = (if bad then breaker_failure cfg c1 else c1)
             in if bad \<and> net_status_raises N st then Ends (Some (Inl (HTTPStatusError st))) c2
                else Ends (Some (Inr resp)) (breaker_success c2))
      | (Inl e, c1) \<Rightarrow>
          if \<not> retryable_exception e then Ends (Some (Inl (NetworkError e))) c1
          else if final then Ends (Some (Inl (NetworkError e))) (breaker_failure cfg c1)
          else after_sleep (Some e) (sleep_with_jitter N (FFinite (backoff cfg attempt)) c1))"

text \<open>
  \<open>get_loop N cfg url attempt k\<close> runs the iterations \<open>attempt, \<dots>, attempt + k - 1\<close>.
\<close>

fun get_loop :: "('l, 'w) network \<Rightarrow> http_config \<Rightarrow> string \<Rightarrow> nat \<Rightarrow> nat \<Rightarrow> http_exception option \<Rightarrow> ('l, 'w) client
    \<Rightarrow> ('l, 'w) fetch_result" where
  "get_loop N cfg url attempt 0 last_exc c =
     (Some (Inl (case last_exc of Some e \<Rightarrow> NetworkError e | None \<Rightarrow> RetriesExhausted)), c)"
| "get_loop N cfg url attempt (Suc k) last_exc c =
     (case iterate N cfg url attempt last_exc c of
        Ends r c1 \<Rightarrow> (r, c1)
      | GoesOn last_exc1 c1 \<Rightarrow> get_loop N cfg url (Suc attempt) k last_exc1 c1)"

definition http_get :: "('l, 'w) network \<Rightarrow> http_config \<Rightarrow> string \<Rightarrow> ('l, 'w) client \<Rightarrow> ('l, 'w) fetch_result" where
  "http_get N cfg url c =
     (case check (hc_breaker cfg) (cl_clock c) (cl_breaker c) of
        Inl e \<Rightarrow> (Some (Inl (BreakerOpen e)), c)
      | Inr b \<Rightarrow> get_loop N cfg url 0 (nat (hc_max_retries cfg + 1)) None (c\<lparr>cl_breaker := b\<rparr>))"


text \<open>
  The operations built on the loop: they return, raise, or never come back, and leave the client changed.
\<close>

type_synonym ('l, 'w, 'e, 'a) io = "('l, 'w) client \<Rightarrow> ('e + 'a) option \<times> ('l, 'w) client"

definition io_return :: "'a \<Rightarrow> ('l, 'w, 'e, 'a) io" where
  "io_return x c = (Some (Inr x), c)"

definition io_raise :: "'e \<Rightarrow> ('l, 'w, 'e, 'a) io" where
  "io_raise e c = (Some (Inl e), c)"

definition io_bind :: "('l, 'w, 'e, 'a) io \<Rightarrow> ('a \<Rightarrow> ('l, 'w, 'e, 'b) io) \<Rightarrow> ('l, 'w, 'e, 'b) io" where
  "io_bind m f c =
     (case m c of (None, c1) \<Rightarrow> (None, c1) | (Some (Inl e), c1) \<Rightarrow> (Some (Inl e), c1) | (Some (Inr x), c1) \<Rightarrow> f x c1)"

definition io_lift :: "('e + 'a) \<Rightarrow> ('l, 'w, 'e, 'a) io" where
  "io_lift r c = (Some r, c)"

lemma io_simps [simp]:
  "m c = (Some (Inr x), c1) \<Longrightarrow> io_bind m f c = f x c1"
  "m c = (Some (Inl e), c1) \<Longrightarrow> io_bind m f c = (Some (Inl e), c1)"
  "m c = (None, c1) \<Longrightarrow> io_bind m f c = (None, c1)"
  "io_return x c = (Some (Inr x), c)" "io_raise e c = (Some (Inl e), c)" "io_lift r c = (Some r, c)"
  by (simp_all add: io_bind_def io_return_def io_raise_def io_lift_def)

lemma io_bind_InrE:
  assumes "io_bind m f c = (Some (Inr y), c')"
  obtains x c1 where "m c = (Some (Inr x), c1)" and "f x c1 = (Some (Inr y), c')"
  using assms by (auto simp: io_bind_def split: prod.splits option.splits sum.splits)

subsection \<open>What one call does to the breaker\<close>

text \<open>
  The breaker after a call that found it in state \<open>b\<close> when it started to send, by the way the call ended.
\<close>

fun accounted :: "http_config \<Rightarrow> circuit_breaker \<Rightarrow> ('l, 'w) fetch_result \<Rightarrow> bool" where
  "accounted cfg b (None, c) = (cl_breaker c = b)"
| "accounted cfg b (Some (Inr resp), c) = (resp_status resp < 400 \<and> cl_breaker c = record_success b)"
| "accounted cfg b (Some (Inl (HTTPStatusError st)), c) =
     (400 \<le> st \<and> cl_breaker c = record_failure (hc_breaker cfg) (cl_clock c) b)"
| "accounted cfg b (Some (Inl (NetworkError e)), c) =
     (cl_breaker c = (if retryable_exception e then record_failure (hc_breaker cfg) (cl_clock c) b else b))"
| "accounted cfg b (Some (Inl RaisedInSleep), c) = (cl_breaker c = b)"
| "accounted cfg b (Some (Inl (BreakerOpen e)), c) = False"
| "accounted cfg b (Some (Inl RetriesExhausted), c) = False"
| "accounted cfg b (Some (Inl (PyRaised e)), c) = False"

lemma send_request_frame:
  assumes "send_request N url c = (r, c1)"
  shows "cl_breaker c1 = cl_breaker c"
    and "\<exists>g. cl_sent c1 = cl_sent c @ [(g, url)] \<and> net_acquire N (cl_clock c) (cl_limiter c) = (g, cl_limiter c1)"
  using assms by (auto simp: send_request_def split: prod.splits)

lemma sleep_frame:
  assumes "sleep_with_jitter N d c = (r, c1)"
  shows "cl_breaker c1 = cl_breaker c" and "cl_sent c1 = cl_sent c" and "cl_limiter c1 = cl_limiter c"
    and "r = Inl e \<Longrightarrow> e = None \<or> e = Some RaisedInSleep"
  using assms by (auto simp: sleep_with_jitter_def Let_def split: prod.splits sleep_result.splits)

lemma breaker_marks [simp]:
  "cl_breaker (breaker_success c) = record_success (cl_breaker c)"
  "cl_breaker (breaker_failure cfg c) = record_failure (hc_breaker cfg) (cl_clock c) (cl_breaker c)"
  "cl_sent (breaker_success c) = cl_sent c" "cl_sent (breaker_failure cfg c) = cl_sent c"
  "cl_clock (breaker_success c) = cl_clock c" "cl_clock (breaker_failure cfg c) = cl_clock c"
  "cl_limiter (breaker_success c) = cl_limiter c" "cl_limiter (breaker_failure cfg c) = cl_limiter c"
  by (simp_all add: breaker_success_def breaker_failure_def)

lemma retryable_status_error: "retryable_status st \<Longrightarrow> 400 \<le> st"
  by (auto simp: retryable_status_def)

lemma iterate_ends:
  assumes "\<forall>st \<ge> 400. net_status_raises N st" and "iterate N cfg url attempt le c = Ends r c'"
  shows "accounted cfg (cl_breaker c) (r, c')"
proof -
  obtain x c1 where s: "send_request N url c = (x, c1)" by fastforce
  note b = send_request_frame(1)[OF s]
  show ?thesis
  proof (cases x)
    case (Inl e)
    show ?thesis
    proof (cases "retryable_exception e \<and> \<not> hc_max_retries cfg \<le> int attempt")
      case True
      obtain y c2 where z: "sleep_with_jitter N (FFinite (backoff cfg attempt)) c1 = (y, c2)" by fastforce
      with assms(2) s Inl True show ?thesis using sleep_frame[OF z] b
        by (cases y) (auto simp: iterate_def)
    next
      case False
      with assms(2) s Inl b show ?thesis by (auto simp: iterate_def split: if_splits)
    qed
  next
    case (Inr resp)
    obtain y c2 where z: "sleep_with_jitter N (retry_delay cfg attempt (resp_retry_after resp)) c1 = (y, c2)" by fastforce
    show ?thesis
      using assms s Inr b sleep_frame[OF z] retryable_status_error[of "resp_status resp"]
      by (cases y) (auto simp: iterate_def Let_def z split: if_splits)
  qed
qed

lemma iterate_goes_on:
  assumes "\<forall>st \<ge> 400. net_status_raises N st" and "iterate N cfg url attempt le c = GoesOn le' c'"
  shows "cl_breaker c' = cl_breaker c" and "int attempt < hc_max_retries cfg"
proof -
  obtain x c1 where s: "send_request N url c = (x, c1)" by fastforce
  note b = send_request_frame(1)[OF s]
  have "cl_breaker c' = cl_breaker c \<and> int attempt < hc_max_retries cfg"
  proof (cases x)
    case (Inl e)
    obtain y c2 where z: "sleep_with_jitter N (FFinite (backoff cfg attempt)) c1 = (y, c2)" by fastforce
    with assms(2) s Inl show ?thesis using sleep_frame(1)[OF z] b
      by (cases y) (auto simp: iterate_def split: if_splits)
  next
    case (Inr resp)
    obtain y c2 where z: "sleep_with_jitter N (retry_delay cfg attempt (resp_retry_after resp)) c1 = (y, c2)" by fastforce
    show ?thesis
      using assms s Inr b sleep_frame(1)[OF z] retryable_status_error[of "resp_status resp"]
      by (cases y) (auto simp: iterate_def Let_def z split: if_splits)
  qed
  then show "cl_breaker c' = cl_breaker c" "int attempt < hc_max_retries cfg" by simp_all
qed

lemma get_loop_accounted:
  assumes "\<forall>st \<ge> 400. net_status_raises N st" and "int attempt + int k = hc_max_retries cfg" and "cl_breaker c = b"
  shows "accounted cfg b (get_loop N cfg url attempt (Suc k) le c)"
  using assms(2,3)
proof (induction k arbitrary: attempt le c)
  case 0
  show ?case
    using iterate_ends[OF assms(1)] iterate_goes_on(2)[OF assms(1)] 0
    by (fastforce split: iteration.split)
next
  case (Suc k)
  then show ?case
    using iterate_ends[OF assms(1)] iterate_goes_on(1)[OF assms(1)]
    by (auto simp del: accounted.simps split: iteration.split)
qed


subsection \<open>What one call sends\<close>

text \<open>A run of grants of a limiter: every \<open>acquire\<close> starts where the last one left it.\<close>

inductive grants :: "(rat \<Rightarrow> 'l \<Rightarrow> rat \<times> 'l) \<Rightarrow> 'l \<Rightarrow> rat list \<Rightarrow> 'l \<Rightarrow> bool" for acq where
  grants_nil: "grants acq l [] l"
| grants_cons: "acq now l = (g, l1) \<Longrightarrow> grants acq l1 gs l2 \<Longrightarrow> grants acq l (g # gs) l2"

inductive_cases grants_consE: "grants acq l (g # gs) l'"
inductive_cases grants_nilE: "grants acq l [] l'"

lemma grants_append: "grants acq l gs l1 \<Longrightarrow> grants acq l1 hs l2 \<Longrightarrow> grants acq l (gs @ hs) l2"
  by (induction rule: grants.induct) (auto intro: grants.intros)

text \<open>The requests between two states of the client, with what they took from the limiter.\<close>

definition sends :: "('l, 'w) network \<Rightarrow> string list \<Rightarrow> ('l, 'w) client \<Rightarrow> ('l, 'w) client \<Rightarrow> bool" where
  "sends N urls c c' \<longleftrightarrow> (\<exists>gs. length gs = length urls \<and> cl_sent c' = cl_sent c @ zip gs urls
     \<and> grants (net_acquire N) (cl_limiter c) gs (cl_limiter c'))"

lemma sends_nil: "cl_sent c' = cl_sent c \<Longrightarrow> cl_limiter c' = cl_limiter c \<Longrightarrow> sends N [] c c'"
  by (auto simp: sends_def intro: grants_nil)

lemma sends_append:
  assumes "sends N us c c1" and "sends N vs c1 c2"
  shows "sends N (us @ vs) c c2"
proof -
  obtain gs where "length gs = length us" "cl_sent c1 = cl_sent c @ zip gs us"
    "grants (net_acquire N) (cl_limiter c) gs (cl_limiter c1)" using assms(1) by (auto simp: sends_def)
  moreover obtain hs where "length hs = length vs" "cl_sent c2 = cl_sent c1 @ zip hs vs"
    "grants (net_acquire N) (cl_limiter c1) hs (cl_limiter c2)" using assms(2) by (auto simp: sends_def)
  ultimately show ?thesis
    unfolding sends_def by (intro exI[of _ "gs @ hs"]) (auto intro: grants_append)
qed

lemma sends_from [simp]:
  "sends N us (c\<lparr>cl_breaker := b\<rparr>) c' = sends N us c c'"
  "sends N us (c\<lparr>cl_clock := t\<rparr>) c' = sends N us c c'"
  by (simp_all add: sends_def)

lemma sends_to:
  "sends N us c c' \<Longrightarrow> cl_sent d = cl_sent c' \<Longrightarrow> cl_limiter d = cl_limiter c' \<Longrightarrow> sends N us c d"
  by (simp add: sends_def)

lemma send_request_sends: "send_request N url c = (r, c1) \<Longrightarrow> sends N [url] c c1"
  using send_request_frame(2)[of N url c r c1]
  by (fastforce simp: sends_def intro: grants.intros exI[of _ "[g]" for g])

fun iteration_state :: "('l, 'w) iteration \<Rightarrow> ('l, 'w) client" where
  "iteration_state (Ends r c) = c"
| "iteration_state (GoesOn le c) = c"

lemma after_sleep_state [simp]: "iteration_state (after_sleep le p) = snd p"
  by (cases "(le, p)" rule: after_sleep.cases) auto

lemma iterate_sends: "sends N [url] c (iteration_state (iterate N cfg url attempt le c))"
proof -
  obtain x c1 where s: "send_request N url c = (x, c1)" by fastforce
  have z: "cl_sent (snd (sleep_with_jitter N d c')) = cl_sent c'"
    "cl_limiter (snd (sleep_with_jitter N d c')) = cl_limiter c'" for d c'
    using sleep_frame[of N d c' "fst (sleep_with_jitter N d c')" "snd (sleep_with_jitter N d c')"] by simp_all
  show ?thesis
    by (rule sends_to[OF send_request_sends[OF s]]; cases x) (auto simp: iterate_def Let_def s z)
qed

lemma get_loop_sends:
  "\<exists>n \<le> k. sends N (replicate n url) c (snd (get_loop N cfg url attempt k le c))"
proof (induction k arbitrary: attempt le c)
  case 0
  then show ?case by (simp add: sends_nil)
next
  case (Suc k)
  show ?case
  proof (cases "iterate N cfg url attempt le c")
    case (Ends r c')
    then show ?thesis using iterate_sends[of N url c cfg attempt le]
      by (auto intro!: exI[of _ 1])
  next
    case (GoesOn le' c')
    from Suc[of c' "Suc attempt" le'] obtain n where "n \<le> k"
      "sends N (replicate n url) c' (snd (get_loop N cfg url (Suc attempt) k le' c'))" by blast
    with GoesOn sends_append[OF iterate_sends[of N url c cfg attempt le], of "replicate n url"]
    show ?thesis by (auto intro!: exI[of _ "Suc n"])
  qed
qed

lemma http_get_sends:
  "\<exists>n \<le> nat (hc_max_retries cfg + 1). sends N (replicate n url) c (snd (http_get N cfg url c))"
proof (cases "check (hc_breaker cfg) (cl_clock c) (cl_breaker c)")
  case (Inl e)
  then show ?thesis by (auto simp: http_get_def sends_nil intro: exI[of _ 0])
next
  case (Inr b)
  from get_loop_sends[of "nat (hc_max_retries cfg + 1)" N url "c\<lparr>cl_breaker := b\<rparr>" cfg 0 None] Inr
  show ?thesis by (auto simp: http_get_def)
qed

subsection \<open>Many calls of one client\<close>

text \<open>Calls one after the other, each some time after the last; a call that never returns is the last.\<close>

fun get_all :: "('l, 'w) network \<Rightarrow> http_config \<Rightarrow> (rat \<times> string) list \<Rightarrow> ('l, 'w) client
    \<Rightarrow> (http_error + http_response) option list \<times> ('l, 'w) client" where
  "get_all N cfg [] c = ([], c)"
| "get_all N cfg ((idle, url) # qs) c =
     (case http_get N cfg url (c\<lparr>cl_clock := cl_clock c + idle\<rparr>) of
        (None, c1) \<Rightarrow> ([None], c1)
      | (Some r, c1) \<Rightarrow> (case get_all N cfg qs c1 of (rs, c2) \<Rightarrow> (Some r # rs, c2)))"

lemma get_all_sends: "\<exists>urls. sends N urls c (snd (get_all N cfg qs c))"
proof (induction qs arbitrary: c)
  case Nil
  then show ?case by (auto intro: sends_nil)
next
  case (Cons q qs)
  obtain idle url where q: "q = (idle, url)" by fastforce
  obtain r c1 where g: "http_get N cfg url (c\<lparr>cl_clock := cl_clock c + idle\<rparr>) = (r, c1)" by fastforce
  obtain n where n: "sends N (replicate n url) c c1"
    using http_get_sends[of cfg N url "c\<lparr>cl_clock := cl_clock c + idle\<rparr>"] g by auto
  show ?case
  proof (cases r)
    case None
    with n q g show ?thesis by auto
  next
    case (Some x)
    obtain us where "sends N us c1 (snd (get_all N cfg qs c1))" using Cons by blast
    with sends_append[OF n this] q g Some show ?thesis by (auto split: prod.split)
  qed
qed

text \<open>
  The contract between the client and a limiter that keeps a rate: between any two of its grants there
  are at most the burst and the rate times the time between them.
\<close>

locale paced_limiter =
  fixes acq :: "rat \<Rightarrow> 'l \<Rightarrow> rat \<times> 'l" and fresh :: "'l \<Rightarrow> bool" and burst_of rate_of :: "'l \<Rightarrow> rat"
  assumes paced: "fresh l \<Longrightarrow> grants acq l gs l' \<Longrightarrow> i \<le> j \<Longrightarrow> j < length gs
    \<Longrightarrow> of_nat (j - i + 1) \<le> burst_of l + (gs ! j - gs ! i) * rate_of l"
begin

lemma client_paced:
  assumes "net_acquire N = acq" and "fresh (cl_limiter c)" and "cl_sent c = []"
    and "get_all N cfg qs c = (rs, c')" and "i \<le> j" and "j < length (cl_sent c')"
  shows "of_nat (j - i + 1) \<le> burst_of (cl_limiter c) + (fst (cl_sent c' ! j) - fst (cl_sent c' ! i)) * rate_of (cl_limiter c)"
proof -
  obtain gs us where "length gs = length us" "cl_sent c' = zip gs us" "grants acq (cl_limiter c) gs (cl_limiter c')"
    using get_all_sends[of N c cfg qs] assms(1,3,4) by (auto simp: sends_def)
  with paced[OF assms(2), of gs "cl_limiter c'" i j] assms(5,6) show ?thesis by simp
qed

end

text \<open>The limiter a source makes for itself: its own token bucket.\<close>

type_synonym in_process = "bucket_config \<times> token_bucket"

definition in_process_acquire :: "rat \<Rightarrow> in_process \<Rightarrow> rat \<times> in_process" where
  "in_process_acquire now l = (case l of (cfg, b) \<Rightarrow> case acquire cfg now b of (g, b1) \<Rightarrow> (g, cfg, b1))"

definition fresh_in_process :: "in_process \<Rightarrow> bool" where
  "fresh_in_process l = (\<exists>r n t. new_bucket r n t = Inr l)"

lemma in_process_grants:
  "grants in_process_acquire l gs l' \<Longrightarrow> \<exists>nows. length nows = length gs \<and> acquire_all (fst l) nows (snd l) = (gs, snd l')"
proof (induction rule: grants.induct)
  case (grants_nil l)
  then show ?case by simp
next
  case (grants_cons now l g l1 gs l2)
  from grants_cons.hyps(1) have "acquire (fst l) now (snd l) = (g, snd l1)" "fst l1 = fst l"
    by (auto simp: in_process_acquire_def split: prod.splits)
  moreover obtain nows where "length nows = length gs" "acquire_all (fst l1) nows (snd l1) = (gs, snd l2)"
    using grants_cons.IH by blast
  ultimately show ?case by (intro exI[of _ "now # nows"]) simp
qed

interpretation bucket: paced_limiter in_process_acquire fresh_in_process "\<lambda>l. of_nat (burst (fst l))" "\<lambda>l. rate (fst l)"
proof
  fix l gs l' and i j :: nat
  assume "fresh_in_process l" and g: "grants in_process_acquire l gs l'" and ij: "i \<le> j" "j < length gs"
  then obtain r n t cfg b where b: "new_bucket r n t = Inr (cfg, b)" "l = (cfg, b)"
    by (cases l) (auto simp: fresh_in_process_def)
  then have "r = rate cfg" "n = burst cfg" by (auto simp: new_bucket_def split: if_splits)
  moreover obtain nows where "length nows = length gs" "acquire_all cfg nows b = (gs, snd l')"
    using in_process_grants[OF g] b by auto
  ultimately show "of_nat (j - i + 1) \<le> of_nat (burst (fst l)) + (gs ! j - gs ! i) * rate (fst l)"
    using bucket_grants_bound[OF b(1), of nows gs "snd l'" i j] ij b(2) by simp
qed


subsection \<open>Returning\<close>

text \<open>A \<^verbatim>\<open>Retry-After\<close> header that does not ask for an infinite wait.\<close>

definition bounded_wait :: "string option \<Rightarrow> bool" where
  "bounded_wait h = (case h of None \<Rightarrow> True | Some s \<Rightarrow> s = [] \<or> float_of_string s \<noteq> Inr FPosInf)"

fun sends_bounded_waits :: "http_exception + http_response \<Rightarrow> bool" where
  "sends_bounded_waits (Inl e) = True"
| "sends_bounded_waits (Inr resp) = bounded_wait (resp_retry_after resp)"

lemma sleep_returns: "d \<noteq> FPosInf \<Longrightarrow> after_sleep le (sleep_with_jitter N d c) \<noteq> Ends None c'"
  by (cases d) (auto simp: sleep_with_jitter_def Let_def split: prod.split)

lemma bounded_delay: "bounded_wait h \<Longrightarrow> retry_delay cfg attempt h \<noteq> FPosInf"
  by (auto simp: bounded_wait_def retry_delay_def split: option.splits sum.splits)

lemma iterate_returns:
  assumes "\<forall>w g u. sends_bounded_waits (fst (net_get N w g u))"
  shows "iterate N cfg url attempt le c \<noteq> Ends None c'"
proof -
  obtain x c1 where s: "send_request N url c = (x, c1)" by fastforce
  then have w: "sends_bounded_waits x"
    using assms(1)[rule_format, of "cl_world c" "fst (net_acquire N (cl_clock c) (cl_limiter c))" url]
    by (auto simp: send_request_def split: prod.splits)
  show ?thesis
  proof (cases x)
    case (Inl e)
    with s show ?thesis by (simp add: iterate_def sleep_returns)
  next
    case (Inr resp)
    with w bounded_delay have "retry_delay cfg attempt (resp_retry_after resp) \<noteq> FPosInf" by fastforce
    with s Inr show ?thesis by (simp add: iterate_def Let_def sleep_returns)
  qed
qed

lemma get_loop_returns:
  assumes "\<forall>w g u. sends_bounded_waits (fst (net_get N w g u))"
  shows "fst (get_loop N cfg url attempt k le c) \<noteq> None"
proof (induction k arbitrary: attempt le c)
  case (Suc k)
  show ?case
  proof (cases "iterate N cfg url attempt le c")
    case (Ends r c')
    with iterate_returns[OF assms, of cfg url attempt le c c'] show ?thesis by auto
  qed (use Suc in simp)
qed simp

subsection \<open>Properties\<close>

text \<open>
  C22: what a call means for the circuit breaker.  A call on an open breaker sends nothing and changes
  nothing.  Any other call sends between zero and \<open>max_retries + 1\<close> requests, all to its own URL, and reports to the breaker
  at most once, whatever happened on the way: a returned response has a status below 400 and
  resets the failure count; an error status, or a retryable network error, counts as exactly one failure, at the time
  the call ends; every other exception leaves the count alone (where the docstrings announce a record on every outcome).
\<close>

lemma http_call_counts_once:
  assumes "\<forall>st \<ge> 400. net_status_raises N st" and "0 \<le> hc_max_retries cfg"
    and "http_get N cfg url c = (r, c')"
  shows "(case check (hc_breaker cfg) (cl_clock c) (cl_breaker c) of
       Inl e \<Rightarrow> r = Some (Inl (BreakerOpen e)) \<and> c' = c
     | Inr b \<Rightarrow> accounted cfg b (r, c')
         \<and> (\<exists>n \<le> nat (hc_max_retries cfg + 1). map snd (cl_sent c') = map snd (cl_sent c) @ replicate n url))"
proof (cases "check (hc_breaker cfg) (cl_clock c) (cl_breaker c)")
  case (Inl e)
  with assms(3) show ?thesis by (auto simp: http_get_def)
next
  case (Inr b)
  have n: "nat (hc_max_retries cfg + 1) = Suc (nat (hc_max_retries cfg))" using assms(2) by simp
  have "accounted cfg b (r, c')"
    using get_loop_accounted[OF assms(1), of 0 "nat (hc_max_retries cfg)" cfg "c\<lparr>cl_breaker := b\<rparr>" b url None] assms(2,3) Inr
    by (simp add: http_get_def n)
  moreover have "\<exists>n \<le> nat (hc_max_retries cfg + 1). map snd (cl_sent c') = map snd (cl_sent c) @ replicate n url"
    using http_get_sends[of cfg N url c] assms(3) by (fastforce simp: sends_def)
  ultimately show ?thesis using Inr by simp
qed

text \<open>
  A source keeps SEC's rate over its whole life.  Whatever calls are made on a client with its own
  token bucket, however many of them retry, any stretch of consecutive requests that leaves the client holds at
  most the burst plus the rate times the time the stretch took.
\<close>

lemma client_requests_keep_rate:
  assumes "new_bucket r n t = Inr (cl_limiter c)" and "net_acquire N = in_process_acquire" and "cl_sent c = []"
    and "get_all N cfg qs c = (rs, c')" and "i \<le> j" and "j < length (cl_sent c')"
  shows "of_nat (j - i + 1) \<le> of_nat n + (fst (cl_sent c' ! j) - fst (cl_sent c' ! i)) * r"
proof -
  have "fresh_in_process (cl_limiter c)" using assms(1) by (auto simp: fresh_in_process_def)
  moreover have "rate (fst (cl_limiter c)) = r" "burst (fst (cl_limiter c)) = n"
    using assms(1) by (cases "cl_limiter c"; auto simp: new_bucket_def split: if_splits)+
  ultimately show ?thesis using bucket.client_paced[OF assms(2) _ assms(3-6)] by simp
qed

text \<open>
  A call comes back.  It never returns only if the server asks for an infinite wait: when no
  \<^verbatim>\<open>Retry-After\<close> header reads as infinity, every call ends with a response or an error.
\<close>

lemma http_get_returns:
  assumes "\<forall>w g u. sends_bounded_waits (fst (net_get N w g u))"
  shows "fst (http_get N cfg url c) \<noteq> None"
proof (cases "check (hc_breaker cfg) (cl_clock c) (cl_breaker c)")
  case (Inr b)
  then show ?thesis using get_loop_returns[OF assms] by (simp add: http_get_def)
qed (simp add: http_get_def)


subsection \<open>A server that answers from a script\<close>

text \<open>
  The outside world as the list of the answers it will give, each after the same latency.
\<close>

definition scripted :: "(rat \<Rightarrow> 'l \<Rightarrow> rat \<times> 'l) \<Rightarrow> rat \<Rightarrow> ('l, (http_exception + http_response) list) network" where
  "scripted acq latency = \<lparr>net_acquire = acq,
     net_get = (\<lambda>w g url. case w of [] \<Rightarrow> (Inl (OtherHttpError []), g + latency, []) | r # rs \<Rightarrow> (r, g + latency, rs)),
     net_jitter = (\<lambda>w. (1 / 4, w)), net_status_raises = (\<lambda>st. 400 \<le> st)\<rparr>"

fun transient :: "http_exception + http_response \<Rightarrow> bool" where
  "transient (Inl e) = retryable_exception e"
| "transient (Inr resp) = (retryable_status (resp_status resp)
     \<and> (case resp_retry_after resp of None \<Rightarrow> True | Some s \<Rightarrow> float_of_string s \<notin> {Inr FPosInf, Inr FNaN}))"

lemma finite_sleep:
  assumes "d \<noteq> FPosInf" "d \<noteq> FNaN"
  shows "\<exists>c1. sleep_with_jitter (scripted acq latency) d c = (Inr (), c1) \<and> cl_world c1 = cl_world c"
  using assms by (cases d) (auto simp: sleep_with_jitter_def Let_def scripted_def)

lemma scripted_send:
  "cl_world c = r # rs \<Longrightarrow> \<exists>c1. send_request (scripted acq latency) url c = (r, c1) \<and> cl_world c1 = rs"
  by (auto simp: send_request_def scripted_def split: prod.split)

lemma transient_iteration:
  assumes "transient r" and "cl_world c = r # rs" and "int attempt < hc_max_retries cfg"
  shows "\<exists>le' c'. iterate (scripted acq latency) cfg url attempt le c = GoesOn le' c' \<and> cl_world c' = rs"
proof -
  obtain c1 where s: "send_request (scripted acq latency) url c = (r, c1)" and w: "cl_world c1 = rs"
    using scripted_send[OF assms(2)] by blast
  show ?thesis
  proof (cases r)
    case (Inl e)
    obtain c2 where "sleep_with_jitter (scripted acq latency) (FFinite (backoff cfg attempt)) c1 = (Inr (), c2)" "cl_world c2 = rs"
      using finite_sleep[of "FFinite (backoff cfg attempt)" acq latency c1] w by auto
    with s Inl assms(1,3) show ?thesis by (auto simp: iterate_def)
  next
    case (Inr resp)
    with assms(1) have "retry_delay cfg attempt (resp_retry_after resp) \<noteq> FPosInf"
      "retry_delay cfg attempt (resp_retry_after resp) \<noteq> FNaN"
      by (auto simp: retry_delay_def split: option.splits sum.splits)
    from finite_sleep[OF this, of acq latency c1] obtain c2 where
      "sleep_with_jitter (scripted acq latency) (retry_delay cfg attempt (resp_retry_after resp)) c1 = (Inr (), c2)"
      "cl_world c2 = rs" using w by auto
    with s Inr assms(1,3) show ?thesis by (auto simp: iterate_def Let_def)
  qed
qed

lemma loop_survives:
  assumes "\<forall>r \<in> set fails. transient r" and "resp_status ok < 400"
    and "cl_world c = fails @ Inr ok # rest" and "int (attempt + length fails) \<le> hc_max_retries cfg"
  shows "\<exists>c'. get_loop (scripted acq latency) cfg url attempt (Suc (length fails + k)) le c = (Some (Inr ok), c') \<and> cl_world c' = rest"
  using assms(1,3,4)
proof (induction fails arbitrary: attempt le c)
  case Nil
  then obtain c1 where "send_request (scripted acq latency) url c = (Inr ok, c1)" "cl_world c1 = rest"
    using scripted_send[of c "Inr ok" rest acq latency url] by auto
  with assms(2) show ?case
    using retryable_status_error[of "resp_status ok"]
    by (auto simp: iterate_def Let_def breaker_success_def)
next
  case (Cons r fails)
  then obtain le' c' where "iterate (scripted acq latency) cfg url attempt le c = GoesOn le' c'"
    "cl_world c' = fails @ Inr ok # rest"
    using transient_iteration[of r c "fails @ Inr ok # rest" attempt cfg acq latency url le] by auto
  with Cons.IH[of c' "Suc attempt" le'] Cons.prems show ?case by simp
qed

text \<open>
  Transient failures are survived.  Behind a breaker that lets it through, a call whose first
  answers are up to \<open>max_retries\<close> retryable statuses or network errors and then a response below 400 returns that
  response, having read no more answers than these, and leaves the failure count at zero.
\<close>

lemma transient_failures_survived:
  assumes "check (hc_breaker cfg) (cl_clock c) (cl_breaker c) = Inr b" and "cl_world c = fails @ Inr ok # rest"
    and "\<forall>r \<in> set fails. transient r" and "resp_status ok < 400" and "int (length fails) \<le> hc_max_retries cfg"
  shows "\<exists>c'. http_get (scripted acq latency) cfg url c = (Some (Inr ok), c') \<and> cl_world c' = rest
    \<and> consecutive_failures (cl_breaker c') = 0"
proof -
  have "0 \<le> hc_max_retries cfg" using assms(5) by linarith
  then obtain k where k: "nat (hc_max_retries cfg + 1) = Suc (length fails + k)" and m: "int (length fails + k) = hc_max_retries cfg"
    using assms(5) by (intro that[of "nat (hc_max_retries cfg) - length fails"]) auto
  have raises: "\<forall>st \<ge> 400. net_status_raises (scripted acq latency) st" by (simp add: scripted_def)
  obtain c' where g: "get_loop (scripted acq latency) cfg url 0 (Suc (length fails + k)) None (c\<lparr>cl_breaker := b\<rparr>) = (Some (Inr ok), c')"
    and "cl_world c' = rest"
    using loop_survives[OF assms(3,4), of "c\<lparr>cl_breaker := b\<rparr>" rest 0 cfg acq latency url k None] assms(2,5)
    by (auto simp del: get_loop.simps)
  moreover have "accounted cfg b (Some (Inr ok), c')"
    using get_loop_accounted[OF raises, of 0 "length fails + k" cfg "c\<lparr>cl_breaker := b\<rparr>" b url None] m g by simp
  ultimately show ?thesis using assms(1) k by (auto simp: http_get_def record_success_def simp del: get_loop.simps)
qed


text \<open>An error status that is not retried ends the call at once, as one failure.\<close>

lemma permanent_status_fails:
  assumes "check (hc_breaker cfg) (cl_clock c) (cl_breaker c) = Inr b" and "0 \<le> hc_max_retries cfg"
    and "cl_world c = Inr resp # rs" and "400 \<le> resp_status resp" and "\<not> retryable_status (resp_status resp)"
  shows "\<exists>c'. http_get (scripted acq latency) cfg url c = (Some (Inl (HTTPStatusError (resp_status resp))), c')
    \<and> cl_world c' = rs \<and> cl_breaker c' = record_failure (hc_breaker cfg) (cl_clock c') b"
proof -
  have n: "nat (hc_max_retries cfg + 1) = Suc (nat (hc_max_retries cfg))" using assms(2) by simp
  obtain c1 where s: "send_request (scripted acq latency) url (c\<lparr>cl_breaker := b\<rparr>) = (Inr resp, c1)" and w: "cl_world c1 = rs"
    using scripted_send[of "c\<lparr>cl_breaker := b\<rparr>" "Inr resp" rs acq latency url] assms(3) by auto
  have "cl_breaker c1 = b" using send_request_frame(1)[OF s] by simp
  moreover have "net_status_raises (scripted acq latency) (resp_status resp)" using assms(4) by (simp add: scripted_def)
  moreover have "cl_world (breaker_failure cfg c1) = rs" using w by (simp add: breaker_failure_def)
  ultimately show ?thesis using assms(1,4,5) s n by (simp add: http_get_def iterate_def Let_def)
qed

subsection \<open>Instances\<close>

definition sample_response :: "nat \<Rightarrow> http_response" where
  "sample_response st = \<lparr>resp_status = st, resp_retry_after = None, resp_content_type = Some ''text/html; charset=utf-8'',
     resp_encoding = Some ''utf-8'', resp_content = ''<p>ok</p>'', resp_text = ''<p>ok</p>'', resp_url = ''https://www.sec.gov/x''\<rparr>"

definition sample_http :: http_config where
  "sample_http = \<lparr>hc_breaker = \<lparr>failure_threshold = 5, hold_open_seconds = 60\<rparr>, hc_max_retries = 3, hc_base_delay = 1\<rparr>"

definition sample_client :: "'w \<Rightarrow> (in_process, 'w) client" where
  "sample_client w = \<lparr>cl_breaker = new_breaker, cl_limiter = (\<lparr>rate = 8, burst = 10\<rparr>, \<lparr>tokens = 10, last_refill = 0\<rparr>),
     cl_world = w, cl_clock = 0, cl_sent = []\<rparr>"

definition sample_script :: "(http_exception + http_response) list" where
  "sample_script = [Inr (sample_response 503), Inl ConnectError, Inr (sample_response 200)]"

abbreviation sample_network :: "(in_process, (http_exception + http_response) list) network" where
  "sample_network \<equiv> scripted in_process_acquire (1 / 10)"

lemma sample_check: "check (hc_breaker sample_http) (cl_clock (sample_client w)) (cl_breaker (sample_client w)) = Inr new_breaker"
  by (simp add: sample_http_def sample_client_def new_breaker_def check_def)

lemma sample_status: "\<forall>st \<ge> 400. net_status_raises sample_network st"
  by (simp add: scripted_def)

lemma http_call_counts_once_witness:
  "accounted sample_http new_breaker (http_get sample_network sample_http ''u'' (sample_client [Inr (sample_response 404)]))"
  using http_call_counts_once[OF sample_status, of sample_http "''u''" "sample_client [Inr (sample_response 404)]"
      "fst (http_get sample_network sample_http ''u'' (sample_client [Inr (sample_response 404)]))"
      "snd (http_get sample_network sample_http ''u'' (sample_client [Inr (sample_response 404)]))"]
  by (simp add: sample_check) (simp add: sample_http_def)

lemma transient_failures_survived_witness:
  "\<exists>c'. http_get sample_network sample_http ''u'' (sample_client sample_script) = (Some (Inr (sample_response 200)), c')
    \<and> consecutive_failures (cl_breaker c') = 0"
  using transient_failures_survived[OF sample_check, of sample_script
      "[Inr (sample_response 503), Inl ConnectError]" "sample_response 200" "[]" in_process_acquire "1 / 10" "''u''"]
  by (auto simp: sample_script_def sample_client_def sample_response_def sample_http_def retryable_status_def retryable_exception_def)

lemma http_get_returns_witness:
  "fst (http_get (scripted in_process_acquire 1\<lparr>net_get := \<lambda>w g u. (Inl ConnectError, g, w)\<rparr>) sample_http ''u'' (sample_client [])) \<noteq> None"
  by (rule http_get_returns) simp

lemma sample_get_all:
  "map fst (cl_sent (snd (get_all sample_network sample_http [(0, ''a''), (1, ''b'')]
      (sample_client [Inr (sample_response 200), Inr (sample_response 200)])))) = [0, 11 / 10]"
  by code_simp

lemma client_requests_keep_rate_witness:
  "of_nat (1 - 0 + 1) \<le> of_nat 10 + (11 / 10 - 0) * (8 :: rat)"
proof -
  obtain rs c' where g: "get_all sample_network sample_http [(0, ''a''), (1, ''b'')]
      (sample_client [Inr (sample_response 200), Inr (sample_response 200)]) = (rs, c')" by fastforce
  then have m: "map fst (cl_sent c') = [0, 11 / 10]" using sample_get_all by simp
  then have l: "1 < length (cl_sent c')" by (metis length_map length_Cons lessI list.size(3) One_nat_def)
  with m have "fst (cl_sent c' ! 0) = 0" "fst (cl_sent c' ! 1) = 11 / 10"
    by (metis One_nat_def Suc_lessD nth_Cons_0 nth_Cons_Suc nth_map)+
  with client_requests_keep_rate[of 8 10 0 "sample_client [Inr (sample_response 200), Inr (sample_response 200)]"
      sample_network, OF _ _ _ g, of 0 1] l
  show ?thesis by (simp add: sample_client_def new_bucket_def scripted_def)
qed

end
