(* ===== verification/PyIso.thy ===== *)
theory PyIso
  imports PyParse
begin

text \<open>
  Dates as ISO strings: \<open>date.isoformat\<close>, and the proof that \<open>date.fromisoformat\<close> reads it back.
\<close>

definition date_day :: "date \<Rightarrow> int" where
  "date_day d = d - days_before_year (date_year d) - days_before_month (date_year d) (date_month d)"

definition date_triple :: "date \<Rightarrow> int \<times> int \<times> int" where
  "date_triple d = (date_year d, date_month d, date_day d)"

definition pad :: "nat \<Rightarrow> int \<Rightarrow> string" where
  "pad w n = (let s = show_int n in replicate (w - length s) (CHR ''0'') @ s)"

definition date_isoformat :: "date \<Rightarrow> string" where
  "date_isoformat d = pad 4 (date_year d) @ ''-'' @ pad 2 (date_month d) @ ''-'' @ pad 2 (date_day d)"

subsection \<open>Dates read back\<close>

lemma show_nat_length: "n < 10 ^ k \<Longrightarrow> 0 < k \<Longrightarrow> length (show_nat n) \<le> k"
proof (induction n arbitrary: k rule: show_nat.induct)
  case (1 n)
  show ?case
  proof (cases "n < 10")
    case True
    then show ?thesis using "1.prems" by (simp add: show_nat.simps[of n])
  next
    case False
    with "1.prems" obtain j where k: "k = Suc j" "0 < j" by (cases k; cases "k - 1") auto
    then have "n div 10 < 10 ^ j" using "1.prems"(1) by (simp add: less_mult_imp_div_less mult.commute)
    with "1.IH"[OF False this k(2)] False k show ?thesis by (simp add: show_nat.simps[of n])
  qed
qed

lemma pad_reads:
  assumes "0 \<le> n" and "n < 10 ^ w" and "0 < w"
  shows "length (pad w n) = w \<and> list_all is_digit (pad w n) \<and> digits_value (pad w n) = n"
proof -
  have "nat n < 10 ^ w" using assms(1,2) by (simp add: nat_less_iff)
  then have "length (show_nat (nat n)) \<le> w" using assms(3) by (rule show_nat_length)
  with show_nat_reads[of "nat n"] assms(1) show ?thesis
    by (auto simp: pad_def show_int_def Let_def digits_value_zeros list_all_iff digit_zero)
qed

lemma date_isoformat_reads:
  assumes "mk_date y m d = Inr x"
  shows "date_fromisoformat (date_isoformat x) = Inr x"
proof -
  have r: "1 \<le> y" "y \<le> 9999" "1 \<le> m" "m \<le> 12" "1 \<le> d" "d \<le> days_in_month y m"
    and x: "x = days_before_year y + days_before_month y m + d"
    using assms by (auto simp: mk_date_def split: if_splits)
  have "d \<le> 31" using r(6) month_cases[OF r(3,4)] by (auto simp: days_in_month_values split: if_splits)
  moreover have "date_year x = y" "date_month x = m" using date_parts[OF assms] .
  moreover from this have "date_day x = d" by (simp add: date_day_def x)
  ultimately obtain Y M D where iso: "date_isoformat x = Y @ ''-'' @ M @ ''-'' @ D"
    and Y: "length Y = 4" "list_all is_digit Y" "digits_value Y = y"
    and M: "length M = 2" "list_all is_digit M" "digits_value M = m"
    and D: "length D = 2" "list_all is_digit D" "digits_value D = d"
    using pad_reads[of y 4] pad_reads[of m 2] pad_reads[of d 2] r by (auto simp: date_isoformat_def)
  have "(Y @ ''-'' @ M @ ''-'' @ D) ! 4 = CHR ''-''" "(Y @ ''-'' @ M @ ''-'' @ D) ! 7 = CHR ''-''"
    using Y(1) M(1) by (simp_all add: nth_append)
  with Y M D assms show ?thesis by (simp add: date_fromisoformat_def iso Let_def)
qed

end
