(* ===== verification/EdgarSource.thy ===== *)
theory EdgarSource
  imports EdgarHttp Acquisition PyIso
begin

text \<open>
  \<^verbatim>\<open>SECEdgarSource\<close> of \<^verbatim>\<open>services/acquisition/source_registry/sources/sec_edgar.py\<close> above its
  request loop: the URLs of a filing, the submissions of a company, the extraction of filings from
  SEC's columnar blocks and the discovery over several pages.  The decoding of a response body as JSON is a
  parameter that gives the documented layout, absent arrays being empty.
\<close>

subsection \<open>URLs\<close>

definition str_zfill :: "nat \<Rightarrow> string \<Rightarrow> string" where
  "str_zfill w s =
     (let pad = replicate (w - length s) (CHR ''0'')
      in case s of [] \<Rightarrow> pad
         | c # cs \<Rightarrow> if c = CHR ''+'' \<or> c = CHR ''-'' then c # pad @ cs else pad @ s)"

definition submissions_url :: "string \<Rightarrow> string" where
  "submissions_url cik = ''https://data.sec.gov/submissions/CIK'' @ cik @ ''.json''"

definition submissions_page_url :: "string \<Rightarrow> string" where
  "submissions_page_url filename = ''https://data.sec.gov/submissions/'' @ filename"

definition archives_base :: string where
  "archives_base = ''https://www.sec.gov/Archives/edgar/data''"

definition no_dashes :: "string \<Rightarrow> string" where
  "no_dashes s = filter (\<lambda>c. c \<noteq> CHR ''-'') s"

definition build_filing_index_url :: "string \<Rightarrow> string \<Rightarrow> py_error + string" where
  "build_filing_index_url cik acc =
     (case py_int cik of
        Inl e \<Rightarrow> Inl e
      | Inr n \<Rightarrow> Inr (archives_base @ ''/'' @ show_int n @ ''/'' @ no_dashes acc @ ''/''))"

definition build_document_url :: "string \<Rightarrow> string \<Rightarrow> string \<Rightarrow> py_error + string option" where
  "build_document_url cik acc primary_document =
     (if primary_document = [] then Inr None
      else case py_int cik of
          Inl e \<Rightarrow> Inl e
        | Inr n \<Rightarrow> Inr (Some (archives_base @ ''/'' @ show_int n @ ''/'' @ no_dashes acc @ ''/'' @ primary_document)))"

subsection \<open>Submissions\<close>

record columnar =
  co_accession_number :: "string list"
  co_filing_date :: "string list"
  co_form :: "string list"
  co_primary_document :: "string list"
  co_primary_description :: "string list"
  co_period_of_report :: "string list"

record submissions =
  su_name :: string
  su_tickers :: "string list"
  su_recent :: columnar
  su_pages :: "string list"

datatype submissions_body = BadJson | EmptyObject | Submissions submissions

record decoder =
  decode_submissions :: "string \<Rightarrow> submissions_body"
  decode_page :: "string \<Rightarrow> columnar option"

definition get_submissions :: "('l, 'w) network \<Rightarrow> http_config \<Rightarrow> decoder \<Rightarrow> string \<Rightarrow> ('l, 'w, http_error, submissions option) io" where
  "get_submissions N cfg D cik =
     io_bind (http_get N cfg (submissions_url (str_zfill 10 (str_strip cik)))) (\<lambda>resp.
       if resp_status resp = 404 then io_return None
       else if net_status_raises N (resp_status resp) then io_raise (HTTPStatusError (resp_status resp))
       else case decode_submissions D (resp_text resp) of
           BadJson \<Rightarrow> io_raise (PyRaised ValueError)
         | EmptyObject \<Rightarrow> io_return None
         | Submissions s \<Rightarrow> io_return (Some s))"

definition fetch_pagination_page :: "('l, 'w) network \<Rightarrow> http_config \<Rightarrow> decoder \<Rightarrow> string \<Rightarrow> ('l, 'w, http_error, columnar) io" where
  "fetch_pagination_page N cfg D filename =
     io_bind (http_get N cfg (submissions_page_url filename)) (\<lambda>resp.
       if net_status_raises N (resp_status resp) then io_raise (HTTPStatusError (resp_status resp))
       else case decode_page D (resp_text resp) of None \<Rightarrow> io_raise (PyRaised ValueError) | Some b \<Rightarrow> io_return b)"

subsection \<open>Extraction\<close>

definition parse_iso_date :: "string \<Rightarrow> date option" where
  "parse_iso_date s = (if s = [] then None else case date_fromisoformat s of Inl _ \<Rightarrow> None | Inr d \<Rightarrow> Some d)"

text \<open>\<open>FilingMetadata\<close>: the fields later stages read, and the company's name.\<close>

record edgar_filing = filing_meta +
  fm_company_name :: string

definition nth_or :: "'a list \<Rightarrow> nat \<Rightarrow> 'a \<Rightarrow> 'a" where
  "nth_or xs i d = (if i < length xs then xs ! i else d)"

definition supported_form_types :: "string set" where
  "supported_form_types = {''10-K'', ''10-Q'', ''8-K'', ''DEF 14A''}"

definition extract_row :: "string set \<Rightarrow> columnar \<Rightarrow> string \<Rightarrow> string option \<Rightarrow> string \<Rightarrow> nat \<Rightarrow> py_error + edgar_filing option" where
  "extract_row forms b cik ticker company_name i =
     (let form_type = nth_or (co_form b) i [] in
      if form_type \<notin> forms then Inr None
      else
        let acc = str_strip (co_accession_number b ! i) in
        case parse_iso_date (nth_or (co_filing_date b) i []) of
          None \<Rightarrow> Inr None
        | Some d \<Rightarrow>
            rbind (build_filing_index_url cik acc) (\<lambda>filing_url.
            rbind (build_document_url cik acc (nth_or (co_primary_document b) i [])) (\<lambda>document_url.
            Inr (Some \<lparr>fm_accession_number = acc, fm_filing_type = form_type, fm_filing_date = d,
              fm_period_end_date = map_option date_triple (parse_iso_date (nth_or (co_period_of_report b) i [])),
              fm_cik = cik, fm_ticker = ticker,
              fm_title = (let t = nth_or (co_primary_description b) i [] in if t = [] then None else Some t),
              fm_filing_url = Some filing_url, fm_document_url = document_url, fm_company_name = company_name\<rparr>))))"

definition extract_filings_from_block :: "string set \<Rightarrow> columnar \<Rightarrow> string \<Rightarrow> string option \<Rightarrow> string \<Rightarrow> py_error + edgar_filing list" where
  "extract_filings_from_block forms b cik ticker company_name =
     rbind (rmap (extract_row forms b cik ticker company_name) [0..<length (co_accession_number b)])
       (\<lambda>rs. Inr (List.map_filter id rs))"

subsection \<open>Discovery\<close>

record discovery_result =
  dr_cik :: string
  dr_company_name :: string
  dr_ticker :: "string option"
  dr_filings :: "edgar_filing list"
  dr_total_discovered :: nat
  dr_has_additional_pages :: bool

text \<open>\<open>xs[:n]\<close>.\<close>

definition py_take :: "int \<Rightarrow> 'a list \<Rightarrow> 'a list" where
  "py_take n xs = (if 0 \<le> n then take (nat n) xs else take (nat (int (length xs) + n)) xs)"

definition reached :: "int option \<Rightarrow> 'a list \<Rightarrow> bool" where
  "reached m xs = (case m of None \<Rightarrow> False | Some n \<Rightarrow> n \<le> int (length xs))"

text \<open>The loop over the older pages: any exception of a page is logged and the loop goes on.\<close>

fun fetch_pages :: "('l, 'w) network \<Rightarrow> http_config \<Rightarrow> decoder \<Rightarrow> string set \<Rightarrow> string \<Rightarrow> string option \<Rightarrow> string \<Rightarrow> int option
    \<Rightarrow> string list \<Rightarrow> edgar_filing list \<Rightarrow> ('l, 'w, http_error, edgar_filing list) io" where
  "fetch_pages N cfg D forms cik ticker name max_filings [] fs c = (Some (Inr fs), c)"
| "fetch_pages N cfg D forms cik ticker name max_filings (page # pages) fs c =
     (if page = [] then fetch_pages N cfg D forms cik ticker name max_filings pages fs c
      else if reached max_filings fs then (Some (Inr fs), c)
      else case fetch_pagination_page N cfg D page c of
          (None, c1) \<Rightarrow> (None, c1)
        | (Some (Inl e), c1) \<Rightarrow> fetch_pages N cfg D forms cik ticker name max_filings pages fs c1
        | (Some (Inr b), c1) \<Rightarrow>
            (case extract_filings_from_block forms b cik ticker name of
               Inl e \<Rightarrow> fetch_pages N cfg D forms cik ticker name max_filings pages fs c1
             | Inr found \<Rightarrow> fetch_pages N cfg D forms cik ticker name max_filings pages (fs @ found) c1))"

definition discover_filings :: "('l, 'w) network \<Rightarrow> http_config \<Rightarrow> decoder \<Rightarrow> string set \<Rightarrow> string \<Rightarrow> bool \<Rightarrow> int option
    \<Rightarrow> ('l, 'w, http_error, discovery_result) io" where
  "discover_filings N cfg D forms cik include_older max_filings =
     (let padded = str_zfill 10 (str_strip cik) in
      io_bind (get_submissions N cfg D padded) (\<lambda>data.
        case data of
          None \<Rightarrow> io_return \<lparr>dr_cik = padded, dr_company_name = [], dr_ticker = None, dr_filings = [],
                    dr_total_discovered = 0, dr_has_additional_pages = False\<rparr>
        | Some s \<Rightarrow>
            let name = str_strip (su_name s);
                ticker = (case su_tickers s of [] \<Rightarrow> None | t # _ \<Rightarrow> Some (str_upper t))
            in io_bind (io_lift (map_error PyRaised (extract_filings_from_block forms (su_recent s) padded ticker name))) (\<lambda>recent.
               io_bind (if include_older then fetch_pages N cfg D forms padded ticker name max_filings (su_pages s) recent
                        else io_return recent) (\<lambda>fs.
               let fs1 = (case max_filings of None \<Rightarrow> fs | Some m \<Rightarrow> py_take m fs)
               in io_return \<lparr>dr_cik = padded, dr_company_name = name, dr_ticker = ticker, dr_filings = fs1,
                    dr_total_discovered = length fs1, dr_has_additional_pages = (su_pages s \<noteq> [])\<rparr>))))"

definition get_filing_metadata :: "('l, 'w) network \<Rightarrow> http_config \<Rightarrow> decoder \<Rightarrow> string set \<Rightarrow> string \<Rightarrow> string
    \<Rightarrow> ('l, 'w, http_error, edgar_filing option) io" where
  "get_filing_metadata N cfg D forms cik accession_number =
     io_bind (discover_filings N cfg D forms (str_zfill 10 (str_strip cik)) False None) (\<lambda>r.
       io_return (find (\<lambda>f. fm_accession_number f = accession_number) (dr_filings r)))"


subsection \<open>What extraction keeps\<close>

lemma extract_row_Some:
  assumes "extract_row forms b cik ticker name i = Inr (Some f)"
  shows "fm_filing_type f = nth_or (co_form b) i [] \<and> fm_filing_type f \<in> forms
    \<and> fm_accession_number f = str_strip (co_accession_number b ! i)
    \<and> parse_iso_date (nth_or (co_filing_date b) i []) = Some (fm_filing_date f)
    \<and> (\<forall>u. fm_document_url f = Some u \<longrightarrow> (\<exists>folder. fm_filing_url f = Some folder \<and> u = folder @ nth_or (co_primary_document b) i []))"
  using assms
  by (auto simp: extract_row_def Let_def build_filing_index_url_def build_document_url_def rbind_eq_Inr
      split: if_splits option.splits sum.splits)

lemma extract_row_None:
  "extract_row forms b cik ticker name i = Inr None \<Longrightarrow>
     nth_or (co_form b) i [] \<notin> forms \<or> parse_iso_date (nth_or (co_filing_date b) i []) = None"
  by (auto simp: extract_row_def Let_def rbind_eq_Inr split: if_splits option.splits)

lemma extract_rows:
  assumes "rmap (extract_row forms b cik ticker name) is = Inr rs"
  shows "map (\<lambda>f. (fm_accession_number f, fm_filing_type f, Some (fm_filing_date f))) (List.map_filter id rs)
    = map (\<lambda>i. (str_strip (co_accession_number b ! i), nth_or (co_form b) i [], parse_iso_date (nth_or (co_filing_date b) i [])))
        (filter (\<lambda>i. nth_or (co_form b) i [] \<in> forms \<and> parse_iso_date (nth_or (co_filing_date b) i []) \<noteq> None) is)"
  using assms
proof (induction "is" arbitrary: rs)
  case Nil
  then show ?case by (simp add: List.map_filter_def)
next
  case (Cons i "is")
  then obtain r rs' where r: "extract_row forms b cik ticker name i = Inr r"
    and rs: "rmap (extract_row forms b cik ticker name) is = Inr rs'" "rs = r # rs'"
    by (auto elim!: rbind_InrE)
  show ?case
  proof (cases r)
    case None
    with extract_row_None[of forms b cik ticker name i] r Cons.IH[OF rs(1)] rs(2) show ?thesis
      by (auto simp: List.map_filter_def)
  next
    case (Some f)
    from extract_row_Some[OF r[unfolded Some]]
    have "nth_or (co_form b) i [] \<in> forms" "fm_filing_type f = nth_or (co_form b) i []"
      "fm_accession_number f = str_strip (co_accession_number b ! i)"
      "parse_iso_date (nth_or (co_filing_date b) i []) = Some (fm_filing_date f)" by auto
    with Cons.IH[OF rs(1)] rs(2) Some show ?thesis by (simp add: List.map_filter_def)
  qed
qed

text \<open>The older pages only ever add, and never raise.\<close>

lemma fetch_pages_extends:
  assumes "fetch_pages N cfg D forms cik ticker name m pages fs c = (Some r, c')"
  shows "\<exists>found. r = Inr (fs @ found)"
  using assms
proof (induction pages arbitrary: fs c)
  case (Cons page pages)
  obtain x c1 where p: "fetch_pagination_page N cfg D page c = (x, c1)" by fastforce
  show ?case
  proof (cases "page = [] \<or> reached m fs")
    case True
    with Cons show ?thesis by (auto split: if_splits)
  next
    case False
    with Cons.prems p obtain y where y: "x = Some y" by (cases x) auto
    show ?thesis
    proof (cases y)
      case (Inl e)
      with Cons False p y show ?thesis by simp
    next
      case (Inr b)
      then show ?thesis using Cons.IH Cons.prems False p y
        by (cases "extract_filings_from_block forms b cik ticker name") fastforce+
    qed
  qed
qed auto

lemma fetch_pages_open_breaker:
  assumes "check (hc_breaker cfg) (cl_clock c) (cl_breaker c) = Inl e"
  shows "fetch_pages N cfg D forms cik ticker name m pages fs c = (Some (Inr fs), c)"
proof (induction pages)
  case (Cons page pages)
  have "fetch_pagination_page N cfg D page c = (Some (Inl (BreakerOpen e)), c)"
    using assms by (simp add: fetch_pagination_page_def http_get_def io_bind_def)
  with Cons show ?case by simp
qed simp

subsection \<open>Properties\<close>

text \<open>
  Extraction keeps exactly what it should.  When a block is extracted, the result has, in order, one
  filing for every row whose form type is supported and whose filing date can be read, with the row's own accession
  number, form and date, and a filing's document lies in the filing's own archive folder.
\<close>

lemma extraction_keeps_supported_rows:
  assumes "extract_filings_from_block forms b cik ticker name = Inr fs"
  shows "map (\<lambda>f. (fm_accession_number f, fm_filing_type f, Some (fm_filing_date f))) fs
    = map (\<lambda>i. (str_strip (co_accession_number b ! i), nth_or (co_form b) i [], parse_iso_date (nth_or (co_filing_date b) i [])))
        (filter (\<lambda>i. nth_or (co_form b) i [] \<in> forms \<and> parse_iso_date (nth_or (co_filing_date b) i []) \<noteq> None)
          [0..<length (co_accession_number b)])
    \<and> (\<forall>f \<in> set fs. \<forall>u. fm_document_url f = Some u \<longrightarrow> (\<exists>folder doc. fm_filing_url f = Some folder \<and> u = folder @ doc))"
proof -
  from assms obtain rs where rs: "rmap (extract_row forms b cik ticker name) [0..<length (co_accession_number b)] = Inr rs"
    and fs: "fs = List.map_filter id rs" by (auto simp: extract_filings_from_block_def elim!: rbind_InrE)
  have "\<exists>folder doc. fm_filing_url f = Some folder \<and> u = folder @ doc" if f: "f \<in> set fs" "fm_document_url f = Some u" for f u
  proof -
    have "Some f \<in> set rs" using f(1) by (auto simp: fs List.map_filter_def)
    then obtain i where "extract_row forms b cik ticker name i = Inr (Some f)" using rmap_Inr_set[OF rs] by blast
    from extract_row_Some[OF this] f(2) show ?thesis by blast
  qed
  then show ?thesis using extract_rows[OF rs] fs by blast
qed

text \<open>
  Discovery hides what it lost.  Once the submissions are read and the recent block is extracted,
  a discovery of older pages never raises: it ends (if at all) with a result that starts with the recent filings and reports the
  number it returns as the total, whatever happened to the pages.  From the moment the circuit breaker is
  open, every remaining page is dropped without a request.
\<close>

lemma discovery_hides_page_failures:
  assumes "get_submissions N cfg D (str_zfill 10 (str_strip cik)) c = (Some (Inr (Some s)), c1)"
    and "extract_filings_from_block forms (su_recent s) (str_zfill 10 (str_strip cik))
           (case su_tickers s of [] \<Rightarrow> None | t # _ \<Rightarrow> Some (str_upper t)) (str_strip (su_name s)) = Inr recent"
    and "discover_filings N cfg D forms cik True None c = (Some r, c')"
  shows "(\<exists>res found. r = Inr res \<and> dr_filings res = recent @ found \<and> dr_total_discovered res = length (dr_filings res)
      \<and> (check (hc_breaker cfg) (cl_clock c1) (cl_breaker c1) = Inl e \<longrightarrow> found = [] \<and> c' = c1))"
proof -
  define cik' where "cik' = str_zfill 10 (str_strip cik)"
  define tk where "tk = (case su_tickers s of [] \<Rightarrow> None | t # _ \<Rightarrow> Some (str_upper t))"
  obtain x c2 where p: "fetch_pages N cfg D forms cik' tk (str_strip (su_name s)) None (su_pages s) recent c1 = (x, c2)"
    by fastforce
  note sub = assms(1)[folded cik'_def] and ext = assms(2)[folded cik'_def tk_def]
  from assms(3) have x: "\<exists>y. x = Some y"
    by (cases x) (simp_all add: discover_filings_def Let_def sub io_bind_def io_lift_def ext p flip: cik'_def tk_def)
  then obtain found where found: "x = Some (Inr (recent @ found))" using fetch_pages_extends p by blast
  moreover have "found = [] \<and> c2 = c1" if "check (hc_breaker cfg) (cl_clock c1) (cl_breaker c1) = Inl e"
    using fetch_pages_open_breaker[OF that, of N D forms cik' tk "str_strip (su_name s)" None "su_pages s" recent] p found by simp
  ultimately show ?thesis using assms(3)
    by (auto simp: discover_filings_def Let_def sub io_bind_def io_lift_def io_return_def ext p simp flip: cik'_def tk_def)
qed


text \<open>Asking for several companies, one after the other; whatever is raised is remembered.\<close>

fun submissions_all :: "('l, 'w) network \<Rightarrow> http_config \<Rightarrow> decoder \<Rightarrow> string list
    \<Rightarrow> ('l, 'w) client \<Rightarrow> (http_error + submissions option) option list \<times> ('l, 'w) client" where
  "submissions_all N cfg D [] c = ([], c)"
| "submissions_all N cfg D (cik # ciks) c =
     (case get_submissions N cfg D cik c of (r, c1) \<Rightarrow>
        case submissions_all N cfg D ciks c1 of (rs, c2) \<Rightarrow> (r # rs, c2))"

definition not_found :: "http_exception + http_response \<Rightarrow> bool" where
  "not_found r = (case r of Inl _ \<Rightarrow> False | Inr resp \<Rightarrow> resp_status resp = 404)"

lemma submissions_not_found:
  assumes "tripped_at (cl_breaker c) = None" and "0 \<le> hc_max_retries cfg"
    and "cl_world c = r # rs" and "not_found r"
  shows "\<exists>c'. get_submissions (scripted acq latency) cfg D cik c = (Some (Inl (HTTPStatusError 404)), c')
    \<and> cl_world c' = rs \<and> cl_breaker c' = record_failure (hc_breaker cfg) (cl_clock c') (cl_breaker c)"
proof -
  obtain resp where r: "r = Inr resp" "resp_status resp = 404"
    using assms(4) by (cases r) (auto simp: not_found_def)
  have "check (hc_breaker cfg) (cl_clock c) (cl_breaker c) = Inr (cl_breaker c)"
    using assms(1) by (simp add: check_def)
  then obtain c' where "http_get (scripted acq latency) cfg (submissions_url (str_zfill 10 (str_strip cik))) c
      = (Some (Inl (HTTPStatusError 404)), c')" "cl_world c' = rs"
    "cl_breaker c' = record_failure (hc_breaker cfg) (cl_clock c') (cl_breaker c)"
    using permanent_status_fails[of cfg c "cl_breaker c" resp rs acq latency] assms(2,3) r
    by (auto simp: retryable_status_def)
  then show ?thesis by (simp add: get_submissions_def)
qed

lemma submissions_all_not_found:
  assumes "0 \<le> hc_max_retries cfg" and "\<forall>r \<in> set (take (length ciks) (cl_world c)). not_found r"
    and "length ciks \<le> length (cl_world c)"
    and "tripped_at (cl_breaker c) = None" and "consecutive_failures (cl_breaker c) + length ciks \<le> failure_threshold (hc_breaker cfg)"
    and "submissions_all (scripted acq latency) cfg D ciks c = (rs, c')"
  shows "rs = replicate (length ciks) (Some (Inl (HTTPStatusError 404)))
    \<and> consecutive_failures (cl_breaker c') = consecutive_failures (cl_breaker c) + length ciks
    \<and> tripped_at (cl_breaker c') =
        (if ciks \<noteq> [] \<and> consecutive_failures (cl_breaker c) + length ciks = failure_threshold (hc_breaker cfg)
         then Some (cl_clock c') else None)"
  using assms(2-6)
proof (induction ciks arbitrary: c rs)
  case Nil
  then show ?case by simp
next
  case (Cons cik ciks)
  then obtain r ws where w: "cl_world c = r # ws" and r: "not_found r" by (cases "cl_world c") auto
  obtain c1 where g: "get_submissions (scripted acq latency) cfg D cik c = (Some (Inl (HTTPStatusError 404)), c1)"
    "cl_world c1 = ws" "cl_breaker c1 = record_failure (hc_breaker cfg) (cl_clock c1) (cl_breaker c)"
    using submissions_not_found[OF Cons.prems(3) assms(1) w r, of acq latency D cik] by blast
  obtain rs1 where rs: "rs = Some (Inl (HTTPStatusError 404)) # rs1"
    and s: "submissions_all (scripted acq latency) cfg D ciks c1 = (rs1, c')"
    using Cons.prems(5) g(1) by (auto split: prod.splits)
  show ?case
  proof (cases "ciks = []")
    case True
    with s rs g(3) Cons.prems(3,4) show ?thesis by (auto simp: record_failure_def Let_def)
  next
    case False
    then have l: "0 < length ciks" by simp
    have "consecutive_failures (cl_breaker c) + 1 < failure_threshold (hc_breaker cfg)"
      using Cons.prems(4) l by (simp only: length_Cons)
    then have b: "tripped_at (cl_breaker c1) = None" "consecutive_failures (cl_breaker c1) = consecutive_failures (cl_breaker c) + 1"
      using g(3) Cons.prems(3) by (auto simp: record_failure_def Let_def)
    have "\<forall>r \<in> set (take (length ciks) (cl_world c1)). not_found r" "length ciks \<le> length (cl_world c1)"
      using Cons.prems(1,2) w g(2) by auto
    from Cons.IH[OF this b(1) _ s] b Cons.prems(4) rs False show ?thesis by simp
  qed
qed

text \<open>
  C23: companies SEC does not know close the source.  A 404 for a company is not the empty answer the
  code means to return: the request loop has already raised it and counted a failure.  So a fresh source that is asked for
  as many unknown companies as the breaker's threshold raises for each of them, and ends with an open breaker
  that refuses every company, although the server answered every request.
\<close>

lemma unknown_companies_trip_breaker:
  assumes "0 \<le> hc_max_retries cfg" and "cl_breaker c = new_breaker" and "0 < hold_open_seconds (hc_breaker cfg)"
    and "length ciks = failure_threshold (hc_breaker cfg)" and "ciks \<noteq> []"
    and "length ciks \<le> length (cl_world c)" and "\<forall>r \<in> set (take (length ciks) (cl_world c)). not_found r"
    and "submissions_all (scripted acq latency) cfg D ciks c = (rs, c')"
  shows "rs = replicate (length ciks) (Some (Inl (HTTPStatusError 404)))
    \<and> (\<forall>cik. \<exists>e. get_submissions (scripted acq latency) cfg D cik c' = (Some (Inl (BreakerOpen e)), c'))"
proof -
  note n = submissions_all_not_found[OF assms(1,7,6) _ _ assms(8)]
  have b: "tripped_at (cl_breaker c) = None" "consecutive_failures (cl_breaker c) = 0"
    using assms(2) by (simp_all add: new_breaker_def)
  then have t: "tripped_at (cl_breaker c') = Some (cl_clock c')" and rs: "rs = replicate (length ciks) (Some (Inl (HTTPStatusError 404)))"
    using n assms(4,5) by simp_all
  have "is_open (hc_breaker cfg) (cl_clock c') (cl_breaker c')" using t assms(3) by (simp add: is_open_def)
  then obtain e where "check (hc_breaker cfg) (cl_clock c') (cl_breaker c') = Inl e" using check_Inl_iff by blast
  then show ?thesis using rs by (simp add: get_submissions_def http_get_def io_bind_def)
qed

text \<open>
  A lookup by accession number gives the first filing of the recent block with that number, and
  \<open>None\<close> only when there is none.
\<close>

lemma lookup_finds_recent:
  assumes "discover_filings N cfg D forms (str_zfill 10 (str_strip cik)) False None c = (Some (Inr r), c')"
  shows "\<exists>x. get_filing_metadata N cfg D forms cik acc c = (Some (Inr x), c')
    \<and> (case x of None \<Rightarrow> acc \<notin> fm_accession_number ` set (dr_filings r)
       | Some f \<Rightarrow> f \<in> set (dr_filings r) \<and> fm_accession_number f = acc)"
  using assms by (auto simp: get_filing_metadata_def find_None_iff find_Some_iff split: option.split)


subsection \<open>Instances\<close>

definition sample_block :: columnar where
  "sample_block = \<lparr>co_accession_number = ['' 0000320193-24-000009'', ''0000320193-24-000010'', ''0000320193-24-000011''],
     co_filing_date = [''2024-02-02'', ''2024-02-03'', ''soon''], co_form = [''10-K'', ''4'', ''8-K''],
     co_primary_document = [''a.htm''], co_primary_description = [], co_period_of_report = [''2023-12-30'']\<rparr>"

definition sample_submissions :: submissions where
  "sample_submissions = \<lparr>su_name = ''Apple Inc. '', su_tickers = [''aapl''], su_recent = sample_block, su_pages = [''p1.json'', ''p2.json'']\<rparr>"

definition sample_decoder :: decoder where
  "sample_decoder = \<lparr>decode_submissions = \<lambda>s. Submissions sample_submissions, decode_page = \<lambda>s. Some sample_block\<rparr>"

lemma sample_extract:
  "map fm_document_url (case extract_filings_from_block supported_form_types sample_block ''0000000042'' (Some ''AAPL'') ''Apple Inc.'' of
     Inr fs \<Rightarrow> fs | Inl _ \<Rightarrow> []) = [Some ''https://www.sec.gov/Archives/edgar/data/42/000032019324000009/a.htm'']"
  by code_simp

lemma extraction_keeps_supported_rows_witness:
  "\<exists>f. extract_filings_from_block supported_form_types sample_block ''0000000042'' (Some ''AAPL'') ''Apple Inc.'' = Inr [f]
    \<and> fm_accession_number f = ''0000320193-24-000009'' \<and> fm_filing_type f = ''10-K''"
proof -
  obtain fs where fs: "extract_filings_from_block supported_form_types sample_block ''0000000042'' (Some ''AAPL'') ''Apple Inc.'' = Inr fs"
    using sample_extract
    by (cases "extract_filings_from_block supported_form_types sample_block ''0000000042'' (Some ''AAPL'') ''Apple Inc.''") auto
  have "map (\<lambda>i. (str_strip (co_accession_number sample_block ! i), nth_or (co_form sample_block) i [], parse_iso_date (nth_or (co_filing_date sample_block) i [])))
        (filter (\<lambda>i. nth_or (co_form sample_block) i [] \<in> supported_form_types \<and> parse_iso_date (nth_or (co_filing_date sample_block) i []) \<noteq> None)
          [0..<length (co_accession_number sample_block)]) = [(''0000320193-24-000009'', ''10-K'', Some 738918)]"
    by code_simp
  with extraction_keeps_supported_rows[OF fs] fs show ?thesis by (auto simp: map_eq_Cons_conv)
qed

text \<open>The recent block is read; then both pages fail.\<close>

definition sample_discovery :: "(in_process, (http_exception + http_response) list) client" where
  "sample_discovery = sample_client [Inr (sample_response 200), Inr (sample_response 404), Inr (sample_response 403)]"

lemma discovery_hides_page_failures_witness:
  "\<exists>res c'. discover_filings sample_network sample_http sample_decoder supported_form_types ''42'' True None sample_discovery = (Some (Inr res), c')
    \<and> dr_total_discovered res = length (dr_filings res)"
proof -
  have e: "(case get_submissions sample_network sample_http sample_decoder (str_zfill 10 (str_strip ''42'')) sample_discovery of
      (Some (Inr (Some s)), c) \<Rightarrow> s = sample_submissions | _ \<Rightarrow> False)" by code_simp
  then obtain c1 where g: "get_submissions sample_network sample_http sample_decoder (str_zfill 10 (str_strip ''42'')) sample_discovery
      = (Some (Inr (Some sample_submissions)), c1)"
    by (auto split: prod.splits option.splits sum.splits)
  have x: "(case extract_filings_from_block supported_form_types (su_recent sample_submissions) (str_zfill 10 (str_strip ''42''))
      (case su_tickers sample_submissions of [] \<Rightarrow> None | t # _ \<Rightarrow> Some (str_upper t)) (str_strip (su_name sample_submissions)) of
      Inr fs \<Rightarrow> True | Inl _ \<Rightarrow> False)" by code_simp
  then obtain recent where x: "extract_filings_from_block supported_form_types (su_recent sample_submissions) (str_zfill 10 (str_strip ''42''))
      (case su_tickers sample_submissions of [] \<Rightarrow> None | t # _ \<Rightarrow> Some (str_upper t)) (str_strip (su_name sample_submissions)) = Inr recent"
    by (auto split: sum.splits)
  have "(case discover_filings sample_network sample_http sample_decoder supported_form_types ''42'' True None sample_discovery of
      (Some r, c) \<Rightarrow> True | _ \<Rightarrow> False)" by code_simp
  then obtain r c' where "discover_filings sample_network sample_http sample_decoder supported_form_types ''42'' True None sample_discovery = (Some r, c')"
    by (auto split: prod.splits option.splits)
  with discovery_hides_page_failures[OF g x this, where e = "CircuitBreakerOpenError 0"] show ?thesis by auto
qed

definition sample_unknown :: "(in_process, (http_exception + http_response) list) client" where
  "sample_unknown = sample_client (replicate 5 (Inr (sample_response 404)))"

lemma unknown_companies_trip_breaker_witness:
  "\<exists>c' e. get_submissions sample_network sample_http sample_decoder ''42'' c' = (Some (Inl (BreakerOpen e)), c')"
proof -
  obtain rs c' where g: "submissions_all sample_network sample_http sample_decoder (replicate 5 ''1'') sample_unknown = (rs, c')" by fastforce
  show ?thesis
    using unknown_companies_trip_breaker[OF _ _ _ _ _ _ _ g, THEN conjunct2]
    by (simp add: sample_http_def sample_unknown_def sample_client_def sample_response_def not_found_def) blast
qed

lemma lookup_finds_recent_witness:
  "\<exists>r c' x. discover_filings sample_network sample_http sample_decoder supported_form_types (str_zfill 10 (str_strip ''42'')) False None sample_discovery = (Some (Inr r), c')
    \<and> get_filing_metadata sample_network sample_http sample_decoder supported_form_types ''42'' ''0000320193-24-000009'' sample_discovery = (Some (Inr x), c')"
proof -
  have "(case discover_filings sample_network sample_http sample_decoder supported_form_types (str_zfill 10 (str_strip ''42'')) False None sample_discovery of
      (Some (Inr r), c) \<Rightarrow> True | _ \<Rightarrow> False)" by code_simp
  then obtain r c' where r: "discover_filings sample_network sample_http sample_decoder supported_form_types (str_zfill 10 (str_strip ''42'')) False None sample_discovery
      = (Some (Inr r), c')" by (auto split: prod.splits option.splits sum.splits)
  from lookup_finds_recent[OF r] r show ?thesis by blast
qed

end
