(* ===== verification/DocumentFetcher.thy ===== *)
theory DocumentFetcher
  imports EdgarSource
begin

text \<open>
  \<^verbatim>\<open>services/acquisition/document_fetcher/fetcher.py\<close>: from a filing's metadata to its document,
  through the Redis cache, the filing's index page and the request loop of \<open>EdgarHttp\<close>.  Parameters: the
  Redis client, the tokenizer \<open>html.parser\<close>, the text codecs, SHA-256 and the clock that stamps a document.
  Bodies are lists of bytes, texts lists of characters.
\<close>

subsection \<open>Reading HTML\<close>

datatype html_event = StartTag string | EndTag string | Data string

definition skip_tags :: "string set" where
  "skip_tags = {''script'', ''style'', ''head'', ''noscript''}"

record text_extractor =
  te_parts :: "string list"
  te_skip_depth :: nat

fun handle_event :: "html_event \<Rightarrow> text_extractor \<Rightarrow> text_extractor" where
  "handle_event (StartTag t) e = (if str_lower t \<in> skip_tags then e\<lparr>te_skip_depth := te_skip_depth e + 1\<rparr> else e)"
| "handle_event (EndTag t) e = (if str_lower t \<in> skip_tags then e\<lparr>te_skip_depth := te_skip_depth e - 1\<rparr> else e)"
| "handle_event (Data d) e =
     (if te_skip_depth e = 0 \<and> str_strip d \<noteq> [] then e\<lparr>te_parts := te_parts e @ [str_strip d]\<rparr> else e)"

definition new_extractor :: text_extractor where
  "new_extractor = \<lparr>te_parts = [], te_skip_depth = 0\<rparr>"

fun join_lines :: "string list \<Rightarrow> string" where
  "join_lines [] = []"
| "join_lines [x] = x"
| "join_lines (x # y # xs) = x @ [CHR 0x0A] @ join_lines (y # xs)"

text \<open>The tokenizer gives the events of a page, or raises.\<close>

definition extract_text_from_html :: "(string \<Rightarrow> html_event list option) \<Rightarrow> string \<Rightarrow> string option" where
  "extract_text_from_html tok html =
     (case tok html of
        None \<Rightarrow> None
      | Some evs \<Rightarrow>
          let t = join_lines (te_parts (fold handle_event evs new_extractor))
          in if t = [] then None else Some t)"

text \<open>The text before the first occurrence of a pattern, ignoring case.\<close>

fun text_before :: "string \<Rightarrow> string \<Rightarrow> string option" where
  "text_before pat [] = (if pat = [] then Some [] else None)"
| "text_before pat (c # cs) =
     (if str_lower (take (length pat) (c # cs)) = pat then Some [] else map_option ((#) c) (text_before pat cs))"

text \<open>\<^verbatim>\<open><title[^>]*>(.*?)</title>\<close>, searched from the left.\<close>

fun search_title :: "string \<Rightarrow> string option" where
  "search_title [] = None"
| "search_title (c # cs) =
     (if str_lower (take 6 (c # cs)) = ''<title'' then
        (case dropWhile (\<lambda>x. x \<noteq> CHR ''>'') (drop 6 (c # cs)) of
           [] \<Rightarrow> search_title cs
         | _ # rest \<Rightarrow> (case text_before ''</title>'' rest of Some t \<Rightarrow> Some t | None \<Rightarrow> search_title cs))
      else search_title cs)"

definition extract_title_from_html :: "string \<Rightarrow> string option" where
  "extract_title_from_html html =
     (case search_title html of None \<Rightarrow> None | Some t \<Rightarrow> if str_strip t = [] then None else Some (str_strip t))"

text \<open>
  \<^verbatim>\<open>href="([^"]+<suffix>)"\<close>, every match from the left: the quoted text of an \<^verbatim>\<open>href\<close> that ends in one of the suffixes
  with something before it.
\<close>

definition ends_in :: "string list \<Rightarrow> string \<Rightarrow> bool" where
  "ends_in suffixes s = list_ex (\<lambda>x. length x < length s \<and> str_lower (drop (length s - length x) s) = x) suffixes"

function find_hrefs :: "string list \<Rightarrow> string \<Rightarrow> string list" where
  "find_hrefs suffixes s =
     (if s = [] then []
      else let rest = drop 6 s; link = takeWhile (\<lambda>c. c \<noteq> CHR 0x22) rest
           in if str_lower (take 6 s) = ''href='' @ [CHR 0x22] \<and> length link < length rest \<and> ends_in suffixes link
              then link # find_hrefs suffixes (drop (length link + 1) rest)
              else find_hrefs suffixes (tl s))"
  by pat_completeness auto
termination
  by (relation "measure (\<lambda>(_, s). length s)") (auto simp: Let_def)

declare find_hrefs.simps [simp del]

fun contains_text :: "string \<Rightarrow> string \<Rightarrow> bool" where
  "contains_text pat [] = (pat = [])"
| "contains_text pat (c # cs) = (take (length pat) (c # cs) = pat \<or> contains_text pat cs)"

subsection \<open>Documents\<close>

datatype fetch_error = DocumentNotAvailable | UnsupportedContentType | FetchHttp http_error | FetchValueError

record filing_document =
  doc_accession_number :: string
  doc_filing_type :: string
  doc_filing_date :: date
  doc_source_url :: string
  doc_document_url :: "string option"
  doc_mime_type :: string
  doc_content :: string
  doc_content_length :: nat
  doc_content_hash :: string
  doc_encoding :: string
  doc_plain_text :: "string option"
  doc_title :: "string option"
  doc_fetched_at :: instant
  doc_from_cache :: bool

definition detect_mime_type :: "http_response \<Rightarrow> string" where
  "detect_mime_type r =
     (let base = str_lower (str_strip (hd (split_on (CHR '';'') (case resp_content_type r of None \<Rightarrow> [] | Some t \<Rightarrow> t))))
      in if base = [] then ''application/octet-stream'' else base)"

fun charset_of :: "string list \<Rightarrow> string option" where
  "charset_of [] = None"
| "charset_of (p # ps) =
     (let part = str_strip p; cs = str_strip (drop 8 part)
      in if take 8 (str_lower part) = ''charset='' \<and> cs \<noteq> [] then Some cs else charset_of ps)"

definition detect_encoding :: "http_response \<Rightarrow> string" where
  "detect_encoding r =
     (case charset_of (split_on (CHR '';'') (case resp_content_type r of None \<Rightarrow> [] | Some t \<Rightarrow> t)) of
        Some cs \<Rightarrow> cs
      | None \<Rightarrow> (case resp_encoding r of None \<Rightarrow> ''utf-8'' | Some e \<Rightarrow> if e = [] then ''utf-8'' else e))"

text \<open>\<open>bytes.decode(encoding, errors="replace")\<close>, \<open>None\<close> for an unknown codec; and the same for UTF-8.\<close>

record text_tools =
  tt_decode :: "string \<Rightarrow> string \<Rightarrow> string option"
  tt_decode_utf8 :: "string \<Rightarrow> string"
  tt_sha256 :: "string \<Rightarrow> string"
  tt_tokens :: "string \<Rightarrow> html_event list option"

definition process_response :: "text_tools \<Rightarrow> instant \<Rightarrow> http_response \<Rightarrow> filing_meta \<Rightarrow> string \<Rightarrow> fetch_error + filing_document" where
  "process_response T now r fm source_url =
     (let mime = detect_mime_type r; enc = detect_encoding r in
      if mime = ''application/pdf'' then Inl UnsupportedContentType
      else
        let (content, enc1) = (case tt_decode T enc (resp_content r) of
              Some t \<Rightarrow> (t, enc) | None \<Rightarrow> (tt_decode_utf8 T (resp_content r), ''utf-8''));
            html = (mime \<in> {''text/html'', ''application/xhtml+xml''})
        in Inr \<lparr>doc_accession_number = fm_accession_number fm, doc_filing_type = fm_filing_type fm,
             doc_filing_date = fm_filing_date fm, doc_source_url = source_url, doc_document_url = fm_document_url fm,
             doc_mime_type = mime, doc_content = content, doc_content_length = length (resp_content r),
             doc_content_hash = tt_sha256 T content, doc_encoding = enc1,
             doc_plain_text = (if html then extract_text_from_html (tt_tokens T) content
                               else if mime = ''text/plain'' then Some content else None),
             doc_title = (if html then extract_title_from_html content else None),
             doc_fetched_at = now, doc_from_cache = False\<rparr>)"


subsection \<open>Resolving the document\<close>

definition link_candidates :: "string \<Rightarrow> string \<Rightarrow> string list" where
  "link_candidates acc html =
     filter (\<lambda>l. \<not> (let u = str_lower l in length ''-index.htm'' \<le> length u \<and> drop (length u - 10) u = ''-index.htm'')
               \<and> \<not> contains_text (str_lower (no_dashes acc)) (str_lower l))
       (find_hrefs [''.htm'', ''.html''] html)"

definition primary_filename :: "string \<Rightarrow> string \<Rightarrow> string option" where
  "primary_filename acc html =
     (case link_candidates acc html of
        l # _ \<Rightarrow> Some l
      | [] \<Rightarrow> (case find_hrefs [''.txt''] html of l # _ \<Rightarrow> Some l | [] \<Rightarrow> None))"

definition strip_slashes_left :: "string \<Rightarrow> string" where
  "strip_slashes_left = dropWhile (\<lambda>c. c = CHR ''/'')"

definition strip_slashes_right :: "string \<Rightarrow> string" where
  "strip_slashes_right s = rev (dropWhile (\<lambda>c. c = CHR ''/'') (rev s))"

definition opt_str :: "string option \<Rightarrow> string" where
  "opt_str x = (case x of None \<Rightarrow> [] | Some s \<Rightarrow> s)"

definition document_location :: "filing_meta \<Rightarrow> string \<Rightarrow> fetch_error + string" where
  "document_location fm file =
     (if take 4 file = ''http'' then Inr file
      else if fm_cik fm = [] then Inr (strip_slashes_right (opt_str (fm_filing_url fm)) @ ''/'' @ strip_slashes_left file)
      else case py_int (fm_cik fm) of
          Inl _ \<Rightarrow> Inl FetchValueError
        | Inr n \<Rightarrow> Inr (archives_base @ ''/'' @ show_int n @ ''/'' @ no_dashes (fm_accession_number fm) @ ''/'' @ strip_slashes_left file))"

definition resolve_document_url :: "('l, 'w) network \<Rightarrow> http_config \<Rightarrow> filing_meta \<Rightarrow> ('l, 'w, fetch_error, string) io" where
  "resolve_document_url N cfg fm c =
     (if opt_str (fm_document_url fm) \<noteq> [] then io_return (opt_str (fm_document_url fm)) c
      else case http_get N cfg (opt_str (fm_filing_url fm)) c of
          (None, c1) \<Rightarrow> (None, c1)
        | (Some (Inl e), c1) \<Rightarrow> io_raise DocumentNotAvailable c1
        | (Some (Inr resp), c1) \<Rightarrow>
            if resp_status resp = 404 \<or> net_status_raises N (resp_status resp) then io_raise DocumentNotAvailable c1
            else case primary_filename (fm_accession_number fm) (resp_text resp) of
                None \<Rightarrow> io_raise DocumentNotAvailable c1
              | Some file \<Rightarrow> io_lift (document_location fm file) c1)"

subsection \<open>The cache\<close>

text \<open>
  What \<open>json.dumps\<close> writes, as the object it stands for; \<open>isoformat\<close> of a date.  The time stamp
  keeps its value instead of its text, the free-form metadata is empty.
\<close>

datatype payload_value = PString string | PNumber nat | PInstant instant | PNull

type_synonym payload = "(string \<times> payload_value) list"

fun pnullable :: "string option \<Rightarrow> payload_value" where
  "pnullable None = PNull"
| "pnullable (Some s) = PString s"

definition serialize_document :: "filing_document \<Rightarrow> payload" where
  "serialize_document d =
     [(''accession_number'', PString (doc_accession_number d)), (''filing_type'', PString (doc_filing_type d)),
      (''filing_date'', PString (date_isoformat (doc_filing_date d))), (''source_url'', PString (doc_source_url d)),
      (''document_url'', pnullable (doc_document_url d)), (''mime_type'', PString (doc_mime_type d)),
      (''content'', PString (doc_content d)), (''content_length'', PNumber (doc_content_length d)),
      (''content_hash'', PString (doc_content_hash d)), (''encoding'', PString (doc_encoding d)),
      (''plain_text'', pnullable (doc_plain_text d)), (''title'', pnullable (doc_title d)),
      (''fetched_at'', PInstant (doc_fetched_at d))]"

fun req_string :: "payload \<Rightarrow> string \<Rightarrow> string option" where
  "req_string p k = (case map_of p k of Some (PString s) \<Rightarrow> Some s | _ \<Rightarrow> None)"

fun opt_string :: "payload \<Rightarrow> string \<Rightarrow> string option" where
  "opt_string p k = (case map_of p k of Some (PString s) \<Rightarrow> Some s | _ \<Rightarrow> None)"

text \<open>\<open>None\<close> stands for every exception: a missing key, a date or time stamp that does not parse.\<close>

definition deserialize_document :: "payload \<Rightarrow> filing_document option" where
  "deserialize_document p = do {
     acc \<leftarrow> req_string p ''accession_number'';
     ty \<leftarrow> req_string p ''filing_type'';
     ds \<leftarrow> req_string p ''filing_date'';
     d \<leftarrow> (case date_fromisoformat ds of Inr d \<Rightarrow> Some d | Inl _ \<Rightarrow> None);
     src \<leftarrow> req_string p ''source_url'';
     mime \<leftarrow> req_string p ''mime_type'';
     content \<leftarrow> req_string p ''content'';
     len \<leftarrow> (case map_of p ''content_length'' of Some (PNumber n) \<Rightarrow> Some n | _ \<Rightarrow> None);
     hash \<leftarrow> req_string p ''content_hash'';
     enc \<leftarrow> req_string p ''encoding'';
     stamp \<leftarrow> (case map_of p ''fetched_at'' of Some (PInstant t) \<Rightarrow> Some t | _ \<Rightarrow> None);
     Some \<lparr>doc_accession_number = acc, doc_filing_type = ty, doc_filing_date = d, doc_source_url = src,
       doc_document_url = opt_string p ''document_url'', doc_mime_type = mime, doc_content = content,
       doc_content_length = len, doc_content_hash = hash, doc_encoding = enc,
       doc_plain_text = opt_string p ''plain_text'', doc_title = opt_string p ''title'',
       doc_fetched_at = stamp, doc_from_cache = True\<rparr> }"

text \<open>
  The Redis client: a read gives the stored value or nothing, or raises (\<open>None\<close>); a write with its
  time to live gives the new store, or raises.
\<close>

record 'r doc_cache =
  cache_read :: "'r \<Rightarrow> rat \<Rightarrow> string \<Rightarrow> payload option option"
  cache_write :: "'r \<Rightarrow> rat \<Rightarrow> string \<Rightarrow> payload \<Rightarrow> nat \<Rightarrow> 'r option"
  cache_ttl :: nat

definition cache_key :: "string \<Rightarrow> string" where
  "cache_key acc = ''filing_doc:'' @ acc"

definition cache_get :: "'r doc_cache option \<Rightarrow> 'r \<Rightarrow> rat \<Rightarrow> string \<Rightarrow> filing_document option" where
  "cache_get R s now acc =
     (case R of
        None \<Rightarrow> None
      | Some K \<Rightarrow> (case cache_read K s now (cache_key acc) of
            Some (Some p) \<Rightarrow> deserialize_document p
          | _ \<Rightarrow> None))"

definition cache_set :: "'r doc_cache option \<Rightarrow> 'r \<Rightarrow> rat \<Rightarrow> filing_document \<Rightarrow> 'r" where
  "cache_set R s now d =
     (case R of
        None \<Rightarrow> s
      | Some K \<Rightarrow> (case cache_write K s now (cache_key (doc_accession_number d)) (serialize_document d) (cache_ttl K) of
            Some s' \<Rightarrow> s' | None \<Rightarrow> s))"

subsection \<open>Fetching\<close>

definition fetch_filing :: "('l, 'w) network \<Rightarrow> http_config \<Rightarrow> text_tools \<Rightarrow> 'r doc_cache option \<Rightarrow> instant \<Rightarrow> filing_meta
    \<Rightarrow> ('l, 'w) client \<Rightarrow> 'r \<Rightarrow> (fetch_error + filing_document) option \<times> ('l, 'w) client \<times> 'r" where
  "fetch_filing N cfg T R now fm c s =
     (case cache_get R s (cl_clock c) (fm_accession_number fm) of
        Some d \<Rightarrow> (Some (Inr d), c, s)
      | None \<Rightarrow>
          (case resolve_document_url N cfg fm c of
             (None, c1) \<Rightarrow> (None, c1, s)
           | (Some (Inl e), c1) \<Rightarrow> (Some (Inl e), c1, s)
           | (Some (Inr url), c1) \<Rightarrow>
               (case http_get N cfg url c1 of
                  (None, c2) \<Rightarrow> (None, c2, s)
                | (Some (Inl e), c2) \<Rightarrow> (Some (Inl (FetchHttp e)), c2, s)
                | (Some (Inr resp), c2) \<Rightarrow>
                    if resp_status resp = 404 then (Some (Inl DocumentNotAvailable), c2, s)
                    else if net_status_raises N (resp_status resp) then (Some (Inl (FetchHttp (HTTPStatusError (resp_status resp)))), c2, s)
                    else case process_response T now resp fm (resp_url resp) of
                        Inl e \<Rightarrow> (Some (Inl e), c2, s)
                      | Inr d \<Rightarrow> (Some (Inr d), c2, cache_set R s (cl_clock c2) d))))"

definition fetch_by_url :: "('l, 'w) network \<Rightarrow> http_config \<Rightarrow> text_tools \<Rightarrow> 'r doc_cache option \<Rightarrow> instant
    \<Rightarrow> string \<Rightarrow> string \<Rightarrow> string \<Rightarrow> date
    \<Rightarrow> ('l, 'w) client \<Rightarrow> 'r \<Rightarrow> (fetch_error + filing_document) option \<times> ('l, 'w) client \<times> 'r" where
  "fetch_by_url N cfg T R now url acc ty d =
     fetch_filing N cfg T R now \<lparr>fm_accession_number = acc, fm_filing_type = ty, fm_filing_date = d, fm_period_end_date = None,
       fm_cik = [], fm_ticker = None, fm_title = None, fm_filing_url = Some [], fm_document_url = Some url\<rparr>"


subsection \<open>The cache read back\<close>

lemma serialized_reads:
  assumes "date_fromisoformat (date_isoformat (doc_filing_date d)) = Inr (doc_filing_date d)"
  shows "deserialize_document (serialize_document d) = Some (d\<lparr>doc_from_cache := True\<rparr>)"
proof -
  have n: "(case pnullable x of PString s \<Rightarrow> Some s | _ \<Rightarrow> None) = x" for x by (cases x) auto
  have o: "opt_string (serialize_document d) ''document_url'' = doc_document_url d"
    "opt_string (serialize_document d) ''plain_text'' = doc_plain_text d"
    "opt_string (serialize_document d) ''title'' = doc_title d"
    using n[of "doc_document_url d"] n[of "doc_plain_text d"] n[of "doc_title d"]
    by (simp_all add: serialize_document_def split: payload_value.splits)
  show ?thesis using assms
    by (simp add: deserialize_document_def o del: opt_string.simps) (simp add: serialize_document_def)
qed

subsection \<open>Properties\<close>

text \<open>
  What the cache keeps is the document.  A document whose filing date is a calendar date is read back
  from what was written for it field by field, marked as coming from the cache.
\<close>

lemma cached_document_round_trip:
  assumes "mk_date y m d = Inr (doc_filing_date doc)"
  shows "deserialize_document (serialize_document doc) = Some (doc\<lparr>doc_from_cache := True\<rparr>)"
  using serialized_reads[OF date_isoformat_reads[OF assms]] .

text \<open>A store that keeps a value it took for its time to live.\<close>

definition keeps_for_ttl :: "'r doc_cache \<Rightarrow> bool" where
  "keeps_for_ttl K = (\<forall>s now k p s'. cache_write K s now k p (cache_ttl K) = Some s' \<longrightarrow>
     (\<forall>now'. now \<le> now' \<and> now' < now + of_nat (cache_ttl K) \<longrightarrow> cache_read K s' now' k = Some (Some p)))"

lemma fetched_for:
  assumes "fetch_filing N cfg T R now fm c s = (Some (Inr d), c', s')" and "cache_get R s (cl_clock c) (fm_accession_number fm) = None"
  shows "doc_accession_number d = fm_accession_number fm \<and> doc_filing_date d = fm_filing_date fm
    \<and> s' = cache_set R s (cl_clock c') d \<and> doc_from_cache d = False"
proof -
  obtain ru c1 where r: "resolve_document_url N cfg fm c = (ru, c1)" by fastforce
  with assms obtain url where ru: "ru = Some (Inr url)"
    by (cases ru; cases "the ru") (auto simp: fetch_filing_def)
  obtain g c2 where g: "http_get N cfg url c1 = (g, c2)" by fastforce
  with assms r ru obtain resp where gr: "g = Some (Inr resp)"
    by (cases g; cases "the g") (auto simp: fetch_filing_def)
  have "process_response T now resp fm (resp_url resp) = Inr d \<and> c' = c2 \<and> s' = cache_set R s (cl_clock c2) d"
    using assms r ru g gr by (auto simp: fetch_filing_def split: if_splits sum.splits)
  then show ?thesis by (auto simp: process_response_def Let_def split: if_splits prod.splits)
qed

text \<open>
  C35: a document is fetched once per time to live.  After a fetch that went to SEC, against a Redis that takes the
  write of that document and keeps what it took, fetching the same accession number again before the
  time to live is over returns that document, marked as cached, without sending anything, whatever the network would answer.
\<close>

lemma refetch_comes_from_cache:
  assumes "fetch_filing N cfg T (Some K) now fm c s = (Some (Inr d), c', s')"
    and "cache_get (Some K) s (cl_clock c) (fm_accession_number fm) = None"
    and "cache_write K s (cl_clock c') (cache_key (fm_accession_number fm)) (serialize_document d) (cache_ttl K) \<noteq> None"
    and "keeps_for_ttl K" and "mk_date y m dd = Inr (fm_filing_date fm)"
    and "fm_accession_number fm2 = fm_accession_number fm"
    and "cl_clock c' \<le> cl_clock c2" and "cl_clock c2 < cl_clock c' + of_nat (cache_ttl K)"
  shows "fetch_filing N2 cfg T (Some K) now2 fm2 c2 s' = (Some (Inr (d\<lparr>doc_from_cache := True\<rparr>)), c2, s')"
proof -
  note f = fetched_for[OF assms(1,2)]
  then have "cache_write K s (cl_clock c') (cache_key (fm_accession_number fm)) (serialize_document d) (cache_ttl K) = Some s'"
    using assms(3) by (auto simp: cache_set_def)
  then have "cache_read K s' (cl_clock c2) (cache_key (fm_accession_number fm)) = Some (Some (serialize_document d))"
    using assms(4,7,8) by (simp add: keeps_for_ttl_def)
  moreover have "deserialize_document (serialize_document d) = Some (d\<lparr>doc_from_cache := True\<rparr>)"
    using serialized_reads[of d] date_isoformat_reads[OF assms(5)] f by simp
  ultimately show ?thesis using assms(6) by (simp add: fetch_filing_def cache_get_def)
qed


text \<open>
  A missing document is never reported as one.  For a filing that names its document, no outcome of a
  fetch is \<open>DocumentNotAvailable\<close>, the error documented for it: behind a \<open>raise_for_status\<close> that raises
  for error statuses, a 404 leaves the request loop as an HTTP error, after it has counted against the circuit breaker.
\<close>

lemma missing_document_is_http_error:
  assumes "\<forall>st \<ge> 400. net_status_raises N st" and "0 \<le> hc_max_retries cfg"
    and "opt_str (fm_document_url fm) \<noteq> []"
    and "fetch_filing N cfg T R now fm c s = (r, c', s')"
  shows "r \<noteq> Some (Inl DocumentNotAvailable)
    \<and> (\<forall>st. r = Some (Inl (FetchHttp (HTTPStatusError st))) \<and> 400 \<le> st \<longrightarrow>
         (\<exists>b. cl_breaker c' = record_failure (hc_breaker cfg) (cl_clock c') b))"
proof (cases "cache_get R s (cl_clock c) (fm_accession_number fm)")
  case (Some d)
  with assms(4) show ?thesis by (auto simp: fetch_filing_def)
next
  case None
  define url where "url = opt_str (fm_document_url fm)"
  obtain g c2 where g: "http_get N cfg url c = (g, c2)" by fastforce
  have n: "nat (hc_max_retries cfg + 1) = Suc (nat (hc_max_retries cfg))" using assms(2) by simp
  have "(\<exists>e. g = Some (Inl (BreakerOpen e))) \<or> (\<exists>b. accounted cfg b (g, c2))"
  proof (cases "check (hc_breaker cfg) (cl_clock c) (cl_breaker c)")
    case (Inl e)
    with g have "g = Some (Inl (BreakerOpen e))" by (simp add: http_get_def)
    then show ?thesis by blast
  next
    case (Inr b)
    with get_loop_accounted[OF assms(1), of 0 "nat (hc_max_retries cfg)" cfg "c\<lparr>cl_breaker := b\<rparr>" b url None] assms(2) g
    show ?thesis by (auto simp: http_get_def n)
  qed
  moreover have "fetch_filing N cfg T R now fm c s =
      (case g of None \<Rightarrow> (None, c2, s) | Some (Inl e) \<Rightarrow> (Some (Inl (FetchHttp e)), c2, s)
       | Some (Inr resp) \<Rightarrow>
           if resp_status resp = 404 then (Some (Inl DocumentNotAvailable), c2, s)
           else if net_status_raises N (resp_status resp) then (Some (Inl (FetchHttp (HTTPStatusError (resp_status resp)))), c2, s)
           else case process_response T now resp fm (resp_url resp) of
               Inl e \<Rightarrow> (Some (Inl e), c2, s) | Inr d \<Rightarrow> (Some (Inr d), c2, cache_set R s (cl_clock c2) d))"
    using None g assms(3) by (simp add: fetch_filing_def resolve_document_url_def io_return_def url_def[symmetric] split: option.split sum.split)
  ultimately show ?thesis using assms(4)
    by (auto simp: process_response_def Let_def split: option.splits sum.splits if_splits prod.splits)
qed

text \<open>
  Inside an element whose text is skipped, and for as long as it is not closed, nothing is
  extracted.  HTML lets the end tag of \<^verbatim>\<open>head\<close> be left out: the text of such a page is lost.
\<close>

fun stays_inside :: "nat \<Rightarrow> html_event list \<Rightarrow> bool" where
  "stays_inside n [] = True"
| "stays_inside n (StartTag t # evs) = stays_inside (if str_lower t \<in> skip_tags then n + 1 else n) evs"
| "stays_inside n (EndTag t # evs) = (if str_lower t \<in> skip_tags then 1 < n \<and> stays_inside (n - 1) evs else stays_inside n evs)"
| "stays_inside n (Data d # evs) = stays_inside n evs"

lemma unclosed_element_hides_text:
  "stays_inside (te_skip_depth e) evs \<Longrightarrow> 0 < te_skip_depth e \<Longrightarrow> te_parts (fold handle_event evs e) = te_parts e"
proof (induction "te_skip_depth e" evs arbitrary: e rule: stays_inside.induct)
  case (2 t evs)
  then show ?case by (cases "str_lower t \<in> skip_tags") auto
next
  case (3 t evs)
  then show ?case by (cases "str_lower t \<in> skip_tags") auto
next
  case (4 d evs)
  then show ?case by simp
qed simp

lemma unclosed_head_page:
  "te_parts (fold handle_event [StartTag ''html'', StartTag ''HEAD'', StartTag ''title'', Data ''10-K'', EndTag ''title'',
     StartTag ''style'', Data ''p'', EndTag ''style'', StartTag ''body'', Data ''Revenue 5'', EndTag ''body''] new_extractor) = []"
  by code_simp

text \<open>
  The links of an index page to documents in the filing's own folder carry its accession number, so
  they are dropped: such a page has a document only through a \<^verbatim>\<open>.txt\<close> link, which is then appended to the folder
  although it starts at the root.
\<close>

lemma own_folder_links_dropped:
  assumes "\<forall>l \<in> set (find_hrefs [''.htm'', ''.html''] html). contains_text (str_lower (no_dashes acc)) (str_lower l)"
  shows "link_candidates acc html = []"
  using assms by (simp add: link_candidates_def filter_empty_conv)

definition quoted :: "string \<Rightarrow> string" where
  "quoted s = ''<a href='' @ [CHR 0x22] @ s @ [CHR 0x22] @ ''>''"

lemma absolute_links_page:
  "primary_filename ''0-1'' (quoted ''/Archives/edgar/data/4/01/a.htm'' @ quoted ''/Archives/edgar/data/4/01/0-1.txt'')
     = Some ''/Archives/edgar/data/4/01/0-1.txt''"
  by code_simp

subsection \<open>Instances\<close>

definition sample_tools :: text_tools where
  "sample_tools = \<lparr>tt_decode = (\<lambda>enc b. if str_lower enc = ''utf-8'' then Some b else None), tt_decode_utf8 = (\<lambda>b. b),
     tt_sha256 = (\<lambda>s. ''h'' @ s), tt_tokens = (\<lambda>s. Some [StartTag ''p'', Data '' ok '', EndTag ''p''])\<rparr>"

text \<open>A store of entries with the time they expire.\<close>

definition expiring_cache :: "(string \<times> payload \<times> rat) list doc_cache" where
  "expiring_cache = \<lparr>cache_read = (\<lambda>s now k. Some (case map_of s k of Some (p, t) \<Rightarrow> if now < t then Some p else None | None \<Rightarrow> None)),
     cache_write = (\<lambda>s now k p ttl. Some ((k, p, now + of_nat ttl) # s)), cache_ttl = 86400\<rparr>"

lemma expiring_cache_keeps: "keeps_for_ttl expiring_cache"
  by (auto simp: keeps_for_ttl_def expiring_cache_def)

definition sample_document_filing :: filing_meta where
  "sample_document_filing = \<lparr>fm_accession_number = ''0-24-9'', fm_filing_type = ''10-K'', fm_filing_date = 738918, fm_period_end_date = None,
     fm_cik = ''0000000042'', fm_ticker = None, fm_title = None, fm_filing_url = Some ''https://www.sec.gov/Archives/edgar/data/42/0249/'',
     fm_document_url = Some ''https://www.sec.gov/x''\<rparr>"

lemma sample_date: "mk_date 2024 2 2 = Inr 738918"
  by code_simp

definition sample_document :: filing_document where
  "sample_document = \<lparr>doc_accession_number = ''0-24-9'', doc_filing_type = ''10-K'', doc_filing_date = 738918,
     doc_source_url = ''https://www.sec.gov/x'', doc_document_url = Some ''https://www.sec.gov/x'', doc_mime_type = ''text/html'',
     doc_content = ''<p>ok</p>'', doc_content_length = 9, doc_content_hash = ''h<p>ok</p>'', doc_encoding = ''utf-8'',
     doc_plain_text = Some ''ok'', doc_title = None, doc_fetched_at = 7, doc_from_cache = False\<rparr>"

lemma cached_document_round_trip_witness:
  "deserialize_document (serialize_document sample_document) = Some (sample_document\<lparr>doc_from_cache := True\<rparr>)"
  by (rule cached_document_round_trip[of 2024 2 2]) (simp add: sample_date sample_document_def)

definition sample_fetch :: "(fetch_error + filing_document) option \<times> (in_process, (http_exception + http_response) list) client \<times> (string \<times> payload \<times> rat) list" where
  "sample_fetch = fetch_filing sample_network sample_http sample_tools (Some expiring_cache) 7 sample_document_filing
     (sample_client [Inr (sample_response 200)]) []"

lemma sample_fetch_miss:
  "cache_get (Some expiring_cache) [] (cl_clock (sample_client w)) (fm_accession_number sample_document_filing) = None"
  by (simp add: cache_get_def expiring_cache_def)

lemma sample_process:
  "process_response sample_tools 7 (sample_response 200) sample_document_filing (resp_url (sample_response 200)) = Inr sample_document"
  by code_simp

lemma sample_get:
  "fst (http_get sample_network sample_http ''https://www.sec.gov/x'' (sample_client [Inr (sample_response 200)])) = Some (Inr (sample_response 200))"
  by code_simp

lemma sample_fetch_runs: "\<exists>c' s'. sample_fetch = (Some (Inr sample_document), c', s')"
proof -
  obtain c2 where "http_get sample_network sample_http ''https://www.sec.gov/x'' (sample_client [Inr (sample_response 200)])
      = (Some (Inr (sample_response 200)), c2)" using sample_get by (metis prod.collapse)
  moreover have "opt_str (fm_document_url sample_document_filing) = ''https://www.sec.gov/x''"
    by (simp add: sample_document_filing_def opt_str_def)
  moreover have "net_status_raises sample_network (resp_status (sample_response 200)) = False" "resp_status (sample_response 200) = 200"
    by (simp_all add: scripted_def sample_response_def)
  ultimately show ?thesis
    by (simp add: sample_fetch_def fetch_filing_def sample_fetch_miss resolve_document_url_def sample_process)
qed

lemma refetch_comes_from_cache_witness:
  "\<exists>c' s'. fetch_filing sample_network sample_http sample_tools (Some expiring_cache) 8 sample_document_filing c' s'
     = (Some (Inr (sample_document\<lparr>doc_from_cache := True\<rparr>)), c', s')"
proof -
  obtain c' s' where "sample_fetch = (Some (Inr sample_document), c', s')"
    using sample_fetch_runs by blast
  then have f: "fetch_filing sample_network sample_http sample_tools (Some expiring_cache) 7 sample_document_filing
     (sample_client [Inr (sample_response 200)]) [] = (Some (Inr sample_document), c', s')" by (simp add: sample_fetch_def)
  have "cache_write expiring_cache [] (cl_clock c') (cache_key (fm_accession_number sample_document_filing))
      (serialize_document sample_document) (cache_ttl expiring_cache) \<noteq> None"
    by (simp add: expiring_cache_def)
  moreover have "mk_date 2024 2 2 = Inr (fm_filing_date sample_document_filing)" by (simp add: sample_date sample_document_filing_def)
  ultimately show ?thesis
    using refetch_comes_from_cache[OF f sample_fetch_miss _ expiring_cache_keeps, of 2024 2 2 sample_document_filing c']
    by (auto simp: expiring_cache_def)
qed

lemma missing_document_is_http_error_witness:
  "fst (fetch_filing sample_network sample_http sample_tools (Some expiring_cache) 7 sample_document_filing
     (sample_client [Inr (sample_response 404)]) []) \<noteq> Some (Inl DocumentNotAvailable)"
proof -
  obtain r c' s' where f: "fetch_filing sample_network sample_http sample_tools (Some expiring_cache) 7 sample_document_filing
     (sample_client [Inr (sample_response 404)]) [] = (r, c', s')" by (metis prod_cases3)
  have "opt_str (fm_document_url sample_document_filing) \<noteq> []" "0 \<le> hc_max_retries sample_http"
    by (simp_all add: sample_document_filing_def opt_str_def sample_http_def)
  from missing_document_is_http_error[OF sample_status this(2,1) f] f show ?thesis by simp
qed

end
