(* ===== verification/AIExtraction.thy ===== *)
theory AIExtraction
  imports LineItemWriter ExtractionTask Aggregation PyParse
begin

text \<open>
  AI-assisted extraction: \<^verbatim>\<open>services/extraction/extractor.py\<close> with the schemas it validates against
  (\<^verbatim>\<open>services/extraction/schema/extraction_schema.py\<close>, \<^verbatim>\<open>apps/api/schemas/financial_line_items.py\<close>) and the
  repository it stores through (\<^verbatim>\<open>apps/api/repositories/financial_line_items.py\<close>).  Parameters: the storage backend, the
  model's reply, \<open>json.loads\<close>, and Pydantic's coercion of a JSON value to a field's type (to a number:
  finite ones only); the constraints and validators the classes declare are translated.  The page geometry is computed in exact rationals.
\<close>

subsection \<open>JSON in a reply\<close>

datatype json =
    JNull | JBool bool | JInt int | JFloat rat | JString string | JArray "json list" | JObject "(string \<times> json) list"

datatype extraction_error =
    StorageError | DocumentNotFound | EmptyDocument | ClaudeAuth | ClaudeAPI | ReplyParseError | RowsRejected

definition as_array :: "(string \<Rightarrow> json option) \<Rightarrow> string \<Rightarrow> json list option" where
  "as_array loads s = (case loads s of Some (JArray xs) \<Rightarrow> Some xs | _ \<Rightarrow> None)"

definition backticks :: string where
  "backticks = replicate 3 (CHR 0x60)"

text \<open>
  The fenced pattern: three backticks, an optional \<^verbatim>\<open>json\<close>, white space, a bracket, and lazily up to the first closing
  bracket that white space and three backticks follow.
\<close>

fun fence_body :: "string \<Rightarrow> string option" where
  "fence_body [] = None"
| "fence_body (c # cs) =
     (if c = CHR '']'' \<and> take 3 (dropWhile is_space cs) = backticks then Some [c]
      else map_option ((#) c) (fence_body cs))"

fun search_fence :: "string \<Rightarrow> string option" where
  "search_fence [] = None"
| "search_fence (c # cs) =
     (if take 3 (c # cs) = backticks then
        (let r = drop 3 (c # cs); r1 = (if str_lower (take 4 r) = ''json'' then drop 4 r else r)
         in case dropWhile is_space r1 of
              d # t \<Rightarrow> if d = CHR ''['' then (case fence_body t of Some b \<Rightarrow> Some (d # b) | None \<Rightarrow> search_fence cs)
                       else search_fence cs
            | [] \<Rightarrow> search_fence cs)
      else search_fence cs)"

text \<open>The bare pattern: from the first opening bracket to the last closing one.\<close>

definition search_bare :: "string \<Rightarrow> string option" where
  "search_bare s =
     (let t = rev (dropWhile (\<lambda>c. c \<noteq> CHR '']'') (rev (dropWhile (\<lambda>c. c \<noteq> CHR ''['') s)))
      in if t = [] then None else Some t)"

definition extract_json_array :: "(string \<Rightarrow> json option) \<Rightarrow> string \<Rightarrow> extraction_error + json list" where
  "extract_json_array loads s =
     (case Option.bind (search_fence s) (as_array loads) of
        Some xs \<Rightarrow> Inr xs
      | None \<Rightarrow>
          (case Option.bind (search_bare s) (as_array loads) of
             Some xs \<Rightarrow> Inr xs
           | None \<Rightarrow> (case as_array loads (str_strip s) of Some xs \<Rightarrow> Inr xs | None \<Rightarrow> Inl ReplyParseError)))"

subsection \<open>Values\<close>

definition OUTFLOW_CONCEPT_SUBSTRINGS :: "string list" where
  "OUTFLOW_CONCEPT_SUBSTRINGS =
     [''CostOf'', ''OperatingExpense'', ''ResearchAndDevelopment'', ''SellingGeneralAndAdministrative'', ''InterestExpense'',
      ''IncomeTaxExpense'', ''DepreciationAndAmortization'', ''Depreciation'', ''Amortization'', ''LiabilitiesAndStockholdersEquity'']"

fun occurs_in :: "string \<Rightarrow> string \<Rightarrow> bool" where
  "occurs_in pat [] = (pat = [])"
| "occurs_in pat (c # cs) = (take (length pat) (c # cs) = pat \<or> occurs_in pat cs)"

definition is_outflow :: "string \<Rightarrow> bool" where
  "is_outflow cf = list_ex (\<lambda>p. occurs_in p cf) OUTFLOW_CONCEPT_SUBSTRINGS"

definition apply_sign_convention :: "decimal \<Rightarrow> string option \<Rightarrow> decimal" where
  "apply_sign_convention v cf =
     (case cf of
        None \<Rightarrow> v
      | Some f \<Rightarrow> if dec_is_zero v then v else if dec_lt (Dec 0 0) v \<and> is_outflow f then dec_neg v else v)"

text \<open>\<open>round(x, 2)\<close>, half to even.\<close>

definition round2 :: "rat \<Rightarrow> rat" where
  "round2 x = (let y = 100 * x; f = floor y; e = y - of_int f
               in of_int (if e < 1 / 2 \<or> (e = 1 / 2 \<and> even f) then f else f + 1) / 100)"

record bounding_box =
  bb_x_min :: rat
  bb_y_min :: rat
  bb_x_max :: rat
  bb_y_max :: rat

definition estimate_bounding_box :: "nat \<Rightarrow> bounding_box" where
  "estimate_bounding_box char_offset =
     (let y_min = round2 (792 * (of_nat (char_offset mod 3000) / 3000));
          y_max = min (round2 (y_min + 12)) 791
      in \<lparr>bb_x_min = 0, bb_y_min = y_min, bb_x_max = 612, bb_y_max = (if y_max \<le> y_min then y_min + 1 else y_max)\<rparr>)"

definition valid_box :: "bounding_box \<Rightarrow> bool" where
  "valid_box b = (bb_x_min b < bb_x_max b \<and> bb_y_min b < bb_y_max b)"

subsection \<open>Elements\<close>

record coercions =
  co_string :: "json \<Rightarrow> string option"
  co_int :: "json \<Rightarrow> int option"
  co_float :: "json \<Rightarrow> rat option"
  co_decimal :: "json \<Rightarrow> decimal option"

record element =
  el_concept_label :: string
  el_canonical_field :: "string option"
  el_parsed_value :: "decimal option"
  el_currency :: "string option"
  el_unit_multiplier :: int
  el_statement_type :: string
  el_page_number :: int
  el_confidence_pct :: rat

text \<open>A required field, a field that may be null, a field with a default; \<open>None\<close> is a validation error.\<close>

definition required_field :: "(json \<Rightarrow> 'a option) \<Rightarrow> (string \<times> json) list \<Rightarrow> string \<Rightarrow> 'a option" where
  "required_field f raw k = (case map_of raw k of None \<Rightarrow> None | Some v \<Rightarrow> f v)"

definition nullable_field :: "(json \<Rightarrow> 'a option) \<Rightarrow> (string \<times> json) list \<Rightarrow> string \<Rightarrow> 'a option option" where
  "nullable_field f raw k =
     (case map_of raw k of None \<Rightarrow> Some None | Some JNull \<Rightarrow> Some None | Some v \<Rightarrow> map_option Some (f v))"

definition default_field :: "(json \<Rightarrow> 'a option) \<Rightarrow> 'a \<Rightarrow> (string \<times> json) list \<Rightarrow> string \<Rightarrow> 'a option" where
  "default_field f d raw k = (case map_of raw k of None \<Rightarrow> Some d | Some v \<Rightarrow> f v)"

definition require :: "bool \<Rightarrow> unit option" where
  "require b = (if b then Some () else None)"

text \<open>A \<open>Literal\<close> of strings accepts exactly these strings.\<close>

definition literal :: "string list \<Rightarrow> json \<Rightarrow> string option" where
  "literal allowed v = (case v of JString s \<Rightarrow> if s \<in> set allowed then Some s else None | _ \<Rightarrow> None)"

definition missing :: "(string \<times> json) list \<Rightarrow> string \<Rightarrow> bool" where
  "missing raw k = (case map_of raw k of None \<Rightarrow> True | Some JNull \<Rightarrow> True | Some _ \<Rightarrow> False)"

definition coerce_box :: "coercions \<Rightarrow> json \<Rightarrow> bounding_box option" where
  "coerce_box C v =
     (case v of
        JObject b \<Rightarrow> do {
          x0 \<leftarrow> required_field (co_float C) b ''x_min''; y0 \<leftarrow> required_field (co_float C) b ''y_min'';
          x1 \<leftarrow> required_field (co_float C) b ''x_max''; y1 \<leftarrow> required_field (co_float C) b ''y_max'';
          require (x0 < x1); require (y0 < y1);
          Some \<lparr>bb_x_min = x0, bb_y_min = y0, bb_x_max = x1, bb_y_max = y1\<rparr> }
      | _ \<Rightarrow> None)"

text \<open>
  One turn of \<open>_validate_elements\<close>: a missing box or page is filled in from the index, then
  \<open>ExtractionElement(**raw)\<close>.
\<close>

definition validate_element :: "coercions \<Rightarrow> nat \<Rightarrow> json \<Rightarrow> element option" where
  "validate_element C idx v =
     (case v of
        JObject raw \<Rightarrow> do {
          box \<leftarrow> (if missing raw ''bounding_box_coordinates''
                 then (let b = estimate_bounding_box (idx * 150) in if valid_box b then Some b else None)
                 else required_field (coerce_box C) raw ''bounding_box_coordinates'');
          page \<leftarrow> (if missing raw ''page_number'' then Some (max 1 (int (idx div 20) + 1))
                  else required_field (co_int C) raw ''page_number'');
          require (1 \<le> page);
          label \<leftarrow> required_field (co_string C) raw ''concept_label'';
          cf \<leftarrow> nullable_field (co_string C) raw ''canonical_field'';
          rv \<leftarrow> required_field (co_string C) raw ''raw_value'';
          pv \<leftarrow> nullable_field (co_decimal C) raw ''parsed_value'';
          cur \<leftarrow> nullable_field (co_string C) raw ''currency'';
          require (case cur of None \<Rightarrow> True | Some s \<Rightarrow> length s = 3);
          um \<leftarrow> default_field (co_int C) 1 raw ''unit_multiplier'';
          st \<leftarrow> required_field (literal [''BS'', ''IS'', ''CF'']) raw ''statement_type'';
          conf \<leftarrow> default_field (co_float C) 0 raw ''confidence_pct'';
          require (0 \<le> conf \<and> conf \<le> 100);
          em \<leftarrow> default_field (literal [''ai'', ''pdf'', ''ocr'']) ''ai'' raw ''extraction_method'';
          Some \<lparr>el_concept_label = label, el_canonical_field = cf, el_parsed_value = pv, el_currency = cur,
            el_unit_multiplier = um, el_statement_type = st, el_page_number = page, el_confidence_pct = conf\<rparr> }
      | _ \<Rightarrow> None)"

fun validate_elements :: "coercions \<Rightarrow> nat \<Rightarrow> json list \<Rightarrow> element list \<times> nat list" where
  "validate_elements C idx [] = ([], [])"
| "validate_elements C idx (v # vs) =
     (case validate_elements C (Suc idx) vs of (es, rejected) \<Rightarrow>
        (case validate_element C idx v of
           Some e \<Rightarrow> (e # es, rejected)
         | None \<Rightarrow> (es, idx # rejected)))"


subsection \<open>Line items\<close>

record item_create =
  ic_company_id :: uuid
  ic_fiscal_year :: int
  ic_fiscal_period :: string
  ic_reporting_standard :: string
  ic_filing_date :: date
  ic_is_restated :: bool
  ic_canonical_field :: string
  ic_statement_type :: string
  ic_value_usd :: "decimal option"
  ic_value_reported :: "decimal option"
  ic_reported_currency :: "string option"
  ic_source_file_hash :: "string option"
  ic_extraction_method :: "string option"
  ic_derived_expression_formula :: "string option"

definition valid_periods :: "string list" where
  "valid_periods = [''FY'', ''Q1'', ''Q2'', ''Q3'', ''Q4'']"

definition valid_standards :: "string list" where
  "valid_standards = [''US_GAAP'', ''IFRS'', ''IND_AS'']"

text \<open>
  Validation of \<open>FinancialLineItemCreate\<close>: lengths as given, then the validators, which strip
  and change case; \<open>None\<close> is a validation error.
\<close>

definition validated :: "string list \<Rightarrow> string \<Rightarrow> string option" where
  "validated allowed s = (let u = str_upper (str_strip s) in if u \<in> set allowed then Some u else None)"

definition text_length_in :: "nat \<Rightarrow> nat \<Rightarrow> string option \<Rightarrow> bool" where
  "text_length_in lo hi s = (case s of None \<Rightarrow> True | Some x \<Rightarrow> lo \<le> length x \<and> length x \<le> hi)"

definition create_item :: "item_create \<Rightarrow> item_create option" where
  "create_item i = do {
     require (1900 \<le> ic_fiscal_year i \<and> ic_fiscal_year i \<le> 2100);
     fp \<leftarrow> validated valid_periods (ic_fiscal_period i);
     rs \<leftarrow> validated valid_standards (ic_reporting_standard i);
     require (length (ic_canonical_field i) \<le> 255);
     st \<leftarrow> validated [''IS'', ''BS'', ''CF''] (ic_statement_type i);
     require (text_length_in 3 3 (ic_reported_currency i));
     let cur = (case ic_reported_currency i of None \<Rightarrow> None
                | Some c \<Rightarrow> let u = str_upper (str_strip c) in if u = [] then None else Some u);
     require (text_length_in 64 64 (ic_source_file_hash i));
     em \<leftarrow> (case ic_extraction_method i of None \<Rightarrow> Some None
           | Some m \<Rightarrow> let l = str_lower (str_strip m)
                      in if l \<in> {''xbrl'', ''pdf'', ''ocr'', ''ai''} then Some (Some l) else None);
     require (text_length_in 0 255 (ic_derived_expression_formula i));
     require (ic_value_usd i \<noteq> None \<or> ic_value_reported i \<noteq> None);
     Some (i\<lparr>ic_fiscal_period := fp, ic_reporting_standard := rs, ic_statement_type := st,
             ic_reported_currency := cur, ic_extraction_method := em\<rparr>) }"

text \<open>What every item of one extraction shares.\<close>

record extraction_context =
  xc_company_id :: uuid
  xc_fiscal_year :: int
  xc_fiscal_period :: string
  xc_reporting_standard :: string
  xc_filing_date :: date
  xc_source_file_hash :: "string option"

text \<open>\<^verbatim>\<open>re.sub(r"[^a-zA-Z0-9]+", "_", label).strip("_")\<close>: the runs of letters and digits, joined.\<close>

definition re_word_char :: "char \<Rightarrow> bool" where
  "re_word_char c = (let n = (of_char c :: nat) in (48 \<le> n \<and> n \<le> 57) \<or> (65 \<le> n \<and> n \<le> 90) \<or> (97 \<le> n \<and> n \<le> 122))"

fun collapse :: "bool \<Rightarrow> string \<Rightarrow> string" where
  "collapse gap [] = []"
| "collapse gap (c # cs) =
     (if re_word_char c then c # collapse False cs else if gap then collapse True cs else CHR ''_'' # collapse True cs)"

definition strip_underscores :: "string \<Rightarrow> string" where
  "strip_underscores s = rev (dropWhile (\<lambda>c. c = CHR ''_'') (rev (dropWhile (\<lambda>c. c = CHR ''_'') s)))"

definition slug_of :: "string \<Rightarrow> string" where
  "slug_of label = strip_underscores (collapse False label)"

definition round0 :: "rat \<Rightarrow> int" where
  "round0 x = (let f = floor x; e = x - of_int f in if e < 1 / 2 \<or> (e = 1 / 2 \<and> even f) then f else f + 1)"

definition lineage_comment :: "element \<Rightarrow> string" where
  "lineage_comment e =
     ''[Lineage Context: AI-Assisted Non-XBRL Extraction | Document Source: Page '' @ show_int (el_page_number e)
     @ '' | Confidence: '' @ show_int (round0 (el_confidence_pct e)) @ ''%]''"

definition currency_of :: "string option \<Rightarrow> string option" where
  "currency_of c = (let u = str_upper (str_strip (case c of None \<Rightarrow> [] | Some s \<Rightarrow> s)) in if u = [] then None else Some u)"

definition canonical_of :: "element \<Rightarrow> string" where
  "canonical_of e =
     (case el_canonical_field e of
        Some (c # cs) \<Rightarrow> c # cs
      | _ \<Rightarrow> ''raw:'' @ slug_of (el_concept_label e))"

definition element_value :: "element \<Rightarrow> decimal option" where
  "element_value e =
     (case el_parsed_value e of
        None \<Rightarrow> None
      | Some p \<Rightarrow>
          let m = (if el_unit_multiplier e = 0 then Dec 1 0 else Dec (el_unit_multiplier e) 0)
          in Some (apply_sign_convention (dec_mul p m) (el_canonical_field e)))"

definition map_element :: "extraction_context \<Rightarrow> element \<Rightarrow> item_create option" where
  "map_element x e =
     (case element_value e of
        None \<Rightarrow> None
      | Some v \<Rightarrow>
          let currency = currency_of (el_currency e)
          in create_item \<lparr>ic_company_id = xc_company_id x, ic_fiscal_year = xc_fiscal_year x,
               ic_fiscal_period = xc_fiscal_period x, ic_reporting_standard = xc_reporting_standard x,
               ic_filing_date = xc_filing_date x, ic_is_restated = False, ic_canonical_field = canonical_of e,
               ic_statement_type = el_statement_type e,
               ic_value_usd = (if currency = Some ''USD'' then Some v else None), ic_value_reported = Some v,
               ic_reported_currency = currency, ic_source_file_hash = xc_source_file_hash x,
               ic_extraction_method = Some ''ai'', ic_derived_expression_formula = Some (lineage_comment e)\<rparr>)"

fun map_to_line_items :: "extraction_context \<Rightarrow> nat \<Rightarrow> element list \<Rightarrow> item_create list \<times> nat list" where
  "map_to_line_items x idx [] = ([], [])"
| "map_to_line_items x idx (e # es) =
     (case map_to_line_items x (Suc idx) es of (items, rejected) \<Rightarrow>
        (case map_element x e of
           Some i \<Rightarrow> (i # items, rejected)
         | None \<Rightarrow> (items, idx # rejected)))"

subsection \<open>The repository\<close>

definition row_from :: "uuid \<Rightarrow> instant \<Rightarrow> item_create \<Rightarrow> financial_line_item" where
  "row_from i t c =
     \<lparr>fli_id = i, fli_company_id = ic_company_id c, fli_fiscal_year = ic_fiscal_year c, fli_fiscal_period = ic_fiscal_period c,
      fli_reporting_standard = ic_reporting_standard c, fli_filing_date = ic_filing_date c, fli_is_restated = ic_is_restated c,
      fli_canonical_field = ic_canonical_field c, fli_statement_type = ic_statement_type c, fli_value_usd = ic_value_usd c,
      fli_value_reported = ic_value_reported c, fli_reported_currency = ic_reported_currency c, fli_fx_rate_used = None,
      fli_source_file_hash = ic_source_file_hash c, fli_derived_expression_formula = ic_derived_expression_formula c,
      fli_extraction_method = ic_extraction_method c, fli_created_at = t, fli_updated_at = t\<rparr>"

text \<open>\<^verbatim>\<open>INSERT \<dots> ON CONFLICT DO NOTHING\<close> on the point-in-time constraint: row by row, the rows of the statement included.\<close>

fun insert_do_nothing :: "financial_line_item list \<Rightarrow> financial_line_item list \<Rightarrow> nat \<times> financial_line_item list" where
  "insert_do_nothing [] rows = (0, rows)"
| "insert_do_nothing (r # rs) rows =
     (if point_in_time r \<in> point_in_time ` set rows then insert_do_nothing rs rows
      else case insert_do_nothing rs (rows @ [r]) of (n, rows1) \<Rightarrow> (Suc n, rows1))"

definition bulk_upsert :: "(nat \<Rightarrow> uuid) \<Rightarrow> instant \<Rightarrow> item_create list \<Rightarrow> financial_line_item list \<Rightarrow> nat \<times> financial_line_item list" where
  "bulk_upsert gen t items rows =
     (if items = [] then (0, rows)
      else insert_do_nothing (map (\<lambda>(k, i). row_from (gen k) t i) (enumerate 0 items)) rows)"

definition get_current_values :: "(string \<Rightarrow> 'k :: linorder) \<Rightarrow> uuid \<Rightarrow> int \<Rightarrow> string \<Rightarrow> financial_line_item list \<Rightarrow> financial_line_item list" where
  "get_current_values collate cid fy fp rows =
     sort_key (\<lambda>r. collate (fli_canonical_field r))
       (filter (\<lambda>r. fli_company_id r = cid \<and> fli_fiscal_year r = fy \<and> fli_fiscal_period r = fp \<and> \<not> fli_is_restated r) rows)"

definition list_by_company_period :: "(string \<Rightarrow> 'k :: linorder) \<Rightarrow> uuid \<Rightarrow> int \<Rightarrow> string \<Rightarrow> nat \<Rightarrow> nat \<Rightarrow> financial_line_item list \<Rightarrow> financial_line_item list" where
  "list_by_company_period collate cid fy fp offset limit rows =
     take limit (drop offset
       (sort_key (\<lambda>r. (- fli_filing_date r, collate (fli_canonical_field r)))
          (filter (\<lambda>r. fli_company_id r = cid \<and> fli_fiscal_year r = fy \<and> fli_fiscal_period r = fp) rows)))"

subsection \<open>The service\<close>

datatype claude_reply = ReplyText string | ReplyEmpty | ReplyNotText | ReplyAuthError | ReplyApiError

record ai_env =
  ai_api_key :: string
  ai_model :: string
  ai_retrieve :: "string \<Rightarrow> string option option"
  ai_claude :: "string \<Rightarrow> bool \<Rightarrow> claude_reply"
  ai_loads :: "string \<Rightarrow> json option"
  ai_coercions :: coercions

record ai_result =
  ar_inserted :: nat
  ar_skipped :: nat
  ar_rejected :: nat
  ar_model_version :: string
  ar_rejected_at :: "nat list"

definition fetch_text :: "ai_env \<Rightarrow> string \<Rightarrow> extraction_error + string" where
  "fetch_text E text_key =
     (case ai_retrieve E text_key of
        None \<Rightarrow> Inl StorageError
      | Some None \<Rightarrow> Inl DocumentNotFound
      | Some (Some content) \<Rightarrow> if str_strip content = [] then Inl EmptyDocument else Inr (str_strip content))"

definition call_claude :: "ai_env \<Rightarrow> string \<Rightarrow> bool \<Rightarrow> extraction_error + string" where
  "call_claude E doc truncated =
     (case ai_claude E doc truncated of
        ReplyText s \<Rightarrow> Inr s
      | ReplyEmpty \<Rightarrow> Inl ReplyParseError
      | ReplyNotText \<Rightarrow> Inl ReplyParseError
      | ReplyAuthError \<Rightarrow> Inl ClaudeAuth
      | ReplyApiError \<Rightarrow> Inl ClaudeAPI)"

definition MOCK_KEY_PREFIXES :: "string list" where
  "MOCK_KEY_PREFIXES =
     [''sk-ant-api01-thisis'', ''sk-ant-test'', ''sk-ant-api01-fake'', ''sk-ant-api01-mock'', ''sk-ant-api01-dummy'']"

definition is_mock_mode :: "string \<Rightarrow> bool" where
  "is_mock_mode key =
     (str_strip key = []
      \<or> (let k = str_strip (str_lower key)
         in k \<in> {'''', ''your-api-key-here'', ''change-me''} \<or> list_ex (\<lambda>p. take (length p) k = str_lower p) MOCK_KEY_PREFIXES))"


definition MOCK_FINANCIAL_DATA :: "(string \<times> string \<times> string \<times> string \<times> string \<times> int) list" where
  "MOCK_FINANCIAL_DATA = [
     (''Total Revenue'', ''us-gaap:Revenues'', ''IS'', ''12_450_000_000'', ''USD'', 1),
     (''Cost of Revenue'', ''us-gaap:CostOfRevenue'', ''IS'', ''7_470_000_000'', ''USD'', 1),
     (''Gross Profit'', ''us-gaap:GrossProfit'', ''IS'', ''4_980_000_000'', ''USD'', 1),
     (''Research and Development'', ''us-gaap:ResearchAndDevelopmentExpense'', ''IS'', ''890_000_000'', ''USD'', 1),
     (''Selling General and Administrative'', ''us-gaap:SellingGeneralAndAdministrativeExpense'', ''IS'', ''620_000_000'', ''USD'', 1),
     (''Operating Income'', ''us-gaap:OperatingIncomeLoss'', ''IS'', ''3_470_000_000'', ''USD'', 1),
     (''Interest Expense'', ''us-gaap:InterestExpense'', ''IS'', ''145_000_000'', ''USD'', 1),
     (''Income Tax Expense'', ''us-gaap:IncomeTaxExpense'', ''IS'', ''680_000_000'', ''USD'', 1),
     (''Net Income'', ''us-gaap:NetIncomeLoss'', ''IS'', ''2_645_000_000'', ''USD'', 1),
     (''Basic EPS'', ''us-gaap:EarningsPerShareBasic'', ''IS'', ''8.42'', ''USD'', 1),
     (''Diluted EPS'', ''us-gaap:EarningsPerShareDiluted'', ''IS'', ''8.31'', ''USD'', 1),
     (''Cash and Cash Equivalents'', ''us-gaap:CashAndCashEquivalentsAtCarryingValue'', ''BS'', ''9_200_000_000'', ''USD'', 1),
     (''Accounts Receivable'', ''us-gaap:AccountsReceivableNetCurrent'', ''BS'', ''2_100_000_000'', ''USD'', 1),
     (''Inventory'', ''us-gaap:InventoryNet'', ''BS'', ''750_000_000'', ''USD'', 1),
     (''Total Current Assets'', ''us-gaap:AssetsCurrent'', ''BS'', ''14_300_000_000'', ''USD'', 1),
     (''Total Assets'', ''us-gaap:Assets'', ''BS'', ''52_800_000_000'', ''USD'', 1),
     (''Total Current Liabilities'', ''us-gaap:LiabilitiesCurrent'', ''BS'', ''8_900_000_000'', ''USD'', 1),
     (''Long-term Debt'', ''us-gaap:LongTermDebt'', ''BS'', ''11_500_000_000'', ''USD'', 1),
     (''Total Liabilities'', ''us-gaap:Liabilities'', ''BS'', ''31_200_000_000'', ''USD'', 1),
     (''Stockholders Equity'', ''us-gaap:StockholdersEquity'', ''BS'', ''21_600_000_000'', ''USD'', 1),
     (''Operating Cash Flow'', ''us-gaap:NetCashProvidedByUsedInOperatingActivities'', ''CF'', ''3_120_000_000'', ''USD'', 1),
     (''Capital Expenditures'', ''us-gaap:PaymentsToAcquirePropertyPlantAndEquipment'', ''CF'', ''-980_000_000'', ''USD'', 1),
     (''Investing Cash Flow'', ''us-gaap:NetCashProvidedByUsedInInvestingActivities'', ''CF'', ''-1_450_000_000'', ''USD'', 1),
     (''Financing Cash Flow'', ''us-gaap:NetCashProvidedByUsedInFinancingActivities'', ''CF'', ''-870_000_000'', ''USD'', 1),
     (''Depreciation and Amortization'', ''us-gaap:DepreciationAndAmortizationCFAdjustment'', ''CF'', ''520_000_000'', ''USD'', 1)]"

text \<open>A mock record whose number does not parse, or that does not validate, is left out.\<close>

definition mock_item :: "extraction_context \<Rightarrow> string \<times> string \<times> string \<times> string \<times> string \<times> int \<Rightarrow> item_create option" where
  "mock_item x d =
     (case d of (label, cf, st, num, currency, um) \<Rightarrow>
        case py_decimal (str_strip (filter (\<lambda>c. c \<noteq> CHR ''_'') num)) of
          Finite p \<Rightarrow>
            (let v = apply_sign_convention (dec_mul p (Dec um 0)) (Some cf)
             in create_item \<lparr>ic_company_id = xc_company_id x, ic_fiscal_year = xc_fiscal_year x,
                  ic_fiscal_period = xc_fiscal_period x, ic_reporting_standard = xc_reporting_standard x,
                  ic_filing_date = xc_filing_date x, ic_is_restated = False, ic_canonical_field = cf, ic_statement_type = st,
                  ic_value_usd = (if currency = ''USD'' then Some v else None), ic_value_reported = Some v,
                  ic_reported_currency = Some currency, ic_source_file_hash = xc_source_file_hash x,
                  ic_extraction_method = Some ''ai'',
                  ic_derived_expression_formula = Some (''[MOCK] Synthetic fixture record '' @ label @ '' for FY''
                     @ show_int (xc_fiscal_year x) @ ''/'' @ xc_fiscal_period x)\<rparr>)
        | _ \<Rightarrow> None)"

definition generate_mock_result :: "(nat \<Rightarrow> uuid) \<Rightarrow> instant \<Rightarrow> extraction_context \<Rightarrow> financial_line_item list
    \<Rightarrow> ai_result \<times> financial_line_item list" where
  "generate_mock_result gen t x rows =
     (let items = List.map_filter (mock_item x) MOCK_FINANCIAL_DATA in
      case bulk_upsert gen t items rows of (n, rows1) \<Rightarrow>
        (\<lparr>ar_inserted = n, ar_skipped = length items - n, ar_rejected = 0, ar_model_version = ''mock-mode'', ar_rejected_at = []\<rparr>, rows1))"

definition MAX_TEXT_CHARS :: nat where "MAX_TEXT_CHARS = 400000"

definition run_extraction :: "ai_env \<Rightarrow> (nat \<Rightarrow> uuid) \<Rightarrow> instant \<Rightarrow> extraction_context \<Rightarrow> string \<Rightarrow> financial_line_item list
    \<Rightarrow> extraction_error + (ai_result \<times> financial_line_item list)" where
  "run_extraction E gen t x text_key rows =
     rbind (fetch_text E text_key) (\<lambda>doc.
       let truncated = (MAX_TEXT_CHARS < length doc); doc1 = (if truncated then take MAX_TEXT_CHARS doc else doc) in
       if is_mock_mode (ai_api_key E) then Inr (generate_mock_result gen t x rows)
       else
         rbind (call_claude E doc1 truncated) (\<lambda>reply.
         rbind (extract_json_array (ai_loads E) reply) (\<lambda>raw.
           let (elements, rejected1) = validate_elements (ai_coercions E) 0 raw;
               (items, rejected2) = map_to_line_items x 0 elements;
               (n, rows1) = bulk_upsert gen t items rows
           in Inr (\<lparr>ar_inserted = n, ar_skipped = length items - n, ar_rejected = length (rejected1 @ rejected2),
                   ar_model_version = ai_model E, ar_rejected_at = rejected1 @ rejected2\<rparr>, rows1))))"

subsection \<open>Bookkeeping\<close>

lemma validate_elements_count:
  "validate_elements C idx vs = (es, rejected) \<Longrightarrow> length es + length rejected = length vs"
  by (induction vs arbitrary: idx es rejected) (auto split: prod.splits option.splits)

lemma map_to_line_items_count:
  "map_to_line_items x idx es = (items, rejected) \<Longrightarrow> length items + length rejected = length es"
  by (induction es arbitrary: idx items rejected) (auto split: prod.splits option.splits)

lemma validate_elements_source:
  "validate_elements C idx vs = (es, rejected) \<Longrightarrow> e \<in> set es \<Longrightarrow> \<exists>k < length vs. validate_element C (idx + k) (vs ! k) = Some e"
proof (induction vs arbitrary: idx es rejected)
  case (Cons v vs)
  obtain es1 r1 where r: "validate_elements C (Suc idx) vs = (es1, r1)" by fastforce
  show ?case
  proof (cases "e \<in> set es1")
    case True
    from Cons.IH[OF r this] obtain k where "k < length vs" "validate_element C (Suc idx + k) (vs ! k) = Some e" by blast
    then show ?thesis by (intro exI[of _ "Suc k"]) simp
  next
    case False
    with Cons.prems r have "validate_element C idx v = Some e" by (auto split: option.splits)
    then show ?thesis by (intro exI[of _ 0]) simp
  qed
qed simp

lemma map_to_line_items_source:
  "map_to_line_items x idx es = (items, rejected) \<Longrightarrow> i \<in> set items \<Longrightarrow> \<exists>e \<in> set es. map_element x e = Some i"
proof (induction es arbitrary: idx items rejected)
  case (Cons e es)
  obtain i1 r1 where r: "map_to_line_items x (Suc idx) es = (i1, r1)" by fastforce
  with Cons.prems Cons.IH[OF r] show ?case by (auto split: option.splits)
qed simp

lemma require_Some [simp]: "require b = Some u \<longleftrightarrow> b"
  by (simp add: require_def)

lemma bind_Some_iff: "Option.bind m f = Some y \<longleftrightarrow> (\<exists>x. m = Some x \<and> f x = Some y)"
  by (cases m) auto

lemma bind_require [simp]: "Option.bind (require b) f = (if b then f () else None)"
  by (simp add: require_def)

subsection \<open>The upsert\<close>

lemma insert_key_minus: "k \<notin> A \<Longrightarrow> insert k (B - insert k A) = insert k B - A"
  by auto

lemma insert_do_nothing_result:
  "insert_do_nothing new rows = (n, rows') \<Longrightarrow>
     \<exists>ins. rows' = rows @ ins \<and> n = length ins \<and> set ins \<subseteq> set new
       \<and> (distinct (map point_in_time rows) \<longrightarrow> distinct (map point_in_time rows'))
       \<and> point_in_time ` set rows' = point_in_time ` set rows \<union> point_in_time ` set new
       \<and> point_in_time ` set ins = point_in_time ` set new - point_in_time ` set rows"
proof (induction new arbitrary: rows n)
  case (Cons r rs)
  show ?case
  proof (cases "point_in_time r \<in> point_in_time ` set rows")
    case True
    with Cons.prems have "insert_do_nothing rs rows = (n, rows')" by simp
    from Cons.IH[OF this] obtain ins where i: "rows' = rows @ ins" "n = length ins" "set ins \<subseteq> set rs"
      "distinct (map point_in_time rows) \<longrightarrow> distinct (map point_in_time rows')"
      "point_in_time ` set rows' = point_in_time ` set rows \<union> point_in_time ` set rs"
      "point_in_time ` set ins = point_in_time ` set rs - point_in_time ` set rows"
      by - (elim exE conjE, rule that, assumption+)
    moreover have "set ins \<subseteq> set (r # rs)" using i(3) by auto
    moreover have "point_in_time ` set rows \<union> point_in_time ` set (r # rs) = point_in_time ` set rows \<union> point_in_time ` set rs"
      "point_in_time ` set (r # rs) - point_in_time ` set rows = point_in_time ` set rs - point_in_time ` set rows"
      using True by auto
    ultimately show ?thesis by metis
  next
    case False
    with Cons.prems obtain m where m: "insert_do_nothing rs (rows @ [r]) = (m, rows')" "n = Suc m"
      by (auto split: prod.splits)
    from Cons.IH[OF m(1)] obtain ins where i: "rows' = (rows @ [r]) @ ins" "m = length ins" "set ins \<subseteq> set rs"
      "distinct (map point_in_time (rows @ [r])) \<longrightarrow> distinct (map point_in_time rows')"
      "point_in_time ` set rows' = point_in_time ` set (rows @ [r]) \<union> point_in_time ` set rs"
      "point_in_time ` set ins = point_in_time ` set rs - point_in_time ` set (rows @ [r])"
      by - (elim exE conjE, rule that, assumption+)
    have d: "distinct (map point_in_time rows) \<Longrightarrow> distinct (map point_in_time rows')" using i(4) False by simp
    have k: "point_in_time ` set rows' = point_in_time ` set rows \<union> point_in_time ` set (r # rs)" using i(5) by auto
    have "point_in_time ` set (r # ins) = point_in_time ` set (r # rs) - point_in_time ` set rows" using i(6) False by (simp add: insert_key_minus)
    moreover have "rows' = rows @ (r # ins)" "n = length (r # ins)" using i(1,2) m(2) by simp_all
    moreover have "set (r # ins) \<subseteq> set (r # rs)" using i(3) by auto
    ultimately show ?thesis using d k by blast
  qed
qed simp

lemma insert_do_nothing_all_known:
  "point_in_time ` set new \<subseteq> point_in_time ` set rows \<Longrightarrow> insert_do_nothing new rows = (0, rows)"
  by (induction new) auto

lemma insert_do_nothing_first_wins:
  "insert_do_nothing (r # rs) rows = (n, rows') \<Longrightarrow> point_in_time r \<notin> point_in_time ` set rows \<Longrightarrow> r \<in> set rows'"
  using insert_do_nothing_result[of rs "rows @ [r]"] by (auto split: prod.splits)


subsection \<open>Well-typed rows\<close>

text \<open>
  What the columns are meant to hold: a year, a period and a standard of the closed lists, a statement code, a three-letter
  currency in capitals, a reported value, its copy in USD exactly when that is the currency.
\<close>

definition well_typed_row :: "financial_line_item \<Rightarrow> bool" where
  "well_typed_row r \<longleftrightarrow>
     1900 \<le> fli_fiscal_year r \<and> fli_fiscal_year r \<le> 2100
     \<and> fli_fiscal_period r \<in> {''FY'', ''Q1'', ''Q2'', ''Q3'', ''Q4''}
     \<and> fli_reporting_standard r \<in> {''US_GAAP'', ''IFRS'', ''IND_AS''}
     \<and> fli_statement_type r \<in> {''IS'', ''BS'', ''CF''}
     \<and> length (fli_canonical_field r) \<le> 255
     \<and> (case fli_reported_currency r of None \<Rightarrow> True | Some c \<Rightarrow> length c = 3 \<and> str_upper c = c)
     \<and> fli_value_reported r \<noteq> None
     \<and> fli_value_usd r = (if fli_reported_currency r = Some ''USD'' then fli_value_reported r else None)
     \<and> (case fli_source_file_hash r of None \<Rightarrow> True | Some h \<Rightarrow> length h = 64)
     \<and> fli_extraction_method r = Some ''ai'' \<and> \<not> fli_is_restated r"

definition row_of_context :: "extraction_context \<Rightarrow> financial_line_item \<Rightarrow> bool" where
  "row_of_context x r \<longleftrightarrow> fli_company_id r = xc_company_id x \<and> fli_fiscal_year r = xc_fiscal_year x \<and> fli_filing_date r = xc_filing_date x"

lemma validated_Some: "validated allowed s = Some u \<longleftrightarrow> u = str_upper (str_strip s) \<and> u \<in> set allowed"
  by (auto simp: validated_def Let_def)

lemma validated_in: "validated allowed s = Some u \<Longrightarrow> u \<in> set allowed"
  by (auto simp: validated_def Let_def split: if_splits)

lemma ai_method: "str_lower (str_strip ''ai'') = ''ai''"
  by code_simp

text \<open>An item that is created from a currency already in normal form gives a well-typed row.\<close>

lemma create_item_types:
  assumes "create_item i = Some c" and "ic_extraction_method i = Some ''ai''" and "\<not> ic_is_restated i"
    and "case ic_reported_currency i of None \<Rightarrow> True | Some s \<Rightarrow> str_upper (str_strip s) = s"
    and "ic_value_reported i \<noteq> None"
    and "ic_value_usd i = (if ic_reported_currency i = Some ''USD'' then ic_value_reported i else None)"
  shows "well_typed_row (row_from k t c)"
    and "ic_company_id c = ic_company_id i \<and> ic_fiscal_year c = ic_fiscal_year i \<and> ic_filing_date c = ic_filing_date i
      \<and> ic_canonical_field c = ic_canonical_field i \<and> ic_value_reported c = ic_value_reported i"
proof -
  obtain fp rs st where v: "validated valid_periods (ic_fiscal_period i) = Some fp"
    "validated valid_standards (ic_reporting_standard i) = Some rs"
    "validated [''IS'', ''BS'', ''CF''] (ic_statement_type i) = Some st"
    using assms(1) by (auto simp: create_item_def bind_Some_iff split: if_splits)
  have g: "1900 \<le> ic_fiscal_year i \<and> ic_fiscal_year i \<le> 2100" "length (ic_canonical_field i) \<le> 255"
    "text_length_in 3 3 (ic_reported_currency i)" "text_length_in 64 64 (ic_source_file_hash i)"
    using assms(1) v by (auto simp: create_item_def Let_def split: if_splits)
  have cur: "(case ic_reported_currency i of None \<Rightarrow> None
        | Some s \<Rightarrow> let u = str_upper (str_strip s) in if u = [] then None else Some u) = ic_reported_currency i"
    using assms(4) g(3) by (auto simp: text_length_in_def Let_def split: option.splits)
  have c: "c = i\<lparr>ic_fiscal_period := fp, ic_reporting_standard := rs, ic_statement_type := st,
      ic_reported_currency := ic_reported_currency i, ic_extraction_method := Some ''ai''\<rparr>"
    using assms(1,2) v g by (simp add: create_item_def cur ai_method Let_def split: if_splits)
  have m: "fp \<in> {''FY'', ''Q1'', ''Q2'', ''Q3'', ''Q4''}" "rs \<in> {''US_GAAP'', ''IFRS'', ''IND_AS''}" "st \<in> {''IS'', ''BS'', ''CF''}"
    using v[THEN validated_in] by (simp_all add: valid_periods_def valid_standards_def)
  have u: "case ic_reported_currency i of None \<Rightarrow> True | Some s \<Rightarrow> length s = 3 \<and> str_upper s = s"
    using assms(4) g(3) str_upper_idem by (cases "ic_reported_currency i") (auto simp: text_length_in_def, metis str_upper_idem)
  have h: "case ic_source_file_hash i of None \<Rightarrow> True | Some h \<Rightarrow> length h = 64"
    using g(4) by (auto simp: text_length_in_def split: option.splits)
  show "well_typed_row (row_from k t c)"
    unfolding well_typed_row_def c using g(1,2) m u h assms(3,5,6) by (simp add: row_from_def)
  show "ic_company_id c = ic_company_id i \<and> ic_fiscal_year c = ic_fiscal_year i \<and> ic_filing_date c = ic_filing_date i
      \<and> ic_canonical_field c = ic_canonical_field i \<and> ic_value_reported c = ic_value_reported i"
    by (simp add: c)
qed

lemma currency_of_normal: "case currency_of c of None \<Rightarrow> True | Some s \<Rightarrow> str_upper (str_strip s) = s"
  by (auto simp: currency_of_def Let_def str_strip_upper)

lemma map_element_types:
  assumes "map_element x e = Some c"
  shows "well_typed_row (row_from k t c) \<and> row_of_context x (row_from k t c)
    \<and> fli_canonical_field (row_from k t c) = canonical_of e \<and> fli_value_reported (row_from k t c) = element_value e"
proof -
  obtain v where v: "element_value e = Some v" using assms by (cases "element_value e") (auto simp: map_element_def)
  define i where "i = \<lparr>ic_company_id = xc_company_id x, ic_fiscal_year = xc_fiscal_year x,
     ic_fiscal_period = xc_fiscal_period x, ic_reporting_standard = xc_reporting_standard x,
     ic_filing_date = xc_filing_date x, ic_is_restated = False, ic_canonical_field = canonical_of e,
     ic_statement_type = el_statement_type e,
     ic_value_usd = (if currency_of (el_currency e) = Some ''USD'' then Some v else None), ic_value_reported = Some v,
     ic_reported_currency = currency_of (el_currency e), ic_source_file_hash = xc_source_file_hash x,
     ic_extraction_method = Some ''ai'', ic_derived_expression_formula = Some (lineage_comment e)\<rparr>"
  have c: "create_item i = Some c" using assms v by (simp add: map_element_def Let_def i_def)
  have i: "ic_extraction_method i = Some ''ai''" "\<not> ic_is_restated i" "ic_value_reported i \<noteq> None"
    "case ic_reported_currency i of None \<Rightarrow> True | Some s \<Rightarrow> str_upper (str_strip s) = s"
    "ic_value_usd i = (if ic_reported_currency i = Some ''USD'' then ic_value_reported i else None)"
    using currency_of_normal[of "el_currency e"] by (simp_all add: i_def)
  have w: "well_typed_row (row_from k t c)" by (rule create_item_types(1)[OF c i(1,2,4,3,5)])
  have "ic_company_id c = xc_company_id x \<and> ic_fiscal_year c = xc_fiscal_year x \<and> ic_filing_date c = xc_filing_date x
      \<and> ic_canonical_field c = canonical_of e \<and> ic_value_reported c = Some v"
    using create_item_types(2)[OF c i(1,2,4,3,5)] by (simp add: i_def)
  with w v show ?thesis by (simp add: row_of_context_def) (simp add: row_from_def)
qed


lemma mock_item_types:
  assumes "mock_item x d = Some c" and "d \<in> set MOCK_FINANCIAL_DATA"
  shows "well_typed_row (row_from k t c) \<and> row_of_context x (row_from k t c)
    \<and> CHR '':'' \<in> set (fli_canonical_field (row_from k t c))"
proof -
  obtain label cf st num cur um where d: "d = (label, cf, st, num, cur, um)" by (metis prod_cases6)
  have all: "list_all (\<lambda>(label, cf, st, num, cur, um). cur = ''USD'' \<and> CHR '':'' \<in> set cf) MOCK_FINANCIAL_DATA"
    by code_simp
  have cur: "cur = ''USD''" and cf: "CHR '':'' \<in> set cf" using all assms(2) by (auto simp: d list_all_iff)
  obtain p where p: "py_decimal (str_strip (filter (\<lambda>c. c \<noteq> CHR ''_'') num)) = Finite p"
    using assms(1) by (auto simp: mock_item_def d split: dec_literal.splits)
  define v where "v = apply_sign_convention (dec_mul p (Dec um 0)) (Some cf)"
  define i where "i = \<lparr>ic_company_id = xc_company_id x, ic_fiscal_year = xc_fiscal_year x,
     ic_fiscal_period = xc_fiscal_period x, ic_reporting_standard = xc_reporting_standard x,
     ic_filing_date = xc_filing_date x, ic_is_restated = False, ic_canonical_field = cf, ic_statement_type = st,
     ic_value_usd = (if cur = ''USD'' then Some v else None), ic_value_reported = Some v,
     ic_reported_currency = Some cur, ic_source_file_hash = xc_source_file_hash x, ic_extraction_method = Some ''ai'',
     ic_derived_expression_formula = Some (''[MOCK] Synthetic fixture record '' @ label @ '' for FY''
       @ show_int (xc_fiscal_year x) @ ''/'' @ xc_fiscal_period x)\<rparr>"
  have "mock_item x d = create_item i"
    unfolding mock_item_def d prod.case p dec_literal.case Let_def v_def i_def ..
  then have c: "create_item i = Some c" using assms(1) by simp
  have usd: "str_upper (str_strip ''USD'') = ''USD''" by code_simp
  have i: "ic_extraction_method i = Some ''ai''" "\<not> ic_is_restated i"
    "case ic_reported_currency i of None \<Rightarrow> True | Some s \<Rightarrow> str_upper (str_strip s) = s"
    "ic_value_reported i \<noteq> None"
    "ic_value_usd i = (if ic_reported_currency i = Some ''USD'' then ic_value_reported i else None)"
    by (simp_all add: i_def cur usd)
  show ?thesis
    using create_item_types[OF c i] cf by (simp add: i_def row_from_def row_of_context_def)
qed

lemma bulk_upsert_result:
  assumes "bulk_upsert gen t items rows = (n, rows')"
  shows "\<exists>ins. rows' = rows @ ins \<and> n = length ins \<and> set ins \<subseteq> {row_from (gen k) t i |k i. i \<in> set items}
    \<and> (distinct (map point_in_time rows) \<longrightarrow> distinct (map point_in_time rows'))
    \<and> point_in_time ` set rows' = point_in_time ` set rows \<union> (\<lambda>i. point_in_time (row_from (gen 0) t i)) ` set items"
proof (cases "items = []")
  case True
  with assms show ?thesis by (simp add: bulk_upsert_def)
next
  case False
  let ?new = "map (\<lambda>(k, i). row_from (gen k) t i) (enumerate 0 items)"
  have pit: "point_in_time (row_from a b i) = point_in_time (row_from c d i)" for a b c d i
    by (simp add: row_from_def point_in_time_def)
  have sub: "set ?new \<subseteq> {row_from (gen k) t i |k i. i \<in> set items}"
    by (auto simp: enumerate_eq_zip dest: set_zip_rightD)
  have "point_in_time ` set ?new = (\<lambda>i. point_in_time (row_from (gen 0) t i)) ` snd ` set (enumerate 0 items)"
    using pit by (force simp: image_image)
  also have "snd ` set (enumerate 0 items) = set items"
    by (metis map_snd_enumerate set_map)
  finally have keys: "point_in_time ` set ?new = (\<lambda>i. point_in_time (row_from (gen 0) t i)) ` set items" .
  have "insert_do_nothing ?new rows = (n, rows')" using assms False by (simp add: bulk_upsert_def)
  from insert_do_nothing_result[OF this] obtain ins where "rows' = rows @ ins" "n = length ins" "set ins \<subseteq> set ?new"
    "distinct (map point_in_time rows) \<longrightarrow> distinct (map point_in_time rows')"
    "point_in_time ` set rows' = point_in_time ` set rows \<union> point_in_time ` set ?new"
    by - (elim exE conjE, rule that, assumption+)
  moreover from this(3) sub have "set ins \<subseteq> {row_from (gen k) t i |k i. i \<in> set items}" by (rule subset_trans)
  ultimately show ?thesis unfolding keys by (intro exI[of _ ins] conjI)
qed


lemma bulk_upsert_known:
  "(\<lambda>i. point_in_time (row_from (gen 0) t i)) ` set items \<subseteq> point_in_time ` set rows \<Longrightarrow> bulk_upsert gen t items rows = (0, rows)"
proof -
  assume sub: "(\<lambda>i. point_in_time (row_from (gen 0) t i)) ` set items \<subseteq> point_in_time ` set rows"
  have "point_in_time (row_from a t i) = point_in_time (row_from b t i)" for a b i
    by (simp add: row_from_def point_in_time_def)
  then have "point_in_time ` set (map (\<lambda>(k, i). row_from (gen k) t i) (enumerate 0 items)) \<subseteq> point_in_time ` set rows"
    using sub by (fastforce simp: enumerate_eq_zip dest: set_zip_rightD)
  then show ?thesis by (simp add: bulk_upsert_def insert_do_nothing_all_known)
qed

text \<open>The elements the service can accept from its model.\<close>

definition replied_element :: "ai_env \<Rightarrow> element \<Rightarrow> bool" where
  "replied_element E e \<longleftrightarrow> (\<exists>doc b reply raw es rejected. ai_claude E doc b = ReplyText reply
     \<and> extract_json_array (ai_loads E) reply = Inr raw
     \<and> validate_elements (ai_coercions E) 0 raw = (es, rejected) \<and> e \<in> set es)"

text \<open>What the two modes of the service hand to the repository.\<close>

lemma run_extraction_cases:
  assumes "run_extraction E gen t x text_key rows = Inr (r, rows')"
  obtains items where "bulk_upsert gen t items rows = (ar_inserted r, rows')"
    and "ar_skipped r = length items - ar_inserted r"
    and "\<forall>i \<in> set items. (\<exists>d \<in> set MOCK_FINANCIAL_DATA. mock_item x d = Some i) \<or> (\<exists>e. replied_element E e \<and> map_element x e = Some i)"
    and "is_mock_mode (ai_api_key E) \<longrightarrow> items = List.map_filter (mock_item x) MOCK_FINANCIAL_DATA"
    and "\<not> is_mock_mode (ai_api_key E) \<longrightarrow> (\<exists>reply raw. extract_json_array (ai_loads E) reply = Inr raw
        \<and> length items + ar_rejected r = length raw)"
proof -
  from assms obtain doc where "fetch_text E text_key = Inr doc" by (auto simp: run_extraction_def rbind_eq_Inr)
  note run = assms[unfolded run_extraction_def this rbind_Inr Let_def]
  show ?thesis
  proof (cases "is_mock_mode (ai_api_key E)")
    case True
    define items where "items = List.map_filter (mock_item x) MOCK_FINANCIAL_DATA"
    obtain n rows1 where b: "bulk_upsert gen t items rows = (n, rows1)" by fastforce
    have "ar_inserted r = n" "rows1 = rows'" "ar_skipped r = length items - n"
      using run True b by (auto simp: generate_mock_result_def items_def[symmetric] Let_def)
    moreover have "\<forall>i \<in> set items. \<exists>d \<in> set MOCK_FINANCIAL_DATA. mock_item x d = Some i"
      by (auto simp: items_def List.map_filter_def)
    ultimately show ?thesis using that[of items] b True by (simp add: items_def)
  next
    case False
    with run obtain trunc reply raw where claude: "call_claude E (if trunc then take MAX_TEXT_CHARS doc else doc) trunc = Inr reply"
      and reply: "extract_json_array (ai_loads E) reply = Inr raw"
      and rest: "(let (elements, rejected1) = validate_elements (ai_coercions E) 0 raw;
               (items, rejected2) = map_to_line_items x 0 elements;
               (n, rows1) = bulk_upsert gen t items rows
           in Inr (\<lparr>ar_inserted = n, ar_skipped = length items - n, ar_rejected = length (rejected1 @ rejected2),
                   ar_model_version = ai_model E, ar_rejected_at = rejected1 @ rejected2\<rparr>, rows1)) = (Inr (r, rows') :: extraction_error + _)"
      by (auto simp: rbind_eq_Inr Let_def)
    obtain es r1 where v: "validate_elements (ai_coercions E) 0 raw = (es, r1)" by fastforce
    obtain items r2 where m: "map_to_line_items x 0 es = (items, r2)" by fastforce
    obtain n rows1 where b: "bulk_upsert gen t items rows = (n, rows1)" by fastforce
    have "ar_inserted r = n" "rows1 = rows'" "ar_skipped r = length items - n" "ar_rejected r = length r1 + length r2"
      using rest v m b by auto
    moreover have "replied_element E e" if "e \<in> set es" for e
    proof -
      have "ai_claude E (if trunc then take MAX_TEXT_CHARS doc else doc) trunc = ReplyText reply"
        using claude by (auto simp: call_claude_def split: claude_reply.splits)
      with reply v that show ?thesis unfolding replied_element_def by blast
    qed
    then have "\<forall>i \<in> set items. \<exists>e. replied_element E e \<and> map_element x e = Some i"
      using map_to_line_items_source[OF m] by blast
    moreover have "length items + (length r1 + length r2) = length raw"
      using validate_elements_count[OF v] map_to_line_items_count[OF m] by simp
    ultimately show ?thesis using that[of items] b False reply by auto
  qed
qed

subsection \<open>Properties\<close>

text \<open>
  C18: what extraction stores is well typed.  Whatever the model replies, a run that returns only appends
  rows; every new row belongs to the company, year and filing date it was asked for and holds a closed-list
  year, period, standard, statement and currency, a reported value, and its copy in USD exactly
  when the currency is USD.
\<close>

lemma extraction_stores_well_typed_rows:
  assumes "run_extraction E gen t x text_key rows = Inr (r, rows')"
  shows "\<exists>new. rows' = rows @ new \<and> length new = ar_inserted r \<and> (\<forall>row \<in> set new. well_typed_row row \<and> row_of_context x row)"
proof -
  obtain items where b: "bulk_upsert gen t items rows = (ar_inserted r, rows')"
    and s: "ar_skipped r = length items - ar_inserted r"
    and i: "\<forall>i \<in> set items. (\<exists>d \<in> set MOCK_FINANCIAL_DATA. mock_item x d = Some i) \<or> (\<exists>e. replied_element E e \<and> map_element x e = Some i)"
    and mock: "is_mock_mode (ai_api_key E) \<longrightarrow> items = List.map_filter (mock_item x) MOCK_FINANCIAL_DATA"
    and live: "\<not> is_mock_mode (ai_api_key E) \<longrightarrow> (\<exists>reply raw. extract_json_array (ai_loads E) reply = Inr raw
        \<and> length items + ar_rejected r = length raw)"
    by (rule run_extraction_cases[OF assms])
  obtain ins where ins: "rows' = rows @ ins" "ar_inserted r = length ins" "set ins \<subseteq> {row_from (gen k) t i |k i. i \<in> set items}"
    using bulk_upsert_result[OF b] by blast
  have "well_typed_row row \<and> row_of_context x row" if "row \<in> set ins" for row
  proof -
    from that ins(3) obtain k i where "row = row_from (gen k) t i" "i \<in> set items" by blast
    with i mock_item_types[of x _ i "gen k" t] map_element_types[of x _ i "gen k" t] show ?thesis by blast
  qed
  with ins show ?thesis by auto
qed

text \<open>
  Nothing the model said is lost silently.  In a live run, the elements of the reply are each
  inserted, skipped as already stored, or rejected: the three counts of the result add up to the length of the array.
\<close>

lemma extraction_accounts_for_every_element:
  assumes "run_extraction E gen t x text_key rows = Inr (r, rows')" and "\<not> is_mock_mode (ai_api_key E)"
  shows "\<exists>reply raw. extract_json_array (ai_loads E) reply = Inr raw
    \<and> ar_inserted r + ar_skipped r + ar_rejected r = length raw"
proof -
  obtain items where b: "bulk_upsert gen t items rows = (ar_inserted r, rows')"
    and s: "ar_skipped r = length items - ar_inserted r"
    and i: "\<forall>i \<in> set items. (\<exists>d \<in> set MOCK_FINANCIAL_DATA. mock_item x d = Some i) \<or> (\<exists>e. replied_element E e \<and> map_element x e = Some i)"
    and mock: "is_mock_mode (ai_api_key E) \<longrightarrow> items = List.map_filter (mock_item x) MOCK_FINANCIAL_DATA"
    and live: "\<not> is_mock_mode (ai_api_key E) \<longrightarrow> (\<exists>reply raw. extract_json_array (ai_loads E) reply = Inr raw
        \<and> length items + ar_rejected r = length raw)"
    by (rule run_extraction_cases[OF assms(1)])
  have le: "ar_inserted r \<le> length items"
  proof -
    have "fst (insert_do_nothing new rows0) \<le> length new" for new rows0
      by (induction new arbitrary: rows0) (auto split: prod.split intro: le_SucI, metis fst_conv)
    from this[of "map (\<lambda>(k, i). row_from (gen k) t i) (enumerate 0 items)" rows] b show ?thesis
      by (auto simp: bulk_upsert_def split: if_splits)
  qed
  obtain reply raw where "extract_json_array (ai_loads E) reply = Inr raw" "length items + ar_rejected r = length raw"
    using live assms(2) by blast
  moreover have "ar_inserted r + ar_skipped r + ar_rejected r = length items + ar_rejected r" using le s by simp
  ultimately show ?thesis by metis
qed


text \<open>
  C27: the upsert is append-only and idempotent.  It appends as many rows as it reports, keeps the
  point-in-time constraint, leaves every point of its batch stored, and sent again (with new ids, at another time)
  the same batch changes nothing.
\<close>

lemma upsert_appends_and_repeats_safely:
  assumes "bulk_upsert gen t items rows = (n, rows')" and "distinct (map point_in_time rows)"
  shows "(\<exists>new. rows' = rows @ new \<and> length new = n) \<and> distinct (map point_in_time rows')
    \<and> (\<forall>i \<in> set items. \<exists>row \<in> set rows'. point_in_time row = (ic_company_id i, ic_fiscal_year i, ic_fiscal_period i, ic_canonical_field i, ic_filing_date i))
    \<and> bulk_upsert gen' t' items rows' = (0, rows')"
proof -
  obtain ins where ins: "rows' = rows @ ins" "n = length ins"
    "distinct (map point_in_time rows) \<longrightarrow> distinct (map point_in_time rows')"
    and keys: "point_in_time ` set rows' = point_in_time ` set rows \<union> (\<lambda>i. point_in_time (row_from (gen 0) t i)) ` set items"
    using bulk_upsert_result[OF assms(1)] by (elim exE conjE) (rule that)
  have pit: "point_in_time (row_from a b i) = (ic_company_id i, ic_fiscal_year i, ic_fiscal_period i, ic_canonical_field i, ic_filing_date i)"
    for a b i by (simp add: row_from_def point_in_time_def)
  have "\<exists>row \<in> set rows'. point_in_time row = (ic_company_id i, ic_fiscal_year i, ic_fiscal_period i, ic_canonical_field i, ic_filing_date i)"
    if "i \<in> set items" for i
  proof -
    have "point_in_time (row_from (gen 0) t i) \<in> point_in_time ` set rows'" unfolding keys using that by blast
    then show ?thesis by (auto simp: pit)
  qed
  moreover have "bulk_upsert gen' t' items rows' = (0, rows')"
    by (rule bulk_upsert_known) (use keys in \<open>auto simp: pit\<close>)
  ultimately show ?thesis using ins assms(2) by blast
qed

text \<open>
  The sign convention drops the direction of an outflow.  A value of an outflow concept is stored as
  the negative of its size, whichever sign it was read with: an income tax benefit becomes an income tax expense of the same
  amount.  Every other value keeps its sign.
\<close>

lemma sign_convention_drops_direction:
  "dval (apply_sign_convention v cf) = (if (\<exists>f. cf = Some f \<and> is_outflow f) then - \<bar>dval v\<bar> else dval v)"
proof -
  have z: "dec_is_zero v \<longleftrightarrow> dval v = 0" by (simp add: dec_is_zero_def)
  have l: "dec_lt (Dec 0 0) v \<longleftrightarrow> 0 < dval v" by (simp add: dec_lt_iff dval_Dec)
  show ?thesis by (cases cf) (auto simp: apply_sign_convention_def z l)
qed

lemma totals_and_contra_assets_are_outflows:
  "is_outflow ''us-gaap:LiabilitiesAndStockholdersEquity'' \<and> is_outflow ''us-gaap:AccumulatedDepreciation''
   \<and> is_outflow ''us-gaap:DepreciationAndAmortizationCFAdjustment'' \<and> \<not> is_outflow ''us-gaap:PaymentsToAcquirePropertyPlantAndEquipment''"
  by code_simp

text \<open>
  Extraction never restates.  Storing a value for a point whose context already has a current
  row from another filing leaves both rows current, which the ingestion writer never does.
\<close>

lemma extraction_leaves_two_current_rows:
  assumes "old \<in> set rows" and "\<not> fli_is_restated old" and "map_element x e = Some c"
    and "row_key old = (ic_company_id c, ic_fiscal_year c, ic_fiscal_period c, ic_canonical_field c)"
    and "ic_filing_date c \<notin> fli_filing_date ` {r \<in> set rows. row_key r = row_key old}"
    and "bulk_upsert gen t [c] rows = (n, rows')"
  shows "n = 1 \<and> \<not> current_unique rows'"
proof -
  have nr: "\<not> ic_is_restated c"
    using map_element_types[OF assms(3), of "gen 0" t] by (simp add: well_typed_row_def row_from_def)
  let ?r = "row_from (gen 0) t c"
  have k: "row_key ?r = row_key old" using assms(4) by (simp add: row_key_def row_from_def)
  have "point_in_time ?r \<notin> point_in_time ` set rows"
  proof
    assume "point_in_time ?r \<in> point_in_time ` set rows"
    then obtain r where r: "r \<in> set rows" "point_in_time r = point_in_time ?r" by auto
    then have "row_key r = row_key ?r" "fli_filing_date r = fli_filing_date ?r"
      by (simp_all add: point_in_time_def row_key_def)
    with r(1) k assms(5) show False by (simp add: row_from_def image_iff) (metis (mono_tags, lifting))
  qed
  then have "bulk_upsert gen t [c] rows = (1, rows @ [?r])" by (simp add: bulk_upsert_def)
  moreover have "current ?r" using nr by (simp add: current_def row_from_def)
  moreover have "row_key ?r \<in> row_key ` set (filter current rows)"
    using assms(1,2) k by (force simp: current_def)
  ultimately show ?thesis using assms(6) by (auto simp: current_unique_def)
qed

text \<open>Tags with a taxonomy prefix in the aggregation views.\<close>

lemma presented_keys_have_no_prefix: "list_all (\<lambda>(k, c). CHR '':'' \<notin> set k) CANONICAL_TO_PRESENTATION"
  by code_simp

lemma category_value_has_no_prefix: "CHR '':'' \<notin> set (category_value c)"
  by (cases c) simp_all

definition prefixed :: "string \<Rightarrow> bool" where
  "prefixed s = (CHR '':'' \<in> set s)"

text \<open>Two states that agree on everything without a prefix.\<close>

definition agree :: "profile_state \<Rightarrow> profile_state \<Rightarrow> bool" where
  "agree st st0 \<longleftrightarrow> (\<forall>k. \<not> prefixed k \<longrightarrow>
     (k \<in> set (seen_canonical st) \<longleftrightarrow> k \<in> set (seen_canonical st0))
     \<and> map_of (category_occupant st) k = map_of (category_occupant st0) k
     \<and> map_of (raw_values st) k = map_of (raw_values st0) k)"

lemma agree_refl: "agree st st"
  by (simp add: agree_def)

text \<open>A row with a prefix occupies only a category of its own name.\<close>

lemma key_prefixed: "prefixed (category_key (category_of s)) \<longleftrightarrow> prefixed s"
proof (cases "map_of CANONICAL_TO_PRESENTATION s")
  case None
  then show ?thesis by (simp add: category_of_def)
next
  case (Some c)
  then have "\<not> prefixed s" using presented_keys_have_no_prefix map_of_SomeD[OF Some] by (auto simp: list_all_iff prefixed_def)
  with Some show ?thesis using category_value_has_no_prefix[of c] by (simp add: category_of_def prefixed_def)
qed

lemma step_prefixed:
  assumes "profile_step r st = Inr st'" and "prefixed (fli_canonical_field r)" and "agree st st0"
  shows "agree st' st0"
proof -
  have "prefixed (category_key (category_of (fli_canonical_field r)))" using assms(2) key_prefixed by simp
  with assms show ?thesis
    by (auto simp: profile_step_def Let_def agree_def count_row_def rbind_eq_Inr AList.update_conv' split: if_splits)
qed

lemma step_unprefixed:
  assumes "profile_step r st = Inr st'" and "\<not> prefixed (fli_canonical_field r)" and "agree st st0"
  shows "\<exists>st0'. profile_step r st0 = Inr st0' \<and> agree st' st0'"
proof -
  let ?f = "fli_canonical_field r"
  have k: "\<not> prefixed (category_key (category_of ?f))" using assms(2) key_prefixed by simp
  then have "map_of (category_occupant st0) (category_key (category_of ?f)) = map_of (category_occupant st) (category_key (category_of ?f))"
    "?f \<in> set (seen_canonical st0) \<longleftrightarrow> ?f \<in> set (seen_canonical st)"
    using assms(2,3) by (simp_all add: agree_def)
  with assms show ?thesis
    by (auto simp: profile_step_def Let_def agree_def count_row_def rbind_eq_Inr AList.update_conv' split: if_splits)
qed

lemma loop_agrees:
  "profile_loop rows st = Inr st' \<Longrightarrow> agree st st0 \<Longrightarrow>
     \<exists>st0'. profile_loop (filter (\<lambda>r. \<not> prefixed (fli_canonical_field r)) rows) st0 = Inr st0' \<and> agree st' st0'"
proof (induction rows arbitrary: st st0)
  case (Cons r rows)
  from Cons.prems(1) obtain st1 where st1: "profile_step r st = Inr st1" "profile_loop rows st1 = Inr st'"
    by (auto simp: rbind_eq_Inr)
  show ?case
  proof (cases "prefixed (fli_canonical_field r)")
    case True
    with Cons.IH[OF st1(2) step_prefixed[OF st1(1) True Cons.prems(2)]] show ?thesis by simp
  next
    case False
    from step_unprefixed[OF st1(1) False Cons.prems(2)] obtain st2 where "profile_step r st0 = Inr st2" "agree st1 st2" by blast
    with Cons.IH[OF st1(2), of st2] False show ?thesis by simp
  qed
qed simp

lemma build_profile_loop:
  assumes "build_normalized_profile collate rows company fy fp = Inr p"
  shows "\<exists>st. profile_loop (fetch_rows collate rows company fy fp) profile_start = Inr st \<and> np_values p = raw_values st"
  using assms
  by (cases "fetch_rows collate rows company fy fp = []")
    (auto simp: build_normalized_profile_def build_profile_from_rows_def profile_start_def rbind_eq_Inr)

lemma prefixed_rows_left_out:
  assumes "build_normalized_profile collate rows company fy fp = Inr p"
  shows "\<exists>st0. profile_loop (fetch_rows collate (filter (\<lambda>r. \<not> prefixed (fli_canonical_field r)) rows) company fy fp) profile_start = Inr st0
    \<and> (\<forall>c. map_of (np_values p) (category_value c) = map_of (raw_values st0) (category_value c))"
proof -
  let ?u = "\<lambda>r. \<not> prefixed (fli_canonical_field r)"
  obtain st where st: "profile_loop (fetch_rows collate rows company fy fp) profile_start = Inr st" "np_values p = raw_values st"
    using build_profile_loop[OF assms] by blast
  have "filter ?u (fetch_rows collate rows company fy fp) = fetch_rows collate (filter ?u rows) company fy fp"
    by (simp add: fetch_rows_def filter_sort conj_commute)
  with loop_agrees[OF st(1) agree_refl] st(2) category_value_has_no_prefix show ?thesis
    by (auto simp: agree_def prefixed_def)
qed

lemma added_prefixed_rows:
  assumes "build_normalized_profile collate rows company fy fp = Inr p"
    and "build_normalized_profile collate (rows @ new) company fy fp = Inr p'"
    and "\<forall>r \<in> set new. prefixed (fli_canonical_field r)"
  shows "get_usd c p' = get_usd c p"
proof -
  have "filter (\<lambda>r. \<not> prefixed (fli_canonical_field r)) new = []" using assms(3) by (simp add: filter_empty_conv)
  with prefixed_rows_left_out[OF assms(1)] prefixed_rows_left_out[OF assms(2)] show ?thesis
    by (auto simp: get_usd_def)
qed

text \<open>A model that tags as the prompt asks: with a taxonomy prefix, or not at all.\<close>

definition tags_as_prompted :: "ai_env \<Rightarrow> bool" where
  "tags_as_prompted E \<longleftrightarrow> (\<forall>e. replied_element E e \<longrightarrow>
     (case el_canonical_field e of None \<Rightarrow> True | Some s \<Rightarrow> s = [] \<or> prefixed s))"

lemma extracted_rows_prefixed:
  assumes "run_extraction E gen t x text_key rows = Inr (r, rows')"
    and "is_mock_mode (ai_api_key E) \<or> tags_as_prompted E"
  shows "\<exists>new. rows' = rows @ new \<and> (\<forall>row \<in> set new. prefixed (fli_canonical_field row))"
proof -
  obtain items where b: "bulk_upsert gen t items rows = (ar_inserted r, rows')"
    and i: "\<forall>i \<in> set items. (\<exists>d \<in> set MOCK_FINANCIAL_DATA. mock_item x d = Some i) \<or> (\<exists>e. replied_element E e \<and> map_element x e = Some i)"
    and mock: "is_mock_mode (ai_api_key E) \<longrightarrow> items = List.map_filter (mock_item x) MOCK_FINANCIAL_DATA"
    by (rule run_extraction_cases[OF assms(1)])
  have m: "prefixed (ic_canonical_field c)" if "mock_item x d = Some c" "d \<in> set MOCK_FINANCIAL_DATA" for c d
    using mock_item_types[OF that, of "[]" 0] by (simp add: prefixed_def row_from_def)
  have e: "prefixed (ic_canonical_field c)" if "tags_as_prompted E" "replied_element E e" "map_element x e = Some c" for c e
  proof -
    have "ic_canonical_field c = canonical_of e" using map_element_types[OF that(3), of "[]" 0] by (simp add: row_from_def)
    moreover have "prefixed (canonical_of e)"
      using that(1,2) by (auto simp: tags_as_prompted_def canonical_of_def prefixed_def split: option.splits list.splits)
    ultimately show ?thesis by simp
  qed
  have items: "\<forall>c \<in> set items. prefixed (ic_canonical_field c)"
  proof (cases "is_mock_mode (ai_api_key E)")
    case True
    then show ?thesis using mock m by (auto simp: List.map_filter_def)
  next
    case False
    then show ?thesis using assms(2) i m e by blast
  qed
  obtain ins where "rows' = rows @ ins" "set ins \<subseteq> {row_from (gen k) t i |k i. i \<in> set items}"
    using bulk_upsert_result[OF b] by blast
  moreover from this(2) items have "\<forall>row \<in> set ins. prefixed (fli_canonical_field row)" by (auto simp: row_from_def)
  ultimately show ?thesis by blast
qed

text \<open>
  C28: extracted values are not presented.  The prompt asks for XBRL tags with their taxonomy prefix, and an
  unmapped label is stored as \<^verbatim>\<open>raw:\<dots>\<close>; the presentation views look up the canonical names of the
  other parsers, none of which has a prefix.  So an extraction
  in demo mode, or from a model that tags as the prompt asks, changes no figure of any presentation category: a
  normalised profile built after it, for any company and period, presents what the one built before did.
\<close>

lemma prefixed_rows_never_presented:
  assumes "run_extraction E gen t x text_key rows = Inr (r, rows')"
    and "is_mock_mode (ai_api_key E) \<or> tags_as_prompted E"
    and "build_normalized_profile collate rows company fy fp = Inr p"
    and "build_normalized_profile collate rows' company fy fp = Inr p'"
  shows "get_usd c p' = get_usd c p"
  using extracted_rows_prefixed[OF assms(1,2)] added_prefixed_rows[OF assms(3)] assms(4) by blast

text \<open>A box that the service fills in is never the reason for a rejection.\<close>

lemma synthesised_box_valid: "valid_box (estimate_bounding_box n)"
  by (simp add: valid_box_def estimate_bounding_box_def Let_def min_le_iff_disj)

text \<open>Behind a placeholder key the document and the model play no part.\<close>

lemma mock_run:
  assumes "is_mock_mode (ai_api_key E)" and "fetch_text E text_key = Inr doc"
  shows "run_extraction E gen t x text_key rows = Inr (generate_mock_result gen t x rows)"
  using assms by (simp add: run_extraction_def Let_def)

lemma mock_rows_have_prefix:
  assumes "i \<in> set (List.map_filter (mock_item x) MOCK_FINANCIAL_DATA)"
  shows "CHR '':'' \<in> set (ic_canonical_field i)"
proof -
  obtain d where "d \<in> set MOCK_FINANCIAL_DATA" "mock_item x d = Some i"
    using assms by (auto simp: List.map_filter_def)
  with mock_item_types[of x d i "[]" 0] show ?thesis by (simp add: row_from_def)
qed

subsection \<open>Instances\<close>

fun demo_string :: "json \<Rightarrow> string option" where
  "demo_string (JString s) = Some s"
| "demo_string _ = None"

fun demo_int :: "json \<Rightarrow> int option" where
  "demo_int (JInt n) = Some n"
| "demo_int _ = None"

fun demo_float :: "json \<Rightarrow> rat option" where
  "demo_float (JInt n) = Some (of_int n)"
| "demo_float (JFloat x) = Some x"
| "demo_float _ = None"

fun demo_decimal :: "json \<Rightarrow> decimal option" where
  "demo_decimal (JString s) = (case py_decimal s of Finite d \<Rightarrow> Some d | _ \<Rightarrow> None)"
| "demo_decimal (JInt n) = Some (Dec n 0)"
| "demo_decimal _ = None"

definition ai_demo_raw :: "json list" where
  "ai_demo_raw = [
     JObject [(''concept_label'', JString ''Income tax''), (''canonical_field'', JString ''us-gaap:IncomeTaxExpense''),
       (''raw_value'', JString ''(12)''), (''parsed_value'', JString ''-12''), (''currency'', JString ''USD''),
       (''unit_multiplier'', JInt 1000), (''statement_type'', JString ''IS'')],
     JObject [(''concept_label'', JString ''Other''), (''raw_value'', JString ''n/a''), (''statement_type'', JString ''IS'')],
     JInt 3]"

definition ai_demo_context :: extraction_context where
  "ai_demo_context = \<lparr>xc_company_id = ''c1'', xc_fiscal_year = 2023, xc_fiscal_period = '' fy '', xc_reporting_standard = ''us_gaap'',
     xc_filing_date = 738918, xc_source_file_hash = None\<rparr>"

definition ai_demo_env :: "string \<Rightarrow> ai_env" where
  "ai_demo_env key = \<lparr>ai_api_key = key, ai_model = ''m'', ai_retrieve = (\<lambda>k. Some (Some ''Income tax (12)'')),
     ai_claude = (\<lambda>s b. ReplyText ''Here: [x]''), ai_loads = (\<lambda>s. if s = ''[x]'' then Some (JArray ai_demo_raw) else None),
     ai_coercions = \<lparr>co_string = demo_string, co_int = demo_int, co_float = demo_float, co_decimal = demo_decimal\<rparr>\<rparr>"

lemma demo_keys: "is_mock_mode ''change-me''" "\<not> is_mock_mode ''sk-live''"
  by code_simp+

lemma demo_text: "fetch_text (ai_demo_env key) ''k'' = Inr ''Income tax (12)''"
proof -
  have "str_strip ''Income tax (12)'' = ''Income tax (12)''" by code_simp
  then show ?thesis by (simp add: fetch_text_def ai_demo_env_def)
qed

lemma demo_reply: "extract_json_array (ai_loads (ai_demo_env key)) ''Here: [x]'' = Inr ai_demo_raw"
proof -
  have "search_fence ''Here: [x]'' = None" "search_bare ''Here: [x]'' = Some ''[x]''" by code_simp+
  then show ?thesis by (simp add: extract_json_array_def as_array_def ai_demo_env_def)
qed

definition demo_items :: "item_create list" where
  "demo_items = fst (map_to_line_items ai_demo_context 0 (fst (validate_elements (ai_coercions (ai_demo_env ''sk-live'')) 0 ai_demo_raw)))"

lemma demo_live_run:
  "\<exists>r. run_extraction (ai_demo_env ''sk-live'') gen t ai_demo_context ''k'' rows = Inr (r, snd (bulk_upsert gen t demo_items rows))
     \<and> ar_inserted r = fst (bulk_upsert gen t demo_items rows)"
proof -
  let ?E = "ai_demo_env ''sk-live''"
  obtain es r1 where v: "validate_elements (ai_coercions ?E) 0 ai_demo_raw = (es, r1)" by fastforce
  obtain items r2 where m: "map_to_line_items ai_demo_context 0 es = (items, r2)" by fastforce
  obtain n rows1 where b: "bulk_upsert gen t items rows = (n, rows1)" by fastforce
  have "demo_items = items" using v m by (simp add: demo_items_def)
  moreover have "call_claude ?E doc trunc = Inr ''Here: [x]''" for doc trunc by (simp add: call_claude_def ai_demo_env_def)
  moreover have "\<not> is_mock_mode (ai_api_key ?E)" using demo_keys(2) by (simp add: ai_demo_env_def)
  ultimately show ?thesis using v m b by (simp add: run_extraction_def Let_def demo_text demo_reply)
qed

lemma demo_live: "\<exists>r rows'. run_extraction (ai_demo_env ''sk-live'') gen t ai_demo_context ''k'' [] = Inr (r, rows')"
  using demo_live_run by blast

definition ai_demo_element :: element where
  "ai_demo_element = \<lparr>el_concept_label = ''Income tax'', el_canonical_field = Some ''us-gaap:IncomeTaxExpense'',
     el_parsed_value = Some (Dec (-12) 0), el_currency = Some ''USD'', el_unit_multiplier = 1000, el_statement_type = ''IS'',
     el_page_number = 1, el_confidence_pct = 0\<rparr>"

lemma demo_validated:
  "validate_elements (ai_coercions (ai_demo_env key)) 0 (take 1 ai_demo_raw) = ([ai_demo_element], [])"
  by code_simp

lemma demo_mapped:
  "(case map_element ai_demo_context ai_demo_element of None \<Rightarrow> False
    | Some c \<Rightarrow> ic_fiscal_period c = ''FY'' \<and> ic_value_reported c = Some (Dec (-12000) 0) \<and> ic_value_usd c = ic_value_reported c)"
  by code_simp

lemma extraction_stores_well_typed_rows_witness:
  "\<exists>rows'. (\<exists>r. run_extraction (ai_demo_env ''change-me'') (\<lambda>k. replicate k CHR ''i'') 0 ai_demo_context ''k'' [] = Inr (r, rows'))
    \<and> (\<forall>row \<in> set rows'. well_typed_row row)"
proof -
  obtain r rows' where g: "generate_mock_result (\<lambda>k. replicate k CHR ''i'') 0 ai_demo_context [] = (r, rows')" by fastforce
  have "run_extraction (ai_demo_env ''change-me'') (\<lambda>k. replicate k CHR ''i'') 0 ai_demo_context ''k'' [] = Inr (r, rows')"
    using mock_run[OF _ demo_text, of "''change-me''"] demo_keys(1) g by (simp add: ai_demo_env_def)
  from extraction_stores_well_typed_rows[OF this] this show ?thesis by auto
qed

lemma extraction_accounts_for_every_element_witness:
  "\<exists>r rows' raw. run_extraction (ai_demo_env ''sk-live'') (\<lambda>k. replicate k CHR ''i'') 0 ai_demo_context ''k'' [] = Inr (r, rows')
    \<and> ar_inserted r + ar_skipped r + ar_rejected r = length (raw :: json list)"
proof -
  obtain r rows' where g: "run_extraction (ai_demo_env ''sk-live'') (\<lambda>k. replicate k CHR ''i'') 0 ai_demo_context ''k'' [] = Inr (r, rows')"
    using demo_live by blast
  have "\<not> is_mock_mode (ai_api_key (ai_demo_env ''sk-live''))" using demo_keys(2) by (simp add: ai_demo_env_def)
  from extraction_accounts_for_every_element[OF g this] g show ?thesis by metis
qed

lemma upsert_appends_and_repeats_safely_witness:
  "\<exists>c rows'. map_element ai_demo_context ai_demo_element = Some c \<and> bulk_upsert (\<lambda>k. ''j'') 1 [c] rows' = (0, rows')"
proof -
  obtain c where c: "map_element ai_demo_context ai_demo_element = Some c" using demo_mapped by (auto split: option.splits)
  obtain n rows' where b: "bulk_upsert (\<lambda>k. ''i'') 0 [c] [] = (n, rows')" by fastforce
  have "bulk_upsert (\<lambda>k. ''j'') 1 [c] rows' = (0, rows')" using upsert_appends_and_repeats_safely[OF b] by simp
  with c show ?thesis by blast
qed

lemma extraction_leaves_two_current_rows_witness:
  "\<exists>c old rows'. map_element ai_demo_context ai_demo_element = Some c \<and> bulk_upsert (\<lambda>k. ''i'') 0 [c] [old] = (1, rows') \<and> \<not> current_unique rows'"
proof -
  obtain c where c: "map_element ai_demo_context ai_demo_element = Some c" using demo_mapped by (auto split: option.splits)
  define old where "old = (row_from ''o'' 0 c)\<lparr>fli_filing_date := ic_filing_date c - 1\<rparr>"
  have "\<not> ic_is_restated c" using map_element_types[OF c, of "[]" 0] by (simp add: well_typed_row_def row_from_def)
  then have o: "\<not> fli_is_restated old" "row_key old = (ic_company_id c, ic_fiscal_year c, ic_fiscal_period c, ic_canonical_field c)"
    "ic_filing_date c \<notin> fli_filing_date ` {r \<in> set [old]. row_key r = row_key old}"
    by (auto simp: old_def row_from_def row_key_def)
  obtain n rows' where b: "bulk_upsert (\<lambda>k. ''i'') 0 [c] [old] = (n, rows')" by fastforce
  from extraction_leaves_two_current_rows[OF _ o(1) c o(2,3) b] c b show ?thesis by auto
qed

definition shown_row :: financial_line_item where
  "shown_row = (demo_row ''total_assets'' 600 (Some (Dec 5 0)))\<lparr>fli_company_id := ''c1''\<rparr>"

lemma demo_tags: "tags_as_prompted (ai_demo_env ''sk-live'')"
proof -
  have "list_all (\<lambda>e. case el_canonical_field e of None \<Rightarrow> True | Some s \<Rightarrow> s = [] \<or> list_ex (\<lambda>c. c = CHR '':'') s)
      (fst (validate_elements (ai_coercions (ai_demo_env ''sk-live'')) 0 ai_demo_raw))"
    by code_simp
  moreover have "reply = ''Here: [x]''" if "ai_claude (ai_demo_env ''sk-live'') doc b = ReplyText reply" for doc b reply
    using that by (simp add: ai_demo_env_def)
  ultimately show ?thesis
    using demo_reply
    by (fastforce simp: tags_as_prompted_def replied_element_def prefixed_def list_all_iff list_ex_iff split: option.splits)
qed

lemma demo_run_profiles:
  "(case bulk_upsert (\<lambda>k. ''i'') 0 demo_items [shown_row] of (n, rows') \<Rightarrow> n = 1
      \<and> (case build_normalized_profile (\<lambda>s. length s) rows' ''c1'' 2023 ''FY'' of Inl _ \<Rightarrow> False | Inr p \<Rightarrow> True))"
  by code_simp

lemma shown_profile:
  "case build_normalized_profile (\<lambda>s. length s) [shown_row] ''c1'' 2023 ''FY'' of
     Inl _ \<Rightarrow> False | Inr p \<Rightarrow> get_usd TOTAL_ASSETS p = Some (Dec 500 (-2))"
  by code_simp

lemma prefixed_rows_never_presented_witness:
  "\<exists>r rows' p'. run_extraction (ai_demo_env ''sk-live'') (\<lambda>k. ''i'') 0 ai_demo_context ''k'' [shown_row] = Inr (r, rows')
    \<and> ar_inserted r = 1 \<and> build_normalized_profile (\<lambda>s. length s) rows' ''c1'' 2023 ''FY'' = Inr p'
    \<and> get_usd TOTAL_ASSETS p' = Some (Dec 500 (-2))"
proof -
  obtain r rows' where run: "run_extraction (ai_demo_env ''sk-live'') (\<lambda>k. ''i'') 0 ai_demo_context ''k'' [shown_row] = Inr (r, rows')"
    and b: "bulk_upsert (\<lambda>k. ''i'') 0 demo_items [shown_row] = (ar_inserted r, rows')"
    using demo_live_run by fastforce
  obtain p' where p': "ar_inserted r = 1" "build_normalized_profile (\<lambda>s. length s) rows' ''c1'' 2023 ''FY'' = Inr p'"
    using demo_run_profiles unfolding b
    by (cases "build_normalized_profile (\<lambda>s. length s) rows' ''c1'' 2023 ''FY''") simp_all
  obtain p where p: "build_normalized_profile (\<lambda>s. length s) [shown_row] ''c1'' 2023 ''FY'' = Inr p"
    "get_usd TOTAL_ASSETS p = Some (Dec 500 (-2))"
    using shown_profile by (auto split: sum.splits)
  from prefixed_rows_never_presented[OF run _ p(1) p'(2), of TOTAL_ASSETS] demo_tags run p(2) p' show ?thesis by auto
qed

end
