(* ===== verification/Analytics.thy ===== *)
theory Analytics
  imports Companies "HOL-Library.AList" "HOL-Library.Product_Lexorder"
begin

text \<open>
  The read endpoints over stored line items: the trends of \<^verbatim>\<open>apps/api/routers/analytics.py\<close> and the list of
  \<^verbatim>\<open>apps/api/routers/financials.py\<close>.  The order in which the database gives equal rows is the parameter
  \<open>scan\<close>, its order of strings the parameter \<open>collate\<close>; floats are exact rationals.
\<close>

subsection \<open>Metrics and periods\<close>

definition PERIOD_SORT_ORDER :: "(string \<times> int) list" where
  "PERIOD_SORT_ORDER = [(''Q1'', 1), (''Q2'', 2), (''Q3'', 3), (''Q4'', 4), (''H1'', 5), (''H2'', 6), (''FY'', 7)]"

definition METRIC_ALIASES :: "(string \<times> string list) list" where
  "METRIC_ALIASES =
     [(''revenue'', [''us-gaap:Revenues'', ''us-gaap:RevenueFromContractWithCustomerExcludingAssessedTax'',
         ''us-gaap:RevenueFromContractWithCustomerIncludingAssessedTax'', ''us-gaap:SalesRevenueNet'',
         ''us-gaap:SalesRevenueGoodsNet'', ''us-gaap:RevenuesNetOfInterestExpense'', ''ifrs-full:Revenue'']),
      (''gross_profit'', [''us-gaap:GrossProfit'', ''ifrs-full:GrossProfit'']),
      (''net_income'', [''us-gaap:NetIncomeLoss'', ''us-gaap:ProfitLoss'', ''us-gaap:NetIncomeLossAvailableToCommonStockholdersBasic'',
         ''ifrs-full:ProfitLoss'', ''ifrs-full:ProfitLossAttributableToOwnersOfParent'']),
      (''operating_cash_flow'', [''us-gaap:NetCashProvidedByUsedInOperatingActivities'',
         ''ifrs-full:CashFlowsFromUsedInOperatingActivities''])]"

definition FIELD_TO_METRIC :: "(string \<times> string) list" where
  "FIELD_TO_METRIC = concat (map (\<lambda>(m, fs). map (\<lambda>f. (f, m)) fs) METRIC_ALIASES)"

definition metric_of :: "financial_line_item \<Rightarrow> string option" where
  "metric_of r = map_of FIELD_TO_METRIC (fli_canonical_field r)"

type_synonym period = "int \<times> string"

definition period_of :: "financial_line_item \<Rightarrow> period" where
  "period_of r = (fli_fiscal_year r, fli_fiscal_period r)"

definition period_sort_key :: "period \<Rightarrow> int \<times> int" where
  "period_sort_key k = (fst k, case map_of PERIOD_SORT_ORDER (snd k) of Some n \<Rightarrow> n | None \<Rightarrow> 99)"

definition period_label :: "period \<Rightarrow> string" where
  "period_label k =
     (if snd k = ''FY'' then ''FY '' @ show_int (fst k) else snd k @ '' '' @ show_int (fst k))"

definition resolve_value :: "financial_line_item \<Rightarrow> string \<Rightarrow> decimal option \<times> string" where
  "resolve_value r target =
     (let tc = str_upper target in
      if tc = ''USD'' then (fli_value_usd r, ''USD'')
      else case fli_reported_currency r of
          Some c \<Rightarrow> if c \<noteq> [] \<and> str_upper c = tc then (fli_value_reported r, tc) else (fli_value_usd r, ''USD'')
        | None \<Rightarrow> (fli_value_usd r, ''USD''))"

subsection \<open>Trends\<close>

record trend_point =
  tp_period :: string
  tp_fiscal_year :: int
  tp_fiscal_period :: string
  tp_currency :: string
  tp_revenue :: "rat option"
  tp_gross_profit :: "rat option"
  tp_net_income :: "rat option"
  tp_operating_cash_flow :: "rat option"

datatype read_error = RdAuth auth_error | RdValidation | RdCompanyNotFound | RdNoData

text \<open>
  The dictionaries of the loop, in insertion order: per period the metrics and the label of the currency, and
  the slots already filled.
\<close>

record trend_state =
  ts_pivot :: "(period \<times> (string \<times> decimal option) list) list"
  ts_currency :: "(period \<times> string) list"
  ts_seen :: "(period \<times> string) list"

definition trend_start :: trend_state where
  "trend_start = \<lparr>ts_pivot = [], ts_currency = [], ts_seen = []\<rparr>"

definition trend_step :: "string \<Rightarrow> financial_line_item \<Rightarrow> trend_state \<Rightarrow> trend_state" where
  "trend_step target r st =
     (case metric_of r of
        None \<Rightarrow> st
      | Some m \<Rightarrow>
          let k = period_of r in
          if (k, m) \<in> set (ts_seen st) then st
          else
            let (v, cur) = resolve_value r target;
                metrics = (case map_of (ts_pivot st) k of None \<Rightarrow> [] | Some ms \<Rightarrow> ms);
                label = (case map_of (ts_currency st) k of
                    None \<Rightarrow> cur
                  | Some l \<Rightarrow> if cur = ''USD'' \<and> l \<noteq> ''USD'' then ''USD'' else l)
            in st\<lparr>ts_seen := (k, m) # ts_seen st, ts_currency := AList.update k label (ts_currency st),
                  ts_pivot := AList.update k (AList.update m v metrics) (ts_pivot st)\<rparr>)"

definition trend_rows :: "(financial_line_item list \<Rightarrow> financial_line_item list) \<Rightarrow> (string \<Rightarrow> 'k :: linorder) \<Rightarrow> uuid
    \<Rightarrow> financial_line_item list \<Rightarrow> financial_line_item list" where
  "trend_rows scan collate company rows =
     sort_key (\<lambda>r. (fli_fiscal_year r, collate (fli_fiscal_period r), - fli_filing_date r))
       (scan (filter (\<lambda>r. fli_company_id r = company \<and> \<not> fli_is_restated r \<and> metric_of r \<noteq> None) rows))"

definition metric_value :: "trend_state \<Rightarrow> period \<Rightarrow> string \<Rightarrow> rat option" where
  "metric_value st k m =
     (case map_of (ts_pivot st) k of
        None \<Rightarrow> None
      | Some ms \<Rightarrow> (case map_of ms m of Some (Some v) \<Rightarrow> Some (dval v) | _ \<Rightarrow> None))"

definition trend_point_of :: "trend_state \<Rightarrow> period \<Rightarrow> trend_point" where
  "trend_point_of st k =
     \<lparr>tp_period = period_label k, tp_fiscal_year = fst k, tp_fiscal_period = snd k,
      tp_currency = (case map_of (ts_currency st) k of Some l \<Rightarrow> l | None \<Rightarrow> []),
      tp_revenue = metric_value st k ''revenue'', tp_gross_profit = metric_value st k ''gross_profit'',
      tp_net_income = metric_value st k ''net_income'', tp_operating_cash_flow = metric_value st k ''operating_cash_flow''\<rparr>"

definition trend_points :: "trend_state \<Rightarrow> trend_point list" where
  "trend_points st = map (trend_point_of st) (sort_key period_sort_key (map fst (ts_pivot st)))"

definition aggregate_trends :: "(financial_line_item list \<Rightarrow> financial_line_item list) \<Rightarrow> (string \<Rightarrow> 'k :: linorder) \<Rightarrow> uuid \<Rightarrow> string
    \<Rightarrow> company list \<Rightarrow> financial_line_item list \<Rightarrow> read_error + trend_point list" where
  "aggregate_trends scan collate company target companies rows =
     (case get_row co_id company companies of
        None \<Rightarrow> Inl RdCompanyNotFound
      | Some _ \<Rightarrow>
          let pts = trend_points (fold (trend_step target) (trend_rows scan collate company rows) trend_start)
          in if pts = [] then Inl RdNoData else Inr pts)"

record trends_response =
  tr_company_id :: uuid
  tr_target_currency :: string
  tr_periods_covered :: nat
  tr_data :: "trend_point list"

definition get_company_trends :: "(financial_line_item list \<Rightarrow> financial_line_item list) \<Rightarrow> (string \<Rightarrow> 'k :: linorder) \<Rightarrow> auth_context option
    \<Rightarrow> uuid \<Rightarrow> string \<Rightarrow> company list \<Rightarrow> financial_line_item list \<Rightarrow> read_error + trends_response" where
  "get_company_trends scan collate ctx company target companies rows =
     rbind (map_error RdAuth (require_authenticated ctx)) (\<lambda>c.
       if length target \<noteq> 3 then Inl RdValidation
       else rbind (aggregate_trends scan collate company (str_upper target) companies rows) (\<lambda>pts.
         Inr \<lparr>tr_company_id = company, tr_target_currency = str_upper target, tr_periods_covered = length pts, tr_data = pts\<rparr>))"

subsection \<open>The list of line items\<close>

record financials_query =
  fq_limit :: int
  fq_offset :: int
  fq_fiscal_year :: "int option"
  fq_fiscal_period :: "string option"
  fq_statement_type :: "string option"
  fq_include_restated :: bool

definition valid_query :: "financials_query \<Rightarrow> bool" where
  "valid_query q =
     (1 \<le> fq_limit q \<and> fq_limit q \<le> 500 \<and> 0 \<le> fq_offset q
      \<and> (case fq_fiscal_year q of None \<Rightarrow> True | Some y \<Rightarrow> 1900 \<le> y \<and> y \<le> 2100)
      \<and> (case fq_fiscal_period q of None \<Rightarrow> True | Some p \<Rightarrow> p \<in> {''Q1'', ''Q2'', ''Q3'', ''Q4'', ''FY''})
      \<and> (case fq_statement_type q of None \<Rightarrow> True | Some t \<Rightarrow> t \<in> {''IS'', ''BS'', ''CF''}))"

definition matches :: "financials_query \<Rightarrow> uuid \<Rightarrow> financial_line_item \<Rightarrow> bool" where
  "matches q company r =
     (fli_company_id r = company \<and> (fq_include_restated q \<or> \<not> fli_is_restated r)
      \<and> (case fq_fiscal_year q of None \<Rightarrow> True | Some y \<Rightarrow> fli_fiscal_year r = y)
      \<and> (case fq_fiscal_period q of None \<Rightarrow> True | Some p \<Rightarrow> fli_fiscal_period r = p)
      \<and> (case fq_statement_type q of None \<Rightarrow> True | Some t \<Rightarrow> fli_statement_type r = t))"

record financials_response =
  fr_items :: "financial_line_item list"
  fr_total :: nat
  fr_offset :: int
  fr_limit :: int

definition financials_order :: "(string \<Rightarrow> 'k :: linorder) \<Rightarrow> financial_line_item list \<Rightarrow> financial_line_item list" where
  "financials_order collate =
     sort_key (\<lambda>r. (- fli_fiscal_year r, collate (fli_fiscal_period r), collate (fli_canonical_field r), - fli_filing_date r))"

definition list_company_financials :: "(financial_line_item list \<Rightarrow> financial_line_item list) \<Rightarrow> (string \<Rightarrow> 'k :: linorder) \<Rightarrow> auth_context option
    \<Rightarrow> uuid \<Rightarrow> financials_query \<Rightarrow> company list \<Rightarrow> financial_line_item list \<Rightarrow> read_error + financials_response" where
  "list_company_financials scan collate ctx company q companies rows =
     rbind (map_error RdAuth (require_authenticated ctx)) (\<lambda>c.
       if \<not> valid_query q then Inl RdValidation
       else case get_row co_id company companies of
           None \<Rightarrow> Inl RdCompanyNotFound
         | Some _ \<Rightarrow>
             let hits = filter (matches q company) rows in
             if hits = [] then Inr \<lparr>fr_items = [], fr_total = 0, fr_offset = fq_offset q, fr_limit = fq_limit q\<rparr>
             else Inr \<lparr>fr_items = take (nat (fq_limit q)) (drop (nat (fq_offset q)) (financials_order collate (scan hits))),
                    fr_total = length hits, fr_offset = fq_offset q, fr_limit = fq_limit q\<rparr>)"

subsection \<open>What the loop knows\<close>

text \<open>The row that fills a slot: the first of its period and metric.\<close>

definition slot_row :: "financial_line_item list \<Rightarrow> period \<Rightarrow> string \<Rightarrow> financial_line_item option" where
  "slot_row rows k m = find (\<lambda>r. period_of r = k \<and> metric_of r = Some m) rows"

definition slot_usd :: "string \<Rightarrow> financial_line_item list \<Rightarrow> period \<Rightarrow> bool" where
  "slot_usd target rows k = (\<exists>m r. slot_row rows k m = Some r \<and> snd (resolve_value r target) = ''USD'')"

definition follows :: "string \<Rightarrow> financial_line_item list \<Rightarrow> trend_state \<Rightarrow> bool" where
  "follows target rows st \<longleftrightarrow>
     (\<forall>k m. (k, m) \<in> set (ts_seen st) \<longleftrightarrow> slot_row rows k m \<noteq> None)
     \<and> (\<forall>k. map_of (ts_pivot st) k = None \<longleftrightarrow> (\<forall>m. slot_row rows k m = None))
     \<and> (\<forall>k ms m. map_of (ts_pivot st) k = Some ms \<longrightarrow> map_of ms m = map_option (\<lambda>r. fst (resolve_value r target)) (slot_row rows k m))
     \<and> (\<forall>k. map_of (ts_currency st) k = (if \<forall>m. slot_row rows k m = None then None
            else Some (if slot_usd target rows k then ''USD'' else str_upper target)))
     \<and> distinct (map fst (ts_pivot st))"


lemma find_append_step: "find P (xs @ ys) = (case find P xs of Some x \<Rightarrow> Some x | None \<Rightarrow> find P ys)"
  by (induction xs) auto

lemma slot_row_snoc:
  "slot_row (rows @ [r]) k m = (case slot_row rows k m of Some x \<Rightarrow> Some x
     | None \<Rightarrow> if period_of r = k \<and> metric_of r = Some m then Some r else None)"
  by (auto simp: slot_row_def find_append_step split: option.splits)

lemma resolve_currency: "snd (resolve_value r target) = ''USD'' \<or> snd (resolve_value r target) = str_upper target"
  by (auto simp: resolve_value_def Let_def split: option.split)

lemma followsD:
  assumes "follows target rows st"
  shows "map_of (ts_pivot st) k = None \<longleftrightarrow> (\<forall>m. slot_row rows k m = None)"
    and "map_of (ts_pivot st) k = Some ms \<Longrightarrow> map_of ms m = map_option (\<lambda>r. fst (resolve_value r target)) (slot_row rows k m)"
    and "map_of (ts_currency st) k = (if \<forall>m. slot_row rows k m = None then None
            else Some (if slot_usd target rows k then ''USD'' else str_upper target))"
    and "distinct (map fst (ts_pivot st))"
    and "(k, m) \<in> set (ts_seen st) \<longleftrightarrow> slot_row rows k m \<noteq> None"
  using assms unfolding follows_def by blast+

lemma trend_step_follows:
  assumes "follows target rows st"
  shows "follows target (rows @ [r]) (trend_step target r st)"
proof (cases "metric_of r")
  case None
  then have "slot_row (rows @ [r]) k m = slot_row rows k m" for k m
    by (simp add: slot_row_snoc split: option.split)
  with assms None show ?thesis by (simp add: follows_def trend_step_def slot_usd_def)
next
  case (Some m0)
  define k0 where "k0 = period_of r"
  note unseen = followsD(1)[OF assms] and mets = followsD(2)[OF assms] and labels = followsD(3)[OF assms]
    and dist = followsD(4)[OF assms] and seen = followsD(5)[OF assms]
  show ?thesis
  proof (cases "(k0, m0) \<in> set (ts_seen st)")
    case True
    then have "slot_row rows k0 m0 \<noteq> None" using seen by blast
    then have "slot_row (rows @ [r]) k m = slot_row rows k m" for k m
      using Some by (auto simp: slot_row_snoc k0_def split: option.split)
    with assms Some True show ?thesis by (simp add: follows_def trend_step_def slot_usd_def k0_def)
  next
    case False
    then have n: "slot_row rows k0 m0 = None" using seen by blast
    have sl: "slot_row (rows @ [r]) k m = (if k = k0 \<and> m = m0 then Some r else slot_row rows k m)" for k m
      using n Some by (auto simp: slot_row_snoc k0_def split: option.split)
    obtain v cur where vc: "resolve_value r target = (v, cur)" by fastforce
    define metrics where "metrics = (case map_of (ts_pivot st) k0 of None \<Rightarrow> [] | Some ms \<Rightarrow> ms)"
    define label where "label = (case map_of (ts_currency st) k0 of None \<Rightarrow> cur
        | Some l \<Rightarrow> if cur = ''USD'' \<and> l \<noteq> ''USD'' then ''USD'' else l)"
    have st: "trend_step target r st = st\<lparr>ts_seen := (k0, m0) # ts_seen st, ts_currency := AList.update k0 label (ts_currency st),
        ts_pivot := AList.update k0 (AList.update m0 v metrics) (ts_pivot st)\<rparr>"
      using Some False vc by (simp add: trend_step_def Let_def k0_def metrics_def label_def)
    have usd: "slot_usd target (rows @ [r]) k = (slot_usd target rows k \<or> (k = k0 \<and> cur = ''USD''))" for k
    proof
      assume "slot_usd target (rows @ [r]) k"
      then obtain m x where "slot_row (rows @ [r]) k m = Some x" "snd (resolve_value x target) = ''USD''"
        by (auto simp: slot_usd_def)
      then show "slot_usd target rows k \<or> (k = k0 \<and> cur = ''USD'')"
        using vc by (cases "k = k0 \<and> m = m0") (auto simp: sl slot_usd_def)
    next
      assume r: "slot_usd target rows k \<or> (k = k0 \<and> cur = ''USD'')"
      show "slot_usd target (rows @ [r]) k"
      proof (cases "k = k0 \<and> cur = ''USD''")
        case True
        then have "slot_row (rows @ [r]) k m0 = Some r \<and> snd (resolve_value r target) = ''USD''" using vc by (simp add: sl)
        then show ?thesis unfolding slot_usd_def by blast
      next
        case False
        with r obtain m x where m: "slot_row rows k m = Some x" "snd (resolve_value x target) = ''USD''"
          by (auto simp: slot_usd_def)
        with n have "\<not> (k = k0 \<and> m = m0)" by auto
        with m show ?thesis unfolding slot_usd_def sl by (intro exI[of _ m] exI[of _ x]) auto
      qed
    qed
    have met: "map_of metrics m = map_option (\<lambda>r. fst (resolve_value r target)) (slot_row rows k0 m)" for m
    proof (cases "map_of (ts_pivot st) k0")
      case None
      then have "slot_row rows k0 m = None" using unseen[of k0] by blast
      with None show ?thesis by (simp add: metrics_def)
    next
      case (Some ms)
      then show ?thesis using mets[of k0 ms m] by (simp add: metrics_def)
    qed
    have lab: "label = (if slot_usd target (rows @ [r]) k0 then ''USD'' else str_upper target)"
    proof (cases "map_of (ts_currency st) k0")
      case None
      then have "\<forall>m. slot_row rows k0 m = None" using labels[of k0] by (simp split: if_split_asm)
      then have "\<not> slot_usd target rows k0" by (simp add: slot_usd_def)
      then show ?thesis using None resolve_currency[of r target] vc by (auto simp: label_def usd)
    next
      case (Some l)
      then have "l = (if slot_usd target rows k0 then ''USD'' else str_upper target)"
        using labels[of k0] by (auto split: if_split_asm)
      then show ?thesis using Some by (auto simp: label_def usd)
    qed
    have none: "(\<forall>m. slot_row (rows @ [r]) k m = None) \<longleftrightarrow> k \<noteq> k0 \<and> (\<forall>m. slot_row rows k m = None)" for k
    proof (cases "k = k0")
      case True
      have "slot_row (rows @ [r]) k0 m0 \<noteq> None" by (simp add: sl)
      then have "\<not> (\<forall>m. slot_row (rows @ [r]) k0 m = None)" by metis
      then show ?thesis unfolding True by simp
    qed (simp add: sl)
    show ?thesis
      unfolding follows_def
    proof (intro conjI allI)
      show "((k, m) \<in> set (ts_seen (trend_step target r st))) = (slot_row (rows @ [r]) k m \<noteq> None)" for k m
        using seen[of k m] by (auto simp: st sl)
      show "(map_of (ts_pivot (trend_step target r st)) k = None) = (\<forall>m. slot_row (rows @ [r]) k m = None)" for k
        using unseen[of k] by (simp add: st none AList.update_conv')
      show "map_of (ts_pivot (trend_step target r st)) k = Some ms \<longrightarrow>
          map_of ms m = map_option (\<lambda>r. fst (resolve_value r target)) (slot_row (rows @ [r]) k m)" for k ms m
        using mets[of k ms m] met vc by (auto simp: st sl AList.update_conv')
      show "map_of (ts_currency (trend_step target r st)) k = (if \<forall>m. slot_row (rows @ [r]) k m = None then None
          else Some (if slot_usd target (rows @ [r]) k then ''USD'' else str_upper target))" for k
        using labels[of k] lab by (simp add: st none usd AList.update_conv')
      show "distinct (map fst (ts_pivot (trend_step target r st)))"
        using dist by (simp add: st distinct_update)
    qed
  qed
qed

lemma trend_loop_follows: "follows target rows (fold (trend_step target) rows trend_start)"
proof (induction rows rule: rev_induct)
  case Nil
  then show ?case by (simp add: follows_def trend_start_def slot_row_def)
next
  case (snoc r rows)
  then show ?case using trend_step_follows by simp
qed


subsection \<open>What is shown\<close>

fun tp_metric :: "string \<Rightarrow> trend_point \<Rightarrow> rat option" where
  "tp_metric m p =
     (if m = ''revenue'' then tp_revenue p else if m = ''gross_profit'' then tp_gross_profit p
      else if m = ''net_income'' then tp_net_income p else if m = ''operating_cash_flow'' then tp_operating_cash_flow p else None)"

definition headline_metrics :: "string set" where
  "headline_metrics = {''revenue'', ''gross_profit'', ''net_income'', ''operating_cash_flow''}"

definition point_period :: "trend_point \<Rightarrow> period" where
  "point_period p = (tp_fiscal_year p, tp_fiscal_period p)"

lemma trend_point_shows:
  assumes "follows target rows st" and "m \<in> headline_metrics"
  shows "tp_metric m (trend_point_of st k) =
    (case slot_row rows k m of None \<Rightarrow> None | Some r \<Rightarrow> map_option dval (fst (resolve_value r target)))"
proof -
  have "metric_value st k m = (case slot_row rows k m of None \<Rightarrow> None | Some r \<Rightarrow> map_option dval (fst (resolve_value r target)))"
  proof (cases "map_of (ts_pivot st) k")
    case None
    then have "slot_row rows k m = None" using followsD(1)[OF assms(1), of k] by blast
    with None show ?thesis by (simp add: metric_value_def)
  next
    case (Some ms)
    then have "map_of ms m = map_option (\<lambda>r. fst (resolve_value r target)) (slot_row rows k m)"
      by (rule followsD(2)[OF assms(1)])
    with Some show ?thesis by (auto simp: metric_value_def split: option.split)
  qed
  then show ?thesis using assms(2) by (auto simp: trend_point_of_def headline_metrics_def)
qed

text \<open>In sorted rows, the first row of a slot has the latest filing date of the slot.\<close>

lemma sorted_find_latest:
  assumes "sorted (map (\<lambda>r. (fli_fiscal_year r, collate (fli_fiscal_period r), - fli_filing_date r)) rows)"
    and "slot_row rows k m = Some r" and "r' \<in> set rows" and "period_of r' = k" and "metric_of r' = Some m"
  shows "fli_filing_date r' \<le> fli_filing_date r"
  using assms
proof (induction rows)
  case (Cons a rows)
  show ?case
  proof (cases "period_of a = k \<and> metric_of a = Some m")
    case True
    then have r: "r = a" using Cons.prems(2) by (simp add: slot_row_def)
    show ?thesis
    proof (cases "r' = a")
      case False
      then have "(fli_fiscal_year a, collate (fli_fiscal_period a), - fli_filing_date a)
          \<le> (fli_fiscal_year r', collate (fli_fiscal_period r'), - fli_filing_date r')"
        using Cons.prems(1,3) by auto
      moreover have "period_of a = period_of r'" using True Cons.prems(4) by simp
      ultimately show ?thesis using r by (simp add: period_of_def)
    qed (simp add: r)
  next
    case False
    then have "slot_row rows k m = Some r" using Cons.prems(2) by (auto simp: slot_row_def)
    moreover have "r' \<in> set rows" using False Cons.prems(3-5) by auto
    ultimately show ?thesis using Cons by simp
  qed
qed simp

text \<open>The tracked current rows of a company.\<close>

definition tracked :: "uuid \<Rightarrow> period \<Rightarrow> string \<Rightarrow> financial_line_item \<Rightarrow> bool" where
  "tracked company k m r =
     (fli_company_id r = company \<and> \<not> fli_is_restated r \<and> period_of r = k \<and> metric_of r = Some m)"

lemma set_trend_rows:
  assumes "\<forall>xs. mset (scan xs) = mset xs"
  shows "set (trend_rows scan collate company rows) = {r \<in> set rows. fli_company_id r = company \<and> \<not> fli_is_restated r \<and> metric_of r \<noteq> None}"
proof -
  have "set (scan xs) = set xs" for xs using assms by (metis set_mset_mset)
  then show ?thesis by (auto simp: trend_rows_def)
qed

lemma slot_row_tracked:
  assumes "\<forall>xs. mset (scan xs) = mset xs"
  shows "(case slot_row (trend_rows scan collate company rows) k m of
      None \<Rightarrow> \<forall>r \<in> set rows. \<not> tracked company k m r
    | Some r \<Rightarrow> r \<in> set rows \<and> tracked company k m r \<and> (\<forall>r' \<in> set rows. tracked company k m r' \<longrightarrow> fli_filing_date r' \<le> fli_filing_date r))"
proof (cases "slot_row (trend_rows scan collate company rows) k m")
  case None
  then have "\<forall>r \<in> set (trend_rows scan collate company rows). \<not> (period_of r = k \<and> metric_of r = Some m)"
    by (simp add: slot_row_def find_None_iff)
  then show ?thesis using None by (auto simp: set_trend_rows[OF assms] tracked_def)
next
  case (Some r)
  then have "r \<in> set (trend_rows scan collate company rows)" "period_of r = k" "metric_of r = Some m"
    by (auto simp: slot_row_def find_Some_iff)
  moreover have "sorted (map (\<lambda>r. (fli_fiscal_year r, collate (fli_fiscal_period r), - fli_filing_date r)) (trend_rows scan collate company rows))"
    by (simp add: trend_rows_def)
  ultimately show ?thesis using Some sorted_find_latest[of collate _ k m r]
    by (auto simp: set_trend_rows[OF assms] tracked_def)
qed

lemma trends_response:
  assumes "get_company_trends scan collate ctx company target companies rows = Inr resp"
  shows "\<exists>st. follows (str_upper target) (trend_rows scan collate company rows) st \<and> tr_data resp = trend_points st"
  using assms trend_loop_follows[of "str_upper target" "trend_rows scan collate company rows"]
  by (auto simp: get_company_trends_def aggregate_trends_def rbind_eq_Inr Let_def split: if_splits option.splits)

lemma resolve_upper [simp]: "resolve_value r (str_upper target) = resolve_value r target"
  by (simp add: resolve_value_def)

lemma trend_points_periods:
  assumes "follows target rows st"
  shows "map point_period (trend_points st) = sort_key period_sort_key (map fst (ts_pivot st))"
    and "distinct (map point_period (trend_points st))"
    and "k \<in> set (map point_period (trend_points st)) \<longleftrightarrow> (\<exists>m. slot_row rows k m \<noteq> None)"
proof -
  have "point_period (trend_point_of st k) = k" for k by (simp add: point_period_def trend_point_of_def)
  then show m: "map point_period (trend_points st) = sort_key period_sort_key (map fst (ts_pivot st))"
    by (simp add: trend_points_def comp_def)
  show "distinct (map point_period (trend_points st))" unfolding m using followsD(4)[OF assms] by simp
  have "k \<in> set (map fst (ts_pivot st)) \<longleftrightarrow> map_of (ts_pivot st) k \<noteq> None" by (simp add: map_of_eq_None_iff)
  then show "k \<in> set (map point_period (trend_points st)) \<longleftrightarrow> (\<exists>m. slot_row rows k m \<noteq> None)"
    unfolding m using followsD(1)[OF assms, of k] by simp
qed

subsection \<open>Properties\<close>

text \<open>
  C26: trends show the latest filed values.  In a response, the periods are distinct, in calendar order, and
  are those with a tracked current row; each of the four metrics of a period is null exactly when the company has
  no current row of the metric there or the row has no value in the resolved currency, and is otherwise read off a
  row with the latest filing date of all rows of that metric and period.
\<close>

lemma trends_show_latest_filed:
  assumes "get_company_trends scan collate ctx company target companies rows = Inr resp" and "\<forall>xs. mset (scan xs) = mset xs"
  shows "distinct (map point_period (tr_data resp)) \<and> sorted (map (period_sort_key \<circ> point_period) (tr_data resp))
    \<and> tr_periods_covered resp = length (tr_data resp)
    \<and> point_period ` set (tr_data resp) = {k. \<exists>r \<in> set rows. \<exists>m. tracked company k m r}
    \<and> (\<forall>p \<in> set (tr_data resp). \<forall>m \<in> headline_metrics.
         (tp_metric m p = None \<and> (\<forall>r \<in> set rows. \<not> tracked company (point_period p) m r))
         \<or> (\<exists>r \<in> set rows. tracked company (point_period p) m r
              \<and> (\<forall>r' \<in> set rows. tracked company (point_period p) m r' \<longrightarrow> fli_filing_date r' \<le> fli_filing_date r)
              \<and> tp_metric m p = map_option dval (fst (resolve_value r target))))"
proof -
  let ?tr = "trend_rows scan collate company rows"
  obtain st where f: "follows (str_upper target) ?tr st" and d: "tr_data resp = trend_points st"
    using trends_response[OF assms(1)] by blast
  note pp = trend_points_periods[OF f]
  have n: "tr_periods_covered resp = length (tr_data resp)"
    using assms(1) by (auto simp: get_company_trends_def rbind_eq_Inr split: if_splits)
  have s: "sorted (map (period_sort_key \<circ> point_period) (tr_data resp))"
    using pp(1) by (simp add: d flip: map_map)
  have "(\<exists>m. slot_row ?tr k m \<noteq> None) \<longleftrightarrow> (\<exists>r \<in> set rows. \<exists>m. tracked company k m r)" for k
  proof -
    have "slot_row ?tr k m \<noteq> None \<longleftrightarrow> (\<exists>r \<in> set rows. tracked company k m r)" for m
      using slot_row_tracked[OF assms(2), where collate = collate and company = company and rows = rows and k = k and m = m]
      by (auto split: option.splits)
    then show ?thesis by blast
  qed
  then have c: "point_period ` set (tr_data resp) = {k. \<exists>r \<in> set rows. \<exists>m. tracked company k m r}"
    unfolding set_eq_iff mem_Collect_eq d set_map[symmetric] pp(3) by blast
  have v: "(tp_metric m p = None \<and> (\<forall>r \<in> set rows. \<not> tracked company (point_period p) m r))
         \<or> (\<exists>r \<in> set rows. tracked company (point_period p) m r
              \<and> (\<forall>r' \<in> set rows. tracked company (point_period p) m r' \<longrightarrow> fli_filing_date r' \<le> fli_filing_date r)
              \<and> tp_metric m p = map_option dval (fst (resolve_value r target)))"
    if p: "p \<in> set (tr_data resp)" "m \<in> headline_metrics" for p m
  proof -
    obtain k where k: "p = trend_point_of st k" using p(1) by (auto simp: d trend_points_def)
    then have "point_period p = k" by (simp add: point_period_def trend_point_of_def)
    with trend_point_shows[OF f p(2), of k] slot_row_tracked[OF assms(2), where collate = collate and company = company and rows = rows and k = k and m = m] k show ?thesis
      by (cases "slot_row ?tr k m") (simp_all del: tp_metric.simps, blast)
  qed
  show ?thesis using pp(2) s n c v unfolding d by blast
qed


text \<open>
  A point of mixed currencies hides it.  A metric whose row is in the target currency is shown in that
  currency; as soon as another metric of the same period falls back to USD, the whole point is labelled USD, the
  native amount included.
\<close>

lemma mixed_period_mislabelled:
  assumes "get_company_trends scan collate ctx company target companies rows = Inr resp"
    and "slot_row (trend_rows scan collate company rows) k m = Some native" and "snd (resolve_value native target) \<noteq> ''USD''"
    and "slot_row (trend_rows scan collate company rows) k m' = Some other" and "snd (resolve_value other target) = ''USD''"
    and "m \<in> headline_metrics"
  shows "\<exists>p \<in> set (tr_data resp). point_period p = k \<and> tp_currency p = ''USD''
    \<and> tp_metric m p = map_option dval (fli_value_reported native)
    \<and> map_option str_upper (fli_reported_currency native) = Some (str_upper target) \<and> str_upper target \<noteq> ''USD''"
proof -
  let ?tr = "trend_rows scan collate company rows"
  obtain st where f: "follows (str_upper target) ?tr st" and d: "tr_data resp = trend_points st"
    using trends_response[OF assms(1)] by blast
  have "k \<in> set (map point_period (trend_points st))" using trend_points_periods(3)[OF f, of k] assms(2) by auto
  then have p: "trend_point_of st k \<in> set (tr_data resp)" "point_period (trend_point_of st k) = k"
    by (auto simp: d trend_points_def point_period_def trend_point_of_def)
  have "slot_usd (str_upper target) ?tr k" using assms(4,5) by (auto simp: slot_usd_def)
  then have l: "tp_currency (trend_point_of st k) = ''USD''"
    using followsD(3)[OF f, of k] assms(2) by (auto simp: trend_point_of_def split: if_splits)
  have r: "fst (resolve_value native target) = fli_value_reported native
      \<and> map_option str_upper (fli_reported_currency native) = Some (str_upper target) \<and> str_upper target \<noteq> ''USD''"
    using assms(3) by (auto simp: resolve_value_def Let_def split: if_splits option.splits)
  have "tp_metric m (trend_point_of st k) = map_option dval (fli_value_reported native)"
    using trend_point_shows[OF f assms(6), of k] assms(2) r by (simp del: tp_metric.simps)
  with p l r show ?thesis by (intro bexI[of _ "trend_point_of st k"]) simp_all
qed

text \<open>
  C40: the read endpoints cross workspaces.  A company is looked up by its id alone: for a company
  of another workspace, which the company endpoint reports as not found, any authenticated caller gets every stored
  line item that matches the filters, and the same trends as its owner.
\<close>

lemma financial_reads_cross_workspaces:
  assumes "co \<in> set companies" and "distinct (map co_id companies)"
    and "require_authenticated ctx = Inr c" and "cx_tenant_id c \<noteq> co_tenant_id co"
    and "require_authenticated owner = Inr c'"
    and "valid_query q" and "\<forall>xs. mset (scan xs) = mset xs"
    and "fq_offset q = 0" and "int (length (filter (matches q (co_id co)) rows)) \<le> fq_limit q"
  shows "get_company ctx (co_id co) companies = Inl CoNotFound
    \<and> (\<exists>resp. list_company_financials scan collate ctx (co_id co) q companies rows = Inr resp
         \<and> mset (fr_items resp) = mset (filter (matches q (co_id co)) rows))
    \<and> get_company_trends scan collate ctx (co_id co) target companies rows
        = get_company_trends scan collate owner (co_id co) target companies rows"
proof -
  have g: "get_row co_id (co_id co) companies = Some co" using assms(1,2) by (intro get_row_distinct)
  have "get_company_row (cx_tenant_id c) (co_id co) False companies = None"
  proof (rule ccontr)
    assume "get_company_row (cx_tenant_id c) (co_id co) False companies \<noteq> None"
    then obtain x where "tenant_get co_id co_tenant_id (cx_tenant_id c) (co_id co) (live companies) = Some x"
      by (auto simp: get_company_row_def)
    from tenant_get_Some[OF this] have "x \<in> set companies" "co_id x = co_id co" "co_tenant_id x = cx_tenant_id c"
      by (simp_all add: live_def)
    with assms(1,2,4) show False by (metis distinct_map inj_onD)
  qed
  then have 1: "get_company ctx (co_id co) companies = Inl CoNotFound" using assms(3) by (simp add: get_company_def)
  let ?hits = "filter (matches q (co_id co)) rows"
  have "length (financials_order collate (scan ?hits)) = length ?hits"
    using assms(7) by (simp add: financials_order_def) (metis size_mset)
  moreover have "length ?hits \<le> nat (fq_limit q)" using assms(9) by simp
  ultimately have t: "take (nat (fq_limit q)) (drop (nat (fq_offset q)) (financials_order collate (scan ?hits)))
      = financials_order collate (scan ?hits)" using assms(8) by simp
  have "mset (financials_order collate (scan ?hits)) = mset ?hits"
    using assms(7) by (simp add: financials_order_def)
  then have 2: "\<exists>resp. list_company_financials scan collate ctx (co_id co) q companies rows = Inr resp
         \<and> mset (fr_items resp) = mset ?hits"
    using assms(3,6) g t by (cases "?hits = []") (simp_all add: list_company_financials_def Let_def)
  have "get_company_trends scan collate ctx (co_id co) target companies rows
        = get_company_trends scan collate owner (co_id co) target companies rows"
    using assms(3,5) by (simp add: get_company_trends_def)
  with 1 2 show ?thesis by blast
qed

text \<open>A list is ordered by the text of the period: the full year comes before its quarters.\<close>

lemma full_year_listed_first:
  assumes "collate ''FY'' < collate ''Q1''" and "sorted (map (\<lambda>r. (- fli_fiscal_year r, collate (fli_fiscal_period r))) [a, b])"
    and "fli_fiscal_year a = fli_fiscal_year b" and "{fli_fiscal_period a, fli_fiscal_period b} = {''FY'', ''Q1''}"
  shows "fli_fiscal_period a = ''FY''"
  using assms by (auto simp: doubleton_eq_iff)


subsection \<open>Instances\<close>

definition trend_row :: "string \<Rightarrow> string \<Rightarrow> date \<Rightarrow> decimal option \<Rightarrow> decimal option \<Rightarrow> string \<Rightarrow> financial_line_item" where
  "trend_row i field filed usd reported cur = \<lparr>fli_id = i, fli_company_id = ''c1'', fli_fiscal_year = 3, fli_fiscal_period = ''FY'',
     fli_reporting_standard = ''IFRS'', fli_filing_date = filed, fli_is_restated = False, fli_canonical_field = field,
     fli_statement_type = ''IS'', fli_value_usd = usd, fli_value_reported = reported, fli_reported_currency = Some cur,
     fli_fx_rate_used = None, fli_source_file_hash = None, fli_derived_expression_formula = None, fli_extraction_method = None,
     fli_created_at = 0, fli_updated_at = 0\<rparr>"

definition eur_revenue :: financial_line_item where
  "eur_revenue = trend_row ''a'' ''ifrs-full:Revenue'' 700 (Some (Dec 110 0)) (Some (Dec 100 0)) ''EUR''"

definition gbp_profit :: financial_line_item where
  "gbp_profit = trend_row ''b'' ''ifrs-full:ProfitLoss'' 700 (Some (Dec 13 0)) (Some (Dec 10 0)) ''GBP''"

definition old_revenue :: financial_line_item where
  "old_revenue = trend_row ''c'' ''us-gaap:Revenues'' 600 (Some (Dec 1 0)) (Some (Dec 1 0)) ''EUR''"

definition trend_sample :: "financial_line_item list" where
  "trend_sample = [old_revenue, eur_revenue, gbp_profit]"

lemma trend_sample_fields:
  "fli_company_id old_revenue = ''c1''" "fli_company_id eur_revenue = ''c1''" "fli_company_id gbp_profit = ''c1''"
  "\<not> fli_is_restated old_revenue" "\<not> fli_is_restated eur_revenue" "\<not> fli_is_restated gbp_profit"
  "period_of old_revenue = (3, ''FY'')" "period_of eur_revenue = (3, ''FY'')" "period_of gbp_profit = (3, ''FY'')"
  "fli_fiscal_year old_revenue = 3" "fli_fiscal_year eur_revenue = 3" "fli_fiscal_year gbp_profit = 3"
  "fli_fiscal_period old_revenue = ''FY''" "fli_fiscal_period eur_revenue = ''FY''" "fli_fiscal_period gbp_profit = ''FY''"
  "fli_filing_date old_revenue = 600" "fli_filing_date eur_revenue = 700" "fli_filing_date gbp_profit = 700"
  by (simp_all add: old_revenue_def eur_revenue_def gbp_profit_def trend_row_def period_of_def)

lemma trend_sample_metrics:
  "metric_of old_revenue = Some ''revenue''" "metric_of eur_revenue = Some ''revenue''" "metric_of gbp_profit = Some ''net_income''"
  by code_simp+

lemma trend_sample_rows:
  "trend_rows id (length :: string \<Rightarrow> nat) ''c1'' trend_sample = [eur_revenue, gbp_profit, old_revenue]"
  by (simp add: trend_rows_def trend_sample_def trend_sample_fields trend_sample_metrics)

lemma trend_slots:
  "slot_row (trend_rows id (length :: string \<Rightarrow> nat) ''c1'' trend_sample) (3, ''FY'') ''revenue'' = Some eur_revenue"
  "slot_row (trend_rows id (length :: string \<Rightarrow> nat) ''c1'' trend_sample) (3, ''FY'') ''net_income'' = Some gbp_profit"
  by (simp_all add: trend_sample_rows slot_row_def trend_sample_fields trend_sample_metrics)

lemma trend_resolved:
  "snd (resolve_value eur_revenue ''eur'') \<noteq> ''USD''" "snd (resolve_value gbp_profit ''eur'') = ''USD''"
  by code_simp+

lemma trend_sample_ok:
  "\<exists>resp. get_company_trends id (length :: string \<Rightarrow> nat) (Some demo_analyst) ''c1'' ''eur'' [demo_company] trend_sample = Inr resp"
proof -
  let ?st = "fold (trend_step ''EUR'') (trend_rows id (length :: string \<Rightarrow> nat) ''c1'' trend_sample) trend_start"
  have "get_row co_id ''c1'' [demo_company] = Some demo_company" by (simp add: get_row_def demo_company_def)
  moreover have "(3, ''FY'') \<in> set (map point_period (trend_points ?st))"
    using trend_points_periods(3)[OF trend_loop_follows[of "''EUR''" "trend_rows id (length :: string \<Rightarrow> nat) ''c1'' trend_sample"]] trend_slots(1)
    by blast
  then have "trend_points ?st \<noteq> []" by auto
  moreover have "str_upper ''eur'' = ''EUR''" by code_simp
  ultimately show ?thesis
    by (simp add: get_company_trends_def aggregate_trends_def require_authenticated_def Let_def)
qed

lemma trends_show_latest_filed_witness:
  "\<exists>resp. get_company_trends id (length :: string \<Rightarrow> nat) (Some demo_analyst) ''c1'' ''eur'' [demo_company] trend_sample = Inr resp
    \<and> distinct (map point_period (tr_data resp))"
proof -
  obtain resp where r: "get_company_trends id (length :: string \<Rightarrow> nat) (Some demo_analyst) ''c1'' ''eur'' [demo_company] trend_sample = Inr resp"
    using trend_sample_ok by blast
  from trends_show_latest_filed[OF this] r show ?thesis by simp
qed

lemma mixed_period_mislabelled_witness:
  "\<exists>resp. get_company_trends id (length :: string \<Rightarrow> nat) (Some demo_analyst) ''c1'' ''eur'' [demo_company] trend_sample = Inr resp
    \<and> (\<exists>p \<in> set (tr_data resp). tp_currency p = ''USD'' \<and> tp_revenue p = Some 100)"
proof -
  obtain resp where r: "get_company_trends id (length :: string \<Rightarrow> nat) (Some demo_analyst) ''c1'' ''eur'' [demo_company] trend_sample = Inr resp"
    using trend_sample_ok by blast
  have h: "''revenue'' \<in> headline_metrics" by (simp add: headline_metrics_def)
  have v: "fli_value_reported eur_revenue = Some (Dec 100 0)" by (simp add: eur_revenue_def trend_row_def)
  obtain p where p: "p \<in> set (tr_data resp)" "tp_currency p = ''USD''"
    "tp_metric ''revenue'' p = map_option dval (fli_value_reported eur_revenue)"
    using mixed_period_mislabelled[OF r trend_slots(1) trend_resolved(1) trend_slots(2) trend_resolved(2) h] by blast
  then have "tp_revenue p = Some 100" by (simp add: v dval_Dec)
  with r p show ?thesis by blast
qed

definition all_financials :: financials_query where
  "all_financials = \<lparr>fq_limit = 50, fq_offset = 0, fq_fiscal_year = None, fq_fiscal_period = None, fq_statement_type = None,
     fq_include_restated = False\<rparr>"

lemma financial_reads_cross_workspaces_witness:
  "get_company (Some demo_analyst) ''c1'' [demo_company\<lparr>co_tenant_id := ''other''\<rparr>] = Inl CoNotFound
    \<and> (\<exists>resp. list_company_financials id (length :: string \<Rightarrow> nat) (Some demo_analyst) ''c1'' all_financials [demo_company\<lparr>co_tenant_id := ''other''\<rparr>] [eur_revenue] = Inr resp
         \<and> mset (fr_items resp) = {#eur_revenue#})"
proof -
  let ?co = "demo_company\<lparr>co_tenant_id := ''other''\<rparr>"
  have a: "require_authenticated (Some demo_analyst) = Inr demo_analyst" by (simp add: require_authenticated_def)
  have t: "cx_tenant_id demo_analyst \<noteq> co_tenant_id ?co"
    by (simp add: demo_analyst_def context_of_def demo_payload_def demo_tid_def)
  have q: "valid_query all_financials" "fq_offset all_financials = 0" by (simp_all add: valid_query_def all_financials_def)
  have m: "filter (matches all_financials (co_id ?co)) [eur_revenue] = [eur_revenue]"
    by (simp add: matches_def all_financials_def eur_revenue_def trend_row_def demo_company_def)
  have l: "int (length (filter (matches all_financials (co_id ?co)) [eur_revenue])) \<le> fq_limit all_financials"
    unfolding m by (simp add: all_financials_def)
  show ?thesis
    using financial_reads_cross_workspaces[of ?co "[?co]" "Some demo_analyst" demo_analyst "Some demo_analyst" demo_analyst all_financials
        id "[eur_revenue]" "length :: string \<Rightarrow> nat", OF _ _ a t a q(1) _ q(2) l] m
    by (simp add: demo_company_def)
qed

end
