(* ===== verification/FXRates.thy ===== *)
theory FXRates
  imports FXTranslator PyIso "HOL-Library.AList"
begin

text \<open>
  Where the exchange rates come from: the daily import from the European Central Bank
  (\<^verbatim>\<open>workers/tasks/fx_tasks.py\<close>) and the repository of the table \<^verbatim>\<open>daily_fx_rates\<close>
  (\<^verbatim>\<open>apps/api/repositories/fx_rates.py\<close>).  The bank's answer is given as SDMX-JSON describes it: dimensions
  with string identifiers, observations that are numbers or null, a number standing for the decimal it prints as.
  Storage failures other than the table's own constraints are left out.
\<close>

subsection \<open>Imports inside functions\<close>

text \<open>
  The import statements the task runs before anything else, against the names that the modules
  define: \<^verbatim>\<open>apps/api/core/database.py\<close> and \<^verbatim>\<open>services/extraction/normaliser/currency.py\<close>.
\<close>

definition database_names :: "string list" where
  "database_names =
     [''annotations'', ''AsyncGenerator'', ''text'', ''AsyncConnection'', ''AsyncEngine'', ''AsyncSession'', ''async_sessionmaker'',
      ''create_async_engine'', ''DeclarativeBase'', ''Base'', ''engine'', ''AsyncSessionFactory'', ''init_db'', ''dispose_db'',
      ''check_db'', ''get_db'']"

definition currency_names :: "string list" where
  "currency_names =
     [''annotations'', ''dataclass'', ''date'', ''Decimal'', ''ROUND_HALF_UP'', ''Protocol'', ''structlog'', ''log'', ''_BS'', ''_IS'', ''_CF'',
      ''_BALANCE_SHEET_STATEMENTS'', ''_FLOW_STATEMENTS'', ''_MONETARY_SCALE'', ''_FX_RATE_SCALE'', ''FXRateProvider'',
      ''FXRateLookupError'', ''TranslationResult'', ''CurrencyNormaliser'']"

datatype sync_error =
    ImportError string
  | EcbTransport string
  | EcbStatus nat
  | EcbStructure
  | FxPy py_error
  | FxStorage

abbreviation lift_sync :: "py_error + 'a \<Rightarrow> sync_error + 'a" where
  "lift_sync \<equiv> map_error FxPy"

fun import_names :: "string list \<Rightarrow> string list \<Rightarrow> sync_error + unit" where
  "import_names defined [] = Inr ()"
| "import_names defined (n # ns) = (if n \<in> set defined then import_names defined ns else Inl (ImportError n))"

text \<open>Importing \<^verbatim>\<open>apps.api.repositories.fx_rates\<close> runs the imports at its top.\<close>

definition import_fx_rates :: "sync_error + unit" where
  "import_fx_rates = import_names currency_names [''DailyRate'', ''FXRateLookupError'']"

definition sync_imports :: "sync_error + unit" where
  "sync_imports = rbind (import_names database_names [''AsyncSessionLocal'']) (\<lambda>_. import_fx_rates)"

subsection \<open>The bank's answer\<close>

record ecb_dimension =
  dim_id :: string
  dim_values :: "string list"

type_synonym ecb_series = "(string \<times> (string \<times> decimal option list) list) list"

record ecb_payload =
  ecb_dimensions :: "(ecb_dimension list \<times> ecb_dimension list) option"
  ecb_data_sets :: "ecb_series list"

type_synonym ecb_rates = "(string \<times> (string \<times> decimal) list) list"

text \<open>\<open>next(i for i, d in enumerate(dims) if d["id"] == name)\<close>, with the dimension.\<close>

fun find_dimension :: "string \<Rightarrow> nat \<Rightarrow> ecb_dimension list \<Rightarrow> (nat \<times> ecb_dimension) option" where
  "find_dimension name i [] = None"
| "find_dimension name i (d # ds) = (if dim_id d = name then Some (i, d) else find_dimension name (Suc i) ds)"

text \<open>Indexing a list: a negative index counts from the end.\<close>

definition py_index :: "'a list \<Rightarrow> int \<Rightarrow> 'a option" where
  "py_index xs i =
     (if 0 \<le> i \<and> i < int (length xs) then Some (xs ! nat i)
      else if i < 0 \<and> - int (length xs) \<le> i then Some (xs ! nat (int (length xs) + i)) else None)"

definition index_by :: "'a list \<Rightarrow> string \<Rightarrow> 'a option" where
  "index_by xs s = (case py_int s of Inl _ \<Rightarrow> None | Inr i \<Rightarrow> py_index xs i)"

definition add_rate :: "string \<Rightarrow> string \<Rightarrow> decimal \<Rightarrow> ecb_rates \<Rightarrow> ecb_rates" where
  "add_rate d c r res = AList.update d (AList.update c r (case map_of res d of None \<Rightarrow> [] | Some m \<Rightarrow> m)) res"

definition read_observation :: "string list \<Rightarrow> string \<times> decimal option list \<Rightarrow> (string \<times> decimal) option" where
  "read_observation dates ob =
     (case (index_by dates (fst ob), snd ob) of
        (Some d, Some r # _) \<Rightarrow> Some (d, r)
      | _ \<Rightarrow> None)"

definition read_series :: "nat \<Rightarrow> string list \<Rightarrow> string list \<Rightarrow> string \<times> (string \<times> decimal option list) list \<Rightarrow> ecb_rates \<Rightarrow> ecb_rates" where
  "read_series k currencies dates s res =
     (let parts = split_on (CHR '':'') (fst s) in
      case (if k < length parts then index_by currencies (parts ! k) else None) of
        None \<Rightarrow> res
      | Some c \<Rightarrow>
          fold (\<lambda>ob res1. case read_observation dates ob of None \<Rightarrow> res1 | Some (d, r) \<Rightarrow> add_rate d c r res1) (snd s) res)"

definition parse_ecb_jsonstat :: "ecb_payload \<Rightarrow> sync_error + ecb_rates" where
  "parse_ecb_jsonstat p =
     (case ecb_dimensions p of
        None \<Rightarrow> Inl EcbStructure
      | Some (series_dims, obs_dims) \<Rightarrow>
          (case (find_dimension ''CURRENCY'' 0 series_dims, find_dimension ''TIME_PERIOD'' 0 obs_dims) of
             (Some (k, cd), Some (_, td)) \<Rightarrow>
               (case ecb_data_sets p of
                  [] \<Rightarrow> Inr []
                | series # _ \<Rightarrow> Inr (fold (read_series k (dim_values cd) (dim_values td)) series []))
           | _ \<Rightarrow> Inl EcbStructure))"

definition ECB_BASE_URL :: string where
  "ECB_BASE_URL = ''https://data-api.ecb.europa.eu/service/data/EXR''"

fun str_join :: "string \<Rightarrow> string list \<Rightarrow> string" where
  "str_join sep [] = []"
| "str_join sep [s] = s"
| "str_join sep (s # t # ts) = s @ sep @ str_join sep (t # ts)"

definition ecb_url :: "string list \<Rightarrow> date \<Rightarrow> date \<Rightarrow> string" where
  "ecb_url currencies start_date end_date =
     ECB_BASE_URL @ ''/D.'' @ str_join ''+'' (map str_upper currencies) @ ''.EUR.SP00.A?startPeriod='' @ date_isoformat start_date
       @ ''&endPeriod='' @ date_isoformat end_date @ ''&format=jsondata''"

text \<open>The HTTP client: an exception, or a status and the decoded body.\<close>

type_synonym ecb_http = "string \<Rightarrow> sync_error + (nat \<times> (sync_error + ecb_payload))"

definition fetch_ecb_rates_for_batch :: "ecb_http \<Rightarrow> string list \<Rightarrow> date \<Rightarrow> date \<Rightarrow> sync_error + ecb_rates" where
  "fetch_ecb_rates_for_batch H currencies start_date end_date =
     rbind (H (ecb_url currencies start_date end_date)) (\<lambda>(st, body).
       if st = 404 then Inr []
       else if st \<noteq> 200 then Inl (EcbStatus st)
       else rbind body parse_ecb_jsonstat)"

subsection \<open>From euros to dollars\<close>

definition emit_currencies :: "string list \<Rightarrow> string list" where
  "emit_currencies targets = filter (\<lambda>c. c \<noteq> ''USD'') (map str_upper targets)"

text \<open>The rate of one currency on one date, in units per dollar; \<open>None\<close> when it is skipped.\<close>

definition usd_convention :: "(string \<times> decimal) list \<Rightarrow> decimal \<Rightarrow> string \<Rightarrow> sync_error + decimal option" where
  "usd_convention per_eur usd_per_eur currency =
     (case (if currency = ''EUR'' then Some (Dec 1 0) else map_of per_eur currency) of
        None \<Rightarrow> Inr None
      | Some x_per_eur \<Rightarrow>
          if currency \<noteq> ''EUR'' \<and> dec_le x_per_eur (Dec 0 0) then Inr None
          else
            rbind (lift_sync (dec_div x_per_eur usd_per_eur)) (\<lambda>q.
            rbind (lift_sync (dec_quantize ROUND_HALF_EVEN fx_rate_scale q)) (\<lambda>r.
              Inr (if dec_le r (Dec 0 0) then None else Some r))))"

type_synonym fx_quote = "date \<times> string \<times> decimal"

definition convert_date :: "string list \<Rightarrow> string \<times> (string \<times> decimal) list \<Rightarrow> sync_error + fx_quote list" where
  "convert_date emit e =
     (case map_of (snd e) ''USD'' of
        None \<Rightarrow> Inr []
      | Some usd_per_eur \<Rightarrow>
          if dec_le usd_per_eur (Dec 0 0) then Inr []
          else case date_fromisoformat (fst e) of
              Inl _ \<Rightarrow> Inr []
            | Inr d \<Rightarrow>
                rbind (rmap (\<lambda>c. rbind (usd_convention (snd e) usd_per_eur c) (\<lambda>r. Inr (c, r))) emit) (\<lambda>rs.
                  Inr (List.map_filter (\<lambda>(c, r). map_option (\<lambda>x. (d, c, x)) r) rs)))"

definition convert_ecb_to_usd_convention :: "ecb_rates \<Rightarrow> string list \<Rightarrow> sync_error + fx_quote list" where
  "convert_ecb_to_usd_convention ecb_data targets =
     rbind (rmap (convert_date (emit_currencies targets)) ecb_data) (\<lambda>rows. Inr (concat rows))"

subsection \<open>The repository\<close>

record fx_row =
  fx_rate_date :: date
  fx_from_currency :: string
  fx_to_currency :: string
  fx_rate :: decimal
  fx_created_at :: int
  fx_updated_at :: int

definition fx_key :: "fx_row \<Rightarrow> date \<times> string \<times> string" where
  "fx_key r = (fx_rate_date r, fx_from_currency r, fx_to_currency r)"

record fx_rate_create =
  fc_rate_date :: date
  fc_from_currency :: string
  fc_to_currency :: string
  fc_rate :: decimal

definition new_fx_rate :: "date \<Rightarrow> string \<Rightarrow> string \<Rightarrow> decimal \<Rightarrow> sync_error + fx_rate_create" where
  "new_fx_rate d c t r =
     (if dec_le r (Dec 0 0) then Inl (FxPy ValueError)
      else Inr \<lparr>fc_rate_date = d, fc_from_currency = str_upper c, fc_to_currency = str_upper t, fc_rate = r\<rparr>)"

definition create_key :: "fx_rate_create \<Rightarrow> date \<times> string \<times> string" where
  "create_key c = (fc_rate_date c, fc_from_currency c, fc_to_currency c)"

definition fx_row_of :: "int \<Rightarrow> fx_rate_create \<Rightarrow> fx_row" where
  "fx_row_of now c =
     \<lparr>fx_rate_date = fc_rate_date c, fx_from_currency = fc_from_currency c, fx_to_currency = fc_to_currency c,
      fx_rate = fc_rate c, fx_created_at = now, fx_updated_at = now\<rparr>"

text \<open>One row of \<^verbatim>\<open>INSERT \<dots> ON CONFLICT DO UPDATE\<close> on the primary key.\<close>

definition upsert_row :: "int \<Rightarrow> fx_rate_create \<Rightarrow> fx_row list \<Rightarrow> fx_row list" where
  "upsert_row now c rows =
     (if create_key c \<in> fx_key ` set rows
      then update_where (\<lambda>r. fx_key r = create_key c) (\<lambda>r. r\<lparr>fx_rate := fc_rate c, fx_updated_at := now\<rparr>) rows
      else rows @ [fx_row_of now c])"

text \<open>
  The statement fails as a whole when a code does not fit its column of three characters or when two of
  its rows have one key (a row must not be updated twice).
\<close>

definition fx_bulk_upsert :: "int \<Rightarrow> fx_rate_create list \<Rightarrow> fx_row list \<Rightarrow> sync_error + (nat \<times> fx_row list)" where
  "fx_bulk_upsert now rates rows =
     (if rates = [] then Inr (0, rows)
      else if (\<exists>c \<in> set rates. 3 < length (fc_from_currency c) \<or> 3 < length (fc_to_currency c))
              \<or> \<not> distinct (map create_key rates) then Inl FxStorage
      else Inr (length rates, fold (upsert_row now) rates rows))"

text \<open>
  The queries.  \<open>mk\<close> is the constructor call \<open>DailyRate(on_date=\<dots>, rate=\<dots>)\<close>, of a class the module asks
  the normaliser for, where it is not defined: the queries never run, and no lemma below supposes what \<open>mk\<close> returns.
\<close>

definition get_rates_in_range :: "(date \<Rightarrow> decimal \<Rightarrow> fx_error + daily_rate) \<Rightarrow> fx_row list \<Rightarrow> string \<Rightarrow> date \<Rightarrow> date
    \<Rightarrow> fx_error + daily_rate list" where
  "get_rates_in_range mk rows currency start end_date =
     (let cur = str_upper currency in
      if cur = ''USD'' then
        rmap (\<lambda>i. rbind (lift (date_add start i)) (\<lambda>d. rbind usd_rate (\<lambda>u. mk d u))) [0..end_date - start]
      else
        rmap (\<lambda>r. mk (fx_rate_date r) (fx_rate r))
          (sort_key fx_rate_date
            (filter (\<lambda>r. fx_from_currency r = cur \<and> fx_to_currency r = ''USD'' \<and> start \<le> fx_rate_date r \<and> fx_rate_date r \<le> end_date) rows)))"

definition repo_spot_rate :: "(date \<Rightarrow> decimal \<Rightarrow> fx_error + daily_rate) \<Rightarrow> fx_row list \<Rightarrow> string \<Rightarrow> date \<Rightarrow> fx_error + decimal" where
  "repo_spot_rate mk rows currency d =
     (let cur = str_upper currency in
      if cur = ''USD'' then usd_rate
      else
        rbind (lift (date_add d (- max_lookback_days))) (\<lambda>fetch_start.
        rbind (get_rates_in_range mk rows cur fetch_start d) (\<lambda>daily_rates.
          if daily_rates = [] then Inl FXRateLookupError
          else lift (dec_quantize ROUND_HALF_EVEN fx_rate_scale (dr_rate (last daily_rates))))))"

text \<open>The loop over the days of the period: a day without a closing in its window is left out.\<close>

function resolved_days :: "(date \<rightharpoonup> decimal) \<Rightarrow> date \<Rightarrow> date \<Rightarrow> fx_error + decimal list" where
  "resolved_days rate_map current period_end =
     (if period_end < current then Inr []
      else
        rbind (lift (resolve_with_lookback rate_map current max_lookback_days)) (\<lambda>rate.
          if valid_date (current + 1)
          then rbind (resolved_days rate_map (current + 1) period_end) (\<lambda>rs.
                 Inr (case rate of None \<Rightarrow> rs | Some r \<Rightarrow> r # rs))
          else Inl (PyErr OverflowError)))"
  by pat_completeness auto
termination
  by (relation "measure (\<lambda>(m, s, e). nat (e + 1 - s))") auto

declare resolved_days.simps [simp del]

definition repo_weighted_average_rate :: "(date \<Rightarrow> decimal \<Rightarrow> fx_error + daily_rate) \<Rightarrow> fx_row list \<Rightarrow> string \<Rightarrow> date \<Rightarrow> date
    \<Rightarrow> fx_error + decimal" where
  "repo_weighted_average_rate mk rows currency period_start period_end =
     (let cur = str_upper currency in
      if cur = ''USD'' then usd_rate
      else
        rbind (lift (date_add period_start (- max_lookback_days))) (\<lambda>fetch_start.
        rbind (get_rates_in_range mk rows cur fetch_start period_end) (\<lambda>daily_rates.
          if daily_rates = [] then Inl FXRateLookupError
          else
            rbind (resolved_days (build_rate_map daily_rates) period_start period_end) (\<lambda>resolved.
              if resolved = [] then Inl FXRateLookupError
              else
                rbind (lift (dec_div (dec_sum (Dec 0 0) resolved) (Dec (int (length resolved)) 0))) (\<lambda>avg.
                  lift (dec_quantize ROUND_HALF_EVEN fx_rate_scale avg))))))"

definition get_rate_on_date :: "(date \<Rightarrow> decimal \<Rightarrow> fx_error + daily_rate) \<Rightarrow> fx_row list \<Rightarrow> string \<Rightarrow> date
    \<Rightarrow> fx_error + daily_rate option" where
  "get_rate_on_date mk rows currency d =
     (let cur = str_upper currency in
      if cur = ''USD'' then rbind usd_rate (\<lambda>u. rbind (mk d u) (\<lambda>r. Inr (Some r)))
      else case find (\<lambda>r. fx_key r = (d, cur, ''USD'')) rows of
          None \<Rightarrow> Inr None
        | Some r \<Rightarrow> rbind (mk (fx_rate_date r) (fx_rate r)) (\<lambda>x. Inr (Some x)))"

subsection \<open>The import\<close>

record sync_summary =
  ss_rates_upserted :: nat
  ss_dates_processed :: nat
  ss_rows_built :: nat
  ss_warning :: bool

fun merge_batch :: "ecb_rates \<Rightarrow> ecb_rates \<Rightarrow> ecb_rates" where
  "merge_batch [] ecb = ecb"
| "merge_batch ((d, m) # batch) ecb =
     merge_batch batch (AList.update d (AList.updates (map fst m) (map snd m) (case map_of ecb d of None \<Rightarrow> [] | Some x \<Rightarrow> x)) ecb)"

definition ECB_CURRENCY_BATCH_SIZE :: nat where "ECB_CURRENCY_BATCH_SIZE = 30"

function batches :: "'a list \<Rightarrow> 'a list list" where
  "batches xs = (if xs = [] then [] else take ECB_CURRENCY_BATCH_SIZE xs # batches (drop ECB_CURRENCY_BATCH_SIZE xs))"
  by pat_completeness auto
termination
  by (relation "measure length") (auto simp: ECB_CURRENCY_BATCH_SIZE_def)

declare batches.simps [simp del]

fun fetch_batches :: "ecb_http \<Rightarrow> date \<Rightarrow> date \<Rightarrow> string list list \<Rightarrow> ecb_rates \<Rightarrow> sync_error + ecb_rates" where
  "fetch_batches H s e [] ecb = Inr ecb"
| "fetch_batches H s e (b # bs) ecb =
     rbind (fetch_ecb_rates_for_batch H b s e) (\<lambda>batch. fetch_batches H s e bs (merge_batch batch ecb))"

text \<open>
  The pipeline behind the imports, which the task never gets past (\<open>rate_sync_never_stores\<close> below).  \<open>arrange\<close> is the order in which a set of strings is listed.
\<close>

definition sync_pipeline :: "ecb_http \<Rightarrow> (string set \<Rightarrow> string list) \<Rightarrow> int \<Rightarrow> date \<Rightarrow> int \<Rightarrow> string list \<Rightarrow> fx_row list
    \<Rightarrow> sync_error + (sync_summary \<times> fx_row list)" where
  "sync_pipeline H arrange now today days_back currencies rows =
     rbind (lift_sync (date_add today (- days_back))) (\<lambda>start_date.
     rbind (fetch_batches H start_date today (batches (arrange (insert ''USD'' (set currencies)))) []) (\<lambda>ecb.
       if ecb = [] then Inr (\<lparr>ss_rates_upserted = 0, ss_dates_processed = 0, ss_rows_built = 0, ss_warning = True\<rparr>, rows)
       else
         rbind (convert_ecb_to_usd_convention ecb (filter (\<lambda>c. str_upper c \<noteq> ''USD'') currencies)) (\<lambda>quotes.
           if quotes = [] then
             Inr (\<lparr>ss_rates_upserted = 0, ss_dates_processed = length ecb, ss_rows_built = 0, ss_warning = True\<rparr>, rows)
           else
             rbind (rmap (\<lambda>(d, c, r). new_fx_rate d c ''USD'' r) quotes) (\<lambda>creates.
             rbind (fx_bulk_upsert now creates rows) (\<lambda>(affected, rows1).
               Inr (\<lparr>ss_rates_upserted = affected, ss_dates_processed = length ecb, ss_rows_built = length creates, ss_warning = False\<rparr>,
                    rows1))))))"

definition run_fx_sync :: "ecb_http \<Rightarrow> (string set \<Rightarrow> string list) \<Rightarrow> int \<Rightarrow> date \<Rightarrow> int \<Rightarrow> string list \<Rightarrow> fx_row list
    \<Rightarrow> sync_error + (sync_summary \<times> fx_row list)" where
  "run_fx_sync H arrange now today days_back currencies rows =
     rbind sync_imports (\<lambda>_. sync_pipeline H arrange now today days_back currencies rows)"

definition DEFAULT_CURRENCIES :: "string list" where
  "DEFAULT_CURRENCIES =
     [''USD'', ''EUR'', ''GBP'', ''JPY'', ''INR'', ''CNY'', ''CHF'', ''AUD'', ''CAD'', ''HKD'', ''SGD'', ''KRW'', ''SEK'', ''NOK'', ''DKK'', ''MXN'',
      ''BRL'', ''ZAR'', ''TRY'', ''RUB'', ''IDR'', ''MYR'', ''PHP'', ''THB'', ''NZD'', ''PLN'', ''CZK'', ''HUF'', ''RON'', ''ILS'', ''SAR'', ''AED'',
      ''PKR'']"

definition resolved_currencies :: "string list option \<Rightarrow> string list" where
  "resolved_currencies currencies =
     (case currencies of Some (c # cs) \<Rightarrow> map str_upper (c # cs) | _ \<Rightarrow> DEFAULT_CURRENCIES)"

definition RETRY_BACKOFF :: "nat list" where "RETRY_BACKOFF = [60, 180, 600]"
definition MAX_RETRIES :: nat where "MAX_RETRIES = 3"

datatype sync_end = SyncOk sync_summary | SyncRetry nat | SyncFailed sync_error

text \<open>One attempt: it returns a summary, asks to be run again after a number of seconds, or gives up.\<close>

definition sync_attempt :: "(nat \<Rightarrow> ecb_http) \<Rightarrow> (string set \<Rightarrow> string list) \<Rightarrow> (nat \<Rightarrow> int) \<Rightarrow> (nat \<Rightarrow> date) \<Rightarrow> int \<Rightarrow> string list option
    \<Rightarrow> nat \<Rightarrow> fx_row list \<Rightarrow> sync_end \<times> fx_row list" where
  "sync_attempt H arrange clock today days_back currencies retries rows =
     (case run_fx_sync (H retries) arrange (clock retries) (today retries) days_back (resolved_currencies currencies) rows of
        Inr (summary, rows1) \<Rightarrow> (SyncOk summary, rows1)
      | Inl e \<Rightarrow>
          if retries < MAX_RETRIES then (SyncRetry (RETRY_BACKOFF ! min retries (length RETRY_BACKOFF - 1)), rows)
          else (SyncFailed e, rows))"

function sync_fx_rates_task :: "(nat \<Rightarrow> ecb_http) \<Rightarrow> (string set \<Rightarrow> string list) \<Rightarrow> (nat \<Rightarrow> int) \<Rightarrow> (nat \<Rightarrow> date) \<Rightarrow> int \<Rightarrow> string list option
    \<Rightarrow> nat \<Rightarrow> fx_row list \<Rightarrow> sync_end \<times> nat list \<times> fx_row list" where
  "sync_fx_rates_task H arrange clock today days_back currencies retries rows =
     (case sync_attempt H arrange clock today days_back currencies retries rows of
        (SyncRetry s, rows1) \<Rightarrow>
          if retries < MAX_RETRIES then
            (case sync_fx_rates_task H arrange clock today days_back currencies (Suc retries) rows1 of
               (e, waits, rows2) \<Rightarrow> (e, s # waits, rows2))
          else (SyncRetry s, [], rows1)
      | (e, rows1) \<Rightarrow> (e, [], rows1))"
  by pat_completeness auto
termination
  by (relation "measure (\<lambda>(_, _, _, _, _, _, retries, _). MAX_RETRIES - retries)") auto

declare sync_fx_rates_task.simps [simp del]

subsection \<open>The import never starts\<close>

text \<open>
  The daily import of rates cannot succeed.  Whatever the bank answers, each of the four attempts stops at an
  import of a name that the database module does not define; the task waits 60, 180 and 600 seconds,
  reports failure and leaves the table of rates as it was.
\<close>

lemma rate_sync_never_stores:
  "sync_fx_rates_task H arrange clock today days_back currencies 0 rows
     = (SyncFailed (ImportError ''AsyncSessionLocal''), [60, 180, 600], rows)"
proof -
  have "run_fx_sync h a t d n cs rs = Inl (ImportError ''AsyncSessionLocal'')" for h a t d n cs rs
    by (simp add: run_fx_sync_def sync_imports_def database_names_def)
  then have a: "sync_attempt H arrange clock today days_back currencies k rows =
      (if k < 3 then SyncRetry ([60, 180, 600] ! min k 2) else SyncFailed (ImportError ''AsyncSessionLocal''), rows)" for k
    by (simp add: sync_attempt_def MAX_RETRIES_def RETRY_BACKOFF_def)
  show ?thesis
    by (simp add: sync_fx_rates_task.simps a MAX_RETRIES_def eval_nat_numeral)
qed

text \<open>The second import would fail as well.\<close>

lemma repository_not_importable: "import_fx_rates = Inl (ImportError ''DailyRate'')"
  by (simp add: import_fx_rates_def currency_names_def)

subsection \<open>The conversion\<close>

lemma usd_convention_Some:
  assumes "usd_convention per_eur usd c = Inr (Some r)" and "0 < coeff usd"
  obtains x where "(if c = ''EUR'' then Some (Dec 1 0) else map_of per_eur c) = Some x" and "0 < coeff x"
    and "0 < coeff r" "expo r = fx_rate_scale" "fits r"
    and "\<bar>dval r - dval x / dval usd\<bar> \<le> 1 / (2 * 10 ^ 10) + dval x / dval usd / 10 ^ 27"
proof -
  from assms(1) obtain x q where x: "(if c = ''EUR'' then Some (Dec 1 0) else map_of per_eur c) = Some x"
    and pos: "c = ''EUR'' \<or> 0 < coeff x"
    and q: "dec_div x usd = Inr q" and r: "dec_quantize ROUND_HALF_EVEN fx_rate_scale q = Inr r" "0 < coeff r"
    by (auto simp: usd_convention_def rbind_eq_Inr dec_le_iff dval_Dec not_le dval_0_less_iff split: option.splits if_splits)
  have px: "0 < coeff x" using pos x by (auto split: if_splits)
  have quot: "0 < dval x / dval usd" using px assms(2) by (simp add: dval_0_less_iff)
  have e1: "10 ^ 27 * \<bar>dval q - dval x / dval usd\<bar> \<le> dval x / dval usd"
    using dec_div_error[OF q] quot by simp
  have e2: "2 * \<bar>dval r - dval q\<bar> \<le> 10 powi fx_rate_scale" by (rule dec_quantize_error[OF r(1)])
  have s: "(10::rat) powi fx_rate_scale = 1 / 10 ^ 10" by (simp add: fx_rate_scale_def power_int_def power_one_over)
  have "\<bar>dval r - dval x / dval usd\<bar> \<le> \<bar>dval r - dval q\<bar> + \<bar>dval q - dval x / dval usd\<bar>" by linarith
  also have "\<dots> \<le> 1 / (2 * 10 ^ 10) + dval x / dval usd / 10 ^ 27"
    using e2 scale_bound[OF e1] unfolding s by (intro add_mono) simp_all
  finally show thesis using that[OF x px r(2)] dec_quantize_InrD[OF r(1)] by simp
qed

lemma map_filter_pairs:
  "y \<in> set (List.map_filter (\<lambda>(c, r). map_option (\<lambda>x. (d, c, x)) r) rs) \<longleftrightarrow> (\<exists>c r. y = (d, c, r) \<and> (c, Some r) \<in> set rs)"
  by (force simp: List.map_filter_def)

lemma convert_date_quote:
  assumes "convert_date emit (day, per_eur) = Inr qs" and "(d, c, r) \<in> set qs"
  obtains usd where "map_of per_eur ''USD'' = Some usd" "0 < coeff usd" "date_fromisoformat day = Inr d" "c \<in> set emit"
    "usd_convention per_eur usd c = Inr (Some r)"
proof -
  from assms obtain usd d' where u: "map_of per_eur ''USD'' = Some usd" "0 < coeff usd" "date_fromisoformat day = Inr d'"
    by (auto simp: convert_date_def dec_le_iff dval_Dec not_le dval_0_less_iff split: option.splits if_splits sum.splits)
  then have "\<not> dec_le usd (Dec 0 0)" by (simp add: dec_le_iff dval_Dec not_le dval_0_less_iff)
  with assms(1) u obtain rs where rs: "rmap (\<lambda>c. rbind (usd_convention per_eur usd c) (\<lambda>r. Inr (c, r))) emit = Inr rs"
    "qs = List.map_filter (\<lambda>(c, r). map_option (\<lambda>x. (d', c, x)) r) rs"
    by (auto simp: convert_date_def rbind_eq_Inr)
  with assms(2) have d: "d' = d" and m: "(c, Some r) \<in> set rs" by (auto simp: map_filter_pairs)
  from rmap_Inr_set[OF rs(1) m] have "c \<in> set emit" "usd_convention per_eur usd c = Inr (Some r)"
    by (auto simp: rbind_eq_Inr)
  with that[OF u(1,2)] u(3) d show thesis by simp
qed

lemma converted_quote:
  assumes "convert_ecb_to_usd_convention ecb targets = Inr quotes" and "(d, c, r) \<in> set quotes"
  obtains day per_eur usd where "(day, per_eur) \<in> set ecb" "map_of per_eur ''USD'' = Some usd" "0 < coeff usd"
    "date_fromisoformat day = Inr d" "c \<in> set (emit_currencies targets)" "usd_convention per_eur usd c = Inr (Some r)"
proof -
  from assms obtain qss qs where qss: "rmap (convert_date (emit_currencies targets)) ecb = Inr qss" "qs \<in> set qss" "(d, c, r) \<in> set qs"
    by (auto simp: convert_ecb_to_usd_convention_def rbind_eq_Inr)
  from rmap_Inr_set[OF qss(1,2)] obtain day per_eur where e: "(day, per_eur) \<in> set ecb" "convert_date (emit_currencies targets) (day, per_eur) = Inr qs"
    by auto
  from convert_date_quote[OF e(2) qss(3)] that[OF e(1)] show thesis by blast
qed

text \<open>
  What the import means to store.  Each converted rate belongs to a date of the bank's answer with a positive
  dollar rate and to a requested currency other than the dollar; it is the number of units of
  the currency per dollar, to half a unit of the tenth decimal plus a relative \<open>10\<^sup>-\<^sup>2\<^sup>7\<close>, and positive.
\<close>

lemma converted_rate_accuracy:
  assumes "convert_ecb_to_usd_convention ecb targets = Inr quotes" and "(d, c, r) \<in> set quotes"
  shows "\<exists>day per_eur usd x. (day, per_eur) \<in> set ecb \<and> date_fromisoformat day = Inr d \<and> c \<noteq> ''USD'' \<and> c \<in> str_upper ` set targets
     \<and> map_of per_eur ''USD'' = Some usd \<and> (if c = ''EUR'' then Some (Dec 1 0) else map_of per_eur c) = Some x
     \<and> 0 < dval usd \<and> 0 < dval x \<and> 0 < dval r
     \<and> \<bar>dval r - dval x / dval usd\<bar> \<le> 1 / (2 * 10 ^ 10) + dval x / dval usd / 10 ^ 27"
proof -
  obtain day per_eur usd where q: "(day, per_eur) \<in> set ecb" "map_of per_eur ''USD'' = Some usd" "0 < coeff usd"
      "date_fromisoformat day = Inr d" "c \<in> set (emit_currencies targets)" "usd_convention per_eur usd c = Inr (Some r)"
    using converted_quote[OF assms] .
  obtain x where x: "(if c = ''EUR'' then Some (Dec 1 0) else map_of per_eur c) = Some x" "0 < coeff x" "0 < coeff r"
      "\<bar>dval r - dval x / dval usd\<bar> \<le> 1 / (2 * 10 ^ 10) + dval x / dval usd / 10 ^ 27"
    using usd_convention_Some[OF q(6,3)] .
  have c: "c \<noteq> ''USD''" "c \<in> str_upper ` set targets" using q(5) by (auto simp: emit_currencies_def)
  have p: "0 < dval usd" "0 < dval x" "0 < dval r" using q(3) x(2,3) by (simp_all add: dval_0_less_iff)
  show ?thesis
    by (rule exI[of _ day], rule exI[of _ per_eur], rule exI[of _ usd], rule exI[of _ x])
      (intro conjI, rule q(1), rule q(4), rule c(1), rule c(2), rule q(2), rule x(1), rule p(1), rule p(2), rule p(3), rule x(4))
qed

subsection \<open>The table\<close>

definition stored :: "fx_row list \<Rightarrow> date \<times> string \<times> string \<Rightarrow> decimal option" where
  "stored rows k = map_option fx_rate (find (\<lambda>r. fx_key r = k) rows)"

lemma stored_None: "stored rows k = None \<longleftrightarrow> k \<notin> fx_key ` set rows"
  by (auto simp: stored_def find_None_iff)

lemma stored_Some: "stored rows k = Some x \<Longrightarrow> \<exists>r \<in> set rows. fx_key r = k \<and> fx_rate r = x"
  by (auto simp: stored_def find_Some_iff)

lemma stored_in: "distinct (map fx_key rows) \<Longrightarrow> r \<in> set rows \<Longrightarrow> stored rows (fx_key r) = Some (fx_rate r)"
  by (induction rows) (auto simp: stored_def rev_image_eqI split: if_splits)

lemma find_append_none: "find P (xs @ [y]) = (case find P xs of Some x \<Rightarrow> Some x | None \<Rightarrow> if P y then Some y else None)"
  by (induction xs) auto

lemma fx_row_of_simps [simp]: "fx_key (fx_row_of now c) = create_key c" "fx_rate (fx_row_of now c) = fc_rate c"
  by (simp_all add: fx_row_of_def fx_key_def create_key_def)

lemma fx_key_update [simp]: "fx_key (r\<lparr>fx_rate := x, fx_updated_at := t\<rparr>) = fx_key r"
  by (simp add: fx_key_def)

lemma stored_update_where:
  "stored (update_where (\<lambda>r. fx_key r = k) (\<lambda>r. r\<lparr>fx_rate := x, fx_updated_at := t\<rparr>) rows) k'
     = (if k' = k \<and> k \<in> fx_key ` set rows then Some x else stored rows k')"
  by (induction rows) (auto simp: stored_def)

lemma stored_snoc: "stored (rows @ [r]) k = (case stored rows k of Some x \<Rightarrow> Some x | None \<Rightarrow> if fx_key r = k then Some (fx_rate r) else None)"
  by (simp add: stored_def find_append_none split: option.splits)

lemma upsert_row_stored: "stored (upsert_row now c rows) k = (if k = create_key c then Some (fc_rate c) else stored rows k)"
proof (cases "create_key c \<in> fx_key ` set rows")
  case True
  then show ?thesis by (simp add: upsert_row_def stored_update_where)
next
  case False
  then have "stored rows (create_key c) = None" by (simp add: stored_None)
  with False show ?thesis by (simp add: upsert_row_def stored_snoc split: option.splits)
qed

lemma upsert_row_keys:
  "map fx_key (upsert_row now c rows) = (if create_key c \<in> fx_key ` set rows then map fx_key rows else map fx_key rows @ [create_key c])"
  by (simp add: upsert_row_def map_update_where)

lemma upsert_rows_distinct:
  "distinct (map fx_key rows) \<Longrightarrow> distinct (map fx_key (fold (upsert_row now) cs rows))"
proof (induction cs arbitrary: rows)
  case (Cons c cs)
  have "distinct (map fx_key (upsert_row now c rows))" using Cons.prems by (simp add: upsert_row_keys)
  from Cons.IH[OF this] show ?case by simp
qed simp

lemma upsert_rows_stored:
  assumes "distinct (map create_key cs)"
  shows "(\<forall>c \<in> set cs. stored (fold (upsert_row now) cs rows) (create_key c) = Some (fc_rate c))
       \<and> (\<forall>k. k \<notin> create_key ` set cs \<longrightarrow> stored (fold (upsert_row now) cs rows) k = stored rows k)"
  using assms
proof (induction cs arbitrary: rows)
  case (Cons c cs)
  then have ih: "\<forall>x \<in> set cs. stored (fold (upsert_row now) cs (upsert_row now c rows)) (create_key x) = Some (fc_rate x)"
      "\<forall>k. k \<notin> create_key ` set cs \<longrightarrow> stored (fold (upsert_row now) cs (upsert_row now c rows)) k = stored (upsert_row now c rows) k"
    by simp_all
  have n: "create_key c \<notin> create_key ` set cs" using Cons.prems by simp
  have new: "stored (fold (upsert_row now) cs (upsert_row now c rows)) (create_key c) = Some (fc_rate c)"
    using ih(2)[rule_format, OF n] by (simp add: upsert_row_stored)
  have old: "stored (fold (upsert_row now) cs (upsert_row now c rows)) k = stored rows k" if "k \<notin> create_key ` set (c # cs)" for k
    using ih(2)[rule_format, of k] that by (simp add: upsert_row_stored)
  have "\<forall>x \<in> set (c # cs). stored (fold (upsert_row now) cs (upsert_row now c rows)) (create_key x) = Some (fc_rate x)"
    using ih(1) new by (metis set_ConsD)
  with old show ?case unfolding fold_simps by blast
qed simp

text \<open>
  An upsert of rates keeps one row per date and pair, makes each new rate the one read back for its
  key, counts the rates it was given, and changes what is read for no other key.
\<close>

lemma upserted_rates_read_back:
  assumes "fx_bulk_upsert now rates rows = Inr (n, rows')" and "distinct (map fx_key rows)"
  shows "distinct (map fx_key rows') \<and> n = length rates
     \<and> (\<forall>c \<in> set rates. stored rows' (create_key c) = Some (fc_rate c))
     \<and> (\<forall>k. k \<notin> create_key ` set rates \<longrightarrow> stored rows' k = stored rows k)"
proof (cases "rates = []")
  case True
  with assms show ?thesis by (simp add: fx_bulk_upsert_def)
next
  case False
  with assms(1) have d: "distinct (map create_key rates)" and r: "rows' = fold (upsert_row now) rates rows" "n = length rates"
    by (auto simp: fx_bulk_upsert_def split: if_splits)
  show ?thesis
    using upsert_rows_stored[OF d, of now rows] upsert_rows_distinct[OF assms(2), of now rates] by (simp add: r)
qed

subsection \<open>The repository's own averages\<close>

text \<open>Where every day of a period has a closing, the repository's loop resolves the days as the provider's does.\<close>

lemma resolved_of_resolve:
  "resolve_days m cur s e = Inr rs \<Longrightarrow> resolved_days m s e = Inr rs"
proof (induction m cur s e arbitrary: rs rule: resolve_days.induct)
  case (1 m cur s e)
  show ?case
  proof (cases "e < s")
    case True
    with "1.prems" show ?thesis by (simp add: resolve_days.simps[of m cur s e] resolved_days.simps[of m s e])
  next
    case False
    with "1.prems" obtain r rs1 where r: "lift (resolve_with_lookback m s max_lookback_days) = Inr (Some r)"
        "assert_nonzero_rate r = Inr ()" "valid_date (s + 1)" "resolve_days m cur (s + 1) e = Inr rs1" "rs = r # rs1"
      by (auto simp: resolve_days.simps[of m cur s e] rbind_eq_Inr split: option.splits if_splits)
    from "1.IH"[OF False r(3,4)] have "resolved_days m (s + 1) e = Inr rs1" by simp
    with False r show ?thesis by (simp add: resolved_days.simps[of m s e])
  qed
qed

subsection \<open>Instances\<close>

definition sample_payload :: ecb_payload where
  "sample_payload = \<lparr>
     ecb_dimensions = Some ([\<lparr>dim_id = ''FREQ'', dim_values = [''D'']\<rparr>, \<lparr>dim_id = ''CURRENCY'', dim_values = [''USD'', ''INR'']\<rparr>],
                            [\<lparr>dim_id = ''TIME_PERIOD'', dim_values = [''0001-01-20'']\<rparr>]),
     ecb_data_sets = [[(''0:0'', [(''0'', [Some (Dec 11 (-1)), None])]), (''0:1'', [(''0'', [Some (Dec 913 (-1))]), (''7'', [None])])]]\<rparr>"

definition sample_ecb :: ecb_http where
  "sample_ecb url = Inr (200, Inr sample_payload)"

definition sample_arrange :: "string set \<Rightarrow> string list" where
  "sample_arrange S = (if S = {''USD'', ''INR''} then [''INR'', ''USD''] else if S = {''USD'', ''EUR''} then [''EUR'', ''USD''] else [''USD''])"

definition sample_quotes :: "fx_quote list" where
  "sample_quotes = [(20, ''INR'', Dec 830000000000 (-10))]"

definition old_rate :: fx_row where
  "old_rate = \<lparr>fx_rate_date = 20, fx_from_currency = ''INR'', fx_to_currency = ''USD'', fx_rate = Dec 820000000000 (-10),
     fx_created_at = 0, fx_updated_at = 0\<rparr>"

definition new_rate :: fx_rate_create where
  "new_rate = \<lparr>fc_rate_date = 20, fc_from_currency = ''INR'', fc_to_currency = ''USD'', fc_rate = Dec 830000000000 (-10)\<rparr>"

definition sample_rates :: ecb_rates where
  "sample_rates = [(''0001-01-20'', [(''USD'', Dec 11 (-1)), (''INR'', Dec 913 (-1))])]"

lemma sample_parsed: "parse_ecb_jsonstat sample_payload = Inr sample_rates"
  by code_simp

lemma sample_converted: "convert_ecb_to_usd_convention sample_rates [''INR''] = Inr sample_quotes"
  by code_simp

lemma sample_fetched: "fetch_batches sample_ecb s e (batches [''INR'', ''USD'']) [] = Inr sample_rates"
proof -
  have "batches [''INR'', ''USD''] = [[''INR'', ''USD'']]"
    by (simp add: batches.simps[of "[''INR'', ''USD'']"] batches.simps[of "[]"] ECB_CURRENCY_BATCH_SIZE_def)
  moreover have "merge_batch sample_rates [] = sample_rates" by code_simp
  ultimately show ?thesis by (simp add: fetch_ecb_rates_for_batch_def sample_ecb_def sample_parsed)
qed

lemma sample_upsert:
  "fx_bulk_upsert 5 [new_rate] [old_rate] = Inr (1, [old_rate\<lparr>fx_rate := Dec 830000000000 (-10), fx_updated_at := 5\<rparr>])"
  by (simp add: fx_bulk_upsert_def new_rate_def old_rate_def upsert_row_def create_key_def fx_key_def)

lemma sample_synced:
  "sync_pipeline sample_ecb sample_arrange 5 20 3 [''INR''] [old_rate]
     = Inr (\<lparr>ss_rates_upserted = 1, ss_dates_processed = 1, ss_rows_built = 1, ss_warning = False\<rparr>,
            [old_rate\<lparr>fx_rate := Dec 830000000000 (-10), fx_updated_at := 5\<rparr>])"
proof -
  have d: "date_add 20 (- 3) = Inr 17" by code_simp
  have f: "[c \<leftarrow> [''INR'']. str_upper c \<noteq> ''USD''] = [''INR'']" by code_simp
  have a: "sample_arrange (insert ''USD'' (set [''INR''])) = [''INR'', ''USD'']" by (simp add: sample_arrange_def)
  have n: "rmap (\<lambda>(d, c, r). new_fx_rate d c ''USD'' r) sample_quotes = Inr [new_rate]" by code_simp
  have ne: "sample_rates \<noteq> []" "sample_quotes \<noteq> []" "length sample_rates = 1" by (simp_all add: sample_rates_def sample_quotes_def)
  show ?thesis
    unfolding sync_pipeline_def d f a by (simp add: sample_fetched sample_converted n sample_upsert ne)
qed

lemma converted_rate_accuracy_witness:
  "\<exists>x usd. \<bar>dval (Dec 830000000000 (-10)) - dval x / dval usd\<bar> \<le> 1 / (2 * 10 ^ 10) + dval x / dval usd / 10 ^ 27 \<and> 0 < dval usd"
proof -
  have "(20, ''INR'', Dec 830000000000 (-10)) \<in> set sample_quotes" by (simp add: sample_quotes_def)
  from converted_rate_accuracy[OF sample_converted this] show ?thesis by blast
qed

lemma upserted_rates_read_back_witness:
  "stored [old_rate\<lparr>fx_rate := Dec 830000000000 (-10), fx_updated_at := 5\<rparr>] (create_key new_rate) = Some (fc_rate new_rate)"
  using upserted_rates_read_back[OF sample_upsert] by simp

text \<open>Days without a closing: the provider's loop names the first, the repository's goes on with the others.\<close>

lemma repository_averages_over_gaps:
  "resolve_days [20 \<mapsto> Dec 820000000000 (-10)] ''INR'' 20 27 = Inl (MissingFXRate ''INR'' 26 ''weighted_average'' 5)
   \<and> resolved_days [20 \<mapsto> Dec 820000000000 (-10)] 20 27 = Inr (replicate 6 (Dec 820000000000 (-10)))"
  by code_simp

text \<open>A currency named twice makes the statement touch one row twice, and nothing is stored.\<close>

lemma repeated_currency_stores_nothing:
  "(case convert_ecb_to_usd_convention sample_rates [''INR'', ''inr''] of
     Inr quotes \<Rightarrow> rbind (rmap (\<lambda>(d, c, r). new_fx_rate d c ''USD'' r) quotes) (\<lambda>cs. fx_bulk_upsert 5 cs rows) = Inl FxStorage
   | Inl _ \<Rightarrow> False)"
proof -
  have q: "convert_ecb_to_usd_convention sample_rates [''INR'', ''inr''] = Inr (sample_quotes @ sample_quotes)" by code_simp
  have n: "rmap (\<lambda>(d, c, r). new_fx_rate d c ''USD'' r) (sample_quotes @ sample_quotes) = Inr [new_rate, new_rate]" by code_simp
  show ?thesis unfolding q by (simp add: n fx_bulk_upsert_def)
qed

end
