(* ===== verification/FXTask.thy ===== *)
theory FXTask
  imports FXRates BulkProcessor
begin

text \<open>
  The Celery task that translates the figures of a job to dollars: \<^verbatim>\<open>workers/tasks/fx_translation_task.py\<close>.
  The imports at the start of its coroutine are an argument, so that what the task does once they succeed can be
  stated as well; \<open>import_fx_rates\<close> is what the repository's code makes of them.  The repository of rates
  is the protocol of the translator; \<open>describe\<close> prints an exception.
\<close>

subsection \<open>One attempt\<close>

datatype fx_task_error =
    FxImport sync_error
  | FxValueError
  | FxGap "missing_rate option"
  | FxTranslate fx_error

fun is_fx_gap_error :: "fx_task_error \<Rightarrow> bool" where
  "is_fx_gap_error (FxGap m) = True"
| "is_fx_gap_error (FxTranslate (MissingFXRate c d x n)) = True"
| "is_fx_gap_error e = False"

fun is_value_error :: "fx_task_error \<Rightarrow> bool" where
  "is_value_error FxValueError = True"
| "is_value_error (FxTranslate (PyErr ValueError)) = True"
| "is_value_error e = False"

datatype fx_return = FxSkipped string | FxCompleted bulk_result

definition SKIP_STATUSES :: "string set" where
  "SKIP_STATUSES = {''cancelled'', ''failed''}"

text \<open>An exception rolls the session back, except that a gap is committed before it is raised.\<close>

definition run_fx_translation ::
    "sync_error + unit \<Rightarrow> rate_repository \<Rightarrow> (financial_line_item list \<Rightarrow> financial_line_item list) \<Rightarrow> instant \<Rightarrow> uuid \<Rightarrow> session
      \<Rightarrow> (fx_task_error + fx_return) \<times> session" where
  "run_fx_translation imports repo arrange now i s =
     (case imports of
        Inl e \<Rightarrow> (Inl (FxImport e), s)
      | Inr _ \<Rightarrow>
          (case get_row job_id i (financial_jobs s) of
             None \<Rightarrow> (Inl FxValueError, s)
           | Some j \<Rightarrow>
               if job_status j \<in> SKIP_STATUSES then (Inr (FxSkipped (job_status j)), s)
               else case translate_for_job repo Map.empty arrange now i s of
                   Inl e \<Rightarrow> (Inl (FxTranslate e), s)
                 | Inr (res, s1) \<Rightarrow>
                     if bulk_success res then (Inr (FxCompleted res), s1)
                     else (Inl (FxGap (missing_rate_details res)), s1)))"

definition ALREADY_TERMINAL :: "string set" where
  "ALREADY_TERMINAL = {''completed'', ''failed'', ''cancelled'', ''failed_fx_data_gap''}"

definition failed_translation :: "string \<Rightarrow> instant \<Rightarrow> financial_job \<Rightarrow> financial_job" where
  "failed_translation msg now j =
     j\<lparr>job_status := status_value JOB_FAILED, job_error_message := Some (FreeText (take 1000 msg)), job_updated_at := now\<rparr>"

definition mark_translation_failed :: "instant \<Rightarrow> uuid \<Rightarrow> string \<Rightarrow> session \<Rightarrow> session" where
  "mark_translation_failed now i msg s =
     (case get_row job_id i (financial_jobs s) of
        None \<Rightarrow> s
      | Some j \<Rightarrow>
          if job_status j \<in> ALREADY_TERMINAL then s
          else s\<lparr>financial_jobs := put_row job_id i (failed_translation msg now j) (financial_jobs s)\<rparr>)"

datatype fx_task_end = FxReturned fx_return | FxRaised fx_task_error | FxRetry nat

definition fx_max_retries :: nat where "fx_max_retries = 3"

definition fx_attempt ::
    "sync_error + unit \<Rightarrow> (nat \<Rightarrow> rate_repository) \<Rightarrow> (financial_line_item list \<Rightarrow> financial_line_item list) \<Rightarrow> (nat \<Rightarrow> instant)
      \<Rightarrow> (fx_task_error \<Rightarrow> string) \<Rightarrow> string \<times> string \<Rightarrow> nat \<Rightarrow> session \<Rightarrow> fx_task_end \<times> session" where
  "fx_attempt imports repo arrange clock describe call retries s =
     (case (uuid_of_string (fst call), uuid_of_string (snd call)) of
        (Inr i, Inr _) \<Rightarrow>
          (case run_fx_translation imports (repo retries) arrange (clock retries) i s of
             (Inr r, s1) \<Rightarrow> (FxReturned r, s1)
           | (Inl e, s1) \<Rightarrow>
               if is_fx_gap_error e \<or> is_value_error e then (FxRaised e, s1)
               else if fx_max_retries \<le> retries then (FxRaised e, mark_translation_failed (clock retries) i (describe e) s1)
               else (FxRetry (30 * 2 ^ retries), s1))
      | _ \<Rightarrow> (FxRaised FxValueError, s))"

text \<open>Celery: another attempt as long as the task asks for one.  The waits are listed.\<close>

function process_fx_translation_task ::
    "sync_error + unit \<Rightarrow> (nat \<Rightarrow> rate_repository) \<Rightarrow> (financial_line_item list \<Rightarrow> financial_line_item list) \<Rightarrow> (nat \<Rightarrow> instant)
      \<Rightarrow> (fx_task_error \<Rightarrow> string) \<Rightarrow> string \<times> string \<Rightarrow> nat \<Rightarrow> session \<Rightarrow> fx_task_end \<times> nat list \<times> session" where
  "process_fx_translation_task imports repo arrange clock describe call retries s =
     (case fx_attempt imports repo arrange clock describe call retries s of
        (FxRetry w, s1) \<Rightarrow>
          if retries < fx_max_retries then
            (case process_fx_translation_task imports repo arrange clock describe call (Suc retries) s1 of
               (e, waits, s2) \<Rightarrow> (e, w # waits, s2))
          else (FxRetry w, [], s1)
      | (e, s1) \<Rightarrow> (e, [], s1))"
  by pat_completeness auto
termination
  by (relation "measure (\<lambda>(_, _, _, _, _, _, retries, _). fx_max_retries - retries)") auto

declare process_fx_translation_task.simps [simp del]

subsection \<open>What a failed task leaves\<close>

interpretation failed_jobs: row_table job_id "\<lambda>(msg, now). failed_translation msg now"
  by unfold_locales (auto simp: failed_translation_def)

lemma mark_translation_failed_items [simp]: "line_items (mark_translation_failed now i msg s) = line_items s"
  by (simp add: mark_translation_failed_def split: option.split)

lemma mark_translation_failed_job:
  assumes "get_row job_id i (financial_jobs s) = Some j"
  shows "get_row job_id i (financial_jobs (mark_translation_failed now i msg s))
           = Some (if job_status j \<in> ALREADY_TERMINAL then j else failed_translation msg now j)"
    and "k \<noteq> i \<Longrightarrow> get_row job_id k (financial_jobs (mark_translation_failed now i msg s)) = get_row job_id k (financial_jobs s)"
  using assms failed_jobs.read_back[OF assms, of "(msg, now)"] failed_jobs.others_unmoved[OF assms, of k "(msg, now)"]
  by (simp_all add: mark_translation_failed_def)

subsection \<open>The imports fail\<close>

lemma attempt_without_imports:
  assumes "uuid_of_string (fst call) = Inr i" and "uuid_of_string (snd call) = Inr tid"
  shows "fx_attempt (Inl e) repo arrange clock describe call retries s =
     (if fx_max_retries \<le> retries then (FxRaised (FxImport e), mark_translation_failed (clock retries) i (describe (FxImport e)) s)
      else (FxRetry (30 * 2 ^ retries), s))"
  using assms by (simp add: fx_attempt_def run_fx_translation_def)

lemma task_without_imports:
  assumes "uuid_of_string (fst call) = Inr i" and "uuid_of_string (snd call) = Inr tid"
  shows "process_fx_translation_task (Inl e) repo arrange clock describe call 0 s =
     (FxRaised (FxImport e), [30, 60, 120], mark_translation_failed (clock 3) i (describe (FxImport e)) s)"
  by (simp add: process_fx_translation_task.simps attempt_without_imports[OF assms] fx_max_retries_def eval_nat_numeral)

text \<open>
  No figure is ever translated.  The task cannot import the repository of rates, so it fails four times, waits 30,
  60 and 120 seconds in between, leaves every line item untranslated and ends with the import's
  error.  A job that is completed, failed, cancelled or waiting for a rate keeps its row; any other one,
  frozen by the validation included, becomes failed.  No other job changes.
\<close>

lemma fx_task_never_translates:
  assumes "uuid_of_string (fst call) = Inr i" and "uuid_of_string (snd call) = Inr tid"
    and "process_fx_translation_task import_fx_rates repo arrange clock describe call 0 s = (e, waits, s')"
    and "get_row job_id i (financial_jobs s) = Some j"
  shows "e = FxRaised (FxImport (ImportError ''DailyRate'')) \<and> waits = [30, 60, 120] \<and> line_items s' = line_items s
     \<and> (\<exists>j'. get_row job_id i (financial_jobs s') = Some j'
          \<and> (job_status j \<in> {''completed'', ''failed'', ''cancelled'', ''failed_fx_data_gap''} \<longrightarrow> j' = j)
          \<and> (job_status j \<notin> {''completed'', ''failed'', ''cancelled'', ''failed_fx_data_gap''} \<longrightarrow> job_status j' = ''failed''))
     \<and> (\<forall>k. k \<noteq> i \<longrightarrow> get_row job_id k (financial_jobs s') = get_row job_id k (financial_jobs s))"
proof -
  let ?e = "ImportError ''DailyRate''"
  have run: "e = FxRaised (FxImport ?e)" "waits = [30, 60, 120]" "s' = mark_translation_failed (clock 3) i (describe (FxImport ?e)) s"
    using assms(3) unfolding repository_not_importable task_without_imports[OF assms(1,2)] by simp_all
  note m = mark_translation_failed_job[OF assms(4), where now = "clock 3" and msg = "describe (FxImport ?e)"]
  have "\<exists>j'. get_row job_id i (financial_jobs s') = Some j'
      \<and> (job_status j \<in> {''completed'', ''failed'', ''cancelled'', ''failed_fx_data_gap''} \<longrightarrow> j' = j)
      \<and> (job_status j \<notin> {''completed'', ''failed'', ''cancelled'', ''failed_fx_data_gap''} \<longrightarrow> job_status j' = ''failed'')"
    unfolding run(3) m(1) by (simp add: ALREADY_TERMINAL_def failed_translation_def)
  with run m(2) show ?thesis by simp
qed

text \<open>A report that the validation froze loses that status.\<close>

lemma frozen_job_reported_failed:
  assumes "get_row job_id i (financial_jobs s) = Some j" and "job_status j = ''failed_validation_blocked''"
  shows "\<exists>j'. get_row job_id i (financial_jobs (mark_translation_failed now i msg s)) = Some j' \<and> job_status j' = ''failed''"
  using mark_translation_failed_job(1)[OF assms(1)] assms(2) by (simp add: ALREADY_TERMINAL_def failed_translation_def)

subsection \<open>A missing rate\<close>

text \<open>
  With the imports mended, a missing rate ends the task at the first attempt: it raises, no line item
  changes and the job is left waiting for the rate.  But running the task again, as its log advises once the
  rate is there, never helps: for a waiting job it reports completion whatever the table holds, and
  translates nothing.
\<close>

lemma gap_survives_retrigger:
  assumes "uuid_of_string (fst call) = Inr i" and "uuid_of_string (snd call) = Inr tid"
    and "get_row job_id i (financial_jobs s) = Some j" and "job_status j \<in> TRANSLATABLE_STATUSES"
    and "translate_for_job (repo 0) Map.empty arrange (clock 0) i s = Inr (res, s1)" and "\<not> bulk_success res"
  shows "process_fx_translation_task (Inr ()) repo arrange clock describe call 0 s = (FxRaised (FxGap (missing_rate_details res)), [], s1)
     \<and> line_items s1 = line_items s
     \<and> (\<exists>j1. get_row job_id i (financial_jobs s1) = Some j1 \<and> job_status j1 = ''failed_fx_data_gap'')
     \<and> process_fx_translation_task (Inr ()) repo2 arrange2 clock2 describe2 call 0 s1 = (FxReturned (FxCompleted empty_result), [], s1)"
proof -
  from gap_rolls_back[OF assms(5,3,6)] obtain j1 where j1: "line_items s1 = line_items s" "get_row job_id i (financial_jobs s1) = Some j1"
      "job_status j1 = ''failed_fx_data_gap''"
    by (auto simp: STATUS_FX_DATA_GAP_def)
  have "job_status j \<notin> SKIP_STATUSES" using assms(4) by (auto simp: TRANSLATABLE_STATUSES_def SKIP_STATUSES_def)
  then have a: "fx_attempt (Inr ()) repo arrange clock describe call 0 s = (FxRaised (FxGap (missing_rate_details res)), s1)"
    using assms by (simp add: fx_attempt_def run_fx_translation_def)
  have t: "translate_for_job r ov ar now i s1 = Inr (empty_result, s1)" for r ov ar now
    using j1(2,3) by (simp add: translate_for_job_def TRANSLATABLE_STATUSES_def)
  have b: "fx_attempt (Inr ()) repo2 arrange2 clock2 describe2 call 0 s1 = (FxReturned (FxCompleted empty_result), s1)"
    using assms(1,2) j1 t by (simp add: fx_attempt_def run_fx_translation_def SKIP_STATUSES_def bulk_success_def empty_result_def)
  show ?thesis using j1 by (simp add: process_fx_translation_task.simps a b)
qed

subsection \<open>Instances\<close>

definition demo_uuid :: uuid where
  "demo_uuid = ''00000000-0000-0000-0000-000000000000''"

definition demo_session :: session where
  "demo_session =
     \<lparr>line_items = [sample_row ''r1'' ''INR'' (Some (Dec 100000000 (-2)))],
      financial_jobs = [sample_job demo_uuid ''completed'', sample_job ''j2'' ''running'']\<rparr>"

lemma demo_uuid_valid: "uuid_of_string demo_uuid = Inr demo_uuid"
  by code_simp

lemma demo_job: "get_row job_id demo_uuid (financial_jobs demo_session) = Some (sample_job demo_uuid ''completed'')"
  by (simp add: demo_session_def sample_job_def get_row_def)

lemma demo_gap_run:
  "case translate_for_job empty_repo Map.empty id 7 demo_uuid demo_session of Inr (res, s') \<Rightarrow> rows_failed res = 1 | Inl _ \<Rightarrow> False"
  by code_simp

lemma fx_task_never_translates_witness:
  "\<exists>e waits s'. process_fx_translation_task import_fx_rates (\<lambda>_. daily_repo) id int (\<lambda>_. ''error'') (demo_uuid, demo_uuid) 0 demo_session
     = (e, waits, s') \<and> line_items s' = line_items demo_session"
proof -
  obtain e waits s' where r: "process_fx_translation_task import_fx_rates (\<lambda>_. daily_repo) id int (\<lambda>_. ''error'') (demo_uuid, demo_uuid) 0
      demo_session = (e, waits, s')" by (metis surj_pair)
  have u: "uuid_of_string (fst (demo_uuid, demo_uuid)) = Inr demo_uuid" "uuid_of_string (snd (demo_uuid, demo_uuid)) = Inr demo_uuid"
    by (simp_all add: demo_uuid_valid)
  from fx_task_never_translates[OF u r demo_job] r show ?thesis by blast
qed

lemma gap_survives_retrigger_witness:
  "\<exists>s1. process_fx_translation_task (Inr ()) (\<lambda>_. daily_repo) id int (\<lambda>_. ''error'') (demo_uuid, demo_uuid) 0 s1
     = (FxReturned (FxCompleted empty_result), [], s1) \<and> line_items s1 = line_items demo_session"
proof -
  obtain res s1 where g: "translate_for_job ((\<lambda>_. empty_repo) 0) Map.empty id ((\<lambda>_. 7) 0) demo_uuid demo_session = Inr (res, s1)"
      and f: "rows_failed res = 1"
    using demo_gap_run by (auto split: sum.splits)
  have u: "uuid_of_string (fst (demo_uuid, demo_uuid)) = Inr demo_uuid" "uuid_of_string (snd (demo_uuid, demo_uuid)) = Inr demo_uuid"
    by (simp_all add: demo_uuid_valid)
  have t: "job_status (sample_job demo_uuid ''completed'') \<in> TRANSLATABLE_STATUSES" by (simp add: sample_job_def TRANSLATABLE_STATUSES_def)
  have "\<not> bulk_success res" using f by (simp add: bulk_success_def)
  from gap_survives_retrigger[OF u demo_job t g this, of "\<lambda>_. ''error''" "\<lambda>_. daily_repo" id int "\<lambda>_. ''error''"] show ?thesis by blast
qed

end
