(* ===== verification/CompanyResolver.thy ===== *)
theory CompanyResolver
  imports DocumentFetcher Companies "HOL-Library.AList"
begin

text \<open>
  Finding a company by ticker or CIK: \<^verbatim>\<open>services/acquisition/company_resolver/\<close> (the SEC resolver, the service with
  its cache, the alias table) and the endpoint \<^verbatim>\<open>/companies/resolve\<close> of \<^verbatim>\<open>apps/api/routers/companies.py\<close>.
  The resolver's request loop is the one of \<^verbatim>\<open>EdgarHttp\<close>, its Redis client the one of \<^verbatim>\<open>DocumentFetcher\<close>; the decoding of the two
  JSON bodies is a parameter.  Every exception of the HTTP client is one of its \<open>HTTPError\<close>s.
\<close>

subsection \<open>The SEC resolver\<close>

record company_info =
  ci_ticker :: string
  ci_company_name :: string
  ci_cik :: string
  ci_exchange :: "string option"
  ci_country :: string

text \<open>The fields read from the two bodies; absent ones have their defaults.\<close>

record ticker_entry =
  te_cik :: int
  te_ticker :: string
  te_title :: string

record company_body =
  cb_name :: string
  cb_tickers :: "string list"
  cb_exchanges :: "string list"

record resolver_decoder =
  rd_tickers :: "string \<Rightarrow> ticker_entry list option"
  rd_company :: "string \<Rightarrow> company_body option"

record ('l, 'w, 'r) resolver =
  rv_client :: "('l, 'w) client"
  rv_ticker_map :: "(string \<rightharpoonup> company_info) option"
  rv_store :: 'r

definition TICKERS_URL :: string where
  "TICKERS_URL = ''https://www.sec.gov/files/company_tickers.json''"

definition pad_cik :: "string \<Rightarrow> string" where
  "pad_cik cik = str_zfill 10 (dropWhile (\<lambda>c. c = CHR ''0'') (str_strip cik))"

definition ticker_info :: "ticker_entry \<Rightarrow> company_info" where
  "ticker_info e =
     \<lparr>ci_ticker = str_upper (str_strip (te_ticker e)), ci_company_name = str_strip (te_title e), ci_cik = str_zfill 10 (show_int (te_cik e)),
      ci_exchange = None, ci_country = ''US''\<rparr>"

definition build_ticker_map :: "ticker_entry list \<Rightarrow> (string \<rightharpoonup> company_info)" where
  "build_ticker_map es =
     foldl (\<lambda>m e. if str_strip (te_ticker e) = [] then m else m(ci_ticker (ticker_info e) \<mapsto> ticker_info e)) Map.empty es"

text \<open>The exceptions that \<open>except (httpx.HTTPError, CircuitBreakerOpenError)\<close> catches.\<close>

fun is_http_failure :: "http_error \<Rightarrow> bool" where
  "is_http_failure (BreakerOpen e) = True"
| "is_http_failure (HTTPStatusError st) = True"
| "is_http_failure (NetworkError e) = True"
| "is_http_failure e = False"

definition load_ticker_map :: "('l, 'w) network \<Rightarrow> http_config \<Rightarrow> resolver_decoder \<Rightarrow> ('l, 'w, 'r) resolver
    \<Rightarrow> (http_error + (string \<rightharpoonup> company_info)) option \<times> ('l, 'w, 'r) resolver" where
  "load_ticker_map N cfg D v =
     (case rv_ticker_map v of
        Some m \<Rightarrow> (Some (Inr m), v)
      | None \<Rightarrow>
          (case http_get N cfg TICKERS_URL (rv_client v) of
             (None, c) \<Rightarrow> (None, v\<lparr>rv_client := c\<rparr>)
           | (Some (Inl e), c) \<Rightarrow> (Some (if is_http_failure e then Inr Map.empty else Inl e), v\<lparr>rv_client := c\<rparr>)
           | (Some (Inr resp), c) \<Rightarrow>
               if net_status_raises N (resp_status resp) then (Some (Inr Map.empty), v\<lparr>rv_client := c\<rparr>)
               else (case rd_tickers D (resp_text resp) of
                   None \<Rightarrow> (Some (Inl (PyRaised ValueError)), v\<lparr>rv_client := c\<rparr>)
                 | Some es \<Rightarrow> (Some (Inr (build_ticker_map es)), v\<lparr>rv_client := c, rv_ticker_map := Some (build_ticker_map es)\<rparr>))))"

definition sec_resolve_ticker :: "('l, 'w) network \<Rightarrow> http_config \<Rightarrow> resolver_decoder \<Rightarrow> string \<Rightarrow> ('l, 'w, 'r) resolver
    \<Rightarrow> (http_error + company_info option) option \<times> ('l, 'w, 'r) resolver" where
  "sec_resolve_ticker N cfg D ticker v =
     (case load_ticker_map N cfg D v of
        (None, v1) \<Rightarrow> (None, v1)
      | (Some (Inl e), v1) \<Rightarrow> (Some (Inl e), v1)
      | (Some (Inr m), v1) \<Rightarrow> (Some (Inr (m (str_upper (str_strip ticker)))), v1))"

definition company_of_body :: "string \<Rightarrow> company_body \<Rightarrow> company_info" where
  "company_of_body padded b =
     \<lparr>ci_ticker = (case cb_tickers b of [] \<Rightarrow> padded | t # _ \<Rightarrow> str_upper t), ci_company_name = str_strip (cb_name b), ci_cik = padded,
      ci_exchange = (case cb_exchanges b of [] \<Rightarrow> None | x # _ \<Rightarrow> Some x), ci_country = ''US''\<rparr>"

definition sec_resolve_cik :: "('l, 'w) network \<Rightarrow> http_config \<Rightarrow> resolver_decoder \<Rightarrow> string \<Rightarrow> ('l, 'w, 'r) resolver
    \<Rightarrow> (http_error + company_info option) option \<times> ('l, 'w, 'r) resolver" where
  "sec_resolve_cik N cfg D cik v =
     (let padded = pad_cik cik in
      case http_get N cfg (submissions_url padded) (rv_client v) of
        (None, c) \<Rightarrow> (None, v\<lparr>rv_client := c\<rparr>)
      | (Some (Inl e), c) \<Rightarrow> (Some (if is_http_failure e then Inr None else Inl e), v\<lparr>rv_client := c\<rparr>)
      | (Some (Inr resp), c) \<Rightarrow>
          if resp_status resp = 404 \<or> net_status_raises N (resp_status resp) then (Some (Inr None), v\<lparr>rv_client := c\<rparr>)
          else (case rd_company D (resp_text resp) of
              None \<Rightarrow> (Some (Inl (PyRaised ValueError)), v\<lparr>rv_client := c\<rparr>)
            | Some b \<Rightarrow> (Some (Inr (Some (company_of_body padded b))), v\<lparr>rv_client := c\<rparr>)))"

subsection \<open>The service\<close>

definition company_payload :: "company_info \<Rightarrow> payload" where
  "company_payload i =
     [(''ticker'', PString (ci_ticker i)), (''company_name'', PString (ci_company_name i)), (''cik'', PString (ci_cik i)),
      (''exchange'', pnullable (ci_exchange i)), (''country'', PString (ci_country i))]"

definition company_from_payload :: "payload \<Rightarrow> company_info option" where
  "company_from_payload p = do {
     t \<leftarrow> req_string p ''ticker'';
     n \<leftarrow> req_string p ''company_name'';
     c \<leftarrow> req_string p ''cik'';
     Some \<lparr>ci_ticker = t, ci_company_name = n, ci_cik = c, ci_exchange = opt_string p ''exchange'',
           ci_country = (case opt_string p ''country'' of Some x \<Rightarrow> x | None \<Rightarrow> ''US'')\<rparr> }"

definition company_cache_get :: "'r doc_cache option \<Rightarrow> string \<Rightarrow> ('l, 'w, 'r) resolver \<Rightarrow> company_info option" where
  "company_cache_get R key v =
     (case R of
        None \<Rightarrow> None
      | Some K \<Rightarrow> (case cache_read K (rv_store v) (cl_clock (rv_client v)) key of
            Some (Some p) \<Rightarrow> company_from_payload p
          | _ \<Rightarrow> None))"

definition company_cache_set :: "'r doc_cache option \<Rightarrow> string \<Rightarrow> company_info \<Rightarrow> ('l, 'w, 'r) resolver \<Rightarrow> ('l, 'w, 'r) resolver" where
  "company_cache_set R key i v =
     (case R of
        None \<Rightarrow> v
      | Some K \<Rightarrow> (case cache_write K (rv_store v) (cl_clock (rv_client v)) key (company_payload i) (cache_ttl K) of
            Some s \<Rightarrow> v\<lparr>rv_store := s\<rparr> | None \<Rightarrow> v))"

datatype resolve_error = CompanyResolutionError string | ResolverHttp http_error

definition ticker_cache_key :: "string \<Rightarrow> string" where "ticker_cache_key t = ''company:ticker:'' @ t"
definition cik_cache_key :: "string \<Rightarrow> string" where "cik_cache_key c = ''company:cik:'' @ c"

definition resolve_by_ticker :: "('l, 'w) network \<Rightarrow> http_config \<Rightarrow> resolver_decoder \<Rightarrow> 'r doc_cache option \<Rightarrow> string \<Rightarrow> ('l, 'w, 'r) resolver
    \<Rightarrow> (resolve_error + company_info) option \<times> ('l, 'w, 'r) resolver" where
  "resolve_by_ticker N cfg D R ticker v =
     (let normalized = str_upper (str_strip ticker) in
      case company_cache_get R (ticker_cache_key normalized) v of
        Some i \<Rightarrow> (Some (Inr i), v)
      | None \<Rightarrow>
          (case sec_resolve_ticker N cfg D normalized v of
             (None, v1) \<Rightarrow> (None, v1)
           | (Some (Inl e), v1) \<Rightarrow> (Some (Inl (ResolverHttp e)), v1)
           | (Some (Inr None), v1) \<Rightarrow> (Some (Inl (CompanyResolutionError normalized)), v1)
           | (Some (Inr (Some i)), v1) \<Rightarrow>
               (Some (Inr i), company_cache_set R (cik_cache_key (ci_cik i)) i (company_cache_set R (ticker_cache_key normalized) i v1))))"

definition resolve_by_cik :: "('l, 'w) network \<Rightarrow> http_config \<Rightarrow> resolver_decoder \<Rightarrow> 'r doc_cache option \<Rightarrow> string \<Rightarrow> ('l, 'w, 'r) resolver
    \<Rightarrow> (resolve_error + company_info) option \<times> ('l, 'w, 'r) resolver" where
  "resolve_by_cik N cfg D R cik v =
     (let padded = pad_cik cik in
      case company_cache_get R (cik_cache_key padded) v of
        Some i \<Rightarrow> (Some (Inr i), v)
      | None \<Rightarrow>
          (case sec_resolve_cik N cfg D padded v of
             (None, v1) \<Rightarrow> (None, v1)
           | (Some (Inl e), v1) \<Rightarrow> (Some (Inl (ResolverHttp e)), v1)
           | (Some (Inr None), v1) \<Rightarrow> (Some (Inl (CompanyResolutionError padded)), v1)
           | (Some (Inr (Some i)), v1) \<Rightarrow>
               (Some (Inr i),
                (let v2 = company_cache_set R (cik_cache_key padded) i v1
                 in if ci_ticker i = [] then v2 else company_cache_set R (ticker_cache_key (str_upper (ci_ticker i))) i v2))))"

subsection \<open>The endpoint\<close>

text \<open>
  A resolver is made for each request: with a breaker and a limiter of its own.  An exception
  that is no \<open>APIError\<close> becomes a server error.
\<close>

datatype resolve_response = ResolvedCompany company_info | ResolveAuth auth_error | Resolve422 | Resolve500 resolve_error

definition new_resolver :: "(rat \<Rightarrow> 'l) \<Rightarrow> 'w \<Rightarrow> rat \<Rightarrow> 'r \<Rightarrow> ('l, 'w, 'r) resolver" where
  "new_resolver limiter w clock s =
     \<lparr>rv_client = \<lparr>cl_breaker = new_breaker, cl_limiter = limiter clock, cl_world = w, cl_clock = clock, cl_sent = []\<rparr>,
      rv_ticker_map = None, rv_store = s\<rparr>"

definition resolve_company_endpoint :: "('l, 'w) network \<Rightarrow> http_config \<Rightarrow> resolver_decoder \<Rightarrow> 'r doc_cache option \<Rightarrow> (rat \<Rightarrow> 'l) \<Rightarrow> auth_context option
    \<Rightarrow> string option \<Rightarrow> string option \<Rightarrow> 'w \<Rightarrow> rat \<Rightarrow> 'r \<Rightarrow> resolve_response option \<times> ('l, 'w, 'r) resolver" where
  "resolve_company_endpoint N cfg D R limiter ctx ticker cik w clock s =
     (let v = new_resolver limiter w clock s;
          answer = (\<lambda>(r, v1). (map_option (\<lambda>x. case x of Inl e \<Rightarrow> Resolve500 e | Inr i \<Rightarrow> ResolvedCompany i) r, v1)) in
      case require_authenticated ctx of
        Inl e \<Rightarrow> (Some (ResolveAuth e), v)
      | Inr _ \<Rightarrow>
          (case (ticker, cik) of
             (Some t, None) \<Rightarrow> answer (resolve_by_ticker N cfg D R t v)
           | (None, Some c) \<Rightarrow> answer (resolve_by_cik N cfg D R c v)
           | _ \<Rightarrow> (Some Resolve422, v)))"

subsection \<open>Aliases\<close>

definition BUILTIN_ALIASES :: "(string \<times> string) list" where
  "BUILTIN_ALIASES =
     [(''facebook'', ''META''), (''facebook inc'', ''META''), (''meta platforms'', ''META''), (''meta platforms inc'', ''META''),
      (''google'', ''GOOGL''), (''google inc'', ''GOOGL''), (''alphabet'', ''GOOGL''), (''alphabet inc'', ''GOOGL''), (''goog'', ''GOOGL''),
      (''twitter'', ''TWTR''), (''x corp'', ''TWTR''),
      (''berkshire'', ''BRK.B''), (''berkshire hathaway'', ''BRK.B''), (''brk'', ''BRK.B''), (''brk-a'', ''BRK.A''), (''brk-b'', ''BRK.B''),
      (''apple'', ''AAPL''), (''apple inc'', ''AAPL''), (''microsoft'', ''MSFT''), (''microsoft corp'', ''MSFT''),
      (''amazon'', ''AMZN''), (''amazon.com'', ''AMZN''), (''amazon.com inc'', ''AMZN''), (''tesla'', ''TSLA''), (''tesla inc'', ''TSLA''),
      (''nvidia'', ''NVDA''), (''nvidia corp'', ''NVDA''), (''netflix'', ''NFLX''), (''netflix inc'', ''NFLX''),
      (''salesforce'', ''CRM''), (''salesforce inc'', ''CRM''),
      (''jpmorgan'', ''JPM''), (''jp morgan'', ''JPM''), (''jpmorgan chase'', ''JPM''), (''bank of america'', ''BAC''), (''wells fargo'', ''WFC''),
      (''goldman sachs'', ''GS''), (''morgan stanley'', ''MS''),
      (''johnson & johnson'', ''JNJ''), (''johnson and johnson'', ''JNJ''), (''pfizer'', ''PFE''), (''pfizer inc'', ''PFE''),
      (''unitedhealth'', ''UNH''), (''unitedhealth group'', ''UNH''),
      (''exxon'', ''XOM''), (''exxonmobil'', ''XOM''), (''exxon mobil'', ''XOM''), (''chevron'', ''CVX''), (''chevron corp'', ''CVX'')]"

type_synonym alias_manager = "(string \<times> string) list"

definition register_alias :: "string \<Rightarrow> string \<Rightarrow> alias_manager \<Rightarrow> alias_manager" where
  "register_alias a c m = AList.update (str_lower (str_strip a)) (str_upper (str_strip c)) m"

definition new_alias_manager :: "(string \<times> string) list \<Rightarrow> alias_manager" where
  "new_alias_manager extra = fold (\<lambda>(a, c) m. register_alias a c m) extra BUILTIN_ALIASES"

definition resolve_alias :: "alias_manager \<Rightarrow> string \<Rightarrow> string option" where
  "resolve_alias m query = map_of m (str_lower (str_strip query))"

subsection \<open>The cache and its keys\<close>

lemma company_payload_reads: "company_from_payload (company_payload i) = Some i"
proof -
  have n: "(case pnullable x of PString s \<Rightarrow> Some s | _ \<Rightarrow> None) = x" for x by (cases x) auto
  have "opt_string (company_payload i) ''exchange'' = ci_exchange i"
    using n[of "ci_exchange i"] by (simp add: company_payload_def split: payload_value.splits)
  moreover have "opt_string (company_payload i) ''country'' = Some (ci_country i)"
    "req_string (company_payload i) ''ticker'' = Some (ci_ticker i)" "req_string (company_payload i) ''company_name'' = Some (ci_company_name i)"
    "req_string (company_payload i) ''cik'' = Some (ci_cik i)"
    by (simp_all add: company_payload_def)
  ultimately show ?thesis by (simp add: company_from_payload_def del: opt_string.simps req_string.simps)
qed

text \<open>A write changes what is read under its own key only, and does not fail.\<close>

definition keeps_other_keys :: "'r doc_cache \<Rightarrow> bool" where
  "keeps_other_keys K = (\<forall>s now k p. \<exists>s'. cache_write K s now k p (cache_ttl K) = Some s'
     \<and> (\<forall>k' t. k' \<noteq> k \<longrightarrow> cache_read K s' t k' = cache_read K s t k'))"

lemma cache_set_get:
  assumes "keeps_for_ttl K" and "keeps_other_keys K"
    and "rv_store w = rv_store (company_cache_set (Some K) key i v)"
    and "cl_clock (rv_client v) \<le> cl_clock (rv_client w)" "cl_clock (rv_client w) < cl_clock (rv_client v) + of_nat (cache_ttl K)"
  shows "company_cache_get (Some K) key w = Some i"
    and "key' \<noteq> key \<Longrightarrow> company_cache_get (Some K) key' w = company_cache_get (Some K) key' (w\<lparr>rv_store := rv_store v\<rparr>)"
proof -
  obtain s where s: "cache_write K (rv_store v) (cl_clock (rv_client v)) key (company_payload i) (cache_ttl K) = Some s"
      "\<forall>k' t. k' \<noteq> key \<longrightarrow> cache_read K s t k' = cache_read K (rv_store v) t k'"
    using assms(2)[unfolded keeps_other_keys_def, rule_format, of "rv_store v" "cl_clock (rv_client v)" key "company_payload i"] by blast
  have w: "rv_store w = s" using assms(3) s(1) by (simp add: company_cache_set_def)
  have "cache_read K s (cl_clock (rv_client w)) key = Some (Some (company_payload i))"
    using assms(1,4,5) s(1) by (auto simp: keeps_for_ttl_def)
  then show "company_cache_get (Some K) key w = Some i" by (simp add: company_cache_get_def w company_payload_reads)
  show "key' \<noteq> key \<Longrightarrow> company_cache_get (Some K) key' w = company_cache_get (Some K) key' (w\<lparr>rv_store := rv_store v\<rparr>)"
    using s(2) by (simp add: company_cache_get_def w)
qed

lemma cache_set_frame [simp]:
  "rv_client (company_cache_set R key i v) = rv_client v" "rv_ticker_map (company_cache_set R key i v) = rv_ticker_map v"
  by (simp_all add: company_cache_set_def split: option.split)

lemma keys_differ: "ticker_cache_key t \<noteq> cik_cache_key c"
  by (simp add: ticker_cache_key_def cik_cache_key_def)

lemma ticker_map_entry:
  assumes "build_ticker_map es t = Some i"
  shows "\<exists>e \<in> set es. i = ticker_info e \<and> ci_ticker i = t \<and> str_strip (te_ticker e) \<noteq> []"
proof -
  have "foldl (\<lambda>m e. if str_strip (te_ticker e) = [] then m else m(ci_ticker (ticker_info e) \<mapsto> ticker_info e)) m es t = Some i
      \<Longrightarrow> m t = Some i \<or> (\<exists>e \<in> set es. i = ticker_info e \<and> ci_ticker i = t \<and> str_strip (te_ticker e) \<noteq> [])" for m
    by (induction es arbitrary: m) (fastforce split: if_splits)+
  from this[of Map.empty] assms show ?thesis by (auto simp: build_ticker_map_def)
qed

lemma ticker_map_none:
  assumes "\<forall>e \<in> set es. str_strip (te_ticker e) \<noteq> [] \<longrightarrow> str_upper (str_strip (te_ticker e)) \<noteq> t"
  shows "build_ticker_map es t = None"
  using ticker_map_entry[of es t] assms by (cases "build_ticker_map es t") (auto simp: ticker_info_def)

lemma upper_strip_idem: "str_upper (str_strip (str_upper (str_strip s))) = str_upper (str_strip s)"
  by (simp add: str_strip_upper)

subsection \<open>Properties\<close>

lemma fresh_ticker_lookup:
  assumes "sec_resolve_ticker N cfg D t v = (Some (Inr (Some i)), v1)" and "rv_ticker_map v = None" and "str_upper (str_strip t) = t"
  shows "ci_ticker i = t \<and> ci_exchange i = None \<and> ci_country i = ''US'' \<and> rv_store v1 = rv_store v"
proof -
  from assms obtain es c where "build_ticker_map es t = Some i" "rv_store v1 = rv_store v"
    by (auto simp: sec_resolve_ticker_def load_ticker_map_def split: option.splits sum.splits prod.splits if_splits)
  with ticker_map_entry[of es t i] show ?thesis by (auto simp: ticker_info_def)
qed

text \<open>
  C36: one answer for both keys, for as long as the cache keeps it.  After a company was found by ticker on the SEC's list,
  every spelling of that ticker and of its CIK is answered by the same record without a request, whatever the
  network would say; the list names no exchange, so a look-up by CIK loses the exchange it has on its own.
\<close>

lemma resolved_company_answers_both_keys:
  assumes "resolve_by_ticker N cfg D (Some K) ticker v = (Some (Inr i), v')"
    and "company_cache_get (Some K) (ticker_cache_key (str_upper (str_strip ticker))) v = None" and "rv_ticker_map v = None"
    and "keeps_for_ttl K" and "keeps_other_keys K"
    and "rv_store w = rv_store v'" and "cl_clock (rv_client v') \<le> cl_clock (rv_client w)"
    and "cl_clock (rv_client w) < cl_clock (rv_client v') + of_nat (cache_ttl K)"
    and "str_upper (str_strip ticker2) = str_upper (str_strip ticker)" and "pad_cik cik2 = ci_cik i"
  shows "resolve_by_ticker N2 cfg2 D2 (Some K) ticker2 w = (Some (Inr i), w)
     \<and> resolve_by_cik N2 cfg2 D2 (Some K) cik2 w = (Some (Inr i), w)
     \<and> ci_ticker i = str_upper (str_strip ticker) \<and> ci_exchange i = None"
proof -
  define t where "t = str_upper (str_strip ticker)"
  from assms(1,2) obtain v1 where s: "sec_resolve_ticker N cfg D t v = (Some (Inr (Some i)), v1)"
      and v': "v' = company_cache_set (Some K) (cik_cache_key (ci_cik i)) i (company_cache_set (Some K) (ticker_cache_key t) i v1)"
    by (auto simp: resolve_by_ticker_def Let_def t_def split: option.splits sum.splits prod.splits)
  have norm: "str_upper (str_strip t) = t" unfolding t_def by (rule upper_strip_idem)
  note f = fresh_ticker_lookup[OF s assms(3) norm]
  let ?v2 = "company_cache_set (Some K) (ticker_cache_key t) i v1"
  have clock: "cl_clock (rv_client ?v2) \<le> cl_clock (rv_client w)" "cl_clock (rv_client w) < cl_clock (rv_client ?v2) + of_nat (cache_ttl K)"
    using assms(7,8) by (simp_all add: v')
  note outer = cache_set_get[OF assms(4,5) assms(6)[unfolded v'] clock]
  have "company_cache_get (Some K) (ticker_cache_key t) (w\<lparr>rv_store := rv_store ?v2\<rparr>) = Some i"
    using clock by (intro cache_set_get(1)[OF assms(4,5)]) simp_all
  with outer(2)[OF keys_differ] have "company_cache_get (Some K) (ticker_cache_key t) w = Some i" by simp
  with outer(1) f assms(9,10) show ?thesis
    by (simp add: resolve_by_ticker_def resolve_by_cik_def Let_def t_def[symmetric])
qed

text \<open>
  The endpoint has no answer of its own for a company it cannot find.  For a signed-in caller and a ticker that is in no
  cache, an SEC list without the ticker, and equally any failure to fetch the list (an open breaker included), ends in
  a server error that says the company could not be resolved; nothing is cached.
\<close>

lemma unresolved_ticker_is_server_error:
  assumes "require_authenticated ctx = Inr a"
    and "company_cache_get R (ticker_cache_key (str_upper (str_strip ticker))) (new_resolver limiter w clock s) = None"
    and "http_get N cfg TICKERS_URL (rv_client (new_resolver limiter w clock s)) = (Some r, c)"
    and "case r of Inl e \<Rightarrow> is_http_failure e
         | Inr resp \<Rightarrow> net_status_raises N (resp_status resp)
             \<or> (\<exists>es. rd_tickers D (resp_text resp) = Some es \<and> (\<forall>e \<in> set es. str_upper (str_strip (te_ticker e)) \<noteq> str_upper (str_strip ticker)))"
  shows "\<exists>v'. resolve_company_endpoint N cfg D R limiter ctx (Some ticker) None w clock s
       = (Some (Resolve500 (CompanyResolutionError (str_upper (str_strip ticker)))), v') \<and> rv_store v' = s"
proof -
  let ?v = "new_resolver limiter w clock s" and ?t = "str_upper (str_strip ticker)"
  have "\<exists>v1. sec_resolve_ticker N cfg D ?t ?v = (Some (Inr None), v1) \<and> rv_store v1 = s"
  proof (cases r)
    case (Inl e)
    with assms(3,4) show ?thesis
      by (simp add: sec_resolve_ticker_def load_ticker_map_def new_resolver_def)
  next
    case (Inr resp)
    show ?thesis
    proof (cases "net_status_raises N (resp_status resp)")
      case True
      with Inr assms(3) show ?thesis by (simp add: sec_resolve_ticker_def load_ticker_map_def new_resolver_def)
    next
      case False
      with Inr assms(4) obtain es where es: "rd_tickers D (resp_text resp) = Some es"
        "\<forall>e \<in> set es. str_upper (str_strip (te_ticker e)) \<noteq> ?t" by auto
      have "build_ticker_map es ?t = None" using ticker_map_none[of es ?t] es(2) by blast
      then have "build_ticker_map es (str_upper (str_strip ?t)) = None" by (simp add: upper_strip_idem)
      with Inr False es(1) assms(3) show ?thesis by (simp add: sec_resolve_ticker_def load_ticker_map_def new_resolver_def)
    qed
  qed
  with assms(1,2) show ?thesis by (auto simp: resolve_company_endpoint_def resolve_by_ticker_def Let_def)
qed

text \<open>
  Each request has a resolver with a full bucket and a closed breaker: its first HTTP request leaves at once, whatever
  was sent before it, so the rate of the bucket bounds one request and not the service.
\<close>

lemma get_loop_first_send:
  assumes "net_acquire N (cl_clock c) (cl_limiter c) = (g, l)"
  shows "\<exists>rest. cl_sent (snd (get_loop N cfg url attempt (Suc k) le c)) = cl_sent c @ (g, url) # rest"
proof -
  obtain n where n: "sends N (replicate n url) (iteration_state (iterate N cfg url attempt le c)) (snd (get_loop N cfg url attempt (Suc k) le c))"
  proof (cases "iterate N cfg url attempt le c")
    case (Ends r c1)
    then have "sends N (replicate 0 url) (iteration_state (iterate N cfg url attempt le c)) (snd (get_loop N cfg url attempt (Suc k) le c))"
      by (simp add: sends_nil)
    then show ?thesis by (rule that)
  next
    case (GoesOn e c1)
    with get_loop_sends[of k N url c1 cfg "Suc attempt" e] that show ?thesis by auto
  qed
  have z: "cl_sent (snd (sleep_with_jitter N d c')) = cl_sent c'" for d c'
    using sleep_frame[of N d c' "fst (sleep_with_jitter N d c')" "snd (sleep_with_jitter N d c')"] by simp
  obtain x c1 where s: "send_request N url c = (x, c1)" by fastforce
  then have c1: "cl_sent c1 = cl_sent c @ [(g, url)]" using assms by (auto simp: send_request_def split: prod.splits)
  have a: "cl_sent (iteration_state (after_sleep le2 (sleep_with_jitter N d c'))) = cl_sent c'" for le2 d c'
    using z[of d c'] by (cases "sleep_with_jitter N d c'"; cases "fst (sleep_with_jitter N d c')") auto
  have "cl_sent (iteration_state (iterate N cfg url attempt le c)) = cl_sent c1"
    by (cases x) (auto simp: iterate_def Let_def s a z breaker_failure_def breaker_success_def)
  with n c1 show ?thesis by (auto simp: sends_def)
qed

lemma resolver_pacing_is_per_request:
  assumes "net_acquire N clock (limiter clock) = (clock, l1)" and "0 \<le> hc_max_retries cfg" and "require_authenticated ctx = Inr a"
    and "company_cache_get R (ticker_cache_key (str_upper (str_strip ticker))) (new_resolver limiter w clock s) = None"
  shows "\<exists>rest. cl_sent (rv_client (snd (resolve_company_endpoint N cfg D R limiter ctx (Some ticker) None w clock s))) = (clock, TICKERS_URL) # rest"
proof -
  let ?v = "new_resolver limiter w clock s" and ?t = "str_upper (str_strip ticker)"
  have n: "nat (hc_max_retries cfg + 1) = Suc (nat (hc_max_retries cfg))" using assms(2) by simp
  have "check (hc_breaker cfg) clock new_breaker = Inr new_breaker" by (simp add: check_def new_breaker_def)
  then have g: "\<exists>rest. cl_sent (snd (http_get N cfg TICKERS_URL (rv_client ?v))) = (clock, TICKERS_URL) # rest"
    using get_loop_first_send[of N "rv_client ?v" clock l1 cfg TICKERS_URL 0 "nat (hc_max_retries cfg)" None] assms(1)
    by (simp add: http_get_def n new_resolver_def)
  have "rv_client (snd (resolve_company_endpoint N cfg D R limiter ctx (Some ticker) None w clock s)) = snd (http_get N cfg TICKERS_URL (rv_client ?v))"
    using assms(3,4)
    by (auto simp: resolve_company_endpoint_def resolve_by_ticker_def Let_def sec_resolve_ticker_def load_ticker_map_def new_resolver_def
        split: option.splits prod.splits sum.splits)
  with g show ?thesis by simp
qed


subsection \<open>Instances\<close>

lemma expiring_cache_keeps_others: "keeps_other_keys expiring_cache"
  by (auto simp: keeps_other_keys_def expiring_cache_def)

definition sample_resolver_decoder :: resolver_decoder where
  "sample_resolver_decoder = \<lparr>rd_tickers = (\<lambda>_. Some [\<lparr>te_cik = 42, te_ticker = ''meta'', te_title = ''Meta ''\<rparr>]),
     rd_company = (\<lambda>_. Some \<lparr>cb_name = ''Meta'', cb_tickers = [''META''], cb_exchanges = [''Nasdaq'']\<rparr>)\<rparr>"

definition sample_company_info :: company_info where
  "sample_company_info = \<lparr>ci_ticker = ''META'', ci_company_name = ''Meta'', ci_cik = ''0000000042'', ci_exchange = None, ci_country = ''US''\<rparr>"

definition sample_limiter :: "rat \<Rightarrow> in_process" where
  "sample_limiter t = (\<lparr>rate = 8, burst = 10\<rparr>, \<lparr>tokens = 10, last_refill = t\<rparr>)"

definition sample_resolver :: "'w \<Rightarrow> (in_process, 'w, (string \<times> payload \<times> rat) list) resolver" where
  "sample_resolver w = new_resolver sample_limiter w 0 []"

lemma sample_resolver_client: "rv_client (sample_resolver w) = sample_client w" "rv_ticker_map (sample_resolver w) = None"
  by (simp_all add: sample_resolver_def new_resolver_def sample_client_def sample_limiter_def)

lemma sample_cache_miss: "company_cache_get (Some expiring_cache) key (sample_resolver w) = None"
  by (simp add: company_cache_get_def expiring_cache_def sample_resolver_def new_resolver_def)

lemma sample_get_tickers:
  "fst (http_get sample_network sample_http TICKERS_URL (sample_client [Inr (sample_response 200)])) = Some (Inr (sample_response 200))"
  by code_simp

lemma sample_ticker_map:
  "build_ticker_map [\<lparr>te_cik = 42, te_ticker = ''meta'', te_title = ''Meta ''\<rparr>] (str_upper (str_strip (str_upper (str_strip ''Meta''))))
     = Some sample_company_info"
  by code_simp

lemma sample_resolution:
  "\<exists>v'. resolve_by_ticker sample_network sample_http sample_resolver_decoder (Some expiring_cache) ''Meta'' (sample_resolver [Inr (sample_response 200)])
     = (Some (Inr sample_company_info), v')"
proof -
  obtain c where "http_get sample_network sample_http TICKERS_URL (sample_client [Inr (sample_response 200)]) = (Some (Inr (sample_response 200)), c)"
    using sample_get_tickers by (metis prod.collapse)
  moreover have "net_status_raises sample_network (resp_status (sample_response 200)) = False"
    by (simp add: scripted_def sample_response_def)
  ultimately show ?thesis
    using sample_ticker_map
    by (simp add: resolve_by_ticker_def Let_def sample_cache_miss sec_resolve_ticker_def load_ticker_map_def sample_resolver_client
        sample_resolver_decoder_def)
qed

lemma resolved_company_answers_both_keys_witness:
  "\<exists>v'. resolve_by_cik sample_network sample_http sample_resolver_decoder (Some expiring_cache) ''42'' v' = (Some (Inr sample_company_info), v')"
proof -
  obtain v' where v': "resolve_by_ticker sample_network sample_http sample_resolver_decoder (Some expiring_cache) ''Meta''
      (sample_resolver [Inr (sample_response 200)]) = (Some (Inr sample_company_info), v')" using sample_resolution by blast
  have "pad_cik ''42'' = ci_cik sample_company_info" by code_simp
  moreover have "0 < (of_nat (cache_ttl expiring_cache) :: rat)" by (simp add: expiring_cache_def)
  ultimately show ?thesis
    using resolved_company_answers_both_keys[OF v' sample_cache_miss sample_resolver_client(2) expiring_cache_keeps expiring_cache_keeps_others
        refl order.refl _ refl, of "''42''" sample_network sample_http sample_resolver_decoder]
    by auto
qed

definition sample_reader :: auth_context where
  "sample_reader = context_of \<lparr>tp_sub = ''u1'', tp_tid = ''t1'', tp_role = ''viewer'', tp_jti = ''j1'', tp_exp = 1, tp_iat = 0\<rparr>"

lemma unresolved_ticker_is_server_error_witness:
  "\<exists>v'. resolve_company_endpoint sample_network sample_http sample_resolver_decoder (Some expiring_cache) sample_limiter (Some sample_reader) (Some ''Meta'') None
      [Inr (sample_response 404)] 0 [] = (Some (Resolve500 (CompanyResolutionError (str_upper (str_strip ''Meta'')))), v')"
proof -
  obtain c where c: "http_get sample_network sample_http TICKERS_URL (rv_client (sample_resolver [Inr (sample_response 404)]))
      = (Some (Inl (HTTPStatusError 404)), c)"
  proof -
    have "\<exists>c'. http_get sample_network sample_http TICKERS_URL (sample_client [Inr (sample_response 404)])
        = (Some (Inl (HTTPStatusError (resp_status (sample_response 404)))), c')"
      by (rule exE[OF permanent_status_fails[OF sample_check, of "[Inr (sample_response 404)]" "sample_response 404" "[]" in_process_acquire "1 / 10" TICKERS_URL]])
        (auto simp: sample_client_def sample_http_def sample_response_def retryable_status_def)
    with that show ?thesis by (auto simp: sample_resolver_client sample_response_def)
  qed
  show ?thesis
    using unresolved_ticker_is_server_error[of "Some sample_reader" sample_reader "Some expiring_cache" "''Meta''" sample_limiter
        "[Inr (sample_response 404)]" 0 "[]" sample_network sample_http "Inl (HTTPStatusError 404)" c sample_resolver_decoder]
      sample_cache_miss[of "ticker_cache_key (str_upper (str_strip ''Meta''))" "[Inr (sample_response 404)]"] c
    by (auto simp: require_authenticated_def sample_resolver_def)
qed

lemma resolver_pacing_is_per_request_witness:
  "\<exists>rest. cl_sent (rv_client (snd (resolve_company_endpoint sample_network sample_http sample_resolver_decoder (Some expiring_cache) sample_limiter
     (Some sample_reader) (Some ''Meta'') None [Inr (sample_response 200)] 0 []))) = (0, TICKERS_URL) # rest"
proof -
  have "fst (net_acquire sample_network 0 (sample_limiter 0)) = 0" by code_simp
  then obtain l1 where "net_acquire sample_network 0 (sample_limiter 0) = (0, l1)" by (metis prod.collapse)
  then show ?thesis
    using sample_cache_miss[of "ticker_cache_key (str_upper (str_strip ''Meta''))" "[Inr (sample_response 200)]"]
    by (intro resolver_pacing_is_per_request[where a = sample_reader]) (auto simp: require_authenticated_def sample_resolver_def sample_http_def)
qed

end
