(* ===== verification/SourceRegistry.thy ===== *)
theory SourceRegistry
  imports Companies RateLimiter "HOL-Library.List_Lexorder" "HOL-Library.Char_ord"
begin

text \<open>
  The configured data sources: the validators of \<^verbatim>\<open>apps/api/schemas/sources.py\<close>, \<^verbatim>\<open>apps/api/repositories/sources.py\<close>,
  the service and the handlers (\<^verbatim>\<open>apps/api/services/sources.py\<close>, \<^verbatim>\<open>apps/api/routers/sources.py\<close>), and the registry that turns a
  configuration into a source (\<^verbatim>\<open>services/acquisition/source_registry/registry.py\<close>) with its module-wide cache.  Rows in the cache are
  those of the session that loaded them, so changes made through another session do not show in it.  The JSON object of
  the column \<open>config\<close> is kept as its text.
\<close>

subsection \<open>Rows and request bodies\<close>

datatype ProviderType = REGULATORY | EXCHANGE | MANUAL | BROKER

fun provider_value :: "ProviderType \<Rightarrow> string" where
  "provider_value REGULATORY = ''regulatory''"
| "provider_value EXCHANGE = ''exchange''"
| "provider_value MANUAL = ''manual''"
| "provider_value BROKER = ''broker''"

record source_config =
  so_id :: uuid
  so_code :: string
  so_name :: string
  so_description :: "string option"
  so_provider_type :: string
  so_country_code :: "string option"
  so_base_url :: "string option"
  so_rate_limit_per_minute :: int
  so_is_active :: bool
  so_config :: "string option"
  so_created_at :: instant
  so_updated_at :: instant

record source_create =
  sc_code :: string
  sc_name :: string
  sc_description :: "string option"
  sc_provider_type :: string
  sc_country_code :: "string option"
  sc_base_url :: "string option"
  sc_rate_limit_per_minute :: int
  sc_is_active :: bool
  sc_config :: "string option"

text \<open>A field of a PATCH body is absent (\<open>None\<close>), null (\<open>Some None\<close>) or given; there is no field \<open>code\<close>.\<close>

record source_update =
  su_name :: "string option option"
  su_description :: "string option option"
  su_provider_type :: "string option option"
  su_country_code :: "string option option"
  su_base_url :: "string option option"
  su_rate_limit_per_minute :: "int option option"
  su_is_active :: "bool option option"
  su_config :: "string option option"

datatype source_error = SoAuth auth_error | SoValidation | SoConflict | SoNotFound | SoIntegrity | SoDataError

subsection \<open>Validators\<close>

definition normalise_source_code :: "string \<Rightarrow> source_error + string" where
  "normalise_source_code v =
     (let normalised = map (\<lambda>c. if c = CHR '' '' then CHR ''_'' else c) (str_upper (str_strip v))
      in if normalised = [] then Inl SoValidation else Inr normalised)"

definition strip_source_name :: "string \<Rightarrow> source_error + string" where
  "strip_source_name v = (let stripped = str_strip v in if stripped = [] then Inl SoValidation else Inr stripped)"

definition validate_provider_type :: "string \<Rightarrow> source_error + string" where
  "validate_provider_type v =
     (let normalised = str_lower (str_strip v)
      in if normalised \<in> set (map provider_value [REGULATORY, EXCHANGE, MANUAL, BROKER]) then Inr normalised else Inl SoValidation)"

definition normalise_country :: "string option \<Rightarrow> string option" where
  "normalise_country v =
     (case v of None \<Rightarrow> None
      | Some x \<Rightarrow> (let stripped = str_upper (str_strip x) in if stripped = [] then None else Some stripped))"

definition validate_source_create :: "source_create \<Rightarrow> source_error + source_create" where
  "validate_source_create b =
     (if length_in 1 50 (sc_code b) \<and> length_in 1 100 (sc_name b) \<and> opt_at_most 5 (sc_country_code b)
         \<and> opt_at_most 500 (sc_base_url b) \<and> 1 \<le> sc_rate_limit_per_minute b
      then rbind (normalise_source_code (sc_code b)) (\<lambda>code.
           rbind (strip_source_name (sc_name b)) (\<lambda>nm.
           rbind (validate_provider_type (sc_provider_type b)) (\<lambda>pt.
           Inr (b\<lparr>sc_code := code, sc_name := nm, sc_provider_type := pt, sc_country_code := normalise_country (sc_country_code b)\<rparr>))))
      else Inl SoValidation)"

definition source_fields_set :: "source_update \<Rightarrow> bool" where
  "source_fields_set b = (su_name b \<noteq> None \<or> su_description b \<noteq> None \<or> su_provider_type b \<noteq> None \<or> su_country_code b \<noteq> None
     \<or> su_base_url b \<noteq> None \<or> su_rate_limit_per_minute b \<noteq> None \<or> su_is_active b \<noteq> None \<or> su_config b \<noteq> None)"

definition validate_source_update :: "source_update \<Rightarrow> source_error + source_update" where
  "validate_source_update b =
     (if opt_field (length_in 1 100) (su_name b) \<and> opt_field (length_in 0 5) (su_country_code b)
         \<and> opt_field (length_in 0 500) (su_base_url b)
         \<and> (case su_rate_limit_per_minute b of Some (Some r) \<Rightarrow> 1 \<le> r | _ \<Rightarrow> True)
      then rbind (on_field (on_field strip_source_name) (su_name b)) (\<lambda>nm.
           rbind (on_field (on_field validate_provider_type) (su_provider_type b)) (\<lambda>pt.
           if \<not> source_fields_set b then Inl SoValidation
           else Inr (b\<lparr>su_name := nm, su_provider_type := pt, su_country_code := map_option normalise_country (su_country_code b)\<rparr>)))
      else Inl SoValidation)"

subsection \<open>Repository\<close>

text \<open>The column is a 32-bit \<open>INTEGER\<close>; \<^verbatim>\<open>uq_source_configs_code\<close> makes the codes unique.\<close>

definition int32_max :: int where "int32_max = 2147483647"

definition create_source_row :: "auth_env \<Rightarrow> source_create \<Rightarrow> source_config list \<Rightarrow> source_error + (source_config \<times> source_config list)" where
  "create_source_row E b rows =
     (let s = \<lparr>so_id = fresh_token_id E, so_code = sc_code b, so_name = sc_name b, so_description = sc_description b,
               so_provider_type = sc_provider_type b, so_country_code = sc_country_code b, so_base_url = sc_base_url b,
               so_rate_limit_per_minute = sc_rate_limit_per_minute b, so_is_active = sc_is_active b, so_config = sc_config b,
               so_created_at = now E, so_updated_at = now E\<rparr>
      in if int32_max < so_rate_limit_per_minute s then Inl SoDataError
         else if so_id s \<in> set (map so_id rows) \<or> so_code s \<in> set (map so_code rows) then Inl SoIntegrity
         else Inr (s, rows @ [s]))"

definition get_source_row :: "uuid \<Rightarrow> source_config list \<Rightarrow> source_config option" where
  "get_source_row i rows = get_row so_id i rows"

definition get_source_by_code :: "string \<Rightarrow> source_config list \<Rightarrow> source_config option" where
  "get_source_by_code code rows = find (\<lambda>s. so_code s = str_upper code) rows"

definition source_matches :: "string option \<Rightarrow> string option \<Rightarrow> bool option \<Rightarrow> source_config \<Rightarrow> bool" where
  "source_matches provider country active s =
     ((case provider of None \<Rightarrow> True | Some p \<Rightarrow> so_provider_type s = str_lower p)
      \<and> (case country of None \<Rightarrow> True | Some c \<Rightarrow> so_country_code s = Some (str_upper c))
      \<and> (case active of None \<Rightarrow> True | Some a \<Rightarrow> so_is_active s = a))"

definition list_source_rows :: "(source_config list \<Rightarrow> source_config list) \<Rightarrow> nat \<Rightarrow> nat \<Rightarrow> string option \<Rightarrow> string option \<Rightarrow> bool option
    \<Rightarrow> source_config list \<Rightarrow> source_config list \<times> nat" where
  "list_source_rows by_created_desc page per provider country active rows =
     (let hits = filter (source_matches provider country active) rows
      in (page_of per page (by_created_desc hits), length hits))"

text \<open>The assignments of \<open>update\<close>; null for a column that cannot be null fails the flush.\<close>

definition set_source_fields :: "source_update \<Rightarrow> source_config \<Rightarrow> source_config" where
  "set_source_fields b s =
     s\<lparr>so_name := (case su_name b of Some (Some v) \<Rightarrow> v | _ \<Rightarrow> so_name s),
       so_description := (case su_description b of Some v \<Rightarrow> v | None \<Rightarrow> so_description s),
       so_provider_type := (case su_provider_type b of Some (Some v) \<Rightarrow> v | _ \<Rightarrow> so_provider_type s),
       so_country_code := (case su_country_code b of Some v \<Rightarrow> v | None \<Rightarrow> so_country_code s),
       so_base_url := (case su_base_url b of Some v \<Rightarrow> v | None \<Rightarrow> so_base_url s),
       so_rate_limit_per_minute := (case su_rate_limit_per_minute b of Some (Some v) \<Rightarrow> v | _ \<Rightarrow> so_rate_limit_per_minute s),
       so_is_active := (case su_is_active b of Some (Some v) \<Rightarrow> v | _ \<Rightarrow> so_is_active s),
       so_config := (case su_config b of Some v \<Rightarrow> v | None \<Rightarrow> so_config s)\<rparr>"

definition source_nulls_required :: "source_update \<Rightarrow> bool" where
  "source_nulls_required b = (su_name b = Some None \<or> su_provider_type b = Some None \<or> su_rate_limit_per_minute b = Some None
     \<or> su_is_active b = Some None)"

definition source_update_step :: "instant \<times> source_update \<Rightarrow> source_config \<Rightarrow> source_config" where
  "source_update_step p s =
     (if set_source_fields (snd p) s = s then s else (set_source_fields (snd p) s)\<lparr>so_updated_at := fst p\<rparr>)"

definition update_source_row :: "auth_env \<Rightarrow> uuid \<Rightarrow> source_update \<Rightarrow> source_config list
    \<Rightarrow> source_error + (source_config option \<times> source_config list)" where
  "update_source_row E i b rows =
     (case get_source_row i rows of
        None \<Rightarrow> Inr (None, rows)
      | Some s \<Rightarrow>
          (let s' = source_update_step (now E, b) s
           in if int32_max < so_rate_limit_per_minute s' then Inl SoDataError
              else if source_nulls_required b then Inl SoIntegrity
              else Inr (Some s', put_row so_id i s' rows)))"

definition activate_step :: "instant \<times> bool \<Rightarrow> source_config \<Rightarrow> source_config" where
  "activate_step p s = (if so_is_active s = snd p then s else s\<lparr>so_is_active := snd p, so_updated_at := fst p\<rparr>)"

definition activate_source_row :: "auth_env \<Rightarrow> bool \<Rightarrow> uuid \<Rightarrow> source_config list \<Rightarrow> source_config option \<times> source_config list" where
  "activate_source_row E active i rows =
     (case get_source_row i rows of
        None \<Rightarrow> (None, rows)
      | Some s \<Rightarrow> (let s' = activate_step (now E, active) s in (Some s', put_row so_id i s' rows)))"

definition enable_source_row :: "auth_env \<Rightarrow> uuid \<Rightarrow> source_config list \<Rightarrow> source_config option \<times> source_config list" where
  "enable_source_row E i rows = activate_source_row E True i rows"

definition disable_source_row :: "auth_env \<Rightarrow> uuid \<Rightarrow> source_config list \<Rightarrow> source_config option \<times> source_config list" where
  "disable_source_row E i rows = activate_source_row E False i rows"

definition delete_source_row :: "uuid \<Rightarrow> source_config list \<Rightarrow> bool \<times> source_config list" where
  "delete_source_row i rows =
     (case get_source_row i rows of
        None \<Rightarrow> (False, rows)
      | Some s \<Rightarrow> (True, filter (\<lambda>r. so_id r \<noteq> i) rows))"

subsection \<open>Service and handlers\<close>

definition conflict_if_code_taken :: "source_error \<Rightarrow> source_error" where
  "conflict_if_code_taken e = (if e = SoIntegrity then SoConflict else e)"

definition create_source :: "auth_env \<Rightarrow> auth_context option \<Rightarrow> source_create \<Rightarrow> source_config list
    \<Rightarrow> (source_error + source_config) \<times> source_config list" where
  "create_source E ctx body rows =
     (case map_error SoAuth (require_role ADMIN ctx) of
        Inl e \<Rightarrow> (Inl e, rows)
      | Inr c \<Rightarrow>
     (case validate_source_create body of
        Inl e \<Rightarrow> (Inl e, rows)
      | Inr b \<Rightarrow>
     (case create_source_row E b rows of
        Inl e \<Rightarrow> (Inl (conflict_if_code_taken e), rows)
      | Inr (s, rows') \<Rightarrow> (Inr s, rows'))))"

definition list_sources :: "(source_config list \<Rightarrow> source_config list) \<Rightarrow> auth_context option \<Rightarrow> nat \<Rightarrow> nat \<Rightarrow> string option \<Rightarrow> string option
    \<Rightarrow> bool option \<Rightarrow> source_config list \<Rightarrow> source_error + source_config listing" where
  "list_sources by_created_desc ctx page per provider country active rows =
     rbind (map_error SoAuth (require_authenticated ctx)) (\<lambda>c.
       if \<not> (1 \<le> page \<and> 1 \<le> per \<and> per \<le> 100) then Inl SoValidation
       else (let (items, n) = list_source_rows by_created_desc page per provider country active rows
             in Inr \<lparr>li_items = items, li_total = n, li_page = page, li_page_size = per, li_pages = page_count per n\<rparr>))"

definition read_source :: "auth_context option \<Rightarrow> uuid \<Rightarrow> source_config list \<Rightarrow> source_error + source_config" where
  "read_source ctx i rows =
     rbind (map_error SoAuth (require_authenticated ctx)) (\<lambda>c.
       case get_source_row i rows of None \<Rightarrow> Inl SoNotFound | Some s \<Rightarrow> Inr s)"

definition source_by_code :: "string \<Rightarrow> source_config list \<Rightarrow> source_error + source_config" where
  "source_by_code code rows = (case get_source_by_code code rows of None \<Rightarrow> Inl SoNotFound | Some s \<Rightarrow> Inr s)"

definition update_source :: "auth_env \<Rightarrow> auth_context option \<Rightarrow> uuid \<Rightarrow> source_update \<Rightarrow> source_config list
    \<Rightarrow> (source_error + source_config) \<times> source_config list" where
  "update_source E ctx i body rows =
     (case map_error SoAuth (require_role ADMIN ctx) of
        Inl e \<Rightarrow> (Inl e, rows)
      | Inr c \<Rightarrow>
     (case validate_source_update body of
        Inl e \<Rightarrow> (Inl e, rows)
      | Inr b \<Rightarrow>
     (case update_source_row E i b rows of
        Inl e \<Rightarrow> (Inl e, rows)
      | Inr (None, rows') \<Rightarrow> (Inl SoNotFound, rows)
      | Inr (Some s, rows') \<Rightarrow> (Inr s, rows'))))"

definition delete_source :: "auth_context option \<Rightarrow> uuid \<Rightarrow> source_config list \<Rightarrow> (source_error + unit) \<times> source_config list" where
  "delete_source ctx i rows =
     (case map_error SoAuth (require_role ADMIN ctx) of
        Inl e \<Rightarrow> (Inl e, rows)
      | Inr c \<Rightarrow>
     (case get_source_row i rows of
        None \<Rightarrow> (Inl SoNotFound, rows)
      | Some s \<Rightarrow> (Inr (), snd (delete_source_row i rows))))"

definition found_or_404 :: "source_config list \<Rightarrow> source_config option \<times> source_config list \<Rightarrow> (source_error + source_config) \<times> source_config list" where
  "found_or_404 rows r = (case r of (None, rows') \<Rightarrow> (Inl SoNotFound, rows) | (Some s, rows') \<Rightarrow> (Inr s, rows'))"

definition enable_source :: "auth_env \<Rightarrow> auth_context option \<Rightarrow> uuid \<Rightarrow> source_config list
    \<Rightarrow> (source_error + source_config) \<times> source_config list" where
  "enable_source E ctx i rows =
     (case map_error SoAuth (require_role ADMIN ctx) of
        Inl e \<Rightarrow> (Inl e, rows)
      | Inr c \<Rightarrow> found_or_404 rows (enable_source_row E i rows))"

definition disable_source :: "auth_env \<Rightarrow> auth_context option \<Rightarrow> uuid \<Rightarrow> source_config list
    \<Rightarrow> (source_error + source_config) \<times> source_config list" where
  "disable_source E ctx i rows =
     (case map_error SoAuth (require_role ADMIN ctx) of
        Inl e \<Rightarrow> (Inl e, rows)
      | Inr c \<Rightarrow> found_or_404 rows (disable_source_row E i rows))"

datatype source_request =
    SoCreate source_create
  | SoUpdate uuid source_update
  | SoDelete uuid
  | SoEnable uuid
  | SoDisable uuid

definition source_serve :: "auth_env \<Rightarrow> auth_context option \<Rightarrow> source_request \<Rightarrow> source_config list \<Rightarrow> source_config list" where
  "source_serve E ctx r rows =
     (case r of
        SoCreate b \<Rightarrow> snd (create_source E ctx b rows)
      | SoUpdate i b \<Rightarrow> snd (update_source E ctx i b rows)
      | SoDelete i \<Rightarrow> snd (delete_source ctx i rows)
      | SoEnable i \<Rightarrow> snd (enable_source E ctx i rows)
      | SoDisable i \<Rightarrow> snd (disable_source E ctx i rows))"

subsection \<open>The registry\<close>

text \<open>
  A call that may read the table takes the session's rows as its query returns them, \<open>None\<close> without a session; it looks
  at the clock at \<open>t\<close>, before the query, and at \<open>t'\<close>, after it.
\<close>

datatype registry_error = NoSession | UnknownSource string | DisabledSource string | NoFactory string | FactoryFailed py_error

record registry_cache =
  cached_configs :: "source_config list option"
  cache_loaded_at :: rat

definition CACHE_TTL_SECONDS :: rat where "CACHE_TTL_SECONDS = 300"

definition invalidate_cache :: "registry_cache \<Rightarrow> registry_cache" where
  "invalidate_cache C = C\<lparr>cached_configs := None, cache_loaded_at := 0\<rparr>"

definition cache_is_fresh :: "rat \<Rightarrow> registry_cache \<Rightarrow> bool" where
  "cache_is_fresh t C = (cached_configs C \<noteq> None \<and> t - cache_loaded_at C < CACHE_TTL_SECONDS)"

definition load_configs :: "source_config list option \<Rightarrow> rat \<Rightarrow> rat \<Rightarrow> registry_cache \<Rightarrow> (registry_error + source_config list) \<times> registry_cache" where
  "load_configs session t t' C =
     (case cached_configs C of
        Some cs \<Rightarrow>
          if cache_is_fresh t C then (Inr cs, C)
          else (case session of None \<Rightarrow> (Inr cs, C) | Some rows \<Rightarrow> (Inr rows, \<lparr>cached_configs = Some rows, cache_loaded_at = t'\<rparr>))
      | None \<Rightarrow>
          (case session of None \<Rightarrow> (Inl NoSession, C) | Some rows \<Rightarrow> (Inr rows, \<lparr>cached_configs = Some rows, cache_loaded_at = t'\<rparr>)))"

datatype source_limiter = RedisLimited redis_limiter | InProcessLimited bucket_config token_bucket

record edgar_source =
  es_user_agent :: string
  es_limiter :: source_limiter

record registry =
  rg_user_agent :: "string option"
  rg_redis :: bool

definition new_redis_limiter :: "string \<Rightarrow> int \<Rightarrow> rat \<Rightarrow> py_error + redis_limiter" where
  "new_redis_limiter key r clock =
     rbind (new_bucket (of_int r) (nat r) clock) (\<lambda>(cfg, b).
       Inr \<lparr>rl_key = key, rl_rate = nat r, rl_window = 1, rl_fallback_config = cfg, rl_fallback = b\<rparr>)"

text \<open>\<open>rps\<close>, as an exact number.\<close>

definition source_rps :: "source_config \<Rightarrow> rat" where
  "source_rps cfg = min ((of_int (so_rate_limit_per_minute cfg) / 60) * (4 / 5)) 8"

definition make_sec_edgar :: "source_config \<Rightarrow> string option \<Rightarrow> bool \<Rightarrow> rat \<Rightarrow> py_error + edgar_source" where
  "make_sec_edgar cfg agent redis clock =
     (let ua = (case agent of Some a \<Rightarrow> if a = [] then ''FinancialDataHub contact@example.com'' else a
                | None \<Rightarrow> ''FinancialDataHub contact@example.com'')
      in rbind (if redis
                then rbind (new_redis_limiter (''fdh:rate_limit:'' @ str_lower (so_code cfg)) \<lfloor>source_rps cfg\<rfloor> clock) (\<lambda>l. Inr (RedisLimited l))
                else rbind (new_bucket (source_rps cfg) 10 clock) (\<lambda>(k, b). Inr (InProcessLimited k b)))
           (\<lambda>l. Inr \<lparr>es_user_agent = ua, es_limiter = l\<rparr>))"

definition source_factory :: "string \<Rightarrow> (source_config \<Rightarrow> string option \<Rightarrow> bool \<Rightarrow> rat \<Rightarrow> py_error + edgar_source) option" where
  "source_factory code = (if code = ''SEC_EDGAR'' then Some make_sec_edgar else None)"

definition get_source :: "registry \<Rightarrow> source_config list option \<Rightarrow> rat \<Rightarrow> rat \<Rightarrow> string \<Rightarrow> registry_cache
    \<Rightarrow> (registry_error + edgar_source) \<times> registry_cache" where
  "get_source G session t t' code0 C =
     (let code = str_upper code0 in
      case load_configs session t t' C of
        (Inl e, C1) \<Rightarrow> (Inl e, C1)
      | (Inr configs, C1) \<Rightarrow>
          (case find (\<lambda>c. so_code c = code) configs of
             None \<Rightarrow> (Inl (UnknownSource code), C1)
           | Some cfg \<Rightarrow>
               if \<not> so_is_active cfg then (Inl (DisabledSource code), C1)
               else (case source_factory code of
                   None \<Rightarrow> (Inl (NoFactory code), C1)
                 | Some f \<Rightarrow> (map_error FactoryFailed (f cfg (rg_user_agent G) (rg_redis G) t'), C1))))"

definition registry_sources :: "source_config list option \<Rightarrow> rat \<Rightarrow> rat \<Rightarrow> string option \<Rightarrow> bool \<Rightarrow> registry_cache
    \<Rightarrow> (registry_error + source_config list) \<times> registry_cache" where
  "registry_sources session t t' country active_only C =
     (case load_configs session t t' C of
        (Inl e, C1) \<Rightarrow> (Inl e, C1)
      | (Inr configs, C1) \<Rightarrow>
          (Inr (sort_key so_code (filter (\<lambda>c. (active_only \<longrightarrow> so_is_active c)
             \<and> (case country of None \<Rightarrow> True
                | Some cc \<Rightarrow> map_option str_upper (so_country_code c) = Some (str_upper cc))) configs)), C1))"

definition health_of :: "registry \<Rightarrow> rat \<Rightarrow> source_config \<Rightarrow> bool" where
  "health_of G clock cfg =
     (case source_factory (so_code cfg) of None \<Rightarrow> False
      | Some f \<Rightarrow> (case f cfg (rg_user_agent G) False clock of Inl e \<Rightarrow> False | Inr src \<Rightarrow> True))"

definition registry_health_check :: "registry \<Rightarrow> source_config list option \<Rightarrow> rat \<Rightarrow> rat \<Rightarrow> registry_cache
    \<Rightarrow> (registry_error + (string \<rightharpoonup> bool)) \<times> registry_cache" where
  "registry_health_check G session t t' C =
     (case load_configs session t t' C of
        (Inl e, C1) \<Rightarrow> (Inl e, C1)
      | (Inr configs, C1) \<Rightarrow>
          (Inr (foldl (\<lambda>m c. if so_is_active c then m(so_code c \<mapsto> health_of G t' c) else m) Map.empty configs), C1))"


subsection \<open>Well-formed tables\<close>

definition source_wf :: "source_config \<Rightarrow> bool" where
  "source_wf s \<longleftrightarrow>
     so_code s \<noteq> [] \<and> length (so_code s) \<le> 50 \<and> str_upper (so_code s) = so_code s \<and> CHR '' '' \<notin> set (so_code s)
     \<and> so_name s \<noteq> [] \<and> length (so_name s) \<le> 100 \<and> str_strip (so_name s) = so_name s
     \<and> so_provider_type s \<in> set (map provider_value [REGULATORY, EXCHANGE, MANUAL, BROKER])
     \<and> (case so_country_code s of None \<Rightarrow> True | Some c \<Rightarrow> c \<noteq> [] \<and> length c \<le> 5 \<and> str_upper c = c)
     \<and> 1 \<le> so_rate_limit_per_minute s \<and> so_rate_limit_per_minute s \<le> int32_max"

definition sources_wf :: "source_config list \<Rightarrow> bool" where
  "sources_wf rows \<longleftrightarrow> distinct (map so_id rows) \<and> distinct (map so_code rows) \<and> (\<forall>s \<in> set rows. source_wf s)"

lemma str_strip_shorter: "length (str_strip s) \<le> length s"
  unfolding str_strip_def by (metis length_dropWhile_le length_rev le_trans)

lemma length_str_upper: "length (str_upper s) = length s"
  by (simp add: str_upper_def)

lemma normal_code:
  assumes "normalise_source_code v = Inr c"
  shows "c \<noteq> [] \<and> length c \<le> length v \<and> str_upper c = c \<and> CHR '' '' \<notin> set c"
proof -
  let ?u = "\<lambda>c. if c = CHR '' '' then CHR ''_'' else c"
  have space: "char_upper CHR '' '' = CHR '' ''" and under: "char_upper CHR ''_'' = CHR ''_''" by (simp_all add: char_upper_def)
  have c: "c = map ?u (str_upper (str_strip v))" and "c \<noteq> []" using assms by (auto simp: normalise_source_code_def Let_def split: if_splits)
  moreover have "str_upper (map ?u (str_upper x)) = map ?u (str_upper x)" for x
    by (induction x) (auto simp: str_upper_def under)
  moreover have "CHR '' '' \<notin> set (map ?u x)" for x by auto
  ultimately show ?thesis using str_strip_shorter[of v] by (simp add: length_str_upper)
qed

lemma stripped_name:
  assumes "strip_source_name v = Inr n"
  shows "n \<noteq> [] \<and> length n \<le> length v \<and> str_strip n = n"
  using assms str_strip_shorter[of v] by (auto simp: strip_source_name_def Let_def split: if_splits)

lemma valid_provider:
  "validate_provider_type v = Inr p \<Longrightarrow> p \<in> set (map provider_value [REGULATORY, EXCHANGE, MANUAL, BROKER])"
  by (auto simp: validate_provider_type_def Let_def split: if_splits)

lemma normal_country:
  assumes "opt_at_most 5 v"
  shows "case normalise_country v of None \<Rightarrow> True | Some c \<Rightarrow> c \<noteq> [] \<and> length c \<le> 5 \<and> str_upper c = c"
proof (cases v)
  case (Some x)
  with assms str_strip_shorter[of x] have "length (str_strip x) \<le> 5" by (simp add: opt_at_most_def)
  with Some show ?thesis by (simp add: normalise_country_def Let_def length_str_upper)
qed (simp add: normalise_country_def)

lemma source_step_keys [simp]:
  "so_id (source_update_step p s) = so_id s" "so_code (source_update_step p s) = so_code s"
  "so_id (activate_step q s) = so_id s" "so_code (activate_step q s) = so_code s"
  by (simp_all add: source_update_step_def set_source_fields_def activate_step_def)

lemma get_source_row_Some: "get_source_row i rows = Some s \<Longrightarrow> s \<in> set rows \<and> so_id s = i"
  unfolding get_source_row_def by (rule get_row_Some)

lemma put_source_wf:
  assumes "sources_wf rows" "get_source_row i rows = Some s" "so_id s' = so_id s" "so_code s' = so_code s" "source_wf s'"
  shows "sources_wf (put_row so_id i s' rows)"
proof -
  note s = get_source_row_Some[OF assms(2)]
  have one: "x = s" if "x \<in> set rows" "so_id x = i" for x
    using that s assms(1) by (simp add: sources_wf_def distinct_map) (metis inj_onD)
  then have m: "map so_code (put_row so_id i s' rows) = map so_code rows" "map so_id (put_row so_id i s' rows) = map so_id rows"
    using s assms(3,4) by (auto simp: put_row_def update_where_def)
  have "source_wf x" if "x \<in> set (put_row so_id i s' rows)" for x
    using that assms(1,5) by (auto simp: put_row_def update_where_def sources_wf_def split: if_splits)
  with m assms(1) show ?thesis by (simp add: sources_wf_def)
qed

lemma created_wf:
  assumes "sources_wf rows" "validate_source_create body = Inr b" "create_source_row E b rows = Inr (s, rows')"
  shows "sources_wf rows'"
proof -
  from assms(2) obtain code nm pt where v: "normalise_source_code (sc_code body) = Inr code" "strip_source_name (sc_name body) = Inr nm"
      "validate_provider_type (sc_provider_type body) = Inr pt"
    and b: "b = body\<lparr>sc_code := code, sc_name := nm, sc_provider_type := pt, sc_country_code := normalise_country (sc_country_code body)\<rparr>"
    and l: "length_in 1 50 (sc_code body)" "length_in 1 100 (sc_name body)" "opt_at_most 5 (sc_country_code body)" "1 \<le> sc_rate_limit_per_minute body"
    by (auto simp: validate_source_create_def rbind_eq_Inr split: if_splits)
  have "source_wf s"
    using assms(3) normal_code[OF v(1)] stripped_name[OF v(2)] valid_provider[OF v(3)] normal_country[OF l(3)] l b
    by (auto simp: create_source_row_def source_wf_def length_in_def Let_def split: if_splits)
  with assms(1,3) show ?thesis by (auto simp: create_source_row_def sources_wf_def Let_def split: if_splits)
qed


lemma updated_step_wf:
  assumes "validate_source_update body = Inr b" "\<not> source_nulls_required b" "source_wf s"
    and "so_rate_limit_per_minute (source_update_step (t, b) s) \<le> int32_max"
  shows "source_wf (source_update_step (t, b) s)"
proof -
  from assms(1) obtain nm pt where v: "on_field (on_field strip_source_name) (su_name body) = Inr nm"
      "on_field (on_field validate_provider_type) (su_provider_type body) = Inr pt"
    and b: "b = body\<lparr>su_name := nm, su_provider_type := pt, su_country_code := map_option normalise_country (su_country_code body)\<rparr>"
    and l: "opt_field (length_in 1 100) (su_name body)" "opt_field (length_in 0 5) (su_country_code body)"
      "case su_rate_limit_per_minute body of Some (Some r) \<Rightarrow> 1 \<le> r | _ \<Rightarrow> True"
    by (auto simp: validate_source_update_def rbind_eq_Inr split: if_splits)
  have n: "x \<noteq> [] \<and> length x \<le> 100 \<and> str_strip x = x" if "nm = Some (Some x)" for x
    using v(1) l(1) that stripped_name by (fastforce simp: on_field_def opt_field_def length_in_def rbind_eq_Inr split: option.splits)
  have p: "x \<in> set (map provider_value [REGULATORY, EXCHANGE, MANUAL, BROKER])" if "pt = Some (Some x)" for x
    using v(2) that valid_provider by (auto simp: on_field_def rbind_eq_Inr split: option.splits)
  have c: "case normalise_country x of None \<Rightarrow> True | Some c \<Rightarrow> c \<noteq> [] \<and> length c \<le> 5 \<and> str_upper c = c"
    if "su_country_code body = Some x" for x
    using l(2) that by (intro normal_country) (auto simp: opt_field_def opt_at_most_def length_in_def split: option.splits)
  have r: "1 \<le> x" if "su_rate_limit_per_minute body = Some (Some x)" for x using l(3) that by simp
  have "source_wf (set_source_fields b s)" if "so_rate_limit_per_minute (set_source_fields b s) \<le> int32_max"
    using assms(3) that n p c r
    by (auto simp: source_wf_def set_source_fields_def b simp del: list.map list.set split: option.splits)
  then show ?thesis using assms(3,4)
    by (auto simp: source_update_step_def source_wf_def split: if_splits)
qed

lemma activated_wf: "source_wf s \<Longrightarrow> source_wf (activate_step p s)"
  by (simp add: activate_step_def source_wf_def)

lemma activated_rows_wf:
  assumes "sources_wf rows" "activate_source_row E active i rows = (r, rows')"
  shows "sources_wf rows'"
proof (cases "get_source_row i rows")
  case (Some s)
  with get_source_row_Some[OF Some] assms(1) have "source_wf s" by (auto simp: sources_wf_def)
  with put_source_wf[OF assms(1) Some, of "activate_step (now E, active) s"] assms(2) Some show ?thesis
    by (auto simp: activate_source_row_def Let_def activated_wf)
next
  case None
  with assms show ?thesis by (simp add: activate_source_row_def)
qed

text \<open>
  C24: the table of sources stays well formed.  From a table with unique ids and unique codes whose rows are in
  normal form (codes in capitals without blanks, provider types of the enumeration, names without outer blanks, rates of at
  least one request per minute), every request leaves such a table, whoever sends it and whatever its body.
\<close>

lemma source_requests_keep_table:
  assumes "sources_wf rows"
  shows "sources_wf (source_serve E ctx req rows)"
proof (cases req)
  case (SoCreate body)
  with assms created_wf[OF assms] show ?thesis
    by (auto simp: source_serve_def create_source_def split: sum.splits)
next
  case (SoUpdate i body)
  have "sources_wf rows'" if v: "validate_source_update body = Inr b" and u: "update_source_row E i b rows = Inr (Some s', rows')" for b s' rows'
  proof -
    from u obtain s where s: "get_source_row i rows = Some s" "s' = source_update_step (now E, b) s" "\<not> source_nulls_required b"
        "rows' = put_row so_id i s' rows" "so_rate_limit_per_minute s' \<le> int32_max"
      by (auto simp: update_source_row_def Let_def split: option.splits if_splits)
    from get_source_row_Some[OF s(1)] assms have "source_wf s" by (auto simp: sources_wf_def)
    with updated_step_wf[OF v s(3)] s have "source_wf s'" by simp
    with put_source_wf[OF assms s(1)] s(2,4) show ?thesis by simp
  qed
  with assms SoUpdate show ?thesis
    by (auto simp: source_serve_def update_source_def split: sum.splits option.splits)
next
  case (SoDelete i)
  have "sources_wf (filter P rows)" for P
    using assms by (auto simp: sources_wf_def intro: distinct_map_filter)
  with assms SoDelete show ?thesis
    by (auto simp: source_serve_def delete_source_def delete_source_row_def split: sum.splits option.splits)
next
  case (SoEnable i)
  with assms activated_rows_wf[OF assms] show ?thesis
    by (auto simp: source_serve_def enable_source_def enable_source_row_def found_or_404_def split: sum.splits prod.splits option.splits)
next
  case (SoDisable i)
  with assms activated_rows_wf[OF assms] show ?thesis
    by (auto simp: source_serve_def disable_source_def disable_source_row_def found_or_404_def split: sum.splits prod.splits option.splits)
qed


subsection \<open>The registry's cache\<close>

lemma find_eq_Some: "find P xs = Some x \<Longrightarrow> x \<in> set xs \<and> P x"
  by (auto simp: find_Some_iff)

text \<open>
  The caches a process can have at a time \<open>u\<close> when the table's rows at each time are \<open>H\<close> and a query takes at most
  \<open>d\<close>: from the start, by loads with and without a session, and by invalidation.
\<close>

inductive registry_reaches :: "(rat \<Rightarrow> source_config list) \<Rightarrow> rat \<Rightarrow> rat \<Rightarrow> registry_cache \<Rightarrow> bool" for H d where
  reg_start: "registry_reaches H d 0 \<lparr>cached_configs = None, cache_loaded_at = 0\<rparr>"
| reg_load: "registry_reaches H d u C \<Longrightarrow> u \<le> t \<Longrightarrow> t \<le> t' \<Longrightarrow> t' \<le> t + d
    \<Longrightarrow> registry_reaches H d t' (snd (load_configs (Some (H t)) t t' C))"
| reg_no_session: "registry_reaches H d u C \<Longrightarrow> u \<le> t \<Longrightarrow> t \<le> t' \<Longrightarrow> registry_reaches H d t' (snd (load_configs None t t' C))"
| reg_invalidate: "registry_reaches H d u C \<Longrightarrow> registry_reaches H d u (invalidate_cache C)"

text \<open>What is cached is the table as it was at most a query before the load.\<close>

lemma cache_is_a_snapshot:
  "registry_reaches H d u C \<Longrightarrow>
     (\<forall>cs. cached_configs C = Some cs \<longrightarrow> (\<exists>s. cs = H s \<and> s \<le> u \<and> s \<le> cache_loaded_at C \<and> cache_loaded_at C \<le> s + d))"
proof (induction rule: registry_reaches.induct)
  case (reg_load u C t t')
  then show ?case
    by (fastforce simp: load_configs_def split: option.splits if_splits)
next
  case (reg_no_session u C t t')
  then show ?case
    by (fastforce simp: load_configs_def split: option.splits if_splits)
qed (auto simp: invalidate_cache_def)

lemma load_with_session:
  assumes "registry_reaches H d u C" "u \<le> t" "0 \<le> d" "fst (load_configs (Some (H t)) t t' C) = Inr cs"
  shows "\<exists>s. cs = H s \<and> s \<le> t \<and> t < s + (300 + d)"
proof (cases "cache_is_fresh t C")
  case True
  then obtain cs0 where c: "cached_configs C = Some cs0" "t - cache_loaded_at C < 300"
    by (auto simp: cache_is_fresh_def CACHE_TTL_SECONDS_def)
  with cache_is_a_snapshot[OF assms(1)] obtain s where "cs0 = H s" "s \<le> u" "cache_loaded_at C \<le> s + d" by blast
  moreover have "cs = cs0" using assms(4) True c(1) by (simp add: load_configs_def)
  ultimately show ?thesis using c(2) assms(2) by (intro exI[of _ s]) auto
next
  case False
  then have "cs = H t" using assms(4) by (auto simp: load_configs_def split: option.splits)
  with assms(3) show ?thesis by (intro exI[of _ t]) auto
qed

text \<open>
  C25: the registry's staleness is bounded, given a session.  A source it vends at \<open>t\<close> was an active row of the
  table at some time less than five minutes and one query before \<open>t\<close>.
\<close>

lemma vended_source_was_active:
  assumes "registry_reaches H d u C" and "u \<le> t" and "0 \<le> d"
    and "get_source G (Some (H t)) t t' code C = (Inr src, C')"
  shows "\<exists>s. s \<le> t \<and> t < s + (300 + d)
     \<and> (\<exists>cfg \<in> set (H s). so_code cfg = str_upper code \<and> so_is_active cfg
          \<and> make_sec_edgar cfg (rg_user_agent G) (rg_redis G) t' = Inr src)"
proof -
  obtain r C1 where l: "load_configs (Some (H t)) t t' C = (r, C1)" by fastforce
  with assms(4) obtain cs cfg where r: "r = Inr cs" and f: "find (\<lambda>c. so_code c = str_upper code) cs = Some cfg" "so_is_active cfg"
    and m: "make_sec_edgar cfg (rg_user_agent G) (rg_redis G) t' = Inr src"
    by (auto simp: get_source_def Let_def source_factory_def split: sum.splits option.splits if_splits)
  from load_with_session[OF assms(1-3), of t' cs] l r obtain s where "cs = H s" "s \<le> t" "t < s + (300 + d)" by auto
  with f m find_eq_Some[OF f(1)] show ?thesis by (intro exI[of _ s]) auto
qed

subsection \<open>Starting a source\<close>

lemma source_rps_bounds:
  assumes "1 \<le> so_rate_limit_per_minute c"
  shows "0 < source_rps c" "source_rps c \<le> 8" "source_rps c \<le> of_int (so_rate_limit_per_minute c) / 60 * (4 / 5)"
proof -
  have "(1::rat) \<le> of_int (so_rate_limit_per_minute c)" using assms by (metis of_int_1 of_int_le_iff)
  then have "0 < of_int (so_rate_limit_per_minute c) / 60 * (4 / 5 :: rat)" by simp
  then show "0 < source_rps c" by (simp add: source_rps_def)
qed (simp_all add: source_rps_def)

lemma source_rps_floor: "0 < \<lfloor>source_rps c\<rfloor> \<longleftrightarrow> 75 \<le> so_rate_limit_per_minute c"
proof -
  have "1 \<le> source_rps c \<longleftrightarrow> (75 :: rat) \<le> of_int (so_rate_limit_per_minute c)" by (auto simp: source_rps_def)
  moreover have "(75 :: rat) \<le> of_int (so_rate_limit_per_minute c) \<longleftrightarrow> 75 \<le> so_rate_limit_per_minute c"
    by (metis of_int_le_iff of_int_numeral)
  moreover have "0 < \<lfloor>source_rps c\<rfloor> \<longleftrightarrow> 1 \<le> source_rps c" by (metis one_le_floor int_one_le_iff_zero_less)
  ultimately show ?thesis by blast
qed

text \<open>
  Which sources can be vended.  An active row for the SEC with an allowed rate always passes the health check, yet
  with a Redis client a rate below 75 requests per minute is cut to zero per second and every attempt to get the source
  fails with a \<open>ValueError\<close>; from 75 on, and without Redis always, the source is made, with a limiter of a
  positive rate of at most eight and at most four fifths of the configured one.
\<close>

lemma slow_source_never_starts:
  assumes "so_code c = ''SEC_EDGAR''" and "1 \<le> so_rate_limit_per_minute c"
  shows "health_of G clock c
     \<and> (case make_sec_edgar c agent redis clock of
          Inl e \<Rightarrow> redis \<and> so_rate_limit_per_minute c < 75 \<and> e = ValueError
        | Inr src \<Rightarrow> (redis \<longrightarrow> 75 \<le> so_rate_limit_per_minute c)
            \<and> (\<exists>r. 0 < r \<and> r \<le> 8 \<and> r \<le> of_int (so_rate_limit_per_minute c) / 60 * (4 / 5)
                 \<and> (case es_limiter src of RedisLimited l \<Rightarrow> redis \<and> of_nat (rl_rate l) = r
                    | InProcessLimited k b \<Rightarrow> \<not> redis \<and> rate k = r)))"
proof -
  note b = source_rps_bounds[OF assms(2)]
  have h: "health_of G clock c"
    using assms(1) b(1) by (simp add: health_of_def source_factory_def make_sec_edgar_def Let_def new_bucket_def rbind_def)
  have p: "(case make_sec_edgar c agent False clock of Inl e \<Rightarrow> False
      | Inr src \<Rightarrow> (\<exists>k b. es_limiter src = InProcessLimited k b \<and> rate k = source_rps c))"
    using b(1) by (simp add: make_sec_edgar_def Let_def new_bucket_def rbind_def)
  have q: "(case make_sec_edgar c agent True clock of Inl e \<Rightarrow> so_rate_limit_per_minute c < 75 \<and> e = ValueError
      | Inr src \<Rightarrow> 75 \<le> so_rate_limit_per_minute c \<and> (\<exists>l. es_limiter src = RedisLimited l \<and> int (rl_rate l) = \<lfloor>source_rps c\<rfloor>))"
  proof (cases "0 < \<lfloor>source_rps c\<rfloor>")
    case True
    then have "\<not> (of_int \<lfloor>source_rps c\<rfloor> :: rat) \<le> 0" "nat \<lfloor>source_rps c\<rfloor> \<noteq> 0" by simp_all
    with True source_rps_floor[of c] show ?thesis by (simp add: make_sec_edgar_def Let_def new_redis_limiter_def new_bucket_def rbind_def)
  next
    case False
    then have "(of_int \<lfloor>source_rps c\<rfloor> :: rat) \<le> 0" by (simp only: of_int_le_0_iff not_less)
    with False source_rps_floor[of c] show ?thesis by (simp add: make_sec_edgar_def Let_def new_redis_limiter_def new_bucket_def rbind_def)
  qed
  have r: "0 < (of_nat n :: rat) \<and> of_nat n \<le> (8 :: rat) \<and> of_nat n \<le> of_int (so_rate_limit_per_minute c) / 60 * (4 / (5 :: rat))"
    if "int n = \<lfloor>source_rps c\<rfloor>" "75 \<le> so_rate_limit_per_minute c" for n
  proof -
    have "(of_nat n :: rat) = of_int \<lfloor>source_rps c\<rfloor>" using that(1) by (metis of_int_of_nat_eq)
    then have "(of_nat n :: rat) \<le> source_rps c" by simp
    moreover have "0 < n" using that source_rps_floor[of c] by (metis of_nat_0_less_iff)
    ultimately show ?thesis using b(2,3) by (auto intro: order_trans)
  qed
  show ?thesis
    using h p q b r by (cases redis) (force split: sum.splits)+
qed


text \<open>Every call of the registry changes the cache as its load does.\<close>

lemma registry_calls_only_load:
  "snd (get_source G session t t' code C) = snd (load_configs session t t' C)"
  "snd (registry_sources session t t' country active_only C) = snd (load_configs session t t' C)"
  "snd (registry_health_check G session t t' C) = snd (load_configs session t t' C)"
  by (auto simp: get_source_def registry_sources_def registry_health_check_def Let_def split: sum.splits prod.splits option.splits)

lemma find_by_code:
  assumes "distinct (map so_code rows)" "c \<in> set rows"
  shows "find (\<lambda>x. so_code x = so_code c) rows = Some c"
proof -
  have "find (\<lambda>x. so_code x = so_code c) rows \<noteq> None" using assms(2) by (auto simp: find_None_iff)
  then obtain x where x: "find (\<lambda>x. so_code x = so_code c) rows = Some x" by blast
  with find_eq_Some[OF x] assms show ?thesis by (simp add: distinct_map) (metis inj_onD)
qed

lemma active_source_vended:
  assumes "find (\<lambda>c. so_code c = ''SEC_EDGAR'') cs = Some c" "so_is_active c" "so_code c = ''SEC_EDGAR''" "1 \<le> so_rate_limit_per_minute c"
    and "rg_redis G \<longrightarrow> 75 \<le> so_rate_limit_per_minute c" and "load_configs session u v C = (Inr cs, C1)"
  shows "\<exists>src. get_source G session u v ''sec_edgar'' C = (Inr src, C1)"
proof -
  have "\<exists>src. make_sec_edgar c (rg_user_agent G) (rg_redis G) v = Inr src"
    using source_rps_bounds[OF assms(4)] source_rps_floor[of c] assms(5)
    by (auto simp: make_sec_edgar_def Let_def new_redis_limiter_def new_bucket_def rbind_def)
  moreover have "str_upper ''sec_edgar'' = ''SEC_EDGAR''" by code_simp
  ultimately show ?thesis using assms by (auto simp: get_source_def source_factory_def)
qed

text \<open>
  Disabling a source does not stop the registry from vending it.  For five minutes after the rows were loaded it is
  vended although the table says it is disabled, and a registry without a session, such as the default one, goes on with it for good;
  after five minutes with a session, or after an invalidation, it is refused.
\<close>

lemma disabled_source_still_vended:
  assumes "sources_wf rows" and "cfg \<in> set rows" and "so_code cfg = ''SEC_EDGAR''" and "so_is_active cfg"
    and "rg_redis G \<longrightarrow> 75 \<le> so_rate_limit_per_minute cfg"
    and "load_configs (Some rows) t t' \<lparr>cached_configs = None, cache_loaded_at = 0\<rparr> = (Inr rows, C)"
    and "disable_source E ctx (so_id cfg) rows = (Inr cfg', rows')"
  shows "(u < t' + 300 \<longrightarrow> (\<exists>src. get_source G (Some rows') u v ''sec_edgar'' C = (Inr src, C)))
     \<and> (\<exists>src. get_source G None u v ''sec_edgar'' C = (Inr src, C))
     \<and> (t' + 300 \<le> u \<longrightarrow> fst (get_source G (Some rows') u v ''sec_edgar'' C) = Inl (DisabledSource ''SEC_EDGAR''))
     \<and> fst (get_source G (Some rows') u v ''sec_edgar'' (invalidate_cache C)) = Inl (DisabledSource ''SEC_EDGAR'')"
proof -
  have code: "str_upper ''sec_edgar'' = ''SEC_EDGAR''" by code_simp
  have C: "C = \<lparr>cached_configs = Some rows, cache_loaded_at = t'\<rparr>" using assms(6) by (simp add: load_configs_def)
  have wf: "source_wf cfg" "distinct (map so_code rows)" "distinct (map so_id rows)" using assms(1,2) by (auto simp: sources_wf_def)
  then have rate: "1 \<le> so_rate_limit_per_minute cfg" by (simp add: source_wf_def)
  note f = find_by_code[OF wf(2) assms(2), unfolded assms(3)]
  note vend = active_source_vended[OF f assms(4,3) rate assms(5)]
  have one: "x = cfg" if "get_source_row (so_id cfg) rows = Some x" for x
    using get_source_row_Some[OF that] assms(2) wf(3) by (simp add: distinct_map) (metis inj_onD)
  obtain s where s: "get_source_row (so_id cfg) rows = Some s" "rows' = put_row so_id (so_id cfg) (activate_step (now E, False) s) rows"
    using assms(7)
    by (auto simp: disable_source_def disable_source_row_def activate_source_row_def found_or_404_def Let_def split: sum.splits option.splits prod.splits)
  let ?off = "activate_step (now E, False) cfg"
  have "activate_source_row E False (so_id cfg) rows = (Some ?off, rows')"
    using s one[OF s(1)] by (simp add: activate_source_row_def Let_def)
  from activated_rows_wf[OF assms(1) this] have wf': "distinct (map so_code rows')" by (simp add: sources_wf_def)
  have "?off \<in> set rows'" using s(2) one[OF s(1)] assms(2) by (auto simp: put_row_def set_update_where)
  from find_by_code[OF wf' this] have f': "find (\<lambda>x. so_code x = ''SEC_EDGAR'') rows' = Some ?off" by (simp add: assms(3))
  have "\<not> so_is_active ?off" by (simp add: activate_step_def)
  with f' code have refused: "fst (get_source G (Some rows') u v ''sec_edgar'' D) = Inl (DisabledSource ''SEC_EDGAR'')"
    if "fst (load_configs (Some rows') u v D) = Inr rows'" for D
    using that by (auto simp: get_source_def Let_def split: prod.splits)
  show ?thesis
    using vend[of "Some rows'" u v C C] vend[of None u v C C] refused[of C] refused[of "invalidate_cache C"] C
    by (auto simp: load_configs_def cache_is_fresh_def CACHE_TTL_SECONDS_def invalidate_cache_def)
qed

subsection \<open>Instances\<close>

definition sample_source :: source_config where
  "sample_source = \<lparr>so_id = ''s1'', so_code = ''SEC_EDGAR'', so_name = ''SEC EDGAR'', so_description = None, so_provider_type = ''regulatory'',
     so_country_code = Some ''US'', so_base_url = None, so_rate_limit_per_minute = 600, so_is_active = True, so_config = None,
     so_created_at = 0, so_updated_at = 0\<rparr>"

lemma sample_sources_wf: "sources_wf [sample_source]"
  by code_simp

definition sample_source_body :: source_create where
  "sample_source_body = \<lparr>sc_code = '' nse india'', sc_name = '' NSE '', sc_description = None, sc_provider_type = ''Exchange'',
     sc_country_code = Some ''in'', sc_base_url = None, sc_rate_limit_per_minute = 10, sc_is_active = True, sc_config = None\<rparr>"

definition sample_admin :: auth_context where
  "sample_admin = context_of (demo_payload\<lparr>tp_role := ''admin''\<rparr>)"

lemma sample_admin_role: "require_role ADMIN (Some sample_admin) = Inr sample_admin"
  by (simp add: require_role_def require_authenticated_def sample_admin_def context_of_def demo_payload_def)

lemma source_requests_keep_table_witness:
  "sources_wf (source_serve demo_env (Some sample_admin) (SoCreate sample_source_body) [sample_source])"
  by (rule source_requests_keep_table[OF sample_sources_wf])

definition sample_registry :: registry where "sample_registry = \<lparr>rg_user_agent = None, rg_redis = True\<rparr>"

lemma vended_source_was_active_witness:
  "\<exists>src C'. get_source sample_registry (Some [sample_source]) 10 10 ''sec_edgar'' \<lparr>cached_configs = None, cache_loaded_at = 0\<rparr> = (Inr src, C')
     \<and> so_is_active sample_source \<and> make_sec_edgar sample_source (rg_user_agent sample_registry) (rg_redis sample_registry) 10 = Inr src"
proof -
  have "\<exists>src. get_source sample_registry (Some [sample_source]) 10 10 ''sec_edgar'' \<lparr>cached_configs = None, cache_loaded_at = 0\<rparr>
      = (Inr src, \<lparr>cached_configs = Some [sample_source], cache_loaded_at = 10\<rparr>)"
    by (rule active_source_vended[where c = sample_source and cs = "[sample_source]"])
      (simp_all add: sample_source_def load_configs_def)
  then obtain src where g: "get_source sample_registry (Some ((\<lambda>_. [sample_source]) (10 :: rat))) 10 10 ''sec_edgar'' \<lparr>cached_configs = None, cache_loaded_at = 0\<rparr>
      = (Inr src, \<lparr>cached_configs = Some [sample_source], cache_loaded_at = 10\<rparr>)" by auto
  from vended_source_was_active[OF reg_start[of "\<lambda>_. [sample_source]" 1] _ _ this] g show ?thesis by auto
qed

lemma slow_source_never_starts_witness:
  "health_of sample_registry 0 (sample_source\<lparr>so_rate_limit_per_minute := 60\<rparr>)
   \<and> make_sec_edgar (sample_source\<lparr>so_rate_limit_per_minute := 60\<rparr>) None True 0 = Inl ValueError"
  using slow_source_never_starts[where c = "sample_source\<lparr>so_rate_limit_per_minute := 60\<rparr>" and G = sample_registry and clock = 0
      and agent = None and redis = True]
  by (auto simp: sample_source_def split: sum.splits)

lemma disabled_source_still_vended_witness:
  "\<exists>cfg' rows'. disable_source demo_env (Some sample_admin) ''s1'' [sample_source] = (Inr cfg', rows')
     \<and> (\<exists>src C. get_source sample_registry None 1000 1000 ''sec_edgar'' C = (Inr src, C) \<and> cached_configs C = Some [sample_source])"
proof -
  obtain cfg' rows' where d: "disable_source demo_env (Some sample_admin) (so_id sample_source) [sample_source] = (Inr cfg', rows')"
    by (simp add: disable_source_def sample_admin_role disable_source_row_def activate_source_row_def get_source_row_def get_row_def
        found_or_404_def Let_def)
  have l: "load_configs (Some [sample_source]) 0 0 \<lparr>cached_configs = None, cache_loaded_at = 0\<rparr>
      = (Inr [sample_source], \<lparr>cached_configs = Some [sample_source], cache_loaded_at = 0\<rparr>)"
    by (simp add: load_configs_def)
  have r: "rg_redis sample_registry \<longrightarrow> 75 \<le> so_rate_limit_per_minute sample_source" by (simp add: sample_source_def)
  have "\<exists>src. get_source sample_registry None 1000 1000 ''sec_edgar'' \<lparr>cached_configs = Some [sample_source], cache_loaded_at = 0\<rparr>
      = (Inr src, \<lparr>cached_configs = Some [sample_source], cache_loaded_at = 0\<rparr>)"
    using disabled_source_still_vended[OF sample_sources_wf _ _ _ r l d, of 1000 1000] by (simp add: sample_source_def)
  then obtain src where "get_source sample_registry None 1000 1000 ''sec_edgar'' \<lparr>cached_configs = Some [sample_source], cache_loaded_at = 0\<rparr>
      = (Inr src, \<lparr>cached_configs = Some [sample_source], cache_loaded_at = 0\<rparr>)" ..
  moreover have "so_id sample_source = ''s1''" by (simp add: sample_source_def)
  ultimately show ?thesis using d by (metis registry_cache.select_convs(1))
qed

end
