(* ===== verification/ExcelExport.thy ===== *)
theory ExcelExport
  imports Companies PyIso "HOL-Library.AList" "HOL-Library.List_Lexorder" "HOL-Library.Char_ord" "HOL-Library.Product_Lexorder"
begin

text \<open>
  The workbook of \<^verbatim>\<open>services/export/excel_generator.py\<close>: the order of the concepts, the export context with its pivot, the
  cover, the three statements and the audit log.  A sheet is what its calls of \<open>ws.cell(row, column, value)\<close> leave, a call
  with the value \<open>None\<close> leaving the cell as it was; fonts, fills, borders, alignment and widths are left out.  Text is UTF-8, floats are exact
  rationals.  The order in which Python enumerates a set of periods is the parameter \<open>enum\<close>.
\<close>

subsection \<open>Tables\<close>

definition IS_FIELD_ORDER :: "(string \<times> int) list" where
  "IS_FIELD_ORDER =
     [(''us-gaap:Revenues'', 100), (''us-gaap:RevenueFromContractWithCustomerExcludingAssessedTax'', 101), (''ifrs-full:Revenue'', 100),
      (''ifrs-full:RevenueFromContractsWithCustomers'', 101), (''ind-as:Revenue'', 100), (''ind-as:RevenueFromOperations'', 101),
      (''ind-as:OtherIncome'', 102), (''ind-as:TotalIncome'', 103), (''us-gaap:CostOfRevenue'', 200), (''us-gaap:CostOfGoodsSold'', 201),
      (''ifrs-full:CostOfSales'', 200), (''ind-as:CostOfMaterialsConsumed'', 200), (''ind-as:PurchasesOfStockInTrade'', 201),
      (''ind-as:ChangesInInventoriesOfFinishedGoodsWorkInProgressAndStockInTrade'', 202), (''ind-as:EmployeeBenefitsExpense'', 203),
      (''us-gaap:GrossProfit'', 300), (''ifrs-full:GrossProfit'', 300), (''us-gaap:ResearchAndDevelopmentExpense'', 400),
      (''us-gaap:SellingGeneralAndAdministrativeExpense'', 401), (''us-gaap:GeneralAndAdministrativeExpense'', 402),
      (''us-gaap:SellingExpense'', 403), (''us-gaap:MarketingExpense'', 404), (''us-gaap:DepreciationDepletionAndAmortization'', 405),
      (''us-gaap:OperatingExpenses'', 409), (''ifrs-full:DistributionCosts'', 400), (''ifrs-full:AdministrativeExpense'', 401),
      (''ifrs-full:ResearchAndDevelopmentExpense'', 402), (''ind-as:FinanceCosts'', 410), (''ind-as:DepreciationDepletionAndAmortisation'', 411),
      (''ind-as:OtherExpenses'', 412), (''ind-as:Expenses'', 419), (''us-gaap:OperatingIncomeLoss'', 500),
      (''ifrs-full:ProfitLossFromOperatingActivities'', 500), (''ind-as:ProfitBeforeExceptionalItemsAndTax'', 501),
      (''ind-as:ExceptionalItems'', 502), (''us-gaap:InterestExpense'', 600), (''us-gaap:NonoperatingIncomeExpense'', 601),
      (''ifrs-full:FinanceCosts'', 600), (''ifrs-full:FinanceIncome'', 601),
      (''us-gaap:IncomeLossFromContinuingOperationsBeforeIncomeTaxesExtraordinaryItemsNoncontrollingInterest'', 700),
      (''ifrs-full:ProfitLossBeforeTax'', 700), (''ind-as:ProfitBeforeTax'', 700), (''us-gaap:IncomeTaxExpenseBenefit'', 800),
      (''ifrs-full:IncomeTaxExpenseContinuingOperations'', 800), (''ind-as:TaxExpense'', 800), (''ind-as:CurrentTax'', 801),
      (''ind-as:DeferredTax'', 802), (''us-gaap:NetIncomeLoss'', 900), (''ifrs-full:ProfitLoss'', 900), (''ind-as:ProfitLoss'', 900),
      (''ifrs-full:ComprehensiveIncome'', 910), (''ind-as:OtherComprehensiveIncome'', 911), (''ind-as:TotalComprehensiveIncome'', 912),
      (''us-gaap:EarningsPerShareBasic'', 990), (''us-gaap:EarningsPerShareDiluted'', 991), (''ifrs-full:BasicEarningsLossPerShare'', 990),
      (''ifrs-full:DilutedEarningsLossPerShare'', 991), (''ind-as:BasicEarningsPerShare'', 990), (''ind-as:DilutedEarningsPerShare'', 991)]"

definition BS_FIELD_ORDER :: "(string \<times> int) list" where
  "BS_FIELD_ORDER =
     [(''us-gaap:Assets'', 100), (''ifrs-full:Assets'', 100), (''ind-as:Assets'', 100), (''us-gaap:AssetsCurrent'', 200),
      (''ifrs-full:CurrentAssets'', 200), (''ind-as:CurrentAssets'', 200), (''us-gaap:CashAndCashEquivalentsAtCarryingValue'', 201),
      (''ifrs-full:CashAndCashEquivalents'', 201), (''ind-as:CashAndCashEquivalents'', 201), (''us-gaap:ShortTermInvestments'', 202),
      (''us-gaap:AccountsReceivableNetCurrent'', 203), (''ifrs-full:TradeAndOtherCurrentReceivables'', 203), (''ind-as:TradeReceivables'', 203),
      (''us-gaap:InventoryNet'', 204), (''ifrs-full:Inventories'', 204), (''ind-as:Inventories'', 204), (''us-gaap:OtherAssetsCurrent'', 209),
      (''ifrs-full:OtherCurrentAssets'', 209), (''ind-as:OtherCurrentAssets'', 209), (''us-gaap:AssetsNoncurrent'', 300),
      (''ifrs-full:NoncurrentAssets'', 300), (''ind-as:NoncurrentAssets'', 300), (''us-gaap:PropertyPlantAndEquipmentNet'', 301),
      (''ifrs-full:PropertyPlantAndEquipment'', 301), (''ind-as:PropertyPlantAndEquipment'', 301), (''ind-as:CapitalWorkInProgress'', 302),
      (''ifrs-full:RightofuseAssets'', 303), (''ind-as:RightofuseAssets'', 303), (''us-gaap:Goodwill'', 304), (''ifrs-full:Goodwill'', 304),
      (''ind-as:Goodwill'', 304), (''us-gaap:IntangibleAssetsNetExcludingGoodwill'', 305),
      (''ifrs-full:IntangibleAssetsOtherThanGoodwill'', 305), (''ind-as:IntangibleAssets'', 305), (''us-gaap:DeferredIncomeTaxAssetsNet'', 309),
      (''ifrs-full:DeferredTaxAssets'', 309), (''ind-as:DeferredTaxAssets'', 309), (''us-gaap:Liabilities'', 400),
      (''ifrs-full:Liabilities'', 400), (''ind-as:Liabilities'', 400), (''us-gaap:LiabilitiesCurrent'', 500),
      (''ifrs-full:CurrentLiabilities'', 500), (''ind-as:CurrentLiabilities'', 500), (''us-gaap:AccountsPayableCurrent'', 501),
      (''ifrs-full:TradeAndOtherCurrentPayables'', 501), (''ind-as:TradePayables'', 501), (''us-gaap:ShortTermBorrowings'', 502),
      (''ifrs-full:ShorttermBorrowings'', 502), (''ind-as:CurrentBorrowings'', 502), (''us-gaap:OtherLiabilitiesCurrent'', 509),
      (''ifrs-full:OtherCurrentLiabilities'', 509), (''ind-as:OtherCurrentLiabilities'', 509), (''us-gaap:LiabilitiesNoncurrent'', 600),
      (''ifrs-full:NoncurrentLiabilities'', 600), (''ind-as:NoncurrentLiabilities'', 600), (''us-gaap:LongTermDebtNoncurrent'', 601),
      (''ifrs-full:NoncurrentPortionOfNoncurrentBorrowings'', 601), (''ind-as:NoncurrentBorrowings'', 601),
      (''us-gaap:DeferredIncomeTaxLiabilitiesNet'', 609), (''ifrs-full:DeferredTaxLiabilities'', 609), (''ind-as:DeferredTaxLiabilities'', 609),
      (''us-gaap:StockholdersEquity'', 700), (''ifrs-full:Equity'', 700), (''ind-as:Equity'', 700), (''us-gaap:CommonStockValue'', 701),
      (''ifrs-full:IssuedCapital'', 701), (''ind-as:ShareCapital'', 701), (''us-gaap:AdditionalPaidInCapital'', 702),
      (''ifrs-full:SharePremium'', 702), (''ind-as:OtherEquity'', 703), (''ind-as:ReservesAndSurplus'', 703),
      (''us-gaap:RetainedEarningsAccumulatedDeficit'', 704), (''ifrs-full:RetainedEarnings'', 704),
      (''us-gaap:AccumulatedOtherComprehensiveIncomeLossNetOfTax'', 705), (''us-gaap:TreasuryStockValue'', 706),
      (''us-gaap:LiabilitiesAndStockholdersEquity'', 800), (''ifrs-full:EquityAndLiabilities'', 800), (''ind-as:EquityAndLiabilities'', 800)]"

definition CF_FIELD_ORDER :: "(string \<times> int) list" where
  "CF_FIELD_ORDER =
     [(''us-gaap:NetCashProvidedByUsedInOperatingActivities'', 100), (''ifrs-full:CashFlowsFromUsedInOperatingActivities'', 100),
      (''ind-as:CashFlowsFromUsedInOperatingActivities'', 100), (''us-gaap:NetCashProvidedByUsedInInvestingActivities'', 200),
      (''ifrs-full:CashFlowsFromUsedInInvestingActivities'', 200), (''ind-as:CashFlowsFromUsedInInvestingActivities'', 200),
      (''us-gaap:PaymentsToAcquirePropertyPlantAndEquipment'', 201), (''ifrs-full:PurchaseOfPropertyPlantAndEquipment'', 201),
      (''ind-as:PurchaseOfPropertyPlantAndEquipment'', 201), (''us-gaap:NetCashProvidedByUsedInFinancingActivities'', 300),
      (''ifrs-full:CashFlowsFromUsedInFinancingActivities'', 300), (''ind-as:CashFlowsFromUsedInFinancingActivities'', 300),
      (''us-gaap:PaymentsOfDividends'', 301), (''ifrs-full:DividendsPaidClassifiedAsFinancingActivities'', 301), (''ind-as:DividendsPaid'', 301),
      (''us-gaap:PaymentsForRepurchaseOfCommonStock'', 302), (''us-gaap:ProceedsFromIssuanceOfLongTermDebt'', 303),
      (''us-gaap:RepaymentsOfLongTermDebt'', 304),
      (''us-gaap:CashCashEquivalentsRestrictedCashAndRestrictedCashEquivalentsPeriodIncreaseDecreaseIncludingExchangeRateEffect'', 400),
      (''ifrs-full:IncreaseDecreaseInCashAndCashEquivalents'', 400), (''ind-as:IncreaseDecreaseInCashAndCashEquivalents'', 400)]"

definition TERMINAL_TAGS :: "string set" where
  "TERMINAL_TAGS = set
     [''us-gaap:NetIncomeLoss'', ''ifrs-full:ProfitLoss'', ''ind-as:ProfitLoss'', ''ifrs-full:ComprehensiveIncome'',
      ''ind-as:TotalComprehensiveIncome'', ''us-gaap:Assets'', ''ifrs-full:Assets'', ''ind-as:Assets'',
      ''us-gaap:LiabilitiesAndStockholdersEquity'', ''ifrs-full:EquityAndLiabilities'', ''ind-as:EquityAndLiabilities'',
      ''us-gaap:CashCashEquivalentsRestrictedCashAndRestrictedCashEquivalentsPeriodIncreaseDecreaseIncludingExchangeRateEffect'',
      ''ifrs-full:IncreaseDecreaseInCashAndCashEquivalents'', ''ind-as:IncreaseDecreaseInCashAndCashEquivalents'']"

definition SUBTOTAL_TAGS :: "string set" where
  "SUBTOTAL_TAGS = set
     [''us-gaap:GrossProfit'', ''ifrs-full:GrossProfit'', ''us-gaap:OperatingIncomeLoss'', ''ifrs-full:ProfitLossFromOperatingActivities'',
      ''ind-as:ProfitBeforeExceptionalItemsAndTax'',
      ''us-gaap:IncomeLossFromContinuingOperationsBeforeIncomeTaxesExtraordinaryItemsNoncontrollingInterest'', ''ifrs-full:ProfitLossBeforeTax'',
      ''ind-as:ProfitBeforeTax'', ''us-gaap:AssetsCurrent'', ''ifrs-full:CurrentAssets'', ''ind-as:CurrentAssets'', ''us-gaap:AssetsNoncurrent'',
      ''ifrs-full:NoncurrentAssets'', ''ind-as:NoncurrentAssets'', ''us-gaap:Liabilities'', ''ifrs-full:Liabilities'', ''ind-as:Liabilities'',
      ''us-gaap:LiabilitiesCurrent'', ''ifrs-full:CurrentLiabilities'', ''ind-as:CurrentLiabilities'', ''us-gaap:LiabilitiesNoncurrent'',
      ''ifrs-full:NoncurrentLiabilities'', ''ind-as:NoncurrentLiabilities'', ''us-gaap:StockholdersEquity'', ''ifrs-full:Equity'',
      ''ind-as:Equity'', ''us-gaap:NetCashProvidedByUsedInOperatingActivities'', ''ifrs-full:CashFlowsFromUsedInOperatingActivities'',
      ''ind-as:CashFlowsFromUsedInOperatingActivities'', ''us-gaap:NetCashProvidedByUsedInInvestingActivities'',
      ''ifrs-full:CashFlowsFromUsedInInvestingActivities'', ''ind-as:CashFlowsFromUsedInInvestingActivities'',
      ''us-gaap:NetCashProvidedByUsedInFinancingActivities'', ''ifrs-full:CashFlowsFromUsedInFinancingActivities'',
      ''ind-as:CashFlowsFromUsedInFinancingActivities'']"

definition FIELD_ORDER_BY_STATEMENT :: "(string \<times> (string \<times> int) list) list" where
  "FIELD_ORDER_BY_STATEMENT = [(''IS'', IS_FIELD_ORDER), (''BS'', BS_FIELD_ORDER), (''CF'', CF_FIELD_ORDER)]"

definition ORDER_FALLBACK :: int where "ORDER_FALLBACK = 9999"

definition EXPORT_PERIOD_ORDER :: "(string \<times> int) list" where
  "EXPORT_PERIOD_ORDER = [(''Q1'', 1), (''Q2'', 2), (''Q3'', 3), (''Q4'', 4), (''H1'', 5), (''H2'', 6), (''FY'', 7)]"

type_synonym export_period = "int \<times> string"

definition export_period_key :: "export_period \<Rightarrow> int \<times> int" where
  "export_period_key p = (fst p, case map_of EXPORT_PERIOD_ORDER (str_upper (snd p)) of Some n \<Rightarrow> n | None \<Rightarrow> 99)"

definition export_period_label :: "export_period \<Rightarrow> string" where
  "export_period_label p = str_upper (snd p) @ '' '' @ show_int (fst p)"

definition EM_DASH :: string where "EM_DASH = [CHR 0xE2, CHR 0x80, CHR 0x94]"
definition EN_DASH :: string where "EN_DASH = [CHR 0xE2, CHR 0x80, CHR 0x93]"
definition MIDDLE_DOT :: string where "MIDDLE_DOT = [CHR 0xC2, CHR 0xB7]"

subsection \<open>Items and context\<close>

record export_item =
  xi_canonical_field :: string
  xi_concept_label :: string
  xi_statement_type :: string
  xi_fiscal_year :: int
  xi_fiscal_period :: string
  xi_value_reported :: "decimal option"
  xi_reported_currency :: string
  xi_value_usd :: "decimal option"
  xi_fx_rate_used :: "decimal option"
  xi_filing_date :: date
  xi_is_restated :: bool
  xi_extraction_method :: "string option"
  xi_source_file_hash :: "string option"
  xi_derived_formula :: "string option"

definition xi_period :: "export_item \<Rightarrow> export_period" where
  "xi_period i = (xi_fiscal_year i, xi_fiscal_period i)"

record export_finding =
  xf_rule_id :: string
  xf_severity :: string
  xf_message :: string
  xf_expected :: "rat option"
  xf_actual :: "rat option"
  xf_delta :: "rat option"

record export_deduction =
  xd_rule_id :: string
  xd_points :: string
  xd_reason :: string

record validation_record =
  vr_id :: uuid
  vr_job_id :: uuid
  vr_accession_number :: string
  vr_fiscal_year :: "int option"
  vr_fiscal_period :: "string option"
  vr_items_validated :: nat
  vr_is_exportable :: bool
  vr_critical_count :: nat
  vr_warning_count :: nat
  vr_confidence_score :: int
  vr_findings :: "export_finding list"
  vr_deductions :: "export_deduction list"
  vr_summary_text :: "string option"
  vr_created_at :: instant

record export_context =
  ec_job_id :: uuid
  ec_company_name :: string
  ec_company_ticker :: string
  ec_fiscal_year :: int
  ec_fiscal_period :: string
  ec_reporting_standard :: string
  ec_filing_date :: "date option"
  ec_export_timestamp :: instant
  ec_is_items :: "export_item list"
  ec_bs_items :: "export_item list"
  ec_cf_items :: "export_item list"
  ec_translation_complete :: bool
  ec_validation_data :: "validation_record option"

definition ec_all_items :: "export_context \<Rightarrow> export_item list" where
  "ec_all_items c = ec_is_items c @ ec_bs_items c @ ec_cf_items c"

definition ec_total_row_count :: "export_context \<Rightarrow> nat" where
  "ec_total_row_count c = length (ec_is_items c) + length (ec_bs_items c) + length (ec_cf_items c)"

definition is_foreign_currency :: "export_item \<Rightarrow> bool" where
  "is_foreign_currency i = (xi_reported_currency i \<noteq> [] \<and> str_upper (xi_reported_currency i) \<noteq> ''USD'')"

definition ec_currency_label :: "export_context \<Rightarrow> string" where
  "ec_currency_label c =
     (case find is_foreign_currency (ec_all_items c) of Some i \<Rightarrow> str_upper (xi_reported_currency i) | None \<Rightarrow> ''USD'')"

type_synonym period_enum = "export_period list \<Rightarrow> export_period list"

definition ec_periods :: "period_enum \<Rightarrow> export_context \<Rightarrow> export_period list" where
  "ec_periods enum c = sort_key export_period_key (enum (remdups (map xi_period (ec_all_items c))))"

definition ec_period_range_label :: "period_enum \<Rightarrow> export_context \<Rightarrow> string" where
  "ec_period_range_label enum c =
     (let ps = ec_periods enum c in
      if ps = [] then export_period_label (ec_fiscal_year c, ec_fiscal_period c)
      else if length ps = 1 then export_period_label (hd ps)
      else export_period_label (hd ps) @ '' '' @ EN_DASH @ '' '' @ export_period_label (last ps))"

subsection \<open>Labels\<close>

definition ascii_lower :: "char \<Rightarrow> bool" where
  "ascii_lower c = (let n = (of_char c :: nat) in 97 \<le> n \<and> n \<le> 122)"

definition ascii_upper :: "char \<Rightarrow> bool" where
  "ascii_upper c = (let n = (of_char c :: nat) in 65 \<le> n \<and> n \<le> 90)"

text \<open>\<^verbatim>\<open>re.sub(r"([a-z])([A-Z])", r"\1 \2", s)\<close> and \<^verbatim>\<open>re.sub(r"([A-Z]+)([A-Z][a-z])", r"\1 \2", s)\<close>.\<close>

fun space_camel :: "string \<Rightarrow> string" where
  "space_camel (a # b # s) = (if ascii_lower a \<and> ascii_upper b then a # CHR '' '' # space_camel (b # s) else a # space_camel (b # s))"
| "space_camel s = s"

fun space_acronym :: "string \<Rightarrow> string" where
  "space_acronym (a # b # c # s) =
     (if ascii_upper a \<and> ascii_upper b \<and> ascii_lower c then a # CHR '' '' # space_acronym (b # c # s) else a # space_acronym (b # c # s))"
| "space_acronym s = s"

definition label_from_canonical :: "string \<Rightarrow> string" where
  "label_from_canonical f =
     (let local = (if CHR '':'' \<in> set f then tl (dropWhile (\<lambda>c. c \<noteq> CHR '':'') f) else f);
          spaced = map (\<lambda>c. if c = CHR ''_'' then CHR '' '' else c) local
      in str_strip (space_acronym (space_camel spaced)))"

definition orm_to_export_item :: "int \<Rightarrow> financial_line_item \<Rightarrow> export_item" where
  "orm_to_export_item this_year r =
     \<lparr>xi_canonical_field = fli_canonical_field r, xi_concept_label = label_from_canonical (fli_canonical_field r),
      xi_statement_type = fli_statement_type r,
      xi_fiscal_year = (if fli_fiscal_year r = 0 then this_year else fli_fiscal_year r),
      xi_fiscal_period = str_upper (if fli_fiscal_period r = [] then ''FY'' else fli_fiscal_period r),
      xi_value_reported = fli_value_reported r,
      xi_reported_currency = str_upper (case fli_reported_currency r of Some c \<Rightarrow> if c = [] then ''USD'' else c | None \<Rightarrow> ''USD''),
      xi_value_usd = fli_value_usd r, xi_fx_rate_used = fli_fx_rate_used r, xi_filing_date = fli_filing_date r,
      xi_is_restated = fli_is_restated r, xi_extraction_method = fli_extraction_method r,
      xi_source_file_hash = fli_source_file_hash r, xi_derived_formula = fli_derived_expression_formula r\<rparr>"

subsection \<open>Sheets\<close>

text \<open>
  A number, a time stamp shown to the second, an amount of dollars shown in millions with one decimal before
  some text, a figure shown with separators; a missing amount or figure shows as a dash.
\<close>

datatype cell_value =
    Text string
  | Number rat
  | Whole int
  | Stamp instant
  | UsdMillions "rat option" string
  | Figure "rat option"

type_synonym cell_write = "(nat \<times> nat) \<times> cell_value option"

type_synonym sheet = "nat \<times> nat \<rightharpoonup> cell_value"

definition put_cell :: "cell_write \<Rightarrow> sheet \<Rightarrow> sheet" where
  "put_cell w s = (case snd w of None \<Rightarrow> s | Some v \<Rightarrow> s(fst w \<mapsto> v))"

definition sheet_of :: "cell_write list \<Rightarrow> sheet" where
  "sheet_of ws = fold put_cell ws Map.empty"

definition number_cell :: "decimal option \<Rightarrow> cell_value option" where
  "number_cell v = map_option (\<lambda>d. Number (dval d)) v"

definition text_at :: "nat \<Rightarrow> nat \<Rightarrow> string \<Rightarrow> cell_write" where
  "text_at row col s = ((row, col), Some (Text s))"

definition COL_CONCEPT_LABEL :: nat where "COL_CONCEPT_LABEL = 1"
definition COL_CANONICAL_TAG :: nat where "COL_CANONICAL_TAG = 2"
definition COL_DATA_START :: nat where "COL_DATA_START = 3"
definition COLS_PER_PERIOD :: nat where "COLS_PER_PERIOD = 4"

definition PERIOD_COL_SUBHEADERS :: "string list" where
  "PERIOD_COL_SUBHEADERS = [''Value (Reported)'', ''CCY'', ''Value (USD)'', ''FX Rate'']"

subsection \<open>The pivot\<close>

text \<open>Dictionaries keep the order in which their keys were first set.\<close>

type_synonym pivot = "(string \<times> (export_period \<times> export_item) list) list"

definition pivot_step :: "export_item \<Rightarrow> pivot \<Rightarrow> pivot" where
  "pivot_step i p =
     AList.update (xi_canonical_field i)
       (AList.update (xi_period i) i (case map_of p (xi_canonical_field i) of None \<Rightarrow> [] | Some q \<Rightarrow> q)) p"

definition order_map :: "string \<Rightarrow> string \<Rightarrow> int" where
  "order_map statement tag =
     (case map_of FIELD_ORDER_BY_STATEMENT statement of
        None \<Rightarrow> ORDER_FALLBACK
      | Some m \<Rightarrow> (case map_of m tag of Some n \<Rightarrow> n | None \<Rightarrow> ORDER_FALLBACK))"

definition build_pivot :: "period_enum \<Rightarrow> export_item list \<Rightarrow> string \<Rightarrow> string list \<times> export_period list \<times> pivot" where
  "build_pivot enum items statement =
     (let p = fold pivot_step items [] in
      (sort_key (\<lambda>tag. (order_map statement tag, tag)) (map fst p),
       sort_key export_period_key (enum (remdups (map xi_period items))), p))"

definition pivot_item :: "pivot \<Rightarrow> string \<Rightarrow> export_period \<Rightarrow> export_item option" where
  "pivot_item p tag k = (case map_of p tag of None \<Rightarrow> None | Some q \<Rightarrow> map_of q k)"

subsection \<open>Statement sheets\<close>

definition display_name :: "string \<Rightarrow> string" where
  "display_name st = (if st = ''IS'' then ''Income Statement'' else if st = ''BS'' then ''Balance Sheet''
     else if st = ''CF'' then ''Cash Flow Statement'' else st)"

definition rate_note :: "string \<Rightarrow> string" where
  "rate_note st =
     (if st = ''IS'' \<or> st = ''CF'' then ''FX rate: weighted average over fiscal period (Amendment V1.2 '' @ [CHR 0xC2, CHR 0xA7] @ ''3 Pass 2)''
      else if st = ''BS'' then ''FX rate: spot rate on period end date (Amendment V1.2 '' @ [CHR 0xC2, CHR 0xA7] @ ''3 Pass 1)''
      else '''')"

definition group_start :: "nat \<Rightarrow> nat" where
  "group_start j = COL_DATA_START + j * COLS_PER_PERIOD"

definition header_writes :: "period_enum \<Rightarrow> export_context \<Rightarrow> string \<Rightarrow> export_period list \<Rightarrow> cell_write list" where
  "header_writes enum c st periods =
     [text_at 1 1 (display_name st @ '' '' @ EM_DASH @ '' '' @ ec_company_name c @ '' ('' @ ec_company_ticker c @ '') '' @ EM_DASH @ '' ''
        @ ec_period_range_label enum c @ '' '' @ EM_DASH @ '' '' @ ec_reporting_standard c),
      text_at 2 1 (''Reported in '' @ ec_currency_label c @ '' | Translated to USD | '' @ rate_note st),
      text_at 4 COL_CONCEPT_LABEL ''Concept Label'', text_at 4 COL_CANONICAL_TAG ''Canonical Tag'']
     @ map (\<lambda>(j, p). text_at 4 (group_start j) (export_period_label p)) (enumerate 0 periods)
     @ concat (map (\<lambda>j. map (\<lambda>(off, h). text_at 5 (group_start j + off) h) (enumerate 0 PERIOD_COL_SUBHEADERS)) [0..<length periods])"

definition item_cells :: "export_item option \<Rightarrow> cell_value option list" where
  "item_cells item =
     [Option.bind item (\<lambda>i. number_cell (xi_value_reported i)), map_option (\<lambda>i. Text (xi_reported_currency i)) item,
      Option.bind item (\<lambda>i. number_cell (xi_value_usd i)), Option.bind item (\<lambda>i. number_cell (xi_fx_rate_used i))]"

definition item_writes :: "nat \<Rightarrow> nat \<Rightarrow> export_item option \<Rightarrow> cell_write list" where
  "item_writes row col item = map (\<lambda>(off, v). ((row, col + off), v)) (enumerate 0 (item_cells item))"

text \<open>The label is that of the first item of the row; a row of the pivot is never empty.\<close>

definition row_label :: "pivot \<Rightarrow> string \<Rightarrow> string" where
  "row_label p tag = (case map_of p tag of Some (x # _) \<Rightarrow> xi_concept_label (snd x) | _ \<Rightarrow> [])"

definition row_writes :: "pivot \<Rightarrow> export_period list \<Rightarrow> nat \<Rightarrow> string \<Rightarrow> cell_write list" where
  "row_writes p periods row tag =
     [text_at row COL_CONCEPT_LABEL (row_label p tag), text_at row COL_CANONICAL_TAG tag]
     @ concat (map (\<lambda>(j, k). item_writes row (group_start j) (pivot_item p tag k)) (enumerate 0 periods))"

definition write_statement_sheet :: "period_enum \<Rightarrow> export_item list \<Rightarrow> export_context \<Rightarrow> string \<Rightarrow> sheet" where
  "write_statement_sheet enum items c st =
     (if items = [] then sheet_of [text_at 1 1 (''[No data available for '' @ display_name st @ '']'')]
      else (case build_pivot enum items st of (tags, periods, p) \<Rightarrow>
        sheet_of (header_writes enum c st periods
          @ concat (map (\<lambda>(n, tag). row_writes p periods (6 + n) tag) (enumerate 0 tags)))))"

text \<open>How a data row is set off: tags of totals, tags of subtotals, and rows of even and odd number.\<close>

datatype row_kind = TerminalRow | SubtotalRow | EvenRow | OddRow

definition row_kind_of :: "nat \<Rightarrow> string \<Rightarrow> row_kind" where
  "row_kind_of row tag =
     (if tag \<in> TERMINAL_TAGS then TerminalRow else if tag \<in> SUBTOTAL_TAGS then SubtotalRow
      else if even row then EvenRow else OddRow)"

subsection \<open>Cover and audit log\<close>

definition write_cover_sheet :: "period_enum \<Rightarrow> export_context \<Rightarrow> sheet" where
  "write_cover_sheet enum c =
     (let range = ec_period_range_label enum c;
          line = (\<lambda>row label v. [text_at row 1 label, ((row, 2), Some v)])
      in sheet_of (
        [text_at 2 1 (''Financial Data Hub '' @ EM_DASH @ '' '' @ ec_company_name c @ '' ('' @ ec_company_ticker c @ '') '' @ EM_DASH @ '' '' @ range)]
        @ line 4 ''Company'' (Text (ec_company_name c @ '' ('' @ ec_company_ticker c @ '')''))
        @ line 5 ''Primary Fiscal Year'' (Whole (ec_fiscal_year c))
        @ line 6 ''Primary Fiscal Period'' (Text (ec_fiscal_period c))
        @ line 7 ''Periods Covered'' (Text range)
        @ line 8 ''Reporting Standard'' (Text (ec_reporting_standard c))
        @ line 9 ''Reported Currency'' (Text (ec_currency_label c))
        @ line 10 ''Translated Currency'' (Text ''USD'')
        @ line 11 ''Filing Date'' (Text (case ec_filing_date c of Some d \<Rightarrow> date_isoformat d | None \<Rightarrow> ''N/A''))
        @ line 12 ''Export Timestamp'' (Stamp (ec_export_timestamp c))
        @ line 13 ''Translation Complete''
            (Text (if ec_translation_complete c then ''Yes''
                   else if ec_currency_label c = ''USD'' then ''N/A '' @ EM_DASH @ '' all USD'' else ''No (FX data gap)''))
        @ line 15 ''Total Line Items'' (Whole (int (ec_total_row_count c)))
        @ line 16 ''Income Statement'' (Text (show_int (int (length (ec_is_items c))) @ '' rows''))
        @ line 17 ''Balance Sheet'' (Text (show_int (int (length (ec_bs_items c))) @ '' rows''))
        @ line 18 ''Cash Flow'' (Text (show_int (int (length (ec_cf_items c))) @ '' rows''))
        @ [text_at 20 1 (''Data Quality Notice: AI-extracted cells carry Amendment V1.2 '' @ [CHR 0xC2, CHR 0xA7]
             @ ''6.2 lineage comments showing source page and confidence percentage.'')]))"

definition AUDIT_HEADERS :: "string list" where
  "AUDIT_HEADERS = [''Concept Label'', ''Statement Type'', ''Canonical Field'', ''Value (Reported)'', ''Reported Currency'', ''Value (USD)'',
     ''FX Rate Used'', ''Extraction Method'', ''Source File Hash'', ''Filing Date'', ''Derived Formula'', ''Fiscal Year'', ''Fiscal Period'',
     ''Reporting Standard'', ''Export Timestamp'']"

definition audit_cells :: "export_context \<Rightarrow> export_item \<Rightarrow> cell_value option list" where
  "audit_cells c i =
     (let opt = (\<lambda>v. Some (Text (case v of Some x \<Rightarrow> x | None \<Rightarrow> []))) in
      [Some (Text (xi_concept_label i)), Some (Text (xi_statement_type i)), Some (Text (xi_canonical_field i)),
       number_cell (xi_value_reported i), Some (Text (xi_reported_currency i)), number_cell (xi_value_usd i), number_cell (xi_fx_rate_used i),
       opt (xi_extraction_method i), opt (xi_source_file_hash i), Some (Text (date_isoformat (xi_filing_date i))), opt (xi_derived_formula i),
       Some (Whole (xi_fiscal_year i)), Some (Text (xi_fiscal_period i)), Some (Text (ec_reporting_standard c)),
       Some (Stamp (ec_export_timestamp c))])"

definition row_of_cells :: "nat \<Rightarrow> cell_value option list \<Rightarrow> cell_write list" where
  "row_of_cells row vs = map (\<lambda>(col, v). ((row, col), v)) (enumerate 1 vs)"

definition write_audit_log_sheet :: "export_context \<Rightarrow> sheet" where
  "write_audit_log_sheet c =
     sheet_of (row_of_cells 1 (map (\<lambda>h. Some (Text h)) AUDIT_HEADERS)
       @ concat (map (\<lambda>(row, i). row_of_cells row (audit_cells c i)) (enumerate 2 (ec_all_items c))))"


subsection \<open>What a sheet shows\<close>

lemma sheet_of_Nil [simp]: "sheet_of [] = Map.empty"
  by (simp add: sheet_of_def)

lemma sheet_of_snoc: "sheet_of (ws @ [w]) = put_cell w (sheet_of ws)"
  by (simp add: sheet_of_def)

text \<open>A cell to which only one value is written shows it.\<close>

lemma sheet_of_snoc_at:
  "sheet_of (ws @ [(p, x)]) pos = (if p = pos \<and> x \<noteq> None then x else sheet_of ws pos)"
  by (cases x) (simp_all add: sheet_of_snoc put_cell_def)

lemma sheet_of_unwritten: "(\<And>v. (pos, v) \<notin> set ws) \<Longrightarrow> sheet_of ws pos = None"
proof (induction ws rule: rev_induct)
  case (snoc w ws)
  obtain p x where w: "w = (p, x)" by fastforce
  with snoc.prems[of x] have "p \<noteq> pos" by auto
  moreover have "sheet_of ws pos = None" using snoc.prems by (intro snoc.IH) simp
  ultimately show ?case by (simp add: w sheet_of_snoc_at)
qed simp

lemma sheet_of_unique:
  assumes "(pos, v) \<in> set ws" and "\<And>v'. (pos, v') \<in> set ws \<Longrightarrow> v' = v"
  shows "sheet_of ws pos = v"
  using assms
proof (induction ws rule: rev_induct)
  case (snoc w ws)
  obtain p x where w: "w = (p, x)" by fastforce
  have rest: "sheet_of ws pos = v" if "(pos, v) \<in> set ws"
    using that snoc.prems(2) by (intro snoc.IH) simp_all
  have none: "sheet_of ws pos = None" if "(pos, v) \<notin> set ws"
    using that snoc.prems(2) by (intro sheet_of_unwritten) (metis UnI1 set_append)
  show ?case
  proof (cases "p = pos")
    case True
    with snoc.prems(2)[of x] w have "x = v" by simp
    with True rest none show ?thesis by (cases "(pos, v) \<in> set ws") (auto simp: w sheet_of_snoc_at)
  next
    case False
    with snoc.prems(1) w have "(pos, v) \<in> set ws" by auto
    with False rest show ?thesis by (simp add: w sheet_of_snoc_at)
  qed
qed simp

lemma in_enumerate: "(i, x) \<in> set (enumerate n xs) \<longleftrightarrow> n \<le> i \<and> i < length xs + n \<and> xs ! (i - n) = x"
  by (simp add: in_set_enumerate_eq)

text \<open>Cells of \<open>row_of_cells\<close>.\<close>

lemma row_of_cells_iff: "((r, c), v) \<in> set (row_of_cells row vs) \<longleftrightarrow> r = row \<and> 1 \<le> c \<and> c \<le> length vs \<and> v = vs ! (c - 1)"
proof -
  have "((r, c), v) \<in> set (row_of_cells row vs) \<longleftrightarrow> r = row \<and> (c, v) \<in> set (enumerate 1 vs)"
    by (auto simp: row_of_cells_def)
  then show ?thesis by (auto simp: in_enumerate)
qed

subsection \<open>What the pivot holds\<close>

definition last_item :: "export_item list \<Rightarrow> string \<Rightarrow> export_period \<Rightarrow> export_item option" where
  "last_item items tag k =
     (let xs = filter (\<lambda>i. xi_canonical_field i = tag \<and> xi_period i = k) items in if xs = [] then None else Some (last xs))"

lemma last_item_snoc:
  "last_item (items @ [i]) tag k = (if xi_canonical_field i = tag \<and> xi_period i = k then Some i else last_item items tag k)"
  by (simp add: last_item_def)

lemma pivot_item_step:
  "pivot_item (pivot_step i p) tag k = (if xi_canonical_field i = tag \<and> xi_period i = k then Some i else pivot_item p tag k)"
  by (auto simp: pivot_item_def pivot_step_def update_conv' split: option.splits)

lemma pivot_holds_last: "pivot_item (fold pivot_step items []) tag k = last_item items tag k"
proof (induction items rule: rev_induct)
  case (snoc i items)
  then show ?case by (simp add: pivot_item_step last_item_snoc)
qed (simp add: pivot_item_def last_item_def)

lemma pivot_keys:
  "distinct (map fst (fold pivot_step items [])) \<and> set (map fst (fold pivot_step items [])) = xi_canonical_field ` set items"
proof (induction items rule: rev_induct)
  case (snoc i items)
  have "distinct (map fst (pivot_step i p))" if "distinct (map fst p)" for p :: pivot
    using that by (simp add: pivot_step_def distinct_update)
  moreover have "set (map fst (pivot_step i p)) = insert (xi_canonical_field i) (set (map fst p))" for p :: pivot
    by (simp add: pivot_step_def dom_update)
  ultimately show ?case using snoc by simp
qed simp

lemma mset_enum_set: "mset (enum xs) = mset xs \<Longrightarrow> set (enum xs) = set xs"
  by (rule mset_eq_setD)

lemma built_pivot:
  assumes "build_pivot enum items st = (tags, periods, p)" and "\<And>ks. mset (enum ks) = mset ks"
  shows "p = fold pivot_step items []" "distinct tags" "set tags = xi_canonical_field ` set items"
    "distinct periods" "set periods = xi_period ` set items"
    "sorted (map (\<lambda>tag. (order_map st tag, tag)) tags)" "sorted (map export_period_key periods)"
proof -
  have d: "tags = sort_key (\<lambda>tag. (order_map st tag, tag)) (map fst (fold pivot_step items []))"
    "periods = sort_key export_period_key (enum (remdups (map xi_period items)))" "p = fold pivot_step items []"
    using assms(1) by (auto simp: build_pivot_def Let_def)
  then show "p = fold pivot_step items []" "sorted (map (\<lambda>tag. (order_map st tag, tag)) tags)" "sorted (map export_period_key periods)"
    by (simp_all del: set_map)
  show "distinct tags" "set tags = xi_canonical_field ` set items" using pivot_keys[of items] d(1) by auto
  have "mset periods = mset (remdups (map xi_period items))" using assms(2) d(2) by simp
  then show "distinct periods" "set periods = xi_period ` set items"
    by (metis distinct_remdups mset_eq_imp_distinct_iff) (metis \<open>mset periods = _\<close> mset_eq_setD set_remdups set_map)
qed


lemma item_writes_iff:
  "((r, c), v) \<in> set (item_writes row col item) \<longleftrightarrow> r = row \<and> (\<exists>off < 4. c = col + off \<and> v = item_cells item ! off)"
proof -
  have "((r, c), v) \<in> set (item_writes row col item) \<longleftrightarrow> r = row \<and> (\<exists>off. c = col + off \<and> (off, v) \<in> set (enumerate 0 (item_cells item)))"
    by (auto simp: item_writes_def)
  moreover have "length (item_cells item) = 4" by (simp add: item_cells_def)
  ultimately show ?thesis by (auto simp: in_enumerate)
qed

lemma row_writes_iff:
  "((r, c), v) \<in> set (row_writes p periods row tag) \<longleftrightarrow> r = row \<and>
     ((c = 1 \<and> v = Some (Text (row_label p tag))) \<or> (c = 2 \<and> v = Some (Text tag))
      \<or> (\<exists>j < length periods. \<exists>off < 4. c = 3 + j * 4 + off \<and> v = item_cells (pivot_item p tag (periods ! j)) ! off))"
proof -
  have "((r, c), v) \<in> set (concat (map (\<lambda>(j, k). item_writes row (group_start j) (pivot_item p tag k)) (enumerate 0 periods)))
      \<longleftrightarrow> (\<exists>j k. (j, k) \<in> set (enumerate 0 periods) \<and> ((r, c), v) \<in> set (item_writes row (group_start j) (pivot_item p tag k)))"
    by auto
  also have "\<dots> \<longleftrightarrow> r = row \<and> (\<exists>j < length periods. \<exists>off < 4. c = 3 + j * 4 + off \<and> v = item_cells (pivot_item p tag (periods ! j)) ! off)"
    by (auto simp: in_enumerate item_writes_iff group_start_def COL_DATA_START_def COLS_PER_PERIOD_def)
  finally show ?thesis
    unfolding row_writes_def set_append Un_iff by (auto simp: text_at_def COL_CONCEPT_LABEL_def COL_CANONICAL_TAG_def)
qed

lemma data_writes_iff:
  "((r, c), v) \<in> set (concat (map (\<lambda>(n, tag). row_writes p periods (6 + n) tag) (enumerate 0 tags)))
     \<longleftrightarrow> (\<exists>n < length tags. r = 6 + n \<and> ((r, c), v) \<in> set (row_writes p periods (6 + n) (tags ! n)))"
proof -
  have "((r, c), v) \<in> set (concat (map (\<lambda>(n, tag). row_writes p periods (6 + n) tag) (enumerate 0 tags)))
      \<longleftrightarrow> (\<exists>n tag. (n, tag) \<in> set (enumerate 0 tags) \<and> ((r, c), v) \<in> set (row_writes p periods (6 + n) tag))"
    by auto
  then show ?thesis by (auto simp: in_enumerate row_writes_iff)
qed

lemma header_rows: "((r, c), v) \<in> set (header_writes enum ctx st periods) \<Longrightarrow> r \<le> 5"
  by (auto simp: header_writes_def text_at_def PERIOD_COL_SUBHEADERS_def)

lemma header_period:
  assumes "j < length periods"
  shows "((4, 3 + 4 * j), Some (Text (export_period_label (periods ! j)))) \<in> set (header_writes enum ctx st periods)"
    and "((4, 3 + 4 * j), v) \<in> set (header_writes enum ctx st periods) \<Longrightarrow> v = Some (Text (export_period_label (periods ! j)))"
proof -
  have m: "((4, c), v) \<in> set (header_writes enum ctx st periods) \<longleftrightarrow>
      (c = 1 \<and> v = Some (Text ''Concept Label'')) \<or> (c = 2 \<and> v = Some (Text ''Canonical Tag''))
      \<or> (\<exists>j < length periods. c = 3 + j * 4 \<and> v = Some (Text (export_period_label (periods ! j))))" for c v
  proof -
    have "((4, c), v) \<in> set (map (\<lambda>(j, p). text_at 4 (group_start j) (export_period_label p)) (enumerate 0 periods))
        \<longleftrightarrow> (\<exists>j p. (j, p) \<in> set (enumerate 0 periods) \<and> c = group_start j \<and> v = Some (Text (export_period_label p)))"
      by (auto simp: text_at_def)
    moreover have "((4, c), v) \<notin> set (concat (map (\<lambda>j. map (\<lambda>(off, h). text_at 5 (group_start j + off) h) (enumerate 0 PERIOD_COL_SUBHEADERS)) [0..<length periods]))"
      by (auto simp: text_at_def)
    ultimately show ?thesis
      unfolding header_writes_def set_append Un_iff
      by (auto simp: text_at_def in_enumerate group_start_def COL_DATA_START_def COLS_PER_PERIOD_def COL_CONCEPT_LABEL_def COL_CANONICAL_TAG_def)
  qed
  show "((4, 3 + 4 * j), Some (Text (export_period_label (periods ! j)))) \<in> set (header_writes enum ctx st periods)"
    using assms m by auto
  show "((4, 3 + 4 * j), v) \<in> set (header_writes enum ctx st periods) \<Longrightarrow> v = Some (Text (export_period_label (periods ! j)))"
    using m by auto
qed

lemma statement_sheet_cells:
  assumes "build_pivot enum items st = (tags, periods, p)" and "items \<noteq> []" and "n < length tags"
  shows "write_statement_sheet enum items ctx st (6 + n, 2) = Some (Text (tags ! n))"
    and "j < length periods \<Longrightarrow> off < 4 \<Longrightarrow>
      write_statement_sheet enum items ctx st (6 + n, 3 + 4 * j + off) = item_cells (pivot_item p (tags ! n) (periods ! j)) ! off"
    and "j < length periods \<Longrightarrow> write_statement_sheet enum items ctx st (4, 3 + 4 * j) = Some (Text (export_period_label (periods ! j)))"
proof -
  let ?ws = "header_writes enum ctx st periods @ concat (map (\<lambda>(n, tag). row_writes p periods (6 + n) tag) (enumerate 0 tags))"
  have s: "write_statement_sheet enum items ctx st = sheet_of ?ws" using assms(1,2) by (simp add: write_statement_sheet_def)
  have d: "((6 + n, c), v) \<in> set ?ws \<longleftrightarrow> ((6 + n, c), v) \<in> set (row_writes p periods (6 + n) (tags ! n))" for c v
    unfolding set_append Un_iff data_writes_iff using header_rows[of "6 + n" c v] assms(3) by (auto simp: row_writes_iff)
  have h: "((4, c), v) \<in> set ?ws \<longleftrightarrow> ((4, c), v) \<in> set (header_writes enum ctx st periods)" for c v
    unfolding set_append Un_iff data_writes_iff by auto
  show "write_statement_sheet enum items ctx st (6 + n, 2) = Some (Text (tags ! n))"
    unfolding s by (rule sheet_of_unique) (auto simp only: d row_writes_iff)
  show "write_statement_sheet enum items ctx st (6 + n, 3 + 4 * j + off) = item_cells (pivot_item p (tags ! n) (periods ! j)) ! off"
    if o: "j < length periods" "off < 4"
    unfolding s
  proof (rule sheet_of_unique)
    show "((6 + n, 3 + 4 * j + off), item_cells (pivot_item p (tags ! n) (periods ! j)) ! off) \<in> set ?ws"
      unfolding d row_writes_iff using o by (auto simp: mult.commute)
    fix v assume "((6 + n, 3 + 4 * j + off), v) \<in> set ?ws"
    then obtain j' off' where e: "off' < 4" "3 + 4 * j + off = 3 + j' * 4 + off'" and v: "v = item_cells (pivot_item p (tags ! n) (periods ! j')) ! off'"
      unfolding d row_writes_iff by auto
    from e o(2) have "j' = j" by linarith
    with e have "off' = off" by simp
    with v \<open>j' = j\<close> show "v = item_cells (pivot_item p (tags ! n) (periods ! j)) ! off" by simp
  qed
  show "j < length periods \<Longrightarrow> write_statement_sheet enum items ctx st (4, 3 + 4 * j) = Some (Text (export_period_label (periods ! j)))"
    unfolding s by (rule sheet_of_unique) (auto simp only: h header_period)
qed


text \<open>
  C19: what a statement sheet shows.  Its rows, from the sixth on, are the distinct concepts of the items in the order of
  the statement, its groups of four columns, from the third on, their distinct periods in order; the cells of a concept and a period hold the
  value, currency, dollar value and rate of the \<^emph>\<open>last\<close> item with that concept and period, and are blank when there is none.  So
  every concept and period has its place, and of several current figures for one place only the last loaded shows.
\<close>

lemma statement_sheet_shows_last_items:
  assumes "items \<noteq> []" and "\<And>ks. mset (enum ks) = mset ks" and "build_pivot enum items st = (tags, periods, p)"
  shows "(\<forall>n < length tags. write_statement_sheet enum items ctx st (6 + n, 2) = Some (Text (tags ! n))
       \<and> (\<forall>j < length periods. \<forall>off < 4. write_statement_sheet enum items ctx st (6 + n, 3 + 4 * j + off)
             = item_cells (last_item items (tags ! n) (periods ! j)) ! off))
     \<and> (\<forall>j < length periods. write_statement_sheet enum items ctx st (4, 3 + 4 * j) = Some (Text (export_period_label (periods ! j))))
     \<and> distinct tags \<and> set tags = xi_canonical_field ` set items \<and> sorted (map (\<lambda>tag. (order_map st tag, tag)) tags)
     \<and> distinct periods \<and> set periods = xi_period ` set items \<and> sorted (map export_period_key periods)"
proof -
  note b = built_pivot[OF assms(3,2)]
  have "0 < length tags" using b(3) assms(1) by auto
  from statement_sheet_cells(3)[OF assms(3,1) this]
  have "\<forall>j < length periods. write_statement_sheet enum items ctx st (4, 3 + 4 * j) = Some (Text (export_period_label (periods ! j)))"
    by blast
  then show ?thesis
    using b statement_sheet_cells(1,2)[OF assms(3,1)] pivot_holds_last[of items] by (auto simp: b(1))
qed

text \<open>
  The audit log has a row for every item of the export, shadowed ones included, in the order of the statements: row \<open>n + 2\<close>
  shows concept, statement, field, value, currency, dollar value and rate of item \<open>n\<close>, and no row follows the last item's.
\<close>

lemma audit_log_lists_every_item:
  "(\<forall>n < length (ec_all_items c). \<forall>col. write_audit_log_sheet c (n + 2, col)
      = (if 1 \<le> col \<and> col \<le> 15 then audit_cells c (ec_all_items c ! n) ! (col - 1) else None))
   \<and> (\<forall>row > length (ec_all_items c) + 1. \<forall>col. write_audit_log_sheet c (row, col) = None)"
proof -
  let ?ws = "row_of_cells 1 (map (\<lambda>h. Some (Text h)) AUDIT_HEADERS)
       @ concat (map (\<lambda>(row, i). row_of_cells row (audit_cells c i)) (enumerate 2 (ec_all_items c)))"
  have len: "length (audit_cells c i) = 15" for i by (simp add: audit_cells_def Let_def)
  have "((r, col), v) \<in> set (concat (map (\<lambda>(row, i). row_of_cells row (audit_cells c i)) (enumerate 2 (ec_all_items c))))
      \<longleftrightarrow> (\<exists>row i. (row, i) \<in> set (enumerate 2 (ec_all_items c)) \<and> ((r, col), v) \<in> set (row_of_cells row (audit_cells c i)))" for r col v
    by auto
  then have m: "((r, col), v) \<in> set ?ws \<longleftrightarrow> (2 \<le> r \<and> r < length (ec_all_items c) + 2 \<and> 1 \<le> col \<and> col \<le> 15
      \<and> v = audit_cells c (ec_all_items c ! (r - 2)) ! (col - 1))" if "2 \<le> r" for r col v
    unfolding set_append Un_iff using that by (auto simp: row_of_cells_iff in_enumerate len)
  have "sheet_of ?ws (n + 2, col) = (if 1 \<le> col \<and> col \<le> 15 then audit_cells c (ec_all_items c ! n) ! (col - 1) else None)"
    if "n < length (ec_all_items c)" for n col
  proof (cases "1 \<le> col \<and> col \<le> 15")
    case True
    then have "sheet_of ?ws (n + 2, col) = audit_cells c (ec_all_items c ! n) ! (col - 1)"
      using that m[of "n + 2" col] by (intro sheet_of_unique) simp_all
    with True show ?thesis by simp
  next
    case False
    then have "sheet_of ?ws (n + 2, col) = None" using m[of "n + 2" col] by (intro sheet_of_unwritten) auto
    with False show ?thesis by (simp only: if_False)
  qed
  moreover have "sheet_of ?ws (row, col) = None" if "length (ec_all_items c) + 1 < row" for row col
    using that m[of row col] by (intro sheet_of_unwritten) auto
  ultimately show ?thesis unfolding write_audit_log_sheet_def by blast
qed


subsection \<open>Instances\<close>

definition sample_export_item :: "decimal \<Rightarrow> export_item" where
  "sample_export_item v = \<lparr>xi_canonical_field = ''us-gaap:Assets'', xi_concept_label = ''Assets'', xi_statement_type = ''BS'', xi_fiscal_year = 2023,
     xi_fiscal_period = ''FY'', xi_value_reported = Some v, xi_reported_currency = ''USD'', xi_value_usd = Some v, xi_fx_rate_used = None,
     xi_filing_date = 738000, xi_is_restated = False, xi_extraction_method = None, xi_source_file_hash = None, xi_derived_formula = None\<rparr>"

definition sample_export_context :: "export_item list \<Rightarrow> export_context" where
  "sample_export_context items = \<lparr>ec_job_id = ''j'', ec_company_name = ''Acme'', ec_company_ticker = ''ACM'', ec_fiscal_year = 2023,
     ec_fiscal_period = ''FY'', ec_reporting_standard = ''US_GAAP'', ec_filing_date = None, ec_export_timestamp = 0, ec_is_items = [],
     ec_bs_items = items, ec_cf_items = [], ec_translation_complete = True, ec_validation_data = None\<rparr>"

lemma label_examples:
  "label_from_canonical ''us-gaap:NetIncomeLoss'' = ''Net Income Loss''" "label_from_canonical ''GAAPRevenue_total'' = ''GAAP Revenue total''"
  by code_simp+

text \<open>Two current figures of one place: the first loaded is not on the sheet.\<close>

lemma statement_sheet_shows_last_items_witness:
  "write_statement_sheet (\<lambda>ks. ks) [sample_export_item (Dec 1 0), sample_export_item (Dec 2 0)]
     (sample_export_context [sample_export_item (Dec 1 0), sample_export_item (Dec 2 0)]) ''BS'' (6, 3) = Some (Number 2)"
proof -
  let ?items = "[sample_export_item (Dec 1 0), sample_export_item (Dec 2 0)]"
  let ?p = "[(''us-gaap:Assets'', [((2023, ''FY''), sample_export_item (Dec 2 0))])]"
  have "fold pivot_step ?items [] = ?p" by (simp add: pivot_step_def sample_export_item_def xi_period_def)
  then have b: "build_pivot (\<lambda>ks. ks) ?items ''BS'' = ([''us-gaap:Assets''], [(2023, ''FY'')], ?p)"
    unfolding build_pivot_def by (simp add: sample_export_item_def xi_period_def)
  have "item_cells (last_item ?items ''us-gaap:Assets'' (2023, ''FY'')) ! 0 = Some (Number 2)"
    by (simp add: last_item_def sample_export_item_def xi_period_def item_cells_def number_cell_def dval_def)
  moreover have "?items \<noteq> []" by simp
  ultimately show ?thesis
    using statement_sheet_shows_last_items[OF _ refl b, of "sample_export_context ?items"] by fastforce
qed

end
