(* ===== verification/ExportSheets.thy ===== *)
theory ExportSheets
  imports ExcelExport
begin

text \<open>
  The further sheets of the workbook, \<^verbatim>\<open>services/export/sheets/\<close>: ratios, segments, the executive summary and the validation report.  The
  order in which Python enumerates a set of tags is the parameter \<open>tags\<close> of their functions.  Sheets whose
  rows follow each other are lists of rows.
\<close>

subsection \<open>Ratios\<close>

definition REVENUE_TAGS :: "string list" where
  "REVENUE_TAGS =
     [''us-gaap:Revenues'', ''us-gaap:RevenueFromContractWithCustomerExcludingAssessedTax'', ''ifrs-full:Revenue'',
      ''ifrs-full:RevenueFromContractsWithCustomers'', ''ind-as:Revenue'', ''ind-as:RevenueFromOperations'', ''ind-as:TotalIncome'']"

definition GROSS_PROFIT_TAGS :: "string list" where
  "GROSS_PROFIT_TAGS =
     [''us-gaap:GrossProfit'', ''ifrs-full:GrossProfit'', ''ind-as:GrossProfit'']"

definition OPERATING_INCOME_TAGS :: "string list" where
  "OPERATING_INCOME_TAGS =
     [''us-gaap:OperatingIncomeLoss'', ''ifrs-full:ProfitLossFromOperatingActivities'', ''ind-as:ProfitBeforeExceptionalItemsAndTax'',
      ''ind-as:ProfitFromOperations'']"

definition NET_INCOME_TAGS :: "string list" where
  "NET_INCOME_TAGS =
     [''us-gaap:NetIncomeLoss'', ''ifrs-full:ProfitLoss'', ''ind-as:ProfitLoss'', ''ind-as:ProfitForYear'']"

definition CURRENT_ASSETS_TAGS :: "string list" where
  "CURRENT_ASSETS_TAGS =
     [''us-gaap:AssetsCurrent'', ''ifrs-full:CurrentAssets'', ''ind-as:CurrentAssets'']"

definition CURRENT_LIABILITIES_TAGS :: "string list" where
  "CURRENT_LIABILITIES_TAGS =
     [''us-gaap:LiabilitiesCurrent'', ''ifrs-full:CurrentLiabilities'', ''ind-as:CurrentLiabilities'']"

definition TOTAL_ASSETS_TAGS :: "string list" where
  "TOTAL_ASSETS_TAGS =
     [''us-gaap:Assets'', ''ifrs-full:Assets'', ''ind-as:Assets'', ''ind-as:TotalAssets'']"

definition NONCURRENT_LIABILITIES_TAGS :: "string list" where
  "NONCURRENT_LIABILITIES_TAGS =
     [''us-gaap:LiabilitiesNoncurrent'', ''ifrs-full:NoncurrentLiabilities'', ''ind-as:NoncurrentLiabilities'']"

definition EQUITY_TAGS :: "string list" where
  "EQUITY_TAGS =
     [''us-gaap:StockholdersEquity'', ''us-gaap:StockholdersEquityIncludingPortionAttributableToNoncontrollingInterest'', ''ifrs-full:Equity'',
      ''ind-as:Equity'', ''ind-as:TotalEquity'']"

type_synonym tag_enum = "string list \<Rightarrow> string list"

datatype ratio_def =
    RatioSeparator string
  | Ratio (ratio_label: string) (ratio_category: string) (ratio_formula: string) (ratio_pct: bool) (ratio_compute: string)

definition RATIO_DEFS :: "ratio_def list" where
  "RATIO_DEFS =
     [RatioSeparator ''Profitability'',
      Ratio ''Gross Margin'' ''Profitability'' ''Gross Profit / Revenue'' True ''gross_margin'',
      Ratio ''Operating Margin'' ''Profitability'' ''Operating Income / Revenue'' True ''operating_margin'',
      Ratio ''Net Margin'' ''Profitability'' ''Net Income / Revenue'' True ''net_margin'',
      Ratio ''Return on Equity (ROE)'' ''Profitability'' ''Net Income / Total Equity'' True ''roe'',
      RatioSeparator ''Liquidity'',
      Ratio ''Current Ratio'' ''Liquidity'' ''Current Assets / Current Liabilities'' False ''current_ratio'',
      RatioSeparator ''Leverage'',
      Ratio ''Debt-to-Equity'' ''Leverage'' ''(Current + Non-current Liabilities) / Equity'' False ''debt_to_equity'',
      RatioSeparator ''Efficiency'',
      Ratio ''Asset Turnover'' ''Efficiency'' ''Revenue / Total Assets'' False ''asset_turnover'']"

definition safe_div :: "decimal option \<Rightarrow> decimal option \<Rightarrow> decimal option" where
  "safe_div num den =
     (case (num, den) of
        (Some a, Some b) \<Rightarrow> if dec_is_zero b then None else (case dec_div a b of Inl e \<Rightarrow> None | Inr q \<Rightarrow> Some q)
      | _ \<Rightarrow> None)"

type_synonym usd_pivot = "export_period \<Rightarrow> string \<Rightarrow> decimal option"

definition usd_pivot_step :: "export_item \<Rightarrow> usd_pivot \<Rightarrow> usd_pivot" where
  "usd_pivot_step i p =
     (case xi_value_usd i of None \<Rightarrow> p | Some v \<Rightarrow> p(xi_period i := (p (xi_period i))(xi_canonical_field i \<mapsto> v)))"

definition usd_pivot_of :: "export_item list \<Rightarrow> usd_pivot" where
  "usd_pivot_of items = fold usd_pivot_step items (\<lambda>_. Map.empty)"

fun first_value :: "(string \<rightharpoonup> decimal) \<Rightarrow> string list \<Rightarrow> decimal option" where
  "first_value m [] = None"
| "first_value m (t # ts) = (case m t of Some v \<Rightarrow> Some v | None \<Rightarrow> first_value m ts)"

definition lookup_tags :: "tag_enum \<Rightarrow> usd_pivot \<Rightarrow> export_period \<Rightarrow> string list \<Rightarrow> decimal option" where
  "lookup_tags tags p k names = first_value (p k) (tags names)"

definition compute_ratios :: "tag_enum \<Rightarrow> usd_pivot \<Rightarrow> export_period \<Rightarrow> (string \<times> decimal option) list" where
  "compute_ratios tags p k =
     (let revenue = lookup_tags tags p k REVENUE_TAGS;
          gross_p = lookup_tags tags p k GROSS_PROFIT_TAGS;
          op_income = lookup_tags tags p k OPERATING_INCOME_TAGS;
          net_income = lookup_tags tags p k NET_INCOME_TAGS;
          curr_assets = lookup_tags tags p k CURRENT_ASSETS_TAGS;
          curr_liab = lookup_tags tags p k CURRENT_LIABILITIES_TAGS;
          total_ass = lookup_tags tags p k TOTAL_ASSETS_TAGS;
          nc_liab = lookup_tags tags p k NONCURRENT_LIABILITIES_TAGS;
          equity = lookup_tags tags p k EQUITY_TAGS;
          total_liab = (case (curr_liab, nc_liab) of
              (Some a, Some b) \<Rightarrow> Some (dec_add a b) | (Some a, None) \<Rightarrow> Some a | (None, Some b) \<Rightarrow> Some b | (None, None) \<Rightarrow> None)
      in [(''gross_margin'', safe_div gross_p revenue), (''operating_margin'', safe_div op_income revenue),
          (''net_margin'', safe_div net_income revenue), (''roe'', safe_div net_income equity),
          (''current_ratio'', safe_div curr_assets curr_liab), (''debt_to_equity'', safe_div total_liab equity),
          (''asset_turnover'', safe_div revenue total_ass)])"

definition sheet_title :: "period_enum \<Rightarrow> export_context \<Rightarrow> string \<Rightarrow> string" where
  "sheet_title enum c what = what @ '' '' @ EM_DASH @ '' '' @ ec_company_name c @ '' ('' @ ec_company_ticker c @ '')  '' @ MIDDLE_DOT @ ''  ''
     @ ec_period_range_label enum c"

definition dash_or :: "rat option \<Rightarrow> cell_value option" where
  "dash_or v = Some (case v of None \<Rightarrow> Text EM_DASH | Some x \<Rightarrow> Number x)"

definition ratio_cell :: "tag_enum \<Rightarrow> usd_pivot \<Rightarrow> string \<Rightarrow> export_period \<Rightarrow> cell_value option" where
  "ratio_cell tags p name k =
     dash_or (case map_of (compute_ratios tags p k) name of Some (Some v) \<Rightarrow> Some (dval v) | _ \<Rightarrow> None)"

definition ratio_row :: "tag_enum \<Rightarrow> usd_pivot \<Rightarrow> export_period list \<Rightarrow> nat \<Rightarrow> ratio_def \<Rightarrow> cell_write list" where
  "ratio_row tags p periods row d =
     (case d of
        RatioSeparator l \<Rightarrow> [text_at row 1 l]
      | Ratio l cat formula pct name \<Rightarrow>
          [text_at row 1 l, text_at row 2 cat, text_at row 3 formula]
          @ map (\<lambda>(j, k). ((row, 4 + j), ratio_cell tags p name k)) (enumerate 0 periods))"

definition write_ratios_sheet :: "period_enum \<Rightarrow> tag_enum \<Rightarrow> export_context \<Rightarrow> sheet" where
  "write_ratios_sheet enum tags c =
     (let p = usd_pivot_of (ec_is_items c @ ec_bs_items c); periods = ec_periods enum c in
      sheet_of (
        [text_at 1 1 (sheet_title enum c ''Financial Ratios''),
         text_at 2 1 (''All monetary inputs translated to USD at rates stored during extraction.  '' @ [CHR 0x27] @ EM_DASH @ [CHR 0x27]
           @ '' denotes insufficient source data for the period.''),
         text_at 4 1 ''Ratio'', text_at 4 2 ''Category'', text_at 4 3 ''Formula'']
        @ map (\<lambda>(j, k). text_at 4 (4 + j) (export_period_label k)) (enumerate 0 periods)
        @ concat (map (\<lambda>(n, d). ratio_row tags p periods (5 + n) d) (enumerate 0 RATIO_DEFS))
        @ (if periods = [] then [text_at (5 + length RATIO_DEFS) 1 ''No financial data available for this export.''] else [])))"

subsection \<open>Segments\<close>

definition BAND_REVENUE :: string where "BAND_REVENUE = ''Revenue Sources''"
definition BAND_COGS :: string where "BAND_COGS = ''Cost of Sales''"
definition BAND_OPEX :: string where "BAND_OPEX = ''Operating Expenses''"
definition BAND_INCOME :: string where "BAND_INCOME = ''Income Milestones''"
definition TAG_TO_BAND :: "(string \<times> string) list" where
  "TAG_TO_BAND =
     [(''us-gaap:Revenues'', BAND_REVENUE), (''us-gaap:RevenueFromContractWithCustomerExcludingAssessedTax'', BAND_REVENUE),
      (''ifrs-full:Revenue'', BAND_REVENUE), (''ifrs-full:RevenueFromContractsWithCustomers'', BAND_REVENUE), (''ind-as:Revenue'', BAND_REVENUE),
      (''ind-as:RevenueFromOperations'', BAND_REVENUE), (''ind-as:TotalIncome'', BAND_REVENUE), (''ind-as:OtherIncome'', BAND_REVENUE),
      (''us-gaap:CostOfRevenue'', BAND_COGS), (''us-gaap:CostOfGoodsSold'', BAND_COGS), (''ifrs-full:CostOfSales'', BAND_COGS),
      (''ind-as:CostOfMaterialsConsumed'', BAND_COGS), (''ind-as:PurchasesOfStockInTrade'', BAND_COGS),
      (''ind-as:ChangesInInventoriesOfFinishedGoodsWorkInProgressAndStockInTrade'', BAND_COGS),
      (''us-gaap:ResearchAndDevelopmentExpense'', BAND_OPEX), (''us-gaap:SellingGeneralAndAdministrativeExpense'', BAND_OPEX),
      (''us-gaap:GeneralAndAdministrativeExpense'', BAND_OPEX), (''us-gaap:SellingExpense'', BAND_OPEX),
      (''us-gaap:MarketingExpense'', BAND_OPEX), (''us-gaap:DepreciationDepletionAndAmortization'', BAND_OPEX),
      (''us-gaap:OperatingExpenses'', BAND_OPEX), (''ifrs-full:DistributionCosts'', BAND_OPEX), (''ifrs-full:AdministrativeExpense'', BAND_OPEX),
      (''ifrs-full:ResearchAndDevelopmentExpense'', BAND_OPEX), (''ind-as:EmployeeBenefitsExpense'', BAND_OPEX),
      (''ind-as:FinanceCosts'', BAND_OPEX), (''ind-as:DepreciationDepletionAndAmortisation'', BAND_OPEX), (''ind-as:OtherExpenses'', BAND_OPEX),
      (''ind-as:Expenses'', BAND_OPEX), (''us-gaap:GrossProfit'', BAND_INCOME), (''ifrs-full:GrossProfit'', BAND_INCOME),
      (''ind-as:GrossProfit'', BAND_INCOME), (''us-gaap:OperatingIncomeLoss'', BAND_INCOME),
      (''ifrs-full:ProfitLossFromOperatingActivities'', BAND_INCOME), (''ind-as:ProfitBeforeExceptionalItemsAndTax'', BAND_INCOME),
      (''us-gaap:IncomeLossFromContinuingOperationsBeforeIncomeTaxesExtraordinaryItemsNoncontrollingInterest'', BAND_INCOME),
      (''ifrs-full:ProfitLossBeforeTax'', BAND_INCOME), (''ind-as:ProfitBeforeTax'', BAND_INCOME), (''us-gaap:NetIncomeLoss'', BAND_INCOME),
      (''ifrs-full:ProfitLoss'', BAND_INCOME), (''ind-as:ProfitLoss'', BAND_INCOME)]"

definition BAND_ORDER :: "string list" where "BAND_ORDER = [BAND_REVENUE, BAND_COGS, BAND_OPEX, BAND_INCOME]"

text \<open>Items are told apart by their place in the list, as the code tells them apart by identity.\<close>

definition seen_step :: "nat \<times> export_item \<Rightarrow> (string \<rightharpoonup> nat \<times> export_item) \<Rightarrow> (string \<rightharpoonup> nat \<times> export_item)" where
  "seen_step x m =
     (let cf = xi_canonical_field (snd x) in
      if map_of TAG_TO_BAND cf = None then m
      else (case m cf of
          None \<Rightarrow> m(cf \<mapsto> x)
        | Some y \<Rightarrow> if xi_fiscal_year (snd y) < xi_fiscal_year (snd x) then m(cf \<mapsto> x) else m))"

definition latest_items :: "export_item list \<Rightarrow> (string \<rightharpoonup> nat \<times> export_item)" where
  "latest_items items = fold seen_step (enumerate 0 items) Map.empty"

definition band_items :: "export_item list \<Rightarrow> string \<Rightarrow> export_item list" where
  "band_items items band =
     map snd (filter (\<lambda>x. map_of TAG_TO_BAND (xi_canonical_field (snd x)) = Some band
       \<and> latest_items items (xi_canonical_field (snd x)) = Some x) (enumerate 0 items))"

datatype segment_row = BandHeader string | BandItem string export_item

definition segment_rows :: "export_item list \<Rightarrow> segment_row list" where
  "segment_rows items =
     concat (map (\<lambda>band. if band_items items band = [] then [] else BandHeader band # map (BandItem band) (band_items items band)) BAND_ORDER)"

definition share_of_revenue :: "decimal option \<Rightarrow> decimal option \<Rightarrow> rat option" where
  "share_of_revenue v revenue =
     (case (v, revenue) of
        (Some a, Some b) \<Rightarrow> if dec_is_zero b then None else (case dec_div a b of Inl e \<Rightarrow> None | Inr q \<Rightarrow> Some (dval q))
      | _ \<Rightarrow> None)"

definition segment_row_writes :: "tag_enum \<Rightarrow> usd_pivot \<Rightarrow> export_period list \<Rightarrow> nat \<Rightarrow> segment_row \<Rightarrow> cell_write list" where
  "segment_row_writes tags p periods row r =
     (case r of
        BandHeader b \<Rightarrow> [text_at row 1 b]
      | BandItem b i \<Rightarrow>
          [text_at row 1 (xi_concept_label i), text_at row 2 (xi_canonical_field i), text_at row 3 b]
          @ concat (map (\<lambda>(j, k).
              let v = p k (xi_canonical_field i) in
              [((row, 4 + 2 * j), dash_or (map_option dval v)),
               ((row, 4 + 2 * j + 1), dash_or (share_of_revenue v (lookup_tags tags p k REVENUE_TAGS)))]) (enumerate 0 periods)))"

definition write_segments_sheet :: "period_enum \<Rightarrow> tag_enum \<Rightarrow> export_context \<Rightarrow> sheet" where
  "write_segments_sheet enum tags c =
     (let p = usd_pivot_of (ec_is_items c); periods = ec_periods enum c; rows = segment_rows (ec_is_items c) in
      sheet_of (
        [text_at 1 1 (sheet_title enum c ''Revenue & Cost Contribution''),
         text_at 2 1 (''USD-translated values.  % Revenue = line value '' @ [CHR 0xC3, CHR 0xB7] @ '' period total revenue. ''
           @ ''Geographic / product-level footnote tables require direct XBRL segment tags.''),
         text_at 4 1 ''Concept'', text_at 4 2 ''Canonical Tag'', text_at 4 3 ''Band'']
        @ concat (map (\<lambda>(j, k). [text_at 4 (4 + 2 * j) (export_period_label k @ '' Value (USD)''),
             text_at 4 (4 + 2 * j + 1) (export_period_label k @ '' % Revenue'')]) (enumerate 0 periods))
        @ concat (map (\<lambda>(n, r). segment_row_writes tags p periods (5 + n) r) (enumerate 0 rows))
        @ (if rows = [] then [text_at 5 1 ''No Income Statement data available.''] else [])))"

subsection \<open>Executive summary\<close>

definition DRIVER_TAGS :: "string list" where
  "DRIVER_TAGS =
     [''us-gaap:Revenues'', ''us-gaap:RevenueFromContractWithCustomerExcludingAssessedTax'', ''ifrs-full:Revenue'',
      ''ifrs-full:RevenueFromContractsWithCustomers'', ''ind-as:Revenue'', ''ind-as:RevenueFromOperations'', ''ind-as:TotalIncome'',
      ''ind-as:OtherIncome'']"

definition COST_TAGS :: "string list" where
  "COST_TAGS =
     [''us-gaap:CostOfRevenue'', ''us-gaap:CostOfGoodsSold'', ''us-gaap:OperatingExpenses'', ''us-gaap:ResearchAndDevelopmentExpense'',
      ''us-gaap:SellingGeneralAndAdministrativeExpense'', ''us-gaap:GeneralAndAdministrativeExpense'', ''ifrs-full:CostOfSales'',
      ''ifrs-full:AdministrativeExpense'', ''ifrs-full:DistributionCosts'', ''ind-as:CostOfMaterialsConsumed'',
      ''ind-as:PurchasesOfStockInTrade'', ''ind-as:EmployeeBenefitsExpense'', ''ind-as:FinanceCosts'', ''ind-as:OtherExpenses'',
      ''ind-as:Expenses'']"

definition BS_HIGHLIGHT_TAGS :: "(string \<times> string list) list" where
  "BS_HIGHLIGHT_TAGS =
     [(''Total Assets'', [''us-gaap:Assets'', ''ifrs-full:Assets'', ''ind-as:Assets'']),
      (''Current Assets'', [''us-gaap:AssetsCurrent'', ''ifrs-full:CurrentAssets'', ''ind-as:CurrentAssets'']),
      (''Total Liabilities'', [''us-gaap:Liabilities'', ''ifrs-full:Liabilities'', ''ind-as:Liabilities'']),
      (''Current Liabilities'', [''us-gaap:LiabilitiesCurrent'', ''ifrs-full:CurrentLiabilities'', ''ind-as:CurrentLiabilities'']),
      (''Total Equity'', [''us-gaap:StockholdersEquity'', ''ifrs-full:Equity'', ''ind-as:Equity'']),
      (''Cash & Equivalents'', [''us-gaap:CashAndCashEquivalentsAtCarryingValue'', ''ifrs-full:CashAndCashEquivalents'', ''ind-as:CashAndCashEquivalents''])]"

definition latest_by_size :: "export_period list \<Rightarrow> export_item list \<Rightarrow> string list \<Rightarrow> export_item list" where
  "latest_by_size periods items names =
     (let found = filter (\<lambda>i. xi_canonical_field i \<in> set names \<and> xi_value_usd i \<noteq> None) items;
          latest = (if periods = [] then found else filter (\<lambda>i. xi_period i = last periods) found)
      in take 5 (sort_key (\<lambda>i. - dval (dec_abs (the (xi_value_usd i)))) latest))"

definition key_value :: "string \<Rightarrow> cell_value \<Rightarrow> cell_value option list" where
  "key_value label v = [Some (Text label), Some v]"

definition figure_rows :: "export_item list \<Rightarrow> string \<Rightarrow> cell_value option list list" where
  "figure_rows items none_found =
     (if items = [] then [key_value none_found (Text EM_DASH)]
      else map (\<lambda>i. key_value (xi_concept_label i)
             (UsdMillions (map_option dval (xi_value_usd i)) (''  ['' @ export_period_label (xi_period i) @ '']''))) items)"

definition period_data :: "export_item list \<Rightarrow> export_period \<Rightarrow> (string \<rightharpoonup> decimal)" where
  "period_data items k = usd_pivot_of (filter (\<lambda>i. xi_period i = k) items) k"

definition count_in :: "export_period \<Rightarrow> export_item list \<Rightarrow> string" where
  "count_in k items = show_int (int (length (filter (\<lambda>i. xi_period i = k) items)))"

definition strategic_rows :: "period_enum \<Rightarrow> export_context \<Rightarrow> cell_value option list list" where
  "strategic_rows enum c =
     (let periods = ec_periods enum c; section = (\<lambda>s. [Some (Text s)]); blank = [] in
      [section (sheet_title enum c ''Executive Intelligence Summary''),
       section (''Auto-generated from structured XBRL extraction data.  All monetary values in USD.  Qualitative MD&A commentary requires ''
         @ ''manual review of source filings.''),
       blank, section ''1. Export Run Metadata'',
       key_value ''Company'' (Text (ec_company_name c)), key_value ''Ticker'' (Text (ec_company_ticker c)),
       key_value ''Reporting Standard'' (Text (ec_reporting_standard c)), key_value ''Primary Fiscal Year'' (Text (show_int (ec_fiscal_year c))),
       key_value ''Primary Period'' (Text (ec_fiscal_period c)), key_value ''Period Range'' (Text (ec_period_range_label enum c)),
       key_value ''Filing Date'' (Text (case ec_filing_date c of Some d \<Rightarrow> date_isoformat d | None \<Rightarrow> EM_DASH)),
       key_value ''Export Timestamp'' (Stamp (ec_export_timestamp c)), key_value ''Job ID'' (Text (ec_job_id c)),
       key_value ''Total Line Items'' (Text (show_int (int (ec_total_row_count c)))),
       blank, section ''2. Top Revenue Drivers'']
      @ figure_rows (latest_by_size periods (ec_is_items c) DRIVER_TAGS) ''No revenue items found''
      @ [blank, section ''3. Major Cost Components'']
      @ figure_rows (latest_by_size periods (ec_is_items c) COST_TAGS) ''No cost items found''
      @ [blank, section ''4. Balance Sheet Highlights'']
      @ (if periods = [] then [key_value ''No balance sheet data'' (Text EM_DASH)]
         else map (\<lambda>(name, names). key_value (name @ ''  ['' @ export_period_label (last periods) @ '']'')
                (UsdMillions (map_option dval (first_value (period_data (ec_bs_items c) (last periods)) names)) []))
                BS_HIGHLIGHT_TAGS)
      @ [blank, section ''5. Period Coverage Summary'']
      @ (if periods = [] then [key_value ''No periods found'' (Text EM_DASH)]
         else map (\<lambda>s. Some (Text s)) [''Period'', ''IS Rows'', ''BS Rows'', ''CF Rows'']
           # map (\<lambda>k. map (\<lambda>s. Some (Text s)) [export_period_label k, count_in k (ec_is_items c), count_in k (ec_bs_items c), count_in k (ec_cf_items c)])
               periods))"

definition place_rows :: "cell_value option list list \<Rightarrow> sheet" where
  "place_rows rows = sheet_of (concat (map (\<lambda>(n, r). row_of_cells n r) (enumerate 1 rows)))"

definition write_strategic_initiatives_sheet :: "period_enum \<Rightarrow> export_context \<Rightarrow> sheet" where
  "write_strategic_initiatives_sheet enum c = place_rows (strategic_rows enum c)"

subsection \<open>Validation report\<close>

definition severity_rank :: "export_finding \<Rightarrow> nat" where
  "severity_rank f =
     (let s = str_upper (xf_severity f) in
      if s = ''CRITICAL'' then 0 else if s = ''WARNING'' then 1 else if s = ''INFO'' then 2 else 99)"

definition finding_row :: "export_finding \<Rightarrow> cell_value option list" where
  "finding_row f =
     [Some (Text (xf_rule_id f)), Some (Text (str_upper (xf_severity f))), Some (Text (xf_message f)),
      Some (Figure (xf_expected f)), Some (Figure (xf_actual f)), Some (Figure (xf_delta f))]"

definition validation_rows :: "period_enum \<Rightarrow> export_context \<Rightarrow> cell_value option list list" where
  "validation_rows enum c =
     (let section = (\<lambda>s. [Some (Text s)]); blank = []; heads = map (\<lambda>s. Some (Text s)) in
      [section (sheet_title enum c ''Validation Report''),
       section (''Quality-assurance results from the dual-dimension validation engine (Amendment V1.2 '' @ [CHR 0xC2, CHR 0xA7]
         @ ''5).  Confidence score deducted 25 pts per CRITICAL finding, 5 pts per WARNING.''), blank]
      @ (case ec_validation_data c of
           None \<Rightarrow> [section ''No validation record found for this job.  Run the extraction pipeline to generate QA data.'']
         | Some v \<Rightarrow>
             [section ''1. Validation Summary'',
              key_value ''Accession Number'' (Text (vr_accession_number v)),
              key_value ''Fiscal Year'' (Text (case vr_fiscal_year v of Some y \<Rightarrow> if y = 0 then EM_DASH else show_int y | None \<Rightarrow> EM_DASH)),
              key_value ''Fiscal Period'' (Text (case vr_fiscal_period v of Some p \<Rightarrow> if p = [] then EM_DASH else p | None \<Rightarrow> EM_DASH)),
              key_value ''Items Validated'' (Text (show_int (int (vr_items_validated v)))),
              key_value ''Critical Findings'' (Text (show_int (int (vr_critical_count v)))),
              key_value ''Warning Findings'' (Text (show_int (int (vr_warning_count v)))),
              key_value ''Export Gate'' (Text (if vr_is_exportable v then [CHR 0xE2, CHR 0x9C, CHR 0x93] @ '' READY FOR EXPORT''
                                             else [CHR 0xE2, CHR 0x9C, CHR 0x97] @ '' EXPORT BLOCKED'')),
              key_value ''Validation ID'' (Text (vr_id v)), key_value ''Validated At'' (Stamp (vr_created_at v)),
              blank, section ''2. Confidence Score'',
              key_value ''Confidence Score'' (Text (show_int (vr_confidence_score v) @ '' / 100'')), blank]
             @ (if vr_deductions v = [] then []
                else heads [''Rule ID'', ''Points Deducted'', ''Reason'']
                  # map (\<lambda>d. heads [xd_rule_id d, xd_points d, xd_reason d]) (vr_deductions v))
             @ [blank, section ''3. Anomaly Findings Ledger'']
             @ (if vr_findings v = [] then [key_value ''Finding count'' (Text (''0 '' @ EM_DASH @ '' no anomalies detected''))]
                else heads [''Rule ID'', ''Severity'', ''Message'', ''Expected'', ''Actual'', ''Delta'']
                  # map finding_row (sort_key severity_rank (vr_findings v)))
             @ [blank]
             @ (case vr_summary_text v of Some t \<Rightarrow> if t = [] then [] else [section ''4. Pipeline Summary Note'', [Some (Text t)]] | None \<Rightarrow> [])))"

definition write_validation_report_sheet :: "period_enum \<Rightarrow> export_context \<Rightarrow> sheet" where
  "write_validation_report_sheet enum c = place_rows (validation_rows enum c)"

subsection \<open>The workbook\<close>

definition build_workbook :: "period_enum \<Rightarrow> tag_enum \<Rightarrow> export_context \<Rightarrow> (string \<times> sheet) list" where
  "build_workbook enum tags c =
     [(''Cover & Metadata'', write_cover_sheet enum c),
      (''Income Statement'', write_statement_sheet enum (ec_is_items c) c ''IS''),
      (''Balance Sheet'', write_statement_sheet enum (ec_bs_items c) c ''BS''),
      (''Cash Flow'', write_statement_sheet enum (ec_cf_items c) c ''CF''),
      (''Financial Ratios'', write_ratios_sheet enum tags c),
      (''Segments'', write_segments_sheet enum tags c),
      (''Strategic Initiatives'', write_strategic_initiatives_sheet enum c),
      (''Audit Log'', write_audit_log_sheet c),
      (''Validation Report'', write_validation_report_sheet enum c),
      (''Data Sources'', sheet_of [text_at 1 1 (''[Data Sources '' @ EM_DASH @ '' to be implemented in a future milestone]'')])]"


subsection \<open>Ratios and the order of a set\<close>

definition agree_on :: "(string \<rightharpoonup> decimal) \<Rightarrow> string list \<Rightarrow> bool" where
  "agree_on m names = (\<forall>t \<in> set names. \<forall>u \<in> set names. m t = None \<or> m u = None \<or> m t = m u)"

definition tag_order :: "tag_enum \<Rightarrow> bool" where
  "tag_order e = (\<forall>xs. mset (e xs) = mset xs)"

definition RATIO_GROUPS :: "string list list" where
  "RATIO_GROUPS = [REVENUE_TAGS, GROSS_PROFIT_TAGS, OPERATING_INCOME_TAGS, NET_INCOME_TAGS, CURRENT_ASSETS_TAGS, CURRENT_LIABILITIES_TAGS,
     TOTAL_ASSETS_TAGS, NONCURRENT_LIABILITIES_TAGS, EQUITY_TAGS]"

lemma first_value_agreed:
  assumes "agree_on m names" "t \<in> set names" "m t = Some v" "set xs = set names"
  shows "first_value m xs = Some v"
proof -
  have "first_value m ys = Some v" if "t \<in> set ys" "set ys \<subseteq> set names" for ys
    using that
  proof (induction ys)
    case (Cons u ys)
    show ?case
    proof (cases "m u")
      case (Some w)
      moreover have "m t = None \<or> m u = None \<or> m t = m u"
        using assms(1)[unfolded agree_on_def, rule_format, of t u] assms(2) Cons.prems(2) by simp
      ultimately have "w = v" using assms(3) by simp
      with Some show ?thesis by simp
    next
      case None
      with assms(3) have "u \<noteq> t" by auto
      with None Cons show ?thesis by auto
    qed
  qed simp
  with assms(2,4) show ?thesis by auto
qed

lemma first_value_none: "\<forall>t \<in> set xs. m t = None \<Longrightarrow> first_value m xs = None"
  by (induction xs) auto

lemma agreed_lookup:
  assumes "agree_on (p k) names" "tag_order e1" "tag_order e2"
  shows "lookup_tags e1 p k names = lookup_tags e2 p k names"
proof -
  have s: "set (e1 names) = set names" "set (e2 names) = set names"
    using assms(2,3) mset_eq_setD unfolding tag_order_def by blast+
  show ?thesis
  proof (cases "\<exists>t \<in> set names. p k t \<noteq> None")
    case True
    then obtain t v where "t \<in> set names" "p k t = Some v" by auto
    from first_value_agreed[OF assms(1) this s(1)] first_value_agreed[OF assms(1) this s(2)] show ?thesis by (simp add: lookup_tags_def)
  next
    case False
    then show ?thesis using s by (simp add: lookup_tags_def first_value_none)
  qed
qed

definition tag_first :: "string \<Rightarrow> tag_enum" where
  "tag_first t xs = (if t \<in> set xs then t # remove1 t xs else xs)"

lemma tag_first_order: "tag_order (tag_first t)"
  by (simp add: tag_order_def tag_first_def)

text \<open>
  C38: what decides the ratios.  If in each group of equivalent tags the values the period has agree, the ratios are the same however Python enumerates
  its sets of tags; if two tags of a group, such as total revenue and revenue from contracts, have different
  values, there are enumerations under which the figure looked up is the one and the other.  The enumeration depends on the
  hash seed of the process, so the same data then give different workbooks.
\<close>

lemma ratios_follow_set_order:
  shows "(\<forall>e1 e2. tag_order e1 \<and> tag_order e2 \<and> (\<forall>g \<in> set RATIO_GROUPS. agree_on (p k) g) \<longrightarrow> compute_ratios e1 p k = compute_ratios e2 p k)
     \<and> (\<forall>g t u. t \<in> set g \<and> u \<in> set g \<and> p k t = Some v \<and> p k u = Some w \<longrightarrow>
          (\<exists>e1 e2. tag_order e1 \<and> tag_order e2 \<and> lookup_tags e1 p k g = Some v \<and> lookup_tags e2 p k g = Some w))"
proof (intro conjI allI impI)
  fix e1 e2 assume a: "tag_order e1 \<and> tag_order e2 \<and> (\<forall>g \<in> set RATIO_GROUPS. agree_on (p k) g)"
  then have "lookup_tags e1 p k g = lookup_tags e2 p k g" if "g \<in> set RATIO_GROUPS" for g
    using that agreed_lookup by blast
  then show "compute_ratios e1 p k = compute_ratios e2 p k"
    by (simp add: compute_ratios_def RATIO_GROUPS_def)
next
  fix g t u assume "t \<in> set g \<and> u \<in> set g \<and> p k t = Some v \<and> p k u = Some w"
  then have "lookup_tags (tag_first t) p k g = Some v" "lookup_tags (tag_first u) p k g = Some w"
    by (simp_all add: lookup_tags_def tag_first_def)
  with tag_first_order show "\<exists>e1 e2. tag_order e1 \<and> tag_order e2 \<and> lookup_tags e1 p k g = Some v \<and> lookup_tags e2 p k g = Some w"
    by blast
qed

definition two_revenues :: usd_pivot where
  "two_revenues k = [''us-gaap:Revenues'' \<mapsto> Dec 100 0, ''us-gaap:RevenueFromContractWithCustomerExcludingAssessedTax'' \<mapsto> Dec 80 0]"

lemma ratios_follow_set_order_witness:
  "\<exists>e1 e2. tag_order e1 \<and> tag_order e2 \<and> lookup_tags e1 two_revenues (2023, ''FY'') REVENUE_TAGS = Some (Dec 100 0)
     \<and> lookup_tags e2 two_revenues (2023, ''FY'') REVENUE_TAGS = Some (Dec 80 0)"
proof -
  have "''us-gaap:Revenues'' \<in> set REVENUE_TAGS" "''us-gaap:RevenueFromContractWithCustomerExcludingAssessedTax'' \<in> set REVENUE_TAGS"
    "two_revenues (2023, ''FY'') ''us-gaap:Revenues'' = Some (Dec 100 0)"
    "two_revenues (2023, ''FY'') ''us-gaap:RevenueFromContractWithCustomerExcludingAssessedTax'' = Some (Dec 80 0)"
    by (simp_all add: REVENUE_TAGS_def two_revenues_def)
  then show ?thesis
    using ratios_follow_set_order[where p = two_revenues and k = "(2023, ''FY'')" and v = "Dec 100 0" and w = "Dec 80 0"] by blast
qed

end
