(* ===== verification/ExportTask.thy ===== *)
theory ExportTask
  imports ExportSheets
begin

text \<open>
  Exporting: the loading of the context and the service of \<^verbatim>\<open>services/export/excel_generator.py\<close>, the endpoints of
  \<^verbatim>\<open>apps/api/routers/export.py\<close> and the task of \<^verbatim>\<open>workers/tasks/export_tasks.py\<close>.  The service reads attributes of a job by name, so the
  attributes of the mapped class are listed.  The rendering of a workbook to bytes, the answers of the object store and of the
  broker, and the text of an exception are parameters; the database answers.
\<close>

subsection \<open>Attributes of a job\<close>

datatype attribute = AText string | AInt int | ADate date | ANone | AObject

definition text_attribute :: "string option \<Rightarrow> attribute" where
  "text_attribute v = (case v of Some s \<Rightarrow> AText s | None \<Rightarrow> ANone)"

definition instant_attribute :: "instant option \<Rightarrow> attribute" where
  "instant_attribute v = (case v of Some t \<Rightarrow> AInt t | None \<Rightarrow> ANone)"

text \<open>The columns, relationships and properties of \<open>FinancialJob\<close>.\<close>

definition orm_job_attributes :: "financial_job \<Rightarrow> (string \<times> attribute) list" where
  "orm_job_attributes j =
     [(''id'', AText (job_id j)), (''tenant_id'', AText (job_tenant_id j)), (''company_id'', text_attribute (job_company_id j)),
      (''created_by'', text_attribute (job_created_by j)), (''status'', AText (job_status j)), (''job_type'', AText (job_type j)),
      (''fiscal_year'', case job_fiscal_year j of Some y \<Rightarrow> AInt y | None \<Rightarrow> ANone), (''document_url'', text_attribute (job_document_url j)),
      (''result_url'', text_attribute (job_result_url j)), (''error_message'', case job_error_message j of None \<Rightarrow> ANone | Some e \<Rightarrow> AObject),
      (''celery_task_id'', text_attribute (job_celery_task_id j)), (''started_at'', instant_attribute (job_started_at j)),
      (''completed_at'', instant_attribute (job_completed_at j)), (''created_at'', AInt (job_created_at j)), (''updated_at'', AInt (job_updated_at j)),
      (''tenant'', AObject), (''company'', AObject), (''creator'', AObject), (''is_terminal'', AObject), (''is_cancellable'', AObject)]"

type_synonym job_attributes = "financial_job \<Rightarrow> (string \<times> attribute) list"

text \<open>\<open>getattr(job, name, dflt) or dflt\<close> for text.\<close>

definition text_or :: "job_attributes \<Rightarrow> financial_job \<Rightarrow> string \<Rightarrow> string \<Rightarrow> string" where
  "text_or attrs j name dflt = (case map_of (attrs j) name of Some (AText s) \<Rightarrow> if s = [] then dflt else s | _ \<Rightarrow> dflt)"

subsection \<open>The service\<close>

datatype export_error = ExportJobNotFound | ExportCompanyNotFound | ExportNoData | AttributeMissing string

record export_job =
  ej_id :: uuid
  ej_tenant_id :: uuid
  ej_job_id :: uuid
  ej_company_id :: "uuid option"
  ej_requested_by :: "uuid option"
  ej_status :: string
  ej_s3_key :: "string option"
  ej_download_url :: "string option"
  ej_error_message :: "string option"
  ej_created_at :: instant
  ej_updated_at :: instant

record export_state =
  xs_jobs :: "financial_job list"
  xs_companies :: "company list"
  xs_line_items :: "financial_line_item list"
  xs_validations :: "validation_record list"
  xs_exports :: "export_job list"
  xs_objects :: "(string \<times> string) list"

text \<open>
  \<open>xe_query_order\<close> is the order of the query on year, period, statement and concept; \<open>xe_put\<close> and \<open>xe_sign\<close> are the answers of the object store
  to an upload and to a request for a signed address (\<open>None\<close> an exception), \<open>xe_render\<close> the rewriting of that address by the settings.
\<close>

record export_env =
  xe_now :: instant
  xe_year :: int
  xe_query_order :: "financial_line_item list \<Rightarrow> financial_line_item list"
  xe_periods :: period_enum
  xe_tags :: tag_enum
  xe_save :: "(string \<times> sheet) list \<Rightarrow> string"
  xe_put :: "string \<Rightarrow> bool"
  xe_sign :: "string \<Rightarrow> string option"
  xe_endpoint :: string
  xe_presigned_base :: string

definition latest_validation :: "uuid \<Rightarrow> validation_record list \<Rightarrow> validation_record option" where
  "latest_validation jid vs =
     (case sort_key (\<lambda>v. - vr_created_at v) (filter (\<lambda>v. vr_job_id v = jid) vs) of [] \<Rightarrow> None | v # _ \<Rightarrow> Some v)"

definition job_reporting_standard :: "job_attributes \<Rightarrow> financial_job \<Rightarrow> export_error + string" where
  "job_reporting_standard attrs j =
     (if map_of (attrs j) ''reporting_standard'' = None then Inl (AttributeMissing ''reporting_standard'')
      else Inr (text_or attrs j ''reporting_standard'' ''US_GAAP''))"

definition company_of_job :: "financial_job \<Rightarrow> company list \<Rightarrow> company option" where
  "company_of_job j cs = Option.bind (job_company_id j) (\<lambda>i. get_row co_id i cs)"

definition current_rows :: "export_env \<Rightarrow> financial_job \<Rightarrow> export_state \<Rightarrow> financial_line_item list" where
  "current_rows E j S = xe_query_order E (filter (\<lambda>r. Some (fli_company_id r) = job_company_id j \<and> \<not> fli_is_restated r) (xs_line_items S))"

definition load_export_context :: "export_env \<Rightarrow> job_attributes \<Rightarrow> uuid \<Rightarrow> export_state \<Rightarrow> export_error + export_context" where
  "load_export_context E attrs jid S =
     (case get_row job_id jid (xs_jobs S) of
        None \<Rightarrow> Inl ExportJobNotFound
      | Some j \<Rightarrow>
     (case company_of_job j (xs_companies S) of
        None \<Rightarrow> Inl ExportCompanyNotFound
      | Some co \<Rightarrow>
     (case job_reporting_standard attrs j of
        Inl e \<Rightarrow> Inl e
      | Inr standard \<Rightarrow>
          (let rows = current_rows E j S in
           if rows = [] then Inl ExportNoData
           else (let items = map (orm_to_export_item (xe_year E)) rows;
                     of_type = (\<lambda>t. filter (\<lambda>i. xi_statement_type i = t) items) in
             Inr \<lparr>ec_job_id = jid, ec_company_name = co_name co, ec_company_ticker = co_ticker co,
                  ec_fiscal_year = (case job_fiscal_year j of Some y \<Rightarrow> if y = 0 then xe_year E else y | None \<Rightarrow> xe_year E),
                  ec_fiscal_period = text_or attrs j ''fiscal_period'' ''FY'', ec_reporting_standard = standard,
                  ec_filing_date = (case map_of (attrs j) ''filing_date'' of Some (ADate d) \<Rightarrow> Some d | _ \<Rightarrow> None),
                  ec_export_timestamp = xe_now E,
                  ec_is_items = of_type ''IS'', ec_bs_items = of_type ''BS'', ec_cf_items = of_type ''CF'',
                  ec_translation_complete = list_all (\<lambda>i. xi_value_usd i \<noteq> None) (filter is_foreign_currency items),
                  ec_validation_data = latest_validation jid (xs_validations S)\<rparr>)))))"

definition export_service :: "export_env \<Rightarrow> job_attributes \<Rightarrow> uuid \<Rightarrow> export_state \<Rightarrow> export_error + string" where
  "export_service E attrs jid S =
     rbind (load_export_context E attrs jid S) (\<lambda>c. Inr (xe_save E (build_workbook (xe_periods E) (xe_tags E) c)))"

subsection \<open>Names of downloads\<close>

definition name_char :: "char \<Rightarrow> bool" where
  "name_char c = (ascii_lower c \<or> ascii_upper c \<or> is_digit c \<or> c = CHR ''-'')"

text \<open>\<^verbatim>\<open>re.sub(r"[^A-Za-z0-9\-]+", "_", s)\<close>; the flag says that the run before has its underscore already.\<close>

fun sub_runs :: "bool \<Rightarrow> string \<Rightarrow> string" where
  "sub_runs run [] = []"
| "sub_runs run (c # s) = (if name_char c then c # sub_runs False s else if run then sub_runs True s else CHR ''_'' # sub_runs True s)"

definition strip_char :: "char \<Rightarrow> string \<Rightarrow> string" where
  "strip_char x s = rev (dropWhile (\<lambda>c. c = x) (rev (dropWhile (\<lambda>c. c = x) s)))"

definition sanitize_filename_segment :: "string \<Rightarrow> string" where
  "sanitize_filename_segment text = strip_char CHR ''_'' (sub_runs False (str_strip text))"

fun join_with :: "string \<Rightarrow> string list \<Rightarrow> string" where
  "join_with sep [] = []"
| "join_with sep [x] = x"
| "join_with sep (x # y # xs) = x @ sep @ join_with sep (y # xs)"

definition build_export_filename :: "string \<Rightarrow> string \<Rightarrow> string \<Rightarrow> int \<Rightarrow> string" where
  "build_export_filename company ticker period year =
     (let parts = [sanitize_filename_segment company, sanitize_filename_segment ticker, sanitize_filename_segment period,
                   show_int year, ''Financial_Export''];
          basename = join_with ''_'' (filter (\<lambda>p. p \<noteq> []) parts);
          short = (if 128 < length basename then rev (dropWhile (\<lambda>c. c = CHR ''_'') (rev (take 128 basename))) else basename)
      in short @ ''.xlsx'')"

subsection \<open>Endpoints\<close>

datatype export_response =
    Workbook string string
  | ExportApiError string nat
  | ExportUnauthorized auth_error
  | Export500 export_error

text \<open>The errors of the service at the download endpoint.\<close>

fun download_error :: "export_error \<Rightarrow> export_response" where
  "download_error ExportJobNotFound = ExportApiError ''EXPORT_JOB_NOT_FOUND'' 404"
| "download_error ExportCompanyNotFound = ExportApiError ''EXPORT_COMPANY_NOT_FOUND'' 404"
| "download_error ExportNoData = ExportApiError ''EXPORT_NO_DATA'' 404"
| "download_error (AttributeMissing a) = Export500 (AttributeMissing a)"

definition download_export :: "export_env \<Rightarrow> job_attributes \<Rightarrow> auth_context option \<Rightarrow> uuid \<Rightarrow> export_state \<Rightarrow> export_response" where
  "download_export E attrs ctx jid S =
     (case require_authenticated ctx of
        Inl e \<Rightarrow> ExportUnauthorized e
      | Inr c \<Rightarrow>
     (case get_row job_id jid (xs_jobs S) of
        None \<Rightarrow> ExportApiError ''EXPORT_JOB_NOT_FOUND'' 404
      | Some j \<Rightarrow>
     (case company_of_job j (xs_companies S) of
        None \<Rightarrow> ExportApiError ''EXPORT_COMPANY_NOT_FOUND'' 404
      | Some co \<Rightarrow>
     (case export_service E attrs jid S of
        Inl e \<Rightarrow> download_error e
      | Inr bytes \<Rightarrow>
          Workbook (build_export_filename (co_name co) (if co_ticker co = [] then ''UNKNOWN'' else co_ticker co)
            (text_or attrs j ''fiscal_period'' ''FY'') (case job_fiscal_year j of Some y \<Rightarrow> y | None \<Rightarrow> 0)) bytes))))"

datatype trigger_response = ExportTriggered uuid | TriggerApiError string nat | TriggerUnauthorized auth_error

text \<open>The record is committed before the task is sent, and stays when the broker refuses it.\<close>

definition trigger_async_export :: "export_env \<Rightarrow> bool \<Rightarrow> uuid \<Rightarrow> auth_context option \<Rightarrow> uuid \<Rightarrow> export_state
    \<Rightarrow> trigger_response \<times> export_state" where
  "trigger_async_export E broker_ok new_id ctx jid S =
     (case require_authenticated ctx of
        Inl e \<Rightarrow> (TriggerUnauthorized e, S)
      | Inr c \<Rightarrow>
     (case get_row job_id jid (xs_jobs S) of
        None \<Rightarrow> (TriggerApiError ''EXPORT_JOB_NOT_FOUND'' 404, S)
      | Some j \<Rightarrow>
          if job_tenant_id j \<noteq> cx_tenant_id c then (TriggerApiError ''EXPORT_JOB_NOT_FOUND'' 404, S)
          else if job_status j \<noteq> ''completed'' then (TriggerApiError ''EXPORT_JOB_NOT_COMPLETED'' 409, S)
          else (let x = \<lparr>ej_id = new_id, ej_tenant_id = cx_tenant_id c, ej_job_id = jid, ej_company_id = job_company_id j,
                         ej_requested_by = Some (cx_user_id c), ej_status = ''PENDING'', ej_s3_key = None, ej_download_url = None,
                         ej_error_message = None, ej_created_at = xe_now E, ej_updated_at = xe_now E\<rparr>;
                    S1 = S\<lparr>xs_exports := xs_exports S @ [x]\<rparr>
                in if broker_ok then (ExportTriggered new_id, S1) else (TriggerApiError ''EXPORT_BROKER_UNAVAILABLE'' 503, S1))))"

datatype status_response = ExportStatus export_job | StatusApiError string nat | StatusUnauthorized auth_error

definition get_export_status :: "auth_context option \<Rightarrow> uuid \<Rightarrow> export_state \<Rightarrow> status_response" where
  "get_export_status ctx i S =
     (case require_authenticated ctx of
        Inl e \<Rightarrow> StatusUnauthorized e
      | Inr c \<Rightarrow>
     (case get_row ej_id i (xs_exports S) of
        None \<Rightarrow> StatusApiError ''EXPORT_RECORD_NOT_FOUND'' 404
      | Some x \<Rightarrow> if ej_tenant_id x \<noteq> cx_tenant_id c then StatusApiError ''EXPORT_RECORD_NOT_FOUND'' 404 else ExportStatus x))"

subsection \<open>The task\<close>

datatype task_exception = ExportJobNotRetryable | ServiceRaised export_error | ObjectStoreFailed

datatype task_result = AlreadySucceeded "string option" | ExportSucceeded string string | ExportTaskFailed task_exception

text \<open>\<open>UPDATE excel_export_jobs SET \<dots> WHERE id = i\<close>, which also sets \<open>updated_at\<close>.\<close>

definition update_export :: "export_env \<Rightarrow> (export_job \<Rightarrow> export_job) \<Rightarrow> uuid \<Rightarrow> export_state \<Rightarrow> export_state" where
  "update_export E f i S =
     S\<lparr>xs_exports := update_where (\<lambda>x. ej_id x = i) (\<lambda>x. (f x)\<lparr>ej_updated_at := xe_now E\<rparr>) (xs_exports S)\<rparr>"

definition s3_key_of :: "export_job \<Rightarrow> string" where
  "s3_key_of x = ej_tenant_id x @ ''/exports/'' @ ej_id x @ ''.xlsx''"

text \<open>\<^verbatim>\<open>url.replace(endpoint, base, 1)\<close>: the first occurrence; an empty setting leaves the address as it is.\<close>

fun replace_first :: "string \<Rightarrow> string \<Rightarrow> string \<Rightarrow> string" where
  "replace_first old new [] = []"
| "replace_first old new (c # s) =
     (if take (length old) (c # s) = old then new @ drop (length old) (c # s) else c # replace_first old new s)"

definition public_url :: "export_env \<Rightarrow> string \<Rightarrow> string" where
  "public_url E url =
     (if xe_presigned_base E \<noteq> [] \<and> xe_endpoint E \<noteq> [] then replace_first (xe_endpoint E) (xe_presigned_base E) url else url)"

definition put_object :: "string \<Rightarrow> string \<Rightarrow> export_state \<Rightarrow> export_state" where
  "put_object key bytes S = S\<lparr>xs_objects := AList.update key bytes (xs_objects S)\<rparr>"

text \<open>From the status \<open>GENERATING\<close> on.\<close>

definition produce_export :: "export_env \<Rightarrow> job_attributes \<Rightarrow> uuid \<Rightarrow> export_job \<Rightarrow> export_state
    \<Rightarrow> (task_exception + task_result) \<times> export_state" where
  "produce_export E attrs i x S =
     (case get_row job_id (ej_job_id x) (xs_jobs S) of
        None \<Rightarrow> (Inl ExportJobNotRetryable, S)
      | Some j \<Rightarrow>
     (case export_service E attrs (ej_job_id x) S of
        Inl e \<Rightarrow> (Inl (if e \<in> {ExportJobNotFound, ExportCompanyNotFound, ExportNoData} then ExportJobNotRetryable else ServiceRaised e), S)
      | Inr bytes \<Rightarrow>
          (let key = s3_key_of x in
           if \<not> xe_put E key then (Inl ObjectStoreFailed, S)
           else
             let S1 = put_object key bytes S in
             (case xe_sign E key of
                None \<Rightarrow> (Inl ObjectStoreFailed, S1)
              | Some url \<Rightarrow>
                  (Inr (ExportSucceeded key (public_url E url)),
                   update_export E (\<lambda>y. y\<lparr>ej_status := ''SUCCESS'', ej_s3_key := Some key, ej_download_url := Some (public_url E url)\<rparr>) i S1)))))"

definition run_export :: "export_env \<Rightarrow> job_attributes \<Rightarrow> uuid \<Rightarrow> export_state \<Rightarrow> (task_exception + task_result) \<times> export_state" where
  "run_export E attrs i S =
     (case get_row ej_id i (xs_exports S) of
        None \<Rightarrow> (Inl ExportJobNotRetryable, S)
      | Some x \<Rightarrow>
          if ej_status x = ''SUCCESS'' then (Inr (AlreadySucceeded (ej_download_url x)), S)
          else produce_export E attrs i x (update_export E (\<lambda>y. y\<lparr>ej_status := ''GENERATING''\<rparr>) i S))"

definition ERROR_MESSAGE_MAX_LEN :: nat where "ERROR_MESSAGE_MAX_LEN = 2000"

definition export_mark_failed :: "export_env \<Rightarrow> string \<Rightarrow> uuid \<Rightarrow> export_state \<Rightarrow> export_state" where
  "export_mark_failed E msg i S =
     update_export E (\<lambda>y. y\<lparr>ej_status := ''FAILED'', ej_error_message := Some (take ERROR_MESSAGE_MAX_LEN msg)\<rparr>) i S"

definition EXPORT_MAX_RETRIES :: nat where "EXPORT_MAX_RETRIES = 2"

definition EXPORT_RETRY_BACKOFF :: "nat list" where "EXPORT_RETRY_BACKOFF = [30, 120]"

datatype task_outcome = TaskReturns task_result | TaskRetries nat

text \<open>One delivery of the task, with the count of retries before it; \<open>msg\<close> renders an exception.\<close>

definition generate_excel_export_task :: "export_env \<Rightarrow> job_attributes \<Rightarrow> (task_exception \<Rightarrow> string) \<Rightarrow> nat \<Rightarrow> uuid \<Rightarrow> export_state
    \<Rightarrow> task_outcome \<times> export_state" where
  "generate_excel_export_task E attrs msg retries i S =
     (case run_export E attrs i S of
        (Inr r, S1) \<Rightarrow> (TaskReturns r, S1)
      | (Inl ExportJobNotRetryable, S1) \<Rightarrow> (TaskReturns (ExportTaskFailed ExportJobNotRetryable), export_mark_failed E (msg ExportJobNotRetryable) i S1)
      | (Inl e, S1) \<Rightarrow>
          (let countdown = (if retries < length EXPORT_RETRY_BACKOFF then EXPORT_RETRY_BACKOFF ! retries else 300)
           in if EXPORT_MAX_RETRIES - 1 \<le> retries then (TaskReturns (ExportTaskFailed e), export_mark_failed E (msg e) i S1)
              else (TaskRetries countdown, S1)))"

text \<open>
  The deliveries of one task: each may see another environment, and other processes may change the state in between
  (\<open>between n\<close>).  The fuel bounds the number of deliveries.
\<close>

fun deliver :: "(nat \<Rightarrow> export_env) \<Rightarrow> job_attributes \<Rightarrow> (task_exception \<Rightarrow> string) \<Rightarrow> (nat \<Rightarrow> export_state \<Rightarrow> export_state) \<Rightarrow> nat \<Rightarrow> nat
    \<Rightarrow> uuid \<Rightarrow> export_state \<Rightarrow> (task_result \<times> export_state) option" where
  "deliver E attrs msg between 0 n i S = None"
| "deliver E attrs msg between (Suc fuel) n i S =
     (case generate_excel_export_task (E n) attrs msg n i S of
        (TaskReturns r, S1) \<Rightarrow> Some (r, S1)
      | (TaskRetries c, S1) \<Rightarrow> deliver E attrs msg between fuel (Suc n) i (between n S1))"


subsection \<open>The service\<close>

text \<open>
  When an export succeeds.  The service returns a workbook exactly when the job and its company exist, the job object has an
  attribute \<open>reporting_standard\<close>, and the company has a line item that is not restated; what the validation said of the job does not matter.
\<close>

lemma export_service_succeeds_iff:
  "(\<exists>bytes. export_service E attrs jid S = Inr bytes) \<longleftrightarrow>
     (\<exists>j co. get_row job_id jid (xs_jobs S) = Some j \<and> company_of_job j (xs_companies S) = Some co
        \<and> map_of (attrs j) ''reporting_standard'' \<noteq> None \<and> current_rows E j S \<noteq> [])"
  by (auto simp: export_service_def load_export_context_def job_reporting_standard_def Let_def rbind_eq_Inr split: option.splits)

lemma orm_job_has_no_standard: "map_of (orm_job_attributes j) ''reporting_standard'' = None"
  by (simp add: orm_job_attributes_def)

lemma orm_export_fails: "\<exists>e. export_service E orm_job_attributes jid S = Inl e"
proof -
  have "\<not> (\<exists>bytes. export_service E orm_job_attributes jid S = Inr bytes)"
    unfolding export_service_succeeds_iff by (simp add: orm_job_has_no_standard)
  then show ?thesis by (cases "export_service E orm_job_attributes jid S") auto
qed

subsection \<open>The task\<close>

lemma get_update_where:
  assumes "\<And>x. key (f x) = key x"
  shows "get_row key i (update_where (\<lambda>x. key x = i) f rows) = map_option f (get_row key i rows)"
  using assms by (induction rows) (auto simp: get_row_def)

lemma update_export_frame [simp]:
  "xs_jobs (update_export E f i S) = xs_jobs S" "xs_companies (update_export E f i S) = xs_companies S"
  "xs_line_items (update_export E f i S) = xs_line_items S" "xs_validations (update_export E f i S) = xs_validations S"
  "xs_objects (update_export E f i S) = xs_objects S"
  by (simp_all add: update_export_def)

lemma current_rows_frame [simp]: "current_rows E j (update_export E' f i S) = current_rows E j S"
  by (simp add: current_rows_def)

lemma export_service_frame [simp]: "export_service E attrs jid (update_export E' f i S) = export_service E attrs jid S"
  unfolding export_service_def load_export_context_def update_export_frame current_rows_frame ..

lemma update_export_row:
  assumes "\<And>x. ej_id (f x) = ej_id x"
  shows "get_row ej_id i (xs_exports (update_export E f i S)) = map_option (\<lambda>x. (f x)\<lparr>ej_updated_at := xe_now E\<rparr>) (get_row ej_id i (xs_exports S))"
  using get_update_where[of ej_id "\<lambda>x. (f x)\<lparr>ej_updated_at := xe_now E\<rparr>"] assms by (simp add: update_export_def)

lemma put_object_frame [simp]:
  "xs_exports (put_object k b S) = xs_exports S" "xs_jobs (put_object k b S) = xs_jobs S"
  by (simp_all add: put_object_def)

text \<open>What one run of the export leaves of its record.\<close>

lemma run_export_cases:
  assumes "get_row ej_id i (xs_exports S) = Some x" and "run_export E attrs i S = (r, S1)"
  obtains (already) "ej_status x = ''SUCCESS''" "S1 = S" "r = Inr (AlreadySucceeded (ej_download_url x))"
    | (success) bytes url x1 where "r = Inr (ExportSucceeded (s3_key_of x) url)" "get_row ej_id i (xs_exports S1) = Some x1"
        "ej_status x1 = ''SUCCESS''" "ej_download_url x1 = Some url" "ej_s3_key x1 = Some (s3_key_of x)"
        "export_service E attrs (ej_job_id x) S = Inr bytes" "map_of (xs_objects S1) (s3_key_of x) = Some bytes"
    | (failure) e x1 where "r = Inl e" "get_row ej_id i (xs_exports S1) = Some x1" "ej_status x1 = ''GENERATING''"
        "ej_job_id x1 = ej_job_id x" "ej_tenant_id x1 = ej_tenant_id x" "ej_id x1 = ej_id x"
        "(\<forall>bytes. export_service E attrs (ej_job_id x) S \<noteq> Inr bytes) \<longrightarrow> xs_objects S1 = xs_objects S"
proof (cases "ej_status x = ''SUCCESS''")
  case True
  with assms show ?thesis by (intro already) (auto simp: run_export_def)
next
  case False
  define S2 where "S2 = update_export E (\<lambda>y. y\<lparr>ej_status := ''GENERATING''\<rparr>) i S"
  have g: "get_row ej_id i (xs_exports S2) = Some (x\<lparr>ej_status := ''GENERATING'', ej_updated_at := xe_now E\<rparr>)"
    unfolding S2_def by (subst update_export_row) (simp_all add: assms(1))
  have sv: "export_service E attrs (ej_job_id x) S2 = export_service E attrs (ej_job_id x) S"
    by (simp add: S2_def)
  have stop: thesis if "r = Inl e" "S1 = S2" for e
    using that g by (intro failure[of e "x\<lparr>ej_status := ''GENERATING'', ej_updated_at := xe_now E\<rparr>"]) (simp_all add: S2_def)
  have run: "(r, S1) = produce_export E attrs i x S2"
    using assms False by (simp add: run_export_def S2_def)
  show ?thesis
  proof (cases "get_row job_id (ej_job_id x) (xs_jobs S2)")
    case None
    with run stop show ?thesis by (simp add: produce_export_def)
  next
    case (Some j)
    show ?thesis
    proof (cases "export_service E attrs (ej_job_id x) S2")
      case (Inl e)
      with Some run stop show ?thesis by (simp add: produce_export_def)
    next
      case (Inr bytes)
      show ?thesis
      proof (cases "xe_put E (s3_key_of x) \<and> xe_sign E (s3_key_of x) \<noteq> None")
        case True
        then obtain url where u: "xe_sign E (s3_key_of x) = Some url" by blast
        have "get_row ej_id i (xs_exports S1) = Some (x\<lparr>ej_status := ''SUCCESS'', ej_s3_key := Some (s3_key_of x),
            ej_download_url := Some (public_url E url), ej_updated_at := xe_now E\<rparr>)"
          using run Some Inr True u g by (auto simp: produce_export_def Let_def update_export_row)
        moreover have "map_of (xs_objects S1) (s3_key_of x) = Some bytes"
          using run Some Inr True u by (auto simp: produce_export_def Let_def put_object_def update_conv')
        ultimately show ?thesis
          using run Some Inr True u sv by (intro success[of "public_url E url" _ bytes]) (auto simp: produce_export_def Let_def)
      next
        case False
        then have "\<exists>e. r = Inl e" "xs_exports S1 = xs_exports S2"
          using run Some Inr by (auto simp: produce_export_def Let_def split: if_splits option.splits)
        then show ?thesis
          using g Inr sv by (auto intro!: failure)
      qed
    qed
  qed
qed


lemma mark_failed_row:
  assumes "get_row ej_id i (xs_exports S) = Some x"
  shows "\<exists>x'. get_row ej_id i (xs_exports (export_mark_failed E m i S)) = Some x' \<and> ej_status x' = ''FAILED''
     \<and> ej_error_message x' = Some (take 2000 m)"
  unfolding export_mark_failed_def by (subst update_export_row) (simp_all add: assms ERROR_MESSAGE_MAX_LEN_def)

lemma mark_failed_frame [simp]: "xs_objects (export_mark_failed E m i S) = xs_objects S" "xs_jobs (export_mark_failed E m i S) = xs_jobs S"
  by (simp_all add: export_mark_failed_def)

definition export_done :: "export_state \<Rightarrow> uuid \<Rightarrow> bool" where
  "export_done S i = (\<exists>x. get_row ej_id i (xs_exports S) = Some x \<and>
     (ej_status x = ''SUCCESS'' \<and> (\<exists>key bytes. ej_s3_key x = Some key \<and> ej_download_url x \<noteq> None \<and> map_of (xs_objects S) key = Some bytes)
      \<or> ej_status x = ''FAILED'' \<and> (\<exists>m. ej_error_message x = Some m \<and> length m \<le> 2000)))"

text \<open>One delivery either settles the record, or asks for another delivery, which it does only the first time.\<close>

lemma delivery_settles:
  assumes "get_row ej_id i (xs_exports S) = Some x" "ej_status x \<noteq> ''SUCCESS''"
    and "generate_excel_export_task E attrs msg n i S = (out, S1)"
  shows "(\<exists>r. out = TaskReturns r \<and> export_done S1 i)
     \<or> (n = 0 \<and> out = TaskRetries 30 \<and> (\<exists>x1. get_row ej_id i (xs_exports S1) = Some x1 \<and> ej_status x1 = ''GENERATING'' \<and> ej_job_id x1 = ej_job_id x))"
proof -
  obtain r S0 where run: "run_export E attrs i S = (r, S0)" by fastforce
  from assms(1) run show ?thesis
  proof (cases rule: run_export_cases)
    case already
    with assms(2) show ?thesis by simp
  next
    case (success bytes url x1)
    then have "export_done S0 i" unfolding export_done_def by (intro exI[of _ x1]) simp
    moreover have "out = TaskReturns (ExportSucceeded (s3_key_of x) url)" "S1 = S0"
      using assms(3) run success(1) by (simp_all add: generate_excel_export_task_def)
    ultimately show ?thesis by simp
  next
    case (failure e x1)
    have dn: "export_done (export_mark_failed E m i S0) i" for m
      using mark_failed_row[OF failure(2), of E m] by (auto simp: export_done_def)
    show ?thesis
    proof (cases "e = ExportJobNotRetryable \<or> 1 \<le> n")
      case True
      then show ?thesis
        using assms(3) run failure(1) dn
        by (auto simp: generate_excel_export_task_def Let_def EXPORT_MAX_RETRIES_def split: task_exception.splits if_splits)
    next
      case False
      then have "n = 0" "e \<noteq> ExportJobNotRetryable" by auto
      then have "out = TaskRetries 30" "S1 = S0"
        using assms(3) run failure(1)
        by (auto simp: generate_excel_export_task_def Let_def EXPORT_MAX_RETRIES_def EXPORT_RETRY_BACKOFF_def split: task_exception.splits if_splits)
      with False failure show ?thesis by auto
    qed
  qed
qed

text \<open>
  C21: a task settles its record.  With at most two deliveries (not the three that two retries suggest), and whatever the object store answers
  and other processes do to the rest of the state between them, the task returns, and its record, unless it had succeeded before, is
  \<open>SUCCESS\<close> with an address and the object of its key stored, or \<open>FAILED\<close> with a message of at most 2000 characters;
  it is never left \<open>GENERATING\<close>.
\<close>

lemma export_task_settles:
  assumes "get_row ej_id i (xs_exports S) = Some x" and "\<And>n T. xs_exports (between n T) = xs_exports T"
  shows "\<exists>r S'. deliver E attrs msg between 2 0 i S = Some (r, S')
     \<and> (if ej_status x = ''SUCCESS'' then r = AlreadySucceeded (ej_download_url x) \<and> S' = S else export_done S' i)"
proof (cases "ej_status x = ''SUCCESS''")
  case True
  with assms(1) show ?thesis by (simp add: numeral_2_eq_2 generate_excel_export_task_def run_export_def)
next
  case False
  obtain out S1 where g: "generate_excel_export_task (E 0) attrs msg 0 i S = (out, S1)" by fastforce
  from delivery_settles[OF assms(1) False g] show ?thesis
  proof
    assume "\<exists>r. out = TaskReturns r \<and> export_done S1 i"
    with g False show ?thesis by (auto simp: numeral_2_eq_2)
  next
    assume "0 = (0 :: nat) \<and> out = TaskRetries 30 \<and> (\<exists>x1. get_row ej_id i (xs_exports S1) = Some x1 \<and> ej_status x1 = ''GENERATING'' \<and> ej_job_id x1 = ej_job_id x)"
    then obtain x1 where out: "out = TaskRetries 30" and x1: "get_row ej_id i (xs_exports (between 0 S1)) = Some x1" "ej_status x1 \<noteq> ''SUCCESS''"
      using assms(2)[of 0 S1] by auto
    obtain out2 S2 where g2: "generate_excel_export_task (E 1) attrs msg 1 i (between 0 S1) = (out2, S2)" by fastforce
    from delivery_settles[OF x1 g2] obtain r where "out2 = TaskReturns r" "export_done S2 i" by auto
    with g g2 out False show ?thesis by (auto simp: numeral_2_eq_2)
  qed
qed

lemma settled_failed:
  assumes "get_row ej_id i (xs_exports S) = Some x" "ej_status x \<noteq> ''SUCCESS''"
    and "generate_excel_export_task E orm_job_attributes msg n i S = (out, S1)"
  shows "xs_objects S1 = xs_objects S \<and> xs_jobs S1 = xs_jobs S
     \<and> (\<exists>x1. get_row ej_id i (xs_exports S1) = Some x1 \<and> ej_status x1 = (case out of TaskReturns r \<Rightarrow> ''FAILED'' | TaskRetries c \<Rightarrow> ''GENERATING'')
          \<and> (\<forall>r. out = TaskReturns r \<longrightarrow> (\<exists>e. r = ExportTaskFailed e)))"
proof -
  obtain r S0 where run: "run_export E orm_job_attributes i S = (r, S0)" by fastforce
  have none: "\<forall>bytes. export_service E orm_job_attributes (ej_job_id x) S \<noteq> Inr bytes"
    using orm_export_fails[of E "ej_job_id x" S] by auto
  have jobs: "xs_jobs S0 = xs_jobs S"
    using run assms(1,2) by (auto simp: run_export_def produce_export_def Let_def split: option.splits sum.splits if_splits)
  from assms(1) run show ?thesis
  proof (cases rule: run_export_cases)
    case (failure e x1)
    then have ob: "xs_objects S0 = xs_objects S" using none by blast
    have mf: "\<exists>x1. get_row ej_id i (xs_exports (export_mark_failed E m i S0)) = Some x1 \<and> ej_status x1 = ''FAILED''" for m
      using mark_failed_row[OF failure(2), of E m] by blast
    show ?thesis
      using assms(3) run failure(1-3) mf ob jobs
      by (auto simp: generate_excel_export_task_def Let_def split: task_exception.splits if_splits)
  qed (simp_all add: assms(2) none)
qed

text \<open>
  C20: no export succeeds.  The mapped class \<open>FinancialJob\<close> has no attribute \<open>reporting_standard\<close>, so for every job the service raises,
  a download is answered with an error, and the task, delivered twice, ends \<open>FAILED\<close> and stores nothing.
\<close>

lemma exports_always_fail:
  assumes "get_row ej_id i (xs_exports S) = Some x" and "ej_status x \<noteq> ''SUCCESS''"
  shows "(\<forall>F ctx jid name bytes. download_export F orm_job_attributes ctx jid S \<noteq> Workbook name bytes)
     \<and> (\<exists>e S' x'. deliver E orm_job_attributes msg (\<lambda>_ T. T) 2 0 i S = Some (ExportTaskFailed e, S') \<and> xs_objects S' = xs_objects S
          \<and> get_row ej_id i (xs_exports S') = Some x' \<and> ej_status x' = ''FAILED'')"
proof
  show "\<forall>F ctx jid name bytes. download_export F orm_job_attributes ctx jid S \<noteq> Workbook name bytes"
  proof (intro allI)
    fix F ctx jid name bytes
    have "download_error e \<noteq> Workbook name bytes" for e by (cases e) simp_all
    with orm_export_fails[of F jid S] show "download_export F orm_job_attributes ctx jid S \<noteq> Workbook name bytes"
      by (auto simp: download_export_def split: sum.splits option.splits)
  qed
  obtain out S1 where g: "generate_excel_export_task (E 0) orm_job_attributes msg 0 i S = (out, S1)" by fastforce
  note s1 = settled_failed[OF assms g]
  show "\<exists>e S' x'. deliver E orm_job_attributes msg (\<lambda>_ T. T) 2 0 i S = Some (ExportTaskFailed e, S') \<and> xs_objects S' = xs_objects S
          \<and> get_row ej_id i (xs_exports S') = Some x' \<and> ej_status x' = ''FAILED''"
  proof (cases out)
    case (TaskReturns r)
    with s1 g show ?thesis by (auto simp: numeral_2_eq_2)
  next
    case (TaskRetries c)
    with s1 obtain x1 where x1: "get_row ej_id i (xs_exports S1) = Some x1" "ej_status x1 \<noteq> ''SUCCESS''" by auto
    obtain out2 S2 where g2: "generate_excel_export_task (E 1) orm_job_attributes msg 1 i S1 = (out2, S2)" by fastforce
    from delivery_settles[OF x1 g2] obtain r where r: "out2 = TaskReturns r" by auto
    with settled_failed[OF x1 g2] s1 g g2 TaskRetries show ?thesis by (auto simp: numeral_2_eq_2)
  qed
qed

subsection \<open>Who may export\<close>

text \<open>
  C39: the download does not ask whose job it is.  Any two signed-in callers, of whatever workspaces, get the same answer for a job, so the
  figures of one workspace are served to another; sending an export and asking for its status are refused to other workspaces.
\<close>

lemma download_ignores_workspace:
  assumes "require_authenticated ctx1 = Inr c1" and "require_authenticated ctx2 = Inr c2"
  shows "download_export E attrs ctx1 jid S = download_export E attrs ctx2 jid S
     \<and> (\<forall>j. get_row job_id jid (xs_jobs S) = Some j \<and> job_tenant_id j \<noteq> cx_tenant_id c2
          \<longrightarrow> trigger_async_export E ok i ctx2 jid S = (TriggerApiError ''EXPORT_JOB_NOT_FOUND'' 404, S))
     \<and> (\<forall>x. get_row ej_id i (xs_exports S) = Some x \<and> ej_tenant_id x \<noteq> cx_tenant_id c2
          \<longrightarrow> get_export_status ctx2 i S = StatusApiError ''EXPORT_RECORD_NOT_FOUND'' 404)"
  using assms by (simp add: download_export_def trigger_async_export_def get_export_status_def)


subsection \<open>Names of downloads\<close>

definition file_char :: "char \<Rightarrow> bool" where
  "file_char c = (name_char c \<or> c = CHR ''_'')"

lemma sub_runs_chars: "\<forall>c \<in> set (sub_runs run s). file_char c"
  by (induction run s rule: sub_runs.induct) (auto simp: file_char_def)

lemma set_strip_char: "set (strip_char x s) \<subseteq> set s"
  unfolding strip_char_def by (metis set_dropWhileD set_rev subsetI)

lemma segment_chars: "c \<in> set (sanitize_filename_segment s) \<Longrightarrow> file_char c"
  using set_strip_char sub_runs_chars unfolding sanitize_filename_segment_def by blast

lemma join_with_chars: "c \<in> set (join_with sep xs) \<Longrightarrow> c \<in> set sep \<or> (\<exists>x \<in> set xs. c \<in> set x)"
  by (induction sep xs rule: join_with.induct) auto

lemma show_int_chars: "c \<in> set (show_int i) \<Longrightarrow> file_char c"
  using show_nat_reads by (auto simp: show_int_def file_char_def name_char_def list_all_iff split: if_splits)

text \<open>
  The name of a download is harmless.  Whatever the names of company, ticker and period are, the file name consists of letters, digits,
  hyphens and underscores followed by \<^verbatim>\<open>.xlsx\<close>, and of at most 133 characters, so it cannot break out of the response header.
\<close>

lemma export_filename_is_safe:
  "\<exists>base. build_export_filename company ticker period year = base @ ''.xlsx'' \<and> length base \<le> 128 \<and> (\<forall>c \<in> set base. file_char c)"
proof -
  define parts where "parts = [sanitize_filename_segment company, sanitize_filename_segment ticker, sanitize_filename_segment period,
    show_int year, ''Financial_Export'']"
  define b where "b = join_with ''_'' (filter (\<lambda>p. p \<noteq> []) parts)"
  have "\<forall>c \<in> set ''Financial_Export''. file_char c"
    by (simp add: file_char_def name_char_def ascii_lower_def ascii_upper_def)
  then have "file_char c" if "p \<in> set parts" "c \<in> set p" for p c
    using that segment_chars show_int_chars by (auto simp: parts_def)
  moreover have "file_char CHR ''_''" by (simp add: file_char_def)
  ultimately have b: "\<forall>c \<in> set b. file_char c"
    using join_with_chars[of _ "''_''"] by (fastforce simp: b_def)
  let ?cut = "rev (dropWhile (\<lambda>c. c = CHR ''_'') (rev (take 128 b)))"
  have "length ?cut \<le> length (take 128 b)" by (metis length_dropWhile_le length_rev)
  then have "length ?cut \<le> 128" by simp
  moreover have "set ?cut \<subseteq> set b" by (metis in_set_takeD set_dropWhileD set_rev subsetI)
  then have "\<forall>c \<in> set ?cut. file_char c" using b by blast
  moreover have "build_export_filename company ticker period year = (if 128 < length b then ?cut else b) @ ''.xlsx''"
    by (simp add: build_export_filename_def Let_def b_def parts_def)
  ultimately show ?thesis using b by (cases "128 < length b") auto
qed

subsection \<open>Instances\<close>

definition sample_export_env :: export_env where
  "sample_export_env = \<lparr>xe_now = 1, xe_year = 2024, xe_query_order = (\<lambda>rs. rs), xe_periods = (\<lambda>ks. ks), xe_tags = (\<lambda>ts. ts),
     xe_save = (\<lambda>wb. concat (map fst wb)), xe_put = (\<lambda>k. True), xe_sign = (\<lambda>k. Some k), xe_endpoint = [], xe_presigned_base = []\<rparr>"

definition sample_financial_job :: financial_job where
  "sample_financial_job = \<lparr>job_id = ''j'', job_tenant_id = ''t1'', job_company_id = Some ''c'', job_created_by = None, job_status = ''completed'',
     job_type = ''x'', job_fiscal_year = Some 2023, job_document_url = None, job_result_url = None, job_error_message = None,
     job_celery_task_id = None, job_started_at = None, job_completed_at = None, job_created_at = 0, job_updated_at = 0\<rparr>"

definition sample_export_job :: export_job where
  "sample_export_job = \<lparr>ej_id = ''x'', ej_tenant_id = ''t1'', ej_job_id = ''j'', ej_company_id = Some ''c'', ej_requested_by = None,
     ej_status = ''PENDING'', ej_s3_key = None, ej_download_url = None, ej_error_message = None, ej_created_at = 0, ej_updated_at = 0\<rparr>"

definition sample_export_state :: export_state where
  "sample_export_state = \<lparr>xs_jobs = [sample_financial_job], xs_companies = [], xs_line_items = [], xs_validations = [],
     xs_exports = [sample_export_job], xs_objects = []\<rparr>"

lemma sample_export_row: "get_row ej_id ''x'' (xs_exports sample_export_state) = Some sample_export_job"
  by (simp add: get_row_def sample_export_state_def sample_export_job_def)

lemma sample_export_pending: "ej_status sample_export_job \<noteq> ''SUCCESS''"
  by (simp add: sample_export_job_def)

lemma export_task_settles_witness:
  "\<exists>r S'. deliver (\<lambda>_. sample_export_env) orm_job_attributes (\<lambda>_. ''error'') (\<lambda>_ T. T) 2 0 ''x'' sample_export_state = Some (r, S') \<and> export_done S' ''x''"
  using export_task_settles[OF sample_export_row, of "\<lambda>_ T. T" "\<lambda>_. sample_export_env" orm_job_attributes "\<lambda>_. ''error''"]
    sample_export_pending by simp

lemma exports_always_fail_witness:
  "\<exists>e S' x'. deliver (\<lambda>_. sample_export_env) orm_job_attributes (\<lambda>_. ''error'') (\<lambda>_ T. T) 2 0 ''x'' sample_export_state
     = Some (ExportTaskFailed e, S') \<and> xs_objects S' = [] \<and> get_row ej_id ''x'' (xs_exports S') = Some x' \<and> ej_status x' = ''FAILED''"
  using exports_always_fail[OF sample_export_row sample_export_pending, of "\<lambda>_. sample_export_env" "\<lambda>_. ''error''"]
  by (simp add: sample_export_state_def)

lemma download_ignores_workspace_witness:
  "download_export sample_export_env (\<lambda>j. [(''reporting_standard'', AText ''IFRS'')]) (Some (context_of (demo_payload\<lparr>tp_tid := ''t1''\<rparr>))) ''j'' sample_export_state
     = download_export sample_export_env (\<lambda>j. [(''reporting_standard'', AText ''IFRS'')]) (Some (context_of (demo_payload\<lparr>tp_tid := ''t2''\<rparr>))) ''j'' sample_export_state"
  by (rule conjunct1[OF download_ignores_workspace]) (simp_all add: require_authenticated_def)

end
