(* ===== verification/PyRegex.thy ===== *)
theory PyRegex
  imports PyParse
begin

text \<open>
  What the program uses of Python's \<open>re\<close>: a backtracking matcher for the expressions its normalisers
  compile, on ASCII text.  A match is tried at a cursor, the text before it (last character first)
  and the text after it; \<open>runs\<close> lists the ways an expression can match there in the order in which the
  matcher tries them, so that the first one is the match.  Repetitions occur over character classes only.
\<close>

type_synonym cursor = "string \<times> string"
type_synonym captures = "(string \<times> string) list"

datatype regex =
    Lit string
  | Cls "char \<Rightarrow> bool"
  | Many "char \<Rightarrow> bool"
  | Seq regex regex
  | Alt regex regex
  | Opt regex
  | Group string regex
  | Boundary
  | NotBehind "char \<Rightarrow> bool"
  | NotAhead "char \<Rightarrow> bool"

definition is_letter :: "char \<Rightarrow> bool" where
  "is_letter c = ((65 \<le> (of_char c :: nat) \<and> (of_char c :: nat) \<le> 90) \<or> (97 \<le> (of_char c :: nat) \<and> (of_char c :: nat) \<le> 122))"

definition is_word :: "char \<Rightarrow> bool" where
  "is_word c = (is_digit c \<or> is_letter c \<or> c = CHR ''_'')"

fun head_is :: "(char \<Rightarrow> bool) \<Rightarrow> string \<Rightarrow> bool" where
  "head_is p [] = False"
| "head_is p (c # cs) = p c"

fun at_literal :: "string \<Rightarrow> cursor \<Rightarrow> cursor option" where
  "at_literal [] k = Some k"
| "at_literal (w # ws) (b, []) = None"
| "at_literal (w # ws) (b, c # cs) = (if c = w then at_literal ws (c # b, cs) else None)"

text \<open>Greedy repetition: the longest run first.\<close>

fun repeats :: "(char \<Rightarrow> bool) \<Rightarrow> string \<Rightarrow> string \<Rightarrow> cursor list" where
  "repeats p b [] = [(b, [])]"
| "repeats p b (c # cs) = (if p c then repeats p (c # b) cs @ [(b, c # cs)] else [(b, c # cs)])"

definition consumed :: "cursor \<Rightarrow> cursor \<Rightarrow> string" where
  "consumed k k' = rev (take (length (fst k') - length (fst k)) (fst k'))"

fun runs :: "regex \<Rightarrow> cursor \<Rightarrow> (cursor \<times> captures) list" where
  "runs (Lit w) k = (case at_literal w k of None \<Rightarrow> [] | Some k' \<Rightarrow> [(k', [])])"
| "runs (Cls p) k = (case snd k of [] \<Rightarrow> [] | c # cs \<Rightarrow> if p c then [((c # fst k, cs), [])] else [])"
| "runs (Many p) k = map (\<lambda>k'. (k', [])) (repeats p (fst k) (snd k))"
| "runs (Seq r s) k = concat (map (\<lambda>(k1, g1). map (\<lambda>(k2, g2). (k2, g1 @ g2)) (runs s k1)) (runs r k))"
| "runs (Alt r s) k = runs r k @ runs s k"
| "runs (Opt r) k = runs r k @ [(k, [])]"
| "runs (Group n r) k = map (\<lambda>(k', g). (k', (n, consumed k k') # g)) (runs r k)"
| "runs Boundary k = (if head_is is_word (fst k) \<noteq> head_is is_word (snd k) then [(k, [])] else [])"
| "runs (NotBehind p) k = (if head_is p (fst k) then [] else [(k, [])])"
| "runs (NotAhead p) k = (if head_is p (snd k) then [] else [(k, [])])"

text \<open>\<open>Pattern.search\<close>: the first match at the leftmost position, with the place where it starts.\<close>

fun search_from :: "regex \<Rightarrow> string \<Rightarrow> string \<Rightarrow> (cursor \<times> cursor \<times> captures) option" where
  "search_from r b [] = (case runs r (b, []) of [] \<Rightarrow> None | (k, g) # _ \<Rightarrow> Some ((b, []), k, g))"
| "search_from r b (c # cs) =
     (case runs r (b, c # cs) of [] \<Rightarrow> search_from r (c # b) cs | (k, g) # _ \<Rightarrow> Some ((b, c # cs), k, g))"

definition re_search :: "regex \<Rightarrow> string \<Rightarrow> captures option" where
  "re_search r t = map_option (snd \<circ> snd) (search_from r [] t)"

text \<open>
  \<open>Pattern.finditer\<close> for an expression that consumes at least one character: the matches from left to
  right, each search resuming behind the match before; the number counts the characters of it
  still to be passed.
\<close>

fun finditer_from :: "regex \<Rightarrow> nat \<Rightarrow> string \<Rightarrow> string \<Rightarrow> (cursor \<times> captures) list" where
  "finditer_from r n b [] = (if n = 0 then (case runs r (b, []) of [] \<Rightarrow> [] | (k, g) # _ \<Rightarrow> [((b, []), g)]) else [])"
| "finditer_from r n b (c # cs) =
     (if n \<noteq> 0 then finditer_from r (n - 1) (c # b) cs
      else case runs r (b, c # cs) of
          [] \<Rightarrow> finditer_from r 0 (c # b) cs
        | (k, g) # _ \<Rightarrow> ((b, c # cs), g) # finditer_from r (length (consumed (b, c # cs) k) - 1) (c # b) cs)"

definition re_finditer :: "regex \<Rightarrow> string \<Rightarrow> (cursor \<times> captures) list" where
  "re_finditer r t = finditer_from r 0 [] t"

text \<open>\<open>m.group(n)\<close>.\<close>

definition group_text :: "string \<Rightarrow> captures \<Rightarrow> string" where
  "group_text n g = (case map_of g n of None \<Rightarrow> [] | Some s \<Rightarrow> s)"

fun one_of :: "regex list \<Rightarrow> regex" where
  "one_of [] = Cls (\<lambda>_. False)"
| "one_of [r] = r"
| "one_of (r # rs) = Alt r (one_of rs)"

fun in_order :: "regex list \<Rightarrow> regex" where
  "in_order [] = Lit []"
| "in_order [r] = r"
| "in_order (r # rs) = Seq r (in_order rs)"

abbreviation whole :: "regex \<Rightarrow> regex" where
  "whole r \<equiv> Seq Boundary (Seq r Boundary)"

text \<open>\<open>\s+\<close> is one space and then as many as there are.\<close>

abbreviation spaces1 :: regex where
  "spaces1 \<equiv> Seq (Cls is_space) (Many is_space)"

subsection \<open>Literals\<close>

fun starts :: "string \<Rightarrow> string \<Rightarrow> bool" where
  "starts [] t = True"
| "starts (w # ws) [] = False"
| "starts (w # ws) (c # cs) = (c = w \<and> starts ws cs)"

lemma starts_append [simp]: "starts w (w @ t)"
  by (induction w) auto

lemma starts_split: "starts w a \<longleftrightarrow> (\<exists>t. a = w @ t)"
  by (induction w a rule: starts.induct) auto

lemma at_literal_starts: "at_literal w (b, a) = (if starts w a then Some (rev w @ b, drop (length w) a) else None)"
  by (induction w a arbitrary: b rule: starts.induct) auto

subsection \<open>Letters\<close>

text \<open>Lower case of the characters the labels and headers are made of.\<close>

lemma lower_letters:
  "char_lower (CHR ''A'') = CHR ''a''"
  "char_lower (CHR ''B'') = CHR ''b''"
  "char_lower (CHR ''C'') = CHR ''c''"
  "char_lower (CHR ''D'') = CHR ''d''"
  "char_lower (CHR ''E'') = CHR ''e''"
  "char_lower (CHR ''F'') = CHR ''f''"
  "char_lower (CHR ''G'') = CHR ''g''"
  "char_lower (CHR ''H'') = CHR ''h''"
  "char_lower (CHR ''I'') = CHR ''i''"
  "char_lower (CHR ''J'') = CHR ''j''"
  "char_lower (CHR ''K'') = CHR ''k''"
  "char_lower (CHR ''L'') = CHR ''l''"
  "char_lower (CHR ''M'') = CHR ''m''"
  "char_lower (CHR ''N'') = CHR ''n''"
  "char_lower (CHR ''O'') = CHR ''o''"
  "char_lower (CHR ''P'') = CHR ''p''"
  "char_lower (CHR ''Q'') = CHR ''q''"
  "char_lower (CHR ''R'') = CHR ''r''"
  "char_lower (CHR ''S'') = CHR ''s''"
  "char_lower (CHR ''T'') = CHR ''t''"
  "char_lower (CHR ''U'') = CHR ''u''"
  "char_lower (CHR ''V'') = CHR ''v''"
  "char_lower (CHR ''W'') = CHR ''w''"
  "char_lower (CHR ''X'') = CHR ''x''"
  "char_lower (CHR ''Y'') = CHR ''y''"
  "char_lower (CHR ''Z'') = CHR ''z''"
  "char_lower (CHR ''a'') = CHR ''a''"
  "char_lower (CHR ''b'') = CHR ''b''"
  "char_lower (CHR ''c'') = CHR ''c''"
  "char_lower (CHR ''d'') = CHR ''d''"
  "char_lower (CHR ''e'') = CHR ''e''"
  "char_lower (CHR ''f'') = CHR ''f''"
  "char_lower (CHR ''g'') = CHR ''g''"
  "char_lower (CHR ''h'') = CHR ''h''"
  "char_lower (CHR ''i'') = CHR ''i''"
  "char_lower (CHR ''j'') = CHR ''j''"
  "char_lower (CHR ''k'') = CHR ''k''"
  "char_lower (CHR ''l'') = CHR ''l''"
  "char_lower (CHR ''m'') = CHR ''m''"
  "char_lower (CHR ''n'') = CHR ''n''"
  "char_lower (CHR ''o'') = CHR ''o''"
  "char_lower (CHR ''p'') = CHR ''p''"
  "char_lower (CHR ''q'') = CHR ''q''"
  "char_lower (CHR ''r'') = CHR ''r''"
  "char_lower (CHR ''s'') = CHR ''s''"
  "char_lower (CHR ''t'') = CHR ''t''"
  "char_lower (CHR ''u'') = CHR ''u''"
  "char_lower (CHR ''v'') = CHR ''v''"
  "char_lower (CHR ''w'') = CHR ''w''"
  "char_lower (CHR ''x'') = CHR ''x''"
  "char_lower (CHR ''y'') = CHR ''y''"
  "char_lower (CHR ''z'') = CHR ''z''"
  "char_lower (CHR ''0'') = CHR ''0''"
  "char_lower (CHR ''1'') = CHR ''1''"
  "char_lower (CHR ''2'') = CHR ''2''"
  "char_lower (CHR ''3'') = CHR ''3''"
  "char_lower (CHR ''4'') = CHR ''4''"
  "char_lower (CHR ''5'') = CHR ''5''"
  "char_lower (CHR ''6'') = CHR ''6''"
  "char_lower (CHR ''7'') = CHR ''7''"
  "char_lower (CHR ''8'') = CHR ''8''"
  "char_lower (CHR ''9'') = CHR ''9''"
  "char_lower (CHR '' '') = CHR '' ''"
  "char_lower (CHR ''('') = CHR ''(''"
  "char_lower (CHR '')'') = CHR '')''"
  "char_lower (CHR ''.'') = CHR ''.''"
  "char_lower (CHR '','') = CHR '',''"
  "char_lower (CHR ''-'') = CHR ''-''"
  by (code_simp; rule TrueI)+

subsection \<open>Where a search stops\<close>

lemma search_skip: "runs r (b, c # cs) = [] \<Longrightarrow> search_from r b (c # cs) = search_from r (c # b) cs"
  by simp

text \<open>The characters in front of the match are passed one by one.\<close>

fun passes :: "regex \<Rightarrow> string \<Rightarrow> string \<Rightarrow> string \<Rightarrow> bool" where
  "passes r b [] t = True"
| "passes r b (c # cs) t = (runs r (b, c # cs @ t) = [] \<and> passes r (c # b) cs t)"

lemma search_passes: "passes r b p t \<Longrightarrow> search_from r b (p @ t) = search_from r (rev p @ b) t"
  by (induction p arbitrary: b) auto

lemma search_from_Some:
  "search_from r b a = Some ((b', a'), k, g) \<Longrightarrow>
     (k, g) \<in> set (runs r (b', a')) \<and> rev b' @ a' = rev b @ a"
  by (induction r b a rule: search_from.induct) (auto split: list.splits prod.splits)

lemma re_search_run:
  assumes "re_search r t = Some g"
  shows "\<exists>b a. g \<in> snd ` set (runs r (b, a)) \<and> rev b @ a = t"
proof -
  obtain b a k where "search_from r [] t = Some ((b, a), k, g)"
    using assms by (auto simp: re_search_def)
  from search_from_Some[OF this] have "g \<in> snd ` set (runs r (b, a)) \<and> rev b @ a = t" by force
  then show ?thesis by blast
qed

lemma runs_first: "runs r k = x # xs \<Longrightarrow> x \<in> set (runs r k)"
  by simp

lemma finditer_from_run:
  "((b', a'), g) \<in> set (finditer_from r n b a) \<Longrightarrow> g \<in> snd ` set (runs r (b', a')) \<and> rev b' @ a' = rev b @ a"
proof (induction a arbitrary: n b)
  case Nil
  obtain k h where "runs r (b, []) \<noteq> []" "hd (runs r (b, [])) = (k, h)" "b' = b" "a' = []" "g = h"
    using Nil by (cases "n = 0"; cases "runs r (b, [])"; cases "hd (runs r (b, []))") simp_all
  then have "h \<in> snd ` set (runs r (b, []))" by (metis hd_in_set imageI snd_conv)
  then show ?case using \<open>b' = b\<close> \<open>a' = []\<close> \<open>g = h\<close> by simp
next
  case (Cons c cs)
  show ?case
  proof (cases "n = 0")
    case False
    then show ?thesis using Cons.IH[of "n - 1" "c # b"] Cons.prems by simp
  next
    case True
    show ?thesis
    proof (cases "runs r (b, c # cs)")
      case Nil
      then show ?thesis using Cons.IH[of 0 "c # b"] Cons.prems True by simp
    next
      case (Cons m ms)
      obtain x y h where m: "m = ((x, y), h)" by (metis surj_pair)
      have first: "h \<in> snd ` set (runs r (b, c # cs))" using local.Cons by (simp add: m)
      show ?thesis
        using Cons.prems Cons.IH[of "length (consumed (b, c # cs) (x, y)) - 1" "c # b"] True local.Cons first
        by (auto simp: m)
    qed
  qed
qed

lemma re_finditer_run: "((b, a), g) \<in> set (re_finditer r t) \<Longrightarrow> g \<in> snd ` set (runs r (b, a)) \<and> rev b @ a = t"
  using finditer_from_run[of b a g r 0 "[]" t] by (simp add: re_finditer_def)

lemma search_none_iff:
  "search_from r b a = None \<longleftrightarrow> (\<forall>p s. a = p @ s \<longrightarrow> runs r (rev p @ b, s) = [])"
proof (induction a arbitrary: b)
  case Nil
  then show ?case by (auto split: list.splits prod.splits)
next
  case (Cons c cs)
  have "(\<forall>p s. c # cs = p @ s \<longrightarrow> runs r (rev p @ b, s) = [])
    \<longleftrightarrow> runs r (b, c # cs) = [] \<and> (\<forall>p s. cs = p @ s \<longrightarrow> runs r (rev p @ c # b, s) = [])"
    (is "?l \<longleftrightarrow> ?r")
  proof
    assume ?l
    then have "runs r (rev [] @ b, c # cs) = []" by (metis append_Nil)
    moreover have "runs r (rev p @ c # b, s) = []" if "cs = p @ s" for p s
      using \<open>?l\<close>[rule_format, of "c # p" s] that by simp
    ultimately show ?r by simp
  next
    assume ?r
    then show ?l by (auto simp: Cons_eq_append_conv)
  qed
  then show ?case using Cons.IH[of "c # b"] by (auto split: list.splits prod.splits)
qed

subsection \<open>Evaluation\<close>

text \<open>
  Rules that run a sequence from its left end, so that the simplifier looks at the rest of an expression
  only where its beginning has matched.
\<close>

lemma run_seq:
  "runs (Seq Boundary s) k = (if head_is is_word (fst k) \<noteq> head_is is_word (snd k) then runs s k else [])"
  "runs (Seq (NotBehind p) s) k = (if head_is p (fst k) then [] else runs s k)"
  "runs (Seq (NotAhead p) s) k = (if head_is p (snd k) then [] else runs s k)"
  "runs (Seq (Lit []) s) k = runs s k"
  "runs (Seq (Lit (w # ws)) s) (b, []) = []"
  "runs (Seq (Lit (w # ws)) s) (b, c # cs) = (if c = w then runs (Seq (Lit ws) s) (c # b, cs) else [])"
  "runs (Seq (Cls q) s) (b, []) = []"
  "runs (Seq (Cls q) s) (b, c # cs) = (if q c then runs s (c # b, cs) else [])"
  "runs (Seq (Many q) s) (b, []) = runs s (b, [])"
  "runs (Seq (Many q) s) (b, c # cs) = (if q c then runs (Seq (Many q) s) (c # b, cs) @ runs s (b, c # cs) else runs s (b, c # cs))"
  "runs (Seq (Alt r1 r2) s) k = runs (Seq r1 s) k @ runs (Seq r2 s) k"
  "runs (Seq (Opt r) s) k = runs (Seq r s) k @ runs s k"
  by (simp_all add: case_prod_beta comp_def)

text \<open>A group first finds its own matches, then each is continued.\<close>

definition continued :: "regex \<Rightarrow> (cursor \<times> captures) list \<Rightarrow> (cursor \<times> captures) list" where
  "continued s ms = concat (map (\<lambda>(k1, g1). map (\<lambda>(k2, g2). (k2, g1 @ g2)) (runs s k1)) ms)"

lemma continued_simps:
  "continued s [] = []"
  "continued s ((k1, g1) # ms) = map (\<lambda>(k2, g2). (k2, g1 @ g2)) (runs s k1) @ continued s ms"
  by (simp_all add: continued_def)

lemma runs_Seq: "runs (Seq r s) k = continued s (runs r k)"
  by (simp add: continued_def)

lemma continued_append: "continued t (ms @ ns) = continued t ms @ continued t ns"
  by (simp add: continued_def)

lemma continued_prefix: "continued t (map (\<lambda>(k, g). (k, h @ g)) ms) = map (\<lambda>(k, g). (k, h @ g)) (continued t ms)"
  by (induction ms) (auto simp: continued_simps case_prod_beta comp_def)

lemma continued_twice: "continued t (continued s ms) = continued (Seq s t) ms"
  by (induction ms) (auto simp: continued_simps continued_append continued_prefix runs_Seq simp del: runs.simps)

lemma run_seq_assoc: "runs (Seq (Seq r s) t) k = runs (Seq r (Seq s t)) k"
  by (simp add: runs_Seq continued_twice del: runs.simps)

lemma run_seq_group: "runs (Seq (Group n r) s) k = continued s (runs (Group n r) k)"
  by (simp add: continued_def)

lemmas run_rules = run_seq run_seq_assoc run_seq_group continued_simps

subsection \<open>What a group holds\<close>

text \<open>
  A captured text was consumed by the body of a group of that name; some groups take part in every match.
\<close>

fun group_bodies :: "regex \<Rightarrow> (string \<times> regex) list" where
  "group_bodies (Seq r s) = group_bodies r @ group_bodies s"
| "group_bodies (Alt r s) = group_bodies r @ group_bodies s"
| "group_bodies (Opt r) = group_bodies r"
| "group_bodies (Group n r) = (n, r) # group_bodies r"
| "group_bodies _ = []"

fun must_capture :: "string \<Rightarrow> regex \<Rightarrow> bool" where
  "must_capture n (Seq r s) = (must_capture n r \<or> must_capture n s)"
| "must_capture n (Alt r s) = (must_capture n r \<and> must_capture n s)"
| "must_capture n (Group m r) = (m = n \<or> must_capture n r)"
| "must_capture n _ = False"

definition consumed_by :: "regex \<Rightarrow> string \<Rightarrow> bool" where
  "consumed_by r w = (\<exists>k. \<exists>y \<in> set (runs r k). w = consumed k (fst y))"

lemma runs_SeqE:
  assumes "x \<in> set (runs (Seq r s) k)"
  obtains y z where "y \<in> set (runs r k)" and "z \<in> set (runs s (fst y))" and "fst x = fst z" and "snd x = snd y @ snd z"
proof -
  obtain y where y: "y \<in> set (runs r k)" and x: "x \<in> set (map (\<lambda>(k2, g2). (k2, snd y @ g2)) (runs s (fst y)))"
    using assms by (auto simp: case_prod_beta)
  then obtain z where "z \<in> set (runs s (fst y))" "x = (fst z, snd y @ snd z)" by (auto simp: case_prod_beta)
  with y show ?thesis by (intro that[of y z]) simp_all
qed

lemma runs_GroupE:
  assumes "x \<in> set (runs (Group n r) k)"
  obtains y where "y \<in> set (runs r k)" and "fst x = fst y" and "snd x = (n, consumed k (fst y)) # snd y"
  using assms by (auto simp: case_prod_beta)

lemma captured_by_body:
  "x \<in> set (runs r k) \<Longrightarrow> (n, w) \<in> set (snd x) \<Longrightarrow> \<exists>r'. (n, r') \<in> set (group_bodies r) \<and> consumed_by r' w"
proof (induction r arbitrary: x k)
  case (Seq r s)
  obtain y z where y: "y \<in> set (runs r k)" and z: "z \<in> set (runs s (fst y))" and "snd x = snd y @ snd z"
    using Seq.prems(1) by (rule runs_SeqE)
  then have "(n, w) \<in> set (snd y) \<or> (n, w) \<in> set (snd z)" using Seq.prems(2) by simp
  then show ?case using Seq.IH(1)[OF y] Seq.IH(2)[OF z] by auto
next
  case (Group m r)
  then obtain y where y: "y \<in> set (runs r k)" "snd x = (m, consumed k (fst y)) # snd y" by (elim runs_GroupE)
  show ?case
  proof (cases "(n, w) \<in> set (snd y)")
    case True
    then show ?thesis using Group.IH[OF y(1)] by auto
  next
    case False
    then have "n = m" "w = consumed k (fst y)" using Group.prems(2) y(2) by simp_all
    moreover have "consumed_by r (consumed k (fst y))" using y(1) consumed_by_def by blast
    ultimately show ?thesis by auto
  qed
next
  case (Alt r s)
  from Alt.prems(1) have "x \<in> set (runs r k) \<or> x \<in> set (runs s k)" by simp
  then show ?case using Alt.IH(1)[of x k] Alt.IH(2)[of x k] Alt.prems(2) by (elim disjE) force+
next
  case (Opt r)
  then have "x \<in> set (runs r k)" by auto
  then show ?case using Opt.IH[of x k] Opt.prems(2) by simp
next
  case (Lit u)
  then show ?case by (cases "at_literal u k") simp_all
next
  case (Cls p)
  then show ?case by (cases "snd k") (simp_all split: if_splits)
next
  case (Many p)
  then have "snd x = []" by auto
  then show ?case using Many.prems by simp
qed (simp_all split: if_splits)

lemma must_capture_captures: "x \<in> set (runs r k) \<Longrightarrow> must_capture n r \<Longrightarrow> n \<in> fst ` set (snd x)"
proof (induction r arbitrary: x k)
  case (Seq r s)
  obtain y z where y: "y \<in> set (runs r k)" and z: "z \<in> set (runs s (fst y))" and "snd x = snd y @ snd z"
    using Seq.prems(1) by (rule runs_SeqE)
  then show ?case using Seq.IH(1)[OF y] Seq.IH(2)[OF z] Seq.prems(2) by (simp add: image_Un) blast
next
  case (Group m r)
  then obtain y where "y \<in> set (runs r k)" "snd x = (m, consumed k (fst y)) # snd y" by (elim runs_GroupE)
  then show ?case using Group.IH[of y k] Group.prems(2) by auto
next
  case (Alt r s)
  from Alt.prems(1) have "x \<in> set (runs r k) \<or> x \<in> set (runs s k)" by simp
  then show ?case using Alt.IH(1)[of x k] Alt.IH(2)[of x k] Alt.prems(2) by fastforce
qed simp_all

lemma group_text_consumed:
  assumes "g \<in> snd ` set (runs r k)" and "must_capture n r"
  shows "\<exists>r'. (n, r') \<in> set (group_bodies r) \<and> consumed_by r' (group_text n g)"
proof -
  obtain x where x: "x \<in> set (runs r k)" and g: "g = snd x" using assms(1) by blast
  from must_capture_captures[OF x assms(2)] obtain w where w: "map_of g n = Some w"
    unfolding g by (metis map_of_eq_None_iff not_None_eq)
  from captured_by_body[OF x] map_of_SomeD[OF w] show ?thesis by (simp add: g[symmetric] group_text_def w)
qed

lemma search_group:
  "re_search r t = Some g \<Longrightarrow> must_capture n r \<Longrightarrow>
     \<exists>r'. (n, r') \<in> set (group_bodies r) \<and> consumed_by r' (group_text n g)"
  using re_search_run group_text_consumed by blast

lemma finditer_group:
  "(k, g) \<in> set (re_finditer r t) \<Longrightarrow> must_capture n r \<Longrightarrow>
     \<exists>r'. (n, r') \<in> set (group_bodies r) \<and> consumed_by r' (group_text n g)"
  by (cases k) (use re_finditer_run group_text_consumed in blast)

end
