(* ===== verification/UnitNormaliser.thy ===== *)
theory UnitNormaliser
  imports PyRegex PyDecimal
begin

text \<open>
  \<^verbatim>\<open>services/extraction/normaliser/units.py\<close>: the scale a table header announces.  Texts are
  ASCII, where NFKC normalisation is the identity and the two alternatives that begin with the rupee
  sign cannot match.  The search is proved equal to a scan for the first of sixteen
  keywords, which shows what it takes for a scale.
\<close>

subsection \<open>The pattern\<close>

text \<open>A word with an optional plural, and such a word behind a prefix.\<close>

definition plural :: "string \<Rightarrow> regex" where
  "plural w = Seq (Lit w) (Opt (Lit ''s''))"

definition in_parens :: "string \<Rightarrow> regex" where
  "in_parens w = in_order [Lit ''(in '', plural w, Lit '')'']"

definition amounts_in :: "string \<Rightarrow> regex" where
  "amounts_in w = in_order [plural ''amount'', Lit '' in '', plural w]"

definition just_in :: "string \<Rightarrow> regex" where
  "just_in w = Seq (Lit ''in '') (plural w)"

definition rs_in :: "string \<Rightarrow> regex" where
  "rs_in w = in_order [Lit ''rs'', Opt (Lit ''.''), Lit '' in '', plural w]"

definition UNIT_PATTERN :: regex where
  "UNIT_PATTERN = one_of [
     Group ''trillion'' (one_of [plural ''trillion'', whole (Lit ''tr'')]),
     Group ''billion'' (one_of [plural ''billion'', whole (Lit ''bn''), whole (Lit ''b''),
       in_parens ''billion'', amounts_in ''billion'', just_in ''billion'']),
     Group ''million'' (one_of [plural ''million'', whole (Lit ''mm''), whole (Lit ''m''),
       in_parens ''million'', amounts_in ''million'', just_in ''million'', Lit ''mn'']),
     Group ''crore'' (one_of [plural ''crore'', whole (Lit ''cr''), just_in ''crore'',
       in_parens ''crore'', amounts_in ''crore'', rs_in ''crore'']),
     Group ''lakh'' (one_of [plural ''lakh'', plural ''lac'', whole (Lit ''lk''), just_in ''lakh'', just_in ''lac'',
       in_parens ''lakh'', in_parens ''lac'', amounts_in ''lakh'', rs_in ''lakh'']),
     Group ''thousand'' (one_of [plural ''thousand'', whole (Lit ''k''),
       in_parens ''thousand'', amounts_in ''thousand'', just_in ''thousand'', whole (Lit ''thsd'')])]"

definition UNIT_SCALE_MAP :: "(string \<times> decimal) list" where
  "UNIT_SCALE_MAP =
     [(''trillion'', Dec 1000000000000 0), (''billion'', Dec 1000000000 0), (''million'', Dec 1000000 0),
      (''crore'', Dec 10000000 0), (''lakh'', Dec 100000 0), (''thousand'', Dec 1000 0)]"

text \<open>\<open>match.lastgroup\<close>: the groups are alternatives, so it is the one that matched.\<close>

definition lastgroup :: "captures \<Rightarrow> string option" where
  "lastgroup g = (if g = [] then None else Some (fst (last g)))"

definition extract_unit_multiplier :: "string option \<Rightarrow> decimal" where
  "extract_unit_multiplier text =
     (case text of
        None \<Rightarrow> Dec 1 0
      | Some t \<Rightarrow>
          if t = [] then Dec 1 0
          else (let normalised = str_lower t in
                case re_search UNIT_PATTERN normalised of
                  None \<Rightarrow> Dec 1 0
                | Some g \<Rightarrow> (case lastgroup g of
                      None \<Rightarrow> Dec 1 0
                    | Some n \<Rightarrow> (case map_of UNIT_SCALE_MAP n of None \<Rightarrow> Dec 1 0 | Some d \<Rightarrow> d))))"

definition extract_unit_multipliers :: "string option list \<Rightarrow> decimal list" where
  "extract_unit_multipliers texts = map extract_unit_multiplier texts"

definition known_scales :: "(string \<times> decimal) list" where
  "known_scales = UNIT_SCALE_MAP"

subsection \<open>Keywords\<close>

text \<open>
  The specification: a keyword counts wherever it stands, in the middle of a word too, or
  only as a word of its own; the first one of the text decides.
\<close>

definition ANYWHERE :: "(string \<times> decimal) list" where
  "ANYWHERE =
     [(''trillion'', Dec 1000000000000 0), (''billion'', Dec 1000000000 0), (''million'', Dec 1000000 0),
      (''mn'', Dec 1000000 0), (''crore'', Dec 10000000 0), (''lakh'', Dec 100000 0), (''lac'', Dec 100000 0),
      (''thousand'', Dec 1000 0)]"

definition AS_WORD :: "(string \<times> decimal) list" where
  "AS_WORD =
     [(''tr'', Dec 1000000000000 0), (''bn'', Dec 1000000000 0), (''b'', Dec 1000000000 0), (''mm'', Dec 1000000 0),
      (''m'', Dec 1000000 0), (''cr'', Dec 10000000 0), (''lk'', Dec 100000 0), (''k'', Dec 1000 0), (''thsd'', Dec 1000 0)]"

definition word_here :: "string \<Rightarrow> string \<Rightarrow> string \<Rightarrow> bool" where
  "word_here w b a = (\<not> head_is is_word b \<and> starts w a \<and> \<not> head_is is_word (drop (length w) a))"

definition keyword_here :: "string \<Rightarrow> string \<Rightarrow> decimal option" where
  "keyword_here b a =
     (case find (\<lambda>(w, d). starts w a) ANYWHERE of
        Some (w, d) \<Rightarrow> Some d
      | None \<Rightarrow> map_option snd (find (\<lambda>(w, d). word_here w b a) AS_WORD))"

fun first_keyword :: "string \<Rightarrow> string \<Rightarrow> decimal" where
  "first_keyword b [] = Dec 1 0"
| "first_keyword b (c # cs) = (case keyword_here b (c # cs) of Some d \<Rightarrow> d | None \<Rightarrow> first_keyword (c # b) cs)"

subsection \<open>The pattern finds the first keyword\<close>

text \<open>Whether an expression matches at a cursor, without the captures.\<close>

definition fires :: "regex \<Rightarrow> cursor \<Rightarrow> bool" where
  "fires r k = (runs r k \<noteq> [])"

lemma fires_Alt: "fires (Alt r s) k = (fires r k \<or> fires s k)"
  by (simp add: fires_def)

lemma fires_Group: "fires (Group n r) k = fires r k"
  by (simp add: fires_def)

lemma fires_plural: "fires (plural w) (b, a) = starts w a"
  by (simp add: fires_def plural_def at_literal_starts)

lemma runs_lit: "runs (Lit w) (b, a) = (if starts w a then [((rev w @ b, drop (length w) a), [])] else [])"
  by (simp add: at_literal_starts)

lemma fires_lit: "fires (Lit w) (b, a) = starts w a"
  by (simp add: fires_def at_literal_starts)

lemma fires_lit_Seq: "fires (Seq (Lit w) r) (b, a) = (starts w a \<and> fires r (rev w @ b, drop (length w) a))"
  by (simp add: fires_def at_literal_starts)

lemma fires_opt_Seq:
  "fires (Seq (Opt (Lit w)) r) (b, a) = (starts w a \<and> fires r (rev w @ b, drop (length w) a) \<or> fires r (b, a))"
  by (simp add: fires_def at_literal_starts)

lemma fires_plural_Seq:
  "fires (Seq (plural w) r) (b, a) =
     (starts w a \<and> (fires (Seq (Opt (Lit ''s'')) r) (rev w @ b, drop (length w) a)))"
  by (auto simp: fires_def plural_def at_literal_starts)

lemma fires_word:
  assumes "w \<noteq> []" "list_all is_word w"
  shows "fires (whole (Lit w)) (b, a) = word_here w b a"
proof (cases "starts w a")
  case False
  then show ?thesis by (simp add: fires_def at_literal_starts word_here_def)
next
  case True
  then obtain t where a: "a = w @ t" by (auto simp: starts_split)
  obtain x v where w: "w = x # v" using assms(1) by (cases w) auto
  obtain y u where r: "rev w = y # u" using assms(1) by (cases "rev w") auto
  have x: "is_word x" using assms(2) by (simp add: w)
  have "y \<in> set w" by (metis r list.set_intros(1) set_rev)
  then have y: "is_word y" using assms(2) by (simp add: list_all_iff)
  have "runs Boundary (b, a) = (if head_is is_word b then [] else [((b, a), [])])" by (simp add: a w x)
  moreover have "runs Boundary (rev w @ b, t) = (if head_is is_word t then [] else [((rev w @ b, t), [])])"
    by (simp add: r y del: rev.simps)
  moreover have "runs (Lit w) (b, a) = [((rev w @ b, t), [])]" using True by (simp add: at_literal_starts a)
  ultimately show ?thesis using True by (simp add: fires_def word_here_def a del: runs.simps(1,8))
qed

lemmas fires_rules = fires_Alt fires_Group fires_plural fires_lit fires_lit_Seq fires_opt_Seq fires_plural_Seq

text \<open>Nothing between the beginning of a prefix and its keyword counts.\<close>

lemma first_keyword_prefix:
  "first_keyword b (''(in '' @ t) = first_keyword (rev ''(in '' @ b) t"
  "first_keyword b (''in '' @ t) = first_keyword (rev ''in '' @ b) t"
  "first_keyword b (''amount in '' @ t) = first_keyword (rev ''amount in '' @ b) t"
  "first_keyword b (''amounts in '' @ t) = first_keyword (rev ''amounts in '' @ b) t"
  "first_keyword b (''rs in '' @ t) = first_keyword (rev ''rs in '' @ b) t"
  "first_keyword b (''rs. in '' @ t) = first_keyword (rev ''rs. in '' @ b) t"
  by (simp_all add: keyword_here_def ANYWHERE_def AS_WORD_def word_here_def is_word_def is_letter_def)

lemma keyword_first: "keyword_here b a = Some d \<Longrightarrow> first_keyword b a = d"
  by (cases a) (simp_all add: keyword_here_def ANYWHERE_def AS_WORD_def word_here_def)

lemma keyword_starts:
  "keyword_here b (''trillion'' @ t) = Some (Dec 1000000000000 0)"
  "keyword_here b (''billion'' @ t) = Some (Dec 1000000000 0)"
  "keyword_here b (''million'' @ t) = Some (Dec 1000000 0)"
  "keyword_here b (''mn'' @ t) = Some (Dec 1000000 0)"
  "keyword_here b (''crore'' @ t) = Some (Dec 10000000 0)"
  "keyword_here b (''lakh'' @ t) = Some (Dec 100000 0)"
  "keyword_here b (''lac'' @ t) = Some (Dec 100000 0)"
  "keyword_here b (''thousand'' @ t) = Some (Dec 1000 0)"
  by (simp_all add: keyword_here_def ANYWHERE_def)

lemma starts_stops:
  assumes "\<not> head_is is_word t" "is_word x"
  shows "starts (x # w) t = False"
  using assms by (cases t) auto

lemma word_letters [simp]:
  "is_word (CHR ''a'')" "is_word (CHR ''h'')" "is_word (CHR ''i'')" "is_word (CHR ''n'')" "is_word (CHR ''o'')"
  "is_word (CHR ''r'')" "is_word (CHR ''m'')" "is_word (CHR ''s'')" "is_word (CHR ''k'')"
  by (simp_all add: is_word_def is_letter_def)

lemma keyword_words:
  assumes "word_here w b a" "map_of AS_WORD w = Some d"
  shows "keyword_here b a = Some d"
proof -
  obtain t where a: "a = w @ t" and b: "\<not> head_is is_word b" and t: "\<not> head_is is_word t"
    using assms(1) by (auto simp: word_here_def starts_split)
  have "w \<in> {''tr'', ''bn'', ''b'', ''mm'', ''m'', ''cr'', ''lk'', ''k'', ''thsd''}"
    using assms(2) by (auto simp: AS_WORD_def split: if_splits)
  then show ?thesis
    using assms(2) by (elim insertE emptyE; hypsubst; simp add: a b t keyword_here_def ANYWHERE_def AS_WORD_def word_here_def starts_stops[OF t])
qed

lemmas keyword_found = keyword_starts keyword_words

text \<open>The alternatives of a family: its keywords, or one of them behind a prefix.\<close>

lemma fires_prefixed:
  "fires (just_in w) (b, a) \<Longrightarrow> \<exists>t. a = ''in '' @ w @ t"
  "fires (in_parens w) (b, a) \<Longrightarrow> \<exists>t. a = ''(in '' @ w @ t"
  "fires (amounts_in w) (b, a) \<Longrightarrow> (\<exists>t. a = ''amount in '' @ w @ t) \<or> (\<exists>t. a = ''amounts in '' @ w @ t)"
  "fires (rs_in w) (b, a) \<Longrightarrow> (\<exists>t. a = ''rs in '' @ w @ t) \<or> (\<exists>t. a = ''rs. in '' @ w @ t)"
  by (auto simp: just_in_def in_parens_def amounts_in_def rs_in_def fires_rules starts_split)

lemma behind_prefix:
  assumes "fires (just_in w) (b, a) \<or> fires (in_parens w) (b, a) \<or> fires (amounts_in w) (b, a) \<or> fires (rs_in w) (b, a)"
    and "\<And>b t. keyword_here b (w @ t) = Some d"
  shows "first_keyword b a = d"
proof -
  have keyword: "first_keyword b' (w @ t) = d" for b' t using assms(2) by (rule keyword_first)
  have "\<exists>t. a = ''in '' @ w @ t \<or> a = ''(in '' @ w @ t \<or> a = ''amount in '' @ w @ t \<or> a = ''amounts in '' @ w @ t
      \<or> a = ''rs in '' @ w @ t \<or> a = ''rs. in '' @ w @ t"
    using assms(1) fires_prefixed by blast
  then obtain t where "a = ''in '' @ w @ t \<or> a = ''(in '' @ w @ t \<or> a = ''amount in '' @ w @ t \<or> a = ''amounts in '' @ w @ t
      \<or> a = ''rs in '' @ w @ t \<or> a = ''rs. in '' @ w @ t" by blast
  then show ?thesis
    by (elim disjE) (simp_all only: first_keyword_prefix keyword)
qed


fun no_groups :: "regex \<Rightarrow> bool" where
  "no_groups (Seq r s) = (no_groups r \<and> no_groups s)"
| "no_groups (Alt r s) = (no_groups r \<and> no_groups s)"
| "no_groups (Opt r) = no_groups r"
| "no_groups (Group n r) = False"
| "no_groups _ = True"

lemma no_groups_captures: "no_groups r \<Longrightarrow> list_all (\<lambda>x. snd x = []) (runs r k)"
proof (induction r arbitrary: k)
  case (Seq r s)
  then have "list_all (\<lambda>x. snd x = []) (runs r k)" "\<And>k. list_all (\<lambda>x. snd x = []) (runs s k)" by simp_all
  then show ?case by (fastforce simp: list_all_iff)
next
  case (Lit w)
  then show ?case by (cases "at_literal w k") simp_all
next
  case (Cls p)
  then show ?case by (cases "snd k") simp_all
qed (simp_all add: list_all_iff case_prod_beta ball_Un)

definition families :: "(string \<times> regex) list" where
  "families =
    [(''trillion'', one_of [plural ''trillion'', whole (Lit ''tr'')]),
     (''billion'', one_of [plural ''billion'', whole (Lit ''bn''), whole (Lit ''b''),
       in_parens ''billion'', amounts_in ''billion'', just_in ''billion'']),
     (''million'', one_of [plural ''million'', whole (Lit ''mm''), whole (Lit ''m''),
       in_parens ''million'', amounts_in ''million'', just_in ''million'', Lit ''mn'']),
     (''crore'', one_of [plural ''crore'', whole (Lit ''cr''), just_in ''crore'',
       in_parens ''crore'', amounts_in ''crore'', rs_in ''crore'']),
     (''lakh'', one_of [plural ''lakh'', plural ''lac'', whole (Lit ''lk''), just_in ''lakh'', just_in ''lac'',
       in_parens ''lakh'', in_parens ''lac'', amounts_in ''lakh'', rs_in ''lakh'']),
     (''thousand'', one_of [plural ''thousand'', whole (Lit ''k''),
       in_parens ''thousand'', amounts_in ''thousand'', just_in ''thousand'', whole (Lit ''thsd'')])]"

lemma unit_pattern_families: "UNIT_PATTERN = one_of (map (\<lambda>(n, r). Group n r) families)"
  by (simp add: UNIT_PATTERN_def families_def)

lemma families_no_groups: "list_all (no_groups \<circ> snd) families"
  by (simp add: families_def plural_def in_parens_def amounts_in_def just_in_def rs_in_def)

lemma first_family:
  assumes "list_all (no_groups \<circ> snd) fs"
  shows "(case runs (one_of (map (\<lambda>(n, r). Group n r) fs)) k of [] \<Rightarrow> None | (k', g) # _ \<Rightarrow> Some g)
       = map_option (\<lambda>(n, r). [(n, consumed k (fst (hd (runs r k))))]) (find (\<lambda>(n, r). fires r k) fs)"
  using assms
proof (induction fs)
  case Nil
  then show ?case by (simp split: list.splits)
next
  case (Cons f fs)
  obtain n r where f: "f = (n, r)" by fastforce
  have r: "no_groups r" using Cons.prems by (simp add: f)
  have here: "runs (Group n r) k = map (\<lambda>x. (fst x, [(n, consumed k (fst x))])) (runs r k)"
    using no_groups_captures[OF r, of k] by (auto simp: list_all_iff)
  show ?case
  proof (cases fs)
    case Nil
    then show ?thesis using here by (cases "runs r k") (simp_all add: f fires_def del: runs.simps)
  next
    case (Cons g gs)
    then have "one_of (map (\<lambda>(n, r). Group n r) (f # fs)) = Alt (Group n r) (one_of (map (\<lambda>(n, r). Group n r) fs))"
      by (simp add: f)
    then show ?thesis
      using here Cons.IH Cons.prems by (cases "runs r k") (simp_all add: f fires_def del: runs.simps(7))
  qed
qed


definition family_scale :: "string \<Rightarrow> decimal" where
  "family_scale n = (case map_of UNIT_SCALE_MAP n of None \<Rightarrow> Dec 1 0 | Some d \<Rightarrow> d)"

definition unit_here :: "cursor \<Rightarrow> decimal option" where
  "unit_here k = map_option (\<lambda>(n, r). family_scale n) (find (\<lambda>(n, r). fires r k) families)"

lemma unit_here_run:
  "(case runs UNIT_PATTERN k of [] \<Rightarrow> None | (k', g) # _ \<Rightarrow> Some (case lastgroup g of None \<Rightarrow> Dec 1 0 | Some n \<Rightarrow> family_scale n)) = unit_here k"
proof -
  have "(case runs UNIT_PATTERN k of [] \<Rightarrow> None | (k', g) # _ \<Rightarrow> Some g)
      = map_option (\<lambda>(n, r). [(n, consumed k (fst (hd (runs r k))))]) (find (\<lambda>(n, r). fires r k) families)"
    unfolding unit_pattern_families by (rule first_family[OF families_no_groups])
  then show ?thesis
    by (cases "runs UNIT_PATTERN k"; cases "find (\<lambda>(n, r). fires r k) families")
      (auto simp: unit_here_def lastgroup_def case_prod_beta)
qed

text \<open>A family that matches has the scale of the first keyword; where none does there is no keyword.\<close>

lemma fires_keyword:
  assumes "starts w a \<or> word_here w b a" "keyword_here b a = Some d'" "d' = d"
  shows "first_keyword b a = d"
  using assms keyword_first by blast

lemma fires_words:
  "fires (whole (Lit ''tr'')) (b, a) = word_here ''tr'' b a"
  "fires (whole (Lit ''bn'')) (b, a) = word_here ''bn'' b a"
  "fires (whole (Lit ''b'')) (b, a) = word_here ''b'' b a"
  "fires (whole (Lit ''mm'')) (b, a) = word_here ''mm'' b a"
  "fires (whole (Lit ''m'')) (b, a) = word_here ''m'' b a"
  "fires (whole (Lit ''cr'')) (b, a) = word_here ''cr'' b a"
  "fires (whole (Lit ''lk'')) (b, a) = word_here ''lk'' b a"
  "fires (whole (Lit ''k'')) (b, a) = word_here ''k'' b a"
  "fires (whole (Lit ''thsd'')) (b, a) = word_here ''thsd'' b a"
  by (rule fires_word; simp add: is_word_def is_letter_def)+

lemma starts_keyword:
  assumes "starts w a" "map_of ANYWHERE w = Some d"
  shows "first_keyword b a = d"
proof -
  obtain t where a: "a = w @ t" using assms(1) by (auto simp: starts_split)
  have "w \<in> {''trillion'', ''billion'', ''million'', ''mn'', ''crore'', ''lakh'', ''lac'', ''thousand''}"
    using assms(2) by (auto simp: ANYWHERE_def split: if_splits)
  then show ?thesis
    using assms(2) by (elim insertE emptyE; hypsubst; simp add: a keyword_first keyword_starts ANYWHERE_def del: first_keyword.simps append_Cons)
qed

lemma word_keyword: "word_here w b a \<Longrightarrow> map_of AS_WORD w = Some d \<Longrightarrow> first_keyword b a = d"
  using keyword_words keyword_first by blast

lemma prefixed_keyword:
  assumes "fires (just_in w) (b, a) \<or> fires (in_parens w) (b, a) \<or> fires (amounts_in w) (b, a) \<or> fires (rs_in w) (b, a)"
    and "map_of ANYWHERE w = Some d"
  shows "first_keyword b a = d"
proof -
  have "w \<in> {''trillion'', ''billion'', ''million'', ''mn'', ''crore'', ''lakh'', ''lac'', ''thousand''}"
    using assms(2) by (auto simp: ANYWHERE_def split: if_splits)
  then have "keyword_here b' (w @ t) = Some d" for b' t
    using assms(2) by (elim insertE emptyE; hypsubst; simp only: keyword_starts; simp add: ANYWHERE_def)
  then show ?thesis using assms(1) behind_prefix by blast
qed

lemmas family_rules = starts_keyword word_keyword prefixed_keyword[OF disjI1]
  prefixed_keyword[OF disjI2, OF disjI1] prefixed_keyword[OF disjI2, OF disjI2, OF disjI1]
  prefixed_keyword[OF disjI2, OF disjI2, OF disjI2]

lemma family_fires:
  assumes "(n, r) \<in> set families" "fires r (b, a)"
  shows "first_keyword b a = family_scale n"
proof -
  have "list_all (\<lambda>(n, r). fires r (b, a) \<longrightarrow> first_keyword b a = family_scale n) families"
    unfolding families_def list.pred_inject prod.case one_of.simps fires_Alt fires_plural fires_words fires_lit family_scale_def
    apply (intro conjI impI list.pred_inject(1))
         apply (elim disjE; erule family_rules; simp add: ANYWHERE_def AS_WORD_def UNIT_SCALE_MAP_def)+
    done
  then show ?thesis using assms by (auto simp: list_all_iff)
qed

lemma find_SomeD: "find P xs = Some x \<Longrightarrow> P x \<and> x \<in> set xs"
  by (induction xs) (auto split: if_splits)

lemma no_family:
  assumes "\<forall>f \<in> set families. \<not> fires (snd f) (b, a)"
  shows "keyword_here b a = None"
  using assms by (simp add: families_def fires_Alt fires_plural fires_words fires_lit keyword_here_def ANYWHERE_def AS_WORD_def)

lemma unit_here_keyword:
  "case unit_here (b, a) of Some d \<Rightarrow> first_keyword b a = d | None \<Rightarrow> keyword_here b a = None"
proof (cases "find (\<lambda>(n, r). fires r (b, a)) families")
  case None
  then have "\<forall>f \<in> set families. \<not> fires (snd f) (b, a)" by (auto simp: find_None_iff)
  then show ?thesis using None no_family by (simp add: unit_here_def)
next
  case (Some f)
  obtain n r where f: "f = (n, r)" by fastforce
  have "(n, r) \<in> set families" "fires r (b, a)" using find_SomeD[OF Some] by (simp_all add: f)
  then show ?thesis using Some family_fires by (simp add: unit_here_def f)
qed

definition scale_of_match :: "(cursor \<times> cursor \<times> captures) option \<Rightarrow> decimal" where
  "scale_of_match m = (case m of None \<Rightarrow> Dec 1 0 | Some (k, k', g) \<Rightarrow>
     (case lastgroup g of None \<Rightarrow> Dec 1 0 | Some n \<Rightarrow> family_scale n))"

lemma search_first_keyword: "scale_of_match (search_from UNIT_PATTERN b a) = first_keyword b a"
proof (induction a arbitrary: b)
  case Nil
  show ?case
    using unit_here_run[of "(b, [])"] unit_here_keyword[of b "[]"]
    by (auto simp: scale_of_match_def split: list.splits prod.splits option.splits)
next
  case (Cons c cs)
  then show ?case
    using unit_here_run[of "(b, c # cs)"] unit_here_keyword[of b "c # cs"]
    by (auto simp: scale_of_match_def split: list.splits prod.splits option.splits)
qed


subsection \<open>What a header says\<close>

lemma multiplier_scan:
  "extract_unit_multiplier text = (case text of None \<Rightarrow> Dec 1 0 | Some t \<Rightarrow> first_keyword [] (str_lower t))"
proof (cases "text")
  case None
  then show ?thesis by (simp add: extract_unit_multiplier_def)
next
  case (Some t)
  show ?thesis
  proof (cases "t = []")
    case True
    then show ?thesis using Some by (simp add: extract_unit_multiplier_def str_lower_def)
  next
    case False
    then have "extract_unit_multiplier (Some t) = scale_of_match (search_from UNIT_PATTERN [] (str_lower t))"
      by (auto simp: extract_unit_multiplier_def Let_def re_search_def scale_of_match_def family_scale_def split: option.splits)
    then show ?thesis using Some by (simp add: search_first_keyword)
  qed
qed

lemma first_keyword_nontrivial:
  assumes "starts w a" "map_of ANYWHERE w = Some d"
  shows "\<exists>w' d'. (w', d') \<in> set (ANYWHERE @ AS_WORD) \<and> first_keyword b (p @ a) = d'"
proof (induction p arbitrary: b)
  case Nil
  have "first_keyword b a = d" using assms by (rule starts_keyword)
  then show ?case using map_of_SomeD[OF assms(2)] by auto
next
  case (Cons c p)
  show ?case
  proof (cases "keyword_here b (c # p @ a)")
    case None
    then show ?thesis using Cons.IH[of "c # b"] by simp
  next
    case (Some d')
    then have "\<exists>w'. (w', d') \<in> set (ANYWHERE @ AS_WORD)"
      unfolding keyword_here_def by (auto split: option.splits dest!: find_SomeD)
    then show ?thesis using Some by auto
  qed
qed

text \<open>
  A header with one of the eight words inside a longer word is scaled: \<open>Column\<close> (\<open>mn\<close>) counts in
  millions, \<open>Replacement\<close> (\<open>lac\<close>) in lakhs.
\<close>

lemma scaled_inside_words:
  assumes "str_lower t = p @ w @ q" "w \<in> set (map fst ANYWHERE)"
  shows "extract_unit_multiplier (Some t) \<noteq> Dec 1 0"
proof -
  obtain d where "map_of ANYWHERE w = Some d" using assms(2) by (auto simp: ANYWHERE_def)
  then obtain w' d' where "(w', d') \<in> set (ANYWHERE @ AS_WORD)" "first_keyword [] (str_lower t) = d'"
    using first_keyword_nontrivial[of w "w @ q" d "[]" p] assms(1) by auto
  then show ?thesis by (auto simp: multiplier_scan ANYWHERE_def AS_WORD_def)
qed

lemma header_examples:
  "extract_unit_multiplier (Some ''(In Millions of USD)'') = Dec 1000000 0"
  "extract_unit_multiplier (Some ''Rs. in Lakhs'') = Dec 100000 0"
  "extract_unit_multiplier (Some ''Net Income (BN)'') = Dec 1000000000 0"
  "extract_unit_multiplier (Some ''Operating Profit'') = Dec 1 0"
  "extract_unit_multiplier (Some ''Column 2'') = Dec 1000000 0"
  "extract_unit_multiplier (Some ''Replacement cost'') = Dec 100000 0"
  "extract_unit_multiplier (Some ''Class B shares'') = Dec 1000000000 0"
  by (simp_all add: multiplier_scan str_lower_def lower_letters keyword_here_def ANYWHERE_def AS_WORD_def word_here_def
      is_word_def is_letter_def is_digit_def)

text \<open>
  C32: The multiplier of a text is the scale of the first keyword in it, read without regard to case: one of
  eight words wherever it stands, inside another word too, or one of nine abbreviations standing
  alone; a text without any, the empty one and none at all have the multiplier one.  The forms with a
  prefix, like \<open>(in millions)\<close>, never change the answer.
\<close>

theorem unit_is_first_keyword:
  "extract_unit_multiplier text = (case text of None \<Rightarrow> Dec 1 0 | Some t \<Rightarrow> first_keyword [] (str_lower t))"
  by (rule multiplier_scan)

end
