(* ===== verification/PeriodNormaliser.thy ===== *)
theory PeriodNormaliser
  imports PyRegex BulkProcessor
begin

text \<open>
  \<^verbatim>\<open>services/extraction/normaliser/fiscal_year.py\<close>: fiscal year and period type of a free-form label,
  by a cascade of regular expressions, the most specific first.  Texts are ASCII: NFKC normalisation is the
  identity there and the typographic apostrophe does not occur.
\<close>

subsection \<open>Periods\<close>

datatype period_type = FY | Q1 | Q2 | Q3 | Q4 | H1 | H2

fun pt_value :: "period_type \<Rightarrow> string" where
  "pt_value FY = ''FY''"
| "pt_value Q1 = ''Q1''"
| "pt_value Q2 = ''Q2''"
| "pt_value Q3 = ''Q3''"
| "pt_value Q4 = ''Q4''"
| "pt_value H1 = ''H1''"
| "pt_value H2 = ''H2''"

definition is_quarterly :: "period_type \<Rightarrow> bool" where
  "is_quarterly p = (p \<in> {Q1, Q2, Q3, Q4})"

definition is_half_year :: "period_type \<Rightarrow> bool" where
  "is_half_year p = (p \<in> {H1, H2})"

definition is_annual :: "period_type \<Rightarrow> bool" where
  "is_annual p = (p = FY)"

definition to_bulk_processor_token :: "period_type \<Rightarrow> py_error + string" where
  "to_bulk_processor_token p = (if p \<in> {H1, H2} then Inl NotImplementedError else Inr (pt_value p))"

record normalized_period =
  np_fiscal_year :: "int option"
  np_period_type :: "period_type option"
  np_raw_label :: string

definition is_fully_resolved :: "normalized_period \<Rightarrow> bool" where
  "is_fully_resolved p = (np_fiscal_year p \<noteq> None \<and> np_period_type p \<noteq> None)"

subsection \<open>Months\<close>

definition PERIOD_MONTHS :: "(string \<times> string) list" where
  "PERIOD_MONTHS =
     [(''jan'', ''january''), (''feb'', ''february''), (''mar'', ''march''), (''apr'', ''april''), (''may'', ''may''),
      (''jun'', ''june''), (''jul'', ''july''), (''aug'', ''august''), (''sep'', ''september''),
      (''oct'', ''october''), (''nov'', ''november''), (''dec'', ''december'')]"

definition MONTH_TO_CALENDAR_Q :: "(string \<times> period_type) list" where
  "MONTH_TO_CALENDAR_Q =
     [(''jan'', Q1), (''january'', Q1), (''feb'', Q1), (''february'', Q1), (''mar'', Q1), (''march'', Q1),
      (''apr'', Q2), (''april'', Q2), (''may'', Q2), (''jun'', Q2), (''june'', Q2),
      (''jul'', Q3), (''july'', Q3), (''aug'', Q3), (''august'', Q3), (''sep'', Q3), (''september'', Q3),
      (''oct'', Q4), (''october'', Q4), (''nov'', Q4), (''november'', Q4), (''dec'', Q4), (''december'', Q4)]"

definition MONTH_TO_HALF :: "(string \<times> period_type) list" where
  "MONTH_TO_HALF =
     [(''jan'', H1), (''january'', H1), (''feb'', H1), (''february'', H1), (''mar'', H1), (''march'', H1),
      (''apr'', H1), (''april'', H1), (''may'', H1), (''jun'', H1), (''june'', H1),
      (''jul'', H2), (''july'', H2), (''aug'', H2), (''august'', H2), (''sep'', H2), (''september'', H2),
      (''oct'', H2), (''october'', H2), (''nov'', H2), (''november'', H2), (''dec'', H2), (''december'', H2)]"

definition MONTH_ALT :: regex where
  "MONTH_ALT = one_of (map Lit
     [''january'', ''february'', ''march'', ''april'', ''may'', ''june'',
      ''july'', ''august'', ''september'', ''october'', ''november'', ''december'',
      ''jan'', ''feb'', ''mar'', ''apr'', ''jun'', ''jul'', ''aug'', ''sep'', ''oct'', ''nov'', ''dec''])"

subsection \<open>The patterns\<close>

definition class_of :: "string \<Rightarrow> char \<Rightarrow> bool" where
  "class_of s c = (c \<in> set s)"

definition RE_EXPLICIT_Q :: regex where
  "RE_EXPLICIT_Q = whole (Seq (Lit ''q'') (Group ''1'' (Cls (class_of ''1234''))))"

definition RE_WALL_STREET_Q :: regex where
  "RE_WALL_STREET_Q = whole (in_order [Group ''1'' (Cls (class_of ''1234'')), Many is_space, Lit ''q''])"

definition RE_EXPLICIT_H :: regex where
  "RE_EXPLICIT_H = whole (Seq (Lit ''h'') (Group ''1'' (Cls (class_of ''12''))))"

definition RE_ORDINAL_Q :: regex where
  "RE_ORDINAL_Q = whole (in_order
     [Group ''1'' (one_of (map Lit [''first'', ''second'', ''third'', ''fourth''])), spaces1, Lit ''quarter''])"

definition ORDINAL_TO_Q :: "(string \<times> period_type) list" where
  "ORDINAL_TO_Q = [(''first'', Q1), (''second'', Q2), (''third'', Q3), (''fourth'', Q4)]"

definition RE_ORDINAL_H :: regex where
  "RE_ORDINAL_H = whole (in_order [Group ''1'' (one_of (map Lit [''first'', ''second''])), spaces1, Lit ''half''])"

definition ORDINAL_TO_H :: "(string \<times> period_type) list" where
  "ORDINAL_TO_H = [(''first'', H1), (''second'', H2)]"

definition RE_N_MONTHS_ENDED :: regex where
  "RE_N_MONTHS_ENDED = in_order
     [Boundary, Group ''months_word'' (one_of (map Lit [''three'', ''six'', ''nine'', ''twelve''])), spaces1,
      Lit ''month'', Opt (Lit ''s''), spaces1, Lit ''ended'', spaces1, Group ''month_name'' MONTH_ALT]"

definition MONTHS_WORD_TO_DURATION :: "(string \<times> nat) list" where
  "MONTHS_WORD_TO_DURATION = [(''three'', 3), (''six'', 6), (''nine'', 9), (''twelve'', 12)]"

definition twelve_months :: regex where
  "twelve_months = in_order [Lit ''twelve'', spaces1, Lit ''month'', Opt (Lit ''s'')]"

definition RE_ANNUAL :: regex where
  "RE_ANNUAL = whole (one_of
     [Seq (Lit ''annual'') (Opt (Seq spaces1 (Lit ''report''))),
      in_order [Lit ''full'', Opt (Cls (class_of ''- '')), Lit ''year''],
      in_order [Lit ''year'', spaces1, Lit ''ended''],
      in_order [twelve_months, spaces1, Lit ''ended''],
      twelve_months,
      in_order [Lit ''fiscal'', spaces1, Lit ''year''],
      in_order [Lit ''for'', spaces1, Lit ''the'', spaces1, Lit ''year'']])"

definition RE_BARE_FY :: regex where
  "RE_BARE_FY = whole (Lit ''fy'')"

definition year_digits :: regex where
  "year_digits = in_order [one_of [Lit ''19'', Lit ''20''], Cls is_digit, Cls is_digit]"

definition RE_YEAR_4 :: regex where
  "RE_YEAR_4 = whole (Group ''1'' year_digits)"

definition RE_YEAR_INDIA_RANGE :: regex where
  "RE_YEAR_INDIA_RANGE = whole (in_order [Group ''1'' year_digits, Lit ''-'', Cls is_digit, Cls is_digit])"

definition RE_YEAR_2_ANCHORED :: regex where
  "RE_YEAR_2_ANCHORED = whole (in_order
     [one_of [Lit ''fy'', Seq (Lit ''q'') (Cls (class_of ''1234'')), Seq (Lit ''h'') (Cls (class_of ''12''))],
      Opt (Lit [CHR 0x27]), Group ''1'' (Seq (Cls is_digit) (Cls is_digit))])"

definition digit_or_slash :: "char \<Rightarrow> bool" where
  "digit_or_slash c = (is_digit c \<or> c = CHR ''/'')"

definition RE_YEAR_2_STANDALONE :: regex where
  "RE_YEAR_2_STANDALONE = in_order
     [NotBehind digit_or_slash, NotBehind is_digit, whole (Group ''1'' (Seq (Cls is_digit) (Cls is_digit))),
      NotAhead digit_or_slash]"

definition TWO_DIGIT_CUTOFF :: int where
  "TWO_DIGIT_CUTOFF = 30"

subsection \<open>The extraction\<close>

definition normalise_text :: "string \<Rightarrow> string" where
  "normalise_text t = str_strip (str_lower t)"

definition two_digit_year :: "int \<Rightarrow> int" where
  "two_digit_year yy = (if yy \<le> TWO_DIGIT_CUTOFF then 2000 + yy else 1900 + yy)"

text \<open>
  The last resort: of the lone two-digit numbers the first that is not zero and not preceded, within ten
  characters, by the name of a month.
\<close>

fun standalone_year :: "(cursor \<times> captures) list \<Rightarrow> int option" where
  "standalone_year [] = None"
| "standalone_year (((b, a), g) # ms) =
     (let raw_yy = digits_value (group_text ''1'' g)
      in if raw_yy < 1 then standalone_year ms
         else if re_search MONTH_ALT (rev (take 10 b)) \<noteq> None then standalone_year ms
         else Some (two_digit_year raw_yy))"

definition extract_year :: "string \<Rightarrow> int option" where
  "extract_year normalised =
     (case re_search RE_YEAR_INDIA_RANGE normalised of
        Some m \<Rightarrow> Some (digits_value (group_text ''1'' m))
      | None \<Rightarrow>
     (case re_search RE_YEAR_4 normalised of
        Some m \<Rightarrow> Some (digits_value (group_text ''1'' m))
      | None \<Rightarrow>
     (case re_search RE_YEAR_2_ANCHORED normalised of
        Some m \<Rightarrow> Some (two_digit_year (digits_value (group_text ''1'' m)))
      | None \<Rightarrow> standalone_year (re_finditer RE_YEAR_2_STANDALONE normalised))))"

text \<open>\<open>PeriodType(f"Q{digit}")\<close>; the patterns admit no other digits.\<close>

definition period_type_of :: "string \<Rightarrow> period_type option" where
  "period_type_of v = map_of (map (\<lambda>p. (pt_value p, p)) [FY, Q1, Q2, Q3, Q4, H1, H2]) v"

definition months_ended :: "captures \<Rightarrow> period_type option option" where
  "months_ended m =
     (case map_of MONTHS_WORD_TO_DURATION (group_text ''months_word'' m) of
        None \<Rightarrow> None
      | Some duration \<Rightarrow>
          (let month_name = group_text ''month_name'' m
           in if duration = 12 then Some (Some FY)
              else if duration = 3 then Some (map_of MONTH_TO_CALENDAR_Q month_name)
              else if duration = 6 then Some (map_of MONTH_TO_HALF month_name)
              else if duration = 9 then Some (Some Q3)
              else None))"

definition annual_type :: "string \<Rightarrow> period_type option" where
  "annual_type normalised =
     (if re_search RE_ANNUAL normalised \<noteq> None then Some FY
      else if re_search RE_BARE_FY normalised \<noteq> None then Some FY else None)"

definition extract_period_type :: "string \<Rightarrow> period_type option" where
  "extract_period_type normalised =
     (case re_search RE_EXPLICIT_Q normalised of Some m \<Rightarrow> period_type_of (''Q'' @ group_text ''1'' m) | None \<Rightarrow>
     (case re_search RE_WALL_STREET_Q normalised of Some m \<Rightarrow> period_type_of (''Q'' @ group_text ''1'' m) | None \<Rightarrow>
     (case re_search RE_EXPLICIT_H normalised of Some m \<Rightarrow> period_type_of (''H'' @ group_text ''1'' m) | None \<Rightarrow>
     (case re_search RE_ORDINAL_Q normalised of Some m \<Rightarrow> map_of ORDINAL_TO_Q (group_text ''1'' m) | None \<Rightarrow>
     (case re_search RE_ORDINAL_H normalised of Some m \<Rightarrow> map_of ORDINAL_TO_H (group_text ''1'' m) | None \<Rightarrow>
     (case re_search RE_N_MONTHS_ENDED normalised of
        Some m \<Rightarrow> (case months_ended m of Some r \<Rightarrow> r | None \<Rightarrow> annual_type normalised)
      | None \<Rightarrow> annual_type normalised))))))"

definition extract_fiscal_period :: "string option \<Rightarrow> normalized_period" where
  "extract_fiscal_period text =
     (let raw_label = (case text of None \<Rightarrow> [] | Some t \<Rightarrow> t)
      in if str_strip raw_label = [] then \<lparr>np_fiscal_year = None, np_period_type = None, np_raw_label = raw_label\<rparr>
         else (let normalised = normalise_text raw_label
               in \<lparr>np_fiscal_year = extract_year normalised, np_period_type = extract_period_type normalised,
                   np_raw_label = raw_label\<rparr>))"

definition extract_fiscal_periods :: "string option list \<Rightarrow> normalized_period list" where
  "extract_fiscal_periods texts = map extract_fiscal_period texts"


subsection \<open>The years that can come out\<close>

lemma digit_bounds: "is_digit c \<Longrightarrow> 0 \<le> digit c \<and> digit c \<le> 9"
  by (auto simp: is_digit_def digit_def)

lemma two_digits: "is_digit c \<Longrightarrow> is_digit d \<Longrightarrow> 0 \<le> digits_value [c, d] \<and> digits_value [c, d] \<le> 99"
  using digit_bounds[of c] digit_bounds[of d] by (simp add: digits_value_def)

lemma century_digits:
  "is_digit c \<Longrightarrow> is_digit d \<Longrightarrow> digits_value (''19'' @ [c, d]) = 1900 + digits_value [c, d]"
  "is_digit c \<Longrightarrow> is_digit d \<Longrightarrow> digits_value (''20'' @ [c, d]) = 2000 + digits_value [c, d]"
  by (simp_all add: digits_value_def digit_def)

lemma runs_two_digits:
  "x \<in> set (runs (Seq (Cls is_digit) (Cls is_digit)) k) \<Longrightarrow>
     \<exists>c d. is_digit c \<and> is_digit d \<and> fst (fst x) = d # c # fst k \<and> snd x = []"
  by (auto split: list.splits if_splits)

lemma runs_year_digits:
  "x \<in> set (runs year_digits k) \<Longrightarrow>
     \<exists>h c d. h \<in> {''19'', ''20''} \<and> is_digit c \<and> is_digit d \<and> fst (fst x) = d # c # rev h @ fst k \<and> snd x = []"
  by (cases k) (auto simp: year_digits_def at_literal_starts split: list.splits if_splits option.splits)


lemma consumed_two: "consumed_by (Seq (Cls is_digit) (Cls is_digit)) w \<Longrightarrow> \<exists>c d. is_digit c \<and> is_digit d \<and> w = [c, d]"
  by (auto simp: consumed_by_def consumed_def split: list.splits if_splits)

lemma consumed_year: "consumed_by year_digits w \<Longrightarrow> \<exists>c d. is_digit c \<and> is_digit d \<and> (w = ''19'' @ [c, d] \<or> w = ''20'' @ [c, d])"
  by (auto simp: consumed_by_def consumed_def dest!: runs_year_digits)

lemma four_digit_bounds: "consumed_by year_digits w \<Longrightarrow> 1900 \<le> digits_value w \<and> digits_value w \<le> 2099"
  using century_digits two_digits by (fastforce dest: consumed_year)

lemma two_digit_bounds:
  "consumed_by (Seq (Cls is_digit) (Cls is_digit)) w \<Longrightarrow> 1931 \<le> two_digit_year (digits_value w) \<and> two_digit_year (digits_value w) \<le> 2030"
  using two_digits by (fastforce simp: two_digit_year_def TWO_DIGIT_CUTOFF_def dest: consumed_two)

lemma year_bodies:
  "must_capture ''1'' RE_YEAR_4" "set (group_bodies RE_YEAR_4) = {(''1'', year_digits)}"
  "must_capture ''1'' RE_YEAR_INDIA_RANGE" "set (group_bodies RE_YEAR_INDIA_RANGE) = {(''1'', year_digits)}"
  "must_capture ''1'' RE_YEAR_2_ANCHORED" "set (group_bodies RE_YEAR_2_ANCHORED) = {(''1'', Seq (Cls is_digit) (Cls is_digit))}"
  "must_capture ''1'' RE_YEAR_2_STANDALONE" "set (group_bodies RE_YEAR_2_STANDALONE) = {(''1'', Seq (Cls is_digit) (Cls is_digit))}"
  by (simp_all add: RE_YEAR_4_def RE_YEAR_INDIA_RANGE_def RE_YEAR_2_ANCHORED_def RE_YEAR_2_STANDALONE_def year_digits_def)

lemma standalone_bounds:
  "list_all (\<lambda>(k, g). consumed_by (Seq (Cls is_digit) (Cls is_digit)) (group_text ''1'' g)) ms \<Longrightarrow>
     standalone_year ms = Some y \<Longrightarrow> 1931 \<le> y \<and> y \<le> 2030"
  by (induction ms rule: standalone_year.induct) (auto simp: Let_def two_digit_bounds split: if_splits)

lemma extract_year_bounds:
  assumes "extract_year t = Some y"
  shows "1900 \<le> y \<and> y \<le> 2099"
proof -
  have range: "1900 \<le> digits_value (group_text ''1'' m) \<and> digits_value (group_text ''1'' m) \<le> 2099"
    if "re_search RE_YEAR_INDIA_RANGE t = Some m" for m
    using search_group[OF that year_bodies(3)] four_digit_bounds by (auto simp: year_bodies)
  have four: "1900 \<le> digits_value (group_text ''1'' m) \<and> digits_value (group_text ''1'' m) \<le> 2099"
    if "re_search RE_YEAR_4 t = Some m" for m
    using search_group[OF that year_bodies(1)] four_digit_bounds by (auto simp: year_bodies)
  have anchored: "1900 \<le> two_digit_year (digits_value (group_text ''1'' m)) \<and> two_digit_year (digits_value (group_text ''1'' m)) \<le> 2099"
    if "re_search RE_YEAR_2_ANCHORED t = Some m" for m
    using search_group[OF that year_bodies(5)] two_digit_bounds by (fastforce simp: year_bodies)
  have "list_all (\<lambda>(k, g). consumed_by (Seq (Cls is_digit) (Cls is_digit)) (group_text ''1'' g)) (re_finditer RE_YEAR_2_STANDALONE t)"
    using finditer_group[OF _ year_bodies(7)] by (fastforce simp: list_all_iff year_bodies)
  then have alone: "1900 \<le> y" "y \<le> 2099" if "standalone_year (re_finditer RE_YEAR_2_STANDALONE t) = Some y"
    using standalone_bounds that by fastforce+
  show ?thesis
    using assms range four anchored alone unfolding extract_year_def by (auto split: option.splits)
qed

subsection \<open>Dates of an extracted period\<close>

lemma token_dates:
  assumes "1 \<le> y" and "y \<le> 9998"
  shows "case to_bulk_processor_token p of
      Inr token \<Rightarrow> \<exists>s e. derive_period_dates y token std = Inr (s, e) \<and> s < e
    | Inl _ \<Rightarrow> derive_period_dates y (pt_value p) std = Inl ValueError"
proof -
  obtain b q1 q2 q3 q4 where "{q1, q2, q3, q4} \<subseteq> {90..92}"
    and d: "\<And>fp. derive_period_dates y fp std
         = (case map_of (periods_from b q1 q2 q3 q4) (str_strip (str_upper fp)) of
              None \<Rightarrow> Inl ValueError | Some r \<Rightarrow> Inr r)"
    using derive_built[OF assms] by blast
  moreover have "str_strip (str_upper ''H1'') = ''H1''" "str_strip (str_upper ''H2'') = ''H2''" by code_simp+
  ultimately show ?thesis
    by (cases p) (simp_all add: to_bulk_processor_token_def upper_codes periods_from_def)
qed


subsection \<open>Labels of a period and a year\<close>

lemma digit_facts:
  assumes "is_digit c"
  shows "is_word c" "is_space c = False" "digit_or_slash c" "char_lower c = c"
    "(c = CHR ''q'') = False" "(c = CHR ''h'') = False" "(c = CHR ''f'') = False" "(c = CHR ''y'') = False"
    "(c = CHR '' '') = False" "(c = CHR ''-'') = False" "(c = CHR 0x27) = False" "(c = CHR ''t'') = False"
    "(c = CHR ''s'') = False" "(c = CHR ''n'') = False" "(c = CHR ''a'') = False"
    "(CHR ''q'' = c) = False" "(CHR ''h'' = c) = False" "(CHR ''f'' = c) = False" "(CHR ''y'' = c) = False"
    "(CHR '' '' = c) = False" "(CHR ''-'' = c) = False"
  using assms by (auto simp: is_digit_def is_word_def is_space_def digit_or_slash_def char_lower_def Let_def)

lemma plain_chars:
  "is_word (CHR ''q'')" "is_word (CHR ''h'')" "is_word (CHR ''f'')" "is_word (CHR ''y'')" "is_word (CHR ''1'')" "is_word (CHR ''2'')"
  "is_word (CHR ''3'')" "is_word (CHR ''4'')" "is_word (CHR ''9'')" "is_word (CHR ''0'')" "\<not> is_word (CHR '' '')"
  "is_space (CHR '' '')" "\<not> is_space (CHR ''1'')" "\<not> is_space (CHR ''2'')" "\<not> is_space (CHR ''9'')" "\<not> is_space (CHR ''0'')"
  "\<not> is_space (CHR ''q'')" "\<not> is_space (CHR ''h'')" "\<not> is_space (CHR ''f'')" "\<not> is_space (CHR ''y'')"
  "\<not> is_space (CHR ''3'')" "\<not> is_space (CHR ''4'')"
  "is_digit (CHR ''1'')" "is_digit (CHR ''2'')" "is_digit (CHR ''3'')" "is_digit (CHR ''4'')" "is_digit (CHR ''9'')" "is_digit (CHR ''0'')"
  "\<not> is_digit (CHR '' '')" "\<not> is_digit (CHR ''q'')" "\<not> is_digit (CHR ''h'')" "\<not> is_digit (CHR ''f'')" "\<not> is_digit (CHR ''y'')"
  by (simp_all add: is_word_def is_letter_def is_digit_def is_space_def)

lemmas period_patterns = RE_EXPLICIT_Q_def RE_WALL_STREET_Q_def RE_EXPLICIT_H_def RE_ORDINAL_Q_def RE_ORDINAL_H_def
  RE_N_MONTHS_ENDED_def RE_ANNUAL_def RE_BARE_FY_def twelve_months_def MONTH_ALT_def class_of_def

lemmas year_patterns = RE_YEAR_4_def RE_YEAR_INDIA_RANGE_def RE_YEAR_2_ANCHORED_def RE_YEAR_2_STANDALONE_def year_digits_def class_of_def

lemma code_then_year:
  assumes "is_digit c" "is_digit d" "h \<in> {''19'', ''20''}"
    and "q \<in> {''fy'', ''q1'', ''q2'', ''q3'', ''q4'', ''h1'', ''h2''}"
  shows "extract_year (q @ '' '' @ h @ [c, d]) = Some (digits_value (h @ [c, d]))"
  using assms(3,4)
  by (elim insertE emptyE; hypsubst; simp add: extract_year_def re_search_def year_patterns digit_facts assms(1,2) plain_chars
      consumed_def group_text_def run_rules del: runs.simps(4))


definition lower_code :: "period_type \<Rightarrow> string" where
  "lower_code p = str_lower (pt_value p)"

lemma lower_codes:
  "lower_code FY = ''fy''" "lower_code Q1 = ''q1''" "lower_code Q2 = ''q2''" "lower_code Q3 = ''q3''" "lower_code Q4 = ''q4''"
  "lower_code H1 = ''h1''" "lower_code H2 = ''h2''"
  by (simp_all add: lower_code_def str_lower_def lower_letters)

lemma period_types_of:
  "period_type_of ''Q1'' = Some Q1" "period_type_of ''Q2'' = Some Q2" "period_type_of ''Q3'' = Some Q3" "period_type_of ''Q4'' = Some Q4"
  "period_type_of ''H1'' = Some H1" "period_type_of ''H2'' = Some H2"
  by (simp_all add: period_type_of_def)

lemma code_then_type:
  assumes "is_digit c" "is_digit d" "h \<in> {''19'', ''20''}"
  shows "extract_period_type (lower_code p @ '' '' @ h @ [c, d]) = Some p"
  using assms(3)
  by (cases p; elim insertE emptyE; hypsubst; simp add: extract_period_type_def annual_type_def re_search_def lower_codes period_patterns
      digit_facts assms(1,2) plain_chars consumed_def group_text_def period_types_of run_rules del: runs.simps(4))

lemma year_then_code:
  assumes "is_digit c" "is_digit d" "h \<in> {''19'', ''20''}"
  shows "extract_year (h @ [c, d] @ '' '' @ lower_code p) = Some (digits_value (h @ [c, d]))"
  using assms(3)
  by (cases p; elim insertE emptyE; hypsubst; simp add: extract_year_def re_search_def lower_codes year_patterns digit_facts assms(1,2) plain_chars
      consumed_def group_text_def run_rules del: runs.simps(4))

lemma year_then_type:
  assumes "is_digit c" "is_digit d" "h \<in> {''19'', ''20''}"
  shows "extract_period_type (h @ [c, d] @ '' '' @ lower_code p) = Some p"
  using assms(3)
  by (cases p; elim insertE emptyE; hypsubst; simp add: extract_period_type_def annual_type_def re_search_def lower_codes period_patterns
      digit_facts assms(1,2) plain_chars consumed_def group_text_def period_types_of run_rules del: runs.simps(4))

text \<open>Without a separator a word boundary is missing.\<close>

lemma glued_year:
  assumes "is_digit c" "is_digit d" "h \<in> {''19'', ''20''}"
  shows "extract_year (lower_code p @ h @ [c, d]) = None" (is ?y)
    and "extract_period_type (lower_code p @ h @ [c, d]) = None" (is ?t)
proof -
  show ?y
    using assms(3)
    by (cases p; elim insertE emptyE; hypsubst; simp add: extract_year_def re_search_def re_finditer_def
        lower_codes year_patterns digit_facts assms(1,2) plain_chars run_rules del: runs.simps(4))
  show ?t
    using assms(3)
    by (cases p; elim insertE emptyE; hypsubst; simp add: extract_period_type_def annual_type_def re_search_def
        lower_codes period_patterns digit_facts assms(1,2) plain_chars run_rules del: runs.simps(4))
qed

lemma glued_short:
  assumes "is_digit c" "is_digit d"
  shows "extract_year (lower_code p @ [c, d]) = Some (two_digit_year (digits_value [c, d]))" (is ?y)
    and "extract_period_type (lower_code p @ [c, d]) = None" (is ?t)
proof -
  show ?y
    by (cases p; simp add: extract_year_def re_search_def re_finditer_def lower_codes year_patterns digit_facts assms plain_chars
      consumed_def group_text_def run_rules del: runs.simps(4))
  show ?t
    by (cases p; simp add: extract_period_type_def annual_type_def re_search_def lower_codes period_patterns digit_facts assms plain_chars run_rules del: runs.simps(4))
qed

lemma glued_quarter_year:
  assumes "is_digit c" "is_digit d" and "p \<noteq> FY"
  shows "extract_year (lower_code p @ ''fy'' @ [c, d]) = None" and "extract_period_type (lower_code p @ ''fy'' @ [c, d]) = None"
  using assms(3)
  by (cases p; simp add: extract_year_def extract_period_type_def annual_type_def re_search_def re_finditer_def
      lower_codes year_patterns period_patterns digit_facts assms(1,2) plain_chars run_rules del: runs.simps(4))+

lemma glued_wall_street:
  assumes "is_digit c" "is_digit d" and "q \<in> {CHR ''1'', CHR ''2'', CHR ''3'', CHR ''4''}"
  shows "extract_year (q # ''q'' @ [c, d]) = None" and "extract_period_type (q # ''q'' @ [c, d]) = None"
  using assms(3)
  by (elim insertE emptyE; hypsubst; simp add: extract_year_def extract_period_type_def annual_type_def re_search_def re_finditer_def
      year_patterns period_patterns digit_facts assms(1,2) plain_chars run_rules del: runs.simps(4))+


subsection \<open>The properties of labels\<close>

lemma year_text:
  assumes "1900 \<le> y" and "y \<le> 2099"
  obtains h c d where "show_int y = h @ [c, d]" and "is_digit c" and "is_digit d" and "h \<in> {''19'', ''20''}"
    and "digits_value (h @ [c, d]) = y"
proof -
  define n where "n = nat y"
  have n: "1900 \<le> n" "n \<le> 2099" "y = int n" using assms by (auto simp: n_def)
  define h where "h = show_nat (n div 100)"
  have "n div 100 = 19 \<or> n div 100 = 20" using n by linarith
  moreover have "show_nat 19 = ''19''" "show_nat 20 = ''20''"
    by code_simp+
  ultimately have h: "h \<in> {''19'', ''20''}" by (auto simp: h_def)
  have big: "\<not> n div 10 < 10" using n by linarith
  have "show_nat n = show_nat (n div 10) @ [char_of (48 + n mod 10)]" using n by (subst show_nat.simps) simp
  moreover have "show_nat (n div 10) = h @ [char_of (48 + n div 10 mod 10)]"
    using big by (subst show_nat.simps) (simp add: h_def div_mult2_eq[symmetric])
  ultimately have s: "show_int y = h @ [char_of (48 + n div 10 mod 10), char_of (48 + n mod 10)]"
    by (simp add: show_int_def n(3))
  moreover have "digits_value (show_int y) = y" using show_nat_reads[of n] by (simp add: show_int_def n(3))
  moreover have "is_digit (char_of (48 + n div 10 mod 10))" "is_digit (char_of (48 + n mod 10))"
    using digit_char[of "n div 10 mod 10"] digit_char[of "n mod 10"] by simp_all
  ultimately show thesis using that h by metis
qed

lemma strip_nonempty: "c \<in> set s \<Longrightarrow> \<not> is_space c \<Longrightarrow> str_strip s \<noteq> []"
  by (auto simp: str_strip_def dropWhile_eq_Nil_conv dest: set_dropWhileD) (metis dropWhile_eq_Nil_conv set_dropWhileD dropWhile_idem hd_dropWhile hd_in_set)

lemma strip_ends: "\<not> is_space a \<Longrightarrow> \<not> is_space z \<Longrightarrow> str_strip (a # s @ [z]) = a # s @ [z]"
  by (simp add: str_strip_def)

lemma lower_digits:
  assumes "is_digit c" "is_digit d" "h \<in> {''19'', ''20''}"
  shows "str_lower [c, d] = [c, d]" and "str_lower h = h"
  using assms by (auto simp: str_lower_def lower_letters digit_facts)

lemma lower_append: "str_lower (s @ t) = str_lower s @ str_lower t"
  by (simp add: str_lower_def)

lemma normalised_labels:
  assumes "is_digit c" "is_digit d" "h \<in> {''19'', ''20''}"
  shows "normalise_text (pt_value p @ '' '' @ h @ [c, d]) = lower_code p @ '' '' @ h @ [c, d]"
    and "normalise_text (h @ [c, d] @ '' '' @ pt_value p) = h @ [c, d] @ '' '' @ lower_code p"
    and "normalise_text (pt_value p @ h @ [c, d]) = lower_code p @ h @ [c, d]"
    and "str_strip (pt_value p @ '' '' @ h @ [c, d]) \<noteq> []" and "str_strip (h @ [c, d] @ '' '' @ pt_value p) \<noteq> []"
    and "str_strip (pt_value p @ h @ [c, d]) \<noteq> []"
proof -
  have blank: "str_lower '' '' = '' ''" by code_simp
  have d: "\<not> is_space d" using assms(2) by (simp add: digit_facts)
  obtain x u where l: "lower_code p = [x, u]" "\<not> is_space x" "\<not> is_space u" by (cases p) (simp_all add: lower_codes plain_chars)
  have "\<exists>x' u'. h = [x', u'] \<and> \<not> is_space x'" using assms(3) by (elim insertE emptyE) (simp_all add: plain_chars)
  then obtain x' u' where h: "h = [x', u']" "\<not> is_space x'" by blast
  show "normalise_text (pt_value p @ '' '' @ h @ [c, d]) = lower_code p @ '' '' @ h @ [c, d]"
    using strip_ends[OF l(2) d, of "u # '' '' @ h @ [c]"]
    by (simp only: normalise_text_def lower_append lower_digits[OF assms] blank lower_code_def[symmetric] l(1)) simp
  show "normalise_text (h @ [c, d] @ '' '' @ pt_value p) = h @ [c, d] @ '' '' @ lower_code p"
    using strip_ends[OF h(2) l(3), of "u' # [c, d] @ '' '' @ [x]"] lower_digits[OF assms]
    by (simp only: normalise_text_def lower_append append_assoc[symmetric] blank lower_code_def[symmetric] l(1)) (simp add: h(1))
  show "normalise_text (pt_value p @ h @ [c, d]) = lower_code p @ h @ [c, d]"
    using strip_ends[OF l(2) d, of "u # h @ [c]"]
    by (simp only: normalise_text_def lower_append lower_digits[OF assms] lower_code_def[symmetric] l(1)) simp
  show "str_strip (pt_value p @ '' '' @ h @ [c, d]) \<noteq> []" "str_strip (h @ [c, d] @ '' '' @ pt_value p) \<noteq> []"
    "str_strip (pt_value p @ h @ [c, d]) \<noteq> []"
    by (rule strip_nonempty[OF _ d]; simp)+
qed

lemma normalised_short:
  assumes "is_digit c" "is_digit d"
  shows "normalise_text (pt_value p @ [c, d]) = lower_code p @ [c, d]"
    and "normalise_text (pt_value p @ ''FY'' @ [c, d]) = lower_code p @ ''fy'' @ [c, d]"
    and "str_strip (pt_value p @ [c, d]) \<noteq> []" and "str_strip (pt_value p @ ''FY'' @ [c, d]) \<noteq> []"
proof -
  have fy: "str_lower ''FY'' = ''fy''" by code_simp
  have cd: "str_lower [c, d] = [c, d]" using assms by (simp add: str_lower_def digit_facts)
  have d: "\<not> is_space d" using assms(2) by (simp add: digit_facts)
  obtain x u where l: "lower_code p = [x, u]" "\<not> is_space x" by (cases p) (simp_all add: lower_codes plain_chars)
  show "normalise_text (pt_value p @ [c, d]) = lower_code p @ [c, d]"
    using strip_ends[OF l(2) d, of "[u, c]"] by (simp only: normalise_text_def lower_append cd lower_code_def[symmetric] l(1)) simp
  show "normalise_text (pt_value p @ ''FY'' @ [c, d]) = lower_code p @ ''fy'' @ [c, d]"
    using strip_ends[OF l(2) d, of "u # ''fy'' @ [c]"]
    by (simp only: normalise_text_def lower_append cd fy lower_code_def[symmetric] l(1)) simp
  show "str_strip (pt_value p @ [c, d]) \<noteq> []" "str_strip (pt_value p @ ''FY'' @ [c, d]) \<noteq> []"
    by (rule strip_nonempty[OF _ d]; simp)+
qed

lemma extracted:
  "str_strip t \<noteq> [] \<Longrightarrow> extract_fiscal_period (Some t) =
     \<lparr>np_fiscal_year = extract_year (normalise_text t), np_period_type = extract_period_type (normalise_text t), np_raw_label = t\<rparr>"
  by (simp add: extract_fiscal_period_def Let_def)

text \<open>
  C33: A label made of a period code and a year from 1900 to 2099 with a blank between them, in
  either order, is read back: its year, its period type and the label itself.
\<close>

theorem period_label_round_trip:
  assumes "1900 \<le> y" and "y \<le> 2099"
  shows "extract_fiscal_period (Some (pt_value p @ '' '' @ show_int y))
      = \<lparr>np_fiscal_year = Some y, np_period_type = Some p, np_raw_label = pt_value p @ '' '' @ show_int y\<rparr>
    \<and> extract_fiscal_period (Some (show_int y @ '' '' @ pt_value p))
      = \<lparr>np_fiscal_year = Some y, np_period_type = Some p, np_raw_label = show_int y @ '' '' @ pt_value p\<rparr>"
proof -
  obtain h c d where s: "show_int y = h @ [c, d]" and v: "digits_value (h @ [c, d]) = y"
    and cd: "is_digit c" "is_digit d" "h \<in> {''19'', ''20''}"
    using assms by (rule year_text)
  have "lower_code p \<in> {''fy'', ''q1'', ''q2'', ''q3'', ''q4'', ''h1'', ''h2''}" by (cases p) (simp_all add: lower_codes)
  from code_then_year[OF cd this] code_then_type[OF cd] year_then_code[OF cd] year_then_type[OF cd]
  show ?thesis
    unfolding s append_assoc extracted[OF normalised_labels(4)[OF cd]] extracted[OF normalised_labels(5)[OF cd]]
      normalised_labels(1,2)[OF cd]
    using v by (simp del: append_Cons)
qed

text \<open>
  Without the blank nothing is read: of a code glued to a four-digit year neither the
  year nor the period; of a code glued to two digits, like \<open>FY25\<close>, the year but no period; of \<open>Q3FY26\<close> and its like neither,
  although the documentation of the module lists these forms.
\<close>

theorem glued_labels_unresolved:
  assumes "1900 \<le> y" and "y \<le> 2099" and "is_digit c" and "is_digit d"
  shows "extract_fiscal_period (Some (pt_value p @ show_int y))
      = \<lparr>np_fiscal_year = None, np_period_type = None, np_raw_label = pt_value p @ show_int y\<rparr>
    \<and> extract_fiscal_period (Some (pt_value p @ [c, d]))
      = \<lparr>np_fiscal_year = Some (two_digit_year (digits_value [c, d])), np_period_type = None, np_raw_label = pt_value p @ [c, d]\<rparr>
    \<and> (p \<noteq> FY \<longrightarrow> extract_fiscal_period (Some (pt_value p @ ''FY'' @ [c, d]))
      = \<lparr>np_fiscal_year = None, np_period_type = None, np_raw_label = pt_value p @ ''FY'' @ [c, d]\<rparr>)"
proof -
  obtain h x z where s: "show_int y = h @ [x, z]" and cd: "is_digit x" "is_digit z" "h \<in> {''19'', ''20''}"
    using assms(1,2) by (rule year_text)
  note short = normalised_short[OF assms(3,4)]
  show ?thesis
    unfolding s extracted[OF normalised_labels(6)[OF cd]] extracted[OF short(3)] extracted[OF short(4)] normalised_labels(3)[OF cd] short(1,2)
    by (simp add: glued_year[OF cd] glued_short[OF assms(3,4)] glued_quarter_year[OF assms(3,4)] del: append_Cons)
qed

text \<open>
  C34: Whatever the label, an extracted year lies between 1900 and 2099; and a resolved period has dates: the token it
  hands to the bulk processor is accepted there under every framework and gives an interval, and exactly
  the half years, for which it hands over none, are refused there.
\<close>

theorem resolved_period_has_dates:
  assumes "np_fiscal_year (extract_fiscal_period text) = Some y" and "np_period_type (extract_fiscal_period text) = Some p"
  shows "1900 \<le> y \<and> y \<le> 2099
    \<and> (case to_bulk_processor_token p of
        Inr token \<Rightarrow> \<exists>s e. derive_period_dates y token std = Inr (s, e) \<and> s < e
      | Inl _ \<Rightarrow> is_half_year p \<and> derive_period_dates y (pt_value p) std = Inl ValueError)"
proof -
  have "extract_year (normalise_text (case text of None \<Rightarrow> [] | Some t \<Rightarrow> t)) = Some y"
    using assms(1) by (auto simp: extract_fiscal_period_def Let_def split: if_splits)
  then have y: "1900 \<le> y" "y \<le> 2099" using extract_year_bounds by blast+
  then have "1 \<le> y" "y \<le> 9998" by simp_all
  from token_dates[OF this, of p std] y show ?thesis
    by (cases p) (simp_all add: to_bulk_processor_token_def is_half_year_def)
qed

lemma period_label_round_trip_witness:
  "extract_fiscal_period (Some (pt_value Q3 @ '' '' @ show_int 2025))
     = \<lparr>np_fiscal_year = Some 2025, np_period_type = Some Q3, np_raw_label = pt_value Q3 @ '' '' @ show_int 2025\<rparr>"
  using period_label_round_trip[of 2025 Q3] by simp

lemma glued_labels_unresolved_witness:
  "extract_fiscal_period (Some (pt_value Q3 @ ''FY'' @ ''26''))
     = \<lparr>np_fiscal_year = None, np_period_type = None, np_raw_label = pt_value Q3 @ ''FY'' @ ''26''\<rparr>"
  using glued_labels_unresolved[of 2026 "CHR ''2''" "CHR ''6''" Q3] by (simp add: is_digit_def)

lemma sample_label: "extract_fiscal_period (Some ''Q3 2025'') = \<lparr>np_fiscal_year = Some 2025, np_period_type = Some Q3, np_raw_label = ''Q3 2025''\<rparr>"
  using normalised_labels[of "CHR ''2''" "CHR ''5''" "''20''" Q3] code_then_year[of "CHR ''2''" "CHR ''5''" "''20''" "''q3''"]
    code_then_type[of "CHR ''2''" "CHR ''5''" "''20''" Q3]
  by (simp add: extracted lower_codes is_digit_def digits_value_def digit_def)

lemma resolved_period_has_dates_witness:
  "\<exists>s e. derive_period_dates 2025 ''Q3'' ''IND_AS'' = Inr (s, e) \<and> s < e"
  using resolved_period_has_dates[of "Some ''Q3 2025''" 2025 Q3 "''IND_AS''"]
  by (simp add: sample_label to_bulk_processor_token_def)

end
