(* ===== verification/Filings.thy ===== *)
theory Filings
  imports Acquisition Companies IngestionTask
begin

text \<open>
  Filings behind the API: the validators of \<^verbatim>\<open>apps/api/schemas/filings.py\<close>, \<^verbatim>\<open>apps/api/repositories/filings.py\<close>,
  \<^verbatim>\<open>apps/api/services/filings.py\<close> and the endpoints of \<^verbatim>\<open>apps/api/routers/filings.py\<close>.  The rows are
  those of the acquisition job with the two columns it leaves null; metadata is opaque.  The order of a
  list by date is the database's and a parameter.
\<close>

subsection \<open>Rows and request bodies\<close>

record 'j filing_row = filing +
  fr_source_config_id :: "uuid option"
  fr_filing_metadata :: "'j option"

record 'j filing_create =
  fc_filing_type :: string
  fc_accession_number :: string
  fc_filing_date :: date
  fc_cik :: string
  fc_company_id :: "uuid option"
  fc_source_config_id :: "uuid option"
  fc_period_end_date :: "(int \<times> int \<times> int) option"
  fc_ticker :: "string option"
  fc_title :: "string option"
  fc_filing_url :: "string option"
  fc_document_url :: "string option"
  fc_status :: string
  fc_fiscal_year :: "int option"
  fc_fiscal_period :: "string option"
  fc_filing_metadata :: "'j option"

record 'j filing_update =
  fu_company_id :: "uuid option option"
  fu_source_config_id :: "uuid option option"
  fu_status :: "string option option"
  fu_document_url :: "string option option"
  fu_filing_url :: "string option option"
  fu_title :: "string option option"
  fu_ticker :: "string option option"
  fu_period_end_date :: "(int \<times> int \<times> int) option option"
  fu_fiscal_year :: "int option option"
  fu_fiscal_period :: "string option option"
  fu_filing_metadata :: "'j option option"

datatype filing_error =
    FlAuth auth_error | FlValidation | FlConflict | FlNotFound | FlIntegrity | FlMultipleResults | FlStorage storage_error

subsection \<open>Validators\<close>

definition VALID_FILING_TYPES :: "string list" where
  "VALID_FILING_TYPES = [''10-K'', ''10-Q'', ''8-K'', ''DEF 14A'', ''20-F'', ''6-K'']"

definition VALID_FILING_STATUSES :: "string list" where
  "VALID_FILING_STATUSES = map filing_status_value [DISCOVERED, DOWNLOADING, DOWNLOADED, FILING_FAILED]"

text \<open>Ten digits, two digits and six digits with hyphens between them.\<close>

definition is_accession :: "string \<Rightarrow> bool" where
  "is_accession s =
     (length s = 20 \<and> s ! 10 = CHR ''-'' \<and> s ! 13 = CHR ''-''
      \<and> list_all is_digit (take 10 s @ take 2 (drop 11 s) @ drop 14 s))"

definition validate_accession :: "string \<Rightarrow> filing_error + string" where
  "validate_accession v = (let stripped = str_strip v in if is_accession stripped then Inr stripped else Inl FlValidation)"

definition validate_filing_type :: "string \<Rightarrow> filing_error + string" where
  "validate_filing_type v =
     (let stripped = str_strip v in if stripped \<in> set VALID_FILING_TYPES then Inr stripped else Inl FlValidation)"

definition validate_and_pad_filing_cik :: "string \<Rightarrow> filing_error + string" where
  "validate_and_pad_filing_cik v =
     (let stripped = str_strip v
      in if stripped = [] then Inl FlValidation
         else if list_all is_digit stripped \<and> length stripped \<le> 10 then Inr (zfill 10 stripped) else Inl FlValidation)"

definition validate_filing_status :: "string \<Rightarrow> filing_error + string" where
  "validate_filing_status v =
     (let stripped = str_lower (str_strip v) in if stripped \<in> set VALID_FILING_STATUSES then Inr stripped else Inl FlValidation)"

definition normalise_filing_ticker :: "string option \<Rightarrow> string option" where
  "normalise_filing_ticker v =
     (case v of None \<Rightarrow> None
      | Some t \<Rightarrow> (let stripped = str_upper (str_strip t) in if stripped = [] then None else Some stripped))"

definition fiscal_year_ok :: "int option \<Rightarrow> bool" where
  "fiscal_year_ok y = (case y of None \<Rightarrow> True | Some v \<Rightarrow> 1900 \<le> v \<and> v \<le> 2100)"

definition validate_filing_create :: "'j filing_create \<Rightarrow> filing_error + 'j filing_create" where
  "validate_filing_create b =
     (if length (fc_accession_number b) \<le> 25 \<and> opt_at_most 20 (fc_ticker b) \<and> opt_at_most 500 (fc_title b)
         \<and> opt_at_most 2000 (fc_filing_url b) \<and> opt_at_most 2000 (fc_document_url b)
         \<and> fiscal_year_ok (fc_fiscal_year b) \<and> opt_at_most 10 (fc_fiscal_period b)
      then rbind (validate_filing_type (fc_filing_type b)) (\<lambda>ty.
           rbind (validate_accession (fc_accession_number b)) (\<lambda>acc.
           rbind (validate_and_pad_filing_cik (fc_cik b)) (\<lambda>cik.
           rbind (validate_filing_status (fc_status b)) (\<lambda>st.
           Inr (b\<lparr>fc_filing_type := ty, fc_accession_number := acc, fc_cik := cik, fc_status := st,
                  fc_ticker := normalise_filing_ticker (fc_ticker b)\<rparr>)))))
      else Inl FlValidation)"

definition filing_fields_set :: "'j filing_update \<Rightarrow> bool" where
  "filing_fields_set b = (fu_company_id b \<noteq> None \<or> fu_source_config_id b \<noteq> None \<or> fu_status b \<noteq> None
     \<or> fu_document_url b \<noteq> None \<or> fu_filing_url b \<noteq> None \<or> fu_title b \<noteq> None \<or> fu_ticker b \<noteq> None
     \<or> fu_period_end_date b \<noteq> None \<or> fu_fiscal_year b \<noteq> None \<or> fu_fiscal_period b \<noteq> None
     \<or> fu_filing_metadata b \<noteq> None)"

definition validate_filing_update :: "'j filing_update \<Rightarrow> filing_error + 'j filing_update" where
  "validate_filing_update b =
     (if opt_field (length_in 0 2000) (fu_document_url b) \<and> opt_field (length_in 0 2000) (fu_filing_url b)
         \<and> opt_field (length_in 0 500) (fu_title b) \<and> opt_field (length_in 0 20) (fu_ticker b)
         \<and> (case fu_fiscal_year b of None \<Rightarrow> True | Some y \<Rightarrow> fiscal_year_ok y)
         \<and> opt_field (length_in 0 10) (fu_fiscal_period b)
      then rbind (on_field (on_field validate_filing_status) (fu_status b)) (\<lambda>st.
           if \<not> filing_fields_set b then Inl FlValidation
           else Inr (b\<lparr>fu_status := st, fu_ticker := map_option normalise_filing_ticker (fu_ticker b)\<rparr>))
      else Inl FlValidation)"

subsection \<open>Repository\<close>

text \<open>Identifiers of the rows the two foreign keys may name.\<close>

record filing_env =
  fv_companies :: "uuid set"
  fv_sources :: "uuid set"

definition keys_exist :: "filing_env \<Rightarrow> uuid option \<Rightarrow> uuid option \<Rightarrow> bool" where
  "keys_exist V c s = ((case c of None \<Rightarrow> True | Some i \<Rightarrow> i \<in> fv_companies V) \<and> (case s of None \<Rightarrow> True | Some i \<Rightarrow> i \<in> fv_sources V))"

definition exists_filing :: "string \<Rightarrow> 'j filing_row list \<Rightarrow> bool" where
  "exists_filing acc rows = (0 < length (filter (\<lambda>f. fl_accession_number f = acc) rows))"

text \<open>\<open>create\<close> passes neither the fiscal year nor the fiscal period of the schema on.\<close>

definition create_filing_row :: "auth_env \<Rightarrow> filing_env \<Rightarrow> 'j filing_create \<Rightarrow> 'j filing_row list
    \<Rightarrow> filing_error + ('j filing_row \<times> 'j filing_row list)" where
  "create_filing_row E V b rows =
     (let f = \<lparr>fl_id = fresh_token_id E, fl_company_id = fc_company_id b, fl_filing_type = fc_filing_type b,
               fl_accession_number = fc_accession_number b, fl_filing_date = fc_filing_date b,
               fl_period_end_date = fc_period_end_date b, fl_cik = fc_cik b, fl_ticker = fc_ticker b, fl_title = fc_title b,
               fl_filing_url = fc_filing_url b, fl_document_url = fc_document_url b, fl_status = fc_status b,
               fl_fiscal_year = None, fl_fiscal_period = None, fl_created_at = now E, fl_updated_at = now E,
               fr_source_config_id = fc_source_config_id b, fr_filing_metadata = fc_filing_metadata b\<rparr>
      in if fl_id f \<in> set (map fl_id rows) \<or> fl_accession_number f \<in> set (map fl_accession_number rows)
           \<or> \<not> keys_exist V (fl_company_id f) (fr_source_config_id f)
         then Inl FlIntegrity else Inr (f, rows @ [f]))"

definition get_filing_row :: "uuid \<Rightarrow> 'j filing_row list \<Rightarrow> 'j filing_row option" where
  "get_filing_row i rows = get_row fl_id i rows"

definition get_filing_by_accession_row :: "string \<Rightarrow> 'j filing_row list \<Rightarrow> 'j filing_row scalar" where
  "get_filing_by_accession_row acc rows = scalar_one_or_none (filter (\<lambda>f. fl_accession_number f = acc) rows)"

record filing_query =
  fq_page :: nat
  fq_page_size :: nat
  fq_filing_type :: "string option"
  fq_status :: "string option"
  fq_cik :: "string option"
  fq_ticker :: "string option"
  fq_company_id :: "uuid option"
  fq_source_config_id :: "uuid option"

definition given :: "('a \<Rightarrow> bool) \<Rightarrow> 'a option \<Rightarrow> bool" where
  "given P v = (case v of None \<Rightarrow> True | Some x \<Rightarrow> P x)"

definition filing_matches :: "filing_query \<Rightarrow> 'j filing_row \<Rightarrow> bool" where
  "filing_matches q f =
     (given (\<lambda>v. fl_filing_type f = v) (fq_filing_type q) \<and> given (\<lambda>v. fl_status f = str_lower v) (fq_status q)
      \<and> given (\<lambda>v. fl_cik f = zfill 10 (str_strip v)) (fq_cik q)
      \<and> given (\<lambda>v. fl_ticker f = Some (str_upper (str_strip v))) (fq_ticker q)
      \<and> given (\<lambda>v. fl_company_id f = Some v) (fq_company_id q)
      \<and> given (\<lambda>v. fr_source_config_id f = Some v) (fq_source_config_id q))"

definition list_filing_rows ::
    "('j filing_row list \<Rightarrow> 'j filing_row list) \<Rightarrow> filing_query \<Rightarrow> 'j filing_row list \<Rightarrow> 'j filing_row list \<times> nat" where
  "list_filing_rows by_date_desc q rows =
     (let hits = filter (filing_matches q) rows
      in (page_of (fq_page_size q) (fq_page q) (by_date_desc hits), length hits))"

definition plain_query :: "nat \<Rightarrow> nat \<Rightarrow> filing_query" where
  "plain_query page per = \<lparr>fq_page = page, fq_page_size = per, fq_filing_type = None, fq_status = None, fq_cik = None,
     fq_ticker = None, fq_company_id = None, fq_source_config_id = None\<rparr>"

definition list_by_company ::
    "('j filing_row list \<Rightarrow> 'j filing_row list) \<Rightarrow> uuid \<Rightarrow> nat \<Rightarrow> nat \<Rightarrow> string option \<Rightarrow> string option \<Rightarrow> 'j filing_row list
     \<Rightarrow> 'j filing_row list \<times> nat" where
  "list_by_company by_date_desc i page per ty st rows =
     list_filing_rows by_date_desc ((plain_query page per)\<lparr>fq_company_id := Some i, fq_filing_type := ty, fq_status := st\<rparr>) rows"

definition list_by_filing_type ::
    "('j filing_row list \<Rightarrow> 'j filing_row list) \<Rightarrow> string \<Rightarrow> nat \<Rightarrow> nat \<Rightarrow> string option \<Rightarrow> 'j filing_row list
     \<Rightarrow> 'j filing_row list \<times> nat" where
  "list_by_filing_type by_date_desc ty page per st rows =
     list_filing_rows by_date_desc ((plain_query page per)\<lparr>fq_filing_type := Some ty, fq_status := st\<rparr>) rows"

definition keep_or :: "'a \<Rightarrow> 'a option \<Rightarrow> 'a" where
  "keep_or old v = (case v of None \<Rightarrow> old | Some x \<Rightarrow> x)"

definition set_filing_fields :: "'j filing_update \<Rightarrow> 'j filing_row \<Rightarrow> 'j filing_row" where
  "set_filing_fields b f =
     f\<lparr>fl_company_id := keep_or (fl_company_id f) (fu_company_id b),
       fr_source_config_id := keep_or (fr_source_config_id f) (fu_source_config_id b),
       fl_status := (case fu_status b of Some (Some v) \<Rightarrow> v | _ \<Rightarrow> fl_status f),
       fl_document_url := keep_or (fl_document_url f) (fu_document_url b),
       fl_filing_url := keep_or (fl_filing_url f) (fu_filing_url b),
       fl_title := keep_or (fl_title f) (fu_title b),
       fl_ticker := keep_or (fl_ticker f) (fu_ticker b),
       fl_period_end_date := keep_or (fl_period_end_date f) (fu_period_end_date b),
       fl_fiscal_year := keep_or (fl_fiscal_year f) (fu_fiscal_year b),
       fl_fiscal_period := keep_or (fl_fiscal_period f) (fu_fiscal_period b),
       fr_filing_metadata := keep_or (fr_filing_metadata f) (fu_filing_metadata b)\<rparr>"

text \<open>A null status and a foreign key without a row fail the flush.\<close>

definition update_filing_row :: "auth_env \<Rightarrow> filing_env \<Rightarrow> uuid \<Rightarrow> 'j filing_update \<Rightarrow> 'j filing_row list
    \<Rightarrow> filing_error + ('j filing_row option \<times> 'j filing_row list)" where
  "update_filing_row E V i b rows =
     (case get_filing_row i rows of
        None \<Rightarrow> Inr (None, rows)
      | Some f \<Rightarrow>
          (let f1 = set_filing_fields b f;
               f2 = (if f1 = f then f else f1\<lparr>fl_updated_at := now E\<rparr>)
           in if fu_status b = Some None
                \<or> (fl_company_id f1 \<noteq> fl_company_id f \<and> \<not> keys_exist V (fl_company_id f1) None)
                \<or> (fr_source_config_id f1 \<noteq> fr_source_config_id f \<and> \<not> keys_exist V None (fr_source_config_id f1))
              then Inl FlIntegrity else Inr (Some f2, put_row fl_id i f2 rows)))"

definition delete_filing_row :: "uuid \<Rightarrow> 'j filing_row list \<Rightarrow> bool \<times> 'j filing_row list" where
  "delete_filing_row i rows =
     (case get_filing_row i rows of None \<Rightarrow> (False, rows) | Some f \<Rightarrow> (True, filter (\<lambda>r. fl_id r \<noteq> i) rows))"

subsection \<open>Service\<close>

definition service_create_filing :: "auth_env \<Rightarrow> filing_env \<Rightarrow> 'j filing_create \<Rightarrow> 'j filing_row list
    \<Rightarrow> (filing_error + 'j filing_row) \<times> 'j filing_row list" where
  "service_create_filing E V b rows =
     (if exists_filing (fc_accession_number b) rows then (Inl FlConflict, rows)
      else case create_filing_row E V b rows of
          Inl FlIntegrity \<Rightarrow> (Inl FlConflict, rows)
        | Inl e \<Rightarrow> (Inl e, rows)
        | Inr (f, rows') \<Rightarrow> (Inr f, rows'))"

definition service_get_filing :: "uuid \<Rightarrow> 'j filing_row list \<Rightarrow> filing_error + 'j filing_row" where
  "service_get_filing i rows = (case get_filing_row i rows of None \<Rightarrow> Inl FlNotFound | Some f \<Rightarrow> Inr f)"

definition service_get_by_accession :: "string \<Rightarrow> 'j filing_row list \<Rightarrow> filing_error + 'j filing_row" where
  "service_get_by_accession acc rows =
     (case get_filing_by_accession_row acc rows of NoRow \<Rightarrow> Inl FlNotFound | OneRow f \<Rightarrow> Inr f | ManyRows \<Rightarrow> Inl FlMultipleResults)"

definition service_list_filings ::
    "('j filing_row list \<Rightarrow> 'j filing_row list) \<Rightarrow> filing_query \<Rightarrow> 'j filing_row list \<Rightarrow> 'j filing_row listing" where
  "service_list_filings by_date_desc q rows =
     (let (items, total) = list_filing_rows by_date_desc q rows
      in \<lparr>li_items = items, li_total = total, li_page = fq_page q, li_page_size = fq_page_size q,
          li_pages = page_count (fq_page_size q) total\<rparr>)"

definition service_update_filing :: "auth_env \<Rightarrow> filing_env \<Rightarrow> uuid \<Rightarrow> 'j filing_update \<Rightarrow> 'j filing_row list
    \<Rightarrow> (filing_error + 'j filing_row) \<times> 'j filing_row list" where
  "service_update_filing E V i b rows =
     (case update_filing_row E V i b rows of
        Inl e \<Rightarrow> (Inl e, rows)
      | Inr (None, rows') \<Rightarrow> (Inl FlNotFound, rows')
      | Inr (Some f, rows') \<Rightarrow> (Inr f, rows'))"

definition service_delete_filing :: "uuid \<Rightarrow> 'j filing_row list \<Rightarrow> (filing_error + unit) \<times> 'j filing_row list" where
  "service_delete_filing i rows =
     (case delete_filing_row i rows of (deleted, rows') \<Rightarrow> (if deleted then Inr () else Inl FlNotFound, rows'))"

subsection \<open>Endpoints\<close>

definition page_ok :: "nat \<Rightarrow> nat \<Rightarrow> bool" where
  "page_ok page per = (1 \<le> page \<and> 1 \<le> per \<and> per \<le> 100)"

definition list_filings ::
    "('j filing_row list \<Rightarrow> 'j filing_row list) \<Rightarrow> auth_context option \<Rightarrow> nat \<Rightarrow> nat \<Rightarrow> string option \<Rightarrow> string option \<Rightarrow> string option
     \<Rightarrow> string option \<Rightarrow> 'j filing_row list \<Rightarrow> filing_error + 'j filing_row listing" where
  "list_filings by_date_desc ctx page per ty st cik ticker rows =
     rbind (map_error FlAuth (require_authenticated ctx)) (\<lambda>c.
       if \<not> page_ok page per then Inl FlValidation
       else Inr (service_list_filings by_date_desc
              ((plain_query page per)\<lparr>fq_filing_type := ty, fq_status := st, fq_cik := cik, fq_ticker := ticker\<rparr>) rows))"

definition list_company_filings ::
    "('j filing_row list \<Rightarrow> 'j filing_row list) \<Rightarrow> auth_context option \<Rightarrow> string \<Rightarrow> nat \<Rightarrow> nat \<Rightarrow> string option \<Rightarrow> string option
     \<Rightarrow> 'j filing_row list \<Rightarrow> filing_error + 'j filing_row listing" where
  "list_company_filings by_date_desc ctx ticker page per ty st rows =
     rbind (map_error FlAuth (require_authenticated ctx)) (\<lambda>c.
       if \<not> page_ok page per then Inl FlValidation
       else (let normalised = str_upper (str_strip ticker)
             in if normalised = [] then Inl FlValidation
                else Inr (service_list_filings by_date_desc
                  ((plain_query page per)\<lparr>fq_ticker := Some normalised, fq_filing_type := ty, fq_status := st\<rparr>) rows)))"

definition get_filing_by_accession :: "auth_context option \<Rightarrow> string \<Rightarrow> 'j filing_row list \<Rightarrow> filing_error + 'j filing_row" where
  "get_filing_by_accession ctx acc rows =
     rbind (map_error FlAuth (require_authenticated ctx)) (\<lambda>c.
     rbind (validate_accession acc) (\<lambda>a. service_get_by_accession a rows))"

definition API_MIME_TO_EXT :: "(string \<times> string) list" where
  "API_MIME_TO_EXT = [(''text/html'', ''html''), (''text/plain'', ''txt''), (''application/pdf'', ''pdf''),
     (''application/xhtml+xml'', ''xhtml''), (''application/xml'', ''xml''), (''text/xml'', ''xml''), (''application/json'', ''json'')]"

definition mime_to_ext :: "string \<Rightarrow> string" where
  "mime_to_ext mime =
     (case map_of API_MIME_TO_EXT (str_lower (str_strip (hd (split_on (CHR '';'') mime)))) of Some e \<Rightarrow> e | None \<Rightarrow> ''bin'')"

record document_response =
  dr_content :: string
  dr_media_type :: string
  dr_filename :: string
  dr_content_hash :: string
  dr_accession_number :: string

text \<open>Without credentials for an object store the endpoint reads below this directory.\<close>

definition API_STORAGE_BASE :: path where "API_STORAGE_BASE = [''tmp'', ''fdh-documents'']"

definition api_storage :: "(string \<Rightarrow> storage_error + string option) option \<Rightarrow> file_system \<Rightarrow> string \<Rightarrow> storage_error + string option" where
  "api_storage s3 fs key = (case s3 of Some retrieve \<Rightarrow> retrieve key | None \<Rightarrow> sync_retrieve API_STORAGE_BASE key fs)"

definition get_filing_document ::
    "(string \<Rightarrow> storage_error + string option) \<Rightarrow> auth_context option \<Rightarrow> string \<Rightarrow> stored_document list \<Rightarrow> filing_error + document_response" where
  "get_filing_document retrieve ctx acc docs =
     rbind (map_error FlAuth (require_authenticated ctx)) (\<lambda>c.
     rbind (validate_accession acc) (\<lambda>a.
       case get_by_accession_number a docs of
         NoRow \<Rightarrow> Inl FlNotFound
       | ManyRows \<Rightarrow> Inl FlMultipleResults
       | OneRow d \<Rightarrow>
           rbind (map_error FlStorage (retrieve (sd_object_key d))) (\<lambda>content.
             case content of
               None \<Rightarrow> Inl FlNotFound
             | Some body \<Rightarrow>
                 (let mime = (if sd_mime_type d = [] then ''application/octet-stream'' else sd_mime_type d)
                  in Inr \<lparr>dr_content = body, dr_media_type = mime, dr_filename = a @ ''.'' @ mime_to_ext mime,
                          dr_content_hash = sd_content_hash d, dr_accession_number = a\<rparr>))))"


subsection \<open>The table under requests\<close>

datatype 'j filing_request =
    CreateFiling auth_env "'j filing_create"
  | UpdateFiling auth_env uuid "'j filing_update"
  | DeleteFiling uuid

text \<open>A caller of the service hands over bodies the schemas have accepted.\<close>

fun filing_serve :: "filing_env \<Rightarrow> 'j filing_row list \<Rightarrow> 'j filing_request \<Rightarrow> 'j filing_row list" where
  "filing_serve V rows (CreateFiling E body) =
     (case validate_filing_create body of Inl e \<Rightarrow> rows | Inr b \<Rightarrow> snd (service_create_filing E V b rows))"
| "filing_serve V rows (UpdateFiling E i body) =
     (case validate_filing_update body of Inl e \<Rightarrow> rows | Inr b \<Rightarrow> snd (service_update_filing E V i b rows))"
| "filing_serve V rows (DeleteFiling i) = snd (service_delete_filing i rows)"

definition filing_wf :: "'j filing_row \<Rightarrow> bool" where
  "filing_wf f =
     (is_accession (fl_accession_number f) \<and> length (fl_cik f) = 10 \<and> list_all is_digit (fl_cik f)
      \<and> fl_filing_type f \<in> set VALID_FILING_TYPES \<and> fl_status f \<in> set VALID_FILING_STATUSES \<and> fl_ticker f \<noteq> Some [])"

definition filings_wf :: "'j filing_row list \<Rightarrow> bool" where
  "filings_wf rows = (distinct (map fl_id rows) \<and> distinct (map fl_accession_number rows) \<and> (\<forall>f \<in> set rows. filing_wf f))"

text \<open>What no request may change in a row.\<close>

definition filing_identity :: "'j filing_row \<Rightarrow> uuid \<times> string \<times> string \<times> string \<times> date \<times> instant" where
  "filing_identity f = (fl_id f, fl_accession_number f, fl_filing_type f, fl_cik f, fl_filing_date f, fl_created_at f)"

lemma padded_cik: "validate_and_pad_filing_cik v = Inr c \<Longrightarrow> length c = 10 \<and> list_all is_digit c"
  by (auto simp: validate_and_pad_filing_cik_def Let_def zfill_def list_all_iff is_digit_def split: if_splits)

lemma ticker_not_empty: "normalise_filing_ticker t \<noteq> Some []"
  by (auto simp: normalise_filing_ticker_def Let_def split: option.splits)

lemma validated_create:
  assumes "validate_filing_create body = Inr b"
  shows "is_accession (fc_accession_number b) \<and> length (fc_cik b) = 10 \<and> list_all is_digit (fc_cik b)
    \<and> fc_filing_type b \<in> set VALID_FILING_TYPES \<and> fc_status b \<in> set VALID_FILING_STATUSES \<and> fc_ticker b \<noteq> Some []"
proof -
  obtain ty acc cik st where v: "validate_filing_type (fc_filing_type body) = Inr ty" "validate_accession (fc_accession_number body) = Inr acc"
      "validate_and_pad_filing_cik (fc_cik body) = Inr cik" "validate_filing_status (fc_status body) = Inr st"
    and b: "b = body\<lparr>fc_filing_type := ty, fc_accession_number := acc, fc_cik := cik, fc_status := st,
                  fc_ticker := normalise_filing_ticker (fc_ticker body)\<rparr>"
    using assms by (auto simp: validate_filing_create_def split: if_splits elim!: rbind_InrE)
  have "ty \<in> set VALID_FILING_TYPES" using v(1) by (auto simp: validate_filing_type_def Let_def split: if_splits)
  moreover have "is_accession acc" using v(2) by (auto simp: validate_accession_def Let_def split: if_splits)
  moreover have "st \<in> set VALID_FILING_STATUSES" using v(4) by (auto simp: validate_filing_status_def Let_def split: if_splits)
  ultimately show ?thesis using ticker_not_empty padded_cik[OF v(3)] by (simp add: b)
qed

lemma created_filing:
  "create_filing_row E V b rows = Inr (f, rows') \<Longrightarrow>
     rows' = rows @ [f] \<and> fl_id f \<notin> set (map fl_id rows) \<and> fl_accession_number f \<notin> set (map fl_accession_number rows)
     \<and> fl_accession_number f = fc_accession_number b \<and> fl_cik f = fc_cik b \<and> fl_filing_type f = fc_filing_type b
     \<and> fl_status f = fc_status b \<and> fl_ticker f = fc_ticker b \<and> fl_fiscal_year f = None \<and> fl_fiscal_period f = None"
  unfolding create_filing_row_def Let_def by (simp split: if_splits) (elim conjE, hypsubst, simp)

definition updated_filing :: "instant \<times> 'j filing_update \<Rightarrow> 'j filing_row \<Rightarrow> 'j filing_row" where
  "updated_filing p f = (if set_filing_fields (snd p) f = f then f else (set_filing_fields (snd p) f)\<lparr>fl_updated_at := fst p\<rparr>)"

lemma set_fields_identity [simp]: "filing_identity (set_filing_fields b f) = filing_identity f"
  by (simp add: filing_identity_def set_filing_fields_def)

lemma updated_identity: "filing_identity (updated_filing p f) = filing_identity f"
  using set_fields_identity[of "snd p" f] by (auto simp: updated_filing_def filing_identity_def)

lemma updated_id: "fl_id (updated_filing p f) = fl_id f"
  using updated_identity[of p f] by (simp add: filing_identity_def)

interpretation filing_table: row_table fl_id updated_filing
  by unfold_locales (rule updated_id)

lemma update_row_cases:
  assumes "update_filing_row E V i b rows = Inr (r, rows')"
  obtains "get_row fl_id i rows = None" "rows' = rows"
  | f where "get_row fl_id i rows = Some f" "fu_status b \<noteq> Some None" "rows' = put_row fl_id i (updated_filing (now E, b) f) rows"
  using assms unfolding update_filing_row_def get_filing_row_def updated_filing_def Let_def
  by (auto split: option.splits if_splits)

lemma updated_wf:
  assumes "validate_filing_update body = Inr b" and "fu_status b \<noteq> Some None" and "filing_wf f"
  shows "filing_wf (updated_filing (t, b) f)"
proof -
  obtain st where v: "on_field (on_field validate_filing_status) (fu_status body) = Inr st"
    and b: "b = body\<lparr>fu_status := st, fu_ticker := map_option normalise_filing_ticker (fu_ticker body)\<rparr>"
    using assms(1) by (auto simp: validate_filing_update_def split: if_splits elim!: rbind_InrE)
  have status: "x \<in> set VALID_FILING_STATUSES" if "fu_status b = Some (Some x)" for x
    using v that by (auto simp: b on_field_def validate_filing_status_def Let_def split: option.splits if_splits elim!: rbind_InrE)
  have ticker: "x \<noteq> Some []" if "fu_ticker b = Some x" for x
    using that ticker_not_empty by (auto simp: b)
  have "filing_wf (set_filing_fields b f)"
    using assms(3) status ticker by (auto simp: filing_wf_def set_filing_fields_def keep_or_def split: option.splits)
  then show ?thesis using assms(3) by (auto simp: updated_filing_def filing_wf_def)
qed

lemma put_filing_wf:
  assumes "filings_wf rows" and "get_row fl_id i rows = Some f" and "filing_wf (updated_filing p f)"
  shows "filings_wf (put_row fl_id i (updated_filing p f) rows)"
proof -
  have acc: "map fl_accession_number (put_row fl_id i (updated_filing p f) rows) = map fl_accession_number rows"
    using assms(1,2) updated_identity[of p f] get_row_Some[OF assms(2)]
    by (auto simp: put_row_def update_where_def filing_identity_def filings_wf_def distinct_map inj_on_def)
  have "filing_wf r" if "r \<in> set (put_row fl_id i (updated_filing p f) rows)" for r
    using that assms(1,3) by (auto simp: put_row_def set_update_where filings_wf_def)
  then show ?thesis using assms(1) filing_table.keys_kept[OF assms(2), of p] acc by (simp add: filings_wf_def)
qed

text \<open>
  C37: the table of filings stays well formed under every sequence of requests to the service: unique ids and accession numbers,
  accession numbers and keys of the SEC in their format, types and states of the enumerations, no empty ticker.  And
  as long as nothing is deleted, every row is still there, with its accession number, type, key, date and time of creation.
\<close>

theorem filing_requests_keep_table:
  assumes "filings_wf rows"
  shows "filings_wf (foldl (filing_serve V) rows rs)
    \<and> ((\<forall>r \<in> set rs. \<forall>i. r \<noteq> DeleteFiling i) \<longrightarrow>
        set (map filing_identity rows) \<subseteq> set (map filing_identity (foldl (filing_serve V) rows rs)))"
  using assms
proof (induction rs arbitrary: rows)
  case Nil
  then show ?case by simp
next
  case (Cons r rs)
  have step: "filings_wf (filing_serve V rows r)
      \<and> ((\<forall>i. r \<noteq> DeleteFiling i) \<longrightarrow> set (map filing_identity rows) \<subseteq> set (map filing_identity (filing_serve V rows r)))"
  proof (cases r)
    case (CreateFiling E body)
    show ?thesis
    proof (cases "validate_filing_create body")
      case (Inr b)
      have "filings_wf (rows @ [f])" if "create_filing_row E V b rows = Inr (f, rows')" for f rows'
        using created_filing[OF that] validated_create[OF Inr] Cons.prems by (auto simp: filings_wf_def filing_wf_def)
      then show ?thesis using Cons.prems created_filing[of E V b rows] CreateFiling Inr
        by (auto simp: service_create_filing_def split: sum.splits filing_error.splits)
    qed (use Cons.prems CreateFiling in simp)
  next
    case (UpdateFiling E i body)
    show ?thesis
    proof (cases "validate_filing_update body")
      case (Inr b)
      show ?thesis
      proof (cases "update_filing_row E V i b rows")
        case (Inl e)
        then show ?thesis using Cons.prems UpdateFiling Inr by (simp add: service_update_filing_def)
      next
        case (Inr p)
        obtain x rows' where u: "update_filing_row E V i b rows = Inr (x, rows')" using Inr by (cases p) simp
        then have s: "filing_serve V rows r = rows'"
          using \<open>validate_filing_update body = Inr b\<close> UpdateFiling by (simp add: service_update_filing_def split: option.splits)
        from u show ?thesis
        proof (cases rule: update_row_cases)
          case 1
          then show ?thesis using s Cons.prems by simp
        next
          case (2 f)
          have f: "f \<in> set rows" "fl_id f = i" using get_row_Some[OF 2(1)] by simp_all
          have "filing_wf (updated_filing (now E, b) f)"
            using updated_wf[OF \<open>validate_filing_update body = Inr b\<close> 2(2)] f Cons.prems by (simp add: filings_wf_def)
          from put_filing_wf[OF Cons.prems 2(1) this] s 2(3) have wf: "filings_wf (filing_serve V rows r)" by simp
          have "filing_identity g \<in> set (map filing_identity rows')" if "g \<in> set rows" for g
          proof (cases "fl_id g = i")
            case True
            then have "g = f" using f that Cons.prems by (auto simp: filings_wf_def distinct_map inj_on_def)
            then have "updated_filing (now E, b) f \<in> set rows'" using f by (auto simp: 2(3) put_row_def set_update_where)
            then show ?thesis using updated_identity[of "(now E, b)" f] \<open>g = f\<close> by (metis image_eqI set_map)
          next
            case False
            then have "g \<in> set rows'" using that by (auto simp: 2(3) put_row_def set_update_where)
            then show ?thesis by simp
          qed
          then show ?thesis using wf s by auto
        qed
      qed
    qed (use Cons.prems UpdateFiling in simp)
  next
    case (DeleteFiling i)
    then show ?thesis using Cons.prems
      by (auto simp: service_delete_filing_def delete_filing_row_def filings_wf_def intro: distinct_map_filter split: option.splits)
  qed
  then have wf: "filings_wf (filing_serve V rows r)" by blast
  from Cons.IH[OF wf] step show ?case by fastforce
qed


subsection \<open>Where documents are kept and where they are looked for\<close>

lemma store_touches:
  assumes "sync_store base t q fs = Inr (r, fs')"
  obtains p where "full_path base (rq_key q) = Inr p" and "\<And>p'. p' \<noteq> p \<Longrightarrow> files fs' p' = files fs p'"
    and "files fs p = None \<Longrightarrow> files fs' p = Some (rq_content q)"
  using assms unfolding sync_store_def Let_def by (auto elim!: rbind_InrE split: if_splits option.splits)

lemma full_path_below: "full_path base key = Inr p \<Longrightarrow> prefix (path_string base) (path_string p)"
  by (auto simp: full_path_def Let_def split: if_splits)

lemma base_strings: "path_string API_STORAGE_BASE = ''/tmp/fdh-documents''" "path_string STORAGE_BASE = ''/tmp/fdh-filings''"
  by (simp_all add: API_STORAGE_BASE_def STORAGE_BASE_def path_string_def)

lemma directories_disjoint:
  assumes "full_path STORAGE_BASE k = Inr p" and "full_path API_STORAGE_BASE k' = Inr p'"
  shows "p \<noteq> p'"
  using full_path_below[OF assms(1)] full_path_below[OF assms(2)] unfolding base_strings by (auto simp: prefix_def)

definition none_for_api :: "file_system \<Rightarrow> bool" where
  "none_for_api fs = (\<forall>p. prefix ''/tmp/fdh-documents'' (path_string p) \<longrightarrow> files fs p = None)"

lemma worker_store_invisible:
  assumes "none_for_api fs" and "sync_store STORAGE_BASE t q fs = Inr (r, fs')"
  shows "none_for_api fs'"
proof -
  obtain p where p: "full_path STORAGE_BASE (rq_key q) = Inr p" "\<And>p'. p' \<noteq> p \<Longrightarrow> files fs' p' = files fs p'"
    using assms(2) by (rule store_touches) blast
  have "\<not> prefix ''/tmp/fdh-documents'' (path_string p)"
    using full_path_below[OF p(1)] unfolding base_strings by (auto simp: prefix_def)
  then show ?thesis using assms(1) p(2) unfolding none_for_api_def by metis
qed

lemma worker_stores_invisible: "none_for_api fs \<Longrightarrow> none_for_api (store_each STORAGE_BASE qs fs)"
proof (induction qs arbitrary: fs)
  case Nil
  then show ?case by (simp add: store_each_def)
next
  case (Cons x qs)
  obtain t q where x: "x = (t, q)" by fastforce
  have "none_for_api (case sync_store STORAGE_BASE t q fs of Inr (_, fs') \<Rightarrow> fs' | Inl _ \<Rightarrow> fs)"
    using Cons.prems worker_store_invisible[OF Cons.prems] by (auto split: sum.splits)
  from Cons.IH[OF this] show ?case by (simp add: store_each_def x)
qed

lemma full_path_error: "full_path base key = Inl e \<Longrightarrow> e = StorageError"
  by (simp add: full_path_def Let_def split: if_splits)

lemma nothing_retrieved:
  assumes "none_for_api fs"
  shows "api_storage None fs key \<in> {Inl StorageError, Inr None}"
proof (cases "full_path API_STORAGE_BASE key")
  case (Inl e)
  then show ?thesis using full_path_error[OF Inl] by (simp add: api_storage_def sync_retrieve_def)
next
  case (Inr p)
  from full_path_below[OF Inr] assms have "files fs p = None" by (simp add: none_for_api_def base_strings)
  then show ?thesis using Inr by (simp add: api_storage_def sync_retrieve_def)
qed

text \<open>
  C31: without an object store, no document a worker stored is ever served.  The workers keep
  documents below \<^verbatim>\<open>/tmp/fdh-filings\<close>, the endpoint reads below \<^verbatim>\<open>/tmp/fdh-documents\<close>: as long as nothing else writes there, the
  endpoint answers every request for a document with an error, whatever the workers stored and the table lists; for a
  listed document whose key stays below the directory the error is 404.
\<close>

theorem worker_documents_not_served:
  assumes "none_for_api fs"
  shows "case get_filing_document (api_storage None (store_each STORAGE_BASE qs fs)) ctx acc docs of
      Inr response \<Rightarrow> False
    | Inl e \<Rightarrow> \<forall>c a d p. ctx = Some c \<and> validate_accession acc = Inr a \<and> get_by_accession_number a docs = OneRow d
                  \<and> full_path API_STORAGE_BASE (sd_object_key d) = Inr p \<longrightarrow> e = FlNotFound"
proof -
  let ?fs = "store_each STORAGE_BASE qs fs"
  have none: "none_for_api ?fs" using assms by (rule worker_stores_invisible)
  have listed: "api_storage None ?fs key = Inr None" if "full_path API_STORAGE_BASE key = Inr p" for key p
    using nothing_retrieved[OF none, of key] that by (auto simp: api_storage_def sync_retrieve_def)
  have "\<exists>e. get_filing_document (api_storage None ?fs) (Some c) acc docs = Inl e" for c
  proof (cases "validate_accession acc")
    case (Inr a)
    show ?thesis
    proof (cases "get_by_accession_number a docs")
      case (OneRow d)
      then show ?thesis using Inr nothing_retrieved[OF none, of "sd_object_key d"]
        by (auto simp: get_filing_document_def require_authenticated_def)
    qed (simp_all add: Inr get_filing_document_def require_authenticated_def)
  qed (simp add: get_filing_document_def require_authenticated_def)
  then have "\<exists>e. get_filing_document (api_storage None ?fs) ctx acc docs = Inl e"
    by (cases ctx) (simp_all add: get_filing_document_def require_authenticated_def)
  then obtain e where e: "get_filing_document (api_storage None ?fs) ctx acc docs = Inl e" ..
  have "e = FlNotFound" if "ctx = Some c" "validate_accession acc = Inr a" "get_by_accession_number a docs = OneRow d"
      "full_path API_STORAGE_BASE (sd_object_key d) = Inr p" for c a d p
    using e that listed[OF that(4)] by (simp add: get_filing_document_def require_authenticated_def)
  with e show ?thesis by auto
qed

text \<open>What was stored below the directory of the endpoint under a free key is served as it was.\<close>

lemma api_documents_served:
  assumes "full_path API_STORAGE_BASE (rq_key q) = Inr p" and "files fs p = None"
    and "sync_store API_STORAGE_BASE t q fs = Inr (r, fs')"
    and "validate_accession acc = Inr a" and "get_by_accession_number a docs = OneRow d" and "sd_object_key d = rq_key q"
  shows "\<exists>response. get_filing_document (api_storage None fs') (Some c) acc docs = Inr response
    \<and> dr_content response = rq_content q \<and> dr_content_hash response = sd_content_hash d \<and> dr_accession_number response = a"
proof -
  have "files fs' p = Some (rq_content q)"
    using assms(3) by (rule store_touches) (use assms(1,2) in simp)
  then show ?thesis
    using assms(1,4-6) by (simp add: get_filing_document_def require_authenticated_def api_storage_def sync_retrieve_def Let_def)
qed

subsection \<open>Lists and fiscal coordinates\<close>

lemma query_pages: "fq_page (plain_query page per) = page" "fq_page_size (plain_query page per) = per"
  by (simp_all add: plain_query_def)

text \<open>
  The pages of a list of filings partition it, in the order of the database.
\<close>

lemma filing_pages_partition:
  assumes "\<And>fs. length (by_date_desc fs) = length fs" and "page_ok 1 per"
    and "hits = by_date_desc (filter (filing_matches ((plain_query 1 per)\<lparr>fq_filing_type := ty, fq_status := st, fq_cik := cik, fq_ticker := ticker\<rparr>)) rows)"
  shows "concat (map (\<lambda>page. li_items (projr (list_filings by_date_desc (Some c) page per ty st cik ticker rows))) [1..<Suc (page_count per (length hits))]) = hits"
proof -
  have per: "0 < per" "1 \<le> per" "per \<le> 100" using assms(2) by (simp_all add: page_ok_def)
  have m: "filing_matches ((plain_query page per)\<lparr>fq_filing_type := ty, fq_status := st, fq_cik := cik, fq_ticker := ticker\<rparr>)
      = filing_matches ((plain_query 1 per)\<lparr>fq_filing_type := ty, fq_status := st, fq_cik := cik, fq_ticker := ticker\<rparr>)" for page
    by (rule ext) (simp add: filing_matches_def plain_query_def)
  have items: "li_items (projr (list_filings by_date_desc (Some c) page per ty st cik ticker rows)) = page_of per page hits" if "1 \<le> page" for page
    using that per
    by (simp add: list_filings_def require_authenticated_def page_ok_def service_list_filings_def list_filing_rows_def Let_def assms(3) query_pages)
      (simp only: m[of page] One_nat_def)
  have "map (\<lambda>page. li_items (projr (list_filings by_date_desc (Some c) page per ty st cik ticker rows))) [1..<Suc (page_count per (length hits))]
      = map (\<lambda>page. page_of per page hits) [1..<Suc (page_count per (length hits))]"
    by (rule map_cong) (auto intro: items)
  then show ?thesis using pages_cover[of per hits] per(1) by (simp only:)
qed

text \<open>A filing created through the schema never has the fiscal year and period of its body.\<close>

lemma created_filing_drops_fiscal_coordinates:
  "service_create_filing E V b rows = (Inr f, rows') \<Longrightarrow> fl_fiscal_year f = None \<and> fl_fiscal_period f = None"
  by (auto simp: service_create_filing_def dest: created_filing split: if_splits sum.splits filing_error.splits)

text \<open>A foreign key without a row is reported as a duplicate accession number.\<close>

lemma dangling_key_is_conflict:
  assumes "\<not> keys_exist V (fc_company_id b) (fc_source_config_id b)"
  shows "service_create_filing E V b rows = (Inl FlConflict, rows)"
  using assms by (simp add: service_create_filing_def create_filing_row_def Let_def)

subsection \<open>Instances\<close>

definition sample_filing_body :: "unit filing_create" where
  "sample_filing_body = \<lparr>fc_filing_type = ''10-K'', fc_accession_number = ''0000320193-23-000077'', fc_filing_date = 738827,
     fc_cik = ''320193'', fc_company_id = None, fc_source_config_id = None, fc_period_end_date = None, fc_ticker = Some '' aapl '',
     fc_title = None, fc_filing_url = None, fc_document_url = None, fc_status = ''Discovered'', fc_fiscal_year = Some 2023,
     fc_fiscal_period = Some ''FY'', fc_filing_metadata = None\<rparr>"

definition open_filing_env :: filing_env where "open_filing_env = \<lparr>fv_companies = {}, fv_sources = {}\<rparr>"

lemma filing_requests_keep_table_witness:
  "filings_wf (foldl (filing_serve open_filing_env) [] [CreateFiling demo_env sample_filing_body, DeleteFiling ''f1''])"
  using filing_requests_keep_table[of "[] :: unit filing_row list" open_filing_env "[CreateFiling demo_env sample_filing_body, DeleteFiling ''f1'']"]
  by (simp add: filings_wf_def)

lemma sample_filing_accepted:
  "map fl_ticker (filing_serve open_filing_env [] (CreateFiling demo_env sample_filing_body)) = [Some ''AAPL'']"
  by code_simp

definition empty_files :: file_system where "empty_files = \<lparr>files = Map.empty, metas = Map.empty\<rparr>"

definition sample_worker_store :: store_request where
  "sample_worker_store = \<lparr>rq_key = ''filings/1/document.html'', rq_content = ''<html/>'', rq_mime_type = ''text/html'',
     rq_content_hash = ''h'', rq_allow_overwrite = False\<rparr>"

definition sample_stored_row :: stored_document where
  "sample_stored_row = \<lparr>sd_accession_number = ''0000320193-23-000077'', sd_storage_type = ''local'', sd_bucket_name = None,
     sd_object_key = ''filings/1/document.html'', sd_content_hash = ''h'', sd_content_length = 7, sd_mime_type = ''text/html'', sd_stored_at = 0\<rparr>"

lemma worker_documents_not_served_witness:
  "get_filing_document (api_storage None (store_each STORAGE_BASE [(5, sample_worker_store)] empty_files)) (Some demo_analyst)
     ''0000320193-23-000077'' [sample_stored_row] = Inl FlNotFound"
proof -
  have n: "none_for_api empty_files" by (simp add: none_for_api_def empty_files_def)
  have v: "validate_accession ''0000320193-23-000077'' = Inr ''0000320193-23-000077''" by code_simp
  have g: "get_by_accession_number ''0000320193-23-000077'' [sample_stored_row] = OneRow sample_stored_row"
    by (simp add: get_by_accession_number_def sample_stored_row_def)
  have f: "full_path API_STORAGE_BASE (sd_object_key sample_stored_row) = Inr [''tmp'', ''fdh-documents'', ''filings'', ''1'', ''document.html'']"
    by code_simp
  from worker_documents_not_served[OF n, where qs = "[(5, sample_worker_store)]" and ctx = "Some demo_analyst" and acc = "''0000320193-23-000077''" and docs = "[sample_stored_row]"]
  show ?thesis using v g f by (auto split: sum.splits)
qed

end
