(* ===== verification/AcquisitionApi.thy ===== *)
theory AcquisitionApi
  imports Acquisition Companies FXRates
begin

text \<open>
  Starting background work: the endpoints of \<^verbatim>\<open>apps/api/routers/acquisition.py\<close> with the list of
  \<^verbatim>\<open>apps/api/repositories/acquisition_jobs.py\<close>, and the one of \<^verbatim>\<open>apps/api/routers/admin.py\<close>.  The broker either takes a task
  or raises; the order of a list by creation is the database's and a parameter.
\<close>

subsection \<open>Acquisition jobs\<close>

record acq_service_env =
  se_factory_ready :: bool
  se_broker_up :: bool
  se_new_id :: uuid
  se_now :: instant

record acq_api =
  aa_db :: acq_db
  aa_dispatched :: "uuid list"

datatype acq_api_error = AaAuth auth_error | AaValidation | AaNotFound | AaConflict string | AaNotInitialised | AaSchema py_error

text \<open>A failure to dispatch is logged and swallowed.\<close>

definition dispatch_celery :: "acq_service_env \<Rightarrow> uuid \<Rightarrow> acq_api \<Rightarrow> acq_api" where
  "dispatch_celery E i s = (if se_broker_up E then s\<lparr>aa_dispatched := aa_dispatched s @ [i]\<rparr> else s)"

definition start_acquisition :: "acq_service_env \<Rightarrow> string \<Rightarrow> acq_api \<Rightarrow> (acq_api_error + acquisition_job) \<times> acq_api" where
  "start_acquisition E ticker s =
     (if \<not> se_factory_ready E then (Inl AaNotInitialised, s)
      else case create_job (se_new_id E) (se_now E) ticker (aa_db s) of
          Inl e \<Rightarrow> (Inl (AaSchema e), s)
        | Inr (j, db) \<Rightarrow> (Inr j, dispatch_celery E (aj_id j) (s\<lparr>aa_db := db\<rparr>)))"

definition create_acquisition_job :: "acq_service_env \<Rightarrow> auth_context option \<Rightarrow> string \<Rightarrow> acq_api
    \<Rightarrow> (acq_api_error + acquisition_job) \<times> acq_api" where
  "create_acquisition_job E ctx ticker s =
     (case require_role ANALYST ctx of
        Inl e \<Rightarrow> (Inl (AaAuth e), s)
      | Inr c \<Rightarrow> if \<not> length_in 1 20 ticker then (Inl AaValidation, s)
                 else start_acquisition E (normalise_ticker ticker) s)"

record acq_query =
  aq_status :: "string option"
  aq_ticker :: "string option"
  aq_cik :: "string option"

definition acq_job_matches :: "acq_query \<Rightarrow> acquisition_job \<Rightarrow> bool" where
  "acq_job_matches q j =
     ((case aq_status q of None \<Rightarrow> True | Some v \<Rightarrow> aj_status j = str_lower v)
      \<and> (case aq_ticker q of None \<Rightarrow> True | Some v \<Rightarrow> aj_ticker j = str_upper (str_strip v))
      \<and> (case aq_cik q of None \<Rightarrow> True | Some v \<Rightarrow> aj_cik j = Some (zfill 10 (str_strip v))))"

definition list_acq_job_rows :: "(acquisition_job list \<Rightarrow> acquisition_job list) \<Rightarrow> acq_query \<Rightarrow> nat \<Rightarrow> nat \<Rightarrow> acquisition_job list
    \<Rightarrow> acquisition_job list \<times> nat" where
  "list_acq_job_rows by_created_desc q page per jobs =
     (let hits = filter (acq_job_matches q) jobs in (page_of per page (by_created_desc hits), length hits))"

definition list_acquisition_jobs :: "(acquisition_job list \<Rightarrow> acquisition_job list) \<Rightarrow> auth_context option \<Rightarrow> nat \<Rightarrow> nat \<Rightarrow> string option
    \<Rightarrow> string option \<Rightarrow> acq_api \<Rightarrow> acq_api_error + acquisition_job listing" where
  "list_acquisition_jobs by_created_desc ctx page per st ticker s =
     rbind (map_error AaAuth (require_authenticated ctx)) (\<lambda>c.
       if \<not> (1 \<le> page \<and> 1 \<le> per \<and> per \<le> 100) then Inl AaValidation
       else (let (items, n) = list_acq_job_rows by_created_desc \<lparr>aq_status = st, aq_ticker = ticker, aq_cik = None\<rparr> page per (acq_jobs (aa_db s))
             in Inr \<lparr>li_items = items, li_total = n, li_page = page, li_page_size = per, li_pages = page_count per n\<rparr>))"

definition get_acquisition_job :: "auth_context option \<Rightarrow> uuid \<Rightarrow> acq_api \<Rightarrow> acq_api_error + acquisition_job" where
  "get_acquisition_job ctx i s =
     rbind (map_error AaAuth (require_authenticated ctx)) (\<lambda>c.
       case get_row aj_id i (acq_jobs (aa_db s)) of None \<Rightarrow> Inl AaNotFound | Some j \<Rightarrow> Inr j)"

definition retry_acquisition_job :: "acq_service_env \<Rightarrow> auth_context option \<Rightarrow> uuid \<Rightarrow> acq_api
    \<Rightarrow> (acq_api_error + acquisition_job) \<times> acq_api" where
  "retry_acquisition_job E ctx i s =
     (case require_role ANALYST ctx of
        Inl e \<Rightarrow> (Inl (AaAuth e), s)
      | Inr c \<Rightarrow>
     (case get_row aj_id i (acq_jobs (aa_db s)) of
        None \<Rightarrow> (Inl AaNotFound, s)
      | Some original \<Rightarrow>
          if aj_status original \<noteq> ''failed'' then (Inl (AaConflict (aj_status original)), s)
          else start_acquisition E (aj_ticker original) s))"

subsection \<open>The import of rates\<close>

record fx_sync_request =
  fs_days_back :: int
  fs_currencies :: "string list option"

datatype admin_error = AdAuth auth_error | AdValidation | AdBrokerDown

record fx_sync_call =
  fk_days_back :: int
  fk_currencies :: "string list option"
  fk_queue :: string

definition QUEUE_FETCH :: string where "QUEUE_FETCH = ''fetch''"

text \<open>An empty list of currencies is passed on as it is; the message calls it the default list.\<close>

definition trigger_fx_sync :: "bool \<Rightarrow> auth_context option \<Rightarrow> fx_sync_request \<Rightarrow> fx_sync_call list
    \<Rightarrow> (admin_error + fx_sync_call) \<times> fx_sync_call list" where
  "trigger_fx_sync broker_up ctx body sent =
     (case require_role ADMIN ctx of
        Inl e \<Rightarrow> (Inl (AdAuth e), sent)
      | Inr c \<Rightarrow>
          if \<not> (1 \<le> fs_days_back body \<and> fs_days_back body \<le> 3650) then (Inl AdValidation, sent)
          else (let call = \<lparr>fk_days_back = fs_days_back body, fk_currencies = map_option (map str_upper) (fs_currencies body),
                            fk_queue = QUEUE_FETCH\<rparr>
                in if broker_up then (Inr call, sent @ [call]) else (Inl AdBrokerDown, sent)))"

subsection \<open>Properties\<close>

lemma created_acq_job:
  "create_job i t ticker db = Inr (j, db') \<Longrightarrow>
     aj_id j = i \<and> aj_ticker j = str_upper (str_strip ticker) \<and> aj_status j = ''pending'' \<and> acq_jobs db' = acq_jobs db @ [j]
     \<and> filings db' = filings db \<and> stored_documents db' = stored_documents db"
  by (auto simp: create_job_def Let_def split: if_splits)

lemma created_iff: "(\<exists>r. create_job i t ticker db = Inr r) \<longleftrightarrow> length_in 1 20 ticker"
  by (auto simp: create_job_def length_in_def Let_def Suc_le_eq)

text \<open>
  A retry starts a new pending job for the ticker of a failed one, and only then; the failed job
  keeps its row.  With the broker down the request still succeeds and the new job is dispatched to nobody.
\<close>

lemma retry_starts_new_job:
  assumes "retry_acquisition_job E ctx i s = (Inr j, s')"
  obtains original where "get_row aj_id i (acq_jobs (aa_db s)) = Some original" and "aj_status original = ''failed''"
    and "aj_id j = se_new_id E" and "aj_status j = ''pending''" and "aj_ticker j = str_upper (str_strip (aj_ticker original))"
    and "acq_jobs (aa_db s') = acq_jobs (aa_db s) @ [j]"
    and "aa_dispatched s' = aa_dispatched s @ (if se_broker_up E then [se_new_id E] else [])"
  using assms
  by (auto simp: retry_acquisition_job_def start_acquisition_def dispatch_celery_def dest!: created_acq_job
      split: sum.splits option.splits if_splits)

text \<open>A job whose dispatch failed waits for ever: nothing but a delivered task changes a pending job.\<close>

lemma undispatched_job_succeeds:
  assumes "require_role ANALYST ctx = Inr c" and "se_factory_ready E" and "\<not> se_broker_up E"
    and "length_in 1 20 ticker" and "normalise_ticker ticker \<noteq> []"
  shows "\<exists>j s'. create_acquisition_job E ctx ticker s = (Inr j, s') \<and> aj_status j = ''pending'' \<and> aa_dispatched s' = aa_dispatched s"
proof -
  have "length (str_strip ticker) \<le> length ticker" unfolding str_strip_def
    by (metis length_dropWhile_le length_rev order_trans)
  then have "length_in 1 20 (normalise_ticker ticker)"
    using assms(4,5) by (simp add: normalise_ticker_def length_in_def str_upper_def Suc_le_eq)
  then obtain j db where "create_job (se_new_id E) (se_now E) (normalise_ticker ticker) (aa_db s) = Inr (j, db)"
    using created_iff by fastforce
  then show ?thesis using assms(1-4) created_acq_job[of "se_new_id E" "se_now E" "normalise_ticker ticker" "aa_db s" j db]
    by (simp add: create_acquisition_job_def start_acquisition_def dispatch_celery_def)
qed

text \<open>A ticker of blanks passes the schema of the body and fails the schema of the service, a server error.\<close>

lemma blank_ticker_is_server_error:
  assumes "require_role ANALYST ctx = Inr c" and "se_factory_ready E" and "length_in 1 20 ticker" and "str_strip ticker = []"
  shows "create_acquisition_job E ctx ticker s = (Inl (AaSchema ValueError), s)"
  using assms by (simp add: create_acquisition_job_def start_acquisition_def create_job_def normalise_ticker_def str_upper_def)

text \<open>Jobs belong to no workspace: every authenticated caller sees the same ones.\<close>

lemma acquisition_jobs_are_global:
  "get_acquisition_job (Some c) i s = get_acquisition_job (Some c') i s
   \<and> list_acquisition_jobs f (Some c) page per st ticker s = list_acquisition_jobs f (Some c') page per st ticker s"
  by (simp add: get_acquisition_job_def list_acquisition_jobs_def require_authenticated_def)

text \<open>
  An administrator who starts an import of rates is told that it is queued, but the import can change
  nothing: the task that the endpoint sends fails at its imports in each of its attempts and leaves the table of rates as it was.
\<close>

theorem queued_import_changes_nothing:
  assumes "trigger_fx_sync broker_up ctx body sent = (Inr call, sent')"
  shows "sent' = sent @ [call] \<and> (\<exists>c. require_role ADMIN ctx = Inr c)
    \<and> sync_fx_rates_task H ordered clock today (fk_days_back call) (fk_currencies call) 0 rows
        = (SyncFailed (ImportError ''AsyncSessionLocal''), [60, 180, 600], rows)"
proof -
  have "sent' = sent @ [call] \<and> (\<exists>c. require_role ADMIN ctx = Inr c)"
    using assms by (auto simp: trigger_fx_sync_def Let_def split: sum.splits if_splits)
  then show ?thesis using rate_sync_never_stores[of H ordered clock today "fk_days_back call" "fk_currencies call" rows] by blast
qed

definition sync_admin :: auth_context where
  "sync_admin = context_of (demo_payload\<lparr>tp_role := ''admin''\<rparr>)"

definition quarter_sync :: fx_sync_request where
  "quarter_sync = \<lparr>fs_days_back = 90, fs_currencies = Some [''eur'']\<rparr>"

definition quarter_call :: fx_sync_call where
  "quarter_call = \<lparr>fk_days_back = 90, fk_currencies = Some [''EUR''], fk_queue = ''fetch''\<rparr>"

lemma quarter_sent: "trigger_fx_sync True (Some sync_admin) quarter_sync [] = (Inr quarter_call, [quarter_call])"
proof -
  have u: "str_upper ''eur'' = ''EUR''" by code_simp
  show ?thesis
    by (simp add: trigger_fx_sync_def require_role_def require_authenticated_def sync_admin_def context_of_def demo_payload_def
      quarter_sync_def quarter_call_def QUEUE_FETCH_def u Let_def)
qed

lemma queued_import_changes_nothing_witness:
  "sync_fx_rates_task (\<lambda>_. sample_ecb) (\<lambda>_. []) int (\<lambda>_. 738000) (fk_days_back quarter_call) (fk_currencies quarter_call) 0 []
     = (SyncFailed (ImportError ''AsyncSessionLocal''), [60, 180, 600], [])"
  using queued_import_changes_nothing[OF quarter_sent] by blast

end
