(* ===== verification/DocumentParsers.thy ===== *)
theory DocumentParsers
  imports UnitNormaliser ExportTask FXRates LocalStorage
begin

text \<open>
  The registry of document parsers, \<^verbatim>\<open>services/ingestion/parsers/\<close>: the base class, the parser of Indian reports
  (\<^verbatim>\<open>india_brsr.py\<close>), the one of SEC filings (\<^verbatim>\<open>sec_10k.py\<close>) and the factory that chooses between them.  Documents are ASCII; the
  text of the prompt supplement and the digest of a document are parameters.  \<open>_adapt_xbrl_items\<close> is left out:
  the import before its only call fails.
\<close>

subsection \<open>Results\<close>

record base_line_item =
  bl_concept_label :: string
  bl_canonical_field :: string
  bl_statement_type :: string
  bl_value_reported :: rat
  bl_reported_currency :: "string option"
  bl_value_usd :: "rat option"
  bl_unit_multiplier :: int
  bl_fiscal_year :: int
  bl_fiscal_period :: string
  bl_filing_date :: date
  bl_reporting_standard :: string
  bl_reporting_framework :: string
  bl_page_number :: "int option"
  bl_confidence_pct :: rat
  bl_source_file_hash :: "string option"
  bl_extraction_method :: string

datatype metadata_value =
    MetaText string | MetaInt int | MetaTable "(string \<times> string) list" | MetaPrinciples "(nat \<times> string) list"

record parse_result =
  pr_line_items :: "base_line_item list"
  pr_source_file_hash :: "string option"
  pr_parser_name :: string
  pr_reporting_framework :: string
  pr_metadata :: "(string \<times> metadata_value) list"
  pr_warnings :: "string list"
  pr_errors :: "string list"

definition blank_parse_result :: parse_result where
  "blank_parse_result = \<lparr>pr_line_items = [], pr_source_file_hash = None, pr_parser_name = ''unknown'', pr_reporting_framework = ''UNKNOWN'',
     pr_metadata = [], pr_warnings = [], pr_errors = []\<rparr>"

definition pr_success :: "parse_result \<Rightarrow> bool" where
  "pr_success r = (length (pr_errors r) = 0)"

definition pr_item_count :: "parse_result \<Rightarrow> nat" where
  "pr_item_count r = length (pr_line_items r)"

datatype parser = IndiaBRSRParser | SEC10KParser

fun parser_name :: "parser \<Rightarrow> string" where
  "parser_name IndiaBRSRParser = ''india_brsr''"
| "parser_name SEC10KParser = ''sec_10k''"

fun supported_frameworks :: "parser \<Rightarrow> string list" where
  "supported_frameworks IndiaBRSRParser = [''IND_AS'', ''SEBI_BRSR'', ''MCA_AOC'']"
| "supported_frameworks SEC10KParser = [''US_GAAP'', ''SEC_10K'', ''SEC_10Q'', ''SEC_20F'']"

text \<open>What \<open>can_handle\<close> of the base class answers; both parsers override it.\<close>

definition base_can_handle :: "string list \<Rightarrow> string \<Rightarrow> bool" where
  "base_can_handle frameworks rs = (str_upper rs \<in> set (map str_upper frameworks))"

definition brsr_can_handle :: "string \<Rightarrow> string \<Rightarrow> string \<Rightarrow> bool" where
  "brsr_can_handle dt cc rs =
     (let rs_upper = str_upper rs; cc_upper = str_upper cc
      in if rs_upper \<in> {''IND_AS'', ''SEBI_BRSR'', ''MCA_AOC''} then True else cc_upper = ''IN'' \<and> rs_upper = ''IFRS'')"

definition sec_can_handle :: "string \<Rightarrow> string \<Rightarrow> string \<Rightarrow> bool" where
  "sec_can_handle dt cc rs =
     (if str_upper rs = ''US_GAAP'' then True
      else if str_lower dt \<in> {''sec_10k'', ''sec_10q'', ''sec_20f''} then True
      else str_upper cc = ''US'' \<and> str_lower dt \<in> {''xbrl'', ''ixbrl''})"

fun can_handle :: "parser \<Rightarrow> string \<Rightarrow> string \<Rightarrow> string \<Rightarrow> bool" where
  "can_handle IndiaBRSRParser = brsr_can_handle"
| "can_handle SEC10KParser = sec_can_handle"

subsection \<open>Indian reports\<close>

definition IND_AS_LABEL_MAP :: "(string \<times> string) list" where
  "IND_AS_LABEL_MAP =
     [(''revenue from operations'', ''ifrs-full:Revenue''),
      (''total revenue'', ''ifrs-full:Revenue''),
      (''other income'', ''ifrs-full:OtherIncome''),
      (''total income'', ''ifrs-full:Revenue''),
      (''cost of materials consumed'', ''ifrs-full:CostOfSales''),
      (''cost of goods sold'', ''ifrs-full:CostOfSales''),
      (''employee benefit expenses'', ''ifrs-full:EmployeeBenefitsExpense''),
      (''finance costs'', ''ifrs-full:FinanceCosts''),
      (''depreciation and amortization'', ''ifrs-full:DepreciationAndAmortisationExpense''),
      (''other expenses'', ''ifrs-full:OtherExpense''),
      (''profit before tax'', ''ifrs-full:ProfitLossBeforeTax''),
      (''profit before exceptional items and tax'', ''ifrs-full:ProfitLossBeforeTax''),
      (''exceptional items'', ''ifrs-full:OtherComprehensiveIncome''),
      (''tax expense'', ''ifrs-full:IncomeTaxExpense''),
      (''profit after tax'', ''ifrs-full:ProfitLoss''),
      (''profit for the year'', ''ifrs-full:ProfitLoss''),
      (''pat'', ''ifrs-full:ProfitLoss''),
      (''earnings per share basic'', ''ifrs-full:BasicEarningsLossPerShare''),
      (''basic eps'', ''ifrs-full:BasicEarningsLossPerShare''),
      (''diluted eps'', ''ifrs-full:DilutedEarningsLossPerShare''),
      (''total assets'', ''ifrs-full:Assets''),
      (''non-current assets'', ''ifrs-full:NoncurrentAssets''),
      (''current assets'', ''ifrs-full:CurrentAssets''),
      (''cash and cash equivalents'', ''ifrs-full:CashAndCashEquivalents''),
      (''trade receivables'', ''ifrs-full:TradeAndOtherCurrentReceivables''),
      (''inventories'', ''ifrs-full:Inventories''),
      (''property plant and equipment'', ''ifrs-full:PropertyPlantAndEquipment''),
      (''goodwill'', ''ifrs-full:Goodwill''),
      (''total liabilities'', ''ifrs-full:Liabilities''),
      (''non-current liabilities'', ''ifrs-full:NoncurrentLiabilities''),
      (''current liabilities'', ''ifrs-full:CurrentLiabilities''),
      (''trade payables'', ''ifrs-full:TradeAndOtherCurrentPayables''),
      (''borrowings'', ''ifrs-full:Borrowings''),
      (''equity share capital'', ''ifrs-full:IssuedCapital''),
      (''reserves and surplus'', ''ifrs-full:RetainedEarnings''),
      (''total equity'', ''ifrs-full:Equity''),
      (''net worth'', ''ifrs-full:Equity''),
      (''net cash from operating activities'', ''ifrs-full:CashFlowsFromUsedInOperatingActivities''),
      (''net cash from investing activities'', ''ifrs-full:CashFlowsFromUsedInInvestingActivities''),
      (''net cash from financing activities'', ''ifrs-full:CashFlowsFromUsedInFinancingActivities''),
      (''csr expenditure'', ''brsr:CSRExpenditure''),
      (''total energy consumed'', ''brsr:TotalEnergyConsumed''),
      (''total water consumed'', ''brsr:TotalWaterConsumed''),
      (''ghg emissions scope 1'', ''brsr:GHGEmissionsScope1''),
      (''ghg emissions scope 2'', ''brsr:GHGEmissionsScope2''),
      (''total waste generated'', ''brsr:TotalWasteGenerated''),
      (''renewable energy'', ''brsr:RenewableEnergyConsumed'')]"

definition BRSR_PRINCIPLES :: "(nat \<times> string) list" where
  "BRSR_PRINCIPLES =
     [(1, ''Businesses should conduct and govern themselves with integrity.''),
      (2, ''Businesses should provide goods and services in a sustainable and safe manner.''),
      (3, ''Businesses should respect and promote the well-being of all employees.''),
      (4, ''Businesses should respect the interests of and be responsive to all its stakeholders.''),
      (5, ''Businesses should respect and promote human rights.''),
      (6, ''Businesses should respect and make efforts to protect and restore the environment.''),
      (7, ''Businesses, when engaging in influencing public policy, should do so responsibly.''),
      (8, ''Businesses should promote inclusive growth and equitable development.''),
      (9, ''Businesses should engage with and provide value to their consumers responsibly.'')]"

text \<open>A match regardless of case is a match of the text in lower case.\<close>

definition INR_UNIT_PATTERNS :: "(regex \<times> int) list" where
  "INR_UNIT_PATTERNS =
     [(whole (plural ''crore''), 10000000), (whole (plural ''lakh''), 100000),
      (whole (plural ''thousand''), 1000), (whole (plural ''million''), 1000000)]"

definition detect_inr_unit :: "string \<Rightarrow> int" where
  "detect_inr_unit file_bytes =
     (let snippet = str_lower (take 8192 file_bytes)
      in case find (\<lambda>(pattern, multiplier). re_search pattern snippet \<noteq> None) INR_UNIT_PATTERNS of
           Some (p, m) \<Rightarrow> m | None \<Rightarrow> 1)"

definition get_canonical_field :: "string \<Rightarrow> string option" where
  "get_canonical_field label = map_of IND_AS_LABEL_MAP (str_strip (str_lower label))"

fun text_contains :: "string \<Rightarrow> string \<Rightarrow> bool" where
  "text_contains w [] = (w = [])"
| "text_contains w (c # cs) = (starts w (c # cs) \<or> text_contains w cs)"

definition hash_or :: "(string \<Rightarrow> string) \<Rightarrow> string option \<Rightarrow> string \<Rightarrow> string" where
  "hash_or sha256 given_hash file_bytes =
     (case given_hash of None \<Rightarrow> sha256 file_bytes | Some h \<Rightarrow> if h = [] then sha256 file_bytes else h)"

definition brsr_parse :: "(string \<Rightarrow> string) \<Rightarrow> string \<Rightarrow> string option \<Rightarrow> string \<Rightarrow> string \<Rightarrow> parse_result" where
  "brsr_parse sha256 supplement given_hash rs file_bytes =
     blank_parse_result\<lparr>pr_source_file_hash := Some (hash_or sha256 given_hash file_bytes),
       pr_parser_name := parser_name IndiaBRSRParser,
       pr_reporting_framework := (if text_contains ''BRSR'' (str_upper rs) then ''SEBI_BRSR'' else ''IND_AS''),
       pr_metadata := [(''detected_unit_multiplier'', MetaInt (detect_inr_unit file_bytes)), (''reporting_standard'', MetaText rs),
         (''country'', MetaText ''IN''), (''currency'', MetaText ''INR''), (''system_prompt_supplement'', MetaText supplement),
         (''canonical_field_map'', MetaTable IND_AS_LABEL_MAP), (''brsr_principles'', MetaPrinciples BRSR_PRINCIPLES),
         (''note'', MetaText ''IndiaBRSRParser detected context.'')],
       pr_warnings := [''Full AI extraction is required for PDF/HTML BRSR documents.'']\<rparr>"

subsection \<open>SEC filings\<close>

definition US_GAAP_LABEL_MAP :: "(string \<times> string) list" where
  "US_GAAP_LABEL_MAP =
     [(''total revenue'', ''us-gaap:Revenues''),
      (''net revenue'', ''us-gaap:Revenues''),
      (''revenue'', ''us-gaap:Revenues''),
      (''net sales'', ''us-gaap:Revenues''),
      (''cost of revenue'', ''us-gaap:CostOfRevenue''),
      (''cost of goods sold'', ''us-gaap:CostOfRevenue''),
      (''cogs'', ''us-gaap:CostOfRevenue''),
      (''gross profit'', ''us-gaap:GrossProfit''),
      (''operating income'', ''us-gaap:OperatingIncomeLoss''),
      (''ebit'', ''us-gaap:OperatingIncomeLoss''),
      (''net income'', ''us-gaap:NetIncomeLoss''),
      (''net profit'', ''us-gaap:NetIncomeLoss''),
      (''total assets'', ''us-gaap:Assets''),
      (''total liabilities'', ''us-gaap:Liabilities''),
      (''stockholders equity'', ''us-gaap:StockholdersEquity''),
      (''shareholders equity'', ''us-gaap:StockholdersEquity''),
      (''cash and cash equivalents'', ''us-gaap:CashAndCashEquivalentsAtCarryingValue''),
      (''operating cash flow'', ''us-gaap:NetCashProvidedByUsedInOperatingActivities''),
      (''investing cash flow'', ''us-gaap:NetCashProvidedByUsedInInvestingActivities''),
      (''financing cash flow'', ''us-gaap:NetCashProvidedByUsedInFinancingActivities''),
      (''basic eps'', ''us-gaap:EarningsPerShareBasic''),
      (''diluted eps'', ''us-gaap:EarningsPerShareDiluted''),
      (''earnings per share'', ''us-gaap:EarningsPerShareBasic''),
      (''research and development'', ''us-gaap:ResearchAndDevelopmentExpense''),
      (''r&d'', ''us-gaap:ResearchAndDevelopmentExpense''),
      (''selling general and administrative'', ''us-gaap:SellingGeneralAndAdministrativeExpense''),
      (''sg&a'', ''us-gaap:SellingGeneralAndAdministrativeExpense''),
      (''interest expense'', ''us-gaap:InterestExpense''),
      (''income tax expense'', ''us-gaap:IncomeTaxExpense''),
      (''depreciation and amortization'', ''us-gaap:DepreciationDepletionAndAmortization''),
      (''total current assets'', ''us-gaap:AssetsCurrent''),
      (''total current liabilities'', ''us-gaap:LiabilitiesCurrent''),
      (''long-term debt'', ''us-gaap:LongTermDebt''),
      (''inventory'', ''us-gaap:InventoryNet''),
      (''accounts receivable'', ''us-gaap:AccountsReceivableNetCurrent'')]"

definition XBRL_MARKERS :: "string list" where
  "XBRL_MARKERS = [''xmlns:xbrl'', ''xmlns:ix'', ''ixbrl'', ''xbrl:context'', ''<xbrli:'']"

definition is_xbrl_content :: "string \<Rightarrow> bool" where
  "is_xbrl_content data = (let t = str_lower (take 4096 data) in list_ex (\<lambda>marker. text_contains marker t) XBRL_MARKERS)"

text \<open>The names that \<^verbatim>\<open>services.ingestion.parsers.xbrl_parser\<close> defines: there is no class \<open>XBRLParser\<close> among them.\<close>

definition xbrl_parser_names :: "string list" where
  "xbrl_parser_names = [''log'', ''_NS_XBRLI'', ''_NS_IXBRL'', ''_TAG_CONTEXT'', ''_TAG_INSTANT'', ''_TAG_START'', ''_TAG_END'',
     ''_TAG_IX_NF'', ''_TAG_IX_NN'', ''_SCALE_MAP'', ''_PREFIX_TO_STANDARD'', ''_TAXONOMY'', ''ContextInfo'', ''XBRLFact'',
     ''ParsedLineItem'', ''_classify_reporting_standard'', ''_PAREN_RE'', ''_NUM_CLEAN_RE'', ''_parse_numeric'', ''_infer_fiscal_period'',
     ''_month_to_quarter'', ''_parse_date'', ''_collect_context_map'', ''stream_xbrl_facts'', ''parse_xbrl_document'', ''_normalise_currency'']"

text \<open>
  \<open>_parse_xbrl\<close>: every exception becomes an error of the result.  \<open>delivered\<close> stands for the items the
  class would deliver if it existed.
\<close>

definition parse_xbrl :: "(sync_error \<Rightarrow> string) \<Rightarrow> base_line_item list \<Rightarrow> string \<Rightarrow> parse_result" where
  "parse_xbrl describe delivered file_hash =
     (let base = blank_parse_result\<lparr>pr_source_file_hash := Some file_hash, pr_parser_name := parser_name SEC10KParser,
                 pr_reporting_framework := ''SEC_10K''\<rparr>
      in case import_names xbrl_parser_names [''XBRLParser''] of
           Inl e \<Rightarrow> base\<lparr>pr_errors := [''XBRLParser failed: '' @ describe e]\<rparr>
         | Inr _ \<Rightarrow> base\<lparr>pr_line_items := delivered,
             pr_metadata := [(''xbrl_item_count'', MetaInt (int (length delivered))), (''source'', MetaText ''xbrl_parser'')]\<rparr>)"

text \<open>\<open>_parse_via_ai\<close>: a temporary file is written, nothing is done with it, and it is removed on the way out.\<close>

definition TMP_DIR :: path where "TMP_DIR = [''tmp'', ''fdh-parser-tmp'']"

definition parse_via_ai :: "string \<Rightarrow> string \<Rightarrow> string \<Rightarrow> file_system \<Rightarrow> parse_result \<times> file_system" where
  "parse_via_ai tmp_key file_hash file_bytes fs =
     (let tmp_path = TMP_DIR @ [tmp_key];
          written = fs\<lparr>files := (files fs)(tmp_path \<mapsto> file_bytes)\<rparr>
      in (blank_parse_result\<lparr>pr_source_file_hash := Some file_hash, pr_parser_name := parser_name SEC10KParser,
            pr_reporting_framework := ''SEC_10K'',
            pr_warnings := [''AI extraction requires a database session.''],
            pr_metadata := [(''tmp_key'', MetaText tmp_key), (''file_size_bytes'', MetaInt (int (length file_bytes)))]\<rparr>,
          written\<lparr>files := (files written)(tmp_path := None)\<rparr>))"

record parser_env =
  pe_sha256 :: "string \<Rightarrow> string"
  pe_supplement :: string
  pe_describe :: "sync_error \<Rightarrow> string"
  pe_delivered :: "base_line_item list"
  pe_tmp_key :: string

definition sec_parse :: "parser_env \<Rightarrow> string option \<Rightarrow> string \<Rightarrow> file_system \<Rightarrow> parse_result \<times> file_system" where
  "sec_parse E given_hash file_bytes fs =
     (let file_hash = hash_or (pe_sha256 E) given_hash file_bytes
      in if is_xbrl_content file_bytes then (parse_xbrl (pe_describe E) (pe_delivered E) file_hash, fs)
         else parse_via_ai (pe_tmp_key E) file_hash file_bytes fs)"

fun run_parser :: "parser \<Rightarrow> parser_env \<Rightarrow> string option \<Rightarrow> string \<Rightarrow> string \<Rightarrow> file_system \<Rightarrow> parse_result \<times> file_system" where
  "run_parser IndiaBRSRParser E given_hash rs file_bytes fs = (brsr_parse (pe_sha256 E) (pe_supplement E) given_hash rs file_bytes, fs)"
| "run_parser SEC10KParser E given_hash rs file_bytes fs = sec_parse E given_hash file_bytes fs"

subsection \<open>The factory\<close>

definition REGISTRY :: "parser list" where "REGISTRY = [IndiaBRSRParser, SEC10KParser]"

definition value_or :: "string \<Rightarrow> string \<Rightarrow> string" where
  "value_or d v = (if v = [] then d else v)"

definition get_parser :: "string \<Rightarrow> string \<Rightarrow> string \<Rightarrow> parser" where
  "get_parser dt cc rs =
     (let dt_norm = str_strip (str_lower (value_or ''pdf'' dt)); cc_norm = str_strip (str_upper (value_or ''US'' cc));
          rs_norm = str_strip (str_upper (value_or ''US_GAAP'' rs))
      in case find (\<lambda>p. can_handle p dt_norm cc_norm rs_norm) REGISTRY of Some p \<Rightarrow> p | None \<Rightarrow> SEC10KParser)"

definition list_parsers :: "(string \<times> string list) list" where
  "list_parsers = map (\<lambda>p. (parser_name p, supported_frameworks p)) REGISTRY"

definition get_parser_for_job :: "job_attributes \<Rightarrow> financial_job \<Rightarrow> parser" where
  "get_parser_for_job attrs j =
     get_parser (text_or attrs j ''document_type'' ''pdf'') (text_or attrs j ''country_code'' ''US'')
       (text_or attrs j ''reporting_standard'' ''US_GAAP'')"

subsection \<open>Selection\<close>

text \<open>The choice depends on country and standard alone: everything that is not Indian goes to the SEC parser.\<close>

lemma upper_stripped: "str_upper (str_strip (str_upper v)) = str_strip (str_upper v)"
  by (simp add: str_strip_upper)

lemma registry_choice: "(case find h REGISTRY of Some p \<Rightarrow> p | None \<Rightarrow> SEC10KParser) = IndiaBRSRParser \<longleftrightarrow> h IndiaBRSRParser"
  by (simp add: REGISTRY_def)

lemma get_parser_iff:
  "get_parser dt cc rs = IndiaBRSRParser \<longleftrightarrow>
     (let s = str_strip (str_upper (value_or ''US_GAAP'' rs)); c = str_strip (str_upper (value_or ''US'' cc))
      in s \<in> {''IND_AS'', ''SEBI_BRSR'', ''MCA_AOC''} \<or> c = ''IN'' \<and> s = ''IFRS'')"
  unfolding get_parser_def Let_def registry_choice can_handle.simps brsr_can_handle_def upper_stripped by (rule if_bool_eq_disj[THEN trans]) blast

text \<open>A stored job has none of the attributes the factory asks for.\<close>

lemma job_gets_sec_parser: "get_parser_for_job orm_job_attributes j = SEC10KParser"
proof -
  have "text_or orm_job_attributes j n d = d" if "n \<in> {''document_type'', ''country_code'', ''reporting_standard''}" for n d
  proof -
    have "map_of (orm_job_attributes j) n = None"
      using that by (elim insertE emptyE) (simp_all add: orm_job_attributes_def)
    then show ?thesis by (simp add: text_or_def)
  qed
  then have "get_parser_for_job orm_job_attributes j = get_parser ''pdf'' ''US'' ''US_GAAP''" by (simp add: get_parser_for_job_def)
  moreover have "get_parser ''pdf'' ''US'' ''US_GAAP'' = SEC10KParser" by code_simp
  ultimately show ?thesis by simp
qed

subsection \<open>No parser delivers anything\<close>

text \<open>
  Whatever the document and whichever parser is chosen for it, the parse delivers no line item and leaves
  the files as they were before it; it reports an error exactly for XBRL content in the hands of the SEC parser, because
  the class it imports does not exist, and succeeds with nothing otherwise.
\<close>

theorem parsers_deliver_nothing:
  assumes "files fs (TMP_DIR @ [pe_tmp_key E]) = None"
  shows "case run_parser (get_parser dt cc rs) E given_hash rs file_bytes fs of
    (r, fs') \<Rightarrow> pr_line_items r = [] \<and> files fs' = files fs
      \<and> (pr_success r \<longleftrightarrow> get_parser dt cc rs = IndiaBRSRParser \<or> \<not> is_xbrl_content file_bytes)"
proof (cases "get_parser dt cc rs")
  case IndiaBRSRParser
  then show ?thesis by (simp add: brsr_parse_def blank_parse_result_def pr_success_def)
next
  case SEC10KParser
  have "import_names xbrl_parser_names [''XBRLParser''] = Inl (ImportError ''XBRLParser'')"
    by (simp add: xbrl_parser_names_def)
  then show ?thesis using SEC10KParser assms
    by (auto simp: sec_parse_def Let_def parse_xbrl_def parse_via_ai_def blank_parse_result_def pr_success_def)
qed

text \<open>The two detectors of units disagree: one takes the first keyword, the other the first of its list.\<close>

lemma unit_detectors_disagree:
  "extract_unit_multiplier (Some ''Rs. in Lakhs; 1 crore'') = Dec 100000 0"
  "detect_inr_unit ''Rs. in Lakhs; 1 crore'' = 10000000"
proof -
  have l: "str_lower ''Rs. in Lakhs; 1 crore'' = ''rs. in lakhs; 1 crore''" by code_simp
  show "extract_unit_multiplier (Some ''Rs. in Lakhs; 1 crore'') = Dec 100000 0"
    by (simp add: multiplier_scan l keyword_here_def ANYWHERE_def AS_WORD_def word_here_def is_word_def is_letter_def is_digit_def)
  show "detect_inr_unit ''Rs. in Lakhs; 1 crore'' = 10000000"
    by (simp add: detect_inr_unit_def l INR_UNIT_PATTERNS_def plural_def re_search_def run_rules is_word_def is_letter_def is_digit_def del: runs.simps(4))
qed

definition sample_parser_env :: parser_env where
  "sample_parser_env = \<lparr>pe_sha256 = (\<lambda>s. s), pe_supplement = [], pe_describe = (\<lambda>_. ''cannot import name''), pe_delivered = [], pe_tmp_key = ''k.bin''\<rparr>"

lemma parsers_deliver_nothing_witness:
  "pr_line_items (fst (run_parser (get_parser ''pdf'' ''IN'' ''IFRS'') sample_parser_env None ''IFRS'' ''report'' \<lparr>files = Map.empty, metas = Map.empty\<rparr>)) = []"
  using parsers_deliver_nothing[where fs = "\<lparr>files = Map.empty, metas = Map.empty\<rparr>" and E = sample_parser_env and dt = "''pdf''"
      and cc = "''IN''" and rs = "''IFRS''" and given_hash = None and file_bytes = "''report''"]
  by (auto split: prod.splits)

end
