(* ===== verification/Spec2Isabelle.thy ===== *)
theory Spec2Isabelle
  imports ValidationEngine BulkProcessor LineItemWriter RateLimiter SlidingWindow
    IngestionLock Acquisition Auth Invitations Companies Jobs ExtractionTask IngestionTask Aggregation
    DocumentFetcher AIExtraction Analytics FXTask
    CompanyResolver SourceRegistry ExportTask UnitNormaliser PeriodNormaliser
    Filings AcquisitionApi DocumentParsers
begin

text \<open>
  A verification development of the Financial Data Hub, a system that acquires company filings,
  extracts and validates their figures, translates currencies and presents the result.  Paths are
  relative to \<^verbatim>\<open>src/\<close>.

  \<^bold>\<open>The program and how its parts meet.\<close>  An acquisition job, started through the API, finds a company and asks the SEC
  for its filings, over HTTP under a rate limit and a circuit breaker per source, registers each new
  one and stores its document.  From the store an ingestion task, alone on its company and year thanks to a Redis
  lock, parses XBRL into line items; an extraction job does the same for uploaded documents with a language model.
  The validation engine checks line items and scores them; the writer persists them as point-in-time
  versions and freezes the job of a blocked report.  The bulk processor, run by the translation task, translates stored items
  to dollars with rates of the FX translator, which another task imports from the European Central Bank, and freezes the job when a
  rate is missing; aggregation views and trends read the dollars back, and a workbook exports them.  Around all this the HTTP API keeps workspaces apart: middleware for tokens and rate
  limits, handlers for accounts, invitations, companies, sources, filings and jobs.  The parts share the database rows
  (\<open>financial_job\<close>, \<open>financial_line_item\<close>, \<open>filing\<close>, the account tables) and Redis.

  \<^bold>\<open>Theories and the code they model.\<close>
  \<^item> \<^verbatim>\<open>Prelude\<close>: errors as sums, loops that may raise (\<open>rmap\<close>), strings, updates of rows, one-row queries.
  \<^item> \<^verbatim>\<open>PyDecimal\<close>, \<^verbatim>\<open>PyDate\<close>, \<^verbatim>\<open>PyIso\<close>, \<^verbatim>\<open>PyParse\<close>, \<^verbatim>\<open>PyRegex\<close>: what the code uses of Python itself: \<open>decimal\<close> (28 digits,
    half-even; error bounds of each operation), dates as ordinals (a date gives back its year and month) and their ISO form, \<open>int\<close>, \<open>Decimal\<close>, \<open>split\<close>
    and printing of integers, and \<open>re\<close> as a backtracking matcher.
  \<^item> \<^verbatim>\<open>Models\<close>, \<^verbatim>\<open>LineItem\<close>: rows of \<^verbatim>\<open>apps/api/models/__init__.py\<close> that several parts share, and \<open>ParsedLineItem\<close>.
  \<^item> \<^verbatim>\<open>EdgarHttp\<close>, \<^verbatim>\<open>EdgarSource\<close>: \<^verbatim>\<open>services/acquisition/source_registry/sources/sec_edgar.py\<close>, the request loop and the source over it;
    \<^verbatim>\<open>RateLimiter\<close>, \<^verbatim>\<open>SourceRegistry\<close>: \<^verbatim>\<open>rate_limiter.py\<close> and \<^verbatim>\<open>registry.py\<close> beside it, with the schemas, repository and router of sources;
    \<^verbatim>\<open>CompanyResolver\<close>: \<^verbatim>\<open>services/acquisition/company_resolver/\<close>; \<^verbatim>\<open>DocumentFetcher\<close>: \<^verbatim>\<open>services/acquisition/document_fetcher/fetcher.py\<close>.
  \<^item> \<^verbatim>\<open>Acquisition\<close>: \<^verbatim>\<open>services/acquisition/jobs/service.py\<close> with its repositories; \<^verbatim>\<open>AcquisitionApi\<close>: \<^verbatim>\<open>apps/api/routers/acquisition.py\<close>
    and \<^verbatim>\<open>admin.py\<close>; \<^verbatim>\<open>Filings\<close>: schemas, repository, service and router of filings.
  \<^item> \<^verbatim>\<open>XBRLParser\<close>: \<^verbatim>\<open>services/ingestion/parsers/xbrl_parser.py\<close>; \<^verbatim>\<open>LocalStorage\<close>: \<^verbatim>\<open>services/acquisition/storage/backend.py\<close>;
    \<^verbatim>\<open>IngestionLock\<close>: \<^verbatim>\<open>services/acquisition/jobs/redis_lock.py\<close>; \<^verbatim>\<open>IngestionTask\<close>: \<^verbatim>\<open>workers/tasks/ingestion_tasks.py\<close>,
    which composes the three; \<^verbatim>\<open>DocumentParsers\<close>: the registry of parsers in \<^verbatim>\<open>services/ingestion/parsers/\<close>.
  \<^item> \<^verbatim>\<open>AIExtraction\<close>: \<^verbatim>\<open>services/extraction/extractor.py\<close> from the text of a document to stored rows;
    \<^verbatim>\<open>ExtractionTask\<close>: \<^verbatim>\<open>workers/tasks/extraction_tasks.py\<close>; \<^verbatim>\<open>UnitNormaliser\<close>, \<^verbatim>\<open>PeriodNormaliser\<close>, \<^verbatim>\<open>CurrencyNormaliser\<close>:
    \<^verbatim>\<open>services/extraction/normaliser/\<close>.
  \<^item> \<^verbatim>\<open>ValidationEngine\<close>: \<^verbatim>\<open>services/validation/engine.py\<close>; \<^verbatim>\<open>LineItemWriter\<close>: \<^verbatim>\<open>services/ingestion/writer.py\<close>.
  \<^item> \<^verbatim>\<open>FXTranslator\<close>, \<^verbatim>\<open>BulkProcessor\<close>, \<^verbatim>\<open>Aggregation\<close>: \<^verbatim>\<open>services/currency/\<close>; \<^verbatim>\<open>FXRates\<close>: the import of rates (\<^verbatim>\<open>workers/tasks/fx_tasks.py\<close>)
    and their repository; \<^verbatim>\<open>FXTask\<close>: \<^verbatim>\<open>workers/tasks/fx_translation_task.py\<close>; \<^verbatim>\<open>Analytics\<close>: the trends and the list of line items.
  \<^item> \<^verbatim>\<open>ExcelExport\<close>, \<^verbatim>\<open>ExportSheets\<close>, \<^verbatim>\<open>ExportTask\<close>: \<^verbatim>\<open>services/export/\<close>, \<^verbatim>\<open>apps/api/routers/export.py\<close> and
    \<^verbatim>\<open>workers/tasks/export_tasks.py\<close>.
  \<^item> \<^verbatim>\<open>SlidingWindow\<close>: \<^verbatim>\<open>apps/api/middleware/rate_limit.py\<close>.
  \<^item> \<^verbatim>\<open>Accounts\<close>, \<^verbatim>\<open>Auth\<close>: the repository, \<^verbatim>\<open>apps/api/core/security.py\<close>, the routers and the middleware of authentication;
    \<^verbatim>\<open>Invitations\<close>, \<^verbatim>\<open>Tenancy\<close>, \<^verbatim>\<open>Companies\<close>, \<^verbatim>\<open>Jobs\<close>: the repositories and routers of those names.

  A definition carries the name of the function it translates (without leading underscores); a class is a
  record with a prefix on its fields; a method or handler takes the state it reads and returns it
  changed; an exception is the left value of a sum.  A handler is one function from a request and
  the state to a response and the state, its guards in the order of the code; \<open>get_db\<close> around it (commit or roll
  back) is \<open>in_request\<close>.  Where processes interleave, the model is a step relation (\<open>lock_step\<close> for
  the lock, sequences of requests for the API) or takes the other processes' effect as an argument.

  \<^bold>\<open>Parameters.\<close>  What is not in \<^verbatim>\<open>src/\<close> is an argument: cryptography and tokens, Redis commands, the XML
  library, the language model's reply, the answers of HTTP services and the decoding of their JSON, the broker and the object store,
  the database's collation and the order of unordered queries, the order in which Python enumerates a set,
  whether the database layer takes a textual statement, generated ids, the clock.  What the code relies on there is a named
  hypothesis or the assumption of a locale, discharged for a concrete instance beside it:
  \<open>kv_store\<close> (a key with a time to live), \<open>sorted_set\<close> (the sorted-set commands), \<open>documented_clear\<close> (\<open>Element.clear\<close>).
  Other locales state what one part promises another and are interpreted on the model itself:
  \<open>row_table\<close> (rows changed in place), \<open>tenant_rows\<close> (reads and writes of one workspace), \<open>blob_store\<close> (write-once files),
  \<open>rate_provider\<close> (rates of a bounded scale), \<open>balance_rule\<close> (a rule over two sides), \<open>paced_limiter\<close> (a limiter and its burst).

  \<^bold>\<open>What the lemmas show.\<close>
  \<^item> Validation: exactly which violated identities block an export, the score as a function of them, which items
    are selected, and that the interlocks never see data on the production path.
  \<^item> Currency: the spot rate is the latest closing of its window, the period average the mean of the days, a
    translated value is within stated bounds of the quotient, one missing rate leaves a whole batch
    unchanged and freezes one job; an upsert of rates is read back, but neither the import nor the translation task can
    run as written, for want of names they import; a profile agrees with a reference choice of rows; the consolidation variance is exact.
  \<^item> Acquisition: every call counts once for the breaker, one client of a limiter keeps its rate, a found company answers both its
    keys from the cache, a fetched document comes from the cache again, a job adds each discovered filing once, a source handed out was active, tables of sources and
    filings stay well formed, and no document a worker stored locally is served.
  \<^item> Ingestion and extraction: writes are append-only, keep one current version per context and are idempotent; the lock
    excludes, expires and is never left behind by an attempt; amounts and periods of facts are read as specified;
    and, because of the order in which elements are cleared, the parser never returns a line item.  What the language model
    answers is stored well typed, and with prefixed tags it changes no presented figure.  The unit of a header is that of its first keyword, a label of a period is read back, and a resolved period has dates.
  \<^item> Rate limits: the sliding window refines the log of admitted calls; the token bucket bounds every window; a tripped breaker stays shut for its hold.
  \<^item> Export: a sheet shows the last item of a concept and period, ratios may depend on the order of a set, every task settles, and, as
    the job lacks an attribute, with a failure.
  \<^item> API: refresh cookies work once, a password reset ends sessions, a role gate admits exactly the tokens it should, invitations
    cannot be revived and grant the invited role only, requests stay in their workspace (reads of figures and downloads do not), jobs follow their life cycle, pages partition a list.
  \<^item> Tasks: acquisition and extraction end in a terminal state with exact counters; a cancel
    during an extraction is lost.

  \<^bold>\<open>Bounds.\<close>  Loops are structural or have a measure.  Celery's attempts are the recursions \<open>run_task\<close>, \<open>run_ingest\<close> and \<open>sync_fx_rates_task\<close>, which
  go on while an attempt asks for it and fewer than three retries were made, hence at most four
  attempts; the last attempt never asks for another, which is proved.  \<open>deliver\<close>, the deliveries of an export, takes
  the number of deliveries as fuel; two are enough, which is proved, because the second gives up.  The matcher of regular expressions
  needs none: repetitions are over single characters.

  \<^bold>\<open>Not modelled.\<close>  PDF and OCR parsers (files without code), the S3
  backend and e-mail senders (calls into services), the formatting of cells, the unused workbook builder, the audit middleware (one inserted row per
  request), the table of field aliases, configuration, migrations and the web client.  Log lines, the wording of messages,
  JSON rendering, database failures other than unique constraints and the foreign keys and null columns named in the theories, texts outside
  ASCII and exponents of decimals beyond a million are left out throughout.
\<close>

end
